(* ===== verification/Prelude.thy ===== *)
theory Prelude
  imports Main "HOL-Library.Char_ord" "HOL-Library.List_Lexorder" "HOL-Library.Product_Lexorder"
begin

text \<open>
  What every component shares: Python text and its length, the exceptions of the control
  plane as one datatype, results as sums, tables of rows addressed by a key, and the
  generic lemmas about filtered sums over a table that the ledger proofs rest on.

  Text is represented by its UTF-8 encoding, a HOL \<open>string\<close> (a list of 8-bit
  characters). Operations of the code that look at ASCII characters only (prefix tests,
  splitting at a separator, the regular expressions) act on the bytes as they act on the
  code points; \<open>len\<close> of a Python \<open>str\<close> counts code points and is \<open>py_len\<close>.
\<close>

type_synonym str = string

named_theorems guard_simps \<open>unfolding of the guards of an operation\<close>
named_theorems table_simps \<open>reading a table after one of its updates\<close>
named_theorems tx_elims \<open>inversion of a successful operation\<close>

subsection \<open>Text\<close>

definition is_continuation_byte :: "char \<Rightarrow> bool" where
  "is_continuation_byte c \<longleftrightarrow> 128 \<le> (of_char c :: nat) \<and> (of_char c :: nat) < 192"

definition py_len :: "str \<Rightarrow> nat" where
  "py_len s = length (filter (\<lambda>c. \<not> is_continuation_byte c) s)"

definition is_digit :: "char \<Rightarrow> bool" where
  "is_digit c \<longleftrightarrow> 48 \<le> (of_char c :: nat) \<and> (of_char c :: nat) \<le> 57"

definition is_upper_alpha :: "char \<Rightarrow> bool" where
  "is_upper_alpha c \<longleftrightarrow> 65 \<le> (of_char c :: nat) \<and> (of_char c :: nat) \<le> 90"

definition is_lower_alpha :: "char \<Rightarrow> bool" where
  "is_lower_alpha c \<longleftrightarrow> 97 \<le> (of_char c :: nat) \<and> (of_char c :: nat) \<le> 122"

definition is_alpha :: "char \<Rightarrow> bool" where
  "is_alpha c \<longleftrightarrow> is_upper_alpha c \<or> is_lower_alpha c"

definition is_alnum :: "char \<Rightarrow> bool" where
  "is_alnum c \<longleftrightarrow> is_alpha c \<or> is_digit c"

text \<open>The class \<open>[A-Za-z0-9_-]\<close> of the request, nonce and key identifiers.\<close>

definition is_token_char :: "char \<Rightarrow> bool" where
  "is_token_char c \<longleftrightarrow> is_alnum c \<or> c = CHR ''_'' \<or> c = CHR ''-''"

text \<open>The code points of a text.\<close>

fun code_points :: "str \<Rightarrow> str list" where
  "code_points [] = []"
| "code_points (c # cs) = (case code_points cs of
     [] \<Rightarrow> [[c]]
   | p # ps \<Rightarrow> if p \<noteq> [] \<and> is_continuation_byte (hd p) then (c # p) # ps else [c] # p # ps)"

text \<open>\<open>p in s\<close> for texts, and \<open>s[:n]\<close>, which counts code points.\<close>

fun contains :: "str \<Rightarrow> str \<Rightarrow> bool" where
  "contains p [] = (p = [])"
| "contains p (c # cs) = (take (length p) (c # cs) = p \<or> contains p cs)"

fun py_take :: "nat \<Rightarrow> str \<Rightarrow> str" where
  "py_take n [] = []"
| "py_take n (c # cs) = (if is_continuation_byte c then c # py_take n cs
     else case n of 0 \<Rightarrow> [] | Suc m \<Rightarrow> c # py_take m cs)"

lemma py_len_take: "py_len (py_take n s) \<le> n"
  by (induction n s rule: py_take.induct) (auto simp: py_len_def split: nat.split)

text \<open>The class \<open>[0-9a-f]\<close> of a lower-case hexadecimal digest.\<close>

definition is_lower_hex :: "char \<Rightarrow> bool" where
  "is_lower_hex c \<longleftrightarrow> is_digit c \<or> (97 \<le> (of_char c :: nat) \<and> (of_char c :: nat) \<le> 102)"

definition is_hex :: "char \<Rightarrow> bool" where
  "is_hex c \<longleftrightarrow> is_lower_hex c \<or> (65 \<le> (of_char c :: nat) \<and> (of_char c :: nat) \<le> 70)"

text \<open>\<open>re.fullmatch\<close> of a pattern \<open>^[class]{lo,hi}$\<close>.\<close>

definition full_class :: "(char \<Rightarrow> bool) \<Rightarrow> nat \<Rightarrow> nat \<Rightarrow> str \<Rightarrow> bool" where
  "full_class P lo hi s \<longleftrightarrow> lo \<le> length s \<and> length s \<le> hi \<and> list_all P s"

lemma full_class_set: "full_class P lo hi s \<Longrightarrow> c \<in> set s \<Longrightarrow> P c"
  by (auto simp: full_class_def list_all_iff)

lemma full_class_nonempty: "full_class P lo hi s \<Longrightarrow> 0 < lo \<Longrightarrow> s \<noteq> []"
  by (auto simp: full_class_def)

definition nl :: char where
  "nl = CHR 0x0A"

lemmas char_class_defs =
  is_digit_def is_upper_alpha_def is_lower_alpha_def is_alpha_def is_alnum_def
  is_token_char_def is_lower_hex_def is_hex_def

lemma newline_not_token [simp]: "\<not> is_token_char nl" "\<not> is_lower_hex nl" "\<not> is_digit nl"
    "\<not> is_alpha nl" "\<not> is_alnum nl"
  by (simp_all add: char_class_defs nl_def)

text \<open>A text before a separator it does not contain is determined.\<close>

lemma append_sep_inj:
  "x \<notin> set as \<Longrightarrow> x \<notin> set bs \<Longrightarrow> as @ x # cs = bs @ x # ds \<Longrightarrow> as = bs \<and> cs = ds"
proof (induction as arbitrary: bs)
  case Nil
  then show ?case by (cases bs) auto
next
  case (Cons a as)
  then show ?case by (cases bs) auto
qed

subsection \<open>Exceptions\<close>

text \<open>
  One constructor per exception class that the modelled code raises or catches. The
  message of an exception is kept where two raises of the same class differ in it and
  nothing else; headers of an \<open>ExternalApiError\<close> are an association list.
  \<open>CancelledError\<close> and \<open>GeneratorExit\<close> are the two \<open>BaseException\<close>s that are no
  \<open>Exception\<close>; \<open>IntegrityError\<close> is the database's refusal of a flush;
  \<open>OtherException\<close> is any further \<open>Exception\<close>.
\<close>

type_synonym headers = "(str \<times> str) list"

datatype exn =
    ExternalApiError str "str option" headers
  | ExternalPayloadError str
  | CallerPolicyError str
  | QuotaAdmissionError str "str option"
  | QuotaStateError str
  | OpenWebUIUpstreamError str int bool
  | BifrostUpstreamError str int bool
  | ControlPlaneUnavailable
  | ExternalAuthFailure str
  | ExternalClientDisabled
  | KeyVersionUnavailable
  | CredentialDecryptionError
  | CanonicalizationError str
  | SdkSigningError str
  | ValueError str
  | RuntimeError str
  | AssertionError str
  | LookupError str
  | IntegrityError
  | OtherException
  | AdminCallerNotFound str
  | AdminCallerStateError str
  | AdminApiError str int
  | AdminSessionError str
  | AdminObservabilityLimitError
  | RetentionConfirmationError
  | RetentionSnapshotConflict
  | RetentionNothingToPurge
  | ImmutableAuditError
  | ZangpuTransportError str bool
  | ZangpuProtocolError
  | ZangpuAPIError int str str "str option" bool "str option"
  | TypeError
  | StopAsyncIteration
  | CancelledError
  | GeneratorExit

type_synonym 'a res = "exn + 'a"

text \<open>The subclass relation as the \<open>except\<close> clauses use it.\<close>

fun is_base_only :: "exn \<Rightarrow> bool" where
  "is_base_only CancelledError = True"
| "is_base_only GeneratorExit = True"
| "is_base_only _ = False"

fun is_value_error :: "exn \<Rightarrow> bool" where
  "is_value_error (ValueError _) = True"
| "is_value_error (CanonicalizationError _) = True"
| "is_value_error (SdkSigningError _) = True"
| "is_value_error (ExternalPayloadError _) = True"
| "is_value_error _ = False"

fun is_runtime_error :: "exn \<Rightarrow> bool" where
  "is_runtime_error (RuntimeError _) = True"
| "is_runtime_error (ExternalApiError _ _ _) = True"
| "is_runtime_error (CallerPolicyError _) = True"
| "is_runtime_error (QuotaAdmissionError _ _) = True"
| "is_runtime_error (QuotaStateError _) = True"
| "is_runtime_error (OpenWebUIUpstreamError _ _ _) = True"
| "is_runtime_error (BifrostUpstreamError _ _ _) = True"
| "is_runtime_error ControlPlaneUnavailable = True"
| "is_runtime_error (ExternalAuthFailure _) = True"
| "is_runtime_error ExternalClientDisabled = True"
| "is_runtime_error KeyVersionUnavailable = True"
| "is_runtime_error CredentialDecryptionError = True"
| "is_runtime_error (AdminCallerStateError _) = True"
| "is_runtime_error (AdminApiError _ _) = True"
| "is_runtime_error (AdminSessionError _) = True"
| "is_runtime_error AdminObservabilityLimitError = True"
| "is_runtime_error RetentionConfirmationError = True"
| "is_runtime_error RetentionSnapshotConflict = True"
| "is_runtime_error RetentionNothingToPurge = True"
| "is_runtime_error ImmutableAuditError = True"
| "is_runtime_error (ZangpuTransportError _ _) = True"
| "is_runtime_error ZangpuProtocolError = True"
| "is_runtime_error (ZangpuAPIError _ _ _ _ _ _) = True"
| "is_runtime_error _ = False"

definition is_ok :: "'a res \<Rightarrow> bool" where
  "is_ok r = (case r of Inl _ \<Rightarrow> False | Inr _ \<Rightarrow> True)"

definition bind_res :: "'a res \<Rightarrow> ('a \<Rightarrow> 'b res) \<Rightarrow> 'b res" where
  "bind_res r f = (case r of Inl e \<Rightarrow> Inl e | Inr x \<Rightarrow> f x)"

lemma bind_res_simps [simp]: "bind_res (Inl e) f = Inl e" "bind_res (Inr x) f = f x"
  by (simp_all add: bind_res_def)

lemma bind_res_Inr [tx_elims]: "bind_res r f = Inr y \<longleftrightarrow> (\<exists>x. r = Inr x \<and> f x = Inr y)"
  by (cases r) auto

lemma is_ok_simps [simp]: "is_ok (Inr x)" "\<not> is_ok (Inl e)"
  by (simp_all add: is_ok_def)

lemma if_Inl_Inr [tx_elims]: "(if b then Inl e else r) = Inr x \<longleftrightarrow> \<not> b \<and> r = Inr x"
  by auto

subsection \<open>Tables\<close>

text \<open>
  A table is the list of its rows in insertion order. A primary key selects a row
  (\<open>find_row\<close>, the first one with the key), an ORM mutation followed by a flush
  rewrites the rows with the key (\<open>update_row\<close>).
\<close>

definition find_row :: "('r \<Rightarrow> 'k) \<Rightarrow> 'k \<Rightarrow> 'r list \<Rightarrow> 'r option" where
  "find_row key k rows = find (\<lambda>r. key r = k) rows"

definition update_row :: "('r \<Rightarrow> 'k) \<Rightarrow> 'k \<Rightarrow> ('r \<Rightarrow> 'r) \<Rightarrow> 'r list \<Rightarrow> 'r list" where
  "update_row key k f rows = map (\<lambda>r. if key r = k then f r else r) rows"

lemma find_row_Some:
  "find_row key k rows = Some r \<Longrightarrow> r \<in> set rows \<and> key r = k"
  by (auto simp: find_row_def find_Some_iff)

lemma find_row_None: "find_row key k rows = None \<longleftrightarrow> (\<forall>r \<in> set rows. key r \<noteq> k)"
  by (auto simp: find_row_def find_None_iff)

lemma find_row_unique:
  assumes "distinct (map key rows)" and "r \<in> set rows" and "key r = k"
  shows "find_row key k rows = Some r"
  using assms by (induction rows) (auto simp: find_row_def)

lemma find_row_append:
  "find_row key k (xs @ ys) = (case find_row key k xs of Some r \<Rightarrow> Some r | None \<Rightarrow> find_row key k ys)"
  by (induction xs) (auto simp: find_row_def)

lemma set_update_row:
  "set (update_row key k f rows) = (\<lambda>r. if key r = k then f r else r) ` set rows"
  by (simp add: update_row_def)

lemma length_update_row [simp]: "length (update_row key k f rows) = length rows"
  by (simp add: update_row_def)

lemma map_update_row [table_simps]:
  assumes "\<And>r. key r = k \<Longrightarrow> g (f r) = g r"
  shows "map g (update_row key k f rows) = map g rows"
  using assms by (simp add: update_row_def)

lemma find_row_update [table_simps]:
  assumes "\<And>r. key (f r) = key r"
  shows "find_row key j (update_row key k f rows) =
    (if j = k then map_option f (find_row key j rows) else find_row key j rows)"
  using assms by (induction rows) (auto simp: find_row_def update_row_def)

lemma update_row_absent: "\<forall>r \<in> set rows. key r \<noteq> k \<Longrightarrow> update_row key k f rows = rows"
  by (induction rows) (auto simp: update_row_def)

text \<open>The sum of a column over the rows that satisfy a condition.\<close>

definition sum_where :: "('r \<Rightarrow> bool) \<Rightarrow> ('r \<Rightarrow> int) \<Rightarrow> 'r list \<Rightarrow> int" where
  "sum_where P g rows = sum_list (map g (filter P rows))"

definition count_where :: "('r \<Rightarrow> bool) \<Rightarrow> 'r list \<Rightarrow> int" where
  "count_where P rows = sum_where P (\<lambda>_. 1) rows"

lemma sum_where_append [simp]: "sum_where P g (xs @ ys) = sum_where P g xs + sum_where P g ys"
  by (simp add: sum_where_def)

lemma sum_where_single [simp]: "sum_where P g [x] = (if P x then g x else 0)"
  by (simp add: sum_where_def)

lemma sum_where_Nil [simp]: "sum_where P g [] = 0"
  by (simp add: sum_where_def)

lemma sum_where_Cons: "sum_where P g (x # xs) = (if P x then g x else 0) + sum_where P g xs"
  by (simp add: sum_where_def)

lemma sum_where_nonneg: "(\<And>r. r \<in> set rows \<Longrightarrow> P r \<Longrightarrow> 0 \<le> g r) \<Longrightarrow> 0 \<le> sum_where P g rows"
  by (induction rows) (auto simp: sum_where_Cons)

lemma sum_where_cong:
  "(\<And>r. r \<in> set rows \<Longrightarrow> P r = Q r) \<Longrightarrow> (\<And>r. r \<in> set rows \<Longrightarrow> Q r \<Longrightarrow> g r = h r) \<Longrightarrow>
    sum_where P g rows = sum_where Q h rows"
  by (induction rows) (auto simp: sum_where_Cons)

lemma sum_where_False: "(\<And>r. r \<in> set rows \<Longrightarrow> \<not> P r) \<Longrightarrow> sum_where P g rows = 0"
  by (induction rows) (auto simp: sum_where_Cons)

lemma sum_where_member_le:
  assumes "r \<in> set rows" and "P r" and "\<And>r. r \<in> set rows \<Longrightarrow> P r \<Longrightarrow> 0 \<le> g r"
  shows "g r \<le> sum_where P g rows"
  using assms
proof (induction rows)
  case Nil
  then show ?case by simp
next
  case (Cons x xs)
  have rest: "0 \<le> sum_where P g xs"
    using Cons.prems(3) by (intro sum_where_nonneg) auto
  show ?case
  proof (cases "x = r")
    case True
    with Cons.prems rest show ?thesis by (simp add: sum_where_Cons)
  next
    case False
    with Cons have "g r \<le> sum_where P g xs" by auto
    moreover have "P x \<Longrightarrow> 0 \<le> g x" using Cons.prems(3) by auto
    ultimately show ?thesis by (auto simp: sum_where_Cons)
  qed
qed

text \<open>
  One row rewritten in place: the sum moves by the difference between the new and the old
  contribution of that row.
\<close>

lemma sum_where_update:
  assumes "distinct (map key rows)" and "r \<in> set rows" and "key r = k"
  shows "sum_where P g (update_row key k f rows) =
    sum_where P g rows - (if P r then g r else 0) + (if P (f r) then g (f r) else 0)"
  using assms
proof (induction rows)
  case Nil
  then show ?case by simp
next
  case (Cons x xs)
  show ?case
  proof (cases "x = r")
    case True
    with Cons.prems have "\<forall>y \<in> set xs. key y \<noteq> k" by (auto simp: image_iff)
    then have "update_row key k f xs = xs" by (rule update_row_absent)
    with True Cons.prems show ?thesis by (simp add: update_row_def sum_where_Cons)
  next
    case False
    with Cons.prems have "r \<in> set xs" and "key x \<noteq> k" by auto
    with Cons show ?thesis by (simp add: update_row_def sum_where_Cons)
  qed
qed

lemma count_where_append [simp]: "count_where P (xs @ ys) = count_where P xs + count_where P ys"
  by (simp add: count_where_def)

lemma count_where_length: "count_where P rows = int (length (filter P rows))"
  by (induction rows) (simp_all add: count_where_def sum_where_Cons)

subsection \<open>Operations that keep an invariant\<close>

text \<open>
  The contract every stateful component of the control plane is given: its operations are
  partial functions on a state (an error leaves the state as it was, since the transaction
  is rolled back), and each of them keeps an invariant. Runs of any length keep it too.
\<close>

primrec run_steps :: "('op \<Rightarrow> 's \<Rightarrow> 'e + 's) \<Rightarrow> 'op list \<Rightarrow> 's \<Rightarrow> 's" where
  "run_steps step [] s = s"
| "run_steps step (a # as) s = run_steps step as (case step a s of Inl _ \<Rightarrow> s | Inr s' \<Rightarrow> s')"

locale invariant_ops =
  fixes step :: "'op \<Rightarrow> 's \<Rightarrow> 'e + 's"
    and inv :: "'s \<Rightarrow> bool"
  assumes step_inv: "inv s \<Longrightarrow> step a s = Inr s' \<Longrightarrow> inv s'"
begin

lemma run_inv: "inv s \<Longrightarrow> inv (run_steps step as s)"
  by (induction as arbitrary: s) (auto split: sum.splits intro: step_inv)

lemma run_stable:
  assumes "inv s" and "P s" and "\<And>a s s'. inv s \<Longrightarrow> P s \<Longrightarrow> step a s = Inr s' \<Longrightarrow> P s'"
  shows "P (run_steps step as s)"
  using assms(1,2)
  by (induction as arbitrary: s) (auto split: sum.splits intro: step_inv assms(3))

end

end
