(* ===== verification/Schema.thy ===== *)
theory Schema
  imports Prelude
begin

text \<open>
  The persistent state of the control plane: one record per ORM class of
  \<open>backend/app/models\<close> with the columns of the class, one predicate per class with the
  CHECK constraints of its table, and the database with its primary keys, unique
  constraints and foreign keys. A transaction runs on the database and is rolled back when
  it raises or when the flushed rows violate a constraint.
\<close>

subsection \<open>JSON values stored in a column\<close>

datatype pyfloat = Finite_float str | Non_finite

datatype json =
    JNull
  | JBool bool
  | JInt int
  | JFloat pyfloat
  | JStr str
  | JList "json list"
  | JObj "(str \<times> json) list"

subsection \<open>Column types\<close>

datatype client_status = Client_active | Client_disabled | Client_archived

datatype credential_status = Cred_active | Cred_revoked

datatype quota_scope = Daily | Lifetime

datatype op_status = Pending | Completed | Rejected | Abandoned

datatype sync_status = Sync_pending | Sync_active | Sync_disabled | Sync_error

datatype outbox_target = Target_bifrost | Target_openwebui

datatype outbox_action = Act_create | Act_update | Act_disable | Act_compensate

datatype outbox_status = Ob_pending | Ob_processing | Ob_completed | Ob_failed

text \<open>The scopes are ordered by their names, as \<open>ORDER BY scope\<close> does.\<close>

instantiation quota_scope :: linorder
begin

definition less_eq_quota_scope :: "quota_scope \<Rightarrow> quota_scope \<Rightarrow> bool" where
  "less_eq_quota_scope a b \<longleftrightarrow> a = Daily \<or> b = Lifetime"

definition less_quota_scope :: "quota_scope \<Rightarrow> quota_scope \<Rightarrow> bool" where
  "less_quota_scope a b \<longleftrightarrow> a = Daily \<and> b = Lifetime"

instance
proof
  fix a b c :: quota_scope
  show "(a < b) = (a \<le> b \<and> \<not> b \<le> a)"
    by (cases a; cases b) (simp_all add: less_eq_quota_scope_def less_quota_scope_def)
  show "a \<le> a" by (cases a) (simp_all add: less_eq_quota_scope_def)
  show "a \<le> b \<Longrightarrow> b \<le> c \<Longrightarrow> a \<le> c"
    by (cases a; cases b; cases c) (simp_all add: less_eq_quota_scope_def)
  show "a \<le> b \<Longrightarrow> b \<le> a \<Longrightarrow> a = b"
    by (cases a; cases b) (simp_all add: less_eq_quota_scope_def)
  show "a \<le> b \<or> b \<le> a"
    by (cases a; cases b) (simp_all add: less_eq_quota_scope_def)
qed

end

definition SIGNED_BIGINT_MAX :: int where
  "SIGNED_BIGINT_MAX = 2 ^ 63 - 1"

definition EVENT_OUTCOMES :: "str list" where
  "EVENT_OUTCOMES = [''success'', ''cancelled'', ''rejected'', ''provider_error'', ''system_error'', ''abandoned'']"

definition EVENT_STAGES :: "str list" where
  "EVENT_STAGES = [''request'', ''auth'', ''permission'', ''rate_limit'', ''quota'', ''credit'',
    ''provider'', ''response'', ''recovery'']"

definition ENDPOINT_PERMISSIONS :: "str list" where
  "ENDPOINT_PERMISSIONS = [''chat.completions'', ''models.read'', ''usage.read'', ''health.read'']"

definition opt_all :: "('a \<Rightarrow> bool) \<Rightarrow> 'a option \<Rightarrow> bool" where
  "opt_all P x = (case x of None \<Rightarrow> True | Some v \<Rightarrow> P v)"

lemma opt_all_simps [simp]: "opt_all P None" "opt_all P (Some v) = P v"
  by (simp_all add: opt_all_def)

subsection \<open>Callers, credentials and bindings\<close>

record api_client =
  ac_id :: str
  ac_name :: str
  ac_description :: "str option"
  ac_status :: client_status
  ac_allowed_endpoints :: "str list"
  ac_allowed_models :: "str list"
  ac_group_ids :: "str list"
  ac_qps_limit :: int
  ac_concurrency_limit :: int
  ac_daily_request_limit :: "int option"
  ac_daily_token_limit :: "int option"
  ac_total_request_limit :: "int option"
  ac_total_token_limit :: "int option"
  ac_max_output_tokens :: int
  ac_version :: int
  ac_created_by :: str
  ac_updated_by :: str
  ac_created_at :: int
  ac_updated_at :: int
  ac_disabled_at :: "int option"
  ac_archived_at :: "int option"

definition client_ok :: "api_client \<Rightarrow> bool" where
  "client_ok c \<longleftrightarrow>
    1 \<le> py_len (ac_name c) \<and> py_len (ac_name c) \<le> 128 \<and>
    opt_all (\<lambda>s. py_len s \<le> 1024) (ac_description c) \<and>
    0 < ac_qps_limit c \<and> 0 < ac_concurrency_limit c \<and>
    opt_all (\<lambda>n. 0 < n) (ac_daily_request_limit c) \<and>
    opt_all (\<lambda>n. 0 < n) (ac_daily_token_limit c) \<and>
    opt_all (\<lambda>n. 0 < n) (ac_total_request_limit c) \<and>
    opt_all (\<lambda>n. 0 < n) (ac_total_token_limit c) \<and>
    0 < ac_max_output_tokens c \<and> 0 < ac_version c"

record credential =
  cr_id :: str
  cr_client :: str
  cr_key_id :: str
  cr_ciphertext :: str
  cr_nonce :: str
  cr_master_key_id :: str
  cr_fingerprint :: str
  cr_status :: credential_status
  cr_expires_at :: "int option"
  cr_last_used_at :: "int option"
  cr_replaced_by :: "str option"
  cr_created_by :: str
  cr_revoked_by :: "str option"
  cr_created_at :: int
  cr_revoked_at :: "int option"

definition credential_ok :: "credential \<Rightarrow> bool" where
  "credential_ok c \<longleftrightarrow>
    8 \<le> py_len (cr_key_id c) \<and> py_len (cr_key_id c) \<le> 80 \<and>
    take 4 (cr_key_id c) = ''zpk_'' \<and>
    opt_all (\<lambda>t. 0 < t) (cr_expires_at c)"

record binding =
  bd_id :: str
  bd_client :: str
  bd_service_user_id :: "str option"
  bd_virtual_key_id :: "str option"
  bd_value_ciphertext :: "str option"
  bd_value_key_version :: "str option"
  bd_config_hash :: str
  bd_sync_status :: sync_status
  bd_last_error :: "str option"
  bd_version :: int
  bd_created_at :: int
  bd_updated_at :: int

definition binding_ok :: "binding \<Rightarrow> bool" where
  "binding_ok b \<longleftrightarrow>
    (bd_sync_status b \<notin> {Sync_active, Sync_disabled} \<or>
      (bd_service_user_id b \<noteq> None \<and> bd_virtual_key_id b \<noteq> None \<and>
       bd_value_ciphertext b \<noteq> None \<and> bd_value_key_version b \<noteq> None)) \<and>
    opt_all (\<lambda>s. py_len s \<le> 64) (bd_last_error b) \<and>
    0 < bd_version b"

subsection \<open>Quota counters, operations and terminal events\<close>

record quota_row =
  qu_id :: str
  qu_client :: str
  qu_scope :: quota_scope
  qu_period :: int
  qu_requests :: int
  qu_reserved :: int
  qu_consumed :: int
  qu_version :: int
  qu_updated_at :: int

definition quota_ok :: "quota_row \<Rightarrow> bool" where
  "quota_ok q \<longleftrightarrow>
    (qu_scope q = Daily \<and> 0 < qu_period q \<or> qu_scope q = Lifetime \<and> qu_period q = 0) \<and>
    0 \<le> qu_requests q \<and> 0 \<le> qu_reserved q \<and> 0 \<le> qu_consumed q \<and> 0 < qu_version q"

record operation =
  op_id :: str
  op_client :: str
  op_credential :: str
  op_request_id :: str
  op_fingerprint :: str
  op_endpoint :: str
  op_method :: str
  op_model :: str
  op_stream :: bool
  op_state :: op_status
  op_reserved :: int
  op_prompt :: int
  op_completion :: int
  op_total :: int
  op_usage_recorded :: bool
  op_settlement_id :: "str option"
  op_usage_operation_id :: "str option"
  op_http_status :: "int option"
  op_code :: "str option"
  op_started_at :: int
  op_completed_at :: "int option"
  op_updated_at :: int

definition operation_ok :: "operation \<Rightarrow> bool" where
  "operation_ok p \<longleftrightarrow>
    0 \<le> op_reserved p \<and> 0 \<le> op_prompt p \<and> 0 \<le> op_completion p \<and> 0 \<le> op_total p \<and>
    op_total p = op_prompt p + op_completion p \<and>
    opt_all (\<lambda>s. 100 \<le> s \<and> s \<le> 599) (op_http_status p) \<and>
    opt_all (\<lambda>t. op_started_at p \<le> t) (op_completed_at p)"

record event =
  ev_id :: str
  ev_server_request_id :: str
  ev_client_request_id :: str
  ev_operation :: "str option"
  ev_client :: "str option"
  ev_credential :: "str option"
  ev_endpoint :: str
  ev_method :: str
  ev_model :: "str option"
  ev_stream :: bool
  ev_outcome :: str
  ev_stage :: str
  ev_http_status :: int
  ev_code :: str
  ev_retryable :: bool
  ev_duration_ms :: int
  ev_overrun :: bool
  ev_prompt :: int
  ev_completion :: int
  ev_total :: int
  ev_charged :: int
  ev_qps :: int
  ev_concurrency :: int
  ev_daily_requests :: int
  ev_daily_tokens :: int
  ev_total_requests :: int
  ev_total_tokens :: int
  ev_ip_hash :: "str option"
  ev_ua_family :: "str option"
  ev_started_at :: int
  ev_completed_at :: int
  ev_created_at :: int

definition event_ok :: "event \<Rightarrow> bool" where
  "event_ok e \<longleftrightarrow>
    ev_outcome e \<in> set EVENT_OUTCOMES \<and> ev_stage e \<in> set EVENT_STAGES \<and>
    100 \<le> ev_http_status e \<and> ev_http_status e \<le> 599 \<and>
    0 \<le> ev_duration_ms e \<and> 0 \<le> ev_prompt e \<and> 0 \<le> ev_completion e \<and>
    ev_total e = ev_prompt e + ev_completion e \<and>
    0 \<le> ev_charged e \<and> 0 \<le> ev_qps e \<and> 0 \<le> ev_concurrency e \<and>
    0 \<le> ev_daily_requests e \<and> 0 \<le> ev_daily_tokens e \<and>
    0 \<le> ev_total_requests e \<and> 0 \<le> ev_total_tokens e \<and>
    ev_started_at e \<le> ev_completed_at e"

subsection \<open>Outbox and administrator audit\<close>

record outbox_item =
  ob_id :: str
  ob_aggregate_type :: str
  ob_aggregate_id :: str
  ob_target :: outbox_target
  ob_action :: outbox_action
  ob_idempotency_key :: str
  ob_payload :: json
  ob_status :: outbox_status
  ob_attempts :: int
  ob_available_at :: int
  ob_locked_at :: "int option"
  ob_completed_at :: "int option"
  ob_last_error :: "str option"
  ob_created_at :: int
  ob_updated_at :: int

definition outbox_ok :: "outbox_item \<Rightarrow> bool" where
  "outbox_ok i \<longleftrightarrow> 0 \<le> ob_attempts i \<and> ob_attempts i \<le> 1000 \<and>
    opt_all (\<lambda>s. py_len s \<le> 64) (ob_last_error i)"

record audit =
  au_id :: str
  au_actor :: str
  au_client :: "str option"
  au_target_type :: str
  au_target_id :: "str option"
  au_action :: str
  au_changed_fields :: "str list"
  au_before :: "(str \<times> json) list"
  au_after :: "(str \<times> json) list"
  au_created_at :: int

definition AUDIT_TARGET_TYPES :: "str list" where
  "AUDIT_TARGET_TYPES = [''client'', ''credential'', ''permission'', ''quota'', ''group'', ''status'',
    ''retention'', ''export'']"

definition audit_ok :: "audit \<Rightarrow> bool" where
  "audit_ok a \<longleftrightarrow>
    au_target_type a \<in> set AUDIT_TARGET_TYPES \<and>
    1 \<le> py_len (au_actor a) \<and> py_len (au_actor a) \<le> 128 \<and>
    opt_all (\<lambda>s. 1 \<le> py_len s \<and> py_len s \<le> 128) (au_target_id a) \<and>
    1 \<le> py_len (au_action a) \<and> py_len (au_action a) \<le> 64"

subsection \<open>The database\<close>

record db =
  db_clients :: "api_client list"
  db_credentials :: "credential list"
  db_bindings :: "binding list"
  db_quotas :: "quota_row list"
  db_operations :: "operation list"
  db_events :: "event list"
  db_outbox :: "outbox_item list"
  db_audits :: "audit list"

definition empty_db :: db where
  "empty_db = \<lparr>db_clients = [], db_credentials = [], db_bindings = [], db_quotas = [],
    db_operations = [], db_events = [], db_outbox = [], db_audits = []\<rparr>"

definition quota_key :: "quota_row \<Rightarrow> str \<times> quota_scope \<times> int" where
  "quota_key q = (qu_client q, qu_scope q, qu_period q)"

definition request_key :: "operation \<Rightarrow> str \<times> str" where
  "request_key p = (op_client p, op_request_id p)"

text \<open>Constraints of the caller tables and of the outbox and audit tables.\<close>

definition caller_tables_ok :: "db \<Rightarrow> bool" where
  "caller_tables_ok d \<longleftrightarrow>
    list_all client_ok (db_clients d) \<and> list_all credential_ok (db_credentials d) \<and>
    list_all binding_ok (db_bindings d) \<and>
    distinct (map ac_id (db_clients d)) \<and> distinct (map ac_name (db_clients d)) \<and>
    distinct (map cr_id (db_credentials d)) \<and> distinct (map cr_key_id (db_credentials d)) \<and>
    distinct (map bd_id (db_bindings d)) \<and> distinct (map bd_client (db_bindings d)) \<and>
    distinct (filter (\<lambda>x. x \<noteq> None) (map bd_service_user_id (db_bindings d))) \<and>
    distinct (filter (\<lambda>x. x \<noteq> None) (map bd_virtual_key_id (db_bindings d))) \<and>
    list_all (\<lambda>c. cr_client c \<in> set (map ac_id (db_clients d))) (db_credentials d) \<and>
    list_all (\<lambda>c. opt_all (\<lambda>k. k \<in> set (map cr_id (db_credentials d))) (cr_replaced_by c)) (db_credentials d) \<and>
    list_all (\<lambda>b. bd_client b \<in> set (map ac_id (db_clients d))) (db_bindings d)"

definition control_tables_ok :: "db \<Rightarrow> bool" where
  "control_tables_ok d \<longleftrightarrow>
    list_all outbox_ok (db_outbox d) \<and> list_all audit_ok (db_audits d) \<and>
    distinct (map ob_id (db_outbox d)) \<and> distinct (map ob_idempotency_key (db_outbox d)) \<and>
    distinct (map au_id (db_audits d)) \<and>
    list_all (\<lambda>a. opt_all (\<lambda>c. c \<in> set (map ac_id (db_clients d))) (au_client a)) (db_audits d)"

text \<open>Constraints of the quota, operation and event tables.\<close>

definition usage_tables_ok :: "db \<Rightarrow> bool" where
  "usage_tables_ok d \<longleftrightarrow>
    list_all quota_ok (db_quotas d) \<and> list_all operation_ok (db_operations d) \<and>
    list_all event_ok (db_events d) \<and>
    distinct (map qu_id (db_quotas d)) \<and> distinct (map quota_key (db_quotas d)) \<and>
    distinct (map op_id (db_operations d)) \<and> distinct (map request_key (db_operations d)) \<and>
    distinct (map ev_id (db_events d)) \<and> distinct (map ev_server_request_id (db_events d)) \<and>
    distinct (filter (\<lambda>x. x \<noteq> None) (map ev_operation (db_events d))) \<and>
    list_all (\<lambda>q. qu_client q \<in> set (map ac_id (db_clients d))) (db_quotas d) \<and>
    list_all (\<lambda>p. op_client p \<in> set (map ac_id (db_clients d)) \<and>
      op_credential p \<in> set (map cr_id (db_credentials d))) (db_operations d) \<and>
    list_all (\<lambda>e. opt_all (\<lambda>p. p \<in> set (map op_id (db_operations d))) (ev_operation e) \<and>
      opt_all (\<lambda>c. c \<in> set (map ac_id (db_clients d))) (ev_client e) \<and>
      opt_all (\<lambda>c. c \<in> set (map cr_id (db_credentials d))) (ev_credential e)) (db_events d)"

definition db_ok :: "db \<Rightarrow> bool" where
  "db_ok d \<longleftrightarrow> caller_tables_ok d \<and> control_tables_ok d \<and> usage_tables_ok d"

lemma empty_db_ok: "db_ok empty_db"
  by (simp add: db_ok_def caller_tables_ok_def control_tables_ok_def usage_tables_ok_def empty_db_def)

subsection \<open>Transactions\<close>

text \<open>
  \<open>with self._sessions() as session, session.begin(): body\<close>. The body returns its
  value and the flushed database, or raises. A raise rolls back, a constraint violation is
  an \<open>IntegrityError\<close> and rolls back, otherwise the transaction commits. The row locks
  (\<open>FOR UPDATE\<close>) the body takes serialise transactions on the same rows, so a
  transaction is one atomic step.
\<close>

type_synonym 'a tx = "db \<Rightarrow> exn + ('a \<times> db)"

definition commit_tx :: "'a tx \<Rightarrow> 'a tx" where
  "commit_tx body d = (case body d of
     Inl e \<Rightarrow> Inl e
   | Inr (x, d') \<Rightarrow> if db_ok d' then Inr (x, d') else Inl IntegrityError)"

definition in_tx :: "'a tx \<Rightarrow> db \<Rightarrow> 'a res \<times> db" where
  "in_tx body d = (case commit_tx body d of Inl e \<Rightarrow> (Inl e, d) | Inr (x, d') \<Rightarrow> (Inr x, d'))"

lemma commit_tx_Inr [tx_elims]:
  "commit_tx body d = Inr (x, d') \<longleftrightarrow> body d = Inr (x, d') \<and> db_ok d'"
  by (auto simp: commit_tx_def split: sum.splits if_splits)

lemma in_tx_Inr: "in_tx body d = (Inr x, d') \<longleftrightarrow> body d = Inr (x, d') \<and> db_ok d'"
  by (auto simp: in_tx_def commit_tx_def split: sum.splits if_splits)

lemma in_tx_Inl: "in_tx body d = (Inl e, d') \<Longrightarrow> d' = d"
  by (auto simp: in_tx_def split: sum.splits)

lemma in_tx_db_ok: "db_ok d \<Longrightarrow> db_ok (snd (in_tx body d))"
  by (auto simp: in_tx_def commit_tx_def split: sum.splits)

subsection \<open>String sets of the caller columns\<close>

text \<open>\<open>validate_string_set\<close>; the value is a list of strings here, sorted on return.\<close>

definition validate_string_set :: "str list option \<Rightarrow> int \<Rightarrow> int \<Rightarrow> str list \<Rightarrow> str list res" where
  "validate_string_set allowed max_items max_item_length values =
    (if int (length values) > max_items then Inl (ValueError ''bounded list'')
     else if list_ex (\<lambda>v. v = [] \<or> int (py_len v) > max_item_length) values
       then Inl (ValueError ''invalid value'')
     else if \<not> distinct values then Inl (ValueError ''duplicates'')
     else if \<not> opt_all (\<lambda>a. list_all (\<lambda>v. v \<in> set a) values) allowed
       then Inl (ValueError ''unsupported value'')
     else Inr (sort values))"

lemma validate_string_set_Inr:
  assumes "validate_string_set allowed n m vs = Inr ws"
  shows "set ws = set vs" and "distinct ws" and "sorted ws" and "length ws = length vs"
    and "int (length ws) \<le> n"
  using assms by (auto simp: validate_string_set_def split: if_splits)

lemma validate_string_set_idem:
  assumes "validate_string_set allowed n m vs = Inr ws"
  shows "validate_string_set allowed n m ws = Inr ws"
proof -
  have "ws = sort vs" using assms by (auto simp: validate_string_set_def split: if_splits)
  moreover have "opt_all (\<lambda>a. list_all (\<lambda>v. v \<in> set a) vs) allowed"
    using assms by (auto simp: validate_string_set_def split: if_splits)
  ultimately show ?thesis
    using assms by (auto simp: validate_string_set_def list_ex_iff list_all_iff sorted_sort_id split: if_splits)
qed

end
