(* ===== verification/Ledger.thy ===== *)
theory Ledger
  imports Quota
begin

text \<open>
  The ledger invariant of the quota component and its preservation. \<open>ledger_ok\<close> is the
  abstract specification: a counter row is determined by the operations it stands for
  (\<open>row_matches\<close>), every operation has its two rows, a terminal event is the evidence of a
  terminal operation, and a pending operation has none of the terminal columns set.
\<close>

definition day_of :: "int \<Rightarrow> int" where
  "day_of t = t - t mod 86400"

definition counts_for :: "quota_row \<Rightarrow> operation \<Rightarrow> bool" where
  "counts_for q p \<longleftrightarrow> op_client p = qu_client q \<and>
    (qu_scope q = Lifetime \<or> day_of (op_started_at p) = qu_period q)"

definition row_matches :: "operation list \<Rightarrow> quota_row \<Rightarrow> bool" where
  "row_matches ops q \<longleftrightarrow>
    qu_requests q = count_where (counts_for q) ops \<and>
    qu_reserved q = sum_where (\<lambda>p. counts_for q p \<and> op_state p = Pending) op_reserved ops \<and>
    qu_consumed q = sum_where (\<lambda>p. counts_for q p \<and> op_state p \<noteq> Pending) op_total ops"

definition has_rows :: "quota_row list \<Rightarrow> operation \<Rightarrow> bool" where
  "has_rows rows p \<longleftrightarrow>
    (op_client p, Daily, day_of (op_started_at p)) \<in> set (map quota_key rows) \<and>
    (op_client p, Lifetime, 0) \<in> set (map quota_key rows)"

definition stage_ok :: "operation \<Rightarrow> bool" where
  "stage_ok p \<longleftrightarrow> 0 \<le> op_started_at p \<and>
    (op_state p = Pending \<longleftrightarrow> op_http_status p = None) \<and>
    (op_state p = Pending \<longleftrightarrow> op_code p = None) \<and>
    (op_state p = Pending \<longleftrightarrow> op_completed_at p = None) \<and>
    (\<not> op_usage_recorded p \<longrightarrow> op_total p = 0)"

definition evidences :: "operation \<Rightarrow> event \<Rightarrow> bool" where
  "evidences p e \<longleftrightarrow> op_state p \<noteq> Pending \<and>
    ev_client e = Some (op_client p) \<and> ev_credential e = Some (op_credential p) \<and>
    ev_client_request_id e = op_request_id p \<and> ev_model e = Some (op_model p) \<and>
    ev_stream e = op_stream p \<and>
    Some (ev_http_status e) = op_http_status p \<and> Some (ev_code e) = op_code p \<and>
    ev_prompt e = op_prompt p \<and> ev_completion e = op_completion p \<and> ev_total e = op_total p \<and>
    ev_overrun e = (op_total p > op_reserved p) \<and>
    ev_started_at e = op_started_at p \<and> Some (ev_completed_at e) = op_completed_at p"

definition event_matches :: "operation list \<Rightarrow> event \<Rightarrow> bool" where
  "event_matches ops e \<longleftrightarrow>
    opt_all (\<lambda>k. case find_row op_id k ops of None \<Rightarrow> False | Some p \<Rightarrow> evidences p e) (ev_operation e)"

definition ledger_ok :: "db \<Rightarrow> bool" where
  "ledger_ok d \<longleftrightarrow>
    list_all (row_matches (db_operations d)) (db_quotas d) \<and>
    list_all (has_rows (db_quotas d)) (db_operations d) \<and>
    list_all stage_ok (db_operations d) \<and>
    list_all (event_matches (db_operations d)) (db_events d)"

text \<open>Every terminal operation still has its event (no retention purge has run).\<close>

definition evidence_complete :: "db \<Rightarrow> bool" where
  "evidence_complete d \<longleftrightarrow>
    list_all (\<lambda>p. op_state p = Pending \<or> Some (op_id p) \<in> set (map ev_operation (db_events d)))
      (db_operations d)"

lemma ledger_ok_empty: "ledger_ok (d\<lparr>db_quotas := [], db_operations := [], db_events := []\<rparr>)"
  by (simp add: ledger_ok_def)

subsection \<open>Rows by key and by identifier\<close>

lemma usage_tables_distinct:
  assumes "usage_tables_ok d"
  shows "distinct (map qu_id (db_quotas d))" "distinct (map quota_key (db_quotas d))"
    "distinct (map op_id (db_operations d))" "distinct (map request_key (db_operations d))"
  using assms by (simp_all add: usage_tables_ok_def)

lemma db_okD [dest]: "db_ok d \<Longrightarrow> usage_tables_ok d"
  by (simp add: db_ok_def)

lemma distinct_map_eq:
  "distinct (map f xs) \<Longrightarrow> x \<in> set xs \<Longrightarrow> y \<in> set xs \<Longrightarrow> f x = f y \<Longrightarrow> x = y"
  by (auto simp: distinct_map inj_on_def)

lemma quota_ok_mem: "usage_tables_ok d \<Longrightarrow> q \<in> set (db_quotas d) \<Longrightarrow> quota_ok q"
  by (auto simp: usage_tables_ok_def list_all_iff)

lemma operation_ok_mem: "usage_tables_ok d \<Longrightarrow> p \<in> set (db_operations d) \<Longrightarrow> operation_ok p"
  by (auto simp: usage_tables_ok_def list_all_iff)

lemma map_of_rev_scope:
  "by_scope rows s = Some q \<Longrightarrow> q \<in> set rows \<and> qu_scope q = s"
  by (auto simp: by_scope_def dest!: map_of_SomeD)

lemma select_quota_rows_mem:
  "q \<in> set (select_quota_rows client day d) \<longleftrightarrow> q \<in> set (db_quotas d) \<and>
    quota_key q \<in> {(client, Daily, day), (client, Lifetime, 0)}"
  by (auto simp: select_quota_rows_def quota_key_def)

text \<open>What a successful lock hands out: the two counter rows of the caller.\<close>

lemma locked_quota_rows_Inr:
  assumes "locked_quota_rows client started create d = Inr ((daily, lifetime), d')"
  shows "0 \<le> started" and "daily \<in> set (db_quotas d')" and "lifetime \<in> set (db_quotas d')"
    and "quota_key daily = (client, Daily, day_of started)"
    and "quota_key lifetime = (client, Lifetime, 0)"
proof -
  have st: "0 \<le> started"
    using assms by (auto simp: locked_quota_rows_def utc_day_start_def split: if_splits)
  define e where "e = (case create of None \<Rightarrow> d
    | Some (u1, u2) \<Rightarrow> insert_quota_row_if_missing u2 client Lifetime 0 started
        (insert_quota_row_if_missing u1 client Daily (day_of started) started d))"
  have "by_scope (select_quota_rows client (day_of started) e) Daily = Some daily \<and>
      by_scope (select_quota_rows client (day_of started) e) Lifetime = Some lifetime \<and> d' = e"
    using assms st
    by (auto simp: locked_quota_rows_def utc_day_start_def Let_def e_def day_of_def
        split: option.splits prod.splits)
  then have d: "daily \<in> set (select_quota_rows client (day_of started) d')" "qu_scope daily = Daily"
    and l: "lifetime \<in> set (select_quota_rows client (day_of started) d')" "qu_scope lifetime = Lifetime"
    by (auto dest: map_of_rev_scope)
  show "0 \<le> started" by (rule st)
  show "daily \<in> set (db_quotas d')" "quota_key daily = (client, Daily, day_of started)"
    using d by (auto simp: select_quota_rows_mem quota_key_def)
  show "lifetime \<in> set (db_quotas d')" "quota_key lifetime = (client, Lifetime, 0)"
    using l by (auto simp: select_quota_rows_mem quota_key_def)
qed

lemma locked_quota_rows_db:
  assumes "locked_quota_rows client started create d = Inr (rows, d')"
  shows "d' = (case create of None \<Rightarrow> d
    | Some (u1, u2) \<Rightarrow> insert_quota_row_if_missing u2 client Lifetime 0 started
        (insert_quota_row_if_missing u1 client Daily (day_of started) started d))"
  using assms by (auto simp: locked_quota_rows_def utc_day_start_def Let_def day_of_def
      split: if_splits option.splits)

lemma by_scope_found:
  assumes "q \<in> set rows" and "qu_scope q = s"
  shows "\<exists>q'. by_scope rows s = Some q'"
proof -
  have "s \<in> fst ` set (rev (map (\<lambda>q. (qu_scope q, q)) rows))"
    using assms by (auto simp: image_iff)
  then have "by_scope rows s \<noteq> None"
    unfolding by_scope_def by (simp only: map_of_eq_None_iff not_not)
  then show ?thesis by simp
qed

text \<open>Under the unique constraint the lock succeeds exactly when both rows exist.\<close>

lemma locked_quota_rows_found:
  assumes "0 \<le> started" and "distinct (map quota_key (db_quotas d))"
    and "daily \<in> set (db_quotas d)" and "lifetime \<in> set (db_quotas d)"
    and "quota_key daily = (client, Daily, day_of started)" and "quota_key lifetime = (client, Lifetime, 0)"
  shows "locked_quota_rows client started None d = Inr ((daily, lifetime), d)"
proof -
  let ?rows = "select_quota_rows client (day_of started) d"
  have mem: "daily \<in> set ?rows" "lifetime \<in> set ?rows"
    using assms by (auto simp: select_quota_rows_mem)
  have sc: "qu_scope daily = Daily" "qu_scope lifetime = Lifetime"
    using assms by (auto simp: quota_key_def)
  obtain q r where q: "by_scope ?rows Daily = Some q" and r: "by_scope ?rows Lifetime = Some r"
    using by_scope_found [OF mem(1) sc(1)] by_scope_found [OF mem(2) sc(2)] by blast
  have "q = daily"
    using map_of_rev_scope [OF q] assms
    by (intro distinct_map_eq [OF assms(2)]) (auto simp: select_quota_rows_mem quota_key_def)
  moreover have "r = lifetime"
    using map_of_rev_scope [OF r] assms
    by (intro distinct_map_eq [OF assms(2)]) (auto simp: select_quota_rows_mem quota_key_def)
  ultimately show ?thesis
    using q r assms(1) by (simp add: locked_quota_rows_def utc_day_start_def day_of_def [symmetric])
qed

text \<open>Rewriting the two locked rows by identifier is rewriting by key.\<close>

lemma update_both_rows_key:
  assumes "distinct (map qu_id rows)" and "distinct (map quota_key rows)"
    and "daily \<in> set rows" and "lifetime \<in> set rows"
    and "quota_key daily \<noteq> quota_key lifetime"
    and "\<And>q. qu_id (f q) = qu_id q"
  shows "update_both_rows f daily lifetime rows =
    map (\<lambda>q. if quota_key q \<in> {quota_key daily, quota_key lifetime} then f q else q) rows"
proof -
  have ids: "qu_id q = qu_id r \<longleftrightarrow> quota_key q = quota_key r" if "q \<in> set rows" "r \<in> set rows" for q r
    using that assms(1,2) by (metis distinct_map_eq)
  have ne: "qu_id lifetime \<noteq> qu_id daily"
    using ids [OF assms(4,3)] assms(5) by simp
  have "qu_id q = qu_id daily \<longleftrightarrow> quota_key q = quota_key daily"
    "qu_id q = qu_id lifetime \<longleftrightarrow> quota_key q = quota_key lifetime" if "q \<in> set rows" for q
    using ids that assms(3,4) by blast+
  then show ?thesis
    using ne assms(5,6) by (auto simp: update_both_rows_def update_row_def)
qed

lemma counts_for_key:
  assumes "quota_ok q"
  shows "counts_for q p \<longleftrightarrow>
    quota_key q \<in> {(op_client p, Daily, day_of (op_started_at p)), (op_client p, Lifetime, 0)}"
  using assms by (cases "qu_scope q") (auto simp: counts_for_def quota_key_def quota_ok_def)

lemma counts_for_cong:
  "qu_client q = qu_client r \<Longrightarrow> qu_scope q = qu_scope r \<Longrightarrow> qu_period q = qu_period r \<Longrightarrow>
    counts_for q = counts_for r"
  by (auto simp: counts_for_def fun_eq_iff)

subsection \<open>Reservation keeps the ledger\<close>

lemma insert_row_ledger:
  assumes "ledger_ok d" and "scope = Lifetime \<longrightarrow> period = 0"
  shows "ledger_ok (insert_quota_row_if_missing uuid client scope period now d)"
proof (cases "\<exists>q \<in> set (db_quotas d). quota_key q = (client, scope, period)")
  case True
  then show ?thesis using assms by (auto simp: insert_quota_row_if_missing_def)
next
  case False
  define q where "q = \<lparr>qu_id = uuid, qu_client = client, qu_scope = scope, qu_period = period,
         qu_requests = 0, qu_reserved = 0, qu_consumed = 0, qu_version = 1, qu_updated_at = now\<rparr>"
  have none: "\<not> counts_for q p" if "p \<in> set (db_operations d)" for p
  proof
    assume c: "counts_for q p"
    have h: "has_rows (db_quotas d) p" using that assms(1) by (auto simp: ledger_ok_def list_all_iff)
    have "(client, scope, period) \<in> set (map quota_key (db_quotas d))"
      using c h assms(2) by (cases scope) (auto simp: q_def counts_for_def has_rows_def)
    with False show False by auto
  qed
  have "row_matches (db_operations d) q"
    using none by (auto simp: row_matches_def q_def [symmetric] count_where_def sum_where_False)
      (simp_all add: q_def)
  moreover have "has_rows (db_quotas d @ [q]) p" if "p \<in> set (db_operations d)" for p
    using that assms(1) by (auto simp: ledger_ok_def list_all_iff has_rows_def)
  ultimately show ?thesis
    using assms(1) False
    by (auto simp: insert_quota_row_if_missing_def ledger_ok_def list_all_iff q_def [symmetric])
qed

lemma insert_row_fields [simp]:
  "db_operations (insert_quota_row_if_missing u c sc pe n d) = db_operations d"
  "db_events (insert_quota_row_if_missing u c sc pe n d) = db_events d"
  "db_clients (insert_quota_row_if_missing u c sc pe n d) = db_clients d"
  "db_credentials (insert_quota_row_if_missing u c sc pe n d) = db_credentials d"
  "db_bindings (insert_quota_row_if_missing u c sc pe n d) = db_bindings d"
  "db_outbox (insert_quota_row_if_missing u c sc pe n d) = db_outbox d"
  "db_audits (insert_quota_row_if_missing u c sc pe n d) = db_audits d"
  by (simp_all add: insert_quota_row_if_missing_def)

lemma locked_quota_rows_ledger:
  "locked_quota_rows client started create d = Inr (rows, d') \<Longrightarrow> ledger_ok d \<Longrightarrow> ledger_ok d'"
  by (auto dest!: locked_quota_rows_db intro!: insert_row_ledger split: option.splits)

lemma reserve_operation_Inr:
  assumes "reserve_operation rq u1 u2 d = Inr (r, d2)"
  obtains client credential daily lifetime d1 where
    "check_reserve_request rq = Inr ()" "locked_caller rq d = Inr (client, credential)"
    "check_caller client credential rq = Inr ()"
    "locked_quota_rows (rq_client rq) (rq_now rq) (Some (u1, u2)) d = Inr ((daily, lifetime), d1)"
    "check_new_request rq d1 = Inr ()"
    "check_quota_limit daily (ac_daily_request_limit client) (ac_daily_token_limit client)
      (rq_reserved rq) ''DAILY_REQUEST_QUOTA_EXCEEDED'' ''DAILY_TOKEN_QUOTA_EXCEEDED'' = Inr ()"
    "check_quota_limit lifetime (ac_total_request_limit client) (ac_total_token_limit client)
      (rq_reserved rq) ''TOTAL_REQUEST_QUOTA_EXCEEDED'' ''TOTAL_TOKEN_QUOTA_EXCEEDED'' = Inr ()"
    "d2 = d1\<lparr>db_quotas := update_both_rows (reserve_row (rq_reserved rq) (rq_now rq)) daily lifetime (db_quotas d1),
      db_operations := db_operations d1 @ [new_operation rq]\<rparr>"
    "r = \<lparr>rs_operation = rq_operation rq, rs_daily_requests = qu_requests daily + 1,
      rs_daily_tokens = qu_consumed daily + (qu_reserved daily + rq_reserved rq),
      rs_total_requests = qu_requests lifetime + 1,
      rs_total_tokens = qu_consumed lifetime + (qu_reserved lifetime + rq_reserved rq)\<rparr>"
  using assms
  by (auto simp: reserve_operation_def bind_res_Inr Let_def reserve_row_def split: prod.splits)

lemma reserve_row_key [simp]:
  "quota_key (reserve_row n t q) = quota_key q" "qu_id (reserve_row n t q) = qu_id q"
  by (simp_all add: reserve_row_def quota_key_def)

lemma settle_row_key [simp]:
  "quota_key (settle_row p t q) = quota_key q" "qu_id (settle_row p t q) = qu_id q"
  by (simp_all add: settle_row_def quota_key_def)

lemma update_both_rows_maps:
  assumes "\<And>q. g (f q) = g q"
  shows "map g (update_both_rows f a b rows) = map g rows"
  using assms by (simp add: update_both_rows_def map_update_row)

text \<open>
  The two rows of an operation are rewritten by \<open>f\<close> and the table of operations moves from
  \<open>ops\<close> to \<open>ops'\<close>; if the counters move with the sums, every row still matches.
\<close>

lemma rows_match_after:
  assumes match: "\<forall>q \<in> set rows. row_matches ops q"
    and ids: "distinct (map qu_id rows)" and keys: "distinct (map quota_key rows)"
    and d: "daily \<in> set rows" and l: "lifetime \<in> set rows"
    and dk: "quota_key daily = (client, Daily, day)" and lk: "quota_key lifetime = (client, Lifetime, 0)"
    and fid: "\<And>q. qu_id (f q) = qu_id q"
    and hit: "\<And>q. q \<in> set rows \<Longrightarrow> quota_key q \<in> {(client, Daily, day), (client, Lifetime, 0)} \<Longrightarrow>
      row_matches ops q \<Longrightarrow> row_matches ops' (f q)"
    and miss: "\<And>q. q \<in> set rows \<Longrightarrow> quota_key q \<notin> {(client, Daily, day), (client, Lifetime, 0)} \<Longrightarrow>
      row_matches ops q \<Longrightarrow> row_matches ops' q"
  shows "\<forall>q \<in> set (update_both_rows f daily lifetime rows). row_matches ops' q"
proof -
  have "quota_key daily \<noteq> quota_key lifetime" using dk lk by simp
  from update_both_rows_key [OF ids keys d l this fid] show ?thesis
    using match hit miss unfolding dk lk by auto
qed

lemma counts_for_new:
  "counts_for q (new_operation rq) \<longleftrightarrow>
    qu_client q = rq_client rq \<and> (qu_scope q = Lifetime \<or> qu_period q = day_of (rq_now rq))"
  by (auto simp: counts_for_def new_operation_def)

lemma counts_for_reserve_row [simp]: "counts_for (reserve_row n t q) = counts_for q"
  by (rule counts_for_cong) (simp_all add: reserve_row_def)

lemma counts_for_settle_row [simp]: "counts_for (settle_row p t q) = counts_for q"
  by (rule counts_for_cong) (simp_all add: settle_row_def)

lemma row_matches_reserved:
  assumes "row_matches ops q"
  shows "counts_for q (new_operation rq) \<Longrightarrow>
      row_matches (ops @ [new_operation rq]) (reserve_row (rq_reserved rq) (rq_now rq) q)"
    and "\<not> counts_for q (new_operation rq) \<Longrightarrow> row_matches (ops @ [new_operation rq]) q"
  using assms by (auto simp: row_matches_def count_where_def)
    (simp_all add: reserve_row_def new_operation_def)

lemma event_matches_append: "event_matches ops e \<Longrightarrow> event_matches (ops @ ps) e"
  by (auto simp: event_matches_def opt_all_def find_row_append split: option.splits)

lemma reserve_ledger:
  assumes led: "ledger_ok d" and res: "reserve_operation rq u1 u2 d = Inr (r, d2)"
    and ok: "usage_tables_ok d2"
  shows "ledger_ok d2"
  using res
proof (rule reserve_operation_Inr)
  fix client credential daily lifetime d1
  assume lock: "locked_quota_rows (rq_client rq) (rq_now rq) (Some (u1, u2)) d = Inr ((daily, lifetime), d1)"
    and d2: "d2 = d1\<lparr>db_quotas := update_both_rows (reserve_row (rq_reserved rq) (rq_now rq)) daily lifetime (db_quotas d1),
      db_operations := db_operations d1 @ [new_operation rq]\<rparr>"
  note L = locked_quota_rows_Inr [OF lock]
  have led1: "ledger_ok d1" using lock led by (rule locked_quota_rows_ledger)
  have keys: "map quota_key (db_quotas d2) = map quota_key (db_quotas d1)"
    and idm: "map qu_id (db_quotas d2) = map qu_id (db_quotas d1)"
    by (simp_all add: d2 update_both_rows_maps)
  have dist: "distinct (map qu_id (db_quotas d1))" "distinct (map quota_key (db_quotas d1))"
    using usage_tables_distinct [OF ok] unfolding keys idm by blast+
  have hits: "counts_for q (new_operation rq) \<longleftrightarrow>
      quota_key q \<in> {(rq_client rq, Daily, day_of (rq_now rq)), (rq_client rq, Lifetime, 0)}"
    if q: "q \<in> set (db_quotas d1)" for q
  proof -
    have "quota_key q \<in> set (map quota_key (db_quotas d2))" using q keys by force
    then obtain q2 where q2: "q2 \<in> set (db_quotas d2)" "quota_key q2 = quota_key q" by auto
    have "quota_ok q2" using ok q2(1) by (rule quota_ok_mem)
    then show ?thesis using q2(2)
      by (auto simp: counts_for_new quota_key_def quota_ok_def)
  qed
  have "\<forall>q \<in> set (db_quotas d2). row_matches (db_operations d2) q"
    unfolding d2 using led1
    by (simp add: ledger_ok_def list_all_iff)
      (rule rows_match_after [OF _ dist L(2-5)], auto simp: hits row_matches_reserved)
  moreover have "has_rows (db_quotas d2) p" if "p \<in> set (db_operations d2)" for p
  proof -
    have "(rq_client rq, Daily, day_of (rq_now rq)) \<in> set (map quota_key (db_quotas d1))"
      "(rq_client rq, Lifetime, 0) \<in> set (map quota_key (db_quotas d1))"
      using L by (force simp: image_iff)+
    then show ?thesis
      using that led1 unfolding has_rows_def keys
      by (auto simp: d2 ledger_ok_def list_all_iff has_rows_def new_operation_def)
  qed
  moreover have "stage_ok (new_operation rq)" using L(1) by (simp add: stage_ok_def new_operation_def)
  ultimately show "ledger_ok d2"
    using led1 by (auto simp: ledger_ok_def list_all_iff d2 intro: event_matches_append)
qed

lemma reserve_evidence_complete:
  assumes "evidence_complete d" and "reserve_operation rq u1 u2 d = Inr (r, d2)"
  shows "evidence_complete d2"
  using assms(2)
proof (rule reserve_operation_Inr)
  fix client credential daily lifetime d1
  assume lock: "locked_quota_rows (rq_client rq) (rq_now rq) (Some (u1, u2)) d = Inr ((daily, lifetime), d1)"
    and d2: "d2 = d1\<lparr>db_quotas := update_both_rows (reserve_row (rq_reserved rq) (rq_now rq)) daily lifetime (db_quotas d1),
      db_operations := db_operations d1 @ [new_operation rq]\<rparr>"
  have "db_operations d1 = db_operations d" "db_events d1 = db_events d"
    using locked_quota_rows_db [OF lock] by simp_all
  with assms(1) show ?thesis by (simp add: evidence_complete_def d2 new_operation_def)
qed

subsection \<open>Evidence of a pending operation keeps the ledger\<close>

text \<open>An update that leaves the columns the ledger reads of a pending operation alone.\<close>

definition keeps_pending :: "(operation \<Rightarrow> operation) \<Rightarrow> bool" where
  "keeps_pending f \<longleftrightarrow> (\<forall>p. op_id (f p) = op_id p \<and> op_client (f p) = op_client p \<and>
    op_request_id (f p) = op_request_id p \<and> op_fingerprint (f p) = op_fingerprint p \<and>
    op_started_at (f p) = op_started_at p \<and> op_state (f p) = op_state p \<and>
    op_reserved (f p) = op_reserved p \<and> (stage_ok p \<longrightarrow> stage_ok (f p)))"

lemma counts_for_same: "op_client p' = op_client p \<Longrightarrow> op_started_at p' = op_started_at p \<Longrightarrow>
    counts_for q p' = counts_for q p"
  by (simp add: counts_for_def)

lemma keeps_pendingD:
  assumes "keeps_pending f"
  shows "op_id (f p) = op_id p" "op_client (f p) = op_client p" "op_started_at (f p) = op_started_at p"
    "op_state (f p) = op_state p" "op_reserved (f p) = op_reserved p"
    "op_request_id (f p) = op_request_id p" "op_fingerprint (f p) = op_fingerprint p"
  using assms by (simp_all add: keeps_pending_def)

lemma keeps_pending_stage: "keeps_pending f \<Longrightarrow> stage_ok p \<Longrightarrow> stage_ok (f p)"
  by (simp add: keeps_pending_def)

lemma row_matches_pending_update:
  assumes "row_matches ops q" and "distinct (map op_id ops)" and "p \<in> set ops" and "op_id p = k"
    and "op_state p = Pending" and "keeps_pending f"
  shows "row_matches (update_row op_id k f ops) q"
proof -
  note K = keeps_pendingD [OF assms(6), of p]
  have c: "counts_for q (f p) = counts_for q p"
    by (rule counts_for_same) (simp_all only: K)
  show ?thesis
    using assms(1) unfolding row_matches_def count_where_def
    by (simp only: sum_where_update [OF assms(2,3,4)] c K assms(5)) simp
qed

lemma has_rows_same: "op_client p' = op_client p \<Longrightarrow> op_started_at p' = op_started_at p \<Longrightarrow>
    has_rows rows p' = has_rows rows p"
  by (simp add: has_rows_def)

lemma event_matches_other:
  assumes "event_matches ops e" and "\<And>p. op_id (f p) = op_id p"
    and "find_row op_id k ops = Some p" and "op_state p = Pending"
  shows "event_matches (update_row op_id k f ops) e"
  using assms by (auto simp: event_matches_def opt_all_def find_row_update evidences_def
      split: option.splits)

lemma find_row_mem: "find_row key k rows = Some r \<Longrightarrow> r \<in> set rows" "find_row key k rows = Some r \<Longrightarrow> key r = k"
  by (auto dest: find_row_Some)

lemma set_operation_fields [simp]:
  "db_quotas (set_operation k f d) = db_quotas d"
  "db_events (set_operation k f d) = db_events d"
  "db_operations (set_operation k f d) = update_row op_id k f (db_operations d)"
  "db_clients (set_operation k f d) = db_clients d"
  "db_credentials (set_operation k f d) = db_credentials d"
  by (simp_all add: set_operation_def)

lemma set_operation_ledger:
  assumes led: "ledger_ok d" and ok: "usage_tables_ok d"
    and p: "find_row op_id k (db_operations d) = Some p" "op_state p = Pending"
    and f: "keeps_pending f"
  shows "ledger_ok (set_operation k f d)"
proof -
  note dist = usage_tables_distinct(3) [OF ok]
  note K = keeps_pendingD [OF f]
  have rows: "row_matches (update_row op_id k f (db_operations d)) q" if "q \<in> set (db_quotas d)" for q
    using led that row_matches_pending_update [OF _ dist find_row_mem [OF p(1)] p(2) f]
    by (simp add: ledger_ok_def list_all_iff)
  have ops: "has_rows (db_quotas d) x \<and> stage_ok x" if "x \<in> set (update_row op_id k f (db_operations d))" for x
  proof -
    from that obtain y where "y \<in> set (db_operations d)" and x: "x = f y \<or> x = y"
      by (auto simp: set_update_row)
    then have "has_rows (db_quotas d) y" "stage_ok y"
      using led by (simp_all add: ledger_ok_def list_all_iff)
    then show ?thesis
      using x has_rows_same [OF K(2,3)] keeps_pending_stage [OF f] by metis
  qed
  have evs: "event_matches (update_row op_id k f (db_operations d)) e" if "e \<in> set (db_events d)" for e
    using led that by (intro event_matches_other [OF _ K(1) p]) (simp add: ledger_ok_def list_all_iff)
  show ?thesis using rows ops evs by (simp add: ledger_ok_def list_all_iff)
qed

lemma set_operation_evidence:
  assumes "evidence_complete d" and f: "keeps_pending f"
  shows "evidence_complete (set_operation k f d)"
proof -
  note K = keeps_pendingD [OF f]
  show ?thesis
    using assms(1) by (auto simp: evidence_complete_def list_all_iff set_update_row K)
qed

lemma pending_operation_Inr:
  "pending_operation k d = Inr p \<longleftrightarrow> find_row op_id k (db_operations d) = Some p \<and> op_state p = Pending"
  by (auto simp: pending_operation_def split: option.splits)

text \<open>Each of the three evidence steps is no change or such an update.\<close>

definition evidence_step :: "str \<Rightarrow> db \<Rightarrow> db \<Rightarrow> bool" where
  "evidence_step k d d' \<longleftrightarrow> d' = d \<or>
    (\<exists>p f. find_row op_id k (db_operations d) = Some p \<and> op_state p = Pending \<and> keeps_pending f \<and>
      d' = set_operation k f d)"

lemma evidence_stepI:
  "find_row op_id k (db_operations d) = Some p \<Longrightarrow> op_state p = Pending \<Longrightarrow> keeps_pending f \<Longrightarrow>
    evidence_step k d (set_operation k f d)"
  by (auto simp: evidence_step_def)

lemma evidence_step_refl: "evidence_step k d d"
  by (simp add: evidence_step_def)

lemma keeps_pending_credit:
  "keeps_pending (\<lambda>p. p\<lparr>op_settlement_id := s, op_usage_operation_id := u, op_updated_at := now\<rparr>)"
  by (clarsimp simp: keeps_pending_def stage_ok_def)

lemma keeps_pending_usage:
  "keeps_pending (\<lambda>p. p\<lparr>op_prompt := a, op_completion := b, op_total := c, op_usage_recorded := True,
     op_updated_at := now\<rparr>)"
  by (clarsimp simp: keeps_pending_def stage_ok_def)

lemma keeps_pending_touch: "keeps_pending (\<lambda>p. p\<lparr>op_updated_at := max (op_updated_at p) now\<rparr>)"
  by (clarsimp simp: keeps_pending_def stage_ok_def)

lemma record_credit_step:
  assumes "record_credit_reservation k s u now d = Inr (x, d')"
  shows "evidence_step k d d'"
proof -
  obtain p where p: "find_row op_id k (db_operations d) = Some p" "op_state p = Pending"
    using assms by (auto simp: record_credit_reservation_def bind_res_Inr pending_operation_Inr)
  show ?thesis
    using assms p evidence_stepI [OF p keeps_pending_credit] evidence_step_refl
    by (auto simp: record_credit_reservation_def pending_operation_def split: if_splits)
qed

lemma record_usage_step:
  assumes "record_provider_usage k pt ct now d = Inr (x, d')"
  shows "evidence_step k d d'"
proof -
  obtain p where p: "find_row op_id k (db_operations d) = Some p" "op_state p = Pending"
    using assms by (auto simp: record_provider_usage_def Let_def bind_res_Inr pending_operation_Inr split: if_splits)
  show ?thesis
    using assms p evidence_stepI [OF p keeps_pending_usage]
    by (auto simp: record_provider_usage_def Let_def pending_operation_def split: if_splits)
qed

lemma touch_step:
  assumes "touch_pending_operation k now d = Inr (x, d')"
  shows "evidence_step k d d'"
proof -
  obtain p where p: "find_row op_id k (db_operations d) = Some p"
    using assms by (auto simp: touch_pending_operation_def split: if_splits option.splits)
  show ?thesis
    using assms p evidence_stepI [OF p _ keeps_pending_touch] evidence_step_refl
    by (cases "op_state p = Pending") (auto simp: touch_pending_operation_def split: if_splits)
qed

lemma evidence_step_ledger:
  "evidence_step k d d' \<Longrightarrow> ledger_ok d \<Longrightarrow> usage_tables_ok d \<Longrightarrow> ledger_ok d'"
  by (auto simp: evidence_step_def intro: set_operation_ledger)

lemma evidence_step_complete: "evidence_step k d d' \<Longrightarrow> evidence_complete d \<Longrightarrow> evidence_complete d'"
  by (auto simp: evidence_step_def intro: set_operation_evidence)

subsection \<open>Finalisation keeps the ledger\<close>

definition finalized_db :: "str \<Rightarrow> terminal \<Rightarrow> str \<Rightarrow> operation \<Rightarrow> quota_row \<Rightarrow> quota_row \<Rightarrow> db \<Rightarrow> db" where
  "finalized_db k t uuid p daily lifetime d =
    (let f = settle_row p (tm_completed_at t);
         d2 = set_operation k (close_operation t)
                (d\<lparr>db_quotas := update_both_rows f daily lifetime (db_quotas d)\<rparr>)
     in d2\<lparr>db_events := db_events d2 @ [terminal_event uuid p t (f daily) (f lifetime)]\<rparr>)"

lemma finalize_operation_Inr:
  assumes "finalize_operation k t uuid d = Inr (sn, d')"
  obtains (replay) p daily lifetime where
      "find_row op_id k (db_operations d) = Some p" "op_state p \<noteq> Pending"
      "locked_quota_rows (op_client p) (op_started_at p) None d = Inr ((daily, lifetime), d)"
      "\<not> terminal_conflict p t d" "sn = terminal_snapshot p daily lifetime" "d' = d"
    | (closed) p daily lifetime where
      "find_row op_id k (db_operations d) = Some p" "op_state p = Pending"
      "locked_quota_rows (op_client p) (op_started_at p) None d = Inr ((daily, lifetime), d)"
      "op_started_at p \<le> tm_completed_at t"
      "check_settle p daily = Inr ()" "check_settle p lifetime = Inr ()"
      "sn = terminal_snapshot p (settle_row p (tm_completed_at t) daily) (settle_row p (tm_completed_at t) lifetime)"
      "d' = finalized_db k t uuid p daily lifetime d"
proof -
  from assms obtain p daily lifetime d0 where p: "find_row op_id k (db_operations d) = Some p"
    and lock: "locked_quota_rows (op_client p) (op_started_at p) None d = Inr ((daily, lifetime), d0)"
    by (auto simp: finalize_operation_def bind_res_Inr split: option.splits prod.splits)
  have d0: "d0 = d" using locked_quota_rows_db [OF lock] by simp
  show ?thesis
  proof (cases "op_state p = Pending")
    case True
    with assms p lock d0 show ?thesis
      by (intro closed [of p daily lifetime])
        (auto simp: finalize_operation_def bind_res_Inr Let_def finalized_db_def split: if_splits)
  next
    case False
    with assms p lock d0 show ?thesis
      by (intro replay [of p daily lifetime]) (auto simp: finalize_operation_def split: if_splits)
  qed
qed

lemma close_operation_fields [simp]:
  "op_id (close_operation t p) = op_id p" "op_client (close_operation t p) = op_client p"
  "op_started_at (close_operation t p) = op_started_at p" "op_total (close_operation t p) = op_total p"
  "op_state (close_operation t p) = op_status_of (tm_status t)"
  "op_reserved (close_operation t p) = op_reserved p"
  by (simp_all add: close_operation_def)

lemma counts_for_close [simp]: "counts_for q (close_operation t p) = counts_for q p"
  by (rule counts_for_same) simp_all

lemma row_matches_closed:
  assumes m: "row_matches ops q" and dist: "distinct (map op_id ops)" and p: "p \<in> set ops" "op_id p = k"
    and pend: "op_state p = Pending"
  shows "counts_for q p \<Longrightarrow>
      row_matches (update_row op_id k (close_operation t) ops) (settle_row p (tm_completed_at t) q)"
    and "\<not> counts_for q p \<Longrightarrow> row_matches (update_row op_id k (close_operation t) ops) q"
  using m pend
  by (simp_all add: row_matches_def count_where_def sum_where_update [OF dist p])
    (simp_all add: settle_row_def)

lemma evidences_closed: "evidences (close_operation t p) (terminal_event uuid p t a b)"
  by (auto simp: evidences_def terminal_event_def close_operation_def)

lemma finalize_ledger:
  assumes led: "ledger_ok d" and ok: "usage_tables_ok d"
    and res: "finalize_operation k t uuid d = Inr (sn, d')"
  shows "ledger_ok d'"
  using res
proof (cases rule: finalize_operation_Inr)
  case (replay p daily lifetime)
  with led show ?thesis by simp
next
  case (closed p daily lifetime)
  note dist = usage_tables_distinct [OF ok]
  note mem = find_row_mem [OF closed(1)]
  note L = locked_quota_rows_Inr [OF closed(3)]
  let ?ops = "update_row op_id k (close_operation t) (db_operations d)"
  let ?rows = "update_both_rows (settle_row p (tm_completed_at t)) daily lifetime (db_quotas d)"
  have hits: "counts_for q p \<longleftrightarrow>
      quota_key q \<in> {(op_client p, Daily, day_of (op_started_at p)), (op_client p, Lifetime, 0)}"
    if "q \<in> set (db_quotas d)" for q
    by (rule counts_for_key) (rule quota_ok_mem [OF ok that])
  have "\<forall>q \<in> set ?rows. row_matches ?ops q"
    using led
    by (intro rows_match_after [OF _ dist(1,2) L(2-5)])
      (auto simp: ledger_ok_def list_all_iff hits row_matches_closed [OF _ dist(3) mem closed(2)])
  moreover have "has_rows ?rows x" if "x \<in> set ?ops" for x
    using that led
    by (auto simp: has_rows_def update_both_rows_maps set_update_row ledger_ok_def list_all_iff)
  moreover have "stage_ok x" if "x \<in> set ?ops" for x
    using that led by (auto simp: set_update_row ledger_ok_def list_all_iff stage_ok_def close_operation_def)
  moreover have "event_matches ?ops e" if "e \<in> set (db_events d)" for e
    using that led event_matches_other [OF _ _ closed(1,2), of e "close_operation t"]
    by (auto simp: ledger_ok_def list_all_iff)
  moreover have "event_matches ?ops (terminal_event uuid p t a b)" for a b
    using closed(1) mem(2) by (simp add: event_matches_def find_row_update terminal_event_def [of uuid p t a b, THEN arg_cong, of ev_operation] evidences_closed)
  ultimately show ?thesis
    unfolding closed(8) finalized_db_def Let_def by (auto simp: ledger_ok_def list_all_iff)
qed

lemma finalize_evidence_complete:
  assumes "evidence_complete d" and "finalize_operation k t uuid d = Inr (sn, d')"
  shows "evidence_complete d'"
  using assms(2)
proof (cases rule: finalize_operation_Inr)
  case (replay p daily lifetime)
  with assms(1) show ?thesis by simp
next
  case (closed p daily lifetime)
  note mem = find_row_mem [OF closed(1)]
  show ?thesis
    using assms(1) mem
    by (auto simp: closed(8) finalized_db_def Let_def evidence_complete_def list_all_iff set_update_row
        terminal_event_def)
qed

subsection \<open>Runs of the ledger\<close>

text \<open>
  The transactions other components issue against the ledger, in any order and any number;
  the fresh identifiers are part of the call.
\<close>

datatype quota_op =
    Reserve reserve_request str str
  | Record_credit str str str int
  | Record_usage str int int int
  | Touch str int
  | Finalize str terminal str

definition drop_value :: "exn + ('a \<times> db) \<Rightarrow> exn + db" where
  "drop_value r = (case r of Inl e \<Rightarrow> Inl e | Inr (_, d) \<Rightarrow> Inr d)"

lemma drop_value_Inr: "drop_value r = Inr d \<longleftrightarrow> (\<exists>x. r = Inr (x, d))"
  by (auto simp: drop_value_def split: sum.splits)

fun quota_step :: "quota_op \<Rightarrow> db \<Rightarrow> exn + db" where
  "quota_step (Reserve rq u1 u2) d = drop_value (commit_tx (reserve_operation rq u1 u2) d)"
| "quota_step (Record_credit k s u now) d = drop_value (commit_tx (record_credit_reservation k s u now) d)"
| "quota_step (Record_usage k p c now) d = drop_value (commit_tx (record_provider_usage k p c now) d)"
| "quota_step (Touch k now) d = drop_value (commit_tx (touch_pending_operation k now) d)"
| "quota_step (Finalize k t u) d = drop_value (commit_tx (finalize_operation k t u) d)"

definition ledger_inv :: "db \<Rightarrow> bool" where
  "ledger_inv d \<longleftrightarrow> db_ok d \<and> ledger_ok d \<and> evidence_complete d"

lemma ledger_invD:
  assumes "ledger_inv d"
  shows "db_ok d" "ledger_ok d" "evidence_complete d" "usage_tables_ok d"
  using assms by (auto simp: ledger_inv_def)

lemma quota_step_inv:
  assumes "ledger_inv d" and "quota_step a d = Inr d'"
  shows "ledger_inv d'"
proof -
  note I = ledger_invD [OF assms(1)]
  note T = drop_value_Inr commit_tx_Inr
  show ?thesis
  proof (cases a)
    case (Reserve rq u1 u2)
    then show ?thesis
      using assms(2) I by (auto simp: T ledger_inv_def intro: reserve_ledger reserve_evidence_complete)
  next
    case (Record_credit k s u now)
    then show ?thesis
      using assms(2) I
      by (auto simp: T ledger_inv_def dest!: record_credit_step intro: evidence_step_ledger evidence_step_complete)
  next
    case (Record_usage k p c now)
    then show ?thesis
      using assms(2) I
      by (auto simp: T ledger_inv_def dest!: record_usage_step intro: evidence_step_ledger evidence_step_complete)
  next
    case (Touch k now)
    then show ?thesis
      using assms(2) I
      by (auto simp: T ledger_inv_def dest!: touch_step intro: evidence_step_ledger evidence_step_complete)
  next
    case (Finalize k t u)
    then show ?thesis
      using assms(2) I
      by (auto simp: T ledger_inv_def intro: finalize_ledger finalize_evidence_complete)
  qed
qed

interpretation ledger: invariant_ops quota_step ledger_inv
  by unfold_locales (rule quota_step_inv)

subsection \<open>What a step does to an operation\<close>

text \<open>An operation keeps its identity, and once terminal it is never written again.\<close>

definition continues :: "operation \<Rightarrow> operation \<Rightarrow> bool" where
  "continues p p' \<longleftrightarrow> op_id p' = op_id p \<and> op_client p' = op_client p \<and>
    op_request_id p' = op_request_id p \<and> op_fingerprint p' = op_fingerprint p \<and>
    (op_state p \<noteq> Pending \<longrightarrow> p' = p)"

lemma continues_refl [simp]: "continues p p"
  by (simp add: continues_def)

lemma continues_trans: "continues p q \<Longrightarrow> continues q r \<Longrightarrow> continues p r"
  by (auto simp: continues_def)

lemma update_pending_continues:
  assumes "distinct (map op_id ops)" and "find_row op_id k ops = Some p0" and "op_state p0 = Pending"
    and "p \<in> set ops" and "op_state p = Pending \<Longrightarrow> continues p (f p)"
  shows "\<exists>p' \<in> set (update_row op_id k f ops). continues p p'"
proof (cases "op_id p = k")
  case True
  with assms(1-4) find_row_mem [OF assms(2)] have "p = p0" by (intro distinct_map_eq [OF assms(1)]) auto
  with assms True show ?thesis by (intro bexI [of _ "f p"]) (auto simp: set_update_row)
next
  case False
  with assms(4) show ?thesis by (intro bexI [of _ p]) (auto simp: set_update_row image_iff)
qed

lemma evidence_step_continues:
  assumes "evidence_step k d d'" and "usage_tables_ok d" and "p \<in> set (db_operations d)"
  shows "\<exists>p' \<in> set (db_operations d'). continues p p'"
proof -
  consider "d' = d" | p0 f where "find_row op_id k (db_operations d) = Some p0" "op_state p0 = Pending"
      "keeps_pending f" "d' = set_operation k f d"
    using assms(1) by (auto simp: evidence_step_def)
  then show ?thesis
  proof cases
    case 1
    with assms(3) show ?thesis by (intro bexI [of _ p]) auto
  next
    case 2
    have "continues p (f p)" if "op_state p = Pending"
      using that keeps_pendingD [OF 2(3), of p] by (simp add: continues_def)
    from update_pending_continues [where f = f, OF usage_tables_distinct(3) [OF assms(2)] 2(1,2) assms(3) this]
    show ?thesis using 2(4) by simp
  qed
qed

lemma reserve_continues:
  assumes "reserve_operation rq u1 u2 d = Inr (r, d')" and "p \<in> set (db_operations d)"
  shows "\<exists>p' \<in> set (db_operations d'). continues p p'"
  using assms(1)
  by (rule reserve_operation_Inr)
    (use assms(2) in \<open>auto dest!: locked_quota_rows_db intro!: bexI [of _ p]\<close>)

lemma finalize_continues:
  assumes "finalize_operation k t uuid d = Inr (sn, d')" and "usage_tables_ok d" and "p \<in> set (db_operations d)"
  shows "\<exists>p' \<in> set (db_operations d'). continues p p'"
  using assms(1)
proof (cases rule: finalize_operation_Inr)
  case (replay p0 daily lifetime)
  with assms(3) show ?thesis by (intro bexI [of _ p]) auto
next
  case (closed p0 daily lifetime)
  have "continues p (close_operation t p)" if "op_state p = Pending"
    using that by (simp add: continues_def close_operation_def)
  from update_pending_continues [where f = "close_operation t", OF usage_tables_distinct(3) [OF assms(2)] closed(1,2) assms(3) this]
  show ?thesis by (simp add: closed(8) finalized_db_def Let_def)
qed

lemma quota_step_continues:
  assumes "ledger_inv d" and "quota_step a d = Inr d'" and "p \<in> set (db_operations d)"
  shows "\<exists>p' \<in> set (db_operations d'). continues p p'"
proof -
  note I = ledger_invD(4) [OF assms(1)]
  note T = drop_value_Inr commit_tx_Inr
  show ?thesis
    using assms(2,3) I
    by (cases a) (auto simp: T intro: reserve_continues finalize_continues evidence_step_continues
        dest!: record_credit_step record_usage_step touch_step)
qed

lemma run_continues:
  assumes "ledger_inv d" and "p \<in> set (db_operations d)"
  shows "\<exists>p' \<in> set (db_operations (run_steps quota_step ops d)). continues p p'"
proof (rule ledger.run_stable [OF assms(1)])
  show "\<exists>p' \<in> set (db_operations d). continues p p'" using assms(2) by (intro bexI [of _ p]) auto
next
  fix a s s'
  assume "ledger_inv s" "\<exists>p' \<in> set (db_operations s). continues p p'" "quota_step a s = Inr s'"
  then show "\<exists>p' \<in> set (db_operations s'). continues p p'"
    by (meson quota_step_continues continues_trans)
qed

subsection \<open>Transactions that commit\<close>

lemma caller_tables_cong:
  assumes "db_clients d' = db_clients d" "db_credentials d' = db_credentials d" "db_bindings d' = db_bindings d"
  shows "caller_tables_ok d' = caller_tables_ok d"
  using assms by (simp add: caller_tables_ok_def)

lemma control_tables_cong:
  assumes "db_clients d' = db_clients d" "db_outbox d' = db_outbox d" "db_audits d' = db_audits d"
  shows "control_tables_ok d' = control_tables_ok d"
  using assms by (simp add: control_tables_ok_def)

lemma insert_row_usage_ok:
  assumes "usage_tables_ok d" and "uuid \<notin> set (map qu_id (db_quotas d))"
    and "client \<in> set (map ac_id (db_clients d))"
    and "scope = Daily \<and> 0 < period \<or> scope = Lifetime \<and> period = 0"
  shows "usage_tables_ok (insert_quota_row_if_missing uuid client scope period now d)"
  using assms
  by (auto simp: insert_quota_row_if_missing_def usage_tables_ok_def quota_ok_def quota_key_def image_iff)

lemma insert_row_ids:
  "set (map qu_id (db_quotas (insert_quota_row_if_missing u c sc pe n d))) \<subseteq>
    insert u (set (map qu_id (db_quotas d)))"
  by (auto simp: insert_quota_row_if_missing_def)

lemma update_both_rows_quota_ok:
  assumes "list_all quota_ok rows" and "\<And>q. quota_ok q \<Longrightarrow> quota_ok (f q)"
  shows "list_all quota_ok (update_both_rows f a b rows)"
  using assms by (auto simp: update_both_rows_def list_all_iff set_update_row)

lemma usage_tables_reserve:
  assumes ok: "usage_tables_ok d"
    and ids: "rq_operation rq \<notin> set (map op_id (db_operations d))"
      "(rq_client rq, rq_request_id rq) \<notin> set (map request_key (db_operations d))"
    and fk: "rq_client rq \<in> set (map ac_id (db_clients d))" "rq_credential rq \<in> set (map cr_id (db_credentials d))"
    and n: "0 < rq_reserved rq"
  shows "usage_tables_ok (d\<lparr>db_quotas := update_both_rows (reserve_row (rq_reserved rq) t) a b (db_quotas d),
    db_operations := db_operations d @ [new_operation rq]\<rparr>)"
proof -
  let ?rows = "update_both_rows (reserve_row (rq_reserved rq) t) a b (db_quotas d)"
  have maps: "map quota_key ?rows = map quota_key (db_quotas d)" "map qu_id ?rows = map qu_id (db_quotas d)"
    "map qu_client ?rows = map qu_client (db_quotas d)"
    by (rule update_both_rows_maps, simp)+ (rule update_both_rows_maps, simp add: reserve_row_def)
  have q: "list_all quota_ok ?rows"
    using ok n
    by (intro update_both_rows_quota_ok) (auto simp: usage_tables_ok_def quota_ok_def reserve_row_def)
  have c: "list_all (\<lambda>q. qu_client q \<in> set (map ac_id (db_clients d))) ?rows"
    using ok maps(3) unfolding usage_tables_ok_def
    by (metis (no_types, lifting) list.pred_map comp_def list.pred_cong)
  have p: "operation_ok (new_operation rq)"
    using n by (simp add: operation_ok_def new_operation_def)
  have ev: "list_all (\<lambda>e. opt_all (\<lambda>p. p \<in> set (map op_id (db_operations d @ [new_operation rq]))) (ev_operation e) \<and>
      opt_all (\<lambda>c. c \<in> set (map ac_id (db_clients d))) (ev_client e) \<and>
      opt_all (\<lambda>c. c \<in> set (map cr_id (db_credentials d))) (ev_credential e)) (db_events d)"
    using ok by (auto simp: usage_tables_ok_def list_all_iff opt_all_def split: option.splits)
  show ?thesis
    using ok ids fk q c p ev maps(1,2)
    by (simp add: usage_tables_ok_def) (simp add: new_operation_def request_key_def)
qed


lemma reserve_commits:
  assumes ok: "db_ok d" and res: "reserve_operation rq u1 u2 d = Inr (r, d')"
    and fresh: "u1 \<notin> set (map qu_id (db_quotas d))" "u2 \<notin> set (map qu_id (db_quotas d))" "u1 \<noteq> u2"
    and now: "86400 \<le> rq_now rq"
  shows "db_ok d'"
  using res
proof (rule reserve_operation_Inr)
  fix c k daily lifetime d1
  assume req: "check_reserve_request rq = Inr ()" and caller: "locked_caller rq d = Inr (c, k)"
    and lock: "locked_quota_rows (rq_client rq) (rq_now rq) (Some (u1, u2)) d = Inr ((daily, lifetime), d1)"
    and new: "check_new_request rq d1 = Inr ()"
    and d': "d' = d1\<lparr>db_quotas := update_both_rows (reserve_row (rq_reserved rq) (rq_now rq)) daily lifetime (db_quotas d1),
      db_operations := db_operations d1 @ [new_operation rq]\<rparr>"
  define e where "e = insert_quota_row_if_missing u1 (rq_client rq) Daily (day_of (rq_now rq)) (rq_now rq) d"
  have d1: "d1 = insert_quota_row_if_missing u2 (rq_client rq) Lifetime 0 (rq_now rq) e"
    using locked_quota_rows_db [OF lock] by (simp add: e_def)
  have fk: "rq_client rq \<in> set (map ac_id (db_clients d))" "rq_credential rq \<in> set (map cr_id (db_credentials d))"
    using caller find_row_mem by (force simp: locked_caller_def split: option.splits if_splits)+
  have day: "0 < day_of (rq_now rq)"
    using now by (simp add: day_of_def)
  have "usage_tables_ok e"
    unfolding e_def using ok fresh fk(1) day by (intro insert_row_usage_ok) auto
  moreover have "u2 \<notin> set (map qu_id (db_quotas e))"
    using insert_row_ids [of u1 "rq_client rq" Daily "day_of (rq_now rq)" "rq_now rq" d] fresh
    unfolding e_def by blast
  ultimately have "usage_tables_ok d1"
    unfolding d1 using fk(1) by (intro insert_row_usage_ok) (auto simp: e_def)
  moreover have "rq_operation rq \<notin> set (map op_id (db_operations d1))"
    "(rq_client rq, rq_request_id rq) \<notin> set (map request_key (db_operations d1))"
    using new by (auto simp: check_new_request_def find_row_None image_iff split: option.splits if_splits)
  moreover have "0 < rq_reserved rq"
    using req by (auto simp: check_reserve_request_def split: if_splits)
  ultimately have "usage_tables_ok d'"
    unfolding d' using fk by (intro usage_tables_reserve) (simp_all add: d1 e_def)
  moreover have "caller_tables_ok d' = caller_tables_ok d"
    by (intro caller_tables_cong) (simp_all add: d' d1 e_def)
  moreover have "control_tables_ok d' = control_tables_ok d"
    by (intro control_tables_cong) (simp_all add: d' d1 e_def)
  ultimately show ?thesis using ok by (simp add: db_ok_def)
qed

lemma make_terminal_Inr:
  "make_terminal t = Inr t' \<Longrightarrow> t' = t \<and> tm_outcome t \<in> set EVENT_OUTCOMES \<and> tm_stage t \<in> set EVENT_STAGES \<and>
    100 \<le> tm_http_status t \<and> tm_http_status t \<le> 599 \<and> 0 \<le> tm_duration_ms t \<and>
    0 \<le> tm_charged t \<and> 0 \<le> tm_qps t \<and> 0 \<le> tm_concurrency t"
  by (auto simp: make_terminal_def split: if_splits)


lemma no_event_of_pending:
  assumes "usage_tables_ok d" and "ledger_ok d" and "p \<in> set (db_operations d)" and "op_state p = Pending"
  shows "Some (op_id p) \<notin> set (map ev_operation (db_events d))"
proof
  assume "Some (op_id p) \<in> set (map ev_operation (db_events d))"
  then obtain e where e: "e \<in> set (db_events d)" "ev_operation e = Some (op_id p)" by auto
  have "find_row op_id (op_id p) (db_operations d) = Some p"
    by (rule find_row_unique [OF usage_tables_distinct(3) [OF assms(1)] assms(3) refl])
  with e assms(2,4) show False
    by (auto simp: ledger_ok_def list_all_iff event_matches_def evidences_def)
qed

lemma settle_row_ok:
  "quota_ok q \<Longrightarrow> op_reserved p \<le> qu_reserved q \<Longrightarrow> 0 \<le> op_total p \<Longrightarrow> quota_ok (settle_row p t q)"
  by (simp add: quota_ok_def settle_row_def)

lemma terminal_event_ok:
  assumes "make_terminal t = Inr t" and "operation_ok p" and "quota_ok a" and "quota_ok b"
    and "op_started_at p \<le> tm_completed_at t"
  shows "event_ok (terminal_event uuid p t a b)"
  using make_terminal_Inr [OF assms(1)] assms(2-5)
  by (simp add: event_ok_def terminal_event_def quota_ok_def operation_ok_def)

lemma close_operation_ok:
  assumes "make_terminal t = Inr t" and "operation_ok p" and "op_started_at p \<le> tm_completed_at t"
  shows "operation_ok (close_operation t p)"
  using make_terminal_Inr [OF assms(1)] assms(2,3) by (simp add: operation_ok_def close_operation_def)

lemma usage_tables_close:
  assumes ok: "usage_tables_ok d" and p: "p \<in> set (db_operations d)" "op_id p = k"
    and f: "operation_ok (close_operation t p)"
  shows "usage_tables_ok (set_operation k (close_operation t) d)"
proof -
  let ?ops = "update_row op_id k (close_operation t) (db_operations d)"
  have maps: "map op_id ?ops = map op_id (db_operations d)" "map request_key ?ops = map request_key (db_operations d)"
    "map op_client ?ops = map op_client (db_operations d)" "map op_credential ?ops = map op_credential (db_operations d)"
    by (simp_all add: map_update_row close_operation_def request_key_def)
  have "x = p" if "x \<in> set (db_operations d)" "op_id x = k" for x
    using distinct_map_eq [OF usage_tables_distinct(3) [OF ok] that(1) p(1)] that p(2) by simp
  then have "list_all operation_ok ?ops"
    using ok f by (auto simp: usage_tables_ok_def list_all_iff set_update_row)
  moreover have "list_all (\<lambda>p. op_client p \<in> set (map ac_id (db_clients d)) \<and>
      op_credential p \<in> set (map cr_id (db_credentials d))) ?ops"
    using ok by (auto simp: usage_tables_ok_def list_all_iff set_update_row close_operation_def)
  ultimately show ?thesis
    using ok maps(1,2) by (simp add: usage_tables_ok_def set_operation_def)
qed

lemma usage_tables_settle:
  assumes ok: "usage_tables_ok d" and "list_all quota_ok (update_both_rows (settle_row p t) a b (db_quotas d))"
  shows "usage_tables_ok (d\<lparr>db_quotas := update_both_rows (settle_row p t) a b (db_quotas d)\<rparr>)"
proof -
  let ?rows = "update_both_rows (settle_row p t) a b (db_quotas d)"
  have maps: "map quota_key ?rows = map quota_key (db_quotas d)" "map qu_id ?rows = map qu_id (db_quotas d)"
    "map qu_client ?rows = map qu_client (db_quotas d)"
    by (rule update_both_rows_maps, simp)+ (rule update_both_rows_maps, simp add: settle_row_def)
  have "list_all (\<lambda>q. qu_client q \<in> set (map ac_id (db_clients d))) ?rows"
    using ok maps(3) unfolding usage_tables_ok_def
    by (metis (no_types, lifting) list.pred_map comp_def list.pred_cong)
  then show ?thesis using ok assms(2) maps(1,2) by (simp add: usage_tables_ok_def)
qed

lemma usage_tables_event:
  assumes ok: "usage_tables_ok d" and "event_ok e"
    and "ev_id e \<notin> set (map ev_id (db_events d))"
    and "ev_server_request_id e \<notin> set (map ev_server_request_id (db_events d))"
    and "ev_operation e = Some k" "Some k \<notin> set (map ev_operation (db_events d))" "k \<in> set (map op_id (db_operations d))"
    and "opt_all (\<lambda>c. c \<in> set (map ac_id (db_clients d))) (ev_client e)"
    and "opt_all (\<lambda>c. c \<in> set (map cr_id (db_credentials d))) (ev_credential e)"
  shows "usage_tables_ok (d\<lparr>db_events := db_events d @ [e]\<rparr>)"
  using assms by (simp add: usage_tables_ok_def)

lemma finalize_commits:
  assumes ok: "db_ok d" and led: "ledger_ok d" and t: "make_terminal t = Inr t"
    and p: "find_row op_id k (db_operations d) = Some p" "op_state p = Pending"
    and lock: "locked_quota_rows (op_client p) (op_started_at p) None d = Inr ((daily, lifetime), d)"
    and time: "op_started_at p \<le> tm_completed_at t"
    and settle: "check_settle p daily = Inr ()" "check_settle p lifetime = Inr ()"
    and fresh: "uuid \<notin> set (map ev_id (db_events d))"
      "tm_server_request_id t \<notin> set (map ev_server_request_id (db_events d))"
  shows "db_ok (finalized_db k t uuid p daily lifetime d)"
proof -
  have us: "usage_tables_ok d" using ok by auto
  note mem = find_row_mem [OF p(1)]
  note L = locked_quota_rows_Inr [OF lock]
  have pok: "operation_ok p" by (rule operation_ok_mem [OF us mem(1)])
  then have tot: "0 \<le> op_total p" by (simp add: operation_ok_def)
  have rows: "quota_ok (settle_row p s daily)" "quota_ok (settle_row p s lifetime)" for s
    using settle quota_ok_mem [OF us L(2)] quota_ok_mem [OF us L(3)] tot
    by (auto simp: check_settle_def intro!: settle_row_ok split: if_splits)
  have ne: "quota_key daily \<noteq> quota_key lifetime" using L(4,5) by simp
  have "q = daily" if "q \<in> set (db_quotas d)" "quota_key q = quota_key daily" for q
    using distinct_map_eq [OF usage_tables_distinct(2) [OF us] that(1) L(2) that(2)] .
  moreover have "q = lifetime" if "q \<in> set (db_quotas d)" "quota_key q = quota_key lifetime" for q
    using distinct_map_eq [OF usage_tables_distinct(2) [OF us] that(1) L(3) that(2)] .
  ultimately have "list_all quota_ok (update_both_rows (settle_row p (tm_completed_at t)) daily lifetime (db_quotas d))"
    using us rows
    by (subst update_both_rows_key [OF usage_tables_distinct(1,2) [OF us] L(2,3) ne])
      (auto simp: list_all_iff quota_ok_mem)
  from usage_tables_settle [OF us this]
  have "usage_tables_ok (set_operation k (close_operation t)
      (d\<lparr>db_quotas := update_both_rows (settle_row p (tm_completed_at t)) daily lifetime (db_quotas d)\<rparr>))"
    using mem by (intro usage_tables_close [of _ p] close_operation_ok [OF t pok time]) auto
  moreover have "op_client p \<in> set (map ac_id (db_clients d))" "op_credential p \<in> set (map cr_id (db_credentials d))"
    using us mem(1) by (auto simp: usage_tables_ok_def list_all_iff)
  moreover have "map op_id (update_row op_id k (close_operation t) (db_operations d)) = map op_id (db_operations d)"
    by (simp add: map_update_row)
  moreover have "k \<in> set (map op_id (db_operations d))" using mem by auto
  ultimately have "usage_tables_ok (finalized_db k t uuid p daily lifetime d)"
    using fresh no_event_of_pending [OF us led mem(1) p(2)] mem(2)
      terminal_event_ok [OF t pok rows time, of uuid]
    unfolding finalized_db_def Let_def
    by (intro usage_tables_event [where k = k]) (simp_all add: terminal_event_def set_operation_def)
  moreover have "caller_tables_ok (finalized_db k t uuid p daily lifetime d) = caller_tables_ok d"
    by (intro caller_tables_cong) (simp_all add: finalized_db_def Let_def set_operation_def)
  moreover have "control_tables_ok (finalized_db k t uuid p daily lifetime d) = control_tables_ok d"
    by (intro control_tables_cong) (simp_all add: finalized_db_def Let_def set_operation_def)
  ultimately show ?thesis using ok by (simp add: db_ok_def)
qed

end
