(* ===== verification/Ledger_Properties.thy ===== *)
theory Ledger_Properties
  imports Ledger
begin

text \<open>
  The properties of the quota ledger: its invariant over any run, the limits a reservation
  respects, progress and idempotence of the terminal step, single admission of a request,
  and one terminal event per terminal operation. The witnesses run on a small database.
\<close>

subsection \<open>A concrete database\<close>

definition sample_client :: api_client where
  "sample_client = \<lparr>ac_id = ''c1'', ac_name = ''n'', ac_description = None, ac_status = Client_active,
    ac_allowed_endpoints = [''chat.completions''], ac_allowed_models = [''m''], ac_group_ids = [],
    ac_qps_limit = 5, ac_concurrency_limit = 5, ac_daily_request_limit = Some 2,
    ac_daily_token_limit = Some 100, ac_total_request_limit = None, ac_total_token_limit = Some 150,
    ac_max_output_tokens = 10, ac_version = 1, ac_created_by = ''a'', ac_updated_by = ''a'',
    ac_created_at = 1, ac_updated_at = 1, ac_disabled_at = None, ac_archived_at = None\<rparr>"

definition sample_credential :: credential where
  "sample_credential = \<lparr>cr_id = ''k1'', cr_client = ''c1'', cr_key_id = ''zpk_0001'', cr_ciphertext = ''x'',
    cr_nonce = ''n'', cr_master_key_id = ''mk'', cr_fingerprint = ''f'', cr_status = Cred_active,
    cr_expires_at = None, cr_last_used_at = None, cr_replaced_by = None, cr_created_by = ''a'',
    cr_revoked_by = None, cr_created_at = 1, cr_revoked_at = None\<rparr>"

definition sample_db :: db where
  "sample_db = empty_db\<lparr>db_clients := [sample_client], db_credentials := [sample_credential]\<rparr>"

definition sample_rq :: reserve_request where
  "sample_rq = \<lparr>rq_client = ''c1'', rq_credential = ''k1'', rq_operation = ''o1'',
    rq_request_id = replicate 16 CHR ''a'', rq_fingerprint = replicate 64 CHR ''0'', rq_model = ''m'',
    rq_stream = False, rq_reserved = 40, rq_now = 90000\<rparr>"

definition sample_terminal :: terminal where
  "sample_terminal = \<lparr>tm_status = T_completed, tm_outcome = ''success'', tm_stage = ''response'',
    tm_http_status = 200, tm_code = ''OK'', tm_retryable = False, tm_duration_ms = 5, tm_charged = 0,
    tm_qps = 1, tm_concurrency = 1, tm_server_request_id = ''s1'', tm_ip_hash = None, tm_ua_family = None,
    tm_completed_at = 90005\<rparr>"

lemmas sample_defs = sample_client_def sample_credential_def sample_db_def sample_rq_def
  sample_terminal_def empty_db_def

lemma sample_db_inv: "ledger_inv sample_db"
  by (simp add: ledger_inv_def db_ok_def caller_tables_ok_def control_tables_ok_def usage_tables_ok_def
      ledger_ok_def evidence_complete_def sample_defs client_ok_def credential_ok_def py_len_def
      is_continuation_byte_def)

definition sample_reserved_db :: db where
  "sample_reserved_db = (case quota_step (Reserve sample_rq ''u1'' ''u2'') sample_db of
     Inl _ \<Rightarrow> sample_db | Inr d \<Rightarrow> d)"

definition sample_finalized_db :: db where
  "sample_finalized_db = (case quota_step (Finalize ''o1'' sample_terminal ''e1'') sample_reserved_db of
     Inl _ \<Rightarrow> sample_db | Inr d \<Rightarrow> d)"

lemma sample_reserve:
  "\<exists>r. commit_tx (reserve_operation sample_rq ''u1'' ''u2'') sample_db = Inr (r, sample_reserved_db)"
proof -
  have "is_ok (commit_tx (reserve_operation sample_rq ''u1'' ''u2'') sample_db)"
    by code_simp
  then show ?thesis
    by (auto simp: is_ok_def sample_reserved_db_def drop_value_def split: sum.splits)
qed

lemma sample_reserved_inv: "ledger_inv sample_reserved_db"
  using sample_reserve quota_step_inv [OF sample_db_inv, of "Reserve sample_rq ''u1'' ''u2''"]
  by (auto simp: drop_value_Inr)

lemma sample_finalize:
  "\<exists>r. commit_tx (finalize_operation ''o1'' sample_terminal ''e1'') sample_reserved_db = Inr (r, sample_finalized_db)"
proof -
  have "is_ok (commit_tx (finalize_operation ''o1'' sample_terminal ''e1'') sample_reserved_db)"
    by code_simp
  then show ?thesis
    by (auto simp: is_ok_def sample_finalized_db_def drop_value_def split: sum.splits)
qed


subsection \<open>The invariant over a run\<close>

text \<open>C1: whatever reservations, evidence records, heartbeats and finalisations are issued
  against a consistent database, in any order and with any arguments, the database stays
  consistent: all constraints hold, each counter row equals the sums over the operations it
  stands for, every operation has its two counter rows, and every event is the evidence of
  a terminal operation.\<close>

theorem ledger_run_inv:
  assumes "ledger_inv d"
  shows "ledger_inv (run_steps quota_step ops d)"
  using assms by (rule ledger.run_inv)

lemma ledger_run_inv_witness:
  "ledger_inv (run_steps quota_step [Reserve sample_rq ''u1'' ''u2'', Touch ''o1'' 90001,
     Finalize ''o1'' sample_terminal ''e1''] sample_db)"
  by (rule ledger_run_inv [OF sample_db_inv])

subsection \<open>Reservations respect the limits\<close>

definition charged :: "operation \<Rightarrow> int" where
  "charged p = (if op_state p = Pending then op_reserved p else op_total p)"

lemma sum_where_charged:
  "sum_where P charged ops = sum_where (\<lambda>p. P p \<and> op_state p = Pending) op_reserved ops +
    sum_where (\<lambda>p. P p \<and> op_state p \<noteq> Pending) op_total ops"
  by (induction ops) (auto simp: sum_where_Cons charged_def)

lemma row_matches_charged:
  "row_matches ops q \<Longrightarrow> count_where (counts_for q) ops = qu_requests q \<and>
    sum_where (counts_for q) charged ops = qu_consumed q + qu_reserved q"
  by (simp add: row_matches_def sum_where_charged)

lemma reserved_row_mem:
  assumes "usage_tables_ok d2" and "d2 = d1\<lparr>db_quotas := update_both_rows (reserve_row n t) daily lifetime (db_quotas d1),
      db_operations := ops\<rparr>"
    and "daily \<in> set (db_quotas d1)" "lifetime \<in> set (db_quotas d1)" "quota_key daily \<noteq> quota_key lifetime"
  shows "reserve_row n t daily \<in> set (db_quotas d2)" "reserve_row n t lifetime \<in> set (db_quotas d2)"
proof -
  have "map quota_key (db_quotas d2) = map quota_key (db_quotas d1)"
    and "map qu_id (db_quotas d2) = map qu_id (db_quotas d1)"
    by (simp_all add: assms(2) update_both_rows_maps)
  then have dist: "distinct (map qu_id (db_quotas d1))" "distinct (map quota_key (db_quotas d1))"
    using usage_tables_distinct(1,2) [OF assms(1)] by simp_all
  show "reserve_row n t daily \<in> set (db_quotas d2)" "reserve_row n t lifetime \<in> set (db_quotas d2)"
    unfolding assms(2) using assms(3,4)
    by (auto simp: update_both_rows_key [OF dist assms(3-5)])
qed

lemma check_quota_limit_Inr:
  "check_quota_limit row rlim tlim n c1 c2 = Inr () \<longleftrightarrow>
    opt_all (\<lambda>l. qu_requests row + 1 \<le> l) rlim \<and> opt_all (\<lambda>l. qu_consumed row + qu_reserved row + n \<le> l) tlim \<and>
    qu_consumed row + qu_reserved row + n \<le> SIGNED_BIGINT_MAX"
  by (auto simp: check_quota_limit_def Let_def)

definition spent :: "(operation \<Rightarrow> bool) \<Rightarrow> db \<Rightarrow> int \<times> int" where
  "spent P d = (count_where P (db_operations d), sum_where P charged (db_operations d))"

lemma spent_row:
  assumes led: "ledger_ok d" and q: "q \<in> set (db_quotas d)"
    and P: "\<And>p. P p \<longleftrightarrow> counts_for q p"
  shows "spent P d = (qu_requests q, qu_consumed q + qu_reserved q)"
proof -
  have "row_matches (db_operations d) q" using led q by (simp add: ledger_ok_def list_all_iff)
  from row_matches_charged [OF this] have "P = counts_for q \<Longrightarrow> ?thesis"
    by (simp add: spent_def)
  then show ?thesis using P by blast
qed

text \<open>C2: a committed reservation leaves the caller within its limits, counted over the
  operations themselves: the number of its operations, and the Tokens they reserve or have
  consumed, in the UTC day and in total. The caller is active and allowed the endpoint and
  the model, and its credential is active, its own, and not expired.\<close>

theorem reserve_within_limits:
  assumes "ledger_inv d" and "commit_tx (reserve_operation rq u1 u2) d = Inr (r, d')"
  shows "\<exists>c k. find_row ac_id (rq_client rq) (db_clients d) = Some c \<and>
    find_row cr_id (rq_credential rq) (db_credentials d) = Some k \<and>
    cr_client k = rq_client rq \<and> ac_status c = Client_active \<and> cr_status k = Cred_active \<and>
    opt_all (\<lambda>t. rq_now rq < t) (cr_expires_at k) \<and>
    ''chat.completions'' \<in> set (ac_allowed_endpoints c) \<and> rq_model rq \<in> set (ac_allowed_models c) \<and>
    spent (\<lambda>p. op_client p = rq_client rq \<and> day_of (op_started_at p) = day_of (rq_now rq)) d' =
      (rs_daily_requests r, rs_daily_tokens r) \<and>
    spent (\<lambda>p. op_client p = rq_client rq) d' = (rs_total_requests r, rs_total_tokens r) \<and>
    opt_all (\<lambda>l. rs_daily_requests r \<le> l) (ac_daily_request_limit c) \<and>
    opt_all (\<lambda>l. rs_daily_tokens r \<le> l) (ac_daily_token_limit c) \<and>
    opt_all (\<lambda>l. rs_total_requests r \<le> l) (ac_total_request_limit c) \<and>
    opt_all (\<lambda>l. rs_total_tokens r \<le> l) (ac_total_token_limit c)"
proof -
  note I = ledger_invD [OF assms(1)]
  have res: "reserve_operation rq u1 u2 d = Inr (r, d')" and ok: "usage_tables_ok d'"
    using assms(2) by (auto simp: commit_tx_Inr)
  have led: "ledger_ok d'" by (rule reserve_ledger [OF I(2) res ok])
  from res show ?thesis
  proof (rule reserve_operation_Inr)
    fix c k daily lifetime d1
    assume caller: "locked_caller rq d = Inr (c, k)" "check_caller c k rq = Inr ()"
      and lock: "locked_quota_rows (rq_client rq) (rq_now rq) (Some (u1, u2)) d = Inr ((daily, lifetime), d1)"
      and lim: "check_quota_limit daily (ac_daily_request_limit c) (ac_daily_token_limit c)
        (rq_reserved rq) ''DAILY_REQUEST_QUOTA_EXCEEDED'' ''DAILY_TOKEN_QUOTA_EXCEEDED'' = Inr ()"
        "check_quota_limit lifetime (ac_total_request_limit c) (ac_total_token_limit c)
        (rq_reserved rq) ''TOTAL_REQUEST_QUOTA_EXCEEDED'' ''TOTAL_TOKEN_QUOTA_EXCEEDED'' = Inr ()"
      and d2: "d' = d1\<lparr>db_quotas := update_both_rows (reserve_row (rq_reserved rq) (rq_now rq)) daily lifetime (db_quotas d1),
        db_operations := db_operations d1 @ [new_operation rq]\<rparr>"
      and r: "r = \<lparr>rs_operation = rq_operation rq, rs_daily_requests = qu_requests daily + 1,
        rs_daily_tokens = qu_consumed daily + (qu_reserved daily + rq_reserved rq),
        rs_total_requests = qu_requests lifetime + 1,
        rs_total_tokens = qu_consumed lifetime + (qu_reserved lifetime + rq_reserved rq)\<rparr>"
    note L = locked_quota_rows_Inr [OF lock]
    have "quota_key daily \<noteq> quota_key lifetime" using L(4,5) by simp
    note rows = reserved_row_mem [OF ok d2 L(2,3) this]
    have "spent (\<lambda>p. op_client p = rq_client rq \<and> day_of (op_started_at p) = day_of (rq_now rq)) d' =
      (rs_daily_requests r, rs_daily_tokens r)"
      using L(4) by (subst spent_row [OF led rows(1)]) (auto simp: counts_for_def quota_key_def r reserve_row_def)
    moreover have "spent (\<lambda>p. op_client p = rq_client rq) d' = (rs_total_requests r, rs_total_tokens r)"
      using L(5) by (subst spent_row [OF led rows(2)]) (auto simp: counts_for_def quota_key_def r reserve_row_def)
    moreover have "find_row ac_id (rq_client rq) (db_clients d) = Some c"
      "find_row cr_id (rq_credential rq) (db_credentials d) = Some k" "cr_client k = rq_client rq"
      using caller(1) by (auto simp: locked_caller_def split: option.splits if_splits)
    ultimately show ?thesis
      using caller(2) lim by (auto simp: check_caller_def check_quota_limit_Inr r add.assoc split: if_splits)
  qed
qed

lemma reserve_within_limits_witness:
  "\<exists>r :: reservation. spent (\<lambda>p. op_client p = ''c1'') sample_reserved_db = (rs_total_requests r, rs_total_tokens r) \<and>
    rs_total_tokens r \<le> 150"
proof -
  obtain r where "commit_tx (reserve_operation sample_rq ''u1'' ''u2'') sample_db = Inr (r, sample_reserved_db)"
    using sample_reserve by blast
  from reserve_within_limits [OF sample_db_inv this] show ?thesis
    by (clarsimp simp: sample_defs find_row_def) blast
qed

subsection \<open>Progress of the terminal step\<close>

lemma has_rows_locked:
  assumes "usage_tables_ok d" and "ledger_ok d" and "p \<in> set (db_operations d)"
  obtains daily lifetime where
    "locked_quota_rows (op_client p) (op_started_at p) None d = Inr ((daily, lifetime), d)"
proof -
  have h: "has_rows (db_quotas d) p" "stage_ok p"
    using assms(2,3) by (simp_all add: ledger_ok_def list_all_iff)
  from h(1) obtain daily lifetime where "daily \<in> set (db_quotas d)" "lifetime \<in> set (db_quotas d)"
    "(op_client p, Daily, day_of (op_started_at p)) = quota_key daily"
    "(op_client p, Lifetime, 0) = quota_key lifetime"
    unfolding has_rows_def set_map by (elim conjE imageE)
  moreover have "0 \<le> op_started_at p" using h(2) by (simp add: stage_ok_def)
  ultimately show thesis
    using usage_tables_distinct(2) [OF assms(1)] by (intro that [OF locked_quota_rows_found]) simp_all
qed

lemma reserved_covers:
  assumes "usage_tables_ok d" and "ledger_ok d" and "q \<in> set (db_quotas d)"
    and "p \<in> set (db_operations d)" and "counts_for q p" and "op_state p = Pending"
  shows "op_reserved p \<le> qu_reserved q"
proof -
  have "qu_reserved q = sum_where (\<lambda>p. counts_for q p \<and> op_state p = Pending) op_reserved (db_operations d)"
    using assms(2,3) by (simp add: ledger_ok_def list_all_iff row_matches_def)
  also have "op_reserved p \<le> \<dots>"
    using assms(4-6) operation_ok_mem [OF assms(1)]
    by (intro sum_where_member_le) (auto simp: operation_ok_def)
  finally show ?thesis by simp
qed

text \<open>C16: a pending operation of a consistent ledger can always be closed: the transaction
  of a valid terminal with fresh identifiers, not before the start of the operation and
  below the 64-bit limit, never meets an inconsistent reservation and commits; it closes the
  operation with the status and code given, releases exactly its reservation from its two
  counter rows, and appends its event.\<close>

theorem pending_operation_finalizes:
  assumes "ledger_inv d" and "make_terminal t = Inr t"
    and "find_row op_id k (db_operations d) = Some p" and "op_state p = Pending"
    and "op_started_at p \<le> tm_completed_at t"
    and "\<forall>q \<in> set (db_quotas d). qu_consumed q + op_total p \<le> SIGNED_BIGINT_MAX"
    and "uuid \<notin> set (map ev_id (db_events d))"
    and "tm_server_request_id t \<notin> set (map ev_server_request_id (db_events d))"
  shows "\<exists>sn d' daily lifetime. commit_tx (finalize_operation k t uuid) d = Inr (sn, d') \<and>
    find_row op_id k (db_operations d') = Some (close_operation t p) \<and>
    quota_key daily = (op_client p, Daily, day_of (op_started_at p)) \<and>
    quota_key lifetime = (op_client p, Lifetime, 0) \<and>
    db_quotas d' = map (\<lambda>q. if q = daily \<or> q = lifetime then settle_row p (tm_completed_at t) q else q) (db_quotas d) \<and>
    db_events d' = db_events d @ [terminal_event uuid p t (settle_row p (tm_completed_at t) daily)
      (settle_row p (tm_completed_at t) lifetime)] \<and>
    sn_overrun sn = (op_total p > op_reserved p)"
proof -
  note I = ledger_invD [OF assms(1)]
  note mem = find_row_mem [OF assms(3)]
  obtain daily lifetime where
    lock: "locked_quota_rows (op_client p) (op_started_at p) None d = Inr ((daily, lifetime), d)"
    by (rule has_rows_locked [OF I(4,2) mem(1)])
  note L = locked_quota_rows_Inr [OF lock]
  note dist = usage_tables_distinct [OF I(4)]
  have c: "counts_for daily p" "counts_for lifetime p"
    using L(4,5) by (auto simp: counts_for_def quota_key_def)
  have settle: "check_settle p daily = Inr ()" "check_settle p lifetime = Inr ()"
    using reserved_covers [OF I(4,2) L(2) mem(1) c(1) assms(4)]
      reserved_covers [OF I(4,2) L(3) mem(1) c(2) assms(4)] assms(6) L(2,3)
    by (auto simp: check_settle_def)
  have ne: "quota_key daily \<noteq> quota_key lifetime" using L(4,5) by simp
  have key: "quota_key q \<in> {quota_key daily, quota_key lifetime} \<longleftrightarrow> q = daily \<or> q = lifetime"
    if "q \<in> set (db_quotas d)" for q
    using that L(2,3) distinct_map_eq [OF dist(2)] by blast
  have rows: "update_both_rows (settle_row p (tm_completed_at t)) daily lifetime (db_quotas d) =
      map (\<lambda>q. if q = daily \<or> q = lifetime then settle_row p (tm_completed_at t) q else q) (db_quotas d)"
    by (subst update_both_rows_key [OF dist(1,2) L(2,3) ne]) (simp_all only: settle_row_key key cong: map_cong)
  let ?d' = "finalized_db k t uuid p daily lifetime d"
  let ?sn = "terminal_snapshot p (settle_row p (tm_completed_at t) daily) (settle_row p (tm_completed_at t) lifetime)"
  have "finalize_operation k t uuid d = Inr (?sn, ?d')"
    using assms(3-5) lock settle by (simp add: finalize_operation_def finalized_db_def Let_def)
  moreover have "db_ok ?d'"
    by (rule finalize_commits [OF I(1,2) assms(2-4) lock assms(5) settle assms(7,8)])
  ultimately have "commit_tx (finalize_operation k t uuid) d = Inr (?sn, ?d')"
    by (simp add: commit_tx_Inr)
  then show ?thesis
    using assms(3) L(4,5) rows
    by (intro exI [of _ ?sn] exI [of _ ?d'] exI [of _ daily] exI [of _ lifetime])
      (simp add: finalized_db_def Let_def find_row_update terminal_snapshot_def)
qed

lemma pending_operation_finalizes_witness:
  "\<exists>sn d'. commit_tx (finalize_operation ''o1'' sample_terminal ''e1'') sample_reserved_db = Inr (sn, d')"
proof -
  have t: "make_terminal sample_terminal = Inr sample_terminal" by code_simp
  have p: "find_row op_id ''o1'' (db_operations sample_reserved_db) = Some (new_operation sample_rq)"
    "op_state (new_operation sample_rq) = Pending" "op_started_at (new_operation sample_rq) \<le> tm_completed_at sample_terminal"
    "\<forall>q \<in> set (db_quotas sample_reserved_db). qu_consumed q + op_total (new_operation sample_rq) \<le> SIGNED_BIGINT_MAX"
    "''e1'' \<notin> set (map ev_id (db_events sample_reserved_db))"
    "tm_server_request_id sample_terminal \<notin> set (map ev_server_request_id (db_events sample_reserved_db))"
    by code_simp+
  from pending_operation_finalizes [OF sample_reserved_inv t p] show ?thesis by blast
qed

subsection \<open>The terminal step is final and idempotent\<close>

lemma terminal_event_exists:
  assumes "ledger_inv d" and "p \<in> set (db_operations d)" and "op_state p \<noteq> Pending"
  shows "find_row ev_operation (Some (op_id p)) (db_events d) \<noteq> None"
proof -
  have "Some (op_id p) \<in> set (map ev_operation (db_events d))"
    using assms by (auto simp: ledger_inv_def evidence_complete_def list_all_iff)
  then show ?thesis unfolding find_row_None by auto
qed

text \<open>Once an operation is terminal, no later sequence of transactions changes it, and
  finalising it again changes nothing: the call answers with the recorded snapshot when it
  asks for the recorded status, HTTP status and code, and is refused otherwise.\<close>

theorem terminal_operation_final:
  assumes "ledger_inv d" and "find_row op_id k (db_operations d) = Some p" and "op_state p \<noteq> Pending"
    and "d' = run_steps quota_step ops d"
  shows "find_row op_id k (db_operations d') = Some p \<and>
    (if op_state p = op_status_of (tm_status t) \<and> op_http_status p = Some (tm_http_status t) \<and>
        op_code p = Some (tm_code t)
     then \<exists>daily lifetime. finalize_operation k t uuid d' = Inr (terminal_snapshot p daily lifetime, d') \<and>
       daily \<in> set (db_quotas d') \<and> lifetime \<in> set (db_quotas d')
     else finalize_operation k t uuid d' = Inl (QuotaStateError ''terminal operation evidence conflicts''))"
proof -
  have inv: "ledger_inv d'" unfolding assms(4) by (rule ledger.run_inv [OF assms(1)])
  note I = ledger_invD [OF inv]
  note mem = find_row_mem [OF assms(2)]
  obtain p' where p': "p' \<in> set (db_operations d')" "continues p p'"
    using run_continues [OF assms(1) mem(1)] unfolding assms(4) by blast
  then have "p' = p" using assms(3) by (simp add: continues_def)
  then have in': "p \<in> set (db_operations d')" using p'(1) by simp
  then have f: "find_row op_id k (db_operations d') = Some p"
    by (rule find_row_unique [OF usage_tables_distinct(3) [OF I(4)] _ mem(2)])
  obtain daily lifetime where
    lock: "locked_quota_rows (op_client p) (op_started_at p) None d' = Inr ((daily, lifetime), d')"
    by (rule has_rows_locked [OF I(4,2) in'])
  note L = locked_quota_rows_Inr [OF lock]
  show ?thesis
    using f lock assms(3) terminal_event_exists [OF inv in' assms(3)] L(2,3)
    by (auto simp: finalize_operation_def terminal_conflict_def)
qed

lemma sample_finalized_inv: "ledger_inv sample_finalized_db"
  using sample_finalize quota_step_inv [OF sample_reserved_inv, of "Finalize ''o1'' sample_terminal ''e1''"]
  by (auto simp: drop_value_Inr)

lemma terminal_operation_final_witness:
  "find_row op_id ''o1'' (db_operations (run_steps quota_step [Touch ''o1'' 90009] sample_finalized_db)) =
    Some (close_operation sample_terminal (new_operation sample_rq))"
proof -
  have "find_row op_id ''o1'' (db_operations sample_finalized_db) =
      Some (close_operation sample_terminal (new_operation sample_rq))"
    "op_state (close_operation sample_terminal (new_operation sample_rq)) \<noteq> Pending"
    by code_simp+
  from terminal_operation_final [OF sample_finalized_inv this refl] show ?thesis by blast
qed

subsection \<open>A request is admitted once\<close>

lemma locked_quota_rows_create:
  assumes "0 \<le> started"
  shows "\<exists>daily lifetime d'. locked_quota_rows client started (Some (u1, u2)) d = Inr ((daily, lifetime), d')"
proof -
  define e where "e = insert_quota_row_if_missing u2 client Lifetime 0 started
        (insert_quota_row_if_missing u1 client Daily (day_of started) started d)"
  have ex: "\<exists>q \<in> set (db_quotas (insert_quota_row_if_missing u client sc pe started x)). quota_key q = (client, sc, pe)"
    for u sc pe x by (auto simp: insert_quota_row_if_missing_def quota_key_def)
  have keep: "q \<in> set (db_quotas x) \<Longrightarrow> q \<in> set (db_quotas (insert_quota_row_if_missing u c sc pe n x))"
    for q x u c sc pe n by (auto simp: insert_quota_row_if_missing_def)
  obtain a where a: "a \<in> set (db_quotas e)" "quota_key a = (client, Daily, day_of started)"
    using ex [of u1 Daily "day_of started" d] keep unfolding e_def by blast
  obtain b where b: "b \<in> set (db_quotas e)" "quota_key b = (client, Lifetime, 0)"
    using ex [of u2 Lifetime 0] unfolding e_def by blast
  obtain x where x: "by_scope (select_quota_rows client (day_of started) e) Daily = Some x"
    using by_scope_found [of a "select_quota_rows client (day_of started) e" Daily] a
    by (auto simp: select_quota_rows_mem quota_key_def)
  obtain y where y: "by_scope (select_quota_rows client (day_of started) e) Lifetime = Some y"
    using by_scope_found [of b "select_quota_rows client (day_of started) e" Lifetime] b
    by (auto simp: select_quota_rows_mem quota_key_def)
  show ?thesis
    using assms x y unfolding e_def
    by (simp add: locked_quota_rows_def utc_day_start_def Let_def day_of_def [symmetric])
qed

text \<open>C17: a client request identifier is admitted at most once, whatever happens in between.
  A second reservation under it is refused; when the caller passes its checks the refusal
  names the first operation and says whether the request differs, is in progress or is
  completed.\<close>

theorem request_admitted_once:
  assumes "ledger_inv d" and "commit_tx (reserve_operation rq u1 u2) d = Inr (r, d')"
    and "d2 = run_steps quota_step ops d'"
    and "rq_client rq2 = rq_client rq" and "rq_request_id rq2 = rq_request_id rq"
  shows "\<exists>e p. reserve_operation rq2 v1 v2 d2 = Inl e \<and>
    find_row op_id (rq_operation rq) (db_operations d2) = Some p \<and>
    (0 \<le> rq_now rq2 \<longrightarrow> check_reserve_request rq2 = Inr () \<longrightarrow> locked_caller rq2 d2 = Inr (c, k) \<longrightarrow>
     check_caller c k rq2 = Inr () \<longrightarrow>
     e = QuotaAdmissionError
       (if rq_fingerprint rq2 \<noteq> rq_fingerprint rq then ''REQUEST_ID_CONFLICT''
        else if op_state p = Pending then ''REQUEST_IN_PROGRESS''
        else ''REQUEST_ALREADY_COMPLETED'') (Some (rq_operation rq)))"
proof -
  have inv': "ledger_inv d'"
    using quota_step_inv [OF assms(1), of "Reserve rq u1 u2"] assms(2) by (auto simp: drop_value_Inr)
  have inv2: "ledger_inv d2" unfolding assms(3) by (rule ledger.run_inv [OF inv'])
  note dist = usage_tables_distinct [OF ledger_invD(4) [OF inv2]]
  have "reserve_operation rq u1 u2 d = Inr (r, d')" using assms(2) by (simp add: commit_tx_Inr)
  then have "new_operation rq \<in> set (db_operations d')"
    by (rule reserve_operation_Inr) simp
  then obtain p where p: "p \<in> set (db_operations d2)" "continues (new_operation rq) p"
    using run_continues [OF inv'] unfolding assms(3) by blast
  have id: "op_id p = rq_operation rq" "request_key p = (rq_client rq, rq_request_id rq)"
    "op_fingerprint p = rq_fingerprint rq"
    using p(2) by (simp_all add: continues_def new_operation_def request_key_def)
  have byid: "find_row op_id (rq_operation rq) (db_operations d2) = Some p"
    by (rule find_row_unique [OF dist(3) p(1) id(1)])
  have bykey: "find_row request_key (rq_client rq2, rq_request_id rq2) (db_operations d2) = Some p"
    unfolding assms(4,5) by (rule find_row_unique [OF dist(4) p(1) id(2)])
  have new: "check_new_request rq2 x = Inl (raise_for_existing_operation p (rq_fingerprint rq2))"
    if "db_operations x = db_operations d2" for x
    using bykey by (simp add: check_new_request_def that)
  have no: "reserve_operation rq2 v1 v2 d2 \<noteq> Inr z" for z
  proof
    assume "reserve_operation rq2 v1 v2 d2 = Inr z"
    then obtain r2 x where "reserve_operation rq2 v1 v2 d2 = Inr (r2, x)" by (cases z) auto
    then show False
      by (rule reserve_operation_Inr) (auto dest!: locked_quota_rows_db simp: new)
  qed
  then obtain e where e: "reserve_operation rq2 v1 v2 d2 = Inl e"
    by (cases "reserve_operation rq2 v1 v2 d2") auto
  have "e = raise_for_existing_operation p (rq_fingerprint rq2)"
    if "0 \<le> rq_now rq2" "check_reserve_request rq2 = Inr ()" "locked_caller rq2 d2 = Inr (c, k)"
      "check_caller c k rq2 = Inr ()"
  proof -
    note pass = that
    obtain a b x where lock: "locked_quota_rows (rq_client rq2) (rq_now rq2) (Some (v1, v2)) d2 = Inr ((a, b), x)"
      using locked_quota_rows_create [OF pass(1), of "rq_client rq2" v1 v2 d2] by blast
    have "db_operations x = db_operations d2" using locked_quota_rows_db [OF lock] by simp
    from new [OF this] show ?thesis using e pass lock by (simp add: reserve_operation_def)
  qed
  with e byid id(1,3) show ?thesis
    by (intro exI [of _ e] exI [of _ p]) (auto simp: raise_for_existing_operation_def)
qed

lemma request_admitted_once_witness:
  "\<exists>e. reserve_operation (sample_rq\<lparr>rq_operation := ''o2''\<rparr>) ''v1'' ''v2'' sample_reserved_db = Inl e"
proof -
  obtain r where r: "commit_tx (reserve_operation sample_rq ''u1'' ''u2'') sample_db = Inr (r, sample_reserved_db)"
    using sample_reserve by blast
  have "sample_reserved_db = run_steps quota_step [] sample_reserved_db" by simp
  from request_admitted_once [OF sample_db_inv r this, of "sample_rq\<lparr>rq_operation := ''o2''\<rparr>" "''v1''" "''v2''"]
  show ?thesis by (simp add: sample_rq_def) blast
qed

subsection \<open>One event per terminal operation\<close>

lemma filter_key_single:
  assumes "distinct (filter (\<lambda>x. x \<noteq> None) (map g xs))" and "Some k \<in> set (map g xs)"
  shows "\<exists>x. filter (\<lambda>x. g x = Some k) xs = [x] \<and> x \<in> set xs \<and> g x = Some k"
  using assms
proof (induction xs)
  case Nil
  then show ?case by simp
next
  case (Cons y ys)
  show ?case
  proof (cases "g y = Some k")
    case True
    with Cons.prems(1) have "Some k \<notin> set (map g ys)" by (auto simp: True)
    then have "filter (\<lambda>x. g x = Some k) ys = []" by (auto simp: filter_empty_conv image_iff)
    with True show ?thesis by auto
  next
    case False
    with Cons show ?thesis by (auto split: if_splits)
  qed
qed

text \<open>After any run, each terminal operation has exactly one event, which carries the
  status, code, Token counts and times of the operation, and a pending operation has
  none.\<close>

theorem one_event_per_terminal_operation:
  assumes "ledger_inv d" and "p \<in> set (db_operations (run_steps quota_step ops d))"
  shows "filter (\<lambda>e. ev_operation e = Some (op_id p)) (db_events (run_steps quota_step ops d)) = [] \<and>
      op_state p = Pending \<or>
    (\<exists>e. filter (\<lambda>e. ev_operation e = Some (op_id p)) (db_events (run_steps quota_step ops d)) = [e] \<and>
      evidences p e \<and> op_state p \<noteq> Pending)"
proof -
  define d' where "d' = run_steps quota_step ops d"
  have inv: "ledger_inv d'" unfolding d'_def by (rule ledger.run_inv [OF assms(1)])
  note I = ledger_invD [OF inv]
  have p: "p \<in> set (db_operations d')" using assms(2) by (simp add: d'_def)
  have events: "distinct (filter (\<lambda>x. x \<noteq> None) (map ev_operation (db_events d')))"
    using I(4) by (simp add: usage_tables_ok_def)
  show ?thesis
  proof (cases "op_state p = Pending")
    case True
    with no_event_of_pending [OF I(4,2) p] show ?thesis
      by (auto simp: d'_def [symmetric] filter_empty_conv image_iff)
  next
    case False
    have "Some (op_id p) \<in> set (map ev_operation (db_events d'))"
      using I(3) p False by (auto simp: evidence_complete_def list_all_iff)
    then obtain e where e: "filter (\<lambda>e. ev_operation e = Some (op_id p)) (db_events d') = [e]"
      "e \<in> set (db_events d')" "ev_operation e = Some (op_id p)"
      using filter_key_single [OF events] by blast
    have "find_row op_id (op_id p) (db_operations d') = Some p"
      by (rule find_row_unique [OF usage_tables_distinct(3) [OF I(4)] p refl])
    with e(2,3) I(2) have "evidences p e" by (auto simp: ledger_ok_def list_all_iff event_matches_def)
    with e(1) False show ?thesis by (simp add: d'_def)
  qed
qed

lemma one_event_per_terminal_operation_witness:
  "\<exists>e. filter (\<lambda>e. ev_operation e = Some ''o1'') (db_events sample_finalized_db) = [e]"
proof -
  have "close_operation sample_terminal (new_operation sample_rq) \<in>
      set (db_operations (run_steps quota_step [] sample_finalized_db))"
    by code_simp
  from one_event_per_terminal_operation [OF sample_finalized_inv this] show ?thesis
    by (auto simp: sample_terminal_def close_operation_def new_operation_def sample_rq_def)
qed

subsection \<open>An accepted reservation commits\<close>

text \<open>A reservation whose checks pass never fails in the database: with fresh row
  identifiers and a clock after the first day of the epoch, the flushed rows satisfy every
  constraint. (On that first day the daily row would break the check of a positive
  period.)\<close>

theorem reservation_commits:
  assumes "db_ok d" and "reserve_operation rq u1 u2 d = Inr (r, d')"
    and "u1 \<notin> set (map qu_id (db_quotas d))" and "u2 \<notin> set (map qu_id (db_quotas d))" and "u1 \<noteq> u2"
    and "86400 \<le> rq_now rq"
  shows "commit_tx (reserve_operation rq u1 u2) d = Inr (r, d')"
  using reserve_commits [OF assms] assms(2) by (simp add: commit_tx_Inr)

lemma reservation_commits_witness:
  "\<exists>r d'. commit_tx (reserve_operation sample_rq ''u1'' ''u2'') sample_db = Inr (r, d')"
proof -
  obtain r where r: "reserve_operation sample_rq ''u1'' ''u2'' sample_db = Inr (r, sample_reserved_db)"
    using sample_reserve by (auto simp: commit_tx_Inr)
  have "''u1'' \<notin> set (map qu_id (db_quotas sample_db))" "''u2'' \<notin> set (map qu_id (db_quotas sample_db))"
    "''u1'' \<noteq> (''u2'' :: str)" "86400 \<le> rq_now sample_rq"
    by code_simp+
  from reservation_commits [OF ledger_invD(1) [OF sample_db_inv] r this] show ?thesis by blast
qed

end
