(* ===== verification/Redis.thy ===== *)
theory Redis
  imports Prelude
begin

text \<open>
  The shared Redis state and the client helpers of \<open>backend/app/limits/redis.py\<close>. The
  keyspace is typed by the key namespaces of the code: sorted sets (rate windows, leases,
  queues), counters (queue sequence numbers) and strings (nonces), each with its optional
  expiry time in milliseconds. The operations are the Redis commands the Lua scripts and the
  client issue; a command sees a key only while its expiry has not passed, an empty sorted
  set is a missing key, and \<open>PEXPIRE\<close> of a missing key does nothing.

  SHA-256 is the parameter \<open>sha\<close> of the identifiers.
\<close>

subsection \<open>Sorted sets\<close>

type_synonym zset = "(str \<times> int) list"

definition zscore :: "zset \<Rightarrow> str \<Rightarrow> int option" where
  "zscore z m = map_of z m"

definition zcard :: "zset \<Rightarrow> int" where
  "zcard z = int (length z)"

definition zrem :: "str \<Rightarrow> zset \<Rightarrow> zset" where
  "zrem m z = filter (\<lambda>e. fst e \<noteq> m) z"

definition zadd :: "int \<Rightarrow> str \<Rightarrow> zset \<Rightarrow> zset" where
  "zadd s m z = (if m \<in> set (map fst z) then map (\<lambda>e. if fst e = m then (m, s) else e) z else z @ [(m, s)])"

definition zadd_nx :: "int \<Rightarrow> str \<Rightarrow> zset \<Rightarrow> zset" where
  "zadd_nx s m z = (if m \<in> set (map fst z) then z else z @ [(m, s)])"

definition zadd_xx :: "int \<Rightarrow> str \<Rightarrow> zset \<Rightarrow> zset" where
  "zadd_xx s m z = map (\<lambda>e. if fst e = m then (m, s) else e) z"

text \<open>\<open>ZREMRANGEBYSCORE key -inf hi\<close> and \<open>ZRANGEBYSCORE key -inf hi\<close>.\<close>

definition zdrop_upto :: "int \<Rightarrow> zset \<Rightarrow> zset" where
  "zdrop_upto hi z = filter (\<lambda>e. hi < snd e) z"

definition zmembers_upto :: "int \<Rightarrow> zset \<Rightarrow> str list" where
  "zmembers_upto hi z = map fst (sort_key (\<lambda>e. (snd e, fst e)) (filter (\<lambda>e. snd e \<le> hi) z))"

text \<open>\<open>ZRANGE key 0 0 WITHSCORES\<close>, \<open>ZREVRANGE key 0 0 WITHSCORES\<close> and \<open>ZRANK\<close>.\<close>

definition zfirst :: "zset \<Rightarrow> (str \<times> int) option" where
  "zfirst z = (case sort_key (\<lambda>e. (snd e, fst e)) z of [] \<Rightarrow> None | e # _ \<Rightarrow> Some e)"

definition zlast :: "zset \<Rightarrow> (str \<times> int) option" where
  "zlast z = (case rev (sort_key (\<lambda>e. (snd e, fst e)) z) of [] \<Rightarrow> None | e # _ \<Rightarrow> Some e)"

definition zrank :: "zset \<Rightarrow> str \<Rightarrow> int option" where
  "zrank z m = map_option (\<lambda>s. int (length (filter (\<lambda>e. (snd e, fst e) < (s, m)) z))) (zscore z m)"

definition zok :: "zset \<Rightarrow> bool" where
  "zok z \<longleftrightarrow> distinct (map fst z)"

lemma zok_Nil [simp]: "zok []"
  by (simp add: zok_def)

lemma zscore_Some: "zok z \<Longrightarrow> zscore z m = Some s \<longleftrightarrow> (m, s) \<in> set z"
  by (simp add: zok_def zscore_def)

lemma zscore_None: "zscore z m = None \<longleftrightarrow> m \<notin> fst ` set z"
  by (simp add: zscore_def map_of_eq_None_iff)

lemma zok_filter: "zok z \<Longrightarrow> zok (filter P z)"
  by (auto simp: zok_def distinct_map inj_on_def)

lemma zok_ops [simp]: "zok z \<Longrightarrow> zok (zrem m z)" "zok z \<Longrightarrow> zok (zdrop_upto hi z)"
  by (simp_all add: zrem_def zdrop_upto_def zok_filter)

lemma map_fst_update: "map fst (map (\<lambda>e. if fst e = m then (m, s) else e) z) = map fst z"
  by (induction z) auto

lemma zok_zadd_xx [simp]: "zok z \<Longrightarrow> zok (zadd_xx s m z)"
  by (simp only: zok_def zadd_xx_def map_fst_update)

lemma zok_zadd_nx [simp]: "zok z \<Longrightarrow> zok (zadd_nx s m z)"
  by (auto simp: zok_def zadd_nx_def)

lemma zok_zadd [simp]: "zok z \<Longrightarrow> zok (zadd s m z)"
  unfolding zadd_def by (cases "m \<in> set (map fst z)")
    (simp_all only: zok_def map_fst_update if_True if_False, auto)

lemma set_zrem [simp]: "set (zrem m z) = {e \<in> set z. fst e \<noteq> m}"
  by (simp add: zrem_def)

lemma set_zdrop_upto [simp]: "set (zdrop_upto hi z) = {e \<in> set z. hi < snd e}"
  by (simp add: zdrop_upto_def)

lemma set_zadd_nx: "set (zadd_nx s m z) = (if m \<in> fst ` set z then set z else insert (m, s) (set z))"
  by (auto simp: zadd_nx_def)

lemma set_zadd_xx: "set (zadd_xx s m z) = {e \<in> set z. fst e \<noteq> m} \<union> (if m \<in> fst ` set z then {(m, s)} else {})"
  by (auto simp: zadd_xx_def image_iff)

lemma set_zadd: "set (zadd s m z) = insert (m, s) {e \<in> set z. fst e \<noteq> m}"
  by (auto simp: zadd_def image_iff)

lemma zcard_le: "zcard (zrem m z) \<le> zcard z" "zcard (zdrop_upto hi z) \<le> zcard z"
  by (simp_all add: zcard_def zrem_def zdrop_upto_def)

lemma zcard_nonneg [simp]: "0 \<le> zcard z"
  by (simp add: zcard_def)

lemma zcard_zero [simp]: "zcard z = 0 \<longleftrightarrow> z = []"
  by (simp add: zcard_def)

lemma zcard_zadd_xx [simp]: "zcard (zadd_xx s m z) = zcard z"
  by (simp add: zcard_def zadd_xx_def)

lemma zcard_zadd_nx: "zcard (zadd_nx s m z) = (if m \<in> fst ` set z then zcard z else zcard z + 1)"
  by (simp add: zcard_def zadd_nx_def)

lemma zcard_zadd: "zcard (zadd s m z) = (if m \<in> fst ` set z then zcard z else zcard z + 1)"
  by (simp add: zcard_def zadd_def)

lemma zcard_set: "zok z \<Longrightarrow> zcard z = int (card (set z))"
  by (simp add: zok_def zcard_def distinct_map distinct_card)

lemma zrem_absent: "m \<notin> fst ` set z \<Longrightarrow> zrem m z = z"
  by (auto simp: zrem_def filter_id_conv)

text \<open>The first and last entries by score and member.\<close>

lemma zfirst_None [simp]: "zfirst z = None \<longleftrightarrow> z = []"
proof -
  have "sort_key (\<lambda>e. (snd e, fst e)) z = [] \<longleftrightarrow> z = []"
    by (metis set_empty set_sort)
  then show ?thesis by (auto simp: zfirst_def split: list.splits)
qed

lemma zfirst_Some:
  assumes "zfirst z = Some e"
  shows "e \<in> set z" and "\<And>x. x \<in> set z \<Longrightarrow> (snd e, fst e) \<le> (snd x, fst x)"
proof -
  obtain es where s: "sort_key (\<lambda>e. (snd e, fst e)) z = e # es"
    using assms by (auto simp: zfirst_def split: list.splits)
  then have st: "set (e # es) = set z" by (metis set_sort)
  then show "e \<in> set z" by auto
  have "sorted (map (\<lambda>e. (snd e, fst e)) (e # es))"
    by (metis s sorted_sort_key)
  then show "(snd e, fst e) \<le> (snd x, fst x)" if "x \<in> set z" for x
    using that st by auto
qed

lemma zfirst_min: "zfirst z = Some e \<Longrightarrow> x \<in> set z \<Longrightarrow> snd e \<le> snd x"
  using zfirst_Some(2) [of z e x] by (auto simp: less_eq_prod_def)

lemma zlast_None [simp]: "zlast z = None \<longleftrightarrow> z = []"
proof -
  have "rev (sort_key (\<lambda>e. (snd e, fst e)) z) = [] \<longleftrightarrow> z = []"
    by (metis rev_is_Nil_conv set_empty set_sort)
  then show ?thesis by (auto simp: zlast_def split: list.splits)
qed

lemma zlast_Some:
  assumes "zlast z = Some e"
  shows "e \<in> set z" and "\<And>x. x \<in> set z \<Longrightarrow> snd x \<le> snd e"
proof -
  obtain es where s: "rev (sort_key (\<lambda>e. (snd e, fst e)) z) = e # es"
    using assms by (auto simp: zlast_def split: list.splits)
  then have r: "sort_key (\<lambda>e. (snd e, fst e)) z = rev es @ [e]"
    by (metis rev_rev_ident rev.simps(2))
  then have st: "set (es @ [e]) = set z" by (metis set_append set_rev set_sort)
  then show "e \<in> set z" by auto
  have "sorted (map (\<lambda>e. (snd e, fst e)) (rev es @ [e]))"
    by (metis r sorted_sort_key)
  then show "snd x \<le> snd e" if "x \<in> set z" for x
  proof -
    have "x \<in> set es \<or> x = e" using that st by auto
    then show ?thesis using \<open>sorted _\<close> by (auto simp: sorted_append less_eq_prod_def)
  qed
qed

lemma zrank_zero:
  assumes "zok z" and "zscore z m = Some s"
  shows "zrank z m = Some 0 \<longleftrightarrow> (\<forall>e \<in> set z. (s, m) \<le> (snd e, fst e))"
  using assms(2) by (auto simp: zrank_def filter_empty_conv not_less)

lemma zrank_bounds:
  assumes "zrank z m = Some k"
  shows "0 \<le> k" and "k + 1 \<le> zcard z"
proof -
  obtain s where s: "zscore z m = Some s" "k = int (length (filter (\<lambda>e. (snd e, fst e) < (s, m)) z))"
    using assms by (auto simp: zrank_def)
  show "0 \<le> k" using s(2) by simp
  have "(m, s) \<in> set z" using s(1) by (simp add: zscore_def map_of_SomeD)
  then have "length (filter (\<lambda>e. (snd e, fst e) < (s, m)) z) < length z"
    by (intro length_filter_less [of "(m, s)"]) simp_all
  then show "k + 1 \<le> zcard z" using s(2) by (simp add: zcard_def)
qed

subsection \<open>The keyspace\<close>

record redis =
  rd_zsets :: "str \<Rightarrow> (zset \<times> int option) option"
  rd_counters :: "str \<Rightarrow> (int \<times> int option) option"
  rd_strings :: "str \<Rightarrow> (str \<times> int option) option"

definition empty_redis :: redis where
  "empty_redis = \<lparr>rd_zsets = \<lambda>_. None, rd_counters = \<lambda>_. None, rd_strings = \<lambda>_. None\<rparr>"

definition alive :: "int \<Rightarrow> ('v \<times> int option) option \<Rightarrow> ('v \<times> int option) option" where
  "alive now x = (case x of Some (v, Some t) \<Rightarrow> if now \<le> t then x else None | _ \<Rightarrow> x)"

definition zget :: "int \<Rightarrow> str \<Rightarrow> redis \<Rightarrow> zset" where
  "zget now k r = (case alive now (rd_zsets r k) of None \<Rightarrow> [] | Some (z, _) \<Rightarrow> z)"

definition zput :: "int \<Rightarrow> str \<Rightarrow> zset \<Rightarrow> redis \<Rightarrow> redis" where
  "zput now k z r = r\<lparr>rd_zsets := (rd_zsets r)(k :=
     (if z = [] then None
      else Some (z, case alive now (rd_zsets r k) of None \<Rightarrow> None | Some (_, t) \<Rightarrow> t)))\<rparr>"

definition zpexpire :: "int \<Rightarrow> str \<Rightarrow> int \<Rightarrow> redis \<Rightarrow> redis" where
  "zpexpire now k ms r = (case alive now (rd_zsets r k) of None \<Rightarrow> r
     | Some (z, _) \<Rightarrow> r\<lparr>rd_zsets := (rd_zsets r)(k := Some (z, Some (now + ms)))\<rparr>)"

definition incr :: "int \<Rightarrow> str \<Rightarrow> redis \<Rightarrow> int \<times> redis" where
  "incr now k r = (let (v, t) = (case alive now (rd_counters r k) of None \<Rightarrow> (0, None) | Some (v, t) \<Rightarrow> (v, t))
     in (v + 1, r\<lparr>rd_counters := (rd_counters r)(k \<mapsto> (v + 1, t))\<rparr>))"

definition cpexpire :: "int \<Rightarrow> str \<Rightarrow> int \<Rightarrow> redis \<Rightarrow> redis" where
  "cpexpire now k ms r = (case alive now (rd_counters r k) of None \<Rightarrow> r
     | Some (v, _) \<Rightarrow> r\<lparr>rd_counters := (rd_counters r)(k \<mapsto> (v, Some (now + ms)))\<rparr>)"

text \<open>\<open>SET key value EX seconds NX\<close>; the reply says whether the key was set.\<close>

definition set_nx_ex :: "int \<Rightarrow> str \<Rightarrow> str \<Rightarrow> int \<Rightarrow> redis \<Rightarrow> bool \<times> redis" where
  "set_nx_ex now k v seconds r = (case alive now (rd_strings r k) of
     Some _ \<Rightarrow> (False, r)
   | None \<Rightarrow> (True, r\<lparr>rd_strings := (rd_strings r)(k \<mapsto> (v, Some (now + seconds * 1000)))\<rparr>))"

definition zttl :: "int \<Rightarrow> str \<Rightarrow> redis \<Rightarrow> int option" where
  "zttl now k r = (case alive now (rd_zsets r k) of None \<Rightarrow> None | Some (_, t) \<Rightarrow> t)"

lemma zget_zput [simp]: "zget now k (zput now j z r) = (if k = j then z else zget now k r)"
  by (auto simp: zget_def zput_def alive_def split: option.splits)

lemma zget_zpexpire [simp]: "0 \<le> ms \<Longrightarrow> zget now k (zpexpire now j ms r) = zget now k r"
  by (auto simp: zget_def zpexpire_def alive_def split: option.splits)

lemma zttl_zput [simp]: "zttl now k (zput now j z r) =
    (if k = j then (if z = [] then None else zttl now k r) else zttl now k r)"
  by (auto simp: zttl_def zput_def alive_def split: option.splits)

lemma zttl_zpexpire: "0 \<le> ms \<Longrightarrow> zttl now k (zpexpire now j ms r) =
    (if k = j \<and> alive now (rd_zsets r k) \<noteq> None then Some (now + ms) else zttl now k r)"
  by (auto simp: zttl_def zpexpire_def alive_def split: option.splits)

lemma alive_zput: "alive now (rd_zsets (zput now k z r) k) \<noteq> None \<longleftrightarrow> z \<noteq> []"
  by (auto simp: zput_def alive_def split: option.splits)

text \<open>A key as time passes: it stays as it was until its expiry.\<close>

lemma zget_later:
  "now \<le> later \<Longrightarrow> zget later k r = (case zttl now k r of Some t \<Rightarrow> if later \<le> t then zget now k r else []
    | None \<Rightarrow> zget now k r)"
  by (auto simp: zget_def zttl_def alive_def split: option.splits)

subsection \<open>Identifiers, keys and replies\<close>

definition redis_identifier :: "(str \<Rightarrow> str) \<Rightarrow> str \<Rightarrow> str res" where
  "redis_identifier sha value =
    (if value = [] \<or> py_len value > 4096
       then Inl (ValueError ''Redis identifiers must be bounded non-empty text'')
     else Inr (sha value))"

fun collect_res :: "'a res list \<Rightarrow> 'a list res" where
  "collect_res [] = Inr []"
| "collect_res (x # xs) = bind_res x (\<lambda>y. bind_res (collect_res xs) (\<lambda>ys. Inr (y # ys)))"

fun join_with :: "str \<Rightarrow> str list \<Rightarrow> str" where
  "join_with sep [] = []"
| "join_with sep [x] = x"
| "join_with sep (x # y # ys) = x @ sep @ join_with sep (y # ys)"

definition is_namespace_char :: "char \<Rightarrow> bool" where
  "is_namespace_char c \<longleftrightarrow> is_lower_alpha c \<or> c = CHR ''_''"

definition build_redis_key :: "(str \<Rightarrow> str) \<Rightarrow> str \<Rightarrow> str list \<Rightarrow> str res" where
  "build_redis_key sha namespace identifiers =
    (if \<not> full_class is_namespace_char 1 32 namespace \<or> identifiers = []
       then Inl (ValueError ''invalid Redis key namespace or identifiers'')
     else bind_res (collect_res (map (redis_identifier sha) identifiers)) (\<lambda>suffix.
       Inr (''zangpu:v1:'' @ namespace @ '':'' @ join_with '':'' suffix)))"

text \<open>A reply, as the Redis client hands it out.\<close>

datatype reply =
    Reply_int int
  | Reply_bytes str
  | Reply_nil
  | Reply_bool bool
  | Reply_list "reply list"

fun digits_value :: "int \<Rightarrow> bool \<Rightarrow> str \<Rightarrow> int option" where
  "digits_value acc ok [] = (if ok then Some acc else None)"
| "digits_value acc ok (c # cs) =
    (if is_digit c then digits_value (10 * acc + (of_char c - 48)) True cs
     else if c = CHR ''_'' \<and> ok then (case cs of d # _ \<Rightarrow> if is_digit d then digits_value acc False cs else None | [] \<Rightarrow> None)
     else None)"

definition is_space :: "char \<Rightarrow> bool" where
  "is_space c \<longleftrightarrow> c = CHR '' '' \<or> (9 \<le> (of_char c :: nat) \<and> (of_char c :: nat) \<le> 13)"

definition strip_spaces :: "str \<Rightarrow> str" where
  "strip_spaces s = rev (dropWhile is_space (rev (dropWhile is_space s)))"

text \<open>\<open>int(item)\<close> of an integer, a boolean or the bytes of a decimal literal.\<close>

definition py_int :: "reply \<Rightarrow> int option" where
  "py_int v = (case v of
     Reply_int n \<Rightarrow> Some n
   | Reply_bool b \<Rightarrow> Some (if b then 1 else 0)
   | Reply_bytes s \<Rightarrow>
       (case strip_spaces s of
          c # cs \<Rightarrow> if c = CHR ''-'' then map_option uminus (digits_value 0 False cs)
                    else if c = CHR ''+'' then digits_value 0 False cs
                    else digits_value 0 False (c # cs)
        | [] \<Rightarrow> None)
   | _ \<Rightarrow> None)"

fun py_ints :: "reply list \<Rightarrow> int list option" where
  "py_ints [] = Some []"
| "py_ints (x # xs) = (case (py_int x, py_ints xs) of (Some n, Some ns) \<Rightarrow> Some (n # ns) | _ \<Rightarrow> None)"

definition parse_integer_sequence :: "reply \<Rightarrow> nat \<Rightarrow> int list res" where
  "parse_integer_sequence value n = (case value of
     Reply_list xs \<Rightarrow>
       if length xs \<noteq> n then Inl ControlPlaneUnavailable
       else (case py_ints xs of Some ns \<Rightarrow> Inr ns | None \<Rightarrow> Inl ControlPlaneUnavailable)
   | _ \<Rightarrow> Inl ControlPlaneUnavailable)"

definition ints_reply :: "int list \<Rightarrow> reply" where
  "ints_reply ns = Reply_list (map Reply_int ns)"

lemma parse_ints_reply [simp]:
  "parse_integer_sequence (ints_reply ns) n = (if length ns = n then Inr ns else Inl ControlPlaneUnavailable)"
proof -
  have "py_ints (map Reply_int ns) = Some ns" by (induction ns) (simp_all add: py_int_def)
  then show ?thesis by (simp add: parse_integer_sequence_def ints_reply_def)
qed

text \<open>
  A call over the network: the server executes the command and answers, or the connection
  fails before or after the command took effect. \<open>fail_closed\<close> turns the client's
  exception into \<open>ControlPlaneUnavailable\<close>.
\<close>

datatype link = Link_up | Lost_request | Lost_reply

definition fail_closed :: "link \<Rightarrow> (redis \<Rightarrow> 'a \<times> redis) \<Rightarrow> redis \<Rightarrow> 'a res \<times> redis" where
  "fail_closed l command r = (case l of
     Link_up \<Rightarrow> (case command r of (v, r') \<Rightarrow> (Inr v, r'))
   | Lost_request \<Rightarrow> (Inl ControlPlaneUnavailable, r)
   | Lost_reply \<Rightarrow> (Inl ControlPlaneUnavailable, snd (command r)))"

lemma fail_closed_state: "snd (fail_closed l command r) \<in> {r, snd (command r)}"
  by (auto simp: fail_closed_def split: link.splits prod.splits)

lemma fail_closed_Inr: "fail_closed l command r = (Inr v, r') \<longleftrightarrow> l = Link_up \<and> command r = (v, r')"
  by (auto simp: fail_closed_def split: link.splits prod.splits)

subsection \<open>Keys of distinct identifiers differ\<close>

lemma collect_res_Inr: "collect_res xs = Inr ys \<longleftrightarrow> xs = map Inr ys"
proof (induction xs arbitrary: ys)
  case (Cons x xs)
  then show ?case by (cases ys) (auto simp: bind_res_Inr)
qed auto

lemma build_redis_key_single:
  "build_redis_key sha ns [i] = Inr k \<longleftrightarrow>
    full_class is_namespace_char 1 32 ns \<and> i \<noteq> [] \<and> py_len i \<le> 4096 \<and> k = ''zangpu:v1:'' @ ns @ '':'' @ sha i"
  by (auto simp: build_redis_key_def redis_identifier_def bind_res_Inr)

end
