(* ===== verification/Rate_Limits.thy ===== *)
theory Rate_Limits
  imports Redis
begin

text \<open>
  The nonce guard, the sliding request window and the concurrency leases,
  \<open>backend/app/limits/nonce.py\<close>, \<open>qps.py\<close> and \<open>concurrency.py\<close>, with the Lua scripts
  they run. A script is a function of the server time \<open>now\<close> in milliseconds and of the
  Redis state; a wrapper validates its arguments, derives the key, runs the script over a
  link that may fail, and validates the reply.
\<close>

definition run_ints :: "link \<Rightarrow> (redis \<Rightarrow> reply \<times> redis) \<Rightarrow> nat \<Rightarrow> redis \<Rightarrow> int list res \<times> redis" where
  "run_ints l script n r = (case fail_closed l script r of
     (Inl e, r') \<Rightarrow> (Inl e, r')
   | (Inr v, r') \<Rightarrow> (parse_integer_sequence v n, r'))"

lemma run_ints_state: "snd (run_ints l script n r) \<in> {r, snd (script r)}"
  using fail_closed_state [of l script r] by (auto simp: run_ints_def split: prod.splits sum.splits)

subsection \<open>Nonces\<close>

definition nonce_guard :: "int \<Rightarrow> int res" where
  "nonce_guard ttl_seconds =
    (if \<not> (60 \<le> ttl_seconds \<and> ttl_seconds \<le> 86400)
       then Inl (ValueError ''nonce TTL must be between 60 and 86400 seconds'')
     else Inr ttl_seconds)"

definition claim :: "(str \<Rightarrow> str) \<Rightarrow> int \<Rightarrow> link \<Rightarrow> int \<Rightarrow> str \<Rightarrow> str \<Rightarrow> str \<Rightarrow> redis \<Rightarrow> bool res \<times> redis" where
  "claim sha ttl_seconds l now client credential nonce r =
    (case build_redis_key sha ''nonce'' [client, credential, nonce] of
       Inl e \<Rightarrow> (Inl e, r)
     | Inr key \<Rightarrow>
         (case fail_closed l (\<lambda>r. case set_nx_ex now key ''1'' ttl_seconds r of
              (True, r') \<Rightarrow> (Reply_bool True, r') | (False, r') \<Rightarrow> (Reply_nil, r')) r of
            (Inl e, r') \<Rightarrow> (Inl e, r')
          | (Inr result, r') \<Rightarrow>
              (case result of
                 Reply_bool True \<Rightarrow> Inr True
               | Reply_nil \<Rightarrow> Inr False
               | Reply_bool False \<Rightarrow> Inr False
               | _ \<Rightarrow> Inl ControlPlaneUnavailable, r')))"

subsection \<open>Requests per second\<close>

record qps_decision =
  qd_allowed :: bool
  qd_count :: int
  qd_limit :: int
  qd_remaining :: int
  qd_reset_at :: int
  qd_observed_at :: int

definition qps_window :: "int \<Rightarrow> int res" where
  "qps_window window_milliseconds =
    (if \<not> (100 \<le> window_milliseconds \<and> window_milliseconds \<le> 60000)
       then Inl (ValueError ''QPS window must be between 100 and 60000 milliseconds'')
     else Inr window_milliseconds)"

definition qps_script :: "int \<Rightarrow> int \<Rightarrow> str \<Rightarrow> int \<Rightarrow> str \<Rightarrow> redis \<Rightarrow> reply \<times> redis" where
  "qps_script window limit member now key r =
    (let z = zdrop_upto (now - window) (zget now key r);
         allowed = zcard z < limit;
         z' = (if allowed then zadd now member z else z);
         r' = zpexpire now key window (zput now key z' r);
         reset_at = (case zfirst z' of Some e \<Rightarrow> snd e + window | None \<Rightarrow> now + window)
     in (ints_reply [if allowed then 1 else 0, zcard z', reset_at, now], r'))"

definition qps_reply :: "int \<Rightarrow> int list \<Rightarrow> qps_decision res" where
  "qps_reply limit ns = (case ns of
     [allowed_value, count, reset_at, observed_at] \<Rightarrow>
       if allowed_value \<notin> {0, 1} \<or> count < 0 \<or> reset_at < observed_at then Inl ControlPlaneUnavailable
       else Inr \<lparr>qd_allowed = (allowed_value \<noteq> 0), qd_count = count, qd_limit = limit,
              qd_remaining = max (limit - count) 0, qd_reset_at = reset_at, qd_observed_at = observed_at\<rparr>
   | _ \<Rightarrow> Inl ControlPlaneUnavailable)"

definition qps_admit :: "(str \<Rightarrow> str) \<Rightarrow> int \<Rightarrow> link \<Rightarrow> int \<Rightarrow> str \<Rightarrow> str \<Rightarrow> int \<Rightarrow> redis \<Rightarrow>
    qps_decision res \<times> redis" where
  "qps_admit sha window l now client server_request_id limit r =
    (if \<not> (1 \<le> limit \<and> limit \<le> 1000000)
       then (Inl (ValueError ''QPS limit must be between 1 and 1000000''), r)
     else case bind_res (build_redis_key sha ''qps'' [client]) (\<lambda>key.
                 bind_res (redis_identifier sha server_request_id) (\<lambda>member. Inr (key, member))) of
       Inl e \<Rightarrow> (Inl e, r)
     | Inr (key, member) \<Rightarrow>
         (case run_ints l (qps_script window limit member now key) 4 r of
            (ns, r') \<Rightarrow> (bind_res ns (qps_reply limit), r')))"

subsection \<open>Concurrency leases\<close>

record lease_decision =
  ld_allowed :: bool
  ld_count :: int
  ld_limit :: int
  ld_remaining :: int
  ld_expires_at :: int
  ld_observed_at :: int

record lease_snapshot =
  ls_occupied :: int
  ls_limit :: int
  ls_remaining :: int
  ls_saturated :: bool
  ls_next_expires_at :: int
  ls_last_expires_at :: int
  ls_observed_at :: int

definition lease_milliseconds :: "int \<Rightarrow> int res" where
  "lease_milliseconds lease_seconds =
    (if \<not> (1 \<le> lease_seconds \<and> lease_seconds \<le> 900)
       then Inl (ValueError ''concurrency lease must be between 1 and 900 seconds'')
     else Inr (lease_seconds * 1000))"

definition acquire_script :: "int \<Rightarrow> int \<Rightarrow> str \<Rightarrow> int \<Rightarrow> str \<Rightarrow> redis \<Rightarrow> reply \<times> redis" where
  "acquire_script lease limit member now key r =
    (let z = zdrop_upto now (zget now key r);
         r1 = zput now key z r
     in case zscore z member of
          Some expiry \<Rightarrow> (ints_reply [1, zcard z, expiry, now], zpexpire now key lease r1)
        | None \<Rightarrow>
            if limit \<le> zcard z then
              (ints_reply [0, zcard z, case zfirst z of Some e \<Rightarrow> snd e | None \<Rightarrow> now + lease, now],
               zpexpire now key lease r1)
            else
              let z' = zadd_nx (now + lease) member z
              in (ints_reply [1, zcard z', now + lease, now],
                  zpexpire now key lease (zput now key z' r1)))"

definition heartbeat_script :: "int \<Rightarrow> str \<Rightarrow> int \<Rightarrow> str \<Rightarrow> redis \<Rightarrow> reply \<times> redis" where
  "heartbeat_script lease member now key r =
    (let z = zget now key r;
         lost = (ints_reply [0, now, now], zput now key (zrem member z) r)
     in case zscore z member of
          None \<Rightarrow> lost
        | Some expiry \<Rightarrow>
            if expiry \<le> now then lost
            else (ints_reply [1, now + lease, now],
                  zpexpire now key lease (zput now key (zadd_xx (now + lease) member z) r)))"

definition observe_script :: "int \<Rightarrow> str \<Rightarrow> redis \<Rightarrow> reply \<times> redis" where
  "observe_script now key r =
    (let z = zdrop_upto now (zget now key r);
         r' = zput now key z r
     in case (zfirst z, zlast z) of
          (Some a, Some b) \<Rightarrow> (ints_reply [zcard z, snd a, snd b, now], r')
        | _ \<Rightarrow> (ints_reply [0, now, now, now], r'))"

definition release_script :: "str \<Rightarrow> int \<Rightarrow> str \<Rightarrow> redis \<Rightarrow> reply \<times> redis" where
  "release_script member now key r =
    (let z = zget now key r
     in (Reply_int (if zscore z member = None then 0 else 1), zput now key (zrem member z) r))"

definition lease_key_and_member :: "(str \<Rightarrow> str) \<Rightarrow> str \<Rightarrow> str \<Rightarrow> str \<Rightarrow> (str \<times> str) res" where
  "lease_key_and_member sha namespace owner operation_id =
    bind_res (build_redis_key sha namespace [owner]) (\<lambda>key.
      bind_res (redis_identifier sha operation_id) (\<lambda>member. Inr (key, member)))"

definition acquire_reply :: "int \<Rightarrow> int list \<Rightarrow> lease_decision res" where
  "acquire_reply limit ns = (case ns of
     [allowed_value, count, expires_at, observed_at] \<Rightarrow>
       if allowed_value \<notin> {0, 1} \<or> count < 0 \<or> expires_at < observed_at then Inl ControlPlaneUnavailable
       else Inr \<lparr>ld_allowed = (allowed_value \<noteq> 0), ld_count = count, ld_limit = limit,
              ld_remaining = max (limit - count) 0, ld_expires_at = expires_at, ld_observed_at = observed_at\<rparr>
   | _ \<Rightarrow> Inl ControlPlaneUnavailable)"

definition conc_acquire :: "(str \<Rightarrow> str) \<Rightarrow> int \<Rightarrow> link \<Rightarrow> int \<Rightarrow> str \<Rightarrow> str \<Rightarrow> int \<Rightarrow> redis \<Rightarrow>
    lease_decision res \<times> redis" where
  "conc_acquire sha lease l now client operation_id limit r =
    (if \<not> (1 \<le> limit \<and> limit \<le> 1000000)
       then (Inl (ValueError ''concurrency limit must be between 1 and 1000000''), r)
     else case lease_key_and_member sha ''concurrency'' client operation_id of
       Inl e \<Rightarrow> (Inl e, r)
     | Inr (key, member) \<Rightarrow>
         (case run_ints l (acquire_script lease limit member now key) 4 r of
            (ns, r') \<Rightarrow> (bind_res ns (acquire_reply limit), r')))"

definition heartbeat_reply :: "int list \<Rightarrow> bool res" where
  "heartbeat_reply ns = (case ns of
     [extended, expires_at, observed_at] \<Rightarrow>
       if extended \<notin> {0, 1} \<or> expires_at < observed_at then Inl ControlPlaneUnavailable
       else Inr (extended \<noteq> 0)
   | _ \<Rightarrow> Inl ControlPlaneUnavailable)"

definition conc_heartbeat :: "(str \<Rightarrow> str) \<Rightarrow> int \<Rightarrow> link \<Rightarrow> int \<Rightarrow> str \<Rightarrow> str \<Rightarrow> redis \<Rightarrow> bool res \<times> redis" where
  "conc_heartbeat sha lease l now client operation_id r =
    (case lease_key_and_member sha ''concurrency'' client operation_id of
       Inl e \<Rightarrow> (Inl e, r)
     | Inr (key, member) \<Rightarrow>
         (case run_ints l (heartbeat_script lease member now key) 3 r of
            (ns, r') \<Rightarrow> (bind_res ns heartbeat_reply, r')))"

definition observe_reply :: "int \<Rightarrow> int list \<Rightarrow> lease_snapshot res" where
  "observe_reply limit ns = (case ns of
     [occupied, next_expiry, last_expiry, observed_at] \<Rightarrow>
       if occupied < 0 \<or> next_expiry < observed_at \<or> last_expiry < next_expiry \<or>
          (occupied = 0 \<and> (next_expiry \<noteq> observed_at \<or> last_expiry \<noteq> observed_at))
         then Inl ControlPlaneUnavailable
       else Inr \<lparr>ls_occupied = occupied, ls_limit = limit, ls_remaining = max (limit - occupied) 0,
              ls_saturated = (limit \<le> occupied), ls_next_expires_at = next_expiry,
              ls_last_expires_at = last_expiry, ls_observed_at = observed_at\<rparr>
   | _ \<Rightarrow> Inl ControlPlaneUnavailable)"

definition conc_observe :: "(str \<Rightarrow> str) \<Rightarrow> link \<Rightarrow> int \<Rightarrow> str \<Rightarrow> int \<Rightarrow> redis \<Rightarrow> lease_snapshot res \<times> redis" where
  "conc_observe sha l now client limit r =
    (if \<not> (1 \<le> limit \<and> limit \<le> 1000000)
       then (Inl (ValueError ''concurrency limit must be between 1 and 1000000''), r)
     else case lease_key_and_member sha ''concurrency'' client ''observation'' of
       Inl e \<Rightarrow> (Inl e, r)
     | Inr (key, _) \<Rightarrow>
         (case run_ints l (observe_script now key) 4 r of
            (ns, r') \<Rightarrow> (bind_res ns (observe_reply limit), r')))"

definition removed_reply :: "reply \<Rightarrow> bool res" where
  "removed_reply v = (case py_int v of
     None \<Rightarrow> Inl ControlPlaneUnavailable
   | Some removed \<Rightarrow> if removed \<notin> {0, 1} then Inl ControlPlaneUnavailable else Inr (removed \<noteq> 0))"

definition conc_release :: "(str \<Rightarrow> str) \<Rightarrow> link \<Rightarrow> int \<Rightarrow> str \<Rightarrow> str \<Rightarrow> redis \<Rightarrow> bool res \<times> redis" where
  "conc_release sha l now client operation_id r =
    (case lease_key_and_member sha ''concurrency'' client operation_id of
       Inl e \<Rightarrow> (Inl e, r)
     | Inr (key, member) \<Rightarrow>
         (case fail_closed l (release_script member now key) r of
            (v, r') \<Rightarrow> (bind_res v removed_reply, r')))"

end
