(* ===== verification/Rate_Limits_Properties.thy ===== *)
theory Rate_Limits_Properties
  imports Rate_Limits
begin

text \<open>
  Properties of the distributed limits. The lease scripts are one state machine on a sorted
  set and its expiry, shared by the concurrency limiter and the active set of a model pool;
  its invariant bounds the leases and keeps the expiry of the key behind every lease. The
  request window is related to the log of the requests it admitted.
\<close>

subsection \<open>The lease machine\<close>

datatype lease_op = Lease_acquire str | Lease_heartbeat str | Lease_release str | Lease_observe

fun lease_script :: "int \<Rightarrow> int \<Rightarrow> str \<Rightarrow> lease_op \<Rightarrow> int \<Rightarrow> redis \<Rightarrow> reply \<times> redis" where
  "lease_script lease limit key (Lease_acquire m) now r = acquire_script lease limit m now key r"
| "lease_script lease limit key (Lease_heartbeat m) now r = heartbeat_script lease m now key r"
| "lease_script lease limit key (Lease_release m) now r = release_script m now key r"
| "lease_script lease limit key Lease_observe now r = observe_script now key r"

text \<open>A state is the time of the last command and the keyspace; the clock of the server does
  not run backwards.\<close>

definition lease_step :: "int \<Rightarrow> int \<Rightarrow> str \<Rightarrow> int \<times> lease_op \<Rightarrow> int \<times> redis \<Rightarrow> unit + int \<times> redis" where
  "lease_step lease limit key c s =
    (if fst c < fst s then Inl () else Inr (fst c, snd (lease_script lease limit key (snd c) (fst c) (snd s))))"

definition lease_inv :: "int \<Rightarrow> int \<Rightarrow> str \<Rightarrow> int \<times> redis \<Rightarrow> bool" where
  "lease_inv lease limit key s \<longleftrightarrow>
    (let z = zget (fst s) key (snd s) in
       zok z \<and> zcard z \<le> limit \<and>
       (\<forall>e \<in> set z. \<exists>t. zttl (fst s) key (snd s) = Some t \<and> snd e \<le> t \<and> t \<le> fst s + lease))"

lemma lease_inv_later:
  assumes "lease_inv lease limit key (t, r)" and "t \<le> now" and "0 \<le> limit"
  shows "zok (zget now key r)" "zcard (zget now key r) \<le> limit"
    "e \<in> set (zget now key r) \<Longrightarrow> \<exists>t. zttl now key r = Some t \<and> snd e \<le> t \<and> t \<le> now + lease"
    "e \<in> set (zget t key r) \<Longrightarrow> now < snd e \<Longrightarrow> e \<in> set (zget now key r)"
proof -
  have I: "zok (zget t key r)" "zcard (zget t key r) \<le> limit"
    "\<And>e. e \<in> set (zget t key r) \<Longrightarrow> \<exists>u. zttl t key r = Some u \<and> snd e \<le> u \<and> u \<le> t + lease"
    using assms(1) by (auto simp: lease_inv_def Let_def)
  show "zok (zget now key r)" "zcard (zget now key r) \<le> limit"
    using I(1,2) assms(3) by (auto simp: zget_later [OF assms(2)] zcard_def split: option.splits)
  show "e \<in> set (zget now key r) \<Longrightarrow> \<exists>t. zttl now key r = Some t \<and> snd e \<le> t \<and> t \<le> now + lease"
    using I(3) [of e] assms(2)
    by (auto simp: zget_def zttl_def alive_def split: option.splits if_splits)
  show "e \<in> set (zget now key r)" if "e \<in> set (zget t key r)" "now < snd e"
    using I(3) [OF that(1)] that by (auto simp: zget_later [OF assms(2)])
qed

lemma alive_zpexpire [simp]:
  "0 \<le> ms \<Longrightarrow> (alive now (rd_zsets (zpexpire now j ms r) k) = None) = (alive now (rd_zsets r k) = None)"
  by (auto simp: zpexpire_def alive_def split: option.splits)

lemma alive_zput_iff [simp]:
  "(alive now (rd_zsets (zput now k z r) k) = None) = (z = [])"
  using alive_zput by blast

lemma zttl_touch:
  "0 \<le> ms \<Longrightarrow> z \<noteq> [] \<Longrightarrow> zttl now k (zpexpire now k ms (zput now k z r)) = Some (now + ms)"
  by (auto simp: zttl_zpexpire alive_zput)

lemma zadd_Nil [simp]: "zadd_nx s m z \<noteq> []" "zadd_xx s m z = [] \<longleftrightarrow> z = []" "zadd s m z \<noteq> []"
  by (auto simp: zadd_nx_def zadd_xx_def zadd_def)

text \<open>What each script leaves in the set, and the expiry of its key.\<close>

lemma acquire_effect:
  assumes "0 < lease" and "acquire_script lease limit m now key r = (v, r')"
  shows "zget now key r' = (let z = zdrop_upto now (zget now key r) in
      if zscore z m = None \<and> zcard z < limit then zadd_nx (now + lease) m z else z)"
    and "zget now key r' \<noteq> [] \<Longrightarrow> zttl now key r' = Some (now + lease)"
  using assms
  by (auto simp: acquire_script_def Let_def zttl_touch zttl_zpexpire split: option.splits if_splits)

definition holds_lease :: "int \<Rightarrow> str \<Rightarrow> zset \<Rightarrow> bool" where
  "holds_lease now m z \<longleftrightarrow> (case zscore z m of None \<Rightarrow> False | Some e \<Rightarrow> now < e)"

lemma heartbeat_effect:
  assumes "0 < lease" and "heartbeat_script lease m now key r = (v, r')"
  shows "zget now key r' = (let z = zget now key r in
      if holds_lease now m z then zadd_xx (now + lease) m z else zrem m z)"
    and "zget now key r' \<noteq> [] \<Longrightarrow> zttl now key r' =
      (if holds_lease now m (zget now key r) then Some (now + lease) else zttl now key r)"
  using assms
  by (auto simp: heartbeat_script_def holds_lease_def Let_def zttl_touch zttl_zpexpire
      split: option.splits if_splits)

lemma release_effect:
  assumes "release_script m now key r = (v, r')"
  shows "zget now key r' = zrem m (zget now key r)"
    and "zget now key r' \<noteq> [] \<Longrightarrow> zttl now key r' = zttl now key r"
  using assms by (auto simp: release_script_def Let_def)

lemma observe_effect:
  assumes "observe_script now key r = (v, r')"
  shows "zget now key r' = zdrop_upto now (zget now key r)"
    and "zget now key r' \<noteq> [] \<Longrightarrow> zttl now key r' = zttl now key r"
  using assms by (auto simp: observe_script_def Let_def split: option.splits)

lemmas lease_effects = acquire_effect heartbeat_effect release_effect observe_effect

text \<open>Either the expiry is renewed and the only new entries are fresh ones, or entries are
  dropped under the old expiry.\<close>

lemma lease_script_effect:
  assumes "0 < lease" and "lease_script lease limit key a now r = (v, r')"
  shows "zok (zget now key r) \<Longrightarrow> zok (zget now key r')"
    and "zcard (zget now key r) \<le> limit \<Longrightarrow> zcard (zget now key r') \<le> limit"
    and "e \<in> set (zget now key r') \<Longrightarrow> e \<in> set (zget now key r) \<or> snd e = now + lease \<and>
      zttl now key r' = Some (now + lease)"
    and "zget now key r' \<noteq> [] \<Longrightarrow> zttl now key r' = Some (now + lease) \<or> zttl now key r' = zttl now key r"
proof -
  have drop: "zcard (zdrop_upto now z) \<le> n" "zcard (zrem m z) \<le> n" if "zcard z \<le> n" for z m n
    using that zcard_le [of _ z] order_trans by blast+
  have "(zok (zget now key r) \<longrightarrow> zok (zget now key r')) \<and>
    (zcard (zget now key r) \<le> limit \<longrightarrow> zcard (zget now key r') \<le> limit) \<and>
    (\<forall>e \<in> set (zget now key r'). e \<in> set (zget now key r) \<or> snd e = now + lease \<and>
      zttl now key r' = Some (now + lease)) \<and>
    (zget now key r' \<noteq> [] \<longrightarrow> zttl now key r' = Some (now + lease) \<or> zttl now key r' = zttl now key r)"
  proof (cases a)
    case (Lease_acquire m)
    with assms(2) have "acquire_script lease limit m now key r = (v, r')" by simp
    note E = acquire_effect [OF assms(1) this]
    show ?thesis
      using E(2) drop(1) [of "zget now key r" limit] unfolding E(1) Let_def
      by (auto simp: zcard_zadd_nx set_zadd_nx)
  next
    case (Lease_heartbeat m)
    with assms(2) have "heartbeat_script lease m now key r = (v, r')" by simp
    note E = heartbeat_effect [OF assms(1) this]
    show ?thesis
      using E(2) drop(2) [of "zget now key r" limit] unfolding E(1) Let_def
      by (cases "zget now key r = []") (auto simp: set_zadd_xx split: if_splits)
  next
    case (Lease_release m)
    with assms(2) have "release_script m now key r = (v, r')" by simp
    note E = release_effect [OF this]
    show ?thesis
      using E(2) drop(2) [of "zget now key r" limit] unfolding E(1) by auto
  next
    case Lease_observe
    with assms(2) have "observe_script now key r = (v, r')" by simp
    note E = observe_effect [OF this]
    show ?thesis
      using E(2) drop(1) [of "zget now key r" limit] unfolding E(1) by auto
  qed
  then show "zok (zget now key r) \<Longrightarrow> zok (zget now key r')"
    "zcard (zget now key r) \<le> limit \<Longrightarrow> zcard (zget now key r') \<le> limit"
    "e \<in> set (zget now key r') \<Longrightarrow> e \<in> set (zget now key r) \<or> snd e = now + lease \<and>
      zttl now key r' = Some (now + lease)"
    "zget now key r' \<noteq> [] \<Longrightarrow> zttl now key r' = Some (now + lease) \<or> zttl now key r' = zttl now key r"
    by blast+
qed

lemma lease_script_inv:
  assumes lease: "0 < lease" and limit: "0 < limit" and inv: "lease_inv lease limit key (t, r)" and "t \<le> now"
    and res: "lease_script lease limit key a now r = (v, r')"
  shows "lease_inv lease limit key (now, r')"
proof -
  note I = lease_inv_later [OF inv assms(4) less_imp_le [OF limit]]
  note E = lease_script_effect [OF lease res]
  have k: "\<exists>u. zttl now key r' = Some u \<and> snd e \<le> u \<and> u \<le> now + lease" if e: "e \<in> set (zget now key r')" for e
  proof -
    have "zget now key r' \<noteq> []" using e by auto
    from E(4) [OF this] E(3) [OF e] I(3) [of e] show ?thesis by auto
  qed
  show ?thesis using E(1,2) I(1,2) k by (simp add: lease_inv_def Let_def)
qed

text \<open>A lease that has been granted is held until it runs out or is released.\<close>

lemma holds_lease_iff: "zok z \<Longrightarrow> holds_lease now m z \<longleftrightarrow> (\<exists>e. (m, e) \<in> set z \<and> now < e)"
  by (auto simp: holds_lease_def zscore_Some [symmetric] split: option.splits)

lemma lease_script_keeps:
  assumes lease: "0 < lease" and limit: "0 < limit" and inv: "lease_inv lease limit key (t, r)" and "t \<le> now"
    and res: "lease_script lease limit key a now r = (v, r')"
    and held: "(m, e) \<in> set (zget t key r)" and "now < e" and "a \<noteq> Lease_release m"
  shows "\<exists>e'. e \<le> e' \<and> (m, e') \<in> set (zget now key r')"
proof -
  note I = lease_inv_later [OF inv assms(4) less_imp_le [OF limit]]
  have held': "(m, e) \<in> set (zget now key r)" using I(4) [OF held] assms(7) by simp
  obtain u where u: "zttl now key r = Some u" "e \<le> u" "u \<le> now + lease" using I(3) [OF held'] by auto
  have sc: "zscore (zget now key r) m = Some e" using held' I(1) by (simp add: zscore_Some)
  show ?thesis
  proof (cases a)
    case (Lease_acquire n)
    with res have "acquire_script lease limit n now key r = (v, r')" by simp
    from acquire_effect(1) [OF lease this] held' assms(7) show ?thesis
      by (intro exI [of _ e]) (auto simp: Let_def set_zadd_nx)
  next
    case (Lease_heartbeat n)
    with res have "heartbeat_script lease n now key r = (v, r')" by simp
    from heartbeat_effect(1) [OF lease this] held' assms(7) u sc show ?thesis
      by (cases "n = m") (auto simp: Let_def holds_lease_def set_zadd_xx image_iff intro!: bexI [of _ "(m, e)"])
  next
    case (Lease_release n)
    with res have "release_script n now key r = (v, r')" by simp
    from release_effect(1) [OF this] held' assms(8) Lease_release show ?thesis by auto
  next
    case Lease_observe
    with res have "observe_script now key r = (v, r')" by simp
    from observe_effect(1) [OF this] held' assms(7) show ?thesis by auto
  qed
qed

lemma lease_step_inv:
  assumes "0 < lease" and "0 < limit"
  shows "lease_inv lease limit key s \<Longrightarrow> lease_step lease limit key c s = Inr s' \<Longrightarrow> lease_inv lease limit key s'"
proof -
  assume inv: "lease_inv lease limit key s" and st: "lease_step lease limit key c s = Inr s'"
  obtain v r' where r: "lease_script lease limit key (snd c) (fst c) (snd s) = (v, r')" by fastforce
  have le: "fst s \<le> fst c" and s': "s' = (fst c, r')"
    using st r by (auto simp: lease_step_def split: if_splits)
  from inv have "lease_inv lease limit key (fst s, snd s)" by simp
  from lease_script_inv [OF assms this le r] show ?thesis unfolding s' .
qed


subsection \<open>Calls of the concurrency limiter\<close>

datatype conc_call = Call_acquire str | Call_heartbeat str | Call_release str | Call_observe

fun conc_call_state :: "(str \<Rightarrow> str) \<Rightarrow> int \<Rightarrow> int \<Rightarrow> str \<Rightarrow> conc_call \<Rightarrow> link \<Rightarrow> int \<Rightarrow> redis \<Rightarrow> redis" where
  "conc_call_state sha lease limit client (Call_acquire k) l now r = snd (conc_acquire sha lease l now client k limit r)"
| "conc_call_state sha lease limit client (Call_heartbeat k) l now r = snd (conc_heartbeat sha lease l now client k r)"
| "conc_call_state sha lease limit client (Call_release k) l now r = snd (conc_release sha l now client k r)"
| "conc_call_state sha lease limit client Call_observe l now r = snd (conc_observe sha l now client limit r)"

definition conc_step :: "(str \<Rightarrow> str) \<Rightarrow> int \<Rightarrow> int \<Rightarrow> str \<Rightarrow> int \<times> link \<times> conc_call \<Rightarrow> int \<times> redis \<Rightarrow> unit + int \<times> redis" where
  "conc_step sha lease limit client c s = (case c of (now, l, call) \<Rightarrow>
     if now < fst s then Inl () else Inr (now, conc_call_state sha lease limit client call l now (snd s)))"

definition conc_key :: "(str \<Rightarrow> str) \<Rightarrow> str \<Rightarrow> str" where
  "conc_key sha client = ''zangpu:v1:concurrency:'' @ sha client"

lemma conc_key_and_member:
  "lease_key_and_member sha ''concurrency'' client k = Inr (key, m) \<Longrightarrow> key = conc_key sha client \<and> m = sha k"
  by (auto simp: lease_key_and_member_def bind_res_Inr build_redis_key_single redis_identifier_def conc_key_def
      split: if_splits)

fun lease_op_of :: "(str \<Rightarrow> str) \<Rightarrow> conc_call \<Rightarrow> lease_op" where
  "lease_op_of sha (Call_acquire k) = Lease_acquire (sha k)"
| "lease_op_of sha (Call_heartbeat k) = Lease_heartbeat (sha k)"
| "lease_op_of sha (Call_release k) = Lease_release (sha k)"
| "lease_op_of sha Call_observe = Lease_observe"

lemma snd_run_ints: "snd (case run_ints l script n r of (ns, r') \<Rightarrow> (f ns, r')) = snd (run_ints l script n r)"
  by (simp split: prod.splits)

lemma snd_fail_closed: "snd (case fail_closed l script r of (v, r') \<Rightarrow> (f v, r')) = snd (fail_closed l script r)"
  by (simp split: prod.splits)

text \<open>A call leaves the state alone or runs its script on it.\<close>

lemma conc_call_script:
  "conc_call_state sha lease limit client call l now r \<in>
    {r, snd (lease_script lease limit (conc_key sha client) (lease_op_of sha call) now r)}"
proof (cases call)
  case (Call_acquire k)
  show ?thesis
    using run_ints_state [of l "acquire_script lease limit (sha k) now (conc_key sha client)" 4 r]
    by (auto simp: Call_acquire conc_acquire_def snd_run_ints dest!: conc_key_and_member split: sum.splits prod.splits)
next
  case (Call_heartbeat k)
  show ?thesis
    using run_ints_state [of l "heartbeat_script lease (sha k) now (conc_key sha client)" 3 r]
    by (auto simp: Call_heartbeat conc_heartbeat_def snd_run_ints dest!: conc_key_and_member split: sum.splits prod.splits)
next
  case (Call_release k)
  show ?thesis
    using fail_closed_state [of l "release_script (sha k) now (conc_key sha client)" r]
    by (auto simp: Call_release conc_release_def snd_fail_closed dest!: conc_key_and_member split: sum.splits prod.splits)
next
  case Call_observe
  show ?thesis
    using run_ints_state [of l "observe_script now (conc_key sha client)" 4 r]
    by (auto simp: Call_observe conc_observe_def snd_run_ints dest!: conc_key_and_member split: sum.splits prod.splits)
qed

lemma lease_inv_time:
  assumes "lease_inv lease limit key (t, r)" and "t \<le> now" and "0 \<le> limit"
  shows "lease_inv lease limit key (now, r)"
  using lease_inv_later [OF assms] by (simp add: lease_inv_def Let_def)

lemma conc_step_Inr:
  assumes "conc_step sha lease limit client c (t, r) = Inr (t', r')"
  obtains l call where "c = (t', l, call)" "t \<le> t'" "r' = conc_call_state sha lease limit client call l t' r"
  using assms by (auto simp: conc_step_def split: prod.splits if_splits)

lemma conc_step_inv:
  assumes pos: "0 < lease" "0 < limit" and inv: "lease_inv lease limit (conc_key sha client) s"
    and st: "conc_step sha lease limit client c s = Inr s'"
  shows "lease_inv lease limit (conc_key sha client) s'"
proof -
  obtain t r t' r' where s: "s = (t, r)" "s' = (t', r')" by (cases s; cases s') auto
  obtain l call where c: "c = (t', l, call)" "t \<le> t'" "r' = conc_call_state sha lease limit client call l t' r"
    using st unfolding s by (rule conc_step_Inr)
  obtain v r2 where sc: "lease_script lease limit (conc_key sha client) (lease_op_of sha call) t' r = (v, r2)"
    by fastforce
  have "r' = r \<or> r' = r2" using conc_call_script [of sha lease limit client call l t' r] c(3) sc by auto
  then show ?thesis
    using lease_inv_time [OF inv [unfolded s] c(2)] lease_script_inv [OF pos inv [unfolded s] c(2) sc] pos(2)
    unfolding s by auto
qed

text \<open>The limiter as an instance of the invariant contract, for a legal lease and limit.\<close>

definition legal_limits :: "int \<Rightarrow> int \<Rightarrow> bool" where
  "legal_limits lease limit \<longleftrightarrow> 0 < lease \<and> 0 < limit"

interpretation leases: invariant_ops "conc_step sha lease limit client"
    "\<lambda>s. legal_limits lease limit \<and> lease_inv lease limit (conc_key sha client) s"
  by unfold_locales (auto simp: legal_limits_def intro: conc_step_inv)

lemma lease_milliseconds_pos: "lease_milliseconds sec = Inr lease \<Longrightarrow> 0 < lease"
  by (auto simp: lease_milliseconds_def split: if_splits)

lemma lease_inv_missing: "0 \<le> limit \<Longrightarrow> rd_zsets r key = None \<Longrightarrow> lease_inv lease limit key (t, r)"
  by (simp add: lease_inv_def zget_def alive_def zcard_def)

text \<open>C29: a caller never holds more leases than its concurrency limit, whatever calls are
  made in any order by any number of servers, while the server clock does not run back, and
  whichever of them lose their request or reply on the way.\<close>

theorem concurrency_bounded:
  assumes "lease_milliseconds seconds = Inr lease" and "1 \<le> limit"
    and "rd_zsets r (conc_key sha client) = None"
    and "run_steps (conc_step sha lease limit client) calls (t, r) = (t', r')" and "t' \<le> now"
  shows "zcard (zget now (conc_key sha client) r') \<le> limit"
proof -
  have pos: "legal_limits lease limit"
    using lease_milliseconds_pos [OF assms(1)] assms(2) by (simp add: legal_limits_def)
  have "lease_inv lease limit (conc_key sha client) (t', r')"
    using leases.run_inv [of lease limit sha client "(t, r)" calls] lease_inv_missing [OF _ assms(3)] pos
    by (simp add: assms(4) legal_limits_def)
  from lease_inv_later(2) [OF this assms(5)] show ?thesis using assms(2) by simp
qed

lemma concurrency_bounded_witness:
  "zcard (zget 1300 (conc_key (\<lambda>x. x) ''c'') (snd (run_steps (conc_step (\<lambda>x. x) 2000 1 ''c'')
    [(1000, Link_up, Call_acquire ''a''), (1100, Lost_reply, Call_acquire ''b''),
     (1200, Link_up, Call_release ''a''), (1300, Link_up, Call_acquire ''b'')] (0, empty_redis)))) \<le> 1"
proof -
  have pre: "lease_milliseconds 2 = Inr 2000" "(1 :: int) \<le> 1" "rd_zsets empty_redis (conc_key (\<lambda>x. x) ''c'') = None"
    by (simp_all add: lease_milliseconds_def empty_redis_def)
  have t: "fst (run_steps (conc_step (\<lambda>x. x) 2000 1 ''c'')
    [(1000, Link_up, Call_acquire ''a''), (1100, Lost_reply, Call_acquire ''b''),
     (1200, Link_up, Call_release ''a''), (1300, Link_up, Call_acquire ''b'')] (0, empty_redis)) \<le> 1300"
    by (simp add: conc_step_def)
  show ?thesis by (rule concurrency_bounded [OF pre prod.collapse [symmetric] t])
qed

subsection \<open>A granted lease stays\<close>

lemma conc_acquire_up:
  assumes "conc_acquire sha lease Link_up now client k limit r = (Inr d, r')"
  shows "lease_key_and_member sha ''concurrency'' client k = Inr (conc_key sha client, sha k)"
    "\<exists>ns. acquire_script lease limit (sha k) now (conc_key sha client) r = (ints_reply ns, r') \<and>
      acquire_reply limit ns = Inr d"
proof -
  obtain key m where km: "lease_key_and_member sha ''concurrency'' client k = Inr (key, m)"
    using assms by (auto simp: conc_acquire_def split: if_splits sum.splits)
  note eq = conc_key_and_member [OF km]
  then show "lease_key_and_member sha ''concurrency'' client k = Inr (conc_key sha client, sha k)" using km by simp
  have "\<exists>ns. acquire_script lease limit m now key r = (ints_reply ns, snd (acquire_script lease limit m now key r))"
    by (auto simp: acquire_script_def Let_def split: option.splits)
  then obtain ns where ns: "acquire_script lease limit m now key r = (ints_reply ns, snd (acquire_script lease limit m now key r))"
    by blast
  then have "acquire_reply limit ns = Inr d \<and> snd (acquire_script lease limit m now key r) = r'"
    using assms km by (auto simp: conc_acquire_def run_ints_def fail_closed_def bind_res_Inr split: if_splits prod.splits)
  then show "\<exists>ns. acquire_script lease limit (sha k) now (conc_key sha client) r = (ints_reply ns, r') \<and>
      acquire_reply limit ns = Inr d"
    using ns eq by auto
qed

lemma acquire_granted:
  assumes "0 < lease" and "acquire_script lease limit m now key r = (ints_reply ns, r')"
    and "acquire_reply limit ns = Inr d" and "ld_allowed d" and "zok (zget now key r)"
  shows "(m, ld_expires_at d) \<in> set (zget now key r')"
proof -
  note E = acquire_effect(1) [OF assms(1,2)]
  show ?thesis
  proof (cases "zscore (zdrop_upto now (zget now key r)) m")
    case None
    then have "m \<notin> fst ` set (zdrop_upto now (zget now key r))" by (rule zscore_None [THEN iffD1])
    with None show ?thesis
      using assms(2-4) E
      by (auto simp: acquire_script_def acquire_reply_def Let_def ints_reply_def set_zadd_nx split: if_splits)
  next
    case (Some e)
    moreover from this have "(m, e) \<in> set (zdrop_upto now (zget now key r))"
      using assms(5) by (simp only: zscore_Some zok_ops)
    ultimately show ?thesis
      using assms(2-4) E by (auto simp: acquire_script_def acquire_reply_def Let_def ints_reply_def split: if_splits)
  qed
qed

definition keeps_lease :: "(str \<Rightarrow> str) \<Rightarrow> str \<Rightarrow> int \<Rightarrow> (int \<times> link \<times> conc_call) list \<Rightarrow> bool" where
  "keeps_lease sha m e calls \<longleftrightarrow>
    list_all (\<lambda>c. fst c < e \<and> lease_op_of sha (snd (snd c)) \<noteq> Lease_release m) calls"

lemma lease_kept_over_run:
  assumes pos: "0 < lease" "0 < limit" and inv: "lease_inv lease limit (conc_key sha client) (t, r)"
    and held: "(m, e) \<in> set (zget t (conc_key sha client) r)" and "t < e" and calls: "keeps_lease sha m e0 calls" and "e0 \<le> e"
    and run: "run_steps (conc_step sha lease limit client) calls (t, r) = (t', r')"
  shows "\<exists>e'. e \<le> e' \<and> (m, e') \<in> set (zget t' (conc_key sha client) r')"
  using inv held assms(5,6,7) run
proof (induction calls arbitrary: t r e)
  case Nil
  then show ?case by auto
next
  case (Cons c calls)
  obtain now l call where c: "c = (now, l, call)" by (cases c)
  show ?case
  proof (cases "now < t")
    case True
    with Cons c show ?thesis by (simp add: conc_step_def keeps_lease_def)
  next
    case False
    define r2 where "r2 = conc_call_state sha lease limit client call l now r"
    have st: "conc_step sha lease limit client c (t, r) = Inr (now, r2)"
      using False by (simp add: conc_step_def c r2_def)
    have inv2: "lease_inv lease limit (conc_key sha client) (now, r2)"
      by (rule conc_step_inv [OF pos Cons.prems(1) st])
    obtain v r3 where sc: "lease_script lease limit (conc_key sha client) (lease_op_of sha call) now r = (v, r3)"
      by fastforce
    have lt: "now < e" and nr: "lease_op_of sha call \<noteq> Lease_release m"
      using Cons.prems(4,5) c by (auto simp: keeps_lease_def)
    have "(m, e) \<in> set (zget now (conc_key sha client) r)"
      using lease_inv_later(4) [OF Cons.prems(1) _ _ Cons.prems(2)] False lt pos(2) by simp
    moreover have "\<exists>e'. e \<le> e' \<and> (m, e') \<in> set (zget now (conc_key sha client) r3)"
      using lease_script_keeps [OF pos Cons.prems(1) _ sc Cons.prems(2) lt nr] False by simp
    moreover have "r2 = r \<or> r2 = r3"
      using conc_call_script [of sha lease limit client call l now r] sc by (auto simp: r2_def)
    ultimately obtain e2 where e2: "e \<le> e2" "(m, e2) \<in> set (zget now (conc_key sha client) r2)" by auto
    have "\<exists>e'. e2 \<le> e' \<and> (m, e') \<in> set (zget t' (conc_key sha client) r')"
      using Cons.IH [OF inv2 e2(2)] Cons.prems(4-6) lt e2(1) st by (simp add: keeps_lease_def)
    with e2(1) show ?thesis by (meson order_trans)
  qed
qed


text \<open>A lease the limiter has granted stays the caller's until the reported expiry: after
  any calls before it that do not release this operation, the operation still holds its
  lease, a heartbeat extends it, and asking again answers yes.\<close>

theorem granted_lease_holds:
  assumes "lease_milliseconds seconds = Inr lease" and "lease_inv lease limit (conc_key sha client) (now, r)"
    and "conc_acquire sha lease Link_up now client k limit r = (Inr d, r1)" and "ld_allowed d"
    and "keeps_lease sha (sha k) (ld_expires_at d) calls"
    and "run_steps (conc_step sha lease limit client) calls (now, r1) = (t, r2)"
    and "t \<le> later" and "later < ld_expires_at d"
  shows "holds_lease later (sha k) (zget later (conc_key sha client) r2) \<and>
    fst (conc_heartbeat sha lease Link_up later client k r2) = Inr True \<and>
    (\<exists>d2. fst (conc_acquire sha lease Link_up later client k limit r2) = Inr d2 \<and> ld_allowed d2)"
proof -
  let ?key = "conc_key sha client"
  have lim: "0 < limit" "limit \<le> 1000000"
    using assms(3) by (auto simp: conc_acquire_def split: if_splits)
  have pos: "0 < lease" by (rule lease_milliseconds_pos [OF assms(1)])
  have km: "lease_key_and_member sha ''concurrency'' client k = Inr (?key, sha k)"
    by (rule conc_acquire_up(1) [OF assms(3)])
  obtain ns where ns: "acquire_script lease limit (sha k) now ?key r = (ints_reply ns, r1)"
    "acquire_reply limit ns = Inr d"
    using conc_acquire_up(2) [OF assms(3)] by blast
  have "(sha k, ld_expires_at d) \<in> set (zget now ?key r1)"
    using acquire_granted [OF pos ns assms(4)] assms(2) by (simp add: lease_inv_def Let_def)
  moreover have inv1: "lease_inv lease limit ?key (now, r1)"
    using lease_script_inv [OF pos lim(1) assms(2) order_refl, of "Lease_acquire (sha k)"] ns(1) by simp
  moreover have inv2: "lease_inv lease limit ?key (t, r2)"
    using leases.run_inv [of lease limit sha client "(now, r1)" calls] inv1 pos lim(1)
    by (simp add: assms(6) legal_limits_def)
  moreover have "now < ld_expires_at d"
    using ns pos acquire_granted [OF pos ns assms(4)] assms(2) acquire_effect(1) [OF pos ns(1)]
    by (auto simp: lease_inv_def Let_def set_zadd_nx split: if_splits)
  ultimately obtain e where e: "ld_expires_at d \<le> e" "(sha k, e) \<in> set (zget t ?key r2)"
    using lease_kept_over_run [OF pos lim(1) inv1 _ _ assms(5) order_refl assms(6)] by blast
  have mem: "(sha k, e) \<in> set (zget later ?key r2)" and ok: "zok (zget later ?key r2)"
    using lease_inv_later [OF inv2 assms(7)] e assms(8) lim(1) by auto
  have lt: "later < e" using e(1) assms(8) by simp
  have sc: "zscore (zget later ?key r2) (sha k) = Some e"
    using mem ok by (simp add: zscore_Some)
  have sc2: "zscore (zdrop_upto later (zget later ?key r2)) (sha k) = Some e"
    using mem ok lt by (subst zscore_Some) simp_all
  have "fst (conc_heartbeat sha lease Link_up later client k r2) = Inr True"
    using km sc lt pos
    by (simp add: conc_heartbeat_def run_ints_def fail_closed_def heartbeat_script_def Let_def heartbeat_reply_def)
  moreover have "\<exists>d2. fst (conc_acquire sha lease Link_up later client k limit r2) = Inr d2 \<and> ld_allowed d2"
    using km sc2 lt pos lim
    by (simp add: conc_acquire_def run_ints_def fail_closed_def acquire_script_def Let_def acquire_reply_def
        not_less)
  ultimately show ?thesis using sc lt by (simp add: holds_lease_def)
qed

lemma granted_lease_holds_witness:
  "\<exists>d r1. conc_acquire (\<lambda>x. x) 2000 Link_up 1000 ''c'' ''a'' 1 empty_redis = (Inr d, r1) \<and>
    fst (conc_heartbeat (\<lambda>x. x) 2000 Link_up 2999 ''c'' ''a'' r1) = Inr True"
proof -
  define d where "d = \<lparr>ld_allowed = True, ld_count = 1, ld_limit = 1, ld_remaining = 0, ld_expires_at = 3000,
    ld_observed_at = 1000\<rparr>"
  define r1 where "r1 = snd (conc_acquire (\<lambda>x. x) 2000 Link_up 1000 ''c'' ''a'' 1 empty_redis)"
  have "fst (conc_acquire (\<lambda>x. x) 2000 Link_up 1000 ''c'' ''a'' 1 empty_redis) = Inr d"
    unfolding d_def by code_simp
  then have a: "conc_acquire (\<lambda>x. x) 2000 Link_up 1000 ''c'' ''a'' 1 empty_redis = (Inr d, r1)"
    unfolding r1_def by (simp add: prod_eq_iff)
  have pre: "lease_milliseconds 2 = Inr 2000" "ld_allowed d" "keeps_lease (\<lambda>x. x) ''a'' (ld_expires_at d) []"
    "run_steps (conc_step (\<lambda>x. x) 2000 1 ''c'') [] (1000, r1) = (1000, r1)" "(1000 :: int) \<le> 2999" "2999 < ld_expires_at d"
    by (simp_all add: lease_milliseconds_def d_def keeps_lease_def)
  have inv: "lease_inv 2000 1 (conc_key (\<lambda>x. x) ''c'') (1000, empty_redis)"
    by (rule lease_inv_missing) (simp_all add: empty_redis_def)
  from granted_lease_holds [OF pre(1) inv a pre(2-)] a show ?thesis by blast
qed

text \<open>On a working link the limiter always answers a valid request, never with the
  control-plane error: the checks of the reply accept what the script returns. The answer
  is yes exactly when the operation now holds a lease, no exactly when the limit is reached,
  and the count is the number of leases held.\<close>

theorem acquire_answers:
  assumes "lease_milliseconds seconds = Inr lease" and "1 \<le> limit" and "limit \<le> 1000000"
    and "lease_inv lease limit (conc_key sha client) (t, r)" and "t \<le> now"
    and "lease_key_and_member sha ''concurrency'' client k = Inr (key, m)"
  shows "\<exists>d r'. conc_acquire sha lease Link_up now client k limit r = (Inr d, r') \<and>
    (ld_allowed d \<longleftrightarrow> holds_lease now m (zget now key r')) \<and>
    ld_count d = zcard (zget now key r') \<and> (\<not> ld_allowed d \<longrightarrow> ld_count d = limit) \<and>
    ld_remaining d = limit - ld_count d \<and> now < ld_expires_at d"
proof -
  have pos: "0 < lease" by (rule lease_milliseconds_pos [OF assms(1)])
  have key: "key = conc_key sha client" using conc_key_and_member [OF assms(6)] by simp
  let ?z = "zdrop_upto now (zget now key r)"
  have I: "zok (zget now key r)" "zcard (zget now key r) \<le> limit"
    using lease_inv_later(1,2) [OF assms(4,5)] assms(2) key by simp_all
  have ok: "zok ?z" and card: "zcard ?z \<le> limit" using I zcard_le(2) [of now "zget now key r"] by auto
  show ?thesis
  proof (cases "zscore ?z m")
    case (Some e)
    then have "(m, e) \<in> set ?z" using ok by (simp only: zscore_Some)
    then have lt: "now < e" by simp
    show ?thesis
      using assms(2,3,6) Some lt pos card
      by (simp add: conc_acquire_def run_ints_def fail_closed_def acquire_script_def Let_def acquire_reply_def
          holds_lease_def not_less)
  next
    case None
    then have m: "m \<notin> fst ` set ?z" by (rule zscore_None [THEN iffD1])
    show ?thesis
    proof (cases "limit \<le> zcard ?z")
      case True
      then obtain a where a: "zfirst ?z = Some a"
        using assms(2) by (cases "zfirst ?z") (auto simp: zcard_def)
      then have "now < snd a" using zfirst_Some(1) [OF a] by simp
      then show ?thesis
        using assms(2,3,6) None True a pos card
        by (simp add: conc_acquire_def run_ints_def fail_closed_def acquire_script_def Let_def acquire_reply_def
            holds_lease_def not_less)
    next
      case False
      have "zscore (zadd_nx (now + lease) m ?z) m = Some (now + lease)"
        using ok m by (subst zscore_Some) (auto simp: set_zadd_nx)
      then show ?thesis
        using assms(2,3,6) None False m pos
        by (simp add: conc_acquire_def run_ints_def fail_closed_def acquire_script_def Let_def acquire_reply_def
            holds_lease_def not_less zcard_zadd_nx)
    qed
  qed
qed

lemma acquire_answers_witness:
  "\<exists>d r'. conc_acquire (\<lambda>x. x) 2000 Link_up 1000 ''c'' ''a'' 1 empty_redis = (Inr d, r')"
proof -
  have pre: "lease_milliseconds 2 = Inr 2000" "(1 :: int) \<le> 1" "(1 :: int) \<le> 1000000"
    by (simp_all add: lease_milliseconds_def)
  have inv: "lease_inv 2000 1 (conc_key (\<lambda>x. x) ''c'') (0, empty_redis)"
    by (rule lease_inv_missing) (simp_all add: empty_redis_def)
  have "lease_key_and_member (\<lambda>x. x) ''concurrency'' ''c'' ''a'' = Inr (conc_key (\<lambda>x. x) ''c'', ''a'')"
    by code_simp
  from acquire_answers [OF pre inv _ this, of 1000] show ?thesis by auto
qed


subsection \<open>The request window\<close>

text \<open>A log of calls: time, link, request identifier and the answer.\<close>

fun qps_run :: "(str \<Rightarrow> str) \<Rightarrow> int \<Rightarrow> str \<Rightarrow> int \<Rightarrow> (int \<times> link \<times> str) list \<Rightarrow> redis \<Rightarrow>
    (int \<times> qps_decision res) list" where
  "qps_run sha window client limit [] r = []"
| "qps_run sha window client limit ((now, l, q) # calls) r =
    (case qps_admit sha window l now client q limit r of
       (d, r') \<Rightarrow> (now, d) # qps_run sha window client limit calls r')"

definition admitted :: "(int \<times> qps_decision res) \<Rightarrow> bool" where
  "admitted x = (case snd x of Inl _ \<Rightarrow> False | Inr d \<Rightarrow> qd_allowed d)"

text \<open>The script admits into the window \<open>(now - window, now]\<close>; \<open>adm\<close> is the set of
  admissions (member and time) so far.\<close>

definition qps_inv :: "int \<Rightarrow> int \<Rightarrow> str \<Rightarrow> int \<Rightarrow> redis \<Rightarrow> (str \<times> int) set \<Rightarrow> bool" where
  "qps_inv window limit key t r adm \<longleftrightarrow>
    zok (zget t key r) \<and> finite adm \<and> inj_on fst adm \<and> (\<forall>x \<in> adm. snd x \<le> t) \<and>
    {e \<in> set (zget t key r). t - window < snd e} = {x \<in> adm. t - window < snd x} \<and>
    (\<forall>e \<in> set (zget t key r). e \<in> adm) \<and>
    (zget t key r \<noteq> [] \<longrightarrow> (\<exists>u. zttl t key r = Some u \<and> (\<forall>x \<in> adm. snd x + window \<le> u))) \<and>
    (\<forall>s. int (card {x \<in> adm. s - window < snd x \<and> snd x \<le> s}) \<le> limit)"

lemma qps_inv_time:
  assumes inv: "qps_inv window limit key t r adm" and le: "t \<le> now" and w: "0 < window"
  shows "qps_inv window limit key now r adm"
proof -
  let ?z = "zget t key r"
  have z: "zget now key r = ?z \<and> zttl now key r = zttl t key r \<or>
      zget now key r = [] \<and> (\<forall>x \<in> adm. snd x \<le> now - window)"
    using inv le unfolding qps_inv_def zget_later [OF le]
    by (cases "?z = []") (auto simp: zget_def zttl_def alive_def split: option.splits if_splits)
  then show ?thesis
  proof
    assume same: "zget now key r = ?z \<and> zttl now key r = zttl t key r"
    have "{e \<in> set ?z. now - window < snd e} = {x \<in> adm. now - window < snd x}"
    proof -
      have "{e \<in> set ?z. now - window < snd e} = {e \<in> {e \<in> set ?z. t - window < snd e}. now - window < snd e}"
        using le by auto
      also have "\<dots> = {e \<in> {x \<in> adm. t - window < snd x}. now - window < snd e}"
        using inv by (simp add: qps_inv_def)
      also have "\<dots> = {x \<in> adm. now - window < snd x}" using le by auto
      finally show ?thesis .
    qed
    then show ?thesis using inv same le unfolding qps_inv_def by fastforce
  next
    assume "zget now key r = [] \<and> (\<forall>x \<in> adm. snd x \<le> now - window)"
    then show ?thesis using inv le w unfolding qps_inv_def by fastforce
  qed
qed

lemma qps_script_reply:
  "\<exists>z'. qps_script window limit m now key r =
    (ints_reply [if zcard (zdrop_upto (now - window) (zget now key r)) < limit then 1 else 0, zcard z',
       case zfirst z' of Some e \<Rightarrow> snd e + window | None \<Rightarrow> now + window, now],
     zpexpire now key window (zput now key z' r)) \<and>
    z' = (let z = zdrop_upto (now - window) (zget now key r) in if zcard z < limit then zadd now m z else z)"
  by (simp add: qps_script_def Let_def)

lemma qps_inv_script:
  assumes inv: "qps_inv window limit key now r adm" and w: "0 < window"
    and fresh: "m \<notin> fst ` adm" and sc: "qps_script window limit m now key r = (v, r')"
  shows "qps_inv window limit key now r'
    (if zcard (zdrop_upto (now - window) (zget now key r)) < limit then insert (m, now) adm else adm)"
proof -
  let ?z = "zdrop_upto (now - window) (zget now key r)"
  let ?c = "zcard ?z < limit"
  let ?adm = "if ?c then insert (m, now) adm else adm"
  define z' where "z' = (if ?c then zadd now m ?z else ?z)"
  have r': "r' = zpexpire now key window (zput now key z' r)"
    using sc qps_script_reply [of window limit m now key r] by (auto simp: z'_def Let_def)
  have get: "zget now key r' = z'" using w by (simp add: r')
  have I: "zok (zget now key r)" "finite adm" "inj_on fst adm" "\<And>x. x \<in> adm \<Longrightarrow> snd x \<le> now"
    "set ?z = {x \<in> adm. now - window < snd x}"
    "\<And>s. int (card {x \<in> adm. s - window < snd x \<and> snd x \<le> s}) \<le> limit"
    using inv by (auto simp: qps_inv_def)
  have ok: "zok z'" using I(1) by (simp add: z'_def)
  have mz: "m \<notin> fst ` set ?z" using fresh unfolding I(5) by auto
  then have "set (zadd now m ?z) = insert (m, now) (set ?z)" by (auto simp: set_zadd)
  then have setz: "set z' = {x \<in> ?adm. now - window < snd x}"
    using I(5) w by (auto simp: z'_def)
  have ttl: "z' \<noteq> [] \<Longrightarrow> zttl now key r' = Some (now + window)" using w by (simp add: r' zttl_touch)
  have bound: "int (card {x \<in> ?adm. s - window < snd x \<and> snd x \<le> s}) \<le> limit" for s
  proof (cases "?c \<and> s - window < now \<and> now \<le> s")
    case True
    have fin: "finite (set ?z)" by simp
    have "{x \<in> ?adm. s - window < snd x \<and> snd x \<le> s} \<subseteq> insert (m, now) (set ?z)"
      using True unfolding I(5) by auto
    then have "card {x \<in> ?adm. s - window < snd x \<and> snd x \<le> s} \<le> card (insert (m, now) (set ?z))"
      by (intro card_mono) simp_all
    also have "\<dots> \<le> card (set ?z) + 1" by (simp add: card_insert_if)
    finally show ?thesis using True zcard_set [of ?z] I(1) by simp
  next
    case False
    then have "{x \<in> ?adm. s - window < snd x \<and> snd x \<le> s} = {x \<in> adm. s - window < snd x \<and> snd x \<le> s}"
      by auto
    then show ?thesis using I(6) by simp
  qed
  have "inj_on fst ?adm" using I(3) fresh by (auto simp: inj_on_def)
  moreover have "\<forall>x \<in> ?adm. snd x \<le> now" using I(4) by auto
  ultimately show ?thesis
    using ok setz ttl bound I(2) unfolding qps_inv_def get by fastforce
qed


definition qps_key :: "(str \<Rightarrow> str) \<Rightarrow> str \<Rightarrow> str" where
  "qps_key sha client = ''zangpu:v1:qps:'' @ sha client"

definition in_window :: "int \<Rightarrow> int \<Rightarrow> int \<Rightarrow> bool" where
  "in_window window s t \<longleftrightarrow> s - window < t \<and> t \<le> s"

text \<open>One call: the set of admissions grows by the call's own admission when the script ran
  and admitted it, and an answer of yes means it did.\<close>

lemma qps_admit_inv:
  assumes inv: "qps_inv window limit (qps_key sha client) now r adm" and w: "0 < window"
    and fresh: "sha q \<notin> fst ` adm" and call: "qps_admit sha window l now client q limit r = (d, r')"
  shows "\<exists>adm'. qps_inv window limit (qps_key sha client) now r' adm' \<and>
    adm' \<in> {adm, insert (sha q, now) adm} \<and> (admitted (now, d) \<longrightarrow> adm' = insert (sha q, now) adm)"
proof (cases "(1 \<le> limit \<and> limit \<le> 1000000) \<and> build_redis_key sha ''qps'' [client] = Inr (qps_key sha client) \<and>
    redis_identifier sha q = Inr (sha q)")
  case False
  have "\<exists>e. d = Inl e \<and> r' = r"
    using call False
    by (auto simp: qps_admit_def bind_res_def redis_identifier_def build_redis_key_single qps_key_def
        split: if_splits sum.splits)
  with inv show ?thesis by (auto simp: admitted_def)
next
  case True
  let ?key = "qps_key sha client"
  let ?c = "zcard (zdrop_upto (now - window) (zget now ?key r)) < limit"
  obtain v r2 where sc: "qps_script window limit (sha q) now ?key r = (v, r2)" by fastforce
  have eq: "(case run_ints l (qps_script window limit (sha q) now ?key) 4 r of
      (ns, r') \<Rightarrow> (bind_res ns (qps_reply limit), r')) = (d, r')"
    using call True by (simp add: qps_admit_def)
  have st: "r' = r \<or> r' = r2"
    using eq run_ints_state [of l "qps_script window limit (sha q) now ?key" 4 r] sc by (auto split: prod.splits)
  have yes: "?c \<and> r' = r2" if "admitted (now, d)"
    using that eq sc
    by (auto simp: admitted_def run_ints_def fail_closed_def qps_script_def Let_def qps_reply_def
        split: link.splits if_splits sum.splits)
  note new = qps_inv_script [OF inv w fresh sc]
  show ?thesis
  proof (cases "r' = r2 \<and> ?c")
    case True
    with new show ?thesis by (intro exI [of _ "insert (sha q, now) adm"]) simp
  next
    case False
    with yes st new inv show ?thesis by (intro exI [of _ adm]) auto
  qed
qed

lemma qps_run_bound:
  assumes "qps_inv window limit (qps_key sha client) t r adm" and w: "0 < window"
    and "sorted (t # map fst calls)" and "distinct (map (\<lambda>c. sha (snd (snd c))) calls)"
    and "fst ` adm \<inter> set (map (\<lambda>c. sha (snd (snd c))) calls) = {}"
  shows "int (length (filter (\<lambda>x. admitted x \<and> in_window window s (fst x)) (qps_run sha window client limit calls r))) +
    int (card {x \<in> adm. in_window window s (snd x)}) \<le> limit"
  using assms(1,3-5)
proof (induction calls arbitrary: t r adm)
  case Nil
  then show ?case by (auto simp: qps_inv_def in_window_def)
next
  case (Cons c calls)
  obtain now l q where c: "c = (now, l, q)" by (cases c)
  obtain d r' where call: "qps_admit sha window l now client q limit r = (d, r')" by fastforce
  have inv: "qps_inv window limit (qps_key sha client) now r adm"
    using Cons.prems(1,2) w c by (auto intro: qps_inv_time)
  have "sha q \<notin> fst ` adm" using Cons.prems(4) c by auto
  from qps_admit_inv [OF inv w this call] obtain adm' where
    adm': "qps_inv window limit (qps_key sha client) now r' adm'" "adm' \<in> {adm, insert (sha q, now) adm}"
      "admitted (now, d) \<longrightarrow> adm' = insert (sha q, now) adm" by blast
  have fresh: "sha q \<notin> fst ` adm" using Cons.prems(4) c by auto
  have fin: "finite adm" using inv by (simp add: qps_inv_def)
  have IH: "int (length (filter (\<lambda>x. admitted x \<and> in_window window s (fst x)) (qps_run sha window client limit calls r'))) +
    int (card {x \<in> adm'. in_window window s (snd x)}) \<le> limit"
  proof (rule Cons.IH [OF adm'(1)])
    show "sorted (now # map fst calls)" using Cons.prems(2) c by simp
    show "distinct (map (\<lambda>c. sha (snd (snd c))) calls)" using Cons.prems(3) c by simp
    show "fst ` adm' \<inter> set (map (\<lambda>c. sha (snd (snd c))) calls) = {}"
    proof -
      have "sha q \<notin> set (map (\<lambda>c. sha (snd (snd c))) calls)" using Cons.prems(3) c by simp
      moreover have "fst ` adm \<inter> set (map (\<lambda>c. sha (snd (snd c))) calls) = {}" using Cons.prems(4) by auto
      moreover have "adm' = adm \<or> adm' = insert (sha q, now) adm" using adm'(2) by simp
      ultimately show ?thesis by (elim disjE) (simp_all only: image_insert fst_conv Int_insert_left if_False)
    qed
  qed
  have mono: "card {x \<in> adm. in_window window s (snd x)} \<le> card {x \<in> adm'. in_window window s (snd x)}"
    using adm'(2) fin by (intro card_mono) auto
  have grow: "card {x \<in> adm'. in_window window s (snd x)} = card {x \<in> adm. in_window window s (snd x)} + 1"
    if "admitted (now, d)" "in_window window s now"
  proof -
    have "{x \<in> adm'. in_window window s (snd x)} = insert (sha q, now) {x \<in> adm. in_window window s (snd x)}"
      using adm'(3) that by auto
    moreover have "(sha q, now) \<notin> adm" using fresh by force
    ultimately show ?thesis using fin by simp
  qed
  show ?case using IH mono grow c call by auto
qed

text \<open>The sliding window: over any sequence of requests of a caller at non-decreasing
  server times, by any number of servers and over links that may fail, no interval of the
  length of the window, wherever it is placed, contains more admitted requests than the
  limit.\<close>

theorem qps_window_bounded:
  assumes "qps_window w = Inr window" and "1 \<le> limit" and "rd_zsets r (qps_key sha client) = None"
    and "sorted (map fst calls)" and "distinct (map (\<lambda>c. sha (snd (snd c))) calls)"
  shows "int (length (filter (\<lambda>x. admitted x \<and> in_window window s (fst x))
    (qps_run sha window client limit calls r))) \<le> limit"
proof (cases calls)
  case Nil
  with assms(2) show ?thesis by simp
next
  case (Cons c cs)
  have w: "0 < window" using assms(1) by (auto simp: qps_window_def split: if_splits)
  have inv: "qps_inv window limit (qps_key sha client) (fst c) r {}"
    using assms(2,3) by (simp add: qps_inv_def zget_def alive_def)
  have "sorted (fst c # map fst calls)" using assms(4) Cons by simp
  from qps_run_bound [OF inv w this assms(5), of s] show ?thesis by simp
qed

lemma qps_window_bounded_witness:
  "int (length (filter (\<lambda>x. admitted x \<and> in_window 100 1050 (fst x))
    (qps_run (\<lambda>x. x) 100 ''c'' 1 [(1000, Link_up, ''a''), (1050, Link_up, ''b'')] empty_redis))) \<le> 1"
proof -
  have pre: "qps_window 100 = Inr 100" "(1 :: int) \<le> 1" "rd_zsets empty_redis (qps_key (\<lambda>x. x) ''c'') = None"
    "sorted (map fst [(1000 :: int, Link_up, ''a''), (1050, Link_up, ''b'')])"
    "distinct (map (\<lambda>c. (\<lambda>x. x) (snd (snd c))) [(1000 :: int, Link_up, ''a''), (1050, Link_up, ''b'')])"
    by (simp_all add: qps_window_def empty_redis_def)
  show ?thesis by (rule qps_window_bounded [OF pre])
qed

subsection \<open>Nonces\<close>

fun claim_run :: "(str \<Rightarrow> str) \<Rightarrow> int \<Rightarrow> (int \<times> link \<times> str \<times> str \<times> str) list \<Rightarrow> redis \<Rightarrow> redis" where
  "claim_run sha ttl [] r = r"
| "claim_run sha ttl ((now, l, c, k, n) # calls) r = claim_run sha ttl calls (snd (claim sha ttl l now c k n r))"

definition nonce_held :: "int \<Rightarrow> str \<Rightarrow> redis \<Rightarrow> bool" where
  "nonce_held until key r \<longleftrightarrow> (\<exists>v u. rd_strings r key = Some (v, Some u) \<and> until \<le> u)"

lemma claim_held:
  assumes "nonce_held until key r" and "now \<le> until"
  shows "nonce_held until key (snd (claim sha ttl l now c k n r))"
  using assms
  by (auto simp: claim_def nonce_held_def set_nx_ex_def fail_closed_def alive_def
      split: sum.splits link.splits option.splits bool.splits if_splits prod.splits)

lemma claim_run_held:
  "nonce_held until key r \<Longrightarrow> list_all (\<lambda>c. fst c \<le> until) calls \<Longrightarrow> nonce_held until key (claim_run sha ttl calls r)"
  by (induction sha ttl calls r rule: claim_run.induct) (auto intro: claim_held)

lemma claim_True:
  assumes "claim sha ttl l now c k n r = (Inr True, r')" and "nonce_guard seconds = Inr ttl"
  shows "\<exists>key. build_redis_key sha ''nonce'' [c, k, n] = Inr key \<and> nonce_held (now + ttl * 1000) key r'"
  using assms
  by (auto simp: claim_def nonce_held_def set_nx_ex_def fail_closed_def
      split: sum.splits link.splits option.splits bool.splits if_splits prod.splits reply.splits)

text \<open>A nonce is accepted once: after a claim that was answered yes, no claim of the same
  nonce by the same caller and credential within its lifetime is answered yes, whatever other
  claims happen in between and on whatever links.\<close>

lemma nonce_once:
  assumes "nonce_guard seconds = Inr ttl" and "claim sha ttl l now c k n r = (Inr True, r1)"
    and "list_all (\<lambda>x. fst x \<le> now + ttl * 1000) calls" and "later \<le> now + ttl * 1000"
  shows "fst (claim sha ttl l2 later c k n (claim_run sha ttl calls r1)) \<noteq> Inr True"
proof -
  obtain key where key: "build_redis_key sha ''nonce'' [c, k, n] = Inr key" "nonce_held (now + ttl * 1000) key r1"
    using claim_True [OF assms(2,1)] by blast
  have "nonce_held (now + ttl * 1000) key (claim_run sha ttl calls r1)"
    by (rule claim_run_held [OF key(2) assms(3)])
  then show ?thesis
    using key(1) assms(4)
    by (auto simp: claim_def nonce_held_def set_nx_ex_def fail_closed_def alive_def split: link.splits)
qed


end
