(* ===== verification/Model_Pool.thy ===== *)
theory Model_Pool
  imports Rate_Limits
begin

text \<open>
  The model pools, \<open>backend/app/limits/model_pool.py\<close> with its Lua scripts: a pool admits
  at most \<open>active_limit\<close> operations at a time and queues the others in order of arrival,
  within a global and a per-caller bound, each ticket for a bounded wait. Heartbeat and
  release of an active operation are the lease scripts of the concurrency limiter on the
  active key of the pool.
\<close>

subsection \<open>Policies, keys and limits\<close>

record pool_policy =
  pp_pool :: str
  pp_active_limit :: int

definition is_pool_char :: "char \<Rightarrow> bool" where
  "is_pool_char c \<longleftrightarrow> is_alnum c \<or> c \<in> {CHR ''.'', CHR ''_'', CHR ''-''}"

definition make_pool_policy :: "str \<Rightarrow> int \<Rightarrow> pool_policy res" where
  "make_pool_policy pool_id active_limit =
    (let pool = strip_spaces pool_id in
     if \<not> full_class is_pool_char 1 128 pool \<or> \<not> (1 \<le> active_limit \<and> active_limit \<le> 1000000)
       then Inl (ValueError ''model pool policy'')
     else Inr \<lparr>pp_pool = pool, pp_active_limit = active_limit\<rparr>)"

record pool_keys =
  pk_active :: str
  pk_queue :: str
  pk_expiry :: str
  pk_global :: str
  pk_caller :: str
  pk_sequence :: str

definition active_key :: "(str \<Rightarrow> str) \<Rightarrow> str \<Rightarrow> str res" where
  "active_key sha pool = build_redis_key sha ''model_active'' [pool]"

definition queue_keys :: "(str \<Rightarrow> str) \<Rightarrow> str \<Rightarrow> str \<Rightarrow> str \<Rightarrow> pool_keys res" where
  "queue_keys sha active pool client =
    bind_res (build_redis_key sha ''model_queue'' [pool]) (\<lambda>q.
    bind_res (build_redis_key sha ''model_queue_expiry'' [pool]) (\<lambda>e.
    bind_res (build_redis_key sha ''model_queue_global'' [''global'']) (\<lambda>g.
    bind_res (build_redis_key sha ''model_queue_caller'' [client]) (\<lambda>c.
    bind_res (build_redis_key sha ''model_queue_seq'' [pool]) (\<lambda>s.
      Inr \<lparr>pk_active = active, pk_queue = q, pk_expiry = e, pk_global = g, pk_caller = c, pk_sequence = s\<rparr>)))))"

definition pool_keys_of :: "(str \<Rightarrow> str) \<Rightarrow> str \<Rightarrow> str \<Rightarrow> pool_keys res" where
  "pool_keys_of sha pool client = bind_res (active_key sha pool) (\<lambda>a. queue_keys sha a pool client)"

definition validate_limits :: "int \<Rightarrow> int \<Rightarrow> int \<Rightarrow> int \<Rightarrow> unit res" where
  "validate_limits active_limit queue_limit caller_queue_limit queue_wait_seconds =
    (if \<not> (1 \<le> active_limit \<and> active_limit \<le> 1000000)
       then Inl (ValueError ''model-pool active limit must be between 1 and 1000000'')
     else if \<not> (0 \<le> queue_limit \<and> queue_limit \<le> 1000000)
       then Inl (ValueError ''global queue limit must be between 0 and 1000000'')
     else if \<not> (0 \<le> caller_queue_limit \<and> caller_queue_limit \<le> 1000000)
       then Inl (ValueError ''caller queue limit must be between 0 and 1000000'')
     else if queue_limit > 0 \<and> caller_queue_limit = 0
       then Inl (ValueError ''caller queue limit must be positive when queueing is enabled'')
     else if \<not> (1 \<le> queue_wait_seconds \<and> queue_wait_seconds \<le> 300)
       then Inl (ValueError ''queue wait must be between 1 and 300 seconds'')
     else Inr ())"

subsection \<open>The admission script\<close>

text \<open>The parameters of one call, and the sets it sees.\<close>

record pool_args =
  pa_lease :: int
  pa_active_limit :: int
  pa_wait :: int
  pa_queue_limit :: int
  pa_caller_limit :: int

record pool_sets =
  ps_active :: zset
  ps_queue :: zset
  ps_expiry :: zset
  ps_global :: zset
  ps_caller :: zset

definition load_sets :: "pool_keys \<Rightarrow> int \<Rightarrow> redis \<Rightarrow> pool_sets" where
  "load_sets k now r = \<lparr>ps_active = zget now (pk_active k) r, ps_queue = zget now (pk_queue k) r,
     ps_expiry = zget now (pk_expiry k) r, ps_global = zget now (pk_global k) r,
     ps_caller = zget now (pk_caller k) r\<rparr>"

definition store_sets :: "pool_keys \<Rightarrow> int \<Rightarrow> pool_sets \<Rightarrow> redis \<Rightarrow> redis" where
  "store_sets k now s r =
    zput now (pk_caller k) (ps_caller s) (zput now (pk_global k) (ps_global s)
      (zput now (pk_expiry k) (ps_expiry s) (zput now (pk_queue k) (ps_queue s)
        (zput now (pk_active k) (ps_active s) r))))"

text \<open>The purge at the head of the script: expired leases, expired tickets with their queue
  entries, and the expired entries of the global and the caller queue.\<close>

definition remove_all :: "str list \<Rightarrow> zset \<Rightarrow> zset" where
  "remove_all ms z = fold zrem ms z"

definition purge :: "int \<Rightarrow> pool_sets \<Rightarrow> pool_sets" where
  "purge now s = (let expired = zmembers_upto now (ps_expiry s) in
     s\<lparr>ps_active := zdrop_upto now (ps_active s),
       ps_queue := remove_all expired (ps_queue s), ps_expiry := remove_all expired (ps_expiry s),
       ps_global := zdrop_upto now (ps_global s), ps_caller := zdrop_upto now (ps_caller s)\<rparr>)"

definition leave_queues :: "str \<Rightarrow> pool_sets \<Rightarrow> pool_sets" where
  "leave_queues m s = s\<lparr>ps_queue := zrem m (ps_queue s), ps_expiry := zrem m (ps_expiry s),
     ps_global := zrem m (ps_global s), ps_caller := zrem m (ps_caller s)\<rparr>"

definition refresh_queue_ttls :: "pool_keys \<Rightarrow> int \<Rightarrow> int \<Rightarrow> redis \<Rightarrow> redis" where
  "refresh_queue_ttls k now wait r = (let ttl = wait + 1000 in
     cpexpire now (pk_sequence k) ttl (zpexpire now (pk_caller k) ttl (zpexpire now (pk_global k) ttl
       (zpexpire now (pk_expiry k) ttl (zpexpire now (pk_queue k) ttl r)))))"

definition retry_at :: "int \<Rightarrow> zset \<Rightarrow> int" where
  "retry_at latest z = (case zfirst z of Some e \<Rightarrow> if snd e < latest then snd e else latest
     | None \<Rightarrow> latest)"

definition pool_reply :: "int \<Rightarrow> pool_sets \<Rightarrow> int \<Rightarrow> int \<Rightarrow> int \<Rightarrow> reply" where
  "pool_reply status s position expires now =
    ints_reply [status, zcard (ps_active s), zcard (ps_global s), zcard (ps_queue s), position, expires, now]"

definition admit_now :: "pool_args \<Rightarrow> pool_keys \<Rightarrow> str \<Rightarrow> int \<Rightarrow> pool_sets \<Rightarrow> redis \<Rightarrow> reply \<times> redis" where
  "admit_now a k m now s r =
    (let s' = s\<lparr>ps_active := zadd_nx (now + pa_lease a) m (ps_active s)\<rparr>
     in (pool_reply 1 s' 0 (now + pa_lease a) now,
         zpexpire now (pk_active k) (pa_lease a) (store_sets k now s' r)))"

definition enqueue :: "pool_args \<Rightarrow> pool_keys \<Rightarrow> str \<Rightarrow> int \<Rightarrow> pool_sets \<Rightarrow> redis \<Rightarrow> reply \<times> redis" where
  "enqueue a k m now s r =
    (case incr now (pk_sequence k) r of (sequence, r1) \<Rightarrow>
       let expires = now + pa_wait a;
           s' = s\<lparr>ps_queue := zadd_nx sequence m (ps_queue s), ps_expiry := zadd_nx expires m (ps_expiry s),
                  ps_global := zadd_nx expires m (ps_global s), ps_caller := zadd_nx expires m (ps_caller s)\<rparr>;
           rank = (case zrank (ps_queue s') m of Some n \<Rightarrow> n | None \<Rightarrow> 0)
       in (pool_reply 2 s' (rank + 1) expires now,
           refresh_queue_ttls k now (pa_wait a) (store_sets k now s' r1)))"

definition enter_or_queue :: "pool_args \<Rightarrow> pool_keys \<Rightarrow> str \<Rightarrow> int \<Rightarrow> pool_sets \<Rightarrow> redis \<Rightarrow> reply \<times> redis" where
  "enter_or_queue a k m now s r =
    (if zcard (ps_active s) < pa_active_limit a \<and> zcard (ps_queue s) = 0 then admit_now a k m now s r
     else let retry = retry_at (now + pa_wait a) (ps_active s) in
       if pa_queue_limit a = 0 \<or> pa_queue_limit a \<le> zcard (ps_global s)
         then (pool_reply 4 s 0 (retry_at retry (ps_global s)) now, store_sets k now s r)
       else if pa_caller_limit a \<le> zcard (ps_caller s)
         then (pool_reply 3 s 0 (retry_at retry (ps_caller s)) now, store_sets k now s r)
       else enqueue a k m now s r)"

definition admit_script :: "pool_args \<Rightarrow> str \<Rightarrow> int \<Rightarrow> pool_keys \<Rightarrow> redis \<Rightarrow> reply \<times> redis" where
  "admit_script a m now k r =
    (let s = purge now (load_sets k now r) in
     case zscore (ps_active s) m of
       Some expiry \<Rightarrow>
         let s' = leave_queues m s
         in (pool_reply 1 s' 0 expiry now, zpexpire now (pk_active k) (pa_lease a) (store_sets k now s' r))
     | None \<Rightarrow>
         (case (zscore (ps_expiry s) m, zrank (ps_queue s) m) of
            (Some expiry, Some rank) \<Rightarrow>
              if rank = 0 \<and> zcard (ps_active s) < pa_active_limit a
                then admit_now a k m now (leave_queues m s) r
              else (pool_reply 2 s (rank + 1) expiry now,
                    refresh_queue_ttls k now (pa_wait a) (store_sets k now s r))
          | _ \<Rightarrow> enter_or_queue a k m now s r))"

definition cancel_script :: "str \<Rightarrow> int \<Rightarrow> pool_keys \<Rightarrow> redis \<Rightarrow> reply \<times> redis" where
  "cancel_script m now k r =
    (let s = load_sets k now r
     in (Reply_int (if zscore (ps_queue s) m = None then 0 else 1), store_sets k now (leave_queues m s) r))"

definition pool_observe_script :: "int \<Rightarrow> pool_keys \<Rightarrow> redis \<Rightarrow> reply \<times> redis" where
  "pool_observe_script now k r =
    (let s0 = load_sets k now r;
         s = (purge now s0)\<lparr>ps_caller := ps_caller s0\<rparr>;
         active_expiry = (case zfirst (ps_active s) of Some e \<Rightarrow> snd e | None \<Rightarrow> now);
         queue_count = zcard (ps_queue s);
         queue_expiry = (if 0 < queue_count then (case zfirst (ps_expiry s) of Some e \<Rightarrow> snd e | None \<Rightarrow> now) else now);
         s' = (if 0 < queue_count then s else s\<lparr>ps_queue := [], ps_expiry := []\<rparr>)
     in (ints_reply [zcard (ps_active s), zcard (ps_global s), queue_count, active_expiry, queue_expiry, now],
         store_sets k now s' r))"

subsection \<open>The limiter\<close>

datatype pool_status = Admitted | Queued | Caller_queue_full | Queue_full

fun pool_status_of :: "int \<Rightarrow> pool_status option" where
  "pool_status_of n = (if n = 1 then Some Admitted else if n = 2 then Some Queued
     else if n = 3 then Some Caller_queue_full else if n = 4 then Some Queue_full else None)"

record pool_decision =
  pd_status :: pool_status
  pd_active_count :: int
  pd_active_limit :: int
  pd_active_remaining :: int
  pd_queue_count :: int
  pd_queue_limit :: int
  pd_queue_remaining :: int
  pd_pool_queue_count :: int
  pd_queue_position :: int
  pd_expires_at :: int
  pd_observed_at :: int

definition admit_reply :: "int \<Rightarrow> int \<Rightarrow> int list \<Rightarrow> pool_decision res" where
  "admit_reply active_limit queue_limit ns = (case ns of
     [status_value, active_count, queue_count, pool_queue_count, position, expires_at, observed_at] \<Rightarrow>
       (case pool_status_of status_value of
          None \<Rightarrow> Inl ControlPlaneUnavailable
        | Some status \<Rightarrow>
            if \<not> (0 \<le> active_count \<and> active_count \<le> active_limit) \<or>
               \<not> (0 \<le> queue_count \<and> queue_count \<le> queue_limit) \<or>
               \<not> (0 \<le> pool_queue_count \<and> pool_queue_count \<le> queue_count) \<or>
               expires_at < observed_at \<or>
               status = Admitted \<and> (active_count < 1 \<or> position \<noteq> 0) \<or>
               status = Queued \<and> \<not> (1 \<le> position \<and> position \<le> pool_queue_count) \<or>
               status \<notin> {Admitted, Queued} \<and> position \<noteq> 0
              then Inl ControlPlaneUnavailable
            else Inr \<lparr>pd_status = status, pd_active_count = active_count, pd_active_limit = active_limit,
                   pd_active_remaining = max (active_limit - active_count) 0,
                   pd_queue_count = queue_count, pd_queue_limit = queue_limit,
                   pd_queue_remaining = max (queue_limit - queue_count) 0,
                   pd_pool_queue_count = pool_queue_count, pd_queue_position = position,
                   pd_expires_at = expires_at, pd_observed_at = observed_at\<rparr>)
   | _ \<Rightarrow> Inl ControlPlaneUnavailable)"

definition admit_or_enqueue :: "(str \<Rightarrow> str) \<Rightarrow> int \<Rightarrow> link \<Rightarrow> int \<Rightarrow> str \<Rightarrow> str \<Rightarrow> str \<Rightarrow>
    int \<Rightarrow> int \<Rightarrow> int \<Rightarrow> int \<Rightarrow> redis \<Rightarrow> pool_decision res \<times> redis" where
  "admit_or_enqueue sha lease l now pool client operation_id active_limit queue_limit caller_limit wait_seconds r =
    (case bind_res (validate_limits active_limit queue_limit caller_limit wait_seconds) (\<lambda>_.
          bind_res (pool_keys_of sha pool client) (\<lambda>k.
          bind_res (redis_identifier sha operation_id) (\<lambda>m. Inr (k, m)))) of
       Inl e \<Rightarrow> (Inl e, r)
     | Inr (k, m) \<Rightarrow>
         let a = \<lparr>pa_lease = lease, pa_active_limit = active_limit, pa_wait = wait_seconds * 1000,
                  pa_queue_limit = queue_limit, pa_caller_limit = caller_limit\<rparr>
         in (case run_ints l (admit_script a m now k) 7 r of
               (ns, r') \<Rightarrow> (bind_res ns (admit_reply active_limit queue_limit), r')))"

definition pool_heartbeat :: "(str \<Rightarrow> str) \<Rightarrow> int \<Rightarrow> link \<Rightarrow> int \<Rightarrow> str \<Rightarrow> str \<Rightarrow> redis \<Rightarrow> bool res \<times> redis" where
  "pool_heartbeat sha lease l now pool operation_id r =
    (case bind_res (active_key sha pool) (\<lambda>key. bind_res (redis_identifier sha operation_id) (\<lambda>m. Inr (key, m))) of
       Inl e \<Rightarrow> (Inl e, r)
     | Inr (key, m) \<Rightarrow>
         (case run_ints l (heartbeat_script lease m now key) 3 r of
            (ns, r') \<Rightarrow> (bind_res ns heartbeat_reply, r')))"

definition pool_release :: "(str \<Rightarrow> str) \<Rightarrow> link \<Rightarrow> int \<Rightarrow> str \<Rightarrow> str \<Rightarrow> redis \<Rightarrow> bool res \<times> redis" where
  "pool_release sha l now pool operation_id r =
    (case bind_res (active_key sha pool) (\<lambda>key. bind_res (redis_identifier sha operation_id) (\<lambda>m. Inr (key, m))) of
       Inl e \<Rightarrow> (Inl e, r)
     | Inr (key, m) \<Rightarrow>
         (case fail_closed l (release_script m now key) r of (v, r') \<Rightarrow> (bind_res v removed_reply, r')))"

definition pool_cancel :: "(str \<Rightarrow> str) \<Rightarrow> link \<Rightarrow> int \<Rightarrow> str \<Rightarrow> str \<Rightarrow> str \<Rightarrow> redis \<Rightarrow> bool res \<times> redis" where
  "pool_cancel sha l now pool client operation_id r =
    (case bind_res (pool_keys_of sha pool client) (\<lambda>k.
          bind_res (redis_identifier sha operation_id) (\<lambda>m. Inr (k, m))) of
       Inl e \<Rightarrow> (Inl e, r)
     | Inr (k, m) \<Rightarrow>
         (case fail_closed l (cancel_script m now k) r of (v, r') \<Rightarrow> (bind_res v removed_reply, r')))"

record pool_snapshot =
  pn_active_count :: int
  pn_active_limit :: int
  pn_active_remaining :: int
  pn_queue_count :: int
  pn_queue_limit :: int
  pn_queue_remaining :: int
  pn_pool_queue_count :: int
  pn_next_active_expires_at :: int
  pn_next_queue_expires_at :: int
  pn_observed_at :: int

definition pool_observe_reply :: "int \<Rightarrow> int \<Rightarrow> int list \<Rightarrow> pool_snapshot res" where
  "pool_observe_reply active_limit queue_limit ns = (case ns of
     [active_count, queue_count, pool_queue_count, active_expiry, queue_expiry, observed_at] \<Rightarrow>
       if \<not> (0 \<le> active_count \<and> active_count \<le> active_limit) \<or>
          \<not> (0 \<le> queue_count \<and> queue_count \<le> queue_limit) \<or>
          \<not> (0 \<le> pool_queue_count \<and> pool_queue_count \<le> queue_count) \<or>
          active_expiry < observed_at \<or> queue_expiry < observed_at \<or>
          active_count = 0 \<and> active_expiry \<noteq> observed_at \<or>
          pool_queue_count = 0 \<and> queue_expiry \<noteq> observed_at
         then Inl ControlPlaneUnavailable
       else Inr \<lparr>pn_active_count = active_count, pn_active_limit = active_limit,
              pn_active_remaining = max (active_limit - active_count) 0,
              pn_queue_count = queue_count, pn_queue_limit = queue_limit,
              pn_queue_remaining = max (queue_limit - queue_count) 0,
              pn_pool_queue_count = pool_queue_count, pn_next_active_expires_at = active_expiry,
              pn_next_queue_expires_at = queue_expiry, pn_observed_at = observed_at\<rparr>
   | _ \<Rightarrow> Inl ControlPlaneUnavailable)"

definition pool_observe :: "(str \<Rightarrow> str) \<Rightarrow> link \<Rightarrow> int \<Rightarrow> str \<Rightarrow> int \<Rightarrow> int \<Rightarrow> redis \<Rightarrow> pool_snapshot res \<times> redis" where
  "pool_observe sha l now pool active_limit queue_limit r =
    (if \<not> (1 \<le> active_limit \<and> active_limit \<le> 1000000)
       then (Inl (ValueError ''model-pool active limit must be between 1 and 1000000''), r)
     else if \<not> (0 \<le> queue_limit \<and> queue_limit \<le> 1000000)
       then (Inl (ValueError ''global queue limit must be between 0 and 1000000''), r)
     else case pool_keys_of sha pool ''observation'' of
       Inl e \<Rightarrow> (Inl e, r)
     | Inr k \<Rightarrow>
         (case run_ints l (pool_observe_script now k) 6 r of
            (ns, r') \<Rightarrow> (bind_res ns (pool_observe_reply active_limit queue_limit), r')))"

end
