(* ===== verification/Model_Pool_Properties.thy ===== *)
theory Model_Pool_Properties
  imports Model_Pool Rate_Limits_Properties
begin

text \<open>
  Properties of the model pools: the active set of a pool is a lease machine whose size
  never passes the limit, and a waiting operation is never overtaken.
\<close>

subsection \<open>Keys\<close>

lemma namespace_no_colon: "full_class is_namespace_char 1 32 ns \<Longrightarrow> CHR '':'' \<notin> set ns"
  using full_class_set [of is_namespace_char 1 32 ns "CHR '':''"]
  by (auto simp: is_namespace_char_def is_lower_alpha_def)

text \<open>Keys of different namespaces differ.\<close>

lemma build_redis_key_namespace:
  assumes "build_redis_key sha ns is = Inr key" and "build_redis_key sha ns' js = Inr key"
  shows "ns = ns'"
proof -
  have "full_class is_namespace_char 1 32 ns" "full_class is_namespace_char 1 32 ns'"
    using assms by (auto simp: build_redis_key_def split: if_splits)
  then have "CHR '':'' \<notin> set ns" "CHR '':'' \<notin> set ns'" by (simp_all add: namespace_no_colon)
  moreover obtain cs where "key = ''zangpu:v1:'' @ ns @ CHR '':'' # cs"
    using assms(1) by (auto simp: build_redis_key_def bind_res_Inr split: if_splits)
  moreover obtain ds where "key = ''zangpu:v1:'' @ ns' @ CHR '':'' # ds"
    using assms(2) by (auto simp: build_redis_key_def bind_res_Inr split: if_splits)
  ultimately have "ns @ CHR '':'' # cs = ns' @ CHR '':'' # ds" by simp
  with \<open>CHR '':'' \<notin> set ns\<close> \<open>CHR '':'' \<notin> set ns'\<close> show ?thesis using append_sep_inj by metis
qed

definition separate_keys :: "pool_keys \<Rightarrow> bool" where
  "separate_keys k \<longleftrightarrow> distinct [pk_active k, pk_queue k, pk_expiry k, pk_global k, pk_caller k]"

lemma pool_keys_separate:
  assumes "pool_keys_of sha pool client = Inr k"
  shows "separate_keys k"
proof -
  obtain a q e g c where k: "build_redis_key sha ''model_active'' a = Inr (pk_active k)"
    "build_redis_key sha ''model_queue'' q = Inr (pk_queue k)"
    "build_redis_key sha ''model_queue_expiry'' e = Inr (pk_expiry k)"
    "build_redis_key sha ''model_queue_global'' g = Inr (pk_global k)"
    "build_redis_key sha ''model_queue_caller'' c = Inr (pk_caller k)"
    using assms by (auto simp: pool_keys_of_def active_key_def queue_keys_def bind_res_Inr)
  have ne: "x \<noteq> y" if "build_redis_key sha n i = Inr x" "build_redis_key sha m j = Inr y" "n \<noteq> m" for x y n m i j
    using build_redis_key_namespace that by blast
  show ?thesis
    using ne [OF k(1) k(2)] ne [OF k(1) k(3)] ne [OF k(1) k(4)] ne [OF k(1) k(5)]
      ne [OF k(2) k(3)] ne [OF k(2) k(4)] ne [OF k(2) k(5)] ne [OF k(3) k(4)] ne [OF k(3) k(5)] ne [OF k(4) k(5)]
    by (simp add: separate_keys_def)
qed

subsection \<open>What a script leaves in the active set\<close>

lemma separate_keysD:
  assumes "separate_keys k"
  shows "pk_active k \<noteq> pk_queue k" "pk_active k \<noteq> pk_expiry k" "pk_active k \<noteq> pk_global k"
    "pk_active k \<noteq> pk_caller k" "pk_queue k \<noteq> pk_active k" "pk_expiry k \<noteq> pk_active k"
    "pk_global k \<noteq> pk_active k" "pk_caller k \<noteq> pk_active k"
  using assms by (auto simp: separate_keys_def)

lemma store_active:
  assumes "separate_keys k"
  shows "zget now (pk_active k) (store_sets k now s r) = ps_active s"
    and "zttl now (pk_active k) (store_sets k now s r) =
      (if ps_active s = [] then None else zttl now (pk_active k) r)"
  using separate_keysD [OF assms] by (simp_all add: store_sets_def)

lemma rd_zsets_counters [simp]: "rd_zsets (cpexpire now j ms r) = rd_zsets r" "rd_zsets (snd (incr now j r)) = rd_zsets r"
  by (auto simp: cpexpire_def incr_def Let_def split: option.splits prod.splits)

lemma zget_counters [simp]:
  "zget now k (cpexpire now j ms r) = zget now k r" "zttl now k (cpexpire now j ms r) = zttl now k r"
  "zget now k (snd (incr now j r)) = zget now k r" "zttl now k (snd (incr now j r)) = zttl now k r"
  by (simp_all add: zget_def zttl_def)

lemma incr_fields:
  assumes "incr now j r = (v, r1)"
  shows "zget now k r1 = zget now k r" "zttl now k r1 = zttl now k r"
  using zget_counters(3,4) [of now k j r] by (simp_all add: assms)

lemma refresh_active:
  assumes "separate_keys k" and "0 \<le> wait"
  shows "zget now (pk_active k) (refresh_queue_ttls k now wait r) = zget now (pk_active k) r"
    and "zttl now (pk_active k) (refresh_queue_ttls k now wait r) = zttl now (pk_active k) r"
  using separate_keysD [OF assms(1)] assms(2)
  by (simp_all add: refresh_queue_ttls_def Let_def zttl_zpexpire)

lemma zttl_renewed: "0 \<le> ms \<Longrightarrow> zget now k r \<noteq> [] \<Longrightarrow> zttl now k (zpexpire now k ms r) = Some (now + ms)"
  by (auto simp: zttl_zpexpire zget_def split: option.splits)

definition legal_args :: "pool_args \<Rightarrow> bool" where
  "legal_args a \<longleftrightarrow> 0 < pa_lease a \<and> 0 < pa_active_limit a \<and> 0 \<le> pa_wait a"

text \<open>The active set after an admission call: the live leases, with one more for the caller
  when there is room.\<close>

lemma admit_now_active:
  assumes "separate_keys k" and "legal_args a"
  shows "zget now (pk_active k) (snd (admit_now a k m now s r)) = zadd_nx (now + pa_lease a) m (ps_active s)"
    and "zttl now (pk_active k) (snd (admit_now a k m now s r)) = Some (now + pa_lease a)"
  using assms by (simp_all add: admit_now_def Let_def store_active zttl_renewed legal_args_def)


lemma purge_active [simp]: "ps_active (purge now s) = zdrop_upto now (ps_active s)"
  by (simp add: purge_def Let_def)

lemma load_active [simp]: "ps_active (load_sets k now r) = zget now (pk_active k) r"
  by (simp add: load_sets_def)

lemma leave_active [simp]: "ps_active (leave_queues m s) = ps_active s"
  by (simp add: leave_queues_def)

definition active_kept :: "int \<Rightarrow> int \<Rightarrow> int \<Rightarrow> str \<Rightarrow> redis \<Rightarrow> redis \<Rightarrow> bool" where
  "active_kept now lease limit key r r' \<longleftrightarrow>
    (let z = zdrop_upto now (zget now key r) in
      zget now key r' = z \<and> (z \<noteq> [] \<longrightarrow> zttl now key r' = zttl now key r \<or> zttl now key r' = Some (now + lease)) \<or>
      (\<exists>m. zcard z < limit \<and> zget now key r' = zadd_nx (now + lease) m z \<and> zttl now key r' = Some (now + lease)))"

lemma stored_active_kept:
  assumes "separate_keys k" and "ps_active s = zdrop_upto now (zget now (pk_active k) r)"
  shows "active_kept now lease limit (pk_active k) r (store_sets k now s r)"
  using assms(2) by (simp add: active_kept_def store_active [OF assms(1)])

lemma admit_now_kept:
  assumes "separate_keys k" and "legal_args a" and "ps_active s = zdrop_upto now (zget now (pk_active k) r)"
    and "zcard (ps_active s) < pa_active_limit a"
  shows "active_kept now (pa_lease a) (pa_active_limit a) (pk_active k) r (snd (admit_now a k m now s r))"
  using assms(3,4) by (auto simp: active_kept_def admit_now_active [OF assms(1,2)] Let_def)

lemma enqueue_kept:
  assumes "separate_keys k" and "legal_args a" and "ps_active s = zdrop_upto now (zget now (pk_active k) r)"
  shows "active_kept now (pa_lease a) (pa_active_limit a) (pk_active k) r (snd (enqueue a k m now s r))"
proof -
  obtain v r1 where i: "incr now (pk_sequence k) r = (v, r1)" by fastforce
  have w: "0 \<le> pa_wait a" using assms(2) by (simp add: legal_args_def)
  show ?thesis
    using assms(3)
    by (simp add: enqueue_def i Let_def active_kept_def refresh_active [OF assms(1) w] store_active [OF assms(1)]
        incr_fields [OF i])
qed

lemma admit_script_kept:
  assumes "separate_keys k" and "legal_args a"
  shows "active_kept now (pa_lease a) (pa_active_limit a) (pk_active k) r (snd (admit_script a m now k r))"
proof -
  let ?s = "purge now (load_sets k now r)"
  have w: "0 \<le> pa_wait a" "0 \<le> pa_lease a" using assms(2) by (simp_all add: legal_args_def)
  have enter: "active_kept now (pa_lease a) (pa_active_limit a) (pk_active k) r (snd (enter_or_queue a k m now ?s r))"
    using admit_now_kept [OF assms, of ?s] enqueue_kept [OF assms, of ?s] stored_active_kept [OF assms(1), of ?s]
    by (simp add: enter_or_queue_def Let_def)
  show ?thesis
  proof (cases "zscore (ps_active ?s) m")
    case (Some e)
    then have ne: "zdrop_upto now (zget now (pk_active k) r) \<noteq> []" by (auto simp: zscore_def)
    then have "zttl now (pk_active k) (zpexpire now (pk_active k) (pa_lease a) (store_sets k now (leave_queues m ?s) r))
        = Some (now + pa_lease a)"
      using w by (intro zttl_renewed) (simp_all add: store_active [OF assms(1)])
    then show ?thesis
      using Some w by (simp add: admit_script_def Let_def active_kept_def store_active [OF assms(1)])
  next
    case None
    note active_None = this
    show ?thesis
    proof (cases "(zscore (ps_expiry ?s) m, zrank (ps_queue ?s) m)")
      case (Pair x y)
      show ?thesis
      proof (cases "x = None \<or> y = None")
        case True
        then have "admit_script a m now k r = enter_or_queue a k m now ?s r"
          using active_None Pair by (auto simp: admit_script_def Let_def split: option.splits)
        with enter show ?thesis by simp
      next
        case False
        then obtain e n where en: "zscore (ps_expiry ?s) m = Some e" "zrank (ps_queue ?s) m = Some n"
          using Pair by auto
        show ?thesis
          using active_None en w stored_active_kept [OF assms(1), of ?s]
            admit_now_kept [OF assms, of "leave_queues m ?s"]
          by (simp add: admit_script_def Let_def active_kept_def refresh_active [OF assms(1)])
      qed
    qed
  qed
qed


subsection \<open>Calls on one pool\<close>

datatype pool_call =
    Pool_admit str str int
  | Pool_heartbeat str
  | Pool_release str
  | Pool_cancel str str
  | Pool_observe

record pool_config =
  pc_lease :: int
  pc_active_limit :: int
  pc_queue_limit :: int
  pc_wait_seconds :: int

fun pool_call_state :: "(str \<Rightarrow> str) \<Rightarrow> pool_config \<Rightarrow> str \<Rightarrow> pool_call \<Rightarrow> link \<Rightarrow> int \<Rightarrow> redis \<Rightarrow> redis" where
  "pool_call_state sha f pool (Pool_admit client q caller_limit) l now r =
    snd (admit_or_enqueue sha (pc_lease f) l now pool client q (pc_active_limit f) (pc_queue_limit f)
      caller_limit (pc_wait_seconds f) r)"
| "pool_call_state sha f pool (Pool_heartbeat q) l now r = snd (pool_heartbeat sha (pc_lease f) l now pool q r)"
| "pool_call_state sha f pool (Pool_release q) l now r = snd (pool_release sha l now pool q r)"
| "pool_call_state sha f pool (Pool_cancel client q) l now r = snd (pool_cancel sha l now pool client q r)"
| "pool_call_state sha f pool Pool_observe l now r =
    snd (pool_observe sha l now pool (pc_active_limit f) (pc_queue_limit f) r)"

definition pool_step :: "(str \<Rightarrow> str) \<Rightarrow> pool_config \<Rightarrow> str \<Rightarrow> int \<times> link \<times> pool_call \<Rightarrow> int \<times> redis \<Rightarrow> unit + int \<times> redis" where
  "pool_step sha f pool c s = (case c of (now, l, call) \<Rightarrow>
     if now < fst s then Inl () else Inr (now, pool_call_state sha f pool call l now (snd s)))"

definition pool_active_key :: "(str \<Rightarrow> str) \<Rightarrow> str \<Rightarrow> str" where
  "pool_active_key sha pool = ''zangpu:v1:model_active:'' @ sha pool"

lemma active_key_Inr: "active_key sha pool = Inr key \<Longrightarrow> key = pool_active_key sha pool"
  by (simp add: active_key_def pool_active_key_def build_redis_key_single)

lemma pool_keys_active: "pool_keys_of sha pool client = Inr k \<Longrightarrow> pk_active k = pool_active_key sha pool"
  by (auto simp: pool_keys_of_def queue_keys_def bind_res_Inr dest: active_key_Inr)

lemma active_kept_inv:
  assumes "0 < lease" and "0 < limit" and inv: "lease_inv lease limit key (t, r)" and "t \<le> now"
    and kept: "active_kept now lease limit key r r'"
  shows "lease_inv lease limit key (now, r')"
proof -
  note I = lease_inv_later [OF inv assms(4) less_imp_le [OF assms(2)]]
  let ?z = "zdrop_upto now (zget now key r)"
  have ok: "zok ?z" and card: "zcard ?z \<le> limit" using I(1,2) zcard_le(2) [of now "zget now key r"] by auto
  have old: "\<exists>u. zttl now key r = Some u \<and> snd e \<le> u \<and> u \<le> now + lease" if "e \<in> set ?z" for e
    using I(3) that by auto
  from kept consider
      (same) "zget now key r' = ?z" "?z \<noteq> [] \<longrightarrow> zttl now key r' = zttl now key r \<or> zttl now key r' = Some (now + lease)"
    | (new) m where "zcard ?z < limit" "zget now key r' = zadd_nx (now + lease) m ?z" "zttl now key r' = Some (now + lease)"
    by (auto simp: active_kept_def Let_def)
  then show ?thesis
  proof cases
    case same
    have "\<exists>u. zttl now key r' = Some u \<and> snd e \<le> u \<and> u \<le> now + lease" if e: "e \<in> set ?z" for e
    proof -
      have "?z \<noteq> []" using e by (metis empty_iff empty_set)
      with same(2) old [OF e] show ?thesis by auto
    qed
    with ok card show ?thesis by (simp add: lease_inv_def Let_def same(1))
  next
    case new
    have "snd e \<le> now + lease" if "e \<in> set (zadd_nx (now + lease) m ?z)" for e
      using that old by (fastforce simp: set_zadd_nx split: if_splits)
    with ok new(1) show ?thesis by (simp add: lease_inv_def Let_def new(2,3) zcard_zadd_nx)
  qed
qed

lemma same_active_inv:
  assumes "lease_inv lease limit key (now, r)" and "zget now key r' = zget now key r"
    and "zget now key r \<noteq> [] \<Longrightarrow> zttl now key r' = zttl now key r"
  shows "lease_inv lease limit key (now, r')"
  using assms by (cases "zget now key r = []") (auto simp: lease_inv_def Let_def)

definition legal_config :: "pool_config \<Rightarrow> bool" where
  "legal_config f \<longleftrightarrow> 0 < pc_lease f \<and> 0 < pc_active_limit f"

definition pool_inv :: "(str \<Rightarrow> str) \<Rightarrow> pool_config \<Rightarrow> str \<Rightarrow> int \<times> redis \<Rightarrow> bool" where
  "pool_inv sha f pool s \<longleftrightarrow> legal_config f \<and> lease_inv (pc_lease f) (pc_active_limit f) (pool_active_key sha pool) s"

lemma pool_call_inv:
  assumes "pool_inv sha f pool (t, r)" and "t \<le> now"
  shows "lease_inv (pc_lease f) (pc_active_limit f) (pool_active_key sha pool) (now, pool_call_state sha f pool call l now r)"
proof -
  let ?key = "pool_active_key sha pool" and ?I = "\<lambda>r. lease_inv (pc_lease f) (pc_active_limit f) (pool_active_key sha pool) (now, r)"
  have pos: "0 < pc_lease f" "0 < pc_active_limit f" and inv: "lease_inv (pc_lease f) (pc_active_limit f) ?key (t, r)"
    using assms(1) by (auto simp: pool_inv_def legal_config_def)
  have base: "?I r" by (rule lease_inv_time [OF inv assms(2) less_imp_le [OF pos(2)]])
  have script: "?I r'" if "lease_script (pc_lease f) (pc_active_limit f) ?key a now r = (v, r')" for a v r'
    by (rule lease_script_inv [OF pos inv assms(2) that])
  show ?thesis
  proof (cases call)
    case (Pool_admit client q caller_limit)
    show ?thesis
    proof (cases "bind_res (validate_limits (pc_active_limit f) (pc_queue_limit f) caller_limit (pc_wait_seconds f)) (\<lambda>_.
          bind_res (pool_keys_of sha pool client) (\<lambda>k. bind_res (redis_identifier sha q) (\<lambda>m. Inr (k, m))))")
      case (Inl e)
      then show ?thesis using base by (simp add: Pool_admit admit_or_enqueue_def)
    next
      case (Inr km)
      then obtain k m where km: "km = (k, m)" "pool_keys_of sha pool client = Inr k" "1 \<le> pc_wait_seconds f"
        by (cases km) (auto simp: bind_res_Inr validate_limits_def split: if_splits)
      define a where "a = \<lparr>pa_lease = pc_lease f, pa_active_limit = pc_active_limit f, pa_wait = pc_wait_seconds f * 1000,
                  pa_queue_limit = pc_queue_limit f, pa_caller_limit = caller_limit\<rparr>"
      have "legal_args a" using pos km(3) by (simp add: legal_args_def a_def)
      from admit_script_kept [where now = now and m = m and r = r, OF pool_keys_separate [OF km(2)] this]
      have kept: "active_kept now (pc_lease f) (pc_active_limit f) ?key r (snd (admit_script a m now k r))"
        by (simp add: a_def pool_keys_active [OF km(2)])
      have "?I (snd (admit_script a m now k r))" by (rule active_kept_inv [OF pos inv assms(2) kept])
      then show ?thesis
        using base run_ints_state [of l "admit_script a m now k" 7 r] Inr km(1)
        by (auto simp: Pool_admit admit_or_enqueue_def a_def [symmetric] Let_def snd_run_ints)
    qed
  next
    case (Pool_heartbeat q)
    have "?I (snd (heartbeat_script (pc_lease f) m now ?key r))" for m
      using script [of "Lease_heartbeat m"] by (metis lease_script.simps(2) prod.collapse)
    then show ?thesis
      using base run_ints_state [of l "heartbeat_script (pc_lease f) (sha q) now ?key" 3 r]
      by (auto simp: Pool_heartbeat pool_heartbeat_def snd_run_ints bind_res_Inr redis_identifier_def
          dest!: active_key_Inr split: sum.splits if_splits)
  next
    case (Pool_release q)
    have "?I (snd (release_script m now ?key r))" for m
      using script [of "Lease_release m"] by (metis lease_script.simps(3) prod.collapse)
    then show ?thesis
      using base fail_closed_state [of l "release_script (sha q) now ?key" r]
      by (auto simp: Pool_release pool_release_def snd_fail_closed bind_res_Inr redis_identifier_def
          dest!: active_key_Inr split: sum.splits if_splits)
  next
    case (Pool_cancel client q)
    show ?thesis
    proof (cases "bind_res (pool_keys_of sha pool client) (\<lambda>k. bind_res (redis_identifier sha q) (\<lambda>m. Inr (k, m)))")
      case (Inl e)
      then show ?thesis using base by (simp add: Pool_cancel pool_cancel_def)
    next
      case (Inr km)
      then obtain k where km: "km = (k, sha q)" "pool_keys_of sha pool client = Inr k"
        by (cases km) (auto simp: bind_res_Inr redis_identifier_def split: if_splits)
      have "?I (snd (cancel_script (sha q) now k r))"
        by (rule same_active_inv [OF base])
          (simp_all add: cancel_script_def Let_def load_sets_def leave_queues_def
            store_active [OF pool_keys_separate [OF km(2)], unfolded pool_keys_active [OF km(2)]] pool_keys_active [OF km(2)])
      then show ?thesis
        using base fail_closed_state [of l "cancel_script (sha q) now k" r] Inr km(1)
        by (auto simp: Pool_cancel pool_cancel_def snd_fail_closed)
    qed
  next
    case Pool_observe
    show ?thesis
    proof (cases "pool_keys_of sha pool ''observation''")
      case (Inl e)
      then show ?thesis using base by (simp add: Pool_observe pool_observe_def)
    next
      case (Inr k)
      have "active_kept now (pc_lease f) (pc_active_limit f) ?key r (snd (pool_observe_script now k r))"
        using stored_active_kept [OF pool_keys_separate [OF Inr]]
        by (simp add: pool_observe_script_def Let_def pool_keys_active [OF Inr])
      then have "?I (snd (pool_observe_script now k r))" by (rule active_kept_inv [OF pos inv assms(2)])
      then show ?thesis
        using base run_ints_state [of l "pool_observe_script now k" 6 r] Inr
        by (auto simp: Pool_observe pool_observe_def snd_run_ints)
    qed
  qed
qed

lemma pool_step_inv:
  assumes "pool_inv sha f pool s" and "pool_step sha f pool c s = Inr s'"
  shows "pool_inv sha f pool s'"
proof -
  obtain t r where s: "s = (t, r)" by (cases s)
  obtain now l call where c: "c = (now, l, call)" by (cases c)
  have "t \<le> now" "s' = (now, pool_call_state sha f pool call l now r)"
    using assms(2) by (auto simp: pool_step_def s c split: if_splits)
  with pool_call_inv [OF assms(1) [unfolded s]] assms(1) show ?thesis by (simp add: pool_inv_def)
qed

interpretation pools: invariant_ops "pool_step sha f pool" "pool_inv sha f pool"
  by unfold_locales (rule pool_step_inv)

text \<open>C30: a model pool never runs more operations than its active limit, whatever admissions,
  heartbeats, releases, cancellations and observations its callers issue, in any order, at
  non-decreasing server times and on links that may fail.\<close>

theorem pool_active_bounded:
  assumes "legal_config f" and "rd_zsets r (pool_active_key sha pool) = None"
    and "run_steps (pool_step sha f pool) calls (t, r) = (t', r')" and "t' \<le> now"
  shows "zcard (zget now (pool_active_key sha pool) r') \<le> pc_active_limit f"
proof -
  have "pool_inv sha f pool (t, r)"
    using assms(1,2) by (simp add: pool_inv_def lease_inv_missing legal_config_def)
  then have "pool_inv sha f pool (t', r')"
    using pools.run_inv [of sha f pool "(t, r)" calls] by (simp add: assms(3))
  then have "lease_inv (pc_lease f) (pc_active_limit f) (pool_active_key sha pool) (t', r')"
    by (simp add: pool_inv_def)
  from lease_inv_later(2) [OF this assms(4)] assms(1) show ?thesis by (simp add: legal_config_def)
qed

definition sample_pool :: pool_config where
  "sample_pool = \<lparr>pc_lease = 2000, pc_active_limit = 1, pc_queue_limit = 5, pc_wait_seconds = 10\<rparr>"

lemma pool_active_bounded_witness:
  "zcard (zget 1200 (pool_active_key (\<lambda>x. x) ''p'') (snd (run_steps (pool_step (\<lambda>x. x) sample_pool ''p'')
    [(1000, Link_up, Pool_admit ''c'' ''a'' 3), (1100, Link_up, Pool_admit ''d'' ''b'' 3),
     (1200, Lost_reply, Pool_release ''a'')] (0, empty_redis)))) \<le> 1"
proof -
  have pre: "legal_config sample_pool" "rd_zsets empty_redis (pool_active_key (\<lambda>x. x) ''p'') = None"
    by (simp_all add: legal_config_def sample_pool_def empty_redis_def)
  have t: "fst (run_steps (pool_step (\<lambda>x. x) sample_pool ''p'')
    [(1000, Link_up, Pool_admit ''c'' ''a'' 3), (1100, Link_up, Pool_admit ''d'' ''b'' 3),
     (1200, Lost_reply, Pool_release ''a'')] (0, empty_redis)) \<le> 1200"
    by (simp add: pool_step_def)
  from pool_active_bounded [OF pre prod.collapse [symmetric] t] show ?thesis by (simp add: sample_pool_def)
qed

subsection \<open>No overtaking\<close>

lemma admit_status:
  assumes "admit_script a m now k r = (ints_reply (1 # ns), r')"
    and "zscore (ps_active (purge now (load_sets k now r))) m = None"
  shows "zrank (ps_queue (purge now (load_sets k now r))) m = Some 0 \<or> ps_queue (purge now (load_sets k now r)) = []"
  using assms
  by (auto simp: admit_script_def Let_def enter_or_queue_def enqueue_def admit_now_def pool_reply_def ints_reply_def
      split: option.splits if_splits prod.splits)

text \<open>Waiting operations are not overtaken: when the script admits an operation that was
  not active, either no ticket waits in the pool, or the operation is the one whose ticket
  comes first, by sequence number, among the tickets that have not expired; and there was a
  free slot.\<close>

theorem pool_admits_first_ticket:
  assumes "pool_keys_of sha pool client = Inr k"
    and "zok (ps_queue (purge now (load_sets k now r)))"
    and "admit_script a m now k r = (ints_reply (1 # ns), r')"
    and "zscore (ps_active (purge now (load_sets k now r))) m = None"
  shows "zcard (ps_active (purge now (load_sets k now r))) < pa_active_limit a \<and>
    (\<forall>e \<in> set (ps_queue (purge now (load_sets k now r))).
      \<exists>s. zscore (ps_queue (purge now (load_sets k now r))) m = Some s \<and> (s, m) \<le> (snd e, fst e))"
proof -
  let ?s = "purge now (load_sets k now r)"
  have "zcard (ps_active ?s) < pa_active_limit a"
    using assms(3,4)
    by (auto simp: admit_script_def Let_def enter_or_queue_def enqueue_def pool_reply_def ints_reply_def
        split: option.splits if_splits prod.splits)
  moreover have "\<exists>s. zscore (ps_queue ?s) m = Some s \<and> (s, m) \<le> (snd e, fst e)" if "e \<in> set (ps_queue ?s)" for e
  proof -
    have rank: "zrank (ps_queue ?s) m = Some 0" using admit_status [OF assms(3,4)] that by auto
    then obtain s where s: "zscore (ps_queue ?s) m = Some s" by (auto simp: zrank_def)
    with zrank_zero [OF assms(2) s] rank that show ?thesis by blast
  qed
  ultimately show ?thesis by blast
qed

lemma pool_admits_first_ticket_witness:
  "\<exists>k. pool_keys_of (\<lambda>x. x) ''p'' ''c'' = Inr k \<and>
    zcard (ps_active (purge 1000 (load_sets k 1000 empty_redis))) < 1"
proof -
  define k where "k = \<lparr>pk_active = ''zangpu:v1:model_active:p'', pk_queue = ''zangpu:v1:model_queue:p'',
    pk_expiry = ''zangpu:v1:model_queue_expiry:p'', pk_global = ''zangpu:v1:model_queue_global:global'',
    pk_caller = ''zangpu:v1:model_queue_caller:c'', pk_sequence = ''zangpu:v1:model_queue_seq:p''\<rparr>"
  define a where "a = \<lparr>pa_lease = 2000, pa_active_limit = 1, pa_wait = 10000, pa_queue_limit = 5, pa_caller_limit = 3\<rparr>"
  have keys: "pool_keys_of (\<lambda>x. x) ''p'' ''c'' = Inr k" unfolding k_def by code_simp
  have "fst (admit_script a ''m'' 1000 k empty_redis) = ints_reply [1, 1, 0, 0, 0, 3000, 1000]"
    unfolding k_def a_def by code_simp
  then have run: "admit_script a ''m'' 1000 k empty_redis =
      (ints_reply [1, 1, 0, 0, 0, 3000, 1000], snd (admit_script a ''m'' 1000 k empty_redis))"
    by (metis prod.collapse)
  have "zok (ps_queue (purge 1000 (load_sets k 1000 empty_redis)))"
    "zscore (ps_active (purge 1000 (load_sets k 1000 empty_redis))) ''m'' = None"
    unfolding k_def by code_simp+
  from pool_admits_first_ticket [OF keys this(1) run this(2)] keys show ?thesis by (auto simp: a_def)
qed

end
