(* ===== verification/Streaming.thy ===== *)
theory Streaming
  imports Schema
begin

text \<open>
  The decoder of the upstream event stream, \<open>backend/app/services/streaming.py\<close>, and the
  Token usage it extracts (\<open>ChatUsage\<close> of \<open>backend/app/integrations/bifrost/models.py\<close>).
  The state is the decoder object; \<open>feed\<close> and \<open>finish\<close> return it updated, and every refusal
  is the one protocol error of the upstream client.

  Two functions are parameters: \<open>loads\<close>, the JSON reader, and \<open>coerce\<close>, the reading of three
  integer fields out of a JSON value by the validation library; the bounds and the sum rule
  the code states on them are part of the model.
\<close>

definition MAX_SSE_LINE_BYTES :: int where
  "MAX_SSE_LINE_BYTES = 1024 * 1024"

definition protocol_error :: exn where
  "protocol_error = BifrostUpstreamError ''BIFROST_PROTOCOL_ERROR'' 502 True"

subsection \<open>Usage\<close>

record chat_usage =
  us_prompt :: int
  us_completion :: int
  us_total :: int

definition in_bigint :: "int \<Rightarrow> bool" where
  "in_bigint n \<longleftrightarrow> 0 \<le> n \<and> n \<le> SIGNED_BIGINT_MAX"

definition validate_usage :: "(json \<Rightarrow> (int \<times> int \<times> int) option) \<Rightarrow> json \<Rightarrow> chat_usage option" where
  "validate_usage coerce v = (case coerce v of
     None \<Rightarrow> None
   | Some (prompt, completion, tot) \<Rightarrow>
       if in_bigint prompt \<and> in_bigint completion \<and> in_bigint tot \<and> tot = prompt + completion
         then Some \<lparr>us_prompt = prompt, us_completion = completion, us_total = tot\<rparr>
       else None)"

lemma validate_usage_Some:
  "validate_usage coerce v = Some u \<Longrightarrow> in_bigint (us_prompt u) \<and> in_bigint (us_completion u) \<and>
    us_total u = us_prompt u + us_completion u \<and> us_total u \<le> SIGNED_BIGINT_MAX"
  by (auto simp: validate_usage_def in_bigint_def split: option.splits prod.splits if_splits)

subsection \<open>The decoder\<close>

record decoder =
  dc_buffer :: str
  dc_lines :: "str list"
  dc_done :: bool
  dc_usage :: "chat_usage option"

definition new_decoder :: decoder where
  "new_decoder = \<lparr>dc_buffer = [], dc_lines = [], dc_done = False, dc_usage = None\<rparr>"

fun split_line :: "str \<Rightarrow> (str \<times> str) option" where
  "split_line [] = None"
| "split_line (c # cs) = (if c = nl then Some ([], cs)
     else case split_line cs of None \<Rightarrow> None | Some (line, rest) \<Rightarrow> Some (c # line, rest))"

lemma split_line_None: "split_line s = None \<longleftrightarrow> nl \<notin> set s"
  by (induction s) (auto split: option.splits)

lemma split_line_Some: "split_line s = Some (line, rest) \<longleftrightarrow> s = line @ nl # rest \<and> nl \<notin> set line"
proof (induction s arbitrary: line)
  case Nil
  then show ?case by simp
next
  case (Cons c cs)
  show ?case
  proof (cases "c = nl")
    case True
    then show ?thesis by (cases line) auto
  next
    case False
    then have "split_line (c # cs) = Some (line, rest) \<longleftrightarrow>
        (\<exists>l. line = c # l \<and> split_line cs = Some (l, rest))"
      by (auto split: option.splits)
    also have "\<dots> \<longleftrightarrow> c # cs = line @ nl # rest \<and> nl \<notin> set line"
      using False by (cases line) (simp_all add: Cons.IH, blast)
    finally show ?thesis .
  qed
qed

fun join_lines :: "str list \<Rightarrow> str" where
  "join_lines [] = []"
| "join_lines [l] = l"
| "join_lines (l # m # ls) = l @ nl # join_lines (m # ls)"

definition field :: "str \<Rightarrow> (str \<times> json) list \<Rightarrow> json option" where
  "field k payload = map_of (rev payload) k"

definition sized_text :: "nat \<Rightarrow> json option \<Rightarrow> bool" where
  "sized_text hi v = (case v of Some (JStr s) \<Rightarrow> 1 \<le> py_len s \<and> py_len s \<le> hi | _ \<Rightarrow> False)"

definition sized_list :: "nat \<Rightarrow> json option \<Rightarrow> bool" where
  "sized_list hi v = (case v of Some (JList xs) \<Rightarrow> length xs \<le> hi | _ \<Rightarrow> False)"

definition chunk_ok :: "(str \<times> json) list \<Rightarrow> bool" where
  "chunk_ok payload \<longleftrightarrow>
    (case field ''object'' payload of Some (JStr s) \<Rightarrow> s = ''chat.completion.chunk'' | _ \<Rightarrow> False) \<and>
    sized_text 128 (field ''id'' payload) \<and> sized_text 255 (field ''model'' payload) \<and>
    sized_list 128 (field ''choices'' payload) \<and> field ''error'' payload = None"

definition data_frame :: "str \<Rightarrow> str" where
  "data_frame data = ''data: '' @ data @ [nl, nl]"

definition finish_event :: "(str \<Rightarrow> json option) \<Rightarrow> (json \<Rightarrow> (int \<times> int \<times> int) option) \<Rightarrow>
    decoder \<Rightarrow> (decoder \<times> str list) res" where
  "finish_event loads coerce d0 =
    (if dc_lines d0 = [] then Inr (d0, [])
     else let data = join_lines (dc_lines d0); d = d0\<lparr>dc_lines := []\<rparr> in
       if data = ''[DONE]'' then
         (if dc_done d \<or> dc_usage d = None then Inl protocol_error
          else Inr (d\<lparr>dc_done := True\<rparr>, [data_frame ''[DONE]'']))
       else if dc_done d then Inl protocol_error
       else (case loads data of
           Some (JObj payload) \<Rightarrow>
             if \<not> chunk_ok payload then Inl protocol_error
             else (case field ''usage'' payload of
                 None \<Rightarrow> if field ''choices'' payload = Some (JList []) then Inl protocol_error
                         else Inr (d, [data_frame data])
               | Some JNull \<Rightarrow> if field ''choices'' payload = Some (JList []) then Inl protocol_error
                         else Inr (d, [data_frame data])
               | Some v \<Rightarrow>
                   (case validate_usage coerce v of
                      None \<Rightarrow> Inl protocol_error
                    | Some u \<Rightarrow> if dc_usage d \<noteq> None then Inl protocol_error
                                else Inr (d\<lparr>dc_usage := Some u\<rparr>, [data_frame data])))
         | _ \<Rightarrow> Inl protocol_error))"

definition strip_cr :: "str \<Rightarrow> str" where
  "strip_cr line = (if line \<noteq> [] \<and> last line = CHR 0x0D then butlast line else line)"

definition prefixed :: "str \<Rightarrow> str \<Rightarrow> bool" where
  "prefixed p s \<longleftrightarrow> take (length p) s = p"

definition feed_line :: "(str \<Rightarrow> json option) \<Rightarrow> (json \<Rightarrow> (int \<times> int \<times> int) option) \<Rightarrow>
    decoder \<Rightarrow> str \<Rightarrow> (decoder \<times> str list) res" where
  "feed_line loads coerce d raw =
    (let line = strip_cr raw in
     if MAX_SSE_LINE_BYTES < int (length line) then Inl protocol_error
     else if dc_done d \<and> line \<noteq> [] then Inl protocol_error
     else if line = [] then finish_event loads coerce d
     else if prefixed '':'' line then Inr (d, [])
     else if \<not> prefixed ''data:'' line then Inl protocol_error
     else let v = drop 5 line;
              v' = (if prefixed '' '' v then drop 1 v else v)
       in Inr (d\<lparr>dc_lines := dc_lines d @ [v']\<rparr>, []))"

function drain :: "(str \<Rightarrow> json option) \<Rightarrow> (json \<Rightarrow> (int \<times> int \<times> int) option) \<Rightarrow>
    decoder \<Rightarrow> str \<Rightarrow> (decoder \<times> str list) res" where
  "drain loads coerce d buffer = (case split_line buffer of
     None \<Rightarrow> Inr (d\<lparr>dc_buffer := buffer\<rparr>, [])
   | Some (line, rest) \<Rightarrow>
       (case feed_line loads coerce d line of
          Inl e \<Rightarrow> Inl e
        | Inr (d', frames) \<Rightarrow>
            (case drain loads coerce d' rest of
               Inl e \<Rightarrow> Inl e
             | Inr (d'', fs) \<Rightarrow> Inr (d'', frames @ fs))))"
  by pat_completeness auto
termination
  by (relation "measure (\<lambda>(_, _, _, buffer). length buffer)") (auto simp: split_line_Some)

declare drain.simps [simp del]

definition feed :: "(str \<Rightarrow> json option) \<Rightarrow> (json \<Rightarrow> (int \<times> int \<times> int) option) \<Rightarrow>
    decoder \<Rightarrow> str \<Rightarrow> (decoder \<times> str list) res" where
  "feed loads coerce d chunk =
    (if chunk = [] \<or> dc_done d then Inl protocol_error
     else let buffer = dc_buffer d @ chunk in
       if MAX_SSE_LINE_BYTES < int (length buffer) \<and> nl \<notin> set buffer then Inl protocol_error
       else drain loads coerce d buffer)"

definition finish :: "decoder \<Rightarrow> unit res" where
  "finish d = (if dc_buffer d \<noteq> [] \<or> dc_lines d \<noteq> [] \<or> \<not> dc_done d \<or> dc_usage d = None
     then Inl protocol_error else Inr ())"

fun feed_all :: "(str \<Rightarrow> json option) \<Rightarrow> (json \<Rightarrow> (int \<times> int \<times> int) option) \<Rightarrow>
    decoder \<Rightarrow> str list \<Rightarrow> (decoder \<times> str list) res" where
  "feed_all loads coerce d [] = Inr (d, [])"
| "feed_all loads coerce d (c # cs) = (case feed loads coerce d c of
     Inl e \<Rightarrow> Inl e
   | Inr (d', frames) \<Rightarrow> (case feed_all loads coerce d' cs of
       Inl e \<Rightarrow> Inl e
     | Inr (d'', fs) \<Rightarrow> Inr (d'', frames @ fs)))"

subsection \<open>Chunks do not matter\<close>

lemma split_line_append:
  "split_line s = Some (line, rest) \<Longrightarrow> split_line (s @ t) = Some (line, rest @ t)"
  by (simp add: split_line_Some)

lemma finish_event_buffer:
  "finish_event loads coerce (d\<lparr>dc_buffer := b\<rparr>) =
    (case finish_event loads coerce d of Inl e \<Rightarrow> Inl e | Inr (d', fs) \<Rightarrow> Inr (d'\<lparr>dc_buffer := b\<rparr>, fs))"
  by (simp add: finish_event_def Let_def split: option.split json.split)

lemma feed_line_buffer:
  "feed_line loads coerce d l = Inr (d', fs) \<Longrightarrow>
    feed_line loads coerce (d\<lparr>dc_buffer := b\<rparr>) l = Inr (d'\<lparr>dc_buffer := b\<rparr>, fs)"
  by (auto simp: feed_line_def Let_def finish_event_buffer split: if_splits)

lemma drain_None: "split_line s = None \<Longrightarrow> drain loads coerce d s = Inr (d\<lparr>dc_buffer := s\<rparr>, [])"
  by (subst drain.simps) simp

lemma drain_Some:
  assumes "split_line s = Some (line, rest)"
  shows "drain loads coerce d s = Inr (d', fs) \<longleftrightarrow> (\<exists>d1 f1 f2. feed_line loads coerce d line = Inr (d1, f1) \<and>
    drain loads coerce d1 rest = Inr (d', f2) \<and> fs = f1 @ f2)"
  using assms by (subst drain.simps) (auto split: sum.splits prod.splits)

text \<open>Induction over a successful drain.\<close>

lemma drain_induct [consumes 1, case_names stop step]:
  assumes "drain loads coerce d s = Inr (d', fs)"
    and "\<And>d s. split_line s = None \<Longrightarrow> P d s (d\<lparr>dc_buffer := s\<rparr>) []"
    and "\<And>d s line rest d1 f1 d' f2. split_line s = Some (line, rest) \<Longrightarrow>
      feed_line loads coerce d line = Inr (d1, f1) \<Longrightarrow> drain loads coerce d1 rest = Inr (d', f2) \<Longrightarrow>
      P d1 rest d' f2 \<Longrightarrow> P d s d' (f1 @ f2)"
  shows "P d s d' fs"
  using assms(1)
proof (induction "length s" arbitrary: d s d' fs rule: less_induct)
  case less
  show ?case
  proof (cases "split_line s")
    case None
    with less.prems have "d' = d\<lparr>dc_buffer := s\<rparr>" "fs = []" by (simp_all add: drain_None)
    with assms(2) [OF None] show ?thesis by simp
  next
    case (Some lr)
    obtain line rest where lr: "split_line s = Some (line, rest)" using Some by (cases lr) simp
    then obtain d1 f1 f2 where st: "feed_line loads coerce d line = Inr (d1, f1)"
      "drain loads coerce d1 rest = Inr (d', f2)" "fs = f1 @ f2"
      using less.prems drain_Some [OF lr] by blast
    have "length rest < length s" using lr by (simp add: split_line_Some)
    from assms(3) [OF lr st(1,2) less.hyps [OF this st(2)]] st(3) show ?thesis by simp
  qed
qed

lemma drain_buffer:
  "drain loads coerce d s = Inr (d', fs) \<Longrightarrow> drain loads coerce (d\<lparr>dc_buffer := b\<rparr>) s = Inr (d', fs)"
proof (induction rule: drain_induct)
  case (stop d s)
  then show ?case by (simp add: drain_None)
next
  case (step d s line rest d1 f1 d' f2)
  from feed_line_buffer [OF step(2), of b] step(4) show ?case by (auto simp: drain_Some [OF step(1)])
qed

text \<open>Draining a longer buffer is draining the first part and then the rest behind what it
  left over.\<close>

lemma drain_append:
  "drain loads coerce d s = Inr (d1, f1) \<Longrightarrow> drain loads coerce d1 (dc_buffer d1 @ t) = Inr (d2, f2) \<Longrightarrow>
    drain loads coerce d (s @ t) = Inr (d2, f1 @ f2)"
proof (induction rule: drain_induct)
  case (stop d s)
  then show ?case using drain_buffer [of loads coerce "d\<lparr>dc_buffer := s\<rparr>" "s @ t" d2 f2 "dc_buffer d"] by simp
next
  case (step d s line rest e1 g1 e2 g2)
  note sp = split_line_append [OF step(1), of t]
  from step(2) step(4) [OF step(5)] show ?case by (auto simp: drain_Some [OF sp])
qed

text \<open>What is left over after a drain holds no newline.\<close>

lemma drain_rest: "drain loads coerce d s = Inr (d', fs) \<Longrightarrow> nl \<notin> set (dc_buffer d')"
  by (induction rule: drain_induct) (simp_all add: split_line_None)

lemma feed_Inr:
  "feed loads coerce d c = Inr r \<Longrightarrow> drain loads coerce d (dc_buffer d @ c) = Inr r \<and> c \<noteq> [] \<and> \<not> dc_done d"
  by (auto simp: feed_def Let_def split: if_splits)

lemma feed_all_drain:
  "feed_all loads coerce d cs = Inr (d', fs) \<Longrightarrow> nl \<notin> set (dc_buffer d) \<Longrightarrow>
    drain loads coerce d (dc_buffer d @ concat cs) = Inr (d', fs)"
proof (induction cs arbitrary: d fs)
  case Nil
  then have "split_line (dc_buffer d) = None" by (simp add: split_line_None)
  with Nil show ?case by (simp add: drain_None)
next
  case (Cons c cs)
  obtain d1 f1 f2 where s: "feed loads coerce d c = Inr (d1, f1)" "feed_all loads coerce d1 cs = Inr (d', f2)"
    "fs = f1 @ f2"
    using Cons.prems(1) by (auto split: sum.splits prod.splits)
  have dr: "drain loads coerce d (dc_buffer d @ c) = Inr (d1, f1)" using feed_Inr [OF s(1)] by simp
  have "drain loads coerce d1 (dc_buffer d1 @ concat cs) = Inr (d', f2)"
    by (rule Cons.IH [OF s(2) drain_rest [OF dr]])
  from drain_append [OF dr this] s(3) show ?case by simp
qed

end
