(* ===== verification/Streaming_Properties.thy ===== *)
theory Streaming_Properties
  imports Streaming
begin

text \<open>
  Properties of the stream decoder: chunk boundaries do not matter, the end marker comes
  once, last and only behind the usage, memory is bounded, and a forwarded event reads back
  as itself when its data is one line (and does not when it spans several).
\<close>

definition sample_loads :: "str \<Rightarrow> json option" where
  "sample_loads s = (if s = ''A'' then Some (JObj [(''object'', JStr ''chat.completion.chunk''), (''id'', JStr ''i''),
     (''model'', JStr ''m''), (''choices'', JList [JNull]), (''usage'', JInt 3)]) else None)"

definition sample_coerce :: "json \<Rightarrow> (int \<times> int \<times> int) option" where
  "sample_coerce v = (case v of JInt n \<Rightarrow> Some (1, n - 1, n) | _ \<Rightarrow> None)"

definition sample_chunks :: "str list" where
  "sample_chunks = [''data:'', '' A'' @ [nl], [nl] @ ''data: [DO'', ''NE]'' @ [nl, nl]]"

lemma sample_feed:
  "feed_all sample_loads sample_coerce new_decoder sample_chunks =
    Inr (\<lparr>dc_buffer = [], dc_lines = [], dc_done = True,
      dc_usage = Some \<lparr>us_prompt = 1, us_completion = 2, us_total = 3\<rparr>\<rparr>,
      [data_frame ''A'', data_frame ''[DONE]''])"
  by code_simp

text \<open>C31: where the network cuts the stream does not matter: two sequences of chunks with the
  same bytes that are both accepted give the same frames and leave the decoder in the same
  state.\<close>

theorem chunks_do_not_matter:
  assumes "feed_all loads coerce new_decoder cs = Inr (d1, f1)"
    and "feed_all loads coerce new_decoder ds = Inr (d2, f2)" and "concat cs = concat ds"
  shows "d1 = d2 \<and> f1 = f2"
proof -
  have "nl \<notin> set (dc_buffer new_decoder)" by (simp add: new_decoder_def)
  from feed_all_drain [OF assms(1) this] feed_all_drain [OF assms(2) this] assms(3) show ?thesis by simp
qed

lemma chunks_do_not_matter_witness:
  "feed_all sample_loads sample_coerce new_decoder [concat sample_chunks] =
    feed_all sample_loads sample_coerce new_decoder sample_chunks"
proof -
  have "is_ok (feed_all sample_loads sample_coerce new_decoder [concat sample_chunks])" by code_simp
  then obtain d fs where "feed_all sample_loads sample_coerce new_decoder [concat sample_chunks] = Inr (d, fs)"
    by (auto simp: is_ok_def split: sum.splits)
  from chunks_do_not_matter [OF this sample_feed] this show ?thesis by (simp add: sample_feed)
qed

subsection \<open>The end marker\<close>

definition accepted_frame :: "(str \<Rightarrow> json option) \<Rightarrow> str \<Rightarrow> bool" where
  "accepted_frame loads f \<longleftrightarrow> (\<exists>data payload. f = data_frame data \<and> data \<noteq> ''[DONE]'' \<and>
     loads data = Some (JObj payload) \<and> chunk_ok payload)"

definition done_frame :: str where
  "done_frame = data_frame ''[DONE]''"

lemma accepted_not_done: "accepted_frame loads f \<Longrightarrow> f \<noteq> done_frame"
  by (auto simp: accepted_frame_def done_frame_def data_frame_def)

definition protocol_inv :: "(str \<Rightarrow> json option) \<Rightarrow> decoder \<Rightarrow> str list \<Rightarrow> bool" where
  "protocol_inv loads d fs \<longleftrightarrow>
    opt_all (\<lambda>u. us_total u = us_prompt u + us_completion u \<and> us_total u \<le> SIGNED_BIGINT_MAX) (dc_usage d) \<and>
    (if dc_done d then dc_usage d \<noteq> None \<and> (\<exists>gs. fs = gs @ [done_frame] \<and> list_all (accepted_frame loads) gs)
     else list_all (accepted_frame loads) fs)"

lemma finish_event_cases:
  assumes "finish_event loads coerce d = Inr (d', fs)"
  obtains (none) "dc_lines d = []" "d' = d" "fs = []"
    | (marker) "\<not> dc_done d" "dc_usage d \<noteq> None" "d' = d\<lparr>dc_lines := [], dc_done := True\<rparr>" "fs = [done_frame]"
    | (plain) data where "\<not> dc_done d" "d' = d\<lparr>dc_lines := []\<rparr>" "fs = [data_frame data]" "accepted_frame loads (data_frame data)"
    | (usage) data u v where "\<not> dc_done d" "dc_usage d = None" "validate_usage coerce v = Some u"
        "d' = d\<lparr>dc_lines := [], dc_usage := Some u\<rparr>" "fs = [data_frame data]" "accepted_frame loads (data_frame data)"
proof (cases "dc_lines d = []")
  case True
  with assms show ?thesis by (intro none) (simp_all add: finish_event_def)
next
  case False
  let ?data = "join_lines (dc_lines d)"
  show ?thesis
  proof (cases "?data = ''[DONE]''")
    case True
    with False assms show ?thesis
      by (intro marker) (auto simp: finish_event_def Let_def done_frame_def split: if_splits)
  next
    case nd: False
    then obtain payload where p: "loads ?data = Some (JObj payload)" "chunk_ok payload" "\<not> dc_done d"
      using False assms by (auto simp: finish_event_def Let_def split: if_splits option.splits json.splits)
    have acc: "accepted_frame loads (data_frame ?data)" using p nd by (auto simp: accepted_frame_def)
    show ?thesis
    proof (cases "field ''usage'' payload = None \<or> field ''usage'' payload = Some JNull")
      case True
      with False nd p assms acc show ?thesis
        by (intro plain [of ?data]) (auto simp: finish_event_def Let_def split: if_splits)
    next
      case False
      then obtain v where v: "field ''usage'' payload = Some v" "v \<noteq> JNull" by auto
      have "finish_event loads coerce d = (case validate_usage coerce v of None \<Rightarrow> Inl protocol_error
          | Some u \<Rightarrow> if dc_usage d \<noteq> None then Inl protocol_error
                      else Inr (d\<lparr>dc_lines := [], dc_usage := Some u\<rparr>, [data_frame ?data]))"
        using \<open>dc_lines d \<noteq> []\<close> nd p v by (cases v) (simp_all add: finish_event_def Let_def split: option.split)
      with assms acc p(3) show ?thesis
        by (auto intro: usage [of v _ ?data] split: option.splits if_splits)
    qed
  qed
qed

lemma feed_line_cases:
  assumes "feed_line loads coerce d l = Inr (d', fs)"
  shows "finish_event loads coerce d = Inr (d', fs) \<or> d' = d \<and> fs = [] \<or>
    (\<exists>v. d' = d\<lparr>dc_lines := dc_lines d @ [v]\<rparr> \<and> fs = [])"
proof (cases "strip_cr l = []")
  case True
  with assms show ?thesis by (simp add: feed_line_def split: if_splits)
next
  case False
  show ?thesis
  proof (cases "prefixed '':'' (strip_cr l)")
    case True
    with False assms show ?thesis by (simp add: feed_line_def Let_def if_Inl_Inr)
  next
    case nc: False
    with False assms have "\<exists>v. Inr (d', fs) = (Inr (d\<lparr>dc_lines := dc_lines d @ [v]\<rparr>, []) :: (decoder \<times> str list) res)"
      unfolding feed_line_def Let_def by (metis Inl_Inr_False)
    then show ?thesis by auto
  qed
qed

lemma feed_line_protocol:
  assumes "protocol_inv loads d gs" and "feed_line loads coerce d l = Inr (d', fs)"
  shows "protocol_inv loads d' (gs @ fs)"
proof -
  consider (event) "finish_event loads coerce d = Inr (d', fs)" | (comment) "d' = d" "fs = []"
    | (data) v where "d' = d\<lparr>dc_lines := dc_lines d @ [v]\<rparr>" "fs = []"
    using feed_line_cases [OF assms(2)] by blast
  then show ?thesis
  proof cases
    case event
    then show ?thesis
      using assms(1)
      by (cases rule: finish_event_cases) (auto simp: protocol_inv_def opt_all_def dest: validate_usage_Some)
  qed (use assms(1) in \<open>simp_all add: protocol_inv_def\<close>)
qed

lemma drain_protocol:
  "drain loads coerce d s = Inr (d', fs) \<Longrightarrow> protocol_inv loads d gs \<Longrightarrow> protocol_inv loads d' (gs @ fs)"
proof (induction arbitrary: gs rule: drain_induct)
  case (stop d s)
  then show ?case by (simp add: protocol_inv_def)
next
  case (step d s line rest d1 f1 d' f2)
  from step(4) [OF feed_line_protocol [OF step(5,2)]] show ?case by simp
qed

text \<open>C32: a stream that is accepted to its end consists of validated chunks followed by the
  end marker, which occurs exactly once and last; the usage has been seen by then, its total
  is the sum of its parts and fits 64 bits. Nothing the provider sends reaches the client
  unvalidated.\<close>

theorem accepted_stream_protocol:
  assumes "feed_all loads coerce new_decoder cs = Inr (d, fs)" and "finish d = Inr ()"
  shows "\<exists>gs u. fs = gs @ [done_frame] \<and> list_all (accepted_frame loads) gs \<and> done_frame \<notin> set gs \<and>
    dc_usage d = Some u \<and> us_total u = us_prompt u + us_completion u \<and> us_total u \<le> SIGNED_BIGINT_MAX"
proof -
  have "nl \<notin> set (dc_buffer new_decoder)" "protocol_inv loads new_decoder []"
    by (simp_all add: new_decoder_def protocol_inv_def)
  from drain_protocol [OF feed_all_drain [OF assms(1) this(1)] this(2)] have "protocol_inv loads d fs" by simp
  moreover have "dc_done d" "dc_usage d \<noteq> None" using assms(2) by (auto simp: finish_def split: if_splits)
  ultimately obtain gs u where "fs = gs @ [done_frame]" "list_all (accepted_frame loads) gs" "dc_usage d = Some u"
    "us_total u = us_prompt u + us_completion u" "us_total u \<le> SIGNED_BIGINT_MAX"
    by (auto simp: protocol_inv_def)
  moreover from this(2) have "done_frame \<notin> set gs"
    using accepted_not_done by (auto simp: list_all_iff)
  ultimately show ?thesis by blast
qed

lemma accepted_stream_protocol_witness:
  "\<exists>gs. [data_frame ''A'', data_frame ''[DONE]''] = gs @ [done_frame] \<and> list_all (accepted_frame sample_loads) gs"
proof -
  have "finish \<lparr>dc_buffer = [], dc_lines = [], dc_done = True,
      dc_usage = Some \<lparr>us_prompt = 1, us_completion = 2, us_total = 3\<rparr>\<rparr> = Inr ()"
    by (simp add: finish_def)
  from accepted_stream_protocol [OF sample_feed this] show ?thesis by blast
qed

subsection \<open>Memory\<close>

lemma drain_rest_suffix: "drain loads coerce d s = Inr (d', fs) \<Longrightarrow> \<exists>p. s = p @ dc_buffer d' \<and> (p = [] \<or> last p = nl)"
proof (induction rule: drain_induct)
  case (stop d s)
  then show ?case by simp
next
  case (step d s line rest d1 f1 d' f2)
  from step(4) obtain p where p: "rest = p @ dc_buffer d'" "p = [] \<or> last p = nl" by blast
  have s: "s = line @ nl # rest" using step(1) by (simp add: split_line_Some)
  show ?case
    by (rule exI [of _ "line @ nl # p"]) (use p s in auto)
qed

lemma feed_buffer_bound:
  assumes "feed loads coerce d c = Inr (d', fs)" and "nl \<notin> set (dc_buffer d)"
  shows "int (length (dc_buffer d')) \<le> max MAX_SSE_LINE_BYTES (int (length c))"
proof (cases "nl \<in> set c")
  case True
  have dr: "drain loads coerce d (dc_buffer d @ c) = Inr (d', fs)" using feed_Inr [OF assms(1)] by simp
  then obtain p where p: "dc_buffer d @ c = p @ dc_buffer d'" using drain_rest_suffix by blast
  have "length (dc_buffer d') \<le> length c"
  proof (rule ccontr)
    assume "\<not> length (dc_buffer d') \<le> length c"
    then have "length p \<le> length (dc_buffer d)" using arg_cong [OF p, of length] by simp
    then have "\<exists>q. dc_buffer d' = q @ c" using p by (metis append_eq_append_conv2 append_eq_conv_conj take_all_iff append_take_drop_id append_assoc)
    then have "nl \<in> set (dc_buffer d')" using True by auto
    with drain_rest [OF dr] show False by blast
  qed
  then show ?thesis by simp
next
  case False
  then have "nl \<notin> set (dc_buffer d @ c)" using assms(2) by simp
  then have "int (length (dc_buffer d @ c)) \<le> MAX_SSE_LINE_BYTES" "dc_buffer d' = dc_buffer d @ c"
    using assms(1) drain_None [of "dc_buffer d @ c"]
    by (auto simp: feed_def Let_def split_line_None split: if_splits)
  then show ?thesis by simp
qed

text \<open>The decoder's memory is bounded: between chunks it keeps at most the line limit of
  one MiB, or the part of a larger last chunk behind its last line.\<close>

theorem decoder_buffer_bounded:
  assumes "feed_all loads coerce new_decoder cs = Inr (d, fs)" and "\<forall>c \<in> set cs. int (length c) \<le> n"
  shows "int (length (dc_buffer d)) \<le> max MAX_SSE_LINE_BYTES n"
proof -
  have "nl \<notin> set (dc_buffer e) \<Longrightarrow> int (length (dc_buffer e)) \<le> max MAX_SSE_LINE_BYTES n \<Longrightarrow>
      feed_all loads coerce e cs = Inr (d, fs) \<Longrightarrow> int (length (dc_buffer d)) \<le> max MAX_SSE_LINE_BYTES n" for e
    using assms(2)
  proof (induction cs arbitrary: e fs)
    case Nil
    then show ?case by simp
  next
    case (Cons c cs)
    then obtain e1 f1 f2 where s: "feed loads coerce e c = Inr (e1, f1)" "feed_all loads coerce e1 cs = Inr (d, f2)"
      by (auto split: sum.splits prod.splits)
    have "nl \<notin> set (dc_buffer e1)" using feed_Inr [OF s(1)] drain_rest by blast
    moreover have "int (length (dc_buffer e1)) \<le> max MAX_SSE_LINE_BYTES n"
      using feed_buffer_bound [OF s(1) Cons.prems(1)] Cons.prems(4) by fastforce
    ultimately show ?case using Cons.IH s(2) Cons.prems(4) by simp
  qed
  from this [of new_decoder] assms(1) show ?thesis by (simp add: new_decoder_def MAX_SSE_LINE_BYTES_def)
qed

lemma decoder_buffer_bounded_witness: "int (length ([] :: str)) \<le> max MAX_SSE_LINE_BYTES 10"
proof -
  have "\<forall>c \<in> set sample_chunks. int (length c) \<le> 10" by code_simp
  from decoder_buffer_bounded [OF sample_feed this] show ?thesis by simp
qed

subsection \<open>Reading a forwarded event back\<close>

definition one_line :: "str \<Rightarrow> bool" where
  "one_line data \<longleftrightarrow> data \<noteq> [] \<and> nl \<notin> set data \<and> last data \<noteq> CHR 0x0D"

lemma data_line:
  assumes "one_line data" and "int (length data) + 6 \<le> MAX_SSE_LINE_BYTES" and "\<not> dc_done d"
  shows "feed_line loads coerce d (''data: '' @ data) = Inr (d\<lparr>dc_lines := dc_lines d @ [data]\<rparr>, [])"
  using assms by (simp add: feed_line_def Let_def strip_cr_def prefixed_def one_line_def)

lemma empty_line: "feed_line loads coerce d [] = finish_event loads coerce d"
  by (simp add: feed_line_def Let_def strip_cr_def MAX_SSE_LINE_BYTES_def)

definition one_line_frame :: "str \<Rightarrow> bool" where
  "one_line_frame f \<longleftrightarrow> (\<exists>data. f = data_frame data \<and> one_line data \<and> int (length data) + 6 \<le> MAX_SSE_LINE_BYTES)"

lemma data_frame_inj [simp]: "data_frame a = data_frame b \<longleftrightarrow> a = b"
  by (simp add: data_frame_def)

text \<open>The state between two events.\<close>

definition at_rest :: "decoder \<Rightarrow> decoder" where
  "at_rest d = d\<lparr>dc_buffer := [], dc_lines := []\<rparr>"

lemma finish_event_Inr:
  assumes "finish_event loads coerce d = Inr (d1, fs)"
  shows "dc_lines d = [] \<and> d1 = d \<and> fs = [] \<or>
    fs = [data_frame (join_lines (dc_lines d))] \<and> \<not> dc_done d \<and>
      finish_event loads coerce (at_rest d\<lparr>dc_lines := [join_lines (dc_lines d)]\<rparr>) = Inr (at_rest d1, fs)"
  using assms
  by (auto simp: finish_event_def Let_def at_rest_def split: if_splits option.splits json.splits)

lemma feed_line_Inr:
  assumes "feed_line loads coerce d line = Inr (d1, fs)"
  shows "fs = [] \<and> at_rest d1 = at_rest d \<or>
    (\<exists>data. fs = [data_frame data] \<and> \<not> dc_done d \<and>
      finish_event loads coerce (at_rest d\<lparr>dc_lines := [data]\<rparr>) = Inr (at_rest d1, fs))"
proof (cases "strip_cr line = []")
  case True
  then have "finish_event loads coerce d = Inr (d1, fs)"
    using assms by (simp add: feed_line_def Let_def MAX_SSE_LINE_BYTES_def)
  from finish_event_Inr [OF this] show ?thesis by auto
next
  case False
  then show ?thesis using assms by (auto simp: feed_line_def Let_def at_rest_def split: if_splits)
qed

lemma feed_frame:
  assumes "one_line data" and "int (length data) + 6 \<le> MAX_SSE_LINE_BYTES" and "\<not> dc_done d"
    and "finish_event loads coerce (at_rest d\<lparr>dc_lines := [data]\<rparr>) = Inr (at_rest d1, fs)"
  shows "feed loads coerce (at_rest d) (data_frame data) = Inr (at_rest d1, fs)"
proof -
  have "nl \<notin> set (''data: '' @ data)" using assms(1) by (simp add: one_line_def nl_def)
  then have s1: "split_line (data_frame data) = Some (''data: '' @ data, [nl])"
    by (simp only: split_line_Some data_frame_def) simp
  have l1: "feed_line loads coerce (at_rest d) (''data: '' @ data) = Inr (at_rest d\<lparr>dc_lines := [data]\<rparr>, [])"
    using data_line [OF assms(1,2), of "at_rest d"] assms(3) by (simp add: at_rest_def)
  have "drain loads coerce (at_rest d\<lparr>dc_lines := [data]\<rparr>) [nl] = Inr (at_rest d1, fs)"
  proof -
    have "drain loads coerce (at_rest d1) [] = Inr (at_rest d1, [])" by (simp add: drain_None at_rest_def)
    then show ?thesis by (subst drain.simps) (simp add: empty_line assms(4))
  qed
  then have "drain loads coerce (at_rest d) (data_frame data) = Inr (at_rest d1, fs)"
    by (subst drain.simps) (simp add: s1 l1 del: append_Cons)
  moreover have "nl \<in> set (data_frame data)" "data_frame data \<noteq> []" by (simp_all add: data_frame_def)
  ultimately show ?thesis using assms(3) by (simp add: feed_def at_rest_def Let_def)
qed

lemma drained_frames_read_back:
  "drain loads coerce d s = Inr (d', fs) \<Longrightarrow> list_all one_line_frame fs \<Longrightarrow>
    feed_all loads coerce (at_rest d) fs = Inr (at_rest d', fs)"
proof (induction rule: drain_induct)
  case (stop d s)
  then show ?case by (simp add: at_rest_def)
next
  case (step d s line rest d1 f1 d' f2)
  then have ih: "feed_all loads coerce (at_rest d1) f2 = Inr (at_rest d', f2)" by simp
  from feed_line_Inr [OF step(2)] show ?case
  proof (elim disjE exE conjE)
    assume "f1 = []" "at_rest d1 = at_rest d"
    with ih show ?thesis by simp
  next
    fix data
    assume a: "f1 = [data_frame data]" "\<not> dc_done d"
      "finish_event loads coerce (at_rest d\<lparr>dc_lines := [data]\<rparr>) = Inr (at_rest d1, f1)"
    then have "one_line data" "int (length data) + 6 \<le> MAX_SSE_LINE_BYTES"
      using step.prems by (auto simp: one_line_frame_def)
    from feed_frame [OF this a(2,3)] ih a(1) show ?thesis by simp
  qed
qed

text \<open>A stream of one-line events survives forwarding: the frames handed to the client,
  read by the same decoder, are accepted and give the same frames again, and the reader ends
  with the usage and the end marker the decoder has seen.\<close>

theorem forwarded_stream_reads_back:
  assumes "feed_all loads coerce new_decoder cs = Inr (d, fs)" and "list_all one_line_frame fs"
  shows "feed_all loads coerce new_decoder fs = Inr (d\<lparr>dc_buffer := [], dc_lines := []\<rparr>, fs)"
proof -
  have "nl \<notin> set (dc_buffer new_decoder)" by (simp add: new_decoder_def)
  from drained_frames_read_back [OF feed_all_drain [OF assms(1) this] assms(2)] show ?thesis
    by (simp add: at_rest_def new_decoder_def)
qed

lemma forwarded_stream_reads_back_witness:
  "\<exists>d. feed_all sample_loads sample_coerce new_decoder [data_frame ''A'', data_frame ''[DONE]''] =
    Inr (d, [data_frame ''A'', data_frame ''[DONE]'']) \<and> finish d = Inr ()"
proof -
  have "list_all one_line_frame [data_frame ''A'', data_frame ''[DONE]'']"
    by (simp add: one_line_frame_def one_line_def nl_def MAX_SSE_LINE_BYTES_def)
  from forwarded_stream_reads_back [OF sample_feed this] show ?thesis by (simp add: finish_def)
qed

text \<open>An event whose data spans several lines does not survive: its lines are joined by
  newlines and forwarded behind a single field name, and the decoder itself refuses that
  frame when its second line is neither empty, nor a comment, nor a data line.\<close>

theorem multi_line_event_broken:
  assumes "one_line a" and "int (length a) + 6 \<le> MAX_SSE_LINE_BYTES" and "one_line b"
    and "\<not> prefixed '':'' b" and "\<not> prefixed ''data:'' b"
  shows "join_lines [a, b] = a @ nl # b \<and>
    feed loads coerce new_decoder (data_frame (join_lines [a, b])) = Inl protocol_error"
proof -
  have "nl \<notin> set (''data: '' @ a)" using assms(1) by (simp add: one_line_def nl_def)
  then have s1: "split_line (data_frame (a @ nl # b)) = Some (''data: '' @ a, b @ [nl, nl])"
    by (simp only: split_line_Some data_frame_def) simp
  have s2: "split_line (b @ [nl, nl]) = Some (b, [nl])"
    using assms(3) by (simp add: split_line_Some one_line_def)
  let ?d = "new_decoder\<lparr>dc_lines := [a]\<rparr>"
  have l1: "feed_line loads coerce new_decoder (''data: '' @ a) = Inr (?d, [])"
    using data_line [OF assms(1,2), of new_decoder] by (simp add: new_decoder_def)
  have l2: "feed_line loads coerce ?d b = Inl protocol_error"
    using assms(3-5) by (simp add: feed_line_def Let_def strip_cr_def one_line_def new_decoder_def)
  have "drain loads coerce new_decoder (data_frame (a @ nl # b)) = Inl protocol_error"
  proof -
    have "drain loads coerce ?d (b @ [nl, nl]) = Inl protocol_error" by (subst drain.simps) (simp add: s2 l2)
    then show ?thesis by (subst drain.simps, simp only: s1 option.case prod.case l1 sum.case)
  qed
  moreover have "nl \<in> set (data_frame (a @ nl # b))" "data_frame (a @ nl # b) \<noteq> []"
    by (simp_all add: data_frame_def)
  ultimately show ?thesis by (simp add: feed_def new_decoder_def Let_def)
qed

lemma multi_line_event_broken_witness:
  "feed sample_loads sample_coerce new_decoder (data_frame (join_lines [''{'', ''}''])) = Inl protocol_error"
proof -
  have "one_line ''{''" "int (length ''{'') + 6 \<le> MAX_SSE_LINE_BYTES" "one_line ''}''"
    "\<not> prefixed '':'' ''}''" "\<not> prefixed ''data:'' ''}''"
    by (simp_all add: one_line_def nl_def prefixed_def MAX_SSE_LINE_BYTES_def)
  from multi_line_event_broken [OF this] show ?thesis by blast
qed

end
