(* ===== verification/Canonical.thy ===== *)
theory Canonical
  imports Prelude
begin

text \<open>
  The canonical request and its signature, \<open>backend/app/security/canonical.py\<close>, and the
  signer of the Python SDK, \<open>sdk/python/src/zangpu_sdk/signing.py\<close>, which states the same
  format in its own code. Text is UTF-8 bytes, so percent decoding acts on it directly and
  the strict UTF-8 check is a predicate on bytes. SHA-256 (\<open>sha\<close>, hexadecimal) and
  HMAC-SHA-256 (\<open>mac\<close>, hexadecimal, of a key and a message) are parameters.
\<close>

definition HMAC_ALGORITHM :: str where
  "HMAC_ALGORITHM = ''ZANGPU-HMAC-SHA256''"

definition SIGNATURE_VERSION :: str where
  "SIGNATURE_VERSION = ''1''"

subsection \<open>Percent encoding\<close>

definition hex_value :: "char \<Rightarrow> nat" where
  "hex_value c = (let n = of_char c in
     if is_digit c then n - 48 else if 97 \<le> n then n - 87 else n - 55)"

definition hex_digit :: "nat \<Rightarrow> char" where
  "hex_digit n = (if n < 10 then char_of (48 + n) else char_of (55 + n))"

text \<open>Every percent sign is followed by two hexadecimal digits.\<close>

fun percent_ok :: "str \<Rightarrow> bool" where
  "percent_ok [] = True"
| "percent_ok (c # cs) =
    ((c = CHR ''%'' \<longrightarrow> (case cs of a # b # _ \<Rightarrow> is_hex a \<and> is_hex b | _ \<Rightarrow> False)) \<and> percent_ok cs)"

definition has_percent_escape :: "str \<Rightarrow> bool" where
  "has_percent_escape s \<longleftrightarrow> (\<exists>i < length s. s ! i = CHR ''%'' \<and> i + 2 < length s \<and>
     is_hex (s ! (i + 1)) \<and> is_hex (s ! (i + 2)))"

fun unquote_to_bytes :: "str \<Rightarrow> str" where
  "unquote_to_bytes (c # a # b # cs) =
    (if c = CHR ''%'' \<and> is_hex a \<and> is_hex b
       then char_of (16 * hex_value a + hex_value b) # unquote_to_bytes cs
     else c # unquote_to_bytes (a # b # cs))"
| "unquote_to_bytes cs = cs"

text \<open>Strict UTF-8: no overlong forms, no surrogates, nothing above U+10FFFF.\<close>

definition in_byte :: "nat \<Rightarrow> nat \<Rightarrow> char \<Rightarrow> bool" where
  "in_byte lo hi c \<longleftrightarrow> lo \<le> of_char c \<and> of_char c \<le> hi"

fun utf8_valid :: "str \<Rightarrow> bool" where
  "utf8_valid [] = True"
| "utf8_valid (a # cs) =
    (if in_byte 0 127 a then utf8_valid cs
     else case cs of
       [] \<Rightarrow> False
     | b # ds \<Rightarrow>
       if in_byte 194 223 a then in_byte 128 191 b \<and> utf8_valid ds
       else (case ds of
         [] \<Rightarrow> False
       | c # es \<Rightarrow>
         if in_byte 224 239 a then
           in_byte (if in_byte 224 224 a then 160 else 128) (if in_byte 237 237 a then 159 else 191) b \<and>
           in_byte 128 191 c \<and> utf8_valid es
         else (case es of
           [] \<Rightarrow> False
         | e # fs \<Rightarrow>
           in_byte 240 244 a \<and>
           in_byte (if in_byte 240 240 a then 144 else 128) (if in_byte 244 244 a then 143 else 191) b \<and>
           in_byte 128 191 c \<and> in_byte 128 191 e \<and> utf8_valid fs)))"

definition is_control :: "char \<Rightarrow> bool" where
  "is_control c \<longleftrightarrow> (of_char c :: nat) < 32 \<or> (of_char c :: nat) = 127"

definition decode_component :: "str \<Rightarrow> bool \<Rightarrow> str res" where
  "decode_component value reject_double_encoding =
    (if \<not> percent_ok value then Inl (CanonicalizationError ''malformed percent encoding'')
     else let decoded = unquote_to_bytes value in
       if \<not> utf8_valid decoded then Inl (CanonicalizationError ''component is not valid UTF-8'')
       else if list_ex is_control decoded
         then Inl (CanonicalizationError ''component contains a control character'')
       else if reject_double_encoding \<and> has_percent_escape decoded
         then Inl (CanonicalizationError ''double encoding is not allowed'')
       else Inr decoded)"

definition is_unreserved :: "char \<Rightarrow> bool" where
  "is_unreserved c \<longleftrightarrow> is_alnum c \<or> c \<in> {CHR ''_'', CHR ''-'', CHR ''.'', CHR ''~''}"

definition quote_byte :: "char \<Rightarrow> str" where
  "quote_byte c = (if is_unreserved c then [c]
     else [CHR ''%'', hex_digit (of_char c div 16), hex_digit (of_char c mod 16)])"

definition rfc3986_encode :: "str \<Rightarrow> str" where
  "rfc3986_encode value = concat (map quote_byte value)"

subsection \<open>Paths and queries\<close>

fun split_on :: "char \<Rightarrow> str \<Rightarrow> str list" where
  "split_on sep [] = [[]]"
| "split_on sep (c # cs) =
    (if c = sep then [] # split_on sep cs
     else case split_on sep cs of s # ss \<Rightarrow> (c # s) # ss | [] \<Rightarrow> [[c]])"

fun join_on :: "char \<Rightarrow> str list \<Rightarrow> str" where
  "join_on sep [] = []"
| "join_on sep [s] = s"
| "join_on sep (s # t # ss) = s @ sep # join_on sep (t # ss)"

fun map_res :: "('a \<Rightarrow> 'b res) \<Rightarrow> 'a list \<Rightarrow> 'b list res" where
  "map_res f [] = Inr []"
| "map_res f (x # xs) = bind_res (f x) (\<lambda>y. bind_res (map_res f xs) (\<lambda>ys. Inr (y # ys)))"

lemma map_res_Inr: "map_res f xs = Inr ys \<longleftrightarrow> list_all2 (\<lambda>x y. f x = Inr y) xs ys"
proof (induction xs arbitrary: ys)
  case Nil
  then show ?case by auto
next
  case (Cons x xs)
  then show ?case by (cases ys) (auto simp: bind_res_Inr)
qed

definition canonical_segment :: "str \<Rightarrow> str res" where
  "canonical_segment raw_segment =
    bind_res (decode_component raw_segment True) (\<lambda>segment.
      if segment \<in> {''.'', ''..''} \<or> CHR 0x5C \<in> set segment
        then Inl (CanonicalizationError ''ambiguous path segment'')
      else Inr (rfc3986_encode segment))"

definition canonicalize_path :: "str \<Rightarrow> str res" where
  "canonicalize_path raw_path =
    (if take 1 raw_path \<noteq> ''/'' \<or> CHR ''?'' \<in> set raw_path \<or> CHR ''#'' \<in> set raw_path
       then Inl (CanonicalizationError ''path must be an absolute path without query or fragment'')
     else bind_res (map_res canonical_segment (split_on CHR ''/'' raw_path)) (\<lambda>segments.
       Inr (join_on CHR ''/'' segments)))"

definition partition_on :: "char \<Rightarrow> str \<Rightarrow> str \<times> str" where
  "partition_on sep s = (takeWhile (\<lambda>c. c \<noteq> sep) s, drop 1 (dropWhile (\<lambda>c. c \<noteq> sep) s))"

definition canonical_pair :: "str \<Rightarrow> (str \<times> str) res" where
  "canonical_pair raw_pair =
    (let (raw_key, raw_value) = partition_on CHR ''='' raw_pair in
     bind_res (decode_component raw_key False) (\<lambda>key.
     bind_res (decode_component raw_value False) (\<lambda>v.
       Inr (rfc3986_encode key, rfc3986_encode v))))"

definition canonicalize_query :: "str \<Rightarrow> str res" where
  "canonicalize_query raw_query =
    (if raw_query = [] then Inr []
     else bind_res (map_res canonical_pair (split_on CHR ''&'' raw_query)) (\<lambda>pairs.
       Inr (join_on CHR ''&'' (map (\<lambda>(key, v). key @ CHR ''='' # v) (sort pairs)))))"

subsection \<open>Signing fields and the canonical request\<close>

definition key_id_ok :: "str \<Rightarrow> bool" where
  "key_id_ok s \<longleftrightarrow> take 4 s = ''zpk_'' \<and> full_class is_token_char 4 76 (drop 4 s)"

definition timestamp_ok :: "str \<Rightarrow> bool" where
  "timestamp_ok s \<longleftrightarrow> s = ''0'' \<or> full_class is_digit 1 20 s \<and> hd s \<noteq> CHR ''0''"

definition nonce_ok :: "str \<Rightarrow> bool" where
  "nonce_ok s \<longleftrightarrow> full_class is_token_char 16 128 s"

definition request_id_ok :: "str \<Rightarrow> bool" where
  "request_id_ok s \<longleftrightarrow> full_class is_token_char 16 64 s"

definition method_ok :: "str \<Rightarrow> bool" where
  "method_ok s \<longleftrightarrow> s \<noteq> [] \<and> list_all is_alpha s"

definition hash_ok :: "str \<Rightarrow> bool" where
  "hash_ok s \<longleftrightarrow> full_class is_lower_hex 64 64 s"

definition validate_signing_fields :: "str \<Rightarrow> str \<Rightarrow> str \<Rightarrow> str \<Rightarrow> unit res" where
  "validate_signing_fields key_id timestamp nonce request_id =
    (if \<not> key_id_ok key_id then Inl (CanonicalizationError ''invalid key ID'')
     else if \<not> timestamp_ok timestamp then Inl (CanonicalizationError ''invalid timestamp'')
     else if \<not> nonce_ok nonce then Inl (CanonicalizationError ''invalid nonce'')
     else if \<not> request_id_ok request_id then Inl (CanonicalizationError ''invalid request ID'')
     else Inr ())"

definition upper_char :: "char \<Rightarrow> char" where
  "upper_char c = (if is_lower_alpha c then char_of (of_char c - 32 :: nat) else c)"

record signing_input =
  si_method :: str
  si_path :: str
  si_query :: str
  si_body_hash :: str
  si_key_id :: str
  si_timestamp :: str
  si_nonce :: str
  si_request_id :: str

definition create_canonical_request :: "signing_input \<Rightarrow> str res" where
  "create_canonical_request i =
    (if \<not> method_ok (si_method i) then Inl (CanonicalizationError ''invalid HTTP method'')
     else if \<not> hash_ok (si_body_hash i) then Inl (CanonicalizationError ''invalid body hash'')
     else bind_res (validate_signing_fields (si_key_id i) (si_timestamp i) (si_nonce i) (si_request_id i)) (\<lambda>_.
       bind_res (canonicalize_path (si_path i)) (\<lambda>path.
       bind_res (canonicalize_query (si_query i)) (\<lambda>query.
         Inr (join_on nl [HMAC_ALGORITHM, SIGNATURE_VERSION, map upper_char (si_method i), path, query,
           si_body_hash i, si_key_id i, si_timestamp i, si_nonce i, si_request_id i])))))"

definition sign_canonical_request :: "(str \<Rightarrow> str \<Rightarrow> str) \<Rightarrow> str \<Rightarrow> str \<Rightarrow> str res" where
  "sign_canonical_request mac secret canonical_request =
    (if secret = [] then Inl (CanonicalizationError ''secret and canonical request must be non-empty text'')
     else Inr (mac secret canonical_request))"

definition verify_signature :: "(str \<Rightarrow> str \<Rightarrow> str) \<Rightarrow> str \<Rightarrow> str \<Rightarrow> str \<Rightarrow> bool res" where
  "verify_signature mac secret canonical_request presented_signature =
    (if \<not> hash_ok presented_signature then Inr False
     else bind_res (sign_canonical_request mac secret canonical_request) (\<lambda>expected_signature.
       Inr (expected_signature = presented_signature)))"

subsection \<open>The signer of the SDK\<close>

definition sdk_decode_component :: "str \<Rightarrow> bool \<Rightarrow> str res" where
  "sdk_decode_component value reject_double_encoding =
    (if \<not> percent_ok value then Inl (SdkSigningError ''malformed percent encoding'')
     else let decoded = unquote_to_bytes value in
       if \<not> utf8_valid decoded then Inl (SdkSigningError ''component is not valid UTF-8'')
       else if list_ex is_control decoded then Inl (SdkSigningError ''component contains a control character'')
       else if reject_double_encoding \<and> has_percent_escape decoded
         then Inl (SdkSigningError ''double encoding is not allowed'')
       else Inr decoded)"

definition sdk_rfc3986_encode :: "str \<Rightarrow> str" where
  "sdk_rfc3986_encode value = concat (map quote_byte value)"

definition sdk_segment :: "str \<Rightarrow> str res" where
  "sdk_segment raw_segment =
    bind_res (sdk_decode_component raw_segment True) (\<lambda>segment.
      if segment \<in> {''.'', ''..''} \<or> CHR 0x5C \<in> set segment
        then Inl (SdkSigningError ''ambiguous path segment'')
      else Inr (sdk_rfc3986_encode segment))"

definition sdk_canonicalize_path :: "str \<Rightarrow> str res" where
  "sdk_canonicalize_path raw_path =
    (if take 1 raw_path \<noteq> ''/'' \<or> CHR ''?'' \<in> set raw_path \<or> CHR ''#'' \<in> set raw_path
       then Inl (SdkSigningError ''path must be absolute and exclude query or fragment'')
     else bind_res (map_res sdk_segment (split_on CHR ''/'' raw_path)) (\<lambda>segments.
       Inr (join_on CHR ''/'' segments)))"

definition sdk_pair :: "str \<Rightarrow> (str \<times> str) res" where
  "sdk_pair raw_pair =
    (let (raw_key, raw_value) = partition_on CHR ''='' raw_pair in
     bind_res (sdk_decode_component raw_key False) (\<lambda>key.
     bind_res (sdk_decode_component raw_value False) (\<lambda>v.
       Inr (sdk_rfc3986_encode key, sdk_rfc3986_encode v))))"

definition sdk_canonicalize_query :: "str \<Rightarrow> str res" where
  "sdk_canonicalize_query raw_query =
    (if raw_query = [] then Inr []
     else bind_res (map_res sdk_pair (split_on CHR ''&'' raw_query)) (\<lambda>pairs.
       Inr (join_on CHR ''&'' (map (\<lambda>(key, v). key @ CHR ''='' # v) (sort pairs)))))"

definition sdk_validate_fields :: "str \<Rightarrow> str \<Rightarrow> str \<Rightarrow> str \<Rightarrow> unit res" where
  "sdk_validate_fields key_id timestamp nonce request_id =
    (if \<not> key_id_ok key_id then Inl (SdkSigningError ''invalid key ID'')
     else if \<not> timestamp_ok timestamp then Inl (SdkSigningError ''invalid timestamp'')
     else if \<not> nonce_ok nonce then Inl (SdkSigningError ''invalid nonce'')
     else if \<not> request_id_ok request_id then Inl (SdkSigningError ''invalid request ID'')
     else Inr ())"

definition sdk_canonical_request :: "signing_input \<Rightarrow> str res" where
  "sdk_canonical_request i =
    (if \<not> method_ok (si_method i) then Inl (SdkSigningError ''invalid HTTP method'')
     else if \<not> hash_ok (si_body_hash i) then Inl (SdkSigningError ''invalid body hash'')
     else bind_res (sdk_validate_fields (si_key_id i) (si_timestamp i) (si_nonce i) (si_request_id i)) (\<lambda>_.
       bind_res (sdk_canonicalize_path (si_path i)) (\<lambda>path.
       bind_res (sdk_canonicalize_query (si_query i)) (\<lambda>query.
         Inr (join_on nl [HMAC_ALGORITHM, SIGNATURE_VERSION, map upper_char (si_method i), path, query,
           si_body_hash i, si_key_id i, si_timestamp i, si_nonce i, si_request_id i])))))"

record signed_headers =
  sh_key_id :: str
  sh_timestamp :: str
  sh_nonce :: str
  sh_request_id :: str
  sh_signature :: str

definition as_headers :: "signed_headers \<Rightarrow> (str \<times> str) list" where
  "as_headers h = [(''x-zangpu-key'', sh_key_id h), (''x-zangpu-timestamp'', sh_timestamp h),
     (''x-zangpu-nonce'', sh_nonce h), (''x-zangpu-request-id'', sh_request_id h),
     (''x-zangpu-signature-version'', SIGNATURE_VERSION), (''x-zangpu-signature'', sh_signature h)]"

record signer =
  sg_key_id :: str
  sg_secret :: str

definition make_signer :: "str \<Rightarrow> str \<Rightarrow> signer res" where
  "make_signer key_id secret =
    (if \<not> key_id_ok key_id then Inl (SdkSigningError ''invalid key ID'')
     else if secret = [] \<or> 4096 < py_len secret then Inl (SdkSigningError ''invalid signing material'')
     else Inr \<lparr>sg_key_id = key_id, sg_secret = secret\<rparr>)"

text \<open>\<open>str(n)\<close> of a non-negative integer, and \<open>int(text)\<close> of its digits.\<close>

fun nat_digits :: "nat \<Rightarrow> str" where
  "nat_digits n = (if n < 10 then [char_of (48 + n)] else nat_digits (n div 10) @ [char_of (48 + n mod 10)])"

declare nat_digits.simps [simp del]

definition digits_nat :: "str \<Rightarrow> nat" where
  "digits_nat s = foldl (\<lambda>n c. 10 * n + (of_char c - 48)) 0 s"

text \<open>The clock and the identifier factories are the \<open>None\<close> defaults of the optional
  arguments; they are arguments here.\<close>

record sign_request =
  sr_method :: str
  sr_path :: str
  sr_body :: str
  sr_query :: str
  sr_request_id :: "str option"
  sr_nonce :: "str option"
  sr_timestamp :: "int option"

definition sdk_sign :: "(str \<Rightarrow> str) \<Rightarrow> (str \<Rightarrow> str \<Rightarrow> str) \<Rightarrow> signer \<Rightarrow> int \<Rightarrow> str \<Rightarrow> str \<Rightarrow>
    sign_request \<Rightarrow> signed_headers res" where
  "sdk_sign sha mac s clock new_nonce new_request_id q =
    (let resolved_timestamp = (case sr_timestamp q of None \<Rightarrow> clock | Some t \<Rightarrow> t) in
     if resolved_timestamp < 0 then Inl (SdkSigningError ''invalid timestamp'')
     else
       let timestamp_text = nat_digits (nat resolved_timestamp);
           resolved_nonce = (case sr_nonce q of None \<Rightarrow> new_nonce | Some n \<Rightarrow> n);
           resolved_request_id = (case sr_request_id q of None \<Rightarrow> new_request_id | Some r \<Rightarrow> r)
       in bind_res (sdk_canonical_request \<lparr>si_method = sr_method q, si_path = sr_path q, si_query = sr_query q,
              si_body_hash = sha (sr_body q), si_key_id = sg_key_id s, si_timestamp = timestamp_text,
              si_nonce = resolved_nonce, si_request_id = resolved_request_id\<rparr>) (\<lambda>canonical.
            Inr \<lparr>sh_key_id = sg_key_id s, sh_timestamp = timestamp_text, sh_nonce = resolved_nonce,
                 sh_request_id = resolved_request_id, sh_signature = mac (sg_secret s) canonical\<rparr>))"

end
