(* ===== verification/Canonical_Properties.thy ===== *)
theory Canonical_Properties
  imports Canonical
begin

text \<open>
  Properties of the canonical request: encoding inverts decoding, the canonical path and
  query are fixed points, the canonical request determines every signed part, and the SDK
  and the server build the same text.
\<close>

subsection \<open>Hexadecimal and percent encoding\<close>

lemma of_char_less: "(of_char c :: nat) < 256"
  using nat_of_char_less_256 by simp

lemma of_char_div: "(of_char c :: nat) div 16 < 16"
  using of_char_less [of c] by (intro less_mult_imp_div_less) simp

lemma char_of_of_char [simp]: "char_of (of_char c :: nat) = c"
  by simp

lemma of_char_of_small: "n < 256 \<Longrightarrow> of_char (char_of n :: char) = (n :: nat)"
  by (simp add: of_char_of)

lemma hex_digit_hex [simp]: "n < 16 \<Longrightarrow> is_hex (hex_digit n)"
  by (simp add: hex_digit_def is_hex_def is_lower_hex_def is_digit_def of_char_of_small)

lemma hex_value_digit [simp]: "n < 16 \<Longrightarrow> hex_value (hex_digit n) = n"
  by (simp add: hex_digit_def hex_value_def is_digit_def of_char_of_small Let_def)

lemma hex_pair: "char_of (16 * hex_value (hex_digit (of_char c div 16)) + hex_value (hex_digit (of_char c mod 16))) = c"
proof -
  have "(of_char c :: nat) div 16 < 16" by (rule of_char_div)
  then show ?thesis by simp
qed

lemma unquote_plain: "c \<noteq> CHR ''%'' \<Longrightarrow> unquote_to_bytes (c # cs) = c # unquote_to_bytes cs"
proof (cases cs)
  case Nil
  then show ?thesis by simp
next
  case (Cons a as)
  then show "c \<noteq> CHR ''%'' \<Longrightarrow> ?thesis" by (cases as) simp_all
qed

lemma percent_unreserved: "\<not> is_unreserved CHR ''%''"
  by (simp add: is_unreserved_def is_alnum_def is_alpha_def is_upper_alpha_def is_lower_alpha_def is_digit_def)

lemma encode_Cons: "rfc3986_encode (c # cs) = quote_byte c @ rfc3986_encode cs"
  by (simp add: rfc3986_encode_def)

lemma encode_Nil [simp]: "rfc3986_encode [] = []"
  by (simp add: rfc3986_encode_def)

lemma unquote_encode: "unquote_to_bytes (rfc3986_encode s) = s"
proof (induction s)
  case Nil
  then show ?case by simp
next
  case (Cons c cs)
  show ?case
  proof (cases "is_unreserved c")
    case True
    then have "c \<noteq> CHR ''%''" using percent_unreserved by auto
    with True Cons show ?thesis by (simp add: encode_Cons quote_byte_def unquote_plain)
  next
    case False
    have "(of_char c :: nat) div 16 < 16" by (rule of_char_div)
    with False Cons show ?thesis by (simp add: encode_Cons quote_byte_def)
  qed
qed

lemma hex_not_percent: "is_hex c \<Longrightarrow> c \<noteq> CHR ''%''"
  by (auto simp: is_hex_def is_lower_hex_def is_digit_def)

lemma percent_ok_encode: "percent_ok (rfc3986_encode s)"
proof (induction s)
  case Nil
  then show ?case by simp
next
  case (Cons c cs)
  have "(of_char c :: nat) div 16 < 16" by (rule of_char_div)
  then show ?case
    using Cons hex_not_percent [of "hex_digit (of_char c div 16)"] hex_not_percent [of "hex_digit (of_char c mod 16)"]
      percent_unreserved
    by (auto simp: encode_Cons quote_byte_def)
qed

definition clean_text :: "bool \<Rightarrow> str \<Rightarrow> bool" where
  "clean_text strict s \<longleftrightarrow> utf8_valid s \<and> \<not> list_ex is_control s \<and> (strict \<longrightarrow> \<not> has_percent_escape s)"

lemma decode_Inr: "decode_component v strict = Inr s \<longleftrightarrow> percent_ok v \<and> s = unquote_to_bytes v \<and> clean_text strict s"
  by (auto simp: decode_component_def clean_text_def Let_def)

lemma decode_clean: "decode_component v strict = Inr s \<Longrightarrow> clean_text strict s"
  by (auto simp: decode_Inr)

lemma decode_encode: "clean_text strict s \<Longrightarrow> decode_component (rfc3986_encode s) strict = Inr s"
  by (simp add: decode_Inr percent_ok_encode unquote_encode)

text \<open>Encoded text consists of unreserved characters, percent signs and hexadecimal digits.\<close>

definition is_encoded_char :: "char \<Rightarrow> bool" where
  "is_encoded_char c \<longleftrightarrow> is_unreserved c \<or> c = CHR ''%''"

lemma hex_encoded: "n < 16 \<Longrightarrow> is_encoded_char (hex_digit n)"
  by (simp add: is_encoded_char_def is_unreserved_def is_alnum_def is_alpha_def is_upper_alpha_def is_digit_def
      hex_digit_def of_char_of_small)

lemma encode_chars: "c \<in> set (rfc3986_encode s) \<Longrightarrow> is_encoded_char c"
proof (induction s)
  case Nil
  then show ?case by simp
next
  case (Cons a s)
  have h: "(of_char a :: nat) div 16 < 16" by (rule of_char_div)
  show ?case
    using Cons hex_encoded [OF h] hex_encoded [of "of_char a mod 16"]
    by (auto simp: encode_Cons quote_byte_def is_encoded_char_def split: if_splits)
qed

lemma separators_not_encoded [simp]:
  "\<not> is_encoded_char CHR ''/''" "\<not> is_encoded_char CHR ''?''" "\<not> is_encoded_char CHR ''#''"
  "\<not> is_encoded_char CHR ''&''" "\<not> is_encoded_char CHR ''=''" "\<not> is_encoded_char nl"
  by (simp_all add: is_encoded_char_def is_unreserved_def char_class_defs nl_def)

lemma encode_no_sep: "\<not> is_encoded_char c \<Longrightarrow> c \<notin> set (rfc3986_encode s)"
  using encode_chars by blast

lemma encode_no_nl: "nl \<notin> set (rfc3986_encode s)"
  by (rule encode_no_sep) simp

lemma nl_neq: "nl \<noteq> CHR ''=''" "nl \<noteq> CHR ''&''" "nl \<noteq> CHR ''/''"
  by (simp_all add: nl_def)

subsection \<open>Splitting and joining\<close>

lemma split_on_nonempty: "split_on c s \<noteq> []"
  by (cases s) (auto split: list.splits)

lemma split_on_plain: "c \<notin> set s \<Longrightarrow> split_on c s = [s]"
  by (induction s) auto

lemma split_on_append: "c \<notin> set s \<Longrightarrow> split_on c (s @ c # t) = s # split_on c t"
  by (induction s) auto

lemma split_join:
  assumes "ss \<noteq> []" and "\<And>s. s \<in> set ss \<Longrightarrow> c \<notin> set s"
  shows "split_on c (join_on c ss) = ss"
  using assms by (induction c ss rule: join_on.induct) (simp_all add: split_on_plain split_on_append)

lemma set_join: "x \<in> set (join_on c ss) \<Longrightarrow> x = c \<or> (\<exists>s \<in> set ss. x \<in> set s)"
  by (induction c ss rule: join_on.induct) auto

lemma map_res_fixed: "(\<And>y. y \<in> set ys \<Longrightarrow> f y = Inr y) \<Longrightarrow> map_res f ys = Inr ys"
  by (induction ys) auto

lemma join_inj:
  assumes "join_on c ss = join_on c ts" and "ss \<noteq> []" and "ts \<noteq> []"
    and "\<And>s. s \<in> set ss \<Longrightarrow> c \<notin> set s" and "\<And>s. s \<in> set ts \<Longrightarrow> c \<notin> set s"
  shows "ss = ts"
  using assms split_join by metis

subsection \<open>Canonical paths\<close>

lemma canonical_segment_Inr:
  assumes "canonical_segment raw = Inr s"
  shows "canonical_segment s = Inr s \<and> (\<exists>t. s = rfc3986_encode t)"
proof -
  obtain t where t: "decode_component raw True = Inr t" "t \<notin> {''.'', ''..''}" "CHR 0x5C \<notin> set t" "s = rfc3986_encode t"
    using assms by (auto simp: canonical_segment_def bind_res_Inr split: if_splits)
  have "decode_component s True = Inr t"
    unfolding t(4) by (rule decode_encode [OF decode_clean [OF t(1)]])
  with t show ?thesis by (auto simp: canonical_segment_def)
qed

text \<open>The canonical form of a path is a fixed point: it is itself an acceptable path, and
  canonicalising it changes nothing. So the two sides of a request that normalise the path a
  different number of times still agree.\<close>

theorem canonical_path_fixed:
  assumes "canonicalize_path raw = Inr path"
  shows "canonicalize_path path = Inr path"
proof -
  obtain segs where segs: "map_res canonical_segment (split_on CHR ''/'' raw) = Inr segs" "path = join_on CHR ''/'' segs"
    and raw: "take 1 raw = ''/''"
    using assms by (auto simp: canonicalize_path_def bind_res_Inr split: if_splits)
  have l: "list_all2 (\<lambda>x y. canonical_segment x = Inr y) (split_on CHR ''/'' raw) segs"
    using segs(1) by (simp add: map_res_Inr)
  have fix_seg: "canonical_segment s = Inr s \<and> (\<exists>t. s = rfc3986_encode t)" if "s \<in> set segs" for s
    using l that by (auto simp: list_all2_conv_all_nth in_set_conv_nth dest: canonical_segment_Inr)
  have nosep: "c \<notin> set s" if "s \<in> set segs" "\<not> is_encoded_char c" for s c
    using fix_seg [OF that(1)] that(2) encode_no_sep by auto
  obtain rest where r: "raw = CHR ''/'' # rest" using raw by (cases raw) auto
  then obtain s1 ss where s1: "segs = s1 # ss" "canonical_segment [] = Inr s1" "length (split_on CHR ''/'' rest) = length ss"
    using l by (auto simp: list_all2_Cons1 dest: list_all2_lengthD)
  have "s1 = []"
    using s1(2) by (auto simp: canonical_segment_def bind_res_Inr decode_Inr split: if_splits)
  moreover have "ss \<noteq> []" using s1(3) split_on_nonempty [of "CHR ''/''" rest] by auto
  ultimately have start: "take 1 path = ''/''" using segs(2) s1(1) by (cases ss) auto
  have clean: "c \<notin> set path" if "\<not> is_encoded_char c" "c \<noteq> CHR ''/''" for c
    using set_join [of c "CHR ''/''" segs] nosep that segs(2) by blast
  have "split_on CHR ''/'' path = segs"
    unfolding segs(2) using s1(1) nosep by (intro split_join) auto
  moreover have "map_res canonical_segment segs = Inr segs"
    using fix_seg by (intro map_res_fixed) blast
  ultimately show ?thesis
    using start clean segs(2) by (simp add: canonicalize_path_def)
qed

lemma canonical_path_fixed_witness: "canonicalize_path ''/v1/a%2Fb/%7Ec'' = Inr ''/v1/a%2Fb/~c'' \<and>
    canonicalize_path ''/v1/a%2Fb/~c'' = Inr ''/v1/a%2Fb/~c''"
proof -
  have "canonicalize_path ''/v1/a%2Fb/%7Ec'' = Inr ''/v1/a%2Fb/~c''" by code_simp
  from canonical_path_fixed [OF this] this show ?thesis by blast
qed

subsection \<open>Canonical queries\<close>

definition encoded_pair :: "str \<times> str \<Rightarrow> bool" where
  "encoded_pair p \<longleftrightarrow> (\<exists>k v. clean_text False k \<and> clean_text False v \<and> p = (rfc3986_encode k, rfc3986_encode v))"

lemma canonical_pair_Inr: "canonical_pair raw = Inr p \<Longrightarrow> encoded_pair p"
  by (auto simp: canonical_pair_def encoded_pair_def bind_res_Inr dest: decode_clean split: prod.splits)

lemma partition_on_first: "c \<notin> set k \<Longrightarrow> partition_on c (k @ c # v) = (k, v)"
proof -
  assume a: "c \<notin> set k"
  then have "takeWhile (\<lambda>x. x \<noteq> c) (k @ c # v) = k" "dropWhile (\<lambda>x. x \<noteq> c) (k @ c # v) = c # v"
    by (induction k) auto
  then show ?thesis by (simp add: partition_on_def)
qed

lemma encoded_pair_fixed:
  assumes "encoded_pair (k, v)"
  shows "canonical_pair (k @ CHR ''='' # v) = Inr (k, v)"
proof -
  obtain k0 v0 where kv: "clean_text False k0" "clean_text False v0" "k = rfc3986_encode k0" "v = rfc3986_encode v0"
    using assms by (auto simp: encoded_pair_def)
  have "CHR ''='' \<notin> set k" unfolding kv(3) by (rule encode_no_sep) simp
  then show ?thesis
    using kv by (simp add: canonical_pair_def partition_on_first decode_encode)
qed

lemma map_res_pairs: "(\<And>p. p \<in> set ps \<Longrightarrow> encoded_pair p) \<Longrightarrow>
    map_res canonical_pair (map (\<lambda>(key, v). key @ CHR ''='' # v) ps) = Inr ps"
  by (induction ps) (auto simp: encoded_pair_fixed split: prod.splits)

text \<open>The canonical form of a query is a fixed point: its pairs are encoded and sorted,
  and canonicalising it again changes nothing.\<close>

theorem canonical_query_fixed:
  assumes "canonicalize_query raw = Inr query"
  shows "canonicalize_query query = Inr query"
proof (cases "raw = []")
  case True
  with assms show ?thesis by (simp add: canonicalize_query_def)
next
  case False
  let ?f = "\<lambda>(key, v). key @ CHR ''='' # v"
  obtain ps where ps: "map_res canonical_pair (split_on CHR ''&'' raw) = Inr ps"
    "query = join_on CHR ''&'' (map ?f (sort ps))"
    using assms False by (auto simp: canonicalize_query_def bind_res_Inr)
  have l: "list_all2 (\<lambda>x y. canonical_pair x = Inr y) (split_on CHR ''&'' raw) ps"
    using ps(1) by (simp add: map_res_Inr)
  have enc: "encoded_pair p" if "p \<in> set (sort ps)" for p
    using l that by (auto simp: list_all2_conv_all_nth in_set_conv_nth dest: canonical_pair_Inr)
  have ne: "ps \<noteq> []" using l split_on_nonempty [of "CHR ''&''" raw] by auto
  then have ne2: "map ?f (sort ps) \<noteq> []" by (metis map_is_Nil_conv set_empty set_sort)
  have sep: "CHR ''&'' \<notin> set s" if s: "s \<in> set (map ?f (sort ps))" for s
  proof -
    obtain k v where "(k, v) \<in> set (sort ps)" "s = k @ CHR ''='' # v" using s by auto
    moreover from this(1) obtain a b where "k = rfc3986_encode a" "v = rfc3986_encode b"
      using enc by (fastforce simp: encoded_pair_def)
    ultimately show ?thesis using encode_no_sep [of "CHR ''&''"] by simp
  qed
  have "split_on CHR ''&'' query = map ?f (sort ps)"
    unfolding ps(2) by (rule split_join [OF ne2 sep])
  moreover have "map_res canonical_pair (map ?f (sort ps)) = Inr (sort ps)"
    using enc by (rule map_res_pairs)
  moreover have "query \<noteq> []"
  proof
    assume "query = []"
    then have "map ?f (sort ps) = [[]]" using \<open>split_on CHR ''&'' query = map ?f (sort ps)\<close> by simp
    then show False by auto
  qed
  ultimately show ?thesis by (simp add: canonicalize_query_def ps(2) sorted_sort_id)
qed

lemma canonical_query_fixed_witness: "canonicalize_query ''b=%41&a=&a'' = Inr ''a=&a=&b=A'' \<and>
    canonicalize_query ''a=&a=&b=A'' = Inr ''a=&a=&b=A''"
proof -
  have "canonicalize_query ''b=%41&a=&a'' = Inr ''a=&a=&b=A''" by code_simp
  from canonical_query_fixed [OF this] this show ?thesis by blast
qed


subsection \<open>The canonical request determines what is signed\<close>

lemma is_alpha_upper: "is_alpha c \<Longrightarrow> upper_char c \<noteq> nl"
proof (cases "is_lower_alpha c")
  case True
  then have n: "97 \<le> (of_char c :: nat)" "(of_char c :: nat) \<le> 122" by (simp_all add: is_lower_alpha_def)
  then have "(of_char (upper_char c) :: nat) = of_char c - 32"
    using True by (simp add: upper_char_def of_char_of_small)
  moreover have "(of_char nl :: nat) = 10" by (simp add: nl_def)
  ultimately show ?thesis using n by auto
next
  case False
  assume "is_alpha c"
  with False show ?thesis by (auto simp: upper_char_def is_alpha_def is_upper_alpha_def nl_def)
qed

lemma full_class_no_nl: "full_class P lo hi s \<Longrightarrow> \<not> P nl \<Longrightarrow> nl \<notin> set s"
  using full_class_set by blast

lemma canonical_path_no_nl: "canonicalize_path raw = Inr path \<Longrightarrow> nl \<notin> set path"
proof -
  assume c: "canonicalize_path raw = Inr path"
  obtain segs where segs: "map_res canonical_segment (split_on CHR ''/'' raw) = Inr segs" "path = join_on CHR ''/'' segs"
    using c by (auto simp: canonicalize_path_def bind_res_Inr split: if_splits)
  have "nl \<notin> set s" if "s \<in> set segs" for s
  proof -
    have "\<exists>r. canonical_segment r = Inr s"
      using segs(1) that by (auto simp: map_res_Inr list_all2_conv_all_nth in_set_conv_nth)
    then show ?thesis using canonical_segment_Inr encode_no_sep [of nl] by fastforce
  qed
  then show ?thesis using set_join [of nl "CHR ''/''" segs] segs(2) by (auto simp: nl_def)
qed

lemma canonical_query_no_nl: "canonicalize_query raw = Inr query \<Longrightarrow> nl \<notin> set query"
proof (cases "raw = []")
  case True
  moreover assume "canonicalize_query raw = Inr query"
  ultimately show ?thesis by (simp add: canonicalize_query_def)
next
  case False
  assume c: "canonicalize_query raw = Inr query"
  let ?f = "\<lambda>(key, v). key @ CHR ''='' # v"
  obtain ps where ps: "map_res canonical_pair (split_on CHR ''&'' raw) = Inr ps"
    "query = join_on CHR ''&'' (map ?f (sort ps))"
    using c False by (auto simp: canonicalize_query_def bind_res_Inr)
  have "nl \<notin> set s" if "s \<in> set (map ?f (sort ps))" for s
  proof -
    obtain k v where kv: "(k, v) \<in> set ps" "s = k @ CHR ''='' # v" using \<open>s \<in> _\<close> by auto
    have "\<exists>r. canonical_pair r = Inr (k, v)"
      using ps(1) kv(1) by (fastforce simp: map_res_Inr list_all2_conv_all_nth in_set_conv_nth)
    then obtain a b where "k = rfc3986_encode a" "v = rfc3986_encode b"
      using canonical_pair_Inr by (fastforce simp: encoded_pair_def)
    then show ?thesis using kv(2) encode_no_nl by (simp add: nl_neq)
  qed
  then show ?thesis using set_join [of nl "CHR ''&''" "map ?f (sort ps)"] ps(2) by (auto simp: nl_def)
qed

definition signed_parts :: "signing_input \<Rightarrow> str list \<Rightarrow> bool" where
  "signed_parts i parts \<longleftrightarrow> (\<exists>path query. canonicalize_path (si_path i) = Inr path \<and>
     canonicalize_query (si_query i) = Inr query \<and>
     parts = [HMAC_ALGORITHM, SIGNATURE_VERSION, map upper_char (si_method i), path, query,
       si_body_hash i, si_key_id i, si_timestamp i, si_nonce i, si_request_id i])"

lemma canonical_request_parts:
  assumes "create_canonical_request i = Inr c"
  shows "\<exists>parts. c = join_on nl parts \<and> signed_parts i parts \<and> (\<forall>p \<in> set parts. nl \<notin> set p)"
proof -
  obtain path query where pq: "canonicalize_path (si_path i) = Inr path" "canonicalize_query (si_query i) = Inr query"
    and c: "c = join_on nl [HMAC_ALGORITHM, SIGNATURE_VERSION, map upper_char (si_method i), path, query,
       si_body_hash i, si_key_id i, si_timestamp i, si_nonce i, si_request_id i]"
    and ok: "method_ok (si_method i)" "hash_ok (si_body_hash i)" "key_id_ok (si_key_id i)"
      "timestamp_ok (si_timestamp i)" "nonce_ok (si_nonce i)" "request_id_ok (si_request_id i)"
    using assms by (auto simp: create_canonical_request_def bind_res_Inr validate_signing_fields_def split: if_splits)
  have "nl \<notin> set (si_key_id i)"
  proof -
    have "si_key_id i = ''zpk_'' @ drop 4 (si_key_id i)"
      using ok(3) append_take_drop_id [of 4 "si_key_id i"] by (simp add: key_id_ok_def)
    moreover have "nl \<notin> set (drop 4 (si_key_id i))" using ok(3) by (auto simp: key_id_ok_def dest: full_class_no_nl)
    moreover have "nl \<notin> set ''zpk_''" by (simp add: nl_def)
    ultimately show ?thesis by (metis UnE set_append)
  qed
  moreover have "nl \<notin> set (si_timestamp i)"
    using ok(4) by (auto simp: timestamp_ok_def nl_def [symmetric] dest: full_class_no_nl) (simp add: nl_def)
  moreover have "nl \<notin> set (map upper_char (si_method i))"
    using ok(1) is_alpha_upper by (fastforce simp: method_ok_def list_all_iff)
  moreover have "nl \<notin> set HMAC_ALGORITHM" "nl \<notin> set SIGNATURE_VERSION"
    by (simp_all add: HMAC_ALGORITHM_def SIGNATURE_VERSION_def nl_def)
  moreover have "nl \<notin> set path" "nl \<notin> set query"
    using canonical_path_no_nl [OF pq(1)] canonical_query_no_nl [OF pq(2)] by simp_all
  moreover have "nl \<notin> set (si_body_hash i)" "nl \<notin> set (si_nonce i)" "nl \<notin> set (si_request_id i)"
    using ok by (auto simp: hash_ok_def nonce_ok_def request_id_ok_def dest: full_class_no_nl)
  ultimately show ?thesis using c pq by (intro exI conjI) (auto simp: signed_parts_def)
qed

text \<open>C23: the signed text binds every part of the request: two requests with the same
  canonical text have the same method up to case, the same canonical path and query, and the
  same body digest, key, timestamp, nonce and request identifier. No part can borrow
  characters from its neighbour.\<close>

theorem canonical_request_injective:
  assumes "create_canonical_request i = Inr c" and "create_canonical_request j = Inr c"
  shows "map upper_char (si_method i) = map upper_char (si_method j) \<and>
    canonicalize_path (si_path i) = canonicalize_path (si_path j) \<and>
    canonicalize_query (si_query i) = canonicalize_query (si_query j) \<and>
    si_body_hash i = si_body_hash j \<and> si_key_id i = si_key_id j \<and> si_timestamp i = si_timestamp j \<and>
    si_nonce i = si_nonce j \<and> si_request_id i = si_request_id j"
proof -
  obtain ps where ps: "c = join_on nl ps" "signed_parts i ps" "\<And>p. p \<in> set ps \<Longrightarrow> nl \<notin> set p"
    using canonical_request_parts [OF assms(1)] by blast
  obtain qs where qs: "c = join_on nl qs" "signed_parts j qs" "\<And>p. p \<in> set qs \<Longrightarrow> nl \<notin> set p"
    using canonical_request_parts [OF assms(2)] by blast
  have "ps \<noteq> []" "qs \<noteq> []" using ps(2) qs(2) by (auto simp: signed_parts_def)
  then have "ps = qs" using join_inj [of nl ps qs] ps qs by simp
  then show ?thesis using ps(2) qs(2) by (auto simp: signed_parts_def)
qed

definition sample_input :: signing_input where
  "sample_input = \<lparr>si_method = ''post'', si_path = ''/v1/chat'', si_query = ''b=2&a=1'',
    si_body_hash = replicate 64 CHR ''0'', si_key_id = ''zpk_abcd'', si_timestamp = ''100'',
    si_nonce = replicate 16 CHR ''n'', si_request_id = replicate 16 CHR ''r''\<rparr>"

lemma canonical_request_injective_witness:
  "create_canonical_request sample_input = create_canonical_request (sample_input\<lparr>si_method := ''POST'', si_query := ''a=1&b=2''\<rparr>) \<and>
    canonicalize_query ''b=2&a=1'' = canonicalize_query ''a=1&b=2''"
proof -
  have "is_ok (create_canonical_request sample_input)" by code_simp
  then obtain c where c: "create_canonical_request sample_input = Inr c" by (auto simp: is_ok_def split: sum.splits)
  have eq: "create_canonical_request (sample_input\<lparr>si_method := ''POST'', si_query := ''a=1&b=2''\<rparr>) =
      create_canonical_request sample_input" by code_simp
  from canonical_request_injective [OF c eq [unfolded c]] eq show ?thesis by (simp add: sample_input_def)
qed

subsection \<open>The SDK and the server agree\<close>

definition same_result :: "'a res \<Rightarrow> 'a res \<Rightarrow> bool" where
  "same_result r s \<longleftrightarrow> (\<forall>x. r = Inr x \<longleftrightarrow> s = Inr x)"

lemma same_result_refl [simp]: "same_result r r"
  by (simp add: same_result_def)

lemma same_result_errors [simp]: "same_result (Inl e) (Inl e')"
  by (simp add: same_result_def)

lemma same_result_bind:
  "same_result r s \<Longrightarrow> (\<And>x. same_result (f x) (g x)) \<Longrightarrow> same_result (bind_res r f) (bind_res s g)"
  by (simp add: same_result_def bind_res_Inr)

lemma same_result_map: "(\<And>x. same_result (f x) (g x)) \<Longrightarrow> same_result (map_res f xs) (map_res g xs)"
  by (induction xs) (simp_all add: same_result_bind)

lemma same_decode: "same_result (sdk_decode_component v b) (decode_component v b)"
  by (simp add: sdk_decode_component_def decode_component_def Let_def)

lemma same_segment: "same_result (sdk_segment v) (canonical_segment v)"
  unfolding sdk_segment_def canonical_segment_def
  by (rule same_result_bind [OF same_decode]) (simp add: sdk_rfc3986_encode_def rfc3986_encode_def)

lemma same_pair: "same_result (sdk_pair v) (canonical_pair v)"
proof -
  obtain k w where "partition_on CHR ''='' v = (k, w)" by fastforce
  then show ?thesis
    by (simp add: sdk_pair_def canonical_pair_def sdk_rfc3986_encode_def rfc3986_encode_def same_result_bind same_decode)
qed

lemma same_path: "same_result (sdk_canonicalize_path p) (canonicalize_path p)"
  by (simp add: sdk_canonicalize_path_def canonicalize_path_def same_result_bind same_result_map same_segment)

lemma same_query: "same_result (sdk_canonicalize_query q) (canonicalize_query q)"
  by (simp add: sdk_canonicalize_query_def canonicalize_query_def same_result_bind same_result_map same_pair)

lemma same_fields: "same_result (sdk_validate_fields k t n r) (validate_signing_fields k t n r)"
  by (simp add: sdk_validate_fields_def validate_signing_fields_def)

text \<open>The SDK and the server agree on the canonical request: on every input both refuse
  it or both build the same text.\<close>

theorem sdk_canonical_request_agrees:
  "sdk_canonical_request i = Inr c \<longleftrightarrow> create_canonical_request i = Inr c"
proof -
  have "same_result (sdk_canonical_request i) (create_canonical_request i)"
    by (simp add: sdk_canonical_request_def create_canonical_request_def same_result_bind same_fields same_path same_query)
  then show ?thesis by (simp add: same_result_def)
qed

end
