(* ===== verification/Auth.thy ===== *)
theory Auth
  imports Canonical Schema Redis
begin

text \<open>
  Credentials and external authentication: the key ring (\<open>backend/app/security/keyring.py\<close>),
  the creation and recovery of a credential secret (\<open>security/credentials.py\<close>), and the
  verification of a signed request (\<open>security/dependencies.py\<close>).

  The cryptographic and codec functions are one record of parameters: SHA-256 and HMAC in
  hexadecimal, base64 both ways, and AES-GCM both ways (\<open>None\<close> for a refused tag). What the
  theorems need of them is stated as \<open>crypto_laws\<close>.
\<close>

record crypto =
  cy_sha :: "str \<Rightarrow> str"
  cy_mac :: "str \<Rightarrow> str \<Rightarrow> str"
  cy_b64encode :: "str \<Rightarrow> str"
  cy_b64decode :: "str \<Rightarrow> str option"
  cy_seal :: "str \<Rightarrow> str \<Rightarrow> str \<Rightarrow> str \<Rightarrow> str"
  cy_open :: "str \<Rightarrow> str \<Rightarrow> str \<Rightarrow> str \<Rightarrow> str option"

subsection \<open>The key ring\<close>

definition MAX_KEY_VERSIONS :: nat where
  "MAX_KEY_VERSIONS = 16"

record encrypted_secret =
  es_ciphertext :: str
  es_nonce :: str
  es_key_id :: str

record keyring =
  kr_keys :: "(str \<times> str) list"
  kr_active :: str

definition credential_aad :: "str \<Rightarrow> str \<Rightarrow> str \<Rightarrow> str \<Rightarrow> str res" where
  "credential_aad credential_id api_client_id key_id master_key_id =
    (let vs = [credential_id, api_client_id, key_id, master_key_id] in
     if list_ex (\<lambda>v. v = [] \<or> nl \<in> set v \<or> CHR 0x0D \<in> set v) vs
       then Inl (ValueError ''credential AAD identifiers must be non-empty single-line values'')
     else Inr (join_on nl vs))"

definition is_version_char :: "char \<Rightarrow> bool" where
  "is_version_char c \<longleftrightarrow> is_alnum c \<or> c \<in> {CHR ''.'', CHR ''_'', CHR ''-''}"

definition key_version_ok :: "str \<Rightarrow> bool" where
  "key_version_ok s \<longleftrightarrow> full_class is_version_char 1 64 s"

definition decode_key :: "crypto \<Rightarrow> str \<Rightarrow> str res" where
  "decode_key y encoded_key = (case cy_b64decode y encoded_key of
     None \<Rightarrow> Inl (ValueError ''credential key ring contains invalid base64'')
   | Some key \<Rightarrow> if length key \<noteq> 32
       then Inl (ValueError ''credential key ring values must decode to 32 bytes'') else Inr key)"

definition keyring_entry :: "crypto \<Rightarrow> str \<times> json \<Rightarrow> (str \<times> str) res" where
  "keyring_entry y e = (case e of (key_id, encoded_key) \<Rightarrow>
     if \<not> key_version_ok key_id then Inl (ValueError ''invalid credential key version'')
     else case encoded_key of
       JStr s \<Rightarrow> bind_res (decode_key y s) (\<lambda>key. Inr (key_id, key))
     | _ \<Rightarrow> Inl (ValueError ''credential key values must be base64 strings''))"

text \<open>The JSON reader hands out an object as its list of pairs; a repeated version is refused.
  (The hook also sees nested objects, whose value is refused in any case.)\<close>

definition keyring_from_json :: "crypto \<Rightarrow> (str \<Rightarrow> json option) \<Rightarrow> str \<Rightarrow> str \<Rightarrow> keyring res" where
  "keyring_from_json y loads serialized active_key_id =
    (if \<not> key_version_ok active_key_id then Inl (ValueError ''invalid active credential key version'')
     else case loads serialized of
       Some (JObj pairs) \<Rightarrow>
         if \<not> distinct (map fst pairs)
           then Inl (ValueError ''credential key ring contains duplicate versions'')
         else if pairs = [] \<or> MAX_KEY_VERSIONS < length pairs
           then Inl (ValueError ''credential key ring must contain 1 to 16 versions'')
         else bind_res (map_res (keyring_entry y) pairs) (\<lambda>keys.
           if active_key_id \<notin> set (map fst keys)
             then Inl (ValueError ''active credential key version is unavailable'')
           else Inr \<lparr>kr_keys = keys, kr_active = active_key_id\<rparr>)
     | Some _ \<Rightarrow> Inl (ValueError ''credential key ring must contain 1 to 16 versions'')
     | None \<Rightarrow> Inl (ValueError ''credential key ring must be a JSON object''))"

definition encrypt :: "crypto \<Rightarrow> keyring \<Rightarrow> str \<Rightarrow> str \<Rightarrow> str \<Rightarrow> encrypted_secret res" where
  "encrypt y k fresh_nonce plaintext aad =
    (if plaintext = [] then Inl (ValueError ''credential plaintext must not be empty'')
     else case map_of (kr_keys k) (kr_active k) of
       None \<Rightarrow> Inl (LookupError ''active key'')
     | Some key \<Rightarrow> Inr \<lparr>es_ciphertext = cy_b64encode y (cy_seal y key fresh_nonce plaintext aad),
         es_nonce = cy_b64encode y fresh_nonce, es_key_id = kr_active k\<rparr>)"

definition decrypt :: "crypto \<Rightarrow> keyring \<Rightarrow> encrypted_secret \<Rightarrow> str \<Rightarrow> str res" where
  "decrypt y k e aad = (case map_of (kr_keys k) (es_key_id e) of
     None \<Rightarrow> Inl KeyVersionUnavailable
   | Some key \<Rightarrow> (case (cy_b64decode y (es_nonce e), cy_b64decode y (es_ciphertext e)) of
       (Some nonce, Some ciphertext) \<Rightarrow>
         if length nonce \<noteq> 12 then Inl CredentialDecryptionError
         else (case cy_open y key nonce ciphertext aad of
           None \<Rightarrow> Inl CredentialDecryptionError | Some plaintext \<Rightarrow> Inr plaintext)
     | _ \<Rightarrow> Inl CredentialDecryptionError))"

subsection \<open>Credential secrets\<close>

text \<open>The one-time result: the secret can be taken once.\<close>

record creation_result =
  cn_credential :: credential
  cn_secret :: "str option"

definition take_secret :: "creation_result \<Rightarrow> str res \<times> creation_result" where
  "take_secret r = (case cn_secret r of
     None \<Rightarrow> (Inl (RuntimeError ''credential Secret has already been read''), r)
   | Some s \<Rightarrow> (Inr s, r\<lparr>cn_secret := None\<rparr>))"

text \<open>The random parts: a fresh identifier, two URL-safe tokens and the AES nonce.\<close>

record fresh =
  fr_uuid :: str
  fr_key_token :: str
  fr_secret_token :: str
  fr_nonce :: str

definition create_protected_credential :: "crypto \<Rightarrow> keyring \<Rightarrow> fresh \<Rightarrow> str \<Rightarrow> str \<Rightarrow>
    str option \<Rightarrow> str option \<Rightarrow> int \<Rightarrow> int option \<Rightarrow> creation_result res" where
  "create_protected_credential y k f api_client_id created_by credential_id key_id now expires_at =
    (let resolved_id = (case credential_id of Some i \<Rightarrow> if i = [] then fr_uuid f else i | None \<Rightarrow> fr_uuid f);
         resolved_key = (case key_id of Some i \<Rightarrow> if i = [] then ''zpk_'' @ fr_key_token f else i
                         | None \<Rightarrow> ''zpk_'' @ fr_key_token f);
         secret = ''zps_'' @ fr_secret_token f
     in bind_res (credential_aad resolved_id api_client_id resolved_key (kr_active k)) (\<lambda>aad.
        bind_res (encrypt y k (fr_nonce f) secret aad) (\<lambda>e.
          Inr \<lparr>cn_credential =
            \<lparr>cr_id = resolved_id, cr_client = api_client_id, cr_key_id = resolved_key,
             cr_ciphertext = es_ciphertext e, cr_nonce = es_nonce e, cr_master_key_id = es_key_id e,
             cr_fingerprint = cy_sha y secret, cr_status = Cred_active, cr_expires_at = expires_at,
             cr_last_used_at = None, cr_replaced_by = None, cr_created_by = created_by,
             cr_revoked_by = None, cr_created_at = now, cr_revoked_at = None\<rparr>,
            cn_secret = Some secret\<rparr>)))"

definition decrypt_credential_secret :: "crypto \<Rightarrow> credential \<Rightarrow> keyring \<Rightarrow> str res" where
  "decrypt_credential_secret y c k =
    bind_res (credential_aad (cr_id c) (cr_client c) (cr_key_id c) (cr_master_key_id c)) (\<lambda>aad.
    bind_res (decrypt y k \<lparr>es_ciphertext = cr_ciphertext c, es_nonce = cr_nonce c, es_key_id = cr_master_key_id c\<rparr> aad)
      (\<lambda>plaintext.
        if \<not> utf8_valid plaintext then Inl CredentialDecryptionError
        else if cy_sha y plaintext \<noteq> cr_fingerprint c then Inl CredentialDecryptionError
        else Inr plaintext))"

subsection \<open>The headers of a signed request\<close>

definition REQUIRED_AUTH_HEADERS :: "(str \<times> str) list" where
  "REQUIRED_AUTH_HEADERS = [(''x-zangpu-key'', ''key_id''), (''x-zangpu-timestamp'', ''timestamp''),
     (''x-zangpu-nonce'', ''nonce''), (''x-zangpu-request-id'', ''request_id''),
     (''x-zangpu-signature-version'', ''signature_version''), (''x-zangpu-signature'', ''signature'')]"

record auth_headers =
  ah_key_id :: str
  ah_timestamp :: str
  ah_nonce :: str
  ah_request_id :: str
  ah_signature_version :: str
  ah_signature :: str

definition lower_char :: "char \<Rightarrow> char" where
  "lower_char c = (if is_upper_alpha c then char_of (of_char c + 32 :: nat) else c)"

definition is_py_space :: "char \<Rightarrow> bool" where
  "is_py_space c \<longleftrightarrow> c = CHR '' '' \<or> (9 \<le> (of_char c :: nat) \<and> (of_char c :: nat) \<le> 13) \<or>
    (28 \<le> (of_char c :: nat) \<and> (of_char c :: nat) \<le> 31)"

text \<open>One header: the fields collected so far, extended when it is an authentication header.\<close>

definition read_header :: "(str \<times> str) list \<Rightarrow> str \<times> str \<Rightarrow> (str \<times> str) list res" where
  "read_header seen h = (case h of (raw_name, raw_value) \<Rightarrow>
     if 64 < length raw_name \<or> 8192 < length raw_value then Inl (ExternalAuthFailure ''header_length'')
     else case map_of REQUIRED_AUTH_HEADERS (map lower_char raw_name) of
       None \<Rightarrow> Inr seen
     | Some field_name \<Rightarrow>
         if field_name \<in> set (map fst seen) then Inl (ExternalAuthFailure ''duplicate_header'')
         else if list_ex (\<lambda>c. 128 \<le> (of_char c :: nat)) raw_value then Inl (ExternalAuthFailure ''header_encoding'')
         else if raw_value = [] \<or> is_py_space (hd raw_value) \<or> is_py_space (last raw_value) \<or> 256 < length raw_value
           then Inl (ExternalAuthFailure ''header_value'')
         else Inr (seen @ [(field_name, raw_value)]))"

fun read_headers :: "(str \<times> str) list \<Rightarrow> (str \<times> str) list \<Rightarrow> (str \<times> str) list res" where
  "read_headers seen [] = Inr seen"
| "read_headers seen (h # hs) = bind_res (read_header seen h) (\<lambda>seen'. read_headers seen' hs)"

definition field_of :: "(str \<times> str) list \<Rightarrow> str \<Rightarrow> str" where
  "field_of seen name = (case map_of seen name of Some v \<Rightarrow> v | None \<Rightarrow> [])"

definition parse_external_auth_headers :: "(str \<times> str) list \<Rightarrow> auth_headers res" where
  "parse_external_auth_headers raw_headers =
    (if 64 < length raw_headers then Inl (ExternalAuthFailure ''header_count'')
     else bind_res (read_headers [] raw_headers) (\<lambda>seen.
       if set (map fst seen) \<noteq> set (map snd REQUIRED_AUTH_HEADERS)
         then Inl (ExternalAuthFailure ''missing_header'')
       else let f = field_of seen in
         (case validate_signing_fields (f ''key_id'') (f ''timestamp'') (f ''nonce'') (f ''request_id'') of
            Inl _ \<Rightarrow> Inl (ExternalAuthFailure ''header_format'')
          | Inr _ \<Rightarrow>
              if f ''signature_version'' \<noteq> SIGNATURE_VERSION then Inl (ExternalAuthFailure ''signature_version'')
              else if \<not> hash_ok (f ''signature'') then Inl (ExternalAuthFailure ''signature_format'')
              else Inr \<lparr>ah_key_id = f ''key_id'', ah_timestamp = f ''timestamp'', ah_nonce = f ''nonce'',
                     ah_request_id = f ''request_id'', ah_signature_version = f ''signature_version'',
                     ah_signature = f ''signature''\<rparr>)))"

subsection \<open>Authentication\<close>

record resolved_credential =
  rc_credential_id :: str
  rc_api_client_id :: str
  rc_key_id :: str
  rc_ciphertext :: str
  rc_nonce :: str
  rc_master_key_id :: str
  rc_credential_status :: credential_status
  rc_expires_at :: "int option"
  rc_client_status :: client_status

record authenticated_caller =
  au_api_client_id :: str
  au_credential_id :: str
  au_key_id :: str
  au_request_id :: str
  au_nonce :: str
  au_timestamp :: int

record http_request =
  hr_method :: str
  hr_path :: str
  hr_query :: str
  hr_body :: str
  hr_headers :: "(str \<times> str) list"

definition timestamp_tolerance :: "int \<Rightarrow> int res" where
  "timestamp_tolerance seconds =
    (if \<not> (30 \<le> seconds \<and> seconds \<le> 900)
       then Inl (ValueError ''timestamp tolerance must be between 30 and 900 seconds'')
     else Inr seconds)"

text \<open>The credential lookup and the key ring in the order of the code; everything the \<open>try\<close>
  block raises but a failed signature is one category.\<close>

definition check_signature :: "crypto \<Rightarrow> keyring \<Rightarrow> resolved_credential \<Rightarrow> auth_headers \<Rightarrow> http_request \<Rightarrow> bool res" where
  "check_signature y k rc h q =
    bind_res (create_canonical_request \<lparr>si_method = hr_method q, si_path = hr_path q, si_query = hr_query q,
        si_body_hash = cy_sha y (hr_body q), si_key_id = ah_key_id h, si_timestamp = ah_timestamp h,
        si_nonce = ah_nonce h, si_request_id = ah_request_id h\<rparr>) (\<lambda>canonical.
    bind_res (credential_aad (rc_credential_id rc) (rc_api_client_id rc) (rc_key_id rc) (rc_master_key_id rc)) (\<lambda>aad.
    bind_res (decrypt y k \<lparr>es_ciphertext = rc_ciphertext rc, es_nonce = rc_nonce rc, es_key_id = rc_master_key_id rc\<rparr> aad)
      (\<lambda>plaintext.
        if \<not> utf8_valid plaintext then Inl (ValueError ''UnicodeDecodeError'')
        else verify_signature (cy_mac y) plaintext canonical (ah_signature h))))"

definition authenticate :: "crypto \<Rightarrow> keyring \<Rightarrow> (str \<Rightarrow> resolved_credential option) \<Rightarrow> int \<Rightarrow> int \<Rightarrow>
    http_request \<Rightarrow> authenticated_caller res" where
  "authenticate y k resolver tolerance now q =
    bind_res (parse_external_auth_headers (hr_headers q)) (\<lambda>h.
      case resolver (ah_key_id h) of
        None \<Rightarrow> Inl (ExternalAuthFailure ''credential_state'')
      | Some rc \<Rightarrow>
          if rc_key_id rc \<noteq> ah_key_id h \<or> rc_credential_status rc \<noteq> Cred_active \<or>
             \<not> opt_all (\<lambda>t. now < t) (rc_expires_at rc)
            then Inl (ExternalAuthFailure ''credential_state'')
          else if tolerance < \<bar>now - int (digits_nat (ah_timestamp h))\<bar>
            then Inl (ExternalAuthFailure ''timestamp'')
          else (case check_signature y k rc h q of
              Inl _ \<Rightarrow> Inl (ExternalAuthFailure ''credential_protection'')
            | Inr False \<Rightarrow> Inl (ExternalAuthFailure ''signature'')
            | Inr True \<Rightarrow>
                if rc_client_status rc \<noteq> Client_active then Inl ExternalClientDisabled
                else Inr \<lparr>au_api_client_id = rc_api_client_id rc, au_credential_id = rc_credential_id rc,
                       au_key_id = rc_key_id rc, au_request_id = ah_request_id h, au_nonce = ah_nonce h,
                       au_timestamp = int (digits_nat (ah_timestamp h))\<rparr>))"

text \<open>The adapter of the HTTP framework: the raw path when the server passes it on, else the
  decoded path of the URL; both and the query string must be ASCII.\<close>

definition is_ascii :: "str \<Rightarrow> bool" where
  "is_ascii s \<longleftrightarrow> list_all (\<lambda>c. (of_char c :: nat) < 128) s"

definition authenticate_http_request :: "crypto \<Rightarrow> keyring \<Rightarrow> (str \<Rightarrow> resolved_credential option) \<Rightarrow> int \<Rightarrow> int \<Rightarrow>
    str option \<Rightarrow> http_request \<Rightarrow> authenticated_caller res" where
  "authenticate_http_request y k resolver tolerance now raw_path q =
    (if \<not> opt_all is_ascii raw_path \<or> \<not> is_ascii (hr_query q)
       then Inl (ExternalAuthFailure ''request_target_encoding'')
     else authenticate y k resolver tolerance now
       (q\<lparr>hr_path := (case raw_path of None \<Rightarrow> hr_path q | Some p \<Rightarrow> p)\<rparr>))"

end
