(* ===== verification/Callers.thy ===== *)
theory Callers
  imports Auth
begin

text \<open>
  What the control plane knows of a caller: the credential lookup and the caller policies of
  \<open>backend/app/services/callers.py\<close>, and the protected upstream key of its binding,
  \<open>backend/app/integrations/bifrost/binding_service.py\<close>.
\<close>

subsection \<open>The protected value of a binding\<close>

definition filled :: "str option \<Rightarrow> bool" where
  "filled v \<longleftrightarrow> (case v of None \<Rightarrow> False | Some s \<Rightarrow> s \<noteq> [])"

definition binding_remote_fields_complete :: "binding \<Rightarrow> bool" where
  "binding_remote_fields_complete b \<longleftrightarrow> filled (bd_service_user_id b) \<and> filled (bd_virtual_key_id b) \<and>
     filled (bd_value_ciphertext b) \<and> filled (bd_value_key_version b)"

definition binding_aad :: "str \<Rightarrow> str \<Rightarrow> str \<Rightarrow> str \<Rightarrow> str res" where
  "binding_aad binding_id api_client_id virtual_key_id master_key_id =
    (let vs = [binding_id, api_client_id, virtual_key_id, master_key_id] in
     if list_ex (\<lambda>v. v = [] \<or> nl \<in> set v \<or> CHR 0x0D \<in> set v) vs
       then Inl (ValueError ''binding AAD identifiers must be non-empty single-line values'')
     else Inr (join_on nl vs))"

text \<open>The stored envelope is a JSON object with two members, read with the JSON reader
  \<open>loads\<close>. Their types are not checked: a value that is not text reaches the base64 decoder,
  whose \<open>TypeError\<close> no handler of the key ring catches.\<close>

definition read_envelope :: "(str \<Rightarrow> json option) \<Rightarrow> str \<Rightarrow> (json \<times> json) option" where
  "read_envelope loads text_value = (case loads text_value of
     Some (JObj pairs) \<Rightarrow> (case (map_of (rev pairs) ''ciphertext'', map_of (rev pairs) ''nonce'') of
         (Some c, Some n) \<Rightarrow> Some (c, n) | _ \<Rightarrow> None)
   | _ \<Rightarrow> None)"

definition decrypt_envelope :: "crypto \<Rightarrow> keyring \<Rightarrow> json \<Rightarrow> json \<Rightarrow> str \<Rightarrow> str \<Rightarrow> str res" where
  "decrypt_envelope y k ciphertext nonce version aad =
    (if map_of (kr_keys k) version = None then Inl KeyVersionUnavailable
     else case nonce of
       JStr n \<Rightarrow> (case ciphertext of
           JStr c \<Rightarrow> decrypt y k \<lparr>es_ciphertext = c, es_nonce = n, es_key_id = version\<rparr> aad
         | _ \<Rightarrow> if cy_b64decode y n = None then Inl CredentialDecryptionError else Inl OtherException)
     | _ \<Rightarrow> Inl OtherException)"

definition decrypt_binding_value :: "crypto \<Rightarrow> (str \<Rightarrow> json option) \<Rightarrow> keyring \<Rightarrow> binding \<Rightarrow> str res" where
  "decrypt_binding_value y loads k b =
    (case (bd_virtual_key_id b, bd_value_ciphertext b, bd_value_key_version b) of
       (Some virtual_key, Some envelope, Some version) \<Rightarrow>
         if virtual_key = [] \<or> envelope = [] \<or> version = []
           then Inl (ValueError ''binding has no protected Bifrost value'')
         else (case read_envelope loads envelope of
             None \<Rightarrow> Inl (ValueError ''binding ciphertext envelope is invalid'')
           | Some (ciphertext, nonce) \<Rightarrow>
               bind_res (binding_aad (bd_id b) (bd_client b) virtual_key version) (\<lambda>aad.
               bind_res (decrypt_envelope y k ciphertext nonce version aad)
                 (\<lambda>plaintext. if \<not> utf8_valid plaintext then Inl (ValueError ''binding plaintext is invalid'')
                   else Inr plaintext)))
     | _ \<Rightarrow> Inl (ValueError ''binding has no protected Bifrost value''))"

record virtual_key_result =
  vk_id :: str
  vk_active :: bool
  vk_value :: "str option"

definition persist_created_binding :: "crypto \<Rightarrow> (str \<Rightarrow> str \<Rightarrow> str) \<Rightarrow> keyring \<Rightarrow> str \<Rightarrow> int \<Rightarrow>
    virtual_key_result \<Rightarrow> binding \<Rightarrow> binding res" where
  "persist_created_binding y write_envelope k fresh_nonce now r b =
    (case vk_value r of
       None \<Rightarrow> Inl (RuntimeError ''Bifrost virtual key value has already been read'')
     | Some v \<Rightarrow>
         bind_res (binding_aad (bd_id b) (bd_client b) (vk_id r) (kr_active k)) (\<lambda>aad.
         bind_res (encrypt y k fresh_nonce v aad) (\<lambda>e.
           let b' = b\<lparr>bd_virtual_key_id := Some (vk_id r),
                 bd_value_ciphertext := Some (write_envelope (es_ciphertext e) (es_nonce e)),
                 bd_value_key_version := Some (es_key_id e)\<rparr>
           in Inr (b'\<lparr>bd_sync_status := (if binding_remote_fields_complete b'
                        then (if vk_active r then Sync_active else Sync_disabled) else Sync_pending),
                      bd_last_error := None, bd_updated_at := now\<rparr>))))"

subsection \<open>The text forms of a UUID\<close>

function remove_text :: "str \<Rightarrow> str \<Rightarrow> str" where
  "remove_text p [] = []"
| "remove_text p (c # cs) = (if p \<noteq> [] \<and> take (length p) (c # cs) = p
     then remove_text p (drop (length p) (c # cs)) else c # remove_text p cs)"
  by pat_completeness auto
termination
  by (relation "measure (\<lambda>(_, s). length s)") (auto simp: length_greater_0_conv [symmetric] simp del: length_greater_0_conv)

fun hex_digits_ok :: "bool \<Rightarrow> str \<Rightarrow> bool" where
  "hex_digits_ok ok [] = ok"
| "hex_digits_ok ok (c # cs) = (if is_hex c then hex_digits_ok True cs
     else c = CHR ''_'' \<and> ok \<and> cs \<noteq> [] \<and> is_hex (hd cs) \<and> hex_digits_ok False cs)"

text \<open>\<open>int(text, 16)\<close> accepts it.\<close>

definition hex_int_ok :: "str \<Rightarrow> bool" where
  "hex_int_ok s = (let t = strip_spaces s;
       u = (if t \<noteq> [] \<and> hd t \<in> {CHR ''+'', CHR ''-''} then drop 1 t else t);
       v = (if take 2 u \<in> {''0x'', ''0X''} then (if take 1 (drop 2 u) = ''_'' then drop 3 u else drop 2 u) else u)
     in hex_digits_ok False v)"

definition strip_braces :: "str \<Rightarrow> str" where
  "strip_braces s = (let b = (\<lambda>c. c \<in> {CHR ''{'', CHR ''}''}) in rev (dropWhile b (rev (dropWhile b s))))"

definition uuid_ok :: "str \<Rightarrow> bool" where
  "uuid_ok s = (let h = remove_text ''-'' (strip_braces (remove_text ''uuid:'' (remove_text ''urn:'' s)))
     in py_len h = 32 \<and> hex_int_ok h)"

subsection \<open>Lookups\<close>

definition resolve_credential :: "db \<Rightarrow> str \<Rightarrow> resolved_credential option" where
  "resolve_credential d key_id = (case find_row cr_key_id key_id (db_credentials d) of
     None \<Rightarrow> None
   | Some c \<Rightarrow> (case find_row ac_id (cr_client c) (db_clients d) of
       None \<Rightarrow> None
     | Some client \<Rightarrow> Some \<lparr>rc_credential_id = cr_id c, rc_api_client_id = cr_client c, rc_key_id = cr_key_id c,
         rc_ciphertext = cr_ciphertext c, rc_nonce = cr_nonce c, rc_master_key_id = cr_master_key_id c,
         rc_credential_status = cr_status c, rc_expires_at = cr_expires_at c,
         rc_client_status = ac_status client\<rparr>))"

definition caller_rows :: "db \<Rightarrow> authenticated_caller \<Rightarrow> (api_client \<times> credential) option" where
  "caller_rows d caller =
    (case (find_row ac_id (au_api_client_id caller) (db_clients d),
           find_row cr_id (au_credential_id caller) (db_credentials d)) of
       (Some client, Some c) \<Rightarrow>
         if cr_client c = ac_id client \<and> cr_key_id c = au_key_id caller then Some (client, c) else None
     | _ \<Rightarrow> None)"

definition check_caller_state :: "int \<Rightarrow> api_client \<Rightarrow> credential \<Rightarrow> unit res" where
  "check_caller_state now client c =
    (if ac_status client \<noteq> Client_active then Inl (CallerPolicyError ''CLIENT_DISABLED'')
     else if cr_status c \<noteq> Cred_active then Inl (CallerPolicyError ''CREDENTIAL_REVOKED'')
     else if \<not> opt_all (\<lambda>t. now < t) (cr_expires_at c) then Inl (CallerPolicyError ''CREDENTIAL_EXPIRED'')
     else Inr ())"

subsection \<open>Policies\<close>

record caller_policy =
  cp_api_client_id :: str
  cp_credential_id :: str
  cp_allowed_endpoints :: "str list"
  cp_allowed_models :: "str list"
  cp_qps_limit :: int
  cp_concurrency_limit :: int
  cp_daily_request_limit :: "int option"
  cp_daily_token_limit :: "int option"
  cp_total_request_limit :: "int option"
  cp_total_token_limit :: "int option"
  cp_max_output_tokens :: int
  cp_service_user_id :: str
  cp_virtual_key :: str

definition load_caller_policy :: "crypto \<Rightarrow> (str \<Rightarrow> json option) \<Rightarrow> keyring \<Rightarrow> db \<Rightarrow> authenticated_caller \<Rightarrow> int \<Rightarrow>
    caller_policy res" where
  "load_caller_policy y loads k d caller now =
    (case (caller_rows d caller, find_row bd_client (au_api_client_id caller) (db_bindings d)) of
       (Some (client, c), Some b) \<Rightarrow>
         bind_res (check_caller_state now client c) (\<lambda>_.
           let unavailable = Inl (CallerPolicyError ''CALLER_BINDING_UNAVAILABLE'') in
           (case bd_service_user_id b of
              None \<Rightarrow> unavailable
            | Some service_user_id \<Rightarrow>
                if bd_sync_status b \<noteq> Sync_active \<or> \<not> binding_remote_fields_complete b then unavailable
                else if \<not> uuid_ok service_user_id then unavailable
                else (case decrypt_binding_value y loads k b of
                    Inl e \<Rightarrow> if e = CredentialDecryptionError \<or> e = KeyVersionUnavailable \<or> is_value_error e
                             then unavailable else Inl e
                  | Inr virtual_key \<Rightarrow>
                      Inr \<lparr>cp_api_client_id = ac_id client, cp_credential_id = cr_id c,
                           cp_allowed_endpoints = ac_allowed_endpoints client,
                           cp_allowed_models = ac_allowed_models client,
                           cp_qps_limit = ac_qps_limit client, cp_concurrency_limit = ac_concurrency_limit client,
                           cp_daily_request_limit = ac_daily_request_limit client,
                           cp_daily_token_limit = ac_daily_token_limit client,
                           cp_total_request_limit = ac_total_request_limit client,
                           cp_total_token_limit = ac_total_token_limit client,
                           cp_max_output_tokens = ac_max_output_tokens client,
                           cp_service_user_id = service_user_id, cp_virtual_key = virtual_key\<rparr>)))
     | _ \<Rightarrow> Inl (CallerPolicyError ''CALLER_STATE_UNAVAILABLE''))"

record metadata_policy =
  mp_api_client_id :: str
  mp_credential_id :: str
  mp_allowed_endpoints :: "str list"
  mp_allowed_models :: "str list"
  mp_qps_limit :: int
  mp_daily_request_limit :: "int option"
  mp_daily_token_limit :: "int option"
  mp_total_request_limit :: "int option"
  mp_total_token_limit :: "int option"

definition load_caller_metadata_policy :: "db \<Rightarrow> authenticated_caller \<Rightarrow> int \<Rightarrow> metadata_policy res" where
  "load_caller_metadata_policy d caller now =
    (case caller_rows d caller of
       None \<Rightarrow> Inl (CallerPolicyError ''CALLER_STATE_UNAVAILABLE'')
     | Some (client, c) \<Rightarrow>
         bind_res (check_caller_state now client c) (\<lambda>_.
           Inr \<lparr>mp_api_client_id = ac_id client, mp_credential_id = cr_id c,
                mp_allowed_endpoints = ac_allowed_endpoints client, mp_allowed_models = ac_allowed_models client,
                mp_qps_limit = ac_qps_limit client,
                mp_daily_request_limit = ac_daily_request_limit client,
                mp_daily_token_limit = ac_daily_token_limit client,
                mp_total_request_limit = ac_total_request_limit client,
                mp_total_token_limit = ac_total_token_limit client\<rparr>))"

end
