(* ===== verification/Auth_Properties.thy ===== *)
theory Auth_Properties
  imports Callers Canonical_Properties Ledger_Properties
begin

text \<open>
  Properties of authentication: what an authenticated caller has shown, that a request signed
  by the SDK with the secret of a live credential is accepted, that a protected secret opens
  only under its own identifiers, and what a loaded policy rests on.
\<close>

subsection \<open>Laws of the cryptographic parameters\<close>

definition crypto_laws :: "crypto \<Rightarrow> bool" where
  "crypto_laws y \<longleftrightarrow> (\<forall>k m. hash_ok (cy_mac y k m)) \<and> (\<forall>b. cy_b64decode y (cy_b64encode y b) = Some b) \<and>
     (\<forall>k n p a. cy_open y k n (cy_seal y k n p a) a = Some p)"

text \<open>A toy instance: the tag of a sealed text is its key and its associated data.\<close>

definition toy_tag :: "str \<Rightarrow> str \<Rightarrow> str" where
  "toy_tag k a = rfc3986_encode k @ nl # rfc3986_encode a @ [nl]"

definition toy_open :: "str \<Rightarrow> str \<Rightarrow> str \<Rightarrow> str option" where
  "toy_open k c a = (if take (length (toy_tag k a)) c = toy_tag k a then Some (drop (length (toy_tag k a)) c) else None)"

definition toy_crypto :: crypto where
  "toy_crypto = \<lparr>cy_sha = \<lambda>s. replicate 64 CHR ''0'', cy_mac = \<lambda>k m. replicate 64 CHR ''a'',
     cy_b64encode = \<lambda>s. s, cy_b64decode = Some,
     cy_seal = \<lambda>k n p a. toy_tag k a @ p, cy_open = \<lambda>k n c a. toy_open k c a\<rparr>"

lemma toy_crypto_laws: "crypto_laws toy_crypto"
  by (simp add: crypto_laws_def toy_crypto_def toy_open_def hash_ok_def full_class_def is_lower_hex_def is_digit_def list_all_iff)

lemma toy_open_other: "a \<noteq> a' \<Longrightarrow> toy_open k (toy_tag k a @ p) a' = None"
proof (rule ccontr)
  assume a: "a \<noteq> a'" and "toy_open k (toy_tag k a @ p) a' \<noteq> None"
  then have "take (length (toy_tag k a')) (toy_tag k a @ p) = toy_tag k a'" by (auto simp: toy_open_def split: if_splits)
  then obtain z where "toy_tag k a @ p = toy_tag k a' @ z" by (metis append_take_drop_id)
  then have "rfc3986_encode a @ nl # p = rfc3986_encode a' @ nl # z" by (simp add: toy_tag_def)
  from append_sep_inj [OF encode_no_nl encode_no_nl this] have "rfc3986_encode a = rfc3986_encode a'" by (rule conjunct1)
  with a show False by (metis unquote_encode)
qed

subsection \<open>Headers\<close>

definition header_names :: "str list" where
  "header_names = map fst REQUIRED_AUTH_HEADERS"

definition auth_values :: "str \<Rightarrow> (str \<times> str) list \<Rightarrow> str list" where
  "auth_values name hs = map snd (filter (\<lambda>h. map lower_char (fst h) = name) hs)"

lemma read_header_Inr:
  assumes "read_header seen (n, v) = Inr seen'"
  shows "(case map_of REQUIRED_AUTH_HEADERS (map lower_char n) of
      None \<Rightarrow> seen' = seen | Some f \<Rightarrow> f \<notin> set (map fst seen) \<and> seen' = seen @ [(f, v)])"
  using assms by (auto simp: read_header_def split: option.splits if_splits)

text \<open>What has been collected is the list of the authentication headers seen, in order.\<close>

lemma read_headers_Inr:
  assumes "read_headers seen hs = Inr seen'" and "distinct (map fst seen)"
  shows "distinct (map fst seen') \<and> seen' = seen @ concat (map (\<lambda>h.
      case map_of REQUIRED_AUTH_HEADERS (map lower_char (fst h)) of None \<Rightarrow> [] | Some f \<Rightarrow> [(f, snd h)]) hs)"
  using assms
proof (induction hs arbitrary: seen)
  case Nil
  then show ?case by simp
next
  case (Cons h hs)
  obtain n v where h: "h = (n, v)" by (cases h)
  obtain s where s: "read_header seen (n, v) = Inr s" "read_headers s hs = Inr seen'"
    using Cons.prems(1) by (auto simp: h bind_res_Inr)
  have "distinct (map fst s)"
    using read_header_Inr [OF s(1)] Cons.prems(2) by (auto split: option.splits)
  from Cons.IH [OF s(2) this] read_header_Inr [OF s(1)] show ?case
    by (auto simp: h split: option.splits)
qed

lemma required_inj:
  "map_of REQUIRED_AUTH_HEADERS n = Some f \<Longrightarrow> map_of REQUIRED_AUTH_HEADERS m = Some f \<Longrightarrow> n = m"
  by (auto simp: REQUIRED_AUTH_HEADERS_def split: if_splits)

lemma collected_values:
  assumes "map_of REQUIRED_AUTH_HEADERS name = Some f"
  shows "map snd (filter (\<lambda>x. fst x = f) (concat (map (\<lambda>h.
      case map_of REQUIRED_AUTH_HEADERS (map lower_char (fst h)) of None \<Rightarrow> [] | Some f \<Rightarrow> [(f, snd h)]) hs))) =
    auth_values name hs"
proof (induction hs)
  case Nil
  then show ?case by (simp add: auth_values_def)
next
  case (Cons h hs)
  show ?case
  proof (cases "map_of REQUIRED_AUTH_HEADERS (map lower_char (fst h)) = Some f")
    case True
    then have "map lower_char (fst h) = name" by (rule required_inj [OF _ assms])
    with True Cons show ?thesis by (simp add: auth_values_def)
  next
    case False
    then have "map lower_char (fst h) \<noteq> name" using assms by auto
    with False Cons show ?thesis by (auto simp: auth_values_def split: option.splits)
  qed
qed

lemma distinct_filter_single:
  "distinct (map fst xs) \<Longrightarrow> f \<in> set (map fst xs) \<Longrightarrow> map snd (filter (\<lambda>x. fst x = f) xs) = [field_of xs f]"
proof (induction xs)
  case Nil
  then show ?case by simp
next
  case (Cons x xs)
  show ?case
  proof (cases "fst x = f")
    case True
    then have "filter (\<lambda>x. fst x = f) xs = []" using Cons.prems(1) by (auto simp: filter_empty_conv image_iff)
    with True show ?thesis by (cases x) (simp add: field_of_def)
  next
    case False
    with Cons show ?thesis by (cases x) (auto simp: field_of_def)
  qed
qed

text \<open>The six headers are present exactly once each, whatever their case, and their values
  are the fields.\<close>

definition headers_show :: "(str \<times> str) list \<Rightarrow> auth_headers \<Rightarrow> bool" where
  "headers_show hs h \<longleftrightarrow>
    auth_values ''x-zangpu-key'' hs = [ah_key_id h] \<and> auth_values ''x-zangpu-timestamp'' hs = [ah_timestamp h] \<and>
    auth_values ''x-zangpu-nonce'' hs = [ah_nonce h] \<and> auth_values ''x-zangpu-request-id'' hs = [ah_request_id h] \<and>
    auth_values ''x-zangpu-signature-version'' hs = [SIGNATURE_VERSION] \<and>
    auth_values ''x-zangpu-signature'' hs = [ah_signature h]"

lemma parse_headers_show:
  assumes "parse_external_auth_headers hs = Inr h"
  shows "headers_show hs h \<and> hash_ok (ah_signature h) \<and> key_id_ok (ah_key_id h) \<and> timestamp_ok (ah_timestamp h) \<and>
    nonce_ok (ah_nonce h) \<and> request_id_ok (ah_request_id h)"
proof -
  obtain seen where seen: "read_headers [] hs = Inr seen" "set (map fst seen) = set (map snd REQUIRED_AUTH_HEADERS)"
    and v: "validate_signing_fields (field_of seen ''key_id'') (field_of seen ''timestamp'') (field_of seen ''nonce'')
      (field_of seen ''request_id'') = Inr ()"
    and sv: "field_of seen ''signature_version'' = SIGNATURE_VERSION" "hash_ok (field_of seen ''signature'')"
    and h: "h = \<lparr>ah_key_id = field_of seen ''key_id'', ah_timestamp = field_of seen ''timestamp'',
      ah_nonce = field_of seen ''nonce'', ah_request_id = field_of seen ''request_id'',
      ah_signature_version = field_of seen ''signature_version'', ah_signature = field_of seen ''signature''\<rparr>"
    using assms by (auto simp: parse_external_auth_headers_def bind_res_Inr Let_def split: if_splits sum.splits)
  have r: "distinct (map fst seen) \<and> seen = concat (map (\<lambda>h.
      case map_of REQUIRED_AUTH_HEADERS (map lower_char (fst h)) of None \<Rightarrow> [] | Some f \<Rightarrow> [(f, snd h)]) hs)"
  proof -
    have "distinct (map fst ([] :: (str \<times> str) list))" by simp
    from read_headers_Inr [OF seen(1) this] show ?thesis unfolding append_Nil .
  qed
  note d = conjunct1 [OF r] and s = conjunct2 [OF r]
  have val: "auth_values name hs = [field_of seen f]" if "map_of REQUIRED_AUTH_HEADERS name = Some f" for name f
  proof -
    have "f \<in> set (map snd REQUIRED_AUTH_HEADERS)" using that by (force dest: map_of_SomeD)
    then have "f \<in> set (map fst seen)" using seen(2) by simp
    from distinct_filter_single [OF d this] show ?thesis
      unfolding collected_values [OF that, symmetric] s [symmetric] .
  qed
  have "headers_show hs h"
    using val [of "''x-zangpu-key''"] val [of "''x-zangpu-timestamp''"] val [of "''x-zangpu-nonce''"]
      val [of "''x-zangpu-request-id''"] val [of "''x-zangpu-signature-version''"] val [of "''x-zangpu-signature''"] sv(1)
    by (simp add: headers_show_def h REQUIRED_AUTH_HEADERS_def)
  then show ?thesis using v sv(2) by (auto simp: h validate_signing_fields_def split: if_splits)
qed

subsection \<open>What an authenticated caller has shown\<close>

lemma check_signature_True:
  assumes "check_signature y k rc h q = Inr True"
  obtains canonical aad secret where
    "create_canonical_request \<lparr>si_method = hr_method q, si_path = hr_path q, si_query = hr_query q,
      si_body_hash = cy_sha y (hr_body q), si_key_id = ah_key_id h, si_timestamp = ah_timestamp h,
      si_nonce = ah_nonce h, si_request_id = ah_request_id h\<rparr> = Inr canonical"
    "credential_aad (rc_credential_id rc) (rc_api_client_id rc) (rc_key_id rc) (rc_master_key_id rc) = Inr aad"
    "decrypt y k \<lparr>es_ciphertext = rc_ciphertext rc, es_nonce = rc_nonce rc, es_key_id = rc_master_key_id rc\<rparr> aad = Inr secret"
    "secret \<noteq> []" "ah_signature h = cy_mac y secret canonical"
  using assms
  by (auto simp: check_signature_def bind_res_Inr verify_signature_def sign_canonical_request_def if_Inl_Inr
      split: if_splits)

lemma authenticate_Inr:
  assumes "authenticate y k resolver tolerance now q = Inr c"
  obtains h rc where "parse_external_auth_headers (hr_headers q) = Inr h" "resolver (ah_key_id h) = Some rc"
    "rc_key_id rc = ah_key_id h" "rc_credential_status rc = Cred_active" "opt_all (\<lambda>t. now < t) (rc_expires_at rc)"
    "\<bar>now - int (digits_nat (ah_timestamp h))\<bar> \<le> tolerance" "rc_client_status rc = Client_active"
    "check_signature y k rc h q = Inr True"
    "c = \<lparr>au_api_client_id = rc_api_client_id rc, au_credential_id = rc_credential_id rc, au_key_id = rc_key_id rc,
      au_request_id = ah_request_id h, au_nonce = ah_nonce h, au_timestamp = int (digits_nat (ah_timestamp h))\<rparr>"
proof -
  obtain h rc where h: "parse_external_auth_headers (hr_headers q) = Inr h" "resolver (ah_key_id h) = Some rc"
    using assms by (auto simp: authenticate_def bind_res_Inr split: option.splits)
  note eq = assms [unfolded authenticate_def h(1) bind_res_simps h(2) option.case if_Inl_Inr]
  then have b: "check_signature y k rc h q = Inr True"
    by (cases "check_signature y k rc h q") (auto split: bool.splits)
  show thesis
    using eq unfolding b sum.case bool.case if_Inl_Inr by (intro that [OF h _ _ _ _ _ b]) auto
qed

subsection \<open>A signed request of a sample credential\<close>

definition auth_keyring :: keyring where
  "auth_keyring = \<lparr>kr_keys = [(''v1'', ''K1''), (''v0'', ''K0'')], kr_active = ''v1''\<rparr>"

definition auth_fresh :: fresh where
  "auth_fresh = \<lparr>fr_uuid = ''u1'', fr_key_token = ''AAAA'', fr_secret_token = ''S_1'', fr_nonce = ''abcdefghijkl''\<rparr>"

definition auth_creation :: creation_result where
  "auth_creation = \<lparr>cn_credential = \<lparr>cr_id = ''u1'', cr_client = ''c1'', cr_key_id = ''zpk_AAAA'',
       cr_ciphertext = join_on nl [''K1'', ''u1%0Ac1%0Azpk_AAAA%0Av1'', ''zps_S_1''], cr_nonce = ''abcdefghijkl'',
       cr_master_key_id = ''v1'', cr_fingerprint = replicate 64 CHR ''0'', cr_status = Cred_active,
       cr_expires_at = Some 900, cr_last_used_at = None, cr_replaced_by = None, cr_created_by = ''admin'',
       cr_revoked_by = None, cr_created_at = 100, cr_revoked_at = None\<rparr>,
     cn_secret = Some ''zps_S_1''\<rparr>"

definition auth_signer :: signer where
  "auth_signer = \<lparr>sg_key_id = ''zpk_AAAA'', sg_secret = ''zps_S_1''\<rparr>"

definition auth_sign_request :: sign_request where
  "auth_sign_request = \<lparr>sr_method = ''POST'', sr_path = ''/v1/chat'', sr_body = ''{}'', sr_query = ''b=2&a=1'',
     sr_request_id = None, sr_nonce = None, sr_timestamp = Some 200\<rparr>"

definition auth_signed :: signed_headers where
  "auth_signed = \<lparr>sh_key_id = ''zpk_AAAA'', sh_timestamp = ''200'', sh_nonce = ''nonce_nonce_nonce'',
     sh_request_id = ''request_request_1'', sh_signature = replicate 64 CHR ''a''\<rparr>"

definition auth_db :: db where
  "auth_db = empty_db\<lparr>db_clients := [sample_client], db_credentials := [cn_credential auth_creation]\<rparr>"

definition auth_request :: http_request where
  "auth_request = \<lparr>hr_method = ''POST'', hr_path = ''/v1/chat'', hr_query = ''b=2&a=1'', hr_body = ''{}'',
     hr_headers = as_headers auth_signed\<rparr>"

lemma auth_created:
  "create_protected_credential toy_crypto auth_keyring auth_fresh ''c1'' ''admin'' None None 100 (Some 900) = Inr auth_creation"
  by code_simp

lemma auth_signed_ok:
  "sdk_sign (cy_sha toy_crypto) (cy_mac toy_crypto) auth_signer 0 ''nonce_nonce_nonce'' ''request_request_1''
     auth_sign_request = Inr auth_signed"
  by code_simp

lemma auth_request_accepted:
  "authenticate toy_crypto auth_keyring (resolve_credential auth_db) 300 250 auth_request =
   Inr \<lparr>au_api_client_id = ''c1'', au_credential_id = ''u1'', au_key_id = ''zpk_AAAA'',
     au_request_id = ''request_request_1'', au_nonce = ''nonce_nonce_nonce'', au_timestamp = 200\<rparr>"
  by code_simp

text \<open>C18: a request is authenticated only when it carries each authentication header exactly
  once, names a stored active credential that has not expired, is fresh, and its signature is
  the MAC, under the secret the key ring recovers for exactly this credential, of the
  canonical text of its own method, path, query and body; the client is active and the
  identity handed on is the stored one.\<close>

theorem authenticated_request_is_signed:
  assumes "authenticate y k resolver tolerance now q = Inr c"
  shows "\<exists>h rc aad secret canonical.
    headers_show (hr_headers q) h \<and> resolver (ah_key_id h) = Some rc \<and> rc_key_id rc = ah_key_id h \<and>
    rc_credential_status rc = Cred_active \<and> rc_client_status rc = Client_active \<and>
    opt_all (\<lambda>t. now < t) (rc_expires_at rc) \<and>
    \<bar>now - int (digits_nat (ah_timestamp h))\<bar> \<le> tolerance \<and>
    create_canonical_request \<lparr>si_method = hr_method q, si_path = hr_path q, si_query = hr_query q,
      si_body_hash = cy_sha y (hr_body q), si_key_id = ah_key_id h, si_timestamp = ah_timestamp h,
      si_nonce = ah_nonce h, si_request_id = ah_request_id h\<rparr> = Inr canonical \<and>
    credential_aad (rc_credential_id rc) (rc_api_client_id rc) (rc_key_id rc) (rc_master_key_id rc) = Inr aad \<and>
    decrypt y k \<lparr>es_ciphertext = rc_ciphertext rc, es_nonce = rc_nonce rc, es_key_id = rc_master_key_id rc\<rparr> aad = Inr secret \<and>
    secret \<noteq> [] \<and> ah_signature h = cy_mac y secret canonical \<and>
    c = \<lparr>au_api_client_id = rc_api_client_id rc, au_credential_id = rc_credential_id rc, au_key_id = rc_key_id rc,
      au_request_id = ah_request_id h, au_nonce = ah_nonce h, au_timestamp = int (digits_nat (ah_timestamp h))\<rparr>"
proof -
  obtain h rc where h: "parse_external_auth_headers (hr_headers q) = Inr h" "resolver (ah_key_id h) = Some rc"
    "rc_key_id rc = ah_key_id h" "rc_credential_status rc = Cred_active" "opt_all (\<lambda>t. now < t) (rc_expires_at rc)"
    "\<bar>now - int (digits_nat (ah_timestamp h))\<bar> \<le> tolerance" "rc_client_status rc = Client_active"
    and sig: "check_signature y k rc h q = Inr True"
    and c: "c = \<lparr>au_api_client_id = rc_api_client_id rc, au_credential_id = rc_credential_id rc, au_key_id = rc_key_id rc,
      au_request_id = ah_request_id h, au_nonce = ah_nonce h, au_timestamp = int (digits_nat (ah_timestamp h))\<rparr>"
    using assms by (rule authenticate_Inr)
  obtain canonical aad secret where s:
    "create_canonical_request \<lparr>si_method = hr_method q, si_path = hr_path q, si_query = hr_query q,
      si_body_hash = cy_sha y (hr_body q), si_key_id = ah_key_id h, si_timestamp = ah_timestamp h,
      si_nonce = ah_nonce h, si_request_id = ah_request_id h\<rparr> = Inr canonical"
    "credential_aad (rc_credential_id rc) (rc_api_client_id rc) (rc_key_id rc) (rc_master_key_id rc) = Inr aad"
    "decrypt y k \<lparr>es_ciphertext = rc_ciphertext rc, es_nonce = rc_nonce rc, es_key_id = rc_master_key_id rc\<rparr> aad = Inr secret"
    "secret \<noteq> []" "ah_signature h = cy_mac y secret canonical"
    using sig by (rule check_signature_True)
  have "headers_show (hr_headers q) h" using parse_headers_show [OF h(1)] by blast
  then show ?thesis
    by (intro exI [of _ h] exI [of _ rc] exI [of _ aad] exI [of _ secret] exI [of _ canonical] conjI h s c)
qed


lemma authenticated_request_is_signed_witness:
  "\<exists>h rc aad secret canonical. headers_show (hr_headers auth_request) h \<and>
    resolve_credential auth_db (ah_key_id h) = Some rc \<and>
    decrypt toy_crypto auth_keyring \<lparr>es_ciphertext = rc_ciphertext rc, es_nonce = rc_nonce rc,
      es_key_id = rc_master_key_id rc\<rparr> aad = Inr secret \<and>
    ah_signature h = cy_mac toy_crypto secret canonical"
  using authenticated_request_is_signed [OF auth_request_accepted] by (elim exE conjE, intro exI conjI) assumption+

subsection \<open>A request signed by the SDK is accepted\<close>

lemma token_plain: "is_token_char c \<Longrightarrow> \<not> is_py_space c \<and> (of_char c :: nat) < 128"
  by (auto simp: char_class_defs is_py_space_def)

lemma digit_token: "is_digit c \<Longrightarrow> is_token_char c" and lower_hex_token: "is_lower_hex c \<Longrightarrow> is_token_char c"
  by (auto simp: char_class_defs)

lemma tokens_utf8: "list_all is_token_char s \<Longrightarrow> utf8_valid s"
  by (induction s) (auto simp: in_byte_def dest: token_plain)

text \<open>A value made of token characters passes the checks on the value of a header.\<close>

definition token_value :: "str \<Rightarrow> bool" where
  "token_value v \<longleftrightarrow> v \<noteq> [] \<and> length v \<le> 256 \<and> list_all is_token_char v"

lemma read_header_token:
  assumes "map_of REQUIRED_AUTH_HEADERS n = Some g" "map lower_char n = n" "length n \<le> 64" "token_value v"
    "g \<notin> set (map fst seen)"
  shows "read_header seen (n, v) = Inr (seen @ [(g, v)])"
proof -
  have c: "\<not> is_py_space c \<and> (of_char c :: nat) < 128" if "c \<in> set v" for c
    using assms(4) that by (intro token_plain) (auto simp: token_value_def list_all_iff)
  have v: "v \<noteq> []" "length v \<le> 256" using assms(4) by (auto simp: token_value_def)
  have "\<not> list_ex (\<lambda>c. 128 \<le> (of_char c :: nat)) v" using c by (fastforce simp: list_ex_iff)
  moreover have "\<not> is_py_space (hd v)" "\<not> is_py_space (last v)" using c v(1) by auto
  ultimately show ?thesis using assms v by (simp add: read_header_def)
qed

lemma full_class_token_value:
  "full_class P lo hi s \<Longrightarrow> 0 < lo \<Longrightarrow> hi \<le> 256 \<Longrightarrow> (\<And>c. P c \<Longrightarrow> is_token_char c) \<Longrightarrow> token_value s"
  by (auto simp: full_class_def token_value_def list_all_iff)

lemma field_token_values:
  "nonce_ok s \<Longrightarrow> token_value s" "request_id_ok s \<Longrightarrow> token_value s" "hash_ok s \<Longrightarrow> token_value s"
  "timestamp_ok s \<Longrightarrow> token_value s" "key_id_ok s \<Longrightarrow> token_value s" "token_value SIGNATURE_VERSION"
proof -
  show "nonce_ok s \<Longrightarrow> token_value s" "request_id_ok s \<Longrightarrow> token_value s" "hash_ok s \<Longrightarrow> token_value s"
    by (simp_all add: nonce_ok_def request_id_ok_def hash_ok_def full_class_token_value lower_hex_token)
  show "token_value SIGNATURE_VERSION" by code_simp
  show "token_value s" if "timestamp_ok s"
  proof (cases "s = ''0''")
    case True
    show ?thesis unfolding True by code_simp
  next
    case False
    with that have "full_class is_digit 1 20 s" by (simp add: timestamp_ok_def)
    then show ?thesis by (rule full_class_token_value) (simp_all add: digit_token)
  qed
  show "token_value s" if "key_id_ok s"
  proof -
    have t: "take 4 s = ''zpk_''" "token_value (drop 4 s)" "length (drop 4 s) \<le> 76"
      using that by (auto simp: key_id_ok_def full_class_token_value) (simp add: full_class_def)
    have "list_all is_token_char ''zpk_''" by code_simp
    then have "list_all is_token_char (take 4 s @ drop 4 s)"
      using t by (simp only: list_all_append token_value_def)
    then have "list_all is_token_char s" by (simp only: append_take_drop_id)
    then show ?thesis using t by (auto simp: token_value_def)
  qed
qed

lemma parse_as_headers:
  assumes "key_id_ok (sh_key_id h)" "timestamp_ok (sh_timestamp h)" "nonce_ok (sh_nonce h)"
    "request_id_ok (sh_request_id h)" "hash_ok (sh_signature h)"
  shows "parse_external_auth_headers (as_headers h) = Inr \<lparr>ah_key_id = sh_key_id h, ah_timestamp = sh_timestamp h,
    ah_nonce = sh_nonce h, ah_request_id = sh_request_id h, ah_signature_version = SIGNATURE_VERSION,
    ah_signature = sh_signature h\<rparr>"
proof -
  have names: "map_of REQUIRED_AUTH_HEADERS ''x-zangpu-key'' = Some ''key_id''"
    "map_of REQUIRED_AUTH_HEADERS ''x-zangpu-timestamp'' = Some ''timestamp''"
    "map_of REQUIRED_AUTH_HEADERS ''x-zangpu-nonce'' = Some ''nonce''"
    "map_of REQUIRED_AUTH_HEADERS ''x-zangpu-request-id'' = Some ''request_id''"
    "map_of REQUIRED_AUTH_HEADERS ''x-zangpu-signature-version'' = Some ''signature_version''"
    "map_of REQUIRED_AUTH_HEADERS ''x-zangpu-signature'' = Some ''signature''"
    by (simp_all add: REQUIRED_AUTH_HEADERS_def)
  have lower: "map lower_char ''x-zangpu-key'' = ''x-zangpu-key''"
    "map lower_char ''x-zangpu-timestamp'' = ''x-zangpu-timestamp''"
    "map lower_char ''x-zangpu-nonce'' = ''x-zangpu-nonce''"
    "map lower_char ''x-zangpu-request-id'' = ''x-zangpu-request-id''"
    "map lower_char ''x-zangpu-signature-version'' = ''x-zangpu-signature-version''"
    "map lower_char ''x-zangpu-signature'' = ''x-zangpu-signature''"
    by code_simp+
  note toks = field_token_values(5) [OF assms(1)] field_token_values(4) [OF assms(2)]
    field_token_values(1) [OF assms(3)] field_token_values(2) [OF assms(4)] field_token_values(6)
    field_token_values(3) [OF assms(5)]
  have seen: "read_headers [] (as_headers h) = Inr [(''key_id'', sh_key_id h), (''timestamp'', sh_timestamp h),
      (''nonce'', sh_nonce h), (''request_id'', sh_request_id h), (''signature_version'', SIGNATURE_VERSION),
      (''signature'', sh_signature h)]" (is "_ = Inr ?seen")
    by (simp add: as_headers_def read_header_token [OF names(1) lower(1) _ toks(1)]
      read_header_token [OF names(2) lower(2) _ toks(2)] read_header_token [OF names(3) lower(3) _ toks(3)]
      read_header_token [OF names(4) lower(4) _ toks(4)] read_header_token [OF names(5) lower(5) _ toks(5)]
      read_header_token [OF names(6) lower(6) _ toks(6)])
  have "set (map fst ?seen) = set (map snd REQUIRED_AUTH_HEADERS)" by (simp add: REQUIRED_AUTH_HEADERS_def)
  moreover have "length (as_headers h) \<le> 64" by (simp add: as_headers_def)
  ultimately show ?thesis
    by (simp add: parse_external_auth_headers_def seen Let_def field_of_def validate_signing_fields_def assms)
qed


lemma char_of_digit: "n < 10 \<Longrightarrow> (of_char (char_of (48 + n) :: char) :: nat) = 48 + n"
  by (rule of_char_of_small) simp

lemma digits_nat_snoc: "digits_nat (s @ [c]) = 10 * digits_nat s + (of_char c - 48)"
  by (simp add: digits_nat_def)

text \<open>The decimal text of a number reads back as the number.\<close>

lemma digits_nat_digits: "digits_nat (nat_digits n) = n"
proof (induction n rule: nat_digits.induct)
  case (1 n)
  show ?case
  proof (cases "n < 10")
    case True
    then have d: "(of_char (char_of (48 + n) :: char) :: nat) = 48 + n" by (rule char_of_digit)
    have "nat_digits n = [char_of (48 + n)]" using True by (subst nat_digits.simps) simp
    then show ?thesis by (simp add: digits_nat_def d del: of_char_of)
  next
    case False
    have d: "(of_char (char_of (48 + n mod 10) :: char) :: nat) = 48 + n mod 10" by (rule char_of_digit) simp
    have "nat_digits n = nat_digits (n div 10) @ [char_of (48 + n mod 10)]"
      using False by (subst nat_digits.simps) simp
    then show ?thesis using 1 [OF False] by (simp add: digits_nat_snoc d del: of_char_of)
  qed
qed

text \<open>A secret encrypted under an associated text is recovered under the same text.\<close>

lemma decrypt_encrypt:
  assumes "crypto_laws y" "encrypt y k n p aad = Inr e" "length n = 12"
  shows "decrypt y k e aad = Inr p \<and> es_key_id e = kr_active k"
  using assms by (auto simp: encrypt_def decrypt_def crypto_laws_def split: if_splits option.splits)

lemma created_credential:
  assumes "create_protected_credential y k f client by_admin cid kid created expires = Inr r"
  obtains aad e where
    "credential_aad (cr_id (cn_credential r)) client (cr_key_id (cn_credential r)) (kr_active k) = Inr aad"
    "encrypt y k (fr_nonce f) (''zps_'' @ fr_secret_token f) aad = Inr e"
    "cr_ciphertext (cn_credential r) = es_ciphertext e" "cr_nonce (cn_credential r) = es_nonce e"
    "cr_master_key_id (cn_credential r) = es_key_id e" "cr_client (cn_credential r) = client"
    "cr_status (cn_credential r) = Cred_active" "cr_expires_at (cn_credential r) = expires"
    "cr_fingerprint (cn_credential r) = cy_sha y (''zps_'' @ fr_secret_token f)"
    "cn_secret r = Some (''zps_'' @ fr_secret_token f)"
  using assms unfolding create_protected_credential_def Let_def bind_res_Inr by auto

text \<open>What the signer of the SDK hands out.\<close>

lemma sdk_sign_Inr:
  assumes "sdk_sign sha mac s clock new_nonce new_request_id q = Inr sh"
  obtains t canonical where "t = (case sr_timestamp q of None \<Rightarrow> clock | Some t \<Rightarrow> t)" "0 \<le> t"
    "sh_timestamp sh = nat_digits (nat t)" "sh_key_id sh = sg_key_id s" "sh_signature sh = mac (sg_secret s) canonical"
    "create_canonical_request \<lparr>si_method = sr_method q, si_path = sr_path q, si_query = sr_query q,
      si_body_hash = sha (sr_body q), si_key_id = sh_key_id sh, si_timestamp = sh_timestamp sh,
      si_nonce = sh_nonce sh, si_request_id = sh_request_id sh\<rparr> = Inr canonical"
  using assms
  by (auto simp: sdk_sign_def Let_def bind_res_Inr sdk_canonical_request_agrees if_Inl_Inr not_less split: if_splits)

lemma canonical_fields:
  assumes "create_canonical_request i = Inr canonical"
  shows "key_id_ok (si_key_id i) \<and> timestamp_ok (si_timestamp i) \<and> nonce_ok (si_nonce i) \<and> request_id_ok (si_request_id i)"
  using assms by (auto simp: create_canonical_request_def bind_res_Inr validate_signing_fields_def split: if_splits)


text \<open>What the SDK signs with a created credential is what the server checks.\<close>

lemma signed_request_accepted:
  assumes laws: "crypto_laws y"
    and created: "create_protected_credential y k f client by_admin cid kid created expires = Inr r"
    and secret: "take_secret r = (Inr secret, r')" "list_all is_token_char (fr_secret_token f)" "length (fr_nonce f) = 12"
    and signer: "make_signer (cr_key_id (cn_credential r)) secret = Inr s"
    and signed: "sdk_sign (cy_sha y) (cy_mac y) s clock new_nonce new_request_id q = Inr sh"
    and stored: "find_row cr_key_id (cr_key_id (cn_credential r)) (db_credentials d) = Some (cn_credential r)"
      "find_row ac_id client (db_clients d) = Some c" "ac_status c = Client_active"
    and fresh: "opt_all (\<lambda>t. now < t) expires"
      "\<bar>now - (case sr_timestamp q of None \<Rightarrow> clock | Some t \<Rightarrow> t)\<bar> \<le> tolerance"
  shows "authenticate y k (resolve_credential d) tolerance now
    \<lparr>hr_method = sr_method q, hr_path = sr_path q, hr_query = sr_query q, hr_body = sr_body q,
      hr_headers = as_headers sh\<rparr> =
    Inr \<lparr>au_api_client_id = client, au_credential_id = cr_id (cn_credential r),
      au_key_id = cr_key_id (cn_credential r), au_request_id = sh_request_id sh, au_nonce = sh_nonce sh,
      au_timestamp = (case sr_timestamp q of None \<Rightarrow> clock | Some t \<Rightarrow> t)\<rparr>"
proof -
  let ?c = "cn_credential r"
  obtain aad e where cred: "credential_aad (cr_id ?c) client (cr_key_id ?c) (kr_active k) = Inr aad"
    "encrypt y k (fr_nonce f) (''zps_'' @ fr_secret_token f) aad = Inr e"
    "cr_ciphertext ?c = es_ciphertext e" "cr_nonce ?c = es_nonce e"
    "cr_master_key_id ?c = es_key_id e" "cr_client ?c = client" "cr_status ?c = Cred_active" "cr_expires_at ?c = expires"
    "cn_secret r = Some (''zps_'' @ fr_secret_token f)"
    using created by (rule created_credential)
  have secret_text: "secret = ''zps_'' @ fr_secret_token f" using secret(1) cred(9) by (simp add: take_secret_def)
  have utf8: "utf8_valid secret"
  proof -
    have "list_all is_token_char ''zps_''" by code_simp
    then show ?thesis unfolding secret_text using secret(2) by (intro tokens_utf8) (simp only: list_all_append)
  qed
  have s: "sg_key_id s = cr_key_id ?c" "sg_secret s = secret" "secret \<noteq> []"
    using signer by (auto simp: make_signer_def split: if_splits)
  obtain t canonical where sig: "t = (case sr_timestamp q of None \<Rightarrow> clock | Some t \<Rightarrow> t)" "0 \<le> t"
    "sh_timestamp sh = nat_digits (nat t)" "sh_key_id sh = sg_key_id s" "sh_signature sh = cy_mac y (sg_secret s) canonical"
    "create_canonical_request \<lparr>si_method = sr_method q, si_path = sr_path q, si_query = sr_query q,
      si_body_hash = cy_sha y (sr_body q), si_key_id = sh_key_id sh, si_timestamp = sh_timestamp sh,
      si_nonce = sh_nonce sh, si_request_id = sh_request_id sh\<rparr> = Inr canonical"
    using signed by (rule sdk_sign_Inr)
  have hash: "hash_ok (sh_signature sh)" using laws by (simp add: sig(5) crypto_laws_def)
  note parts = canonical_fields [OF sig(6), simplified]
  have parse: "parse_external_auth_headers (as_headers sh) = Inr \<lparr>ah_key_id = cr_key_id ?c,
      ah_timestamp = sh_timestamp sh, ah_nonce = sh_nonce sh, ah_request_id = sh_request_id sh,
      ah_signature_version = SIGNATURE_VERSION, ah_signature = sh_signature sh\<rparr>" (is "_ = Inr ?h")
    using parse_as_headers [OF _ _ _ _ hash] parts by (simp add: sig(4) s(1))
  have time: "int (digits_nat (sh_timestamp sh)) = t" using sig(2) by (simp add: sig(3) digits_nat_digits)
  define rc where "rc = \<lparr>rc_credential_id = cr_id ?c, rc_api_client_id = client, rc_key_id = cr_key_id ?c,
      rc_ciphertext = es_ciphertext e, rc_nonce = es_nonce e, rc_master_key_id = es_key_id e,
      rc_credential_status = Cred_active, rc_expires_at = expires, rc_client_status = Client_active\<rparr>"
  have rc: "resolve_credential d (cr_key_id ?c) = Some rc"
    using stored by (simp add: resolve_credential_def rc_def cred)
  let ?q = "\<lparr>hr_method = sr_method q, hr_path = sr_path q, hr_query = sr_query q, hr_body = sr_body q,
      hr_headers = as_headers sh\<rparr>"
  note dec = decrypt_encrypt [OF laws cred(2) secret(3)]
  have dec': "decrypt y k \<lparr>es_ciphertext = es_ciphertext e, es_nonce = es_nonce e, es_key_id = es_key_id e\<rparr> aad = Inr secret"
  proof -
    have "\<lparr>es_ciphertext = es_ciphertext e, es_nonce = es_nonce e, es_key_id = es_key_id e\<rparr> = e" by simp
    then show ?thesis using conjunct1 [OF dec] unfolding secret_text by (simp only:)
  qed
  have aad: "credential_aad (cr_id ?c) client (cr_key_id ?c) (es_key_id e) = Inr aad" using cred(1) dec by simp
  have "check_signature y k rc ?h ?q = Inr True"
    using sig(4,6) aad dec' utf8 s hash
    by (simp add: check_signature_def rc_def verify_signature_def sign_canonical_request_def sig(5))
  then show ?thesis
    using fresh unfolding sig(1) [symmetric]
    by (simp add: authenticate_def parse rc time) (simp add: rc_def)
qed

text \<open>C19: a secret created for a credential and taken once signs, in the SDK, requests that
  the server accepts: with the credential and an active client stored, before the expiry and
  within the tolerance of the clock, authentication returns the identity of the credential.\<close>

theorem sdk_signed_request_accepted:
  assumes laws: "crypto_laws y"
    and created: "create_protected_credential y k f client by_admin cid kid created expires = Inr r"
    and secret: "take_secret r = (Inr secret, r')" "list_all is_token_char (fr_secret_token f)" "length (fr_nonce f) = 12"
    and signer: "make_signer (cr_key_id (cn_credential r)) secret = Inr s"
    and signed: "sdk_sign (cy_sha y) (cy_mac y) s clock new_nonce new_request_id q = Inr sh"
    and stored: "find_row cr_key_id (cr_key_id (cn_credential r)) (db_credentials d) = Some (cn_credential r)"
      "find_row ac_id client (db_clients d) = Some c" "ac_status c = Client_active"
    and fresh: "opt_all (\<lambda>t. now < t) expires"
      "\<bar>now - (case sr_timestamp q of None \<Rightarrow> clock | Some t \<Rightarrow> t)\<bar> \<le> tolerance"
  shows "authenticate y k (resolve_credential d) tolerance now
    \<lparr>hr_method = sr_method q, hr_path = sr_path q, hr_query = sr_query q, hr_body = sr_body q,
      hr_headers = as_headers sh\<rparr> =
    Inr \<lparr>au_api_client_id = client, au_credential_id = cr_id (cn_credential r),
      au_key_id = cr_key_id (cn_credential r), au_request_id = sh_request_id sh, au_nonce = sh_nonce sh,
      au_timestamp = (case sr_timestamp q of None \<Rightarrow> clock | Some t \<Rightarrow> t)\<rparr>"
  using assms by (rule signed_request_accepted)

lemma sdk_signed_request_accepted_witness:
  "authenticate toy_crypto auth_keyring (resolve_credential auth_db) 300 250
    \<lparr>hr_method = sr_method auth_sign_request, hr_path = sr_path auth_sign_request,
      hr_query = sr_query auth_sign_request, hr_body = sr_body auth_sign_request,
      hr_headers = as_headers auth_signed\<rparr> =
    Inr \<lparr>au_api_client_id = ''c1'', au_credential_id = cr_id (cn_credential auth_creation),
      au_key_id = cr_key_id (cn_credential auth_creation), au_request_id = sh_request_id auth_signed,
      au_nonce = sh_nonce auth_signed,
      au_timestamp = (case sr_timestamp auth_sign_request of None \<Rightarrow> 0 | Some t \<Rightarrow> t)\<rparr>"
proof (rule sdk_signed_request_accepted [OF toy_crypto_laws auth_created _ _ _ _ auth_signed_ok])
  show "take_secret auth_creation = (Inr ''zps_S_1'', auth_creation\<lparr>cn_secret := None\<rparr>)" by code_simp
  show "list_all is_token_char (fr_secret_token auth_fresh)" by code_simp
  show "length (fr_nonce auth_fresh) = 12" by code_simp
  show "make_signer (cr_key_id (cn_credential auth_creation)) ''zps_S_1'' = Inr auth_signer" by code_simp
  show "find_row cr_key_id (cr_key_id (cn_credential auth_creation)) (db_credentials auth_db) = Some (cn_credential auth_creation)"
    by (simp add: auth_db_def find_row_def)
  show "find_row ac_id ''c1'' (db_clients auth_db) = Some sample_client"
    by (simp add: auth_db_def find_row_def sample_client_def)
  show "ac_status sample_client = Client_active" by (simp add: sample_client_def)
  show "opt_all (\<lambda>t. 250 < t) (Some (900 :: int))" by simp
  show "\<bar>250 - (case sr_timestamp auth_sign_request of None \<Rightarrow> 0 | Some t \<Rightarrow> t)\<bar> \<le> (300 :: int)"
    by (simp add: auth_sign_request_def)
qed


subsection \<open>A protected secret opens only under its own identifiers\<close>

text \<open>Authenticated encryption refuses another associated text.\<close>

definition aad_authenticated :: "crypto \<Rightarrow> bool" where
  "aad_authenticated y \<longleftrightarrow> (\<forall>k n p a a'. a \<noteq> a' \<longrightarrow> cy_open y k n (cy_seal y k n p a) a' = None)"

lemma credential_aad_Inr:
  "credential_aad a b c d = Inr t \<longleftrightarrow> t = join_on nl [a, b, c, d] \<and>
    (\<forall>v \<in> {a, b, c, d}. v \<noteq> [] \<and> nl \<notin> set v \<and> CHR 0x0D \<notin> set v)"
  by (auto simp: credential_aad_def Let_def list_ex_iff)

lemma binding_aad_credential: "binding_aad a b c d = Inr t \<longleftrightarrow> credential_aad a b c d = Inr t"
  by (auto simp: credential_aad_def binding_aad_def Let_def)

lemma credential_aad_inj:
  assumes "credential_aad a b c d = Inr t" "credential_aad a' b' c' d' = Inr t"
  shows "[a, b, c, d] = [a', b', c', d']"
proof (rule join_inj)
  show "join_on nl [a, b, c, d] = join_on nl [a', b', c', d']"
    using assms [unfolded credential_aad_Inr] by (simp only: simp_thms)
  show "nl \<notin> set s" if "s \<in> set [a, b, c, d]" for s
    using conjunct2 [OF assms(1) [unfolded credential_aad_Inr]] that by auto
  show "nl \<notin> set s" if "s \<in> set [a', b', c', d']" for s
    using conjunct2 [OF assms(2) [unfolded credential_aad_Inr]] that by auto
qed simp_all

text \<open>What is sealed under one text and opened under another is refused.\<close>

lemma decrypt_other_aad:
  assumes "crypto_laws y" "aad_authenticated y" "encrypt y k n p aad = Inr e" "aad' \<noteq> aad"
  shows "decrypt y k e aad' = Inl CredentialDecryptionError"
  using assms
proof -
  obtain key where k: "map_of (kr_keys k) (kr_active k) = Some key"
    "e = \<lparr>es_ciphertext = cy_b64encode y (cy_seal y key n p aad), es_nonce = cy_b64encode y n, es_key_id = kr_active k\<rparr>"
    using assms(3) by (auto simp: encrypt_def split: if_splits option.splits)
  have b: "cy_b64decode y (cy_b64encode y b) = Some b" for b using assms(1) by (simp add: crypto_laws_def)
  have "cy_open y key n (cy_seal y key n p aad) aad' = None"
    using assms(2) not_sym [OF assms(4)] unfolding aad_authenticated_def by blast
  then show ?thesis by (simp add: decrypt_def k b)
qed

lemma toy_crypto_aad: "aad_authenticated toy_crypto"
  by (simp add: aad_authenticated_def toy_crypto_def toy_open_other)

text \<open>The secret of a created credential is recovered from its own row, and from no row
  that carries the same sealed value under another identifier, another client or another key:
  a ciphertext copied to another row is refused.\<close>

theorem secret_bound_to_credential:
  assumes "crypto_laws y" "aad_authenticated y"
    "create_protected_credential y k f client by_admin cid kid created expires = Inr r"
    "take_secret r = (Inr secret, r')" "list_all is_token_char (fr_secret_token f)" "length (fr_nonce f) = 12"
    "cr_ciphertext c = cr_ciphertext (cn_credential r)" "cr_nonce c = cr_nonce (cn_credential r)"
    "cr_master_key_id c = cr_master_key_id (cn_credential r)" "cr_fingerprint c = cr_fingerprint (cn_credential r)"
  shows "decrypt_credential_secret y c k = Inr secret \<longleftrightarrow>
    cr_id c = cr_id (cn_credential r) \<and> cr_client c = client \<and> cr_key_id c = cr_key_id (cn_credential r)"
proof -
  let ?r = "cn_credential r"
  obtain aad e where cred: "credential_aad (cr_id ?r) client (cr_key_id ?r) (kr_active k) = Inr aad"
    "encrypt y k (fr_nonce f) (''zps_'' @ fr_secret_token f) aad = Inr e"
    "cr_ciphertext ?r = es_ciphertext e" "cr_nonce ?r = es_nonce e"
    "cr_master_key_id ?r = es_key_id e" "cr_client ?r = client"
    "cr_fingerprint ?r = cy_sha y (''zps_'' @ fr_secret_token f)"
    "cn_secret r = Some (''zps_'' @ fr_secret_token f)"
    using assms(3) by (rule created_credential)
  have secret: "secret = ''zps_'' @ fr_secret_token f" using assms(4) cred(8) by (simp add: take_secret_def)
  have utf8: "utf8_valid secret"
  proof -
    have "list_all is_token_char ''zps_''" by code_simp
    then show ?thesis unfolding secret using assms(5) by (intro tokens_utf8) (simp only: list_all_append)
  qed
  note dec = decrypt_encrypt [OF assms(1) cred(2) assms(6), folded secret]
  have e: "\<lparr>es_ciphertext = es_ciphertext e, es_nonce = es_nonce e, es_key_id = kr_active k\<rparr> = e" using dec by simp
  have row: "decrypt_credential_secret y c k = bind_res (credential_aad (cr_id c) (cr_client c) (cr_key_id c) (kr_active k))
      (\<lambda>aad'. bind_res (decrypt y k e aad') (\<lambda>p. if \<not> utf8_valid p then Inl CredentialDecryptionError
        else if cy_sha y p \<noteq> cr_fingerprint c then Inl CredentialDecryptionError else Inr p))"
    using assms(7-9) cred(3-5) dec by (simp add: decrypt_credential_secret_def e)
  show ?thesis
  proof
    assume ok: "decrypt_credential_secret y c k = Inr secret"
    then obtain aad' p where o: "credential_aad (cr_id c) (cr_client c) (cr_key_id c) (kr_active k) = Inr aad'"
      "decrypt y k e aad' = Inr p" unfolding row bind_res_Inr by blast
    have "aad' = aad"
    proof (rule ccontr)
      assume "aad' \<noteq> aad"
      from decrypt_other_aad [OF assms(1,2) cred(2) this] o(2) show False by simp
    qed
    with credential_aad_inj [OF o(1)] cred(1)
    show "cr_id c = cr_id ?r \<and> cr_client c = client \<and> cr_key_id c = cr_key_id ?r" by blast
  next
    assume "cr_id c = cr_id ?r \<and> cr_client c = client \<and> cr_key_id c = cr_key_id ?r"
    then show "decrypt_credential_secret y c k = Inr secret"
      using dec utf8 assms(10) cred(1,7) by (simp add: row secret)
  qed
qed

lemma secret_bound_to_credential_witness:
  "decrypt_credential_secret toy_crypto (cn_credential auth_creation\<lparr>cr_client := ''c2''\<rparr>) auth_keyring \<noteq> Inr ''zps_S_1'' \<and>
   decrypt_credential_secret toy_crypto (cn_credential auth_creation) auth_keyring = Inr ''zps_S_1''"
proof -
  have s: "take_secret auth_creation = (Inr ''zps_S_1'', auth_creation\<lparr>cn_secret := None\<rparr>)"
    "list_all is_token_char (fr_secret_token auth_fresh)" "length (fr_nonce auth_fresh) = 12"
    "cr_client (cn_credential auth_creation) = ''c1''"
    by code_simp+
  note t = secret_bound_to_credential [OF toy_crypto_laws toy_crypto_aad auth_created s(1-3)]
  show ?thesis
    using t [of "cn_credential auth_creation\<lparr>cr_client := ''c2''\<rparr>"] t [of "cn_credential auth_creation"] s(4) by simp
qed


subsection \<open>The upstream key of a binding\<close>

definition envelope_laws :: "(str \<Rightarrow> json option) \<Rightarrow> (str \<Rightarrow> str \<Rightarrow> str) \<Rightarrow> bool" where
  "envelope_laws loads dumps \<longleftrightarrow> (\<forall>c n. dumps c n \<noteq> [] \<and>
     loads (dumps c n) = Some (JObj [(''ciphertext'', JStr c), (''nonce'', JStr n)]))"

lemma envelope_read: "envelope_laws loads dumps \<Longrightarrow> read_envelope loads (dumps c n) = Some (JStr c, JStr n)"
  by (simp add: envelope_laws_def read_envelope_def)

lemma decrypt_envelope_text: "decrypt_envelope y k (JStr c) (JStr n) version aad = Inr w \<longleftrightarrow>
    decrypt y k \<lparr>es_ciphertext = c, es_nonce = n, es_key_id = version\<rparr> aad = Inr w"
  by (auto simp: decrypt_envelope_def decrypt_def split: option.splits)

text \<open>The one-time value of a new virtual key is readable again from the binding it was
  stored in, and from no binding with the same envelope under another binding, client or
  virtual key; the binding is active exactly when its service user is known and the key is.\<close>

theorem binding_value_roundtrip:
  assumes "crypto_laws y" "aad_authenticated y" "envelope_laws loads dumps"
    "persist_created_binding y dumps k fresh_nonce now r b = Inr b'" "vk_value r = Some v"
    "utf8_valid v" "length fresh_nonce = 12"
    "bd_value_ciphertext b2 = bd_value_ciphertext b'" "bd_value_key_version b2 = bd_value_key_version b'"
  shows "(decrypt_binding_value y loads k b2 = Inr v \<longleftrightarrow>
      bd_id b2 = bd_id b \<and> bd_client b2 = bd_client b \<and> bd_virtual_key_id b2 = Some (vk_id r)) \<and>
    bd_sync_status b' = (if filled (bd_service_user_id b) then if vk_active r then Sync_active else Sync_disabled
      else Sync_pending)"
proof -
  obtain aad e where p: "credential_aad (bd_id b) (bd_client b) (vk_id r) (kr_active k) = Inr aad"
    "encrypt y k fresh_nonce v aad = Inr e"
    using assms(4,5) by (auto simp: persist_created_binding_def bind_res_Inr binding_aad_credential)
  define b1 where "b1 = b\<lparr>bd_virtual_key_id := Some (vk_id r),
    bd_value_ciphertext := Some (dumps (es_ciphertext e) (es_nonce e)), bd_value_key_version := Some (es_key_id e)\<rparr>"
  have b': "b' = b1\<lparr>bd_sync_status := (if binding_remote_fields_complete b1
      then (if vk_active r then Sync_active else Sync_disabled) else Sync_pending),
      bd_last_error := None, bd_updated_at := now\<rparr>"
    using assms(4) unfolding persist_created_binding_def assms(5) option.case
    by (simp add: p [folded binding_aad_credential] b1_def Let_def)
  note dec = decrypt_encrypt [OF assms(1) p(2) assms(7)]
  have ids: "vk_id r \<noteq> []" "kr_active k \<noteq> []" using p(1) by (auto simp: credential_aad_Inr)
  have dumps: "dumps c n \<noteq> []" for c n using assms(3) by (simp add: envelope_laws_def)
  have "binding_remote_fields_complete b1 \<longleftrightarrow> filled (bd_service_user_id b)"
    using dec ids dumps by (simp add: binding_remote_fields_complete_def b1_def filled_def)
  then have status: "bd_sync_status b' = (if filled (bd_service_user_id b)
      then if vk_active r then Sync_active else Sync_disabled else Sync_pending)" by (simp add: b')
  have e: "\<lparr>es_ciphertext = es_ciphertext e, es_nonce = es_nonce e, es_key_id = kr_active k\<rparr> = e" using dec by simp
  have fields: "bd_value_ciphertext b2 = Some (dumps (es_ciphertext e) (es_nonce e))"
    "bd_value_key_version b2 = Some (kr_active k)" using assms(8,9) dec by (simp_all add: b' b1_def)
  have open_row: "decrypt_binding_value y loads k b2 = Inr w \<longleftrightarrow> (\<exists>aad'.
      credential_aad (bd_id b2) (bd_client b2) u (kr_active k) = Inr aad' \<and> decrypt y k e aad' = Inr w \<and> utf8_valid w)"
    if "bd_virtual_key_id b2 = Some u" "u \<noteq> []" for u w
    using that ids(2) dumps
    by (simp add: decrypt_binding_value_def fields envelope_read [OF assms(3)] e bind_res_Inr
      binding_aad_credential if_Inl_Inr decrypt_envelope_text)
  have "decrypt_binding_value y loads k b2 = Inr v \<longleftrightarrow>
      bd_id b2 = bd_id b \<and> bd_client b2 = bd_client b \<and> bd_virtual_key_id b2 = Some (vk_id r)"
  proof
    assume ok: "decrypt_binding_value y loads k b2 = Inr v"
    then obtain u where u: "bd_virtual_key_id b2 = Some u" "u \<noteq> []"
      by (auto simp: decrypt_binding_value_def split: option.splits if_splits)
    obtain aad' where o: "credential_aad (bd_id b2) (bd_client b2) u (kr_active k) = Inr aad'"
      "decrypt y k e aad' = Inr v" using ok unfolding open_row [OF u] by blast
    have "aad' = aad"
    proof (rule ccontr)
      assume "aad' \<noteq> aad"
      from decrypt_other_aad [OF assms(1,2) p(2) this] o(2) show False by simp
    qed
    with credential_aad_inj [OF o(1)] p(1) u(1)
    show "bd_id b2 = bd_id b \<and> bd_client b2 = bd_client b \<and> bd_virtual_key_id b2 = Some (vk_id r)" by blast
  next
    assume "bd_id b2 = bd_id b \<and> bd_client b2 = bd_client b \<and> bd_virtual_key_id b2 = Some (vk_id r)"
    then show "decrypt_binding_value y loads k b2 = Inr v"
      using open_row [OF _ ids(1)] dec assms(6) p(1) by simp
  qed
  with status show ?thesis by (rule conjI [rotated])
qed

definition toy_envelope :: "str \<Rightarrow> str \<Rightarrow> str" where
  "toy_envelope c n = rfc3986_encode c @ nl # rfc3986_encode n"

definition toy_loads :: "str \<Rightarrow> json option" where
  "toy_loads t = (let (c, n) = partition_on nl t in
     Some (JObj [(''ciphertext'', JStr (unquote_to_bytes c)), (''nonce'', JStr (unquote_to_bytes n))]))"

lemma toy_envelope_laws: "envelope_laws toy_loads toy_envelope"
  by (simp add: envelope_laws_def toy_loads_def toy_envelope_def partition_on_first [OF encode_no_nl] unquote_encode)

definition auth_binding :: binding where
  "auth_binding = \<lparr>bd_id = ''b1'', bd_client = ''c1'',
     bd_service_user_id = Some ''12345678-1234-5678-1234-567812345678'', bd_virtual_key_id = Some ''vk1'',
     bd_value_ciphertext = Some (toy_envelope (toy_tag ''K1'' (join_on nl [''b1'', ''c1'', ''vk1'', ''v1'']) @ ''sk-1'') ''abcdefghijkl''),
     bd_value_key_version = Some ''v1'', bd_config_hash = ''h'', bd_sync_status = Sync_active, bd_last_error = None,
     bd_version = 1, bd_created_at = 100, bd_updated_at = 120\<rparr>"

definition auth_virtual_key :: virtual_key_result where
  "auth_virtual_key = \<lparr>vk_id = ''vk1'', vk_active = True, vk_value = Some ''sk-1''\<rparr>"

lemma auth_binding_persisted:
  "persist_created_binding toy_crypto toy_envelope auth_keyring ''abcdefghijkl'' 120 auth_virtual_key
    (auth_binding\<lparr>bd_sync_status := Sync_pending, bd_virtual_key_id := None, bd_value_ciphertext := None,
      bd_value_key_version := None\<rparr>) = Inr auth_binding"
  by code_simp

lemma binding_value_roundtrip_witness:
  "decrypt_binding_value toy_crypto toy_loads auth_keyring auth_binding = Inr ''sk-1'' \<and>
   decrypt_binding_value toy_crypto toy_loads auth_keyring (auth_binding\<lparr>bd_client := ''c2''\<rparr>) \<noteq> Inr ''sk-1''"
proof -
  have v: "vk_value auth_virtual_key = Some ''sk-1''" "utf8_valid ''sk-1''" "length ''abcdefghijkl'' = 12"
    by code_simp+
  have f: "bd_client auth_binding = ''c1''" "bd_virtual_key_id auth_binding = Some (vk_id auth_virtual_key)"
    by (simp_all add: auth_binding_def auth_virtual_key_def)
  note t = binding_value_roundtrip [OF toy_crypto_laws toy_crypto_aad toy_envelope_laws auth_binding_persisted v]
  show ?thesis using t [of auth_binding] t [of "auth_binding\<lparr>bd_client := ''c2''\<rparr>"] f by simp
qed

subsection \<open>Caller policies\<close>

lemma check_caller_state_ok:
  "check_caller_state now client c = Inr u \<longleftrightarrow>
    ac_status client = Client_active \<and> cr_status c = Cred_active \<and> opt_all (\<lambda>t. now < t) (cr_expires_at c)"
  by (auto simp: check_caller_state_def)

lemma caller_rows_Some:
  "caller_rows d caller = Some (client, c) \<longleftrightarrow>
    find_row ac_id (au_api_client_id caller) (db_clients d) = Some client \<and>
    find_row cr_id (au_credential_id caller) (db_credentials d) = Some c \<and>
    cr_client c = ac_id client \<and> cr_key_id c = au_key_id caller"
  by (auto simp: caller_rows_def split: option.splits)

text \<open>A policy is loaded only for an active client with its own active, unexpired
  credential and a synchronised binding whose protected key opens under that binding, and it
  carries the limits of the client as they are stored.\<close>

theorem loaded_policy_sound:
  assumes "load_caller_policy y loads k d caller now = Inr p"
  shows "\<exists>client c b user. caller_rows d caller = Some (client, c) \<and> cr_client c = ac_id client \<and>
    find_row bd_client (au_api_client_id caller) (db_bindings d) = Some b \<and> bd_client b = ac_id client \<and>
    ac_status client = Client_active \<and> cr_status c = Cred_active \<and> opt_all (\<lambda>t. now < t) (cr_expires_at c) \<and>
    bd_sync_status b = Sync_active \<and> bd_service_user_id b = Some user \<and> uuid_ok user \<and>
    decrypt_binding_value y loads k b = Inr (cp_virtual_key p) \<and>
    p = \<lparr>cp_api_client_id = ac_id client, cp_credential_id = cr_id c,
      cp_allowed_endpoints = ac_allowed_endpoints client, cp_allowed_models = ac_allowed_models client,
      cp_qps_limit = ac_qps_limit client, cp_concurrency_limit = ac_concurrency_limit client,
      cp_daily_request_limit = ac_daily_request_limit client, cp_daily_token_limit = ac_daily_token_limit client,
      cp_total_request_limit = ac_total_request_limit client, cp_total_token_limit = ac_total_token_limit client,
      cp_max_output_tokens = ac_max_output_tokens client, cp_service_user_id = user, cp_virtual_key = cp_virtual_key p\<rparr>"
proof -
  obtain client c b where rows: "caller_rows d caller = Some (client, c)"
    "find_row bd_client (au_api_client_id caller) (db_bindings d) = Some b"
    using assms by (auto simp: load_caller_policy_def split: option.splits prod.splits)
  have state: "check_caller_state now client c = Inr ()"
    using assms by (auto simp: load_caller_policy_def rows bind_res_Inr)
  obtain user where user: "bd_service_user_id b = Some user"
    using assms by (auto simp: load_caller_policy_def rows state Let_def split: option.splits)
  have b: "bd_sync_status b = Sync_active" "uuid_ok user"
    using assms by (auto simp: load_caller_policy_def rows state Let_def user split: if_splits)
  obtain v where v: "decrypt_binding_value y loads k b = Inr v"
    using assms by (auto simp: load_caller_policy_def rows state Let_def user split: if_splits sum.splits)
  have own: "bd_client b = ac_id client"
    using find_row_Some [OF rows(2)] find_row_Some [OF conjunct1 [OF rows(1) [unfolded caller_rows_Some]]] by simp
  have p: "p = \<lparr>cp_api_client_id = ac_id client, cp_credential_id = cr_id c,
      cp_allowed_endpoints = ac_allowed_endpoints client, cp_allowed_models = ac_allowed_models client,
      cp_qps_limit = ac_qps_limit client, cp_concurrency_limit = ac_concurrency_limit client,
      cp_daily_request_limit = ac_daily_request_limit client, cp_daily_token_limit = ac_daily_token_limit client,
      cp_total_request_limit = ac_total_request_limit client, cp_total_token_limit = ac_total_token_limit client,
      cp_max_output_tokens = ac_max_output_tokens client, cp_service_user_id = user, cp_virtual_key = v\<rparr>"
    using assms b by (auto simp: load_caller_policy_def rows state Let_def user v split: if_splits)
  have "cr_client c = ac_id client" using rows(1) by (simp add: caller_rows_Some)
  then show ?thesis
    using rows own state [unfolded check_caller_state_ok] b user v p
    by (intro exI [of _ client] exI [of _ c] exI [of _ b] exI [of _ user] conjI) simp_all
qed


definition policy_db :: db where
  "policy_db = auth_db\<lparr>db_bindings := [auth_binding]\<rparr>"

definition policy_caller :: authenticated_caller where
  "policy_caller = \<lparr>au_api_client_id = ''c1'', au_credential_id = ''u1'', au_key_id = ''zpk_AAAA'',
     au_request_id = ''request_request_1'', au_nonce = ''nonce_nonce_nonce'', au_timestamp = 200\<rparr>"

lemma policy_loads: "is_ok (load_caller_policy toy_crypto toy_loads auth_keyring policy_db policy_caller 250)"
  by code_simp

lemma loaded_policy_sound_witness:
  "\<exists>p client c b. load_caller_policy toy_crypto toy_loads auth_keyring policy_db policy_caller 250 = Inr p \<and>
    caller_rows policy_db policy_caller = Some (client, c) \<and> bd_client b = ac_id client \<and>
    decrypt_binding_value toy_crypto toy_loads auth_keyring b = Inr (cp_virtual_key p)"
proof -
  obtain p where p: "load_caller_policy toy_crypto toy_loads auth_keyring policy_db policy_caller 250 = Inr p"
    using policy_loads by (auto simp: is_ok_def split: sum.splits)
  from loaded_policy_sound [OF p] show ?thesis
    by (elim exE conjE, intro exI conjI) (rule p | assumption)+
qed

end
