(* ===== verification/Api.thy ===== *)
theory Api
  imports Complex_Main Schema Canonical Streaming
begin

text \<open>
  The external interface: the error table and error responses of \<open>backend/app/api/errors.py\<close>,
  and the chat request with its validation of \<open>backend/app/api/external_models.py\<close>.

  What the validation library does to a JSON value (coercion of numbers, UUIDs, trimming) is
  one record of parameters, \<open>validation\<close>; every bound, pattern, literal and rule the models
  state is part of the definitions here.
\<close>

subsection \<open>Headers as dictionaries\<close>

fun header_put :: "str \<Rightarrow> str \<Rightarrow> headers \<Rightarrow> headers" where
  "header_put k v [] = [(k, v)]"
| "header_put k v (h # hs) = (if fst h = k then (k, v) # hs else h # header_put k v hs)"

definition headers_update :: "headers \<Rightarrow> headers \<Rightarrow> headers" where
  "headers_update hs new = foldl (\<lambda>hs (k, v). header_put k v hs) hs new"

lemma map_of_header_put [simp]: "map_of (header_put k v hs) = (map_of hs)(k \<mapsto> v)"
  by (induction hs) (auto simp: fun_upd_twist)

definition show_int :: "int \<Rightarrow> str" where
  "show_int n = (if n < 0 then CHR ''-'' # nat_digits (nat (- n)) else nat_digits (nat n))"

subsection \<open>The error table\<close>

record error_spec =
  sp_status :: int
  sp_message :: str
  sp_retryable :: bool

abbreviation spec :: "str \<Rightarrow> int \<Rightarrow> str \<Rightarrow> bool \<Rightarrow> str \<times> error_spec" where
  "spec code status message retryable \<equiv>
    (code, \<lparr>sp_status = status, sp_message = message, sp_retryable = retryable\<rparr>)"

definition ERROR_SPECS :: "(str \<times> error_spec) list" where
  "ERROR_SPECS = [
    spec ''INVALID_REQUEST'' 400 ''Invalid request.'' False,
    spec ''UNSUPPORTED_FEATURE'' 400 ''Unsupported feature.'' False,
    spec ''AUTH_FAILED'' 401 ''Authentication failed.'' False,
    spec ''CREDIT_BALANCE_EXHAUSTED'' 402 ''Credit balance is exhausted.'' False,
    spec ''CLIENT_DISABLED'' 403 ''Client is disabled.'' False,
    spec ''ENDPOINT_FORBIDDEN'' 403 ''Endpoint is not allowed.'' False,
    spec ''MODEL_FORBIDDEN'' 403 ''Model is not allowed.'' False,
    spec ''CREDIT_ACCOUNT_FROZEN'' 403 ''Credit account is frozen.'' False,
    spec ''MODEL_NOT_FOUND'' 404 ''Model was not found.'' False,
    spec ''REQUEST_IN_PROGRESS'' 409 ''Request is already in progress.'' True,
    spec ''REQUEST_ALREADY_COMPLETED'' 409 ''Request was already completed.'' False,
    spec ''REQUEST_ID_CONFLICT'' 409 ''Request ID conflicts with another request.'' False,
    spec ''PAYLOAD_TOO_LARGE'' 413 ''Request payload is too large.'' False,
    spec ''CLIENT_DISCONNECTED'' 499 ''Client disconnected.'' False,
    spec ''QPS_LIMITED'' 429 ''Request rate limit exceeded.'' True,
    spec ''CONCURRENCY_LIMITED'' 429 ''Concurrency limit exceeded.'' True,
    spec ''MODEL_CAPACITY_LIMITED'' 429 ''Model capacity is temporarily full.'' True,
    spec ''DAILY_REQUEST_QUOTA_EXCEEDED'' 429 ''Daily request quota exceeded.'' False,
    spec ''DAILY_TOKEN_QUOTA_EXCEEDED'' 429 ''Daily Token quota exceeded.'' False,
    spec ''TOTAL_REQUEST_QUOTA_EXCEEDED'' 429 ''Lifetime request quota exceeded.'' False,
    spec ''TOTAL_TOKEN_QUOTA_EXCEEDED'' 429 ''Lifetime Token quota exceeded.'' False,
    spec ''CONTROL_PLANE_UNAVAILABLE'' 503 ''Control plane is temporarily unavailable.'' True,
    spec ''MODEL_UNAVAILABLE'' 503 ''Model is temporarily unavailable.'' True,
    spec ''MODEL_TIMEOUT'' 504 ''Model request timed out.'' True,
    spec ''INTERNAL_ERROR'' 500 ''Internal server error.'' False]"

definition error_codes :: "str list" where
  "error_codes = map fst ERROR_SPECS"

definition spec_of :: "str \<Rightarrow> error_spec option" where
  "spec_of code = map_of ERROR_SPECS code"

text \<open>The constructor of the exception refuses an unknown code.\<close>

definition api_error :: "str \<Rightarrow> str option \<Rightarrow> headers \<Rightarrow> exn" where
  "api_error code operation_id hs =
    (if spec_of code = None then ValueError ''unknown external API error code''
     else ExternalApiError code operation_id hs)"

record response =
  rp_status :: int
  rp_body :: json
  rp_headers :: headers

definition external_error_response :: "str \<Rightarrow> str \<Rightarrow> str option \<Rightarrow> headers \<Rightarrow> response res" where
  "external_error_response code server_request_id operation_id hs =
    (case spec_of code of
       None \<Rightarrow> Inl (ValueError ''unknown external API error code'')
     | Some s \<Rightarrow>
         let error = [(''code'', JStr code), (''message'', JStr (sp_message s)),
               (''request_id'', JStr server_request_id), (''retryable'', JBool (sp_retryable s))] @
               (case operation_id of None \<Rightarrow> [] | Some k \<Rightarrow> [(''operation_id'', JStr k)])
         in Inr \<lparr>rp_status = sp_status s, rp_body = JObj [(''error'', JObj error)],
              rp_headers = headers_update [(''Cache-Control'', ''no-store''), (''X-Zangpu-Request-Id'', server_request_id)] hs\<rparr>)"

definition to_response :: "exn \<Rightarrow> str \<Rightarrow> response res" where
  "to_response e server_request_id = (case e of
     ExternalApiError code operation_id hs \<Rightarrow> external_error_response code server_request_id operation_id hs
   | ControlPlaneUnavailable \<Rightarrow> external_error_response ''CONTROL_PLANE_UNAVAILABLE'' server_request_id None []
   | ExternalAuthFailure _ \<Rightarrow> external_error_response ''AUTH_FAILED'' server_request_id None []
   | ExternalClientDisabled \<Rightarrow> external_error_response ''CLIENT_DISABLED'' server_request_id None []
   | _ \<Rightarrow> Inl e)"

subsection \<open>The validation library\<close>

record validation =
  vd_int :: "json \<Rightarrow> int option"
  vd_float :: "json \<Rightarrow> (rat \<times> pyfloat) option"
  vd_bool :: "json \<Rightarrow> bool option"
  vd_uuid :: "json \<Rightarrow> str option"
  vd_trim :: "str \<Rightarrow> str"

definition is_plain_char :: "char \<Rightarrow> bool" where
  "is_plain_char c \<longleftrightarrow> \<not> is_control c"

text \<open>Text that is trimmed, bounded and free of control characters.\<close>

definition bounded_text :: "validation \<Rightarrow> nat \<Rightarrow> json \<Rightarrow> str option" where
  "bounded_text vd hi v = (case v of
     JStr s \<Rightarrow> (let t = vd_trim vd s in
       if 1 \<le> py_len t \<and> py_len t \<le> hi \<and> list_all is_plain_char t then Some t else None)
   | _ \<Rightarrow> None)"

definition forbid_extra :: "str list \<Rightarrow> (str \<times> json) list \<Rightarrow> bool" where
  "forbid_extra names pairs \<longleftrightarrow> set (map fst pairs) \<subseteq> set names"

subsection \<open>Chat requests\<close>

record chat_request =
  cq_model :: str
  cq_messages :: "(str \<times> str) list"
  cq_stream :: bool
  cq_temperature :: "pyfloat option"
  cq_top_p :: "pyfloat option"
  cq_max_tokens :: "int option"
  cq_max_completion_tokens :: "int option"
  cq_stop :: "(str + str list) option"

definition validate_message :: "json \<Rightarrow> (str \<times> str) option" where
  "validate_message v = (case v of
     JObj pairs \<Rightarrow>
       (case (field ''role'' pairs, field ''content'' pairs) of
          (Some (JStr role), Some (JStr content)) \<Rightarrow>
            if forbid_extra [''role'', ''content''] pairs \<and> role \<in> {''system'', ''user'', ''assistant''} \<and>
               1 \<le> py_len content \<and> py_len content \<le> 65536
              then Some (role, content) else None
        | _ \<Rightarrow> None)
   | _ \<Rightarrow> None)"

fun map_opt :: "('a \<Rightarrow> 'b option) \<Rightarrow> 'a list \<Rightarrow> 'b list option" where
  "map_opt f [] = Some []"
| "map_opt f (x # xs) = (case (f x, map_opt f xs) of (Some y, Some ys) \<Rightarrow> Some (y # ys) | _ \<Rightarrow> None)"

definition validate_messages :: "json option \<Rightarrow> (str \<times> str) list option" where
  "validate_messages v = (case v of
     Some (JList xs) \<Rightarrow> if 1 \<le> length xs \<and> length xs \<le> 100 then map_opt validate_message xs else None
   | _ \<Rightarrow> None)"

definition validate_sampling :: "validation \<Rightarrow> (rat \<Rightarrow> bool) \<Rightarrow> json option \<Rightarrow> pyfloat option option" where
  "validate_sampling vd ok v = (case v of
     None \<Rightarrow> Some None | Some JNull \<Rightarrow> Some None | Some (JBool _) \<Rightarrow> None
   | Some j \<Rightarrow> (case vd_float vd j of Some (x, f) \<Rightarrow> if ok x then Some (Some f) else None | None \<Rightarrow> None))"

definition validate_limit :: "json option \<Rightarrow> int option option" where
  "validate_limit v = (case v of
     None \<Rightarrow> Some None | Some JNull \<Rightarrow> Some None
   | Some (JInt n) \<Rightarrow> if 0 < n \<and> n \<le> 2 ^ 31 - 1 then Some (Some n) else None
   | _ \<Rightarrow> None)"

definition stop_ok :: "str list \<Rightarrow> bool" where
  "stop_ok values \<longleftrightarrow> values \<noteq> [] \<and> length values \<le> 4 \<and>
     list_all (\<lambda>v. v \<noteq> [] \<and> py_len v \<le> 256) values \<and> distinct values"

definition json_text :: "json \<Rightarrow> str option" where
  "json_text v = (case v of JStr s \<Rightarrow> Some s | _ \<Rightarrow> None)"

definition validate_stop :: "json option \<Rightarrow> (str + str list) option option" where
  "validate_stop v = (case v of
     None \<Rightarrow> Some None | Some JNull \<Rightarrow> Some None
   | Some (JStr s) \<Rightarrow> if stop_ok [s] then Some (Some (Inl s)) else None
   | Some (JList xs) \<Rightarrow> (case map_opt json_text xs of
       Some ss \<Rightarrow> if stop_ok ss then Some (Some (Inr ss)) else None | None \<Rightarrow> None)
   | _ \<Rightarrow> None)"

definition validate_chat_request :: "validation \<Rightarrow> json \<Rightarrow> chat_request option" where
  "validate_chat_request vd v = (case v of
     JObj pairs \<Rightarrow>
       (if \<not> forbid_extra [''model'', ''messages'', ''stream'', ''temperature'', ''top_p'', ''max_tokens'',
              ''max_completion_tokens'', ''stop''] pairs then None
        else case (Option.bind (field ''model'' pairs) (bounded_text vd 255), validate_messages (field ''messages'' pairs),
                   (case field ''stream'' pairs of None \<Rightarrow> Some False | Some (JBool b) \<Rightarrow> Some b | _ \<Rightarrow> None),
                   validate_sampling vd (\<lambda>x. 0 \<le> x \<and> x \<le> 2) (field ''temperature'' pairs),
                   validate_sampling vd (\<lambda>x. 0 < x \<and> x \<le> 1) (field ''top_p'' pairs),
                   validate_limit (field ''max_tokens'' pairs), validate_limit (field ''max_completion_tokens'' pairs),
                   validate_stop (field ''stop'' pairs)) of
          (Some model, Some messages, Some stream, Some temperature, Some top_p, Some max_tokens, Some max_completion, Some stop) \<Rightarrow>
            if max_tokens \<noteq> None \<and> max_completion \<noteq> None then None
            else Some \<lparr>cq_model = model, cq_messages = messages, cq_stream = stream, cq_temperature = temperature,
                 cq_top_p = top_p, cq_max_tokens = max_tokens, cq_max_completion_tokens = max_completion, cq_stop = stop\<rparr>
        | _ \<Rightarrow> None)
   | _ \<Rightarrow> None)"

definition require_non_streaming :: "chat_request \<Rightarrow> unit res" where
  "require_non_streaming q = (if cq_stream q then Inl (ExternalPayloadError ''UNSUPPORTED_FEATURE'') else Inr ())"

text \<open>\<open>a or b\<close> of two optional integers takes the first one that is neither absent nor zero.\<close>

definition or_int :: "int option \<Rightarrow> int option \<Rightarrow> int option" where
  "or_int a b = (if a = None \<or> a = Some 0 then b else a)"

definition admitted_output_tokens :: "int \<Rightarrow> int \<Rightarrow> chat_request \<Rightarrow> int res" where
  "admitted_output_tokens client_limit global_limit q =
    (if client_limit \<le> 0 \<or> global_limit \<le> 0 then Inl (ValueError ''output token limits must be positive'')
     else let admitted_limit = min client_limit global_limit in
       (case or_int (cq_max_tokens q) (cq_max_completion_tokens q) of
          None \<Rightarrow> Inr admitted_limit
        | Some requested \<Rightarrow>
            if requested > admitted_limit then Inl (ExternalPayloadError ''INVALID_REQUEST'') else Inr requested))"

definition opt_field :: "str \<Rightarrow> json option \<Rightarrow> (str \<times> json) list" where
  "opt_field k v = (case v of None \<Rightarrow> [] | Some j \<Rightarrow> [(k, j)])"

definition stop_json :: "str + str list \<Rightarrow> json" where
  "stop_json s = (case s of Inl t \<Rightarrow> JStr t | Inr ts \<Rightarrow> JList (map JStr ts))"

definition bifrost_payload :: "chat_request \<Rightarrow> (str \<times> json) list" where
  "bifrost_payload q =
    [(''model'', JStr (cq_model q)),
     (''messages'', JList (map (\<lambda>(role, content). JObj [(''role'', JStr role), (''content'', JStr content)]) (cq_messages q))),
     (''stream'', JBool (cq_stream q))] @
    opt_field ''temperature'' (map_option JFloat (cq_temperature q)) @
    opt_field ''top_p'' (map_option JFloat (cq_top_p q)) @
    opt_field ''max_tokens'' (map_option JInt (cq_max_tokens q)) @
    opt_field ''max_completion_tokens'' (map_option JInt (cq_max_completion_tokens q)) @
    opt_field ''stop'' (map_option stop_json (cq_stop q))"

definition estimate_prompt_tokens :: "chat_request \<Rightarrow> int" where
  "estimate_prompt_tokens q =
    sum_list (map (\<lambda>(role, content). int (length role) + int (length content) + 8) (cq_messages q))"

lemma estimate_prompt_positive:
  "cq_messages q \<noteq> [] \<Longrightarrow> 8 \<le> estimate_prompt_tokens q"
proof -
  have n: "0 \<le> sum_list (map (\<lambda>(role, content). int (length role) + int (length content) + 8) ms)" for ms :: "(str \<times> str) list"
    by (induction ms) auto
  show "cq_messages q \<noteq> [] \<Longrightarrow> 8 \<le> estimate_prompt_tokens q"
    unfolding estimate_prompt_tokens_def using n [of "tl (cq_messages q)"] by (cases "cq_messages q") auto
qed

lemma admitted_output_tokens_Inr:
  assumes "admitted_output_tokens c g q = Inr n"
  shows "n \<le> c \<and> n \<le> g \<and> (or_int (cq_max_tokens q) (cq_max_completion_tokens q) \<noteq> None \<longrightarrow>
    or_int (cq_max_tokens q) (cq_max_completion_tokens q) = Some n)"
  using assms by (auto simp: admitted_output_tokens_def Let_def split: if_splits option.splits)

end
