(* ===== verification/Ledger_Commits.thy ===== *)
theory Ledger_Commits
  imports Ledger_Properties
begin

text \<open>
  When the transactions of the ledger commit: the shared facts of the services that run
  several of them in one session or one after the other.
\<close>

text \<open>Rewriting one operation without touching its keys keeps the constraints.\<close>

lemma usage_tables_set:
  assumes ok: "usage_tables_ok d"
    and f: "\<And>p. p \<in> set (db_operations d) \<Longrightarrow> op_id p = k \<Longrightarrow> operation_ok (f p)"
    and keys: "\<And>p. op_id (f p) = op_id p \<and> request_key (f p) = request_key p \<and> op_client (f p) = op_client p \<and>
      op_credential (f p) = op_credential p"
  shows "usage_tables_ok (set_operation k f d)"
proof -
  let ?ops = "update_row op_id k f (db_operations d)"
  have maps: "map op_id ?ops = map op_id (db_operations d)" "map request_key ?ops = map request_key (db_operations d)"
    using keys by (simp_all add: map_update_row)
  have "list_all operation_ok ?ops"
    using ok f by (auto simp: usage_tables_ok_def list_all_iff set_update_row)
  moreover have "list_all (\<lambda>p. op_client p \<in> set (map ac_id (db_clients d)) \<and>
      op_credential p \<in> set (map cr_id (db_credentials d))) ?ops"
    using ok keys by (auto simp: usage_tables_ok_def list_all_iff set_update_row)
  ultimately show ?thesis
    using ok maps by (simp add: usage_tables_ok_def set_operation_def)
qed

lemma db_ok_set:
  assumes "db_ok d" "usage_tables_ok (set_operation k f d)"
  shows "db_ok (set_operation k f d)"
proof -
  have "caller_tables_ok (set_operation k f d) = caller_tables_ok d"
    by (intro caller_tables_cong) (simp_all add: set_operation_def)
  moreover have "control_tables_ok (set_operation k f d) = control_tables_ok d"
    by (intro control_tables_cong) (simp_all add: set_operation_def)
  ultimately show ?thesis using assms by (simp add: db_ok_def)
qed

lemma record_usage_commits:
  assumes "db_ok d" "record_provider_usage k a b now d = Inr (u, d')"
  shows "db_ok d'"
proof -
  let ?f = "\<lambda>p. p\<lparr>op_prompt := a, op_completion := b, op_total := a + b, op_usage_recorded := True, op_updated_at := now\<rparr>"
  have d': "d' = set_operation k ?f d" "0 \<le> a" "0 \<le> b"
    using assms(2) by (auto simp: record_provider_usage_def Let_def bind_res_Inr split: if_splits)
  have us: "usage_tables_ok d" using assms(1) by auto
  have "usage_tables_ok (set_operation k ?f d)"
    using operation_ok_mem [OF us] d'(2,3)
    by (intro usage_tables_set [OF us]) (auto simp: operation_ok_def request_key_def)
  from db_ok_set [OF assms(1) this] show ?thesis by (simp add: d'(1))
qed

lemma record_credit_commits:
  assumes "db_ok d" "record_credit_reservation k s uo now d = Inr (u, d')"
  shows "db_ok d'"
proof -
  let ?f = "\<lambda>p. p\<lparr>op_settlement_id := Some s, op_usage_operation_id := Some uo, op_updated_at := now\<rparr>"
  have d': "d' = d \<or> d' = set_operation k ?f d"
    using assms(2) by (auto simp: record_credit_reservation_def bind_res_Inr split: if_splits)
  have us: "usage_tables_ok d" using assms(1) by auto
  have "usage_tables_ok (set_operation k ?f d)"
    using operation_ok_mem [OF us]
    by (intro usage_tables_set [OF us]) (auto simp: operation_ok_def request_key_def)
  from db_ok_set [OF assms(1) this] d' assms(1) show ?thesis by auto
qed

lemma touch_commits:
  assumes "db_ok d" "touch_pending_operation k now d = Inr (u, d')"
  shows "db_ok d'"
proof -
  let ?f = "\<lambda>p. p\<lparr>op_updated_at := max (op_updated_at p) now\<rparr>"
  have d': "d' = d \<or> d' = set_operation k ?f d"
    using assms(2) by (auto simp: touch_pending_operation_def split: if_splits option.splits)
  have us: "usage_tables_ok d" using assms(1) by auto
  have "usage_tables_ok (set_operation k ?f d)"
    using operation_ok_mem [OF us]
    by (intro usage_tables_set [OF us]) (auto simp: operation_ok_def request_key_def)
  from db_ok_set [OF assms(1) this] d' assms(1) show ?thesis by auto
qed

text \<open>Each transaction that commits is a step of the ledger.\<close>

lemma committed_step:
  "commit_tx (reserve_operation rq u1 u2) d = Inr (r, d') \<Longrightarrow> quota_step (Reserve rq u1 u2) d = Inr d'"
  "commit_tx (record_credit_reservation k s u now) d = Inr (x, d') \<Longrightarrow> quota_step (Record_credit k s u now) d = Inr d'"
  "commit_tx (record_provider_usage k a b now) d = Inr (x, d') \<Longrightarrow> quota_step (Record_usage k a b now) d = Inr d'"
  "commit_tx (touch_pending_operation k now) d = Inr (y, d') \<Longrightarrow> quota_step (Touch k now) d = Inr d'"
  "commit_tx (finalize_operation k t uuid) d = Inr (z, d') \<Longrightarrow> quota_step (Finalize k t uuid) d = Inr d'"
  by (simp_all add: drop_value_def)

lemma record_usage_inv:
  assumes "ledger_inv d" "record_provider_usage k a b now d = Inr (u, d')"
  shows "ledger_inv d'"
proof -
  have "db_ok d'" by (rule record_usage_commits [OF ledger_invD(1) [OF assms(1)] assms(2)])
  with assms(2) have "commit_tx (record_provider_usage k a b now) d = Inr (u, d')" by (simp add: commit_tx_Inr)
  from quota_step_inv [OF assms(1) committed_step(3) [OF this]] show ?thesis .
qed

text \<open>Closing a pending operation of a consistent ledger commits.\<close>

lemma finalize_pending:
  assumes "ledger_inv d" and "make_terminal t = Inr t"
    and "find_row op_id k (db_operations d) = Some p" and "op_state p = Pending"
    and "op_started_at p \<le> tm_completed_at t"
    and "\<forall>q \<in> set (db_quotas d). qu_consumed q + op_total p \<le> SIGNED_BIGINT_MAX"
    and "uuid \<notin> set (map ev_id (db_events d))"
    and "tm_server_request_id t \<notin> set (map ev_server_request_id (db_events d))"
  shows "\<exists>sn d'. finalize_operation k t uuid d = Inr (sn, d') \<and> db_ok d' \<and>
    find_row op_id k (db_operations d') = Some (close_operation t p)"
proof -
  note I = ledger_invD [OF assms(1)]
  note mem = find_row_mem [OF assms(3)]
  obtain daily lifetime where
    lock: "locked_quota_rows (op_client p) (op_started_at p) None d = Inr ((daily, lifetime), d)"
    by (rule has_rows_locked [OF I(4,2) mem(1)])
  note L = locked_quota_rows_Inr [OF lock]
  have c: "counts_for daily p" "counts_for lifetime p"
    using L(4,5) by (auto simp: counts_for_def quota_key_def)
  have settle: "check_settle p daily = Inr ()" "check_settle p lifetime = Inr ()"
    using reserved_covers [OF I(4,2) L(2) mem(1) c(1) assms(4)]
      reserved_covers [OF I(4,2) L(3) mem(1) c(2) assms(4)] assms(6) L(2,3)
    by (auto simp: check_settle_def)
  let ?d' = "finalized_db k t uuid p daily lifetime d"
  have "finalize_operation k t uuid d =
      Inr (terminal_snapshot p (settle_row p (tm_completed_at t) daily) (settle_row p (tm_completed_at t) lifetime), ?d')"
    using assms(3-5) lock settle by (simp add: finalize_operation_def finalized_db_def Let_def)
  moreover have "db_ok ?d'"
    by (rule finalize_commits [OF I(1,2) assms(2-4) lock assms(5) settle assms(7,8)])
  moreover have "find_row op_id k (db_operations ?d') = Some (close_operation t p)"
    using assms(3) by (simp add: finalized_db_def Let_def find_row_update)
  ultimately show ?thesis by blast
qed

end
