(* ===== verification/World.thy ===== *)
theory World
  imports Api Rate_Limits Model_Pool Ledger_Commits
begin

text \<open>
  Programs with effects. The services of the control plane run against the database, Redis
  and two remote services, and any of their steps may fail or be cancelled. A program is a
  function of the world (the database, the Redis keyspace and the log of what has been
  done) that returns a value or an exception together with the world it leaves; an exception
  does not undo effects.

  The environment answers everything the code does not decide: clocks, the fate of a call
  and the replies of the remote services. Each of its answers is a function of the log, so
  it may differ at every step and depend on all that happened before.
\<close>

subsection \<open>Worlds\<close>

datatype http_reply =
    Http_timeout
  | Http_request_error
  | Http_reply int str "str list"

text \<open>What is done to the outside, in order. The arguments are what the properties speak
  about: the operation, the body of a request.\<close>

datatype act =
    Act_credential str
  | Act_nonce str
  | Act_policy
  | Act_usage
  | Act_observe str
  | Act_admin str
  | Act_qps
  | Act_pool_admit str
  | Act_pool_cancel str
  | Act_pool_release str
  | Act_pool_heartbeat str
  | Act_acquire str
  | Act_heartbeat str
  | Act_release str
  | Act_sleep
  | Act_db "quota_op list"
  | Act_openwebui str "(str \<times> json) list"
  | Act_bifrost str str "(str \<times> json) list"
  | Act_upstream
  | Act_close
  | Act_yield str

record world =
  wd_db :: db
  wd_redis :: redis
  wd_log :: "act list"

text \<open>
  The fate of an awaited call: it ends as the callee decides; or the caller gets the exception
  while the callee has done nothing; or the callee has done its work and the caller still gets
  the exception (a lost reply, a cancellation, a commit whose acknowledgement is lost).
\<close>

datatype fate = Ends | Never_done exn | Done_but exn

record env =
  en_time :: "act list \<Rightarrow> int"
  en_redis_ms :: "act list \<Rightarrow> int"
  en_link :: "act list \<Rightarrow> link"
  en_fate :: "act list \<Rightarrow> fate"
  en_beats :: "act list \<Rightarrow> nat"
  en_reply :: "act list \<Rightarrow> http_reply"
  en_mono :: "act list \<Rightarrow> int"
  en_uuid :: "act list \<Rightarrow> nat \<Rightarrow> str"

type_synonym 'a prog = "world \<Rightarrow> 'a res \<times> world"

subsection \<open>Sequencing, exceptions and clean-up\<close>

definition ret :: "'a \<Rightarrow> 'a prog" where
  "ret x w = (Inr x, w)"

definition raise :: "exn \<Rightarrow> 'a prog" where
  "raise e w = (Inl e, w)"

definition bindp :: "'a prog \<Rightarrow> ('a \<Rightarrow> 'b prog) \<Rightarrow> 'b prog" where
  "bindp m f w = (case m w of (Inl e, w') \<Rightarrow> (Inl e, w') | (Inr x, w') \<Rightarrow> f x w')"

definition except :: "'a prog \<Rightarrow> (exn \<Rightarrow> 'a prog) \<Rightarrow> 'a prog" where
  "except m h w = (case m w of (Inl e, w') \<Rightarrow> h e w' | (Inr x, w') \<Rightarrow> (Inr x, w'))"

text \<open>\<open>try: m finally: f\<close>; an exception of the clean-up replaces the outcome.\<close>

definition finally_do :: "'a prog \<Rightarrow> unit prog \<Rightarrow> 'a prog" where
  "finally_do m f w = (case m w of (r, w') \<Rightarrow> (case f w' of (Inl e, w'') \<Rightarrow> (Inl e, w'') | (Inr _, w'') \<Rightarrow> (r, w'')))"

definition of_res :: "'a res \<Rightarrow> 'a prog" where
  "of_res r w = (r, w)"

definition record_act :: "act \<Rightarrow> world \<Rightarrow> world" where
  "record_act a w = w\<lparr>wd_log := wd_log w @ [a]\<rparr>"

text \<open>A call: it is logged, and then ends, fails before or fails after its effect.\<close>

definition call :: "env \<Rightarrow> act \<Rightarrow> 'a prog \<Rightarrow> 'a prog" where
  "call en a m w = (let w1 = record_act a w in
     case en_fate en (wd_log w1) of
       Ends \<Rightarrow> m w1
     | Never_done e \<Rightarrow> (Inl e, w1)
     | Done_but e \<Rightarrow> (Inl e, snd (m w1)))"

text \<open>A transaction of the database and a command to Redis.\<close>

definition db_tx :: "'a tx \<Rightarrow> 'a prog" where
  "db_tx body w = (case in_tx body (wd_db w) of (r, d) \<Rightarrow> (r, w\<lparr>wd_db := d\<rparr>))"

definition db_read :: "(db \<Rightarrow> 'a) \<Rightarrow> 'a prog" where
  "db_read f w = (Inr (f (wd_db w)), w)"

definition redis_do :: "env \<Rightarrow> (link \<Rightarrow> int \<Rightarrow> redis \<Rightarrow> 'a res \<times> redis) \<Rightarrow> 'a prog" where
  "redis_do en f w = (case f (en_link en (wd_log w)) (en_redis_ms en (wd_log w)) (wd_redis w) of
     (x, r) \<Rightarrow> (x, w\<lparr>wd_redis := r\<rparr>))"

text \<open>A request to a remote service: what it does is not part of this world; its reply is
  interpreted by the client.\<close>

definition http_do :: "env \<Rightarrow> (http_reply \<Rightarrow> 'a res) \<Rightarrow> 'a prog" where
  "http_do en parse w = (parse (en_reply en (wd_log w)), w)"

definition db_load :: "(db \<Rightarrow> 'a res) \<Rightarrow> 'a prog" where
  "db_load f w = (f (wd_db w), w)"

text \<open>The clocks (seconds of the epoch; nanoseconds of the monotonic clock) and fresh identifiers.\<close>

definition read_time :: "env \<Rightarrow> int prog" where
  "read_time en w = (Inr (en_time en (wd_log w)), w)"

definition read_mono :: "env \<Rightarrow> int prog" where
  "read_mono en w = (Inr (en_mono en (wd_log w)), w)"

definition read_uuid :: "env \<Rightarrow> nat \<Rightarrow> str prog" where
  "read_uuid en n w = (Inr (en_uuid en (wd_log w) n), w)"

text \<open>The outcome of a program as a value: nothing is raised.\<close>

definition attempt :: "'a prog \<Rightarrow> 'a res prog" where
  "attempt m w = (case m w of (r, w') \<Rightarrow> (Inr r, w'))"

definition at_log :: "(act list \<Rightarrow> 'a prog) \<Rightarrow> 'a prog" where
  "at_log f w = f (wd_log w) w"

subsection \<open>Reading a run\<close>

lemma ret_eq [simp]: "ret x w = (Inr x, w)"
  by (simp add: ret_def)

lemma raise_eq [simp]: "raise e w = (Inl e, w)"
  by (simp add: raise_def)

lemma of_res_eq [simp]: "of_res r w = (r, w)"
  by (simp add: of_res_def)

lemma bindp_Inr: "bindp m f w = (Inr y, w2) \<longleftrightarrow> (\<exists>x w1. m w = (Inr x, w1) \<and> f x w1 = (Inr y, w2))"
  by (auto simp: bindp_def split: prod.splits sum.splits)

lemma bindp_run: "snd (bindp m f w) = (case m w of (Inl e, w') \<Rightarrow> w' | (Inr x, w') \<Rightarrow> snd (f x w'))"
  by (auto simp: bindp_def split: prod.splits sum.splits)

lemma except_Inr: "except m h w = (Inr y, w2) \<longleftrightarrow>
    m w = (Inr y, w2) \<or> (\<exists>e w1. m w = (Inl e, w1) \<and> h e w1 = (Inr y, w2))"
  by (auto simp: except_def split: prod.splits sum.splits)

lemma finally_do_Inr: "finally_do m f w = (Inr y, w2) \<longleftrightarrow> (\<exists>w1 u. m w = (Inr y, w1) \<and> f w1 = (Inr u, w2))"
  by (auto simp: finally_do_def split: prod.splits sum.splits)

text \<open>The world a clean-up leaves does not depend on how the body ended.\<close>

lemma finally_do_world: "snd (finally_do m f w) = snd (f (snd (m w)))"
  by (auto simp: finally_do_def split: prod.splits sum.splits)

lemma call_Inr: "call en a m w = (Inr x, w2) \<longleftrightarrow>
    en_fate en (wd_log w @ [a]) = Ends \<and> m (record_act a w) = (Inr x, w2)"
  by (auto simp: call_def record_act_def Let_def split: fate.splits)

lemma call_world: "snd (call en a m w) = record_act a w \<or> snd (call en a m w) = snd (m (record_act a w))"
  by (auto simp: call_def Let_def split: fate.splits)

lemma record_act_sel [simp]: "wd_db (record_act a w) = wd_db w" "wd_redis (record_act a w) = wd_redis w"
    "wd_log (record_act a w) = wd_log w @ [a]"
  by (simp_all add: record_act_def)

subsection \<open>What a program preserves\<close>

text \<open>\<open>P\<close> is kept along the run, whatever its outcome. \<open>P\<close> compares the world before with the
  world after, and must compose.\<close>

definition always :: "(world \<Rightarrow> world \<Rightarrow> bool) \<Rightarrow> 'a prog \<Rightarrow> bool" where
  "always P m \<longleftrightarrow> (\<forall>w. P w (snd (m w)))"

locale world_relation =
  fixes P :: "world \<Rightarrow> world \<Rightarrow> bool"
  assumes refl: "P w w"
    and trans: "P u v \<Longrightarrow> P v w \<Longrightarrow> P u w"
begin

lemma ret: "always P (World.ret x)" and raise: "always P (World.raise e)" and of_res: "always P (World.of_res r)"
  by (simp_all add: always_def refl)

lemma bind: "always P m \<Longrightarrow> (\<And>x. always P (f x)) \<Longrightarrow> always P (bindp m f)"
  unfolding always_def bindp_run by (auto split: prod.splits sum.splits) (metis snd_conv, metis snd_conv trans)

lemma except: "always P m \<Longrightarrow> (\<And>e. always P (h e)) \<Longrightarrow> always P (World.except m h)"
  unfolding always_def World.except_def by (auto split: prod.splits sum.splits) (metis snd_conv trans, metis snd_conv)

lemma clean_up: "always P m \<Longrightarrow> always P f \<Longrightarrow> always P (finally_do m f)"
  unfolding always_def finally_do_world by (meson trans)

lemma at_log: "(\<And>l. always P (f l)) \<Longrightarrow> always P (World.at_log f)"
  by (simp add: always_def World.at_log_def)

lemma call: "(\<And>w. P w (record_act a w)) \<Longrightarrow> always P m \<Longrightarrow> always P (World.call en a m)"
  unfolding always_def using call_world trans by metis

lemma if_then: "(b \<Longrightarrow> always P m) \<Longrightarrow> (\<not> b \<Longrightarrow> always P n) \<Longrightarrow> always P (if b then m else n)"
  by simp

lemma case_option: "(x = None \<Longrightarrow> always P m) \<Longrightarrow> (\<And>y. x = Some y \<Longrightarrow> always P (f y)) \<Longrightarrow>
    always P (case x of None \<Rightarrow> m | Some y \<Rightarrow> f y)"
  by (cases x) simp_all

lemma case_res: "(\<And>e. r = Inl e \<Longrightarrow> always P (f e)) \<Longrightarrow> (\<And>x. r = Inr x \<Longrightarrow> always P (g x)) \<Longrightarrow>
    always P (case r of Inl e \<Rightarrow> f e | Inr x \<Rightarrow> g x)"
  by (cases r) simp_all

lemma case_pair: "(\<And>x y. p = (x, y) \<Longrightarrow> always P (f x y)) \<Longrightarrow> always P (case p of (x, y) \<Rightarrow> f x y)"
  by (cases p) simp

lemmas rules = ret raise of_res bind except clean_up at_log if_then case_option case_res case_pair

end

text \<open>The log only grows; the database keeps the ledger's invariant; a program that does not
  touch the database or Redis leaves it as it was.\<close>

definition log_grows :: "world \<Rightarrow> world \<Rightarrow> bool" where
  "log_grows w w' \<longleftrightarrow> (\<exists>l. wd_log w' = wd_log w @ l)"

definition keeps_ledger :: "world \<Rightarrow> world \<Rightarrow> bool" where
  "keeps_ledger w w' \<longleftrightarrow> (ledger_inv (wd_db w) \<longrightarrow> ledger_inv (wd_db w'))"

interpretation log: world_relation log_grows
proof
  fix u v w :: world
  show "log_grows w w" by (simp add: log_grows_def)
  show "log_grows u v \<Longrightarrow> log_grows v w \<Longrightarrow> log_grows u w" by (auto simp: log_grows_def)
qed

interpretation kept_ledger: world_relation keeps_ledger
  by unfold_locales (auto simp: keeps_ledger_def)

lemma log_grows_act [simp]: "log_grows w (record_act a w)"
  by (simp add: log_grows_def)

lemma keeps_ledger_act [simp]: "keeps_ledger w (record_act a w)"
  by (simp add: keeps_ledger_def)


subsection \<open>Transactions that keep the ledger\<close>

definition tx_keeps :: "'a tx \<Rightarrow> bool" where
  "tx_keeps body \<longleftrightarrow> (\<forall>d x d'. ledger_inv d \<longrightarrow> commit_tx body d = Inr (x, d') \<longrightarrow> ledger_inv d')"

lemma tx_keeps_ops [intro]:
  "tx_keeps (reserve_operation rq u1 u2)" "tx_keeps (record_credit_reservation k s uo now)"
  "tx_keeps (record_provider_usage k a b now)" "tx_keeps (touch_pending_operation k now)"
  "tx_keeps (finalize_operation k t uuid)"
  unfolding tx_keeps_def by (meson committed_step quota_step_inv)+

lemma keeps_db_tx: "tx_keeps body \<Longrightarrow> always keeps_ledger (db_tx body)"
  by (auto simp: always_def keeps_ledger_def db_tx_def in_tx_def tx_keeps_def split: prod.splits sum.splits)

lemma keeps_db_read: "always keeps_ledger (db_read f)"
  by (simp add: always_def keeps_ledger_def db_read_def)

lemma keeps_redis_do: "always keeps_ledger (redis_do en f)"
  by (simp add: always_def keeps_ledger_def redis_do_def split: prod.splits)

lemma keeps_http_do: "always keeps_ledger (http_do en f)"
  by (simp add: always_def keeps_ledger_def http_do_def)

lemma keeps_call: "always keeps_ledger m \<Longrightarrow> always keeps_ledger (call en a m)"
  by (rule kept_ledger.call) simp_all

lemmas keeps_rules = kept_ledger.rules keeps_db_tx keeps_db_read keeps_redis_do keeps_http_do keeps_call

end
