(* ===== verification/Openwebui.thy ===== *)
theory Openwebui
  imports Api Auth World
begin

text \<open>
  The client of the credit service, \<open>backend/app/integrations/openwebui/client.py\<close>, and its
  request and response models (\<open>models.py\<close>). A call builds a validated body, signs it, sends
  it and interprets the reply: anything but a well-formed answer becomes an
  \<open>OpenWebUIUpstreamError\<close>. The transport is the environment; JSON and the coercions of the
  validation library are parameters.
\<close>

record codec =
  cd_loads :: "str \<Rightarrow> json option"
  cd_dumps :: "json \<Rightarrow> str"
  cd_valid :: validation

subsection \<open>Errors\<close>

definition KNOWN_ERROR_CODES :: "str list" where
  "KNOWN_ERROR_CODES = [''CREDIT_ACCOUNTING_ERROR'', ''CREDIT_ACCOUNT_FROZEN'', ''CREDIT_ACCOUNT_NOT_FOUND'',
     ''CREDIT_ACCOUNT_STATE_CONFLICT'', ''CREDIT_BALANCE_EXHAUSTED'', ''CREDIT_BALANCE_OVERFLOW'',
     ''CREDIT_IDEMPOTENCY_CONFLICT'', ''CREDIT_PRICING_UNAVAILABLE'', ''CREDIT_SETTLEMENT_NOT_FOUND'',
     ''CREDIT_SETTLEMENT_STATE_CONFLICT'', ''CREDIT_TERMINAL_EVIDENCE_INVALID'', ''CREDIT_USAGE_EVIDENCE_INVALID'',
     ''CREDIT_USAGE_OPERATION_CONFLICT'', ''INTERNAL_AUTH_FAILED'', ''INTERNAL_NETWORK_FORBIDDEN'',
     ''INTERNAL_SERVICE_UNAVAILABLE'', ''INTERNAL_SERVICE_USER_CONFLICT'', ''INTERNAL_SERVICE_USER_FORBIDDEN'']"

definition ow_fallback_error :: "int \<Rightarrow> str \<times> bool" where
  "ow_fallback_error status_code =
    (if status_code \<in> {401, 403} then (''OPENWEBUI_ACCESS_REJECTED'', False)
     else if status_code = 404 then (''OPENWEBUI_CREDIT_NOT_FOUND'', False)
     else if status_code = 409 then (''OPENWEBUI_CREDIT_CONFLICT'', False)
     else if status_code = 422 then (''OPENWEBUI_REQUEST_REJECTED'', False)
     else if status_code = 429 then (''OPENWEBUI_RATE_LIMITED'', True)
     else if status_code \<ge> 500 then (''OPENWEBUI_UNAVAILABLE'', True)
     else (''OPENWEBUI_REQUEST_REJECTED'', False))"

definition ow_protocol_error :: exn where
  "ow_protocol_error = OpenWebUIUpstreamError ''OPENWEBUI_PROTOCOL_ERROR'' 502 True"

subsection \<open>The client\<close>

record ow_client =
  oc_service_id :: str
  oc_secret :: str

definition service_id_ok :: "str \<Rightarrow> bool" where
  "service_id_ok s \<longleftrightarrow> full_class is_version_char 1 128 s"

text \<open>The checks of the constructor on the service identity (those on the URL are the URL
  library's).\<close>

definition make_ow_client :: "str \<Rightarrow> str \<Rightarrow> ow_client res" where
  "make_ow_client service_id secret =
    (if \<not> service_id_ok service_id then Inl (ValueError ''Open WebUI internal service ID is invalid'')
     else if \<not> (32 \<le> length secret \<and> length secret \<le> 4096)
       then Inl (ValueError ''Open WebUI internal service Secret length is invalid'')
     else Inr \<lparr>oc_service_id = service_id, oc_secret = secret\<rparr>)"

definition ow_signed_text :: "crypto \<Rightarrow> ow_client \<Rightarrow> int \<Rightarrow> str \<Rightarrow> str \<Rightarrow> str" where
  "ow_signed_text y c now path body =
    join_on nl [''zangpu-internal-v1'', oc_service_id c, show_int now, ''POST'', path, cy_sha y body]"

definition ow_signed_headers :: "crypto \<Rightarrow> ow_client \<Rightarrow> int \<Rightarrow> str \<Rightarrow> str \<Rightarrow> headers" where
  "ow_signed_headers y c now path body =
    [(''content-type'', ''application/json''), (''x-zangpu-service-id'', oc_service_id c),
     (''x-zangpu-timestamp'', show_int now),
     (''x-zangpu-signature'', cy_mac y (oc_secret c) (ow_signed_text y c now path body))]"

subsection \<open>Replies\<close>

definition content_type_of :: "str \<Rightarrow> str" where
  "content_type_of raw = map lower_char (strip_spaces (fst (partition_on CHR '';'' raw)))"

text \<open>Reading the chunks of a body, up to the limit.\<close>

fun read_body :: "int \<Rightarrow> str \<Rightarrow> str list \<Rightarrow> str option" where
  "read_body limit content [] = Some content"
| "read_body limit content (c # cs) =
    (if limit < int (length content) + int (length c) then None else read_body limit (content @ c) cs)"

definition error_code_ok :: "str \<Rightarrow> bool" where
  "error_code_ok s \<longleftrightarrow> s \<noteq> [] \<and> is_upper_alpha (hd s) \<and> length s \<le> 128 \<and>
     list_all (\<lambda>c. is_upper_alpha c \<or> is_digit c \<or> c = CHR ''_'') s"

definition error_envelope :: "json \<Rightarrow> str option" where
  "error_envelope payload = (case payload of
     JObj pairs \<Rightarrow> (case field ''detail'' pairs of
         Some (JObj detail) \<Rightarrow> (case field ''code'' detail of
             Some (JStr code) \<Rightarrow> if error_code_ok code then Some code else None
           | _ \<Rightarrow> None)
       | _ \<Rightarrow> None)
   | _ \<Rightarrow> None)"

definition ow_interpret :: "codec \<Rightarrow> (json \<Rightarrow> 'a option) \<Rightarrow> http_reply \<Rightarrow> 'a res" where
  "ow_interpret cd validate reply = (case reply of
     Http_reply status_code content_type chunks \<Rightarrow>
       if content_type_of content_type \<noteq> ''application/json'' then Inl ow_protocol_error
       else (case read_body (1024 * 1024) [] chunks of
           None \<Rightarrow> Inl ow_protocol_error
         | Some content \<Rightarrow> (case cd_loads cd content of
             None \<Rightarrow> Inl ow_protocol_error
           | Some payload \<Rightarrow>
               if status_code \<ge> 400 then
                 (let (fallback_code, retryable) = ow_fallback_error status_code;
                      code = (case error_envelope payload of
                          Some c \<Rightarrow> if c \<in> set KNOWN_ERROR_CODES then c else fallback_code
                        | None \<Rightarrow> fallback_code)
                  in Inl (OpenWebUIUpstreamError code status_code retryable))
               else (case validate payload of None \<Rightarrow> Inl ow_protocol_error | Some x \<Rightarrow> Inr x)))
   | _ \<Rightarrow> Inl (OpenWebUIUpstreamError ''OPENWEBUI_UNAVAILABLE'' 503 True))"

subsection \<open>The response models\<close>

definition int_field :: "validation \<Rightarrow> (int \<Rightarrow> bool) \<Rightarrow> str \<Rightarrow> (str \<times> json) list \<Rightarrow> int option" where
  "int_field vd ok k pairs = (case Option.bind (field k pairs) (vd_int vd) of
     Some n \<Rightarrow> if ok n then Some n else None | None \<Rightarrow> None)"

definition opt_int_field :: "validation \<Rightarrow> (int \<Rightarrow> bool) \<Rightarrow> str \<Rightarrow> (str \<times> json) list \<Rightarrow> int option option" where
  "opt_int_field vd ok k pairs = (case field k pairs of
     None \<Rightarrow> Some None | Some JNull \<Rightarrow> Some None
   | Some j \<Rightarrow> (case vd_int vd j of Some n \<Rightarrow> if ok n then Some (Some n) else None | None \<Rightarrow> None))"

definition uuid_field :: "validation \<Rightarrow> str \<Rightarrow> (str \<times> json) list \<Rightarrow> str option" where
  "uuid_field vd k pairs = Option.bind (field k pairs) (vd_uuid vd)"

definition opt_text_field :: "validation \<Rightarrow> str \<Rightarrow> (str \<times> json) list \<Rightarrow> str option option" where
  "opt_text_field vd k pairs = (case field k pairs of
     None \<Rightarrow> Some None | Some JNull \<Rightarrow> Some None
   | Some j \<Rightarrow> (case bounded_text vd 256 j of Some s \<Rightarrow> Some (Some s) | None \<Rightarrow> None))"

definition signed_bigint :: "int \<Rightarrow> bool" where
  "signed_bigint n \<longleftrightarrow> - (2 ^ 63) \<le> n \<and> n \<le> SIGNED_BIGINT_MAX"

record credit_account =
  ca_account_id :: str
  ca_service_user_id :: str
  ca_balance :: int
  ca_status :: str
  ca_version :: int
  ca_updated_at :: int

definition validate_account :: "validation \<Rightarrow> json \<Rightarrow> credit_account option" where
  "validate_account vd v = (case v of
     JObj p \<Rightarrow>
       (case (uuid_field vd ''account_id'' p, uuid_field vd ''service_user_id'' p,
              int_field vd signed_bigint ''balance_micro'' p, field ''status'' p,
              int_field vd in_bigint ''version'' p, int_field vd in_bigint ''updated_at'' p) of
          (Some a, Some u, Some b, Some (JStr s), Some n, Some t) \<Rightarrow>
            if forbid_extra [''account_id'', ''service_user_id'', ''balance_micro'', ''status'', ''version'', ''updated_at''] p \<and>
               s \<in> {''active'', ''frozen'', ''closed''}
              then Some \<lparr>ca_account_id = a, ca_service_user_id = u, ca_balance = b, ca_status = s,
                     ca_version = n, ca_updated_at = t\<rparr> else None
        | _ \<Rightarrow> None)
   | _ \<Rightarrow> None)"

record credit_operation =
  co_operation_id :: str
  co_settlement_id :: str
  co_service_user_id :: str
  co_model_id :: str
  co_provider :: "str option"
  co_status :: str
  co_prompt :: int
  co_completion :: int
  co_total :: int
  co_charged :: int
  co_balance_after :: "int option"
  co_version_after :: "int option"
  co_started_at :: int
  co_completed_at :: "int option"
  co_updated_at :: int
  co_usage_operation_id :: "str option"
  co_account :: credit_account

definition OPERATION_FIELDS :: "str list" where
  "OPERATION_FIELDS = [''operation_id'', ''settlement_id'', ''service_user_id'', ''model_id'', ''provider'', ''status'',
     ''prompt_tokens'', ''completion_tokens'', ''total_tokens'', ''charged_micro'', ''balance_after_micro'',
     ''account_version_after'', ''started_at'', ''completed_at'', ''updated_at'', ''usage_operation_id'', ''account'']"

definition CREDIT_STATUSES :: "str list" where
  "CREDIT_STATUSES = [''pending'', ''succeeded_charged'', ''cancelled_charged'', ''failed_no_charge'', ''settlement_error'']"

definition operation_fields :: "validation \<Rightarrow> (str \<times> json) list \<Rightarrow> credit_operation option" where
  "operation_fields vd p =
    (case (uuid_field vd ''operation_id'' p, uuid_field vd ''settlement_id'' p, uuid_field vd ''service_user_id'' p,
           Option.bind (field ''model_id'' p) (bounded_text vd 256), opt_text_field vd ''provider'' p, field ''status'' p) of
       (Some k, Some st, Some u, Some m, Some pr, Some (JStr s)) \<Rightarrow>
         (case (int_field vd in_bigint ''prompt_tokens'' p, int_field vd in_bigint ''completion_tokens'' p,
                int_field vd in_bigint ''total_tokens'' p, int_field vd in_bigint ''charged_micro'' p,
                opt_int_field vd signed_bigint ''balance_after_micro'' p, opt_int_field vd in_bigint ''account_version_after'' p) of
            (Some a, Some b, Some c, Some ch, Some ba, Some va) \<Rightarrow>
              (case (int_field vd in_bigint ''started_at'' p, opt_int_field vd in_bigint ''completed_at'' p,
                     int_field vd in_bigint ''updated_at'' p, opt_text_field vd ''usage_operation_id'' p,
                     Option.bind (field ''account'' p) (validate_account vd)) of
                 (Some t0, Some t1, Some t2, Some uo, Some acc) \<Rightarrow>
                   if s \<in> set CREDIT_STATUSES
                     then Some \<lparr>co_operation_id = k, co_settlement_id = st, co_service_user_id = u, co_model_id = m,
                       co_provider = pr, co_status = s, co_prompt = a, co_completion = b, co_total = c, co_charged = ch,
                       co_balance_after = ba, co_version_after = va, co_started_at = t0, co_completed_at = t1,
                       co_updated_at = t2, co_usage_operation_id = uo, co_account = acc\<rparr> else None
               | _ \<Rightarrow> None)
          | _ \<Rightarrow> None)
     | _ \<Rightarrow> None)"

definition validate_operation :: "validation \<Rightarrow> json \<Rightarrow> credit_operation option" where
  "validate_operation vd v = (case v of
     JObj p \<Rightarrow> if forbid_extra OPERATION_FIELDS p then operation_fields vd p else None | _ \<Rightarrow> None)"

text \<open>The status answer adds the refund fields; the callers read the operation in it.\<close>

definition validate_status :: "validation \<Rightarrow> json \<Rightarrow> credit_operation option" where
  "validate_status vd v = (case v of
     JObj p \<Rightarrow>
       if forbid_extra (OPERATION_FIELDS @ [''refunded'', ''refund_ledger_id'', ''refunded_micro'']) p \<and>
          Option.bind (field ''refunded'' p) (vd_bool vd) \<noteq> None \<and>
          (case field ''refund_ledger_id'' p of None \<Rightarrow> True | Some JNull \<Rightarrow> True | Some j \<Rightarrow> vd_uuid vd j \<noteq> None) \<and>
          int_field vd in_bigint ''refunded_micro'' p \<noteq> None
         then operation_fields vd p else None
   | _ \<Rightarrow> None)"

record service_user_resolution =
  su_external_client_id :: str
  su_service_user_id :: str
  su_created :: bool
  su_account :: credit_account

definition validate_resolution :: "validation \<Rightarrow> json \<Rightarrow> service_user_resolution option" where
  "validate_resolution vd v = (case v of
     JObj p \<Rightarrow>
       (case (uuid_field vd ''external_client_id'' p, uuid_field vd ''service_user_id'' p,
              Option.bind (field ''created'' p) (vd_bool vd), Option.bind (field ''account'' p) (validate_account vd)) of
          (Some c, Some u, Some b, Some a) \<Rightarrow>
            if forbid_extra [''external_client_id'', ''service_user_id'', ''created'', ''account''] p
              then Some \<lparr>su_external_client_id = c, su_service_user_id = u, su_created = b, su_account = a\<rparr> else None
        | _ \<Rightarrow> None)
   | _ \<Rightarrow> None)"

record credit_refund =
  cf_operation_id :: str
  cf_settlement_id :: str
  cf_service_user_id :: str
  cf_refund_ledger_id :: str
  cf_refunded :: int
  cf_refunded_at :: int
  cf_account :: credit_account

definition validate_refund :: "validation \<Rightarrow> json \<Rightarrow> credit_refund option" where
  "validate_refund vd v = (case v of
     JObj p \<Rightarrow>
       (case (uuid_field vd ''operation_id'' p, uuid_field vd ''settlement_id'' p, uuid_field vd ''service_user_id'' p,
              uuid_field vd ''refund_ledger_id'' p, int_field vd (\<lambda>n. 0 < n \<and> n \<le> SIGNED_BIGINT_MAX) ''refunded_micro'' p,
              int_field vd in_bigint ''refunded_at'' p, Option.bind (field ''account'' p) (validate_account vd)) of
          (Some k, Some st, Some u, Some l, Some n, Some t, Some a) \<Rightarrow>
            if forbid_extra [''operation_id'', ''settlement_id'', ''service_user_id'', ''refund_ledger_id'',
                 ''refunded_micro'', ''refunded_at'', ''account''] p
              then Some \<lparr>cf_operation_id = k, cf_settlement_id = st, cf_service_user_id = u, cf_refund_ledger_id = l,
                     cf_refunded = n, cf_refunded_at = t, cf_account = a\<rparr> else None
        | _ \<Rightarrow> None)
   | _ \<Rightarrow> None)"

subsection \<open>The request models and the calls\<close>

definition uuid_arg :: "validation \<Rightarrow> str \<Rightarrow> str res" where
  "uuid_arg vd s = (case vd_uuid vd (JStr s) of None \<Rightarrow> Inl (ValueError ''UUID'') | Some u \<Rightarrow> Inr u)"

definition text_arg :: "validation \<Rightarrow> str \<Rightarrow> str res" where
  "text_arg vd s = (case bounded_text vd 256 (JStr s) of None \<Rightarrow> Inl (ValueError ''text'') | Some t \<Rightarrow> Inr t)"

definition token_arg :: "int \<Rightarrow> int res" where
  "token_arg n = (if in_bigint n then Inr n else Inl (ValueError ''tokens''))"

text \<open>The bodies have their keys in sorted order.\<close>

definition action_body :: "validation \<Rightarrow> str \<Rightarrow> str \<Rightarrow> (str \<times> json) list res" where
  "action_body vd operation_id service_user_id =
    bind_res (uuid_arg vd operation_id) (\<lambda>k. bind_res (uuid_arg vd service_user_id) (\<lambda>u.
      Inr [(''operation_id'', JStr k), (''service_user_id'', JStr u)]))"

definition reserve_body :: "validation \<Rightarrow> str \<Rightarrow> str \<Rightarrow> str \<Rightarrow> str option \<Rightarrow> (str \<times> json) list res" where
  "reserve_body vd operation_id service_user_id model_id provider =
    bind_res (uuid_arg vd operation_id) (\<lambda>k. bind_res (uuid_arg vd service_user_id) (\<lambda>u.
    bind_res (text_arg vd model_id) (\<lambda>m.
    bind_res (case provider of None \<Rightarrow> Inr JNull | Some s \<Rightarrow> bind_res (text_arg vd s) (\<lambda>t. Inr (JStr t))) (\<lambda>p.
      Inr [(''model_id'', JStr m), (''operation_id'', JStr k), (''provider'', p), (''service_user_id'', JStr u)]))))"

definition settle_body :: "validation \<Rightarrow> str \<Rightarrow> str \<Rightarrow> int \<Rightarrow> int \<Rightarrow> (str \<times> json) list res" where
  "settle_body vd operation_id service_user_id prompt_tokens completion_tokens =
    bind_res (uuid_arg vd operation_id) (\<lambda>k. bind_res (uuid_arg vd service_user_id) (\<lambda>u.
    bind_res (token_arg prompt_tokens) (\<lambda>a. bind_res (token_arg completion_tokens) (\<lambda>b.
      Inr [(''completion_tokens'', JInt b), (''operation_id'', JStr k), (''prompt_tokens'', JInt a),
           (''service_user_id'', JStr u)]))))"

definition ow_request :: "env \<Rightarrow> codec \<Rightarrow> str \<Rightarrow> (str \<times> json) list res \<Rightarrow> (json \<Rightarrow> 'a option) \<Rightarrow> 'a prog" where
  "ow_request en cd path body validate = (case body of
     Inl e \<Rightarrow> raise e
   | Inr pairs \<Rightarrow> call en (Act_openwebui path pairs) (http_do en (ow_interpret cd validate)))"

definition ow_resolve_service_user :: "env \<Rightarrow> codec \<Rightarrow> str \<Rightarrow> service_user_resolution prog" where
  "ow_resolve_service_user en cd external_client_id =
    ow_request en cd ''/api/v1/internal/external-api/service-users/resolve''
      (bind_res (uuid_arg (cd_valid cd) external_client_id) (\<lambda>u. Inr [(''external_client_id'', JStr u)]))
      (validate_resolution (cd_valid cd))"

definition ow_reserve_operation :: "env \<Rightarrow> codec \<Rightarrow> str \<Rightarrow> str \<Rightarrow> str \<Rightarrow> str option \<Rightarrow> credit_operation prog" where
  "ow_reserve_operation en cd operation_id service_user_id model_id provider =
    ow_request en cd ''/api/v1/internal/external-api/operations/reserve''
      (reserve_body (cd_valid cd) operation_id service_user_id model_id provider) (validate_operation (cd_valid cd))"

definition ow_settle_operation :: "env \<Rightarrow> codec \<Rightarrow> str \<Rightarrow> str \<Rightarrow> int \<Rightarrow> int \<Rightarrow> credit_operation prog" where
  "ow_settle_operation en cd operation_id service_user_id prompt_tokens completion_tokens =
    ow_request en cd ''/api/v1/internal/external-api/operations/settle''
      (settle_body (cd_valid cd) operation_id service_user_id prompt_tokens completion_tokens) (validate_operation (cd_valid cd))"

definition ow_cancel_operation :: "env \<Rightarrow> codec \<Rightarrow> str \<Rightarrow> str \<Rightarrow> credit_operation prog" where
  "ow_cancel_operation en cd operation_id service_user_id =
    ow_request en cd ''/api/v1/internal/external-api/operations/cancel''
      (action_body (cd_valid cd) operation_id service_user_id) (validate_operation (cd_valid cd))"

definition ow_get_operation_status :: "env \<Rightarrow> codec \<Rightarrow> str \<Rightarrow> str \<Rightarrow> credit_operation prog" where
  "ow_get_operation_status en cd operation_id service_user_id =
    ow_request en cd ''/api/v1/internal/external-api/operations/status''
      (action_body (cd_valid cd) operation_id service_user_id) (validate_status (cd_valid cd))"

definition ow_refund_operation :: "env \<Rightarrow> codec \<Rightarrow> str \<Rightarrow> str \<Rightarrow> credit_refund prog" where
  "ow_refund_operation en cd operation_id service_user_id =
    ow_request en cd ''/api/v1/internal/external-api/operations/refund''
      (action_body (cd_valid cd) operation_id service_user_id) (validate_refund (cd_valid cd))"

subsection \<open>What a reply can be\<close>

text \<open>A reply gives a validated answer or one of the client's own errors, never anything else.\<close>

lemma ow_interpret_cases:
  obtains (answer) x where "ow_interpret cd validate reply = Inr x"
      "\<exists>status ct chunks content payload. reply = Http_reply status ct chunks \<and> status < 400 \<and>
        read_body (1024 * 1024) [] chunks = Some content \<and> cd_loads cd content = Some payload \<and> validate payload = Some x"
  | (error) code status retryable where "ow_interpret cd validate reply = Inl (OpenWebUIUpstreamError code status retryable)"
proof (cases "ow_interpret cd validate reply")
  case (Inr x)
  then show thesis
    by (intro answer [of x])
      (auto simp: ow_interpret_def Let_def ow_protocol_error_def split: http_reply.splits if_splits option.splits prod.splits)
next
  case (Inl e)
  then have "\<exists>code status retryable. e = OpenWebUIUpstreamError code status retryable"
    by (auto simp: ow_interpret_def Let_def ow_protocol_error_def split: http_reply.splits if_splits option.splits prod.splits)
  with Inl error show thesis by auto
qed

lemma int_field_Some: "int_field vd ok k p = Some n \<Longrightarrow> ok n"
  by (auto simp: int_field_def split: option.splits if_splits)

lemma operation_fields_Some:
  assumes "operation_fields vd p = Some c"
  shows "in_bigint (co_prompt c) \<and> in_bigint (co_completion c) \<and> in_bigint (co_total c) \<and> in_bigint (co_charged c) \<and>
    co_status c \<in> set CREDIT_STATUSES"
  using assms
  by (auto simp: operation_fields_def dest: int_field_Some split: option.splits json.splits if_splits)

lemma validate_operation_Some:
  "validate_operation vd v = Some c \<Longrightarrow> \<exists>p. v = JObj p \<and> operation_fields vd p = Some c"
  by (auto simp: validate_operation_def split: json.splits if_splits)

lemma validate_status_Some:
  "validate_status vd v = Some c \<Longrightarrow> \<exists>p. v = JObj p \<and> operation_fields vd p = Some c"
  by (auto simp: validate_status_def split: json.splits if_splits)

text \<open>The evidence in any answer the client accepts.\<close>

definition credit_ok :: "credit_operation \<Rightarrow> bool" where
  "credit_ok c \<longleftrightarrow> in_bigint (co_prompt c) \<and> in_bigint (co_completion c) \<and> in_bigint (co_total c) \<and> in_bigint (co_charged c) \<and>
     co_status c \<in> set CREDIT_STATUSES"

lemma ow_operation_answer:
  assumes "ow_interpret cd (validate_operation vd) reply = Inr c \<or> ow_interpret cd (validate_status vd) reply = Inr c"
  shows "credit_ok c"
proof -
  have "\<exists>p. operation_fields vd p = Some c"
    using assms
  proof
    assume "ow_interpret cd (validate_operation vd) reply = Inr c"
    then show ?thesis by (cases rule: ow_interpret_cases [of cd "validate_operation vd" reply]) (auto dest!: validate_operation_Some)
  next
    assume "ow_interpret cd (validate_status vd) reply = Inr c"
    then show ?thesis by (cases rule: ow_interpret_cases [of cd "validate_status vd" reply]) (auto dest!: validate_status_Some)
  qed
  then show ?thesis unfolding credit_ok_def by (auto dest: operation_fields_Some)
qed

end
