(* ===== verification/Recovery.thy ===== *)
theory Recovery
  imports Openwebui
begin

text \<open>
  The recovery of stale operations, \<open>backend/app/workers/recovery.py\<close>: a pending operation
  that has not been touched for a while is settled, cancelled or closed after what the credit
  service says about it.
\<close>

record candidate =
  rv_operation_id :: str
  rv_service_user_id :: str
  rv_model_id :: str
  rv_settlement_id :: "str option"
  rv_usage_operation_id :: "str option"
  rv_usage_recorded :: bool
  rv_prompt :: int
  rv_completion :: int
  rv_started_at :: int

record recovery_worker =
  rw_stale_after :: int
  rw_batch_size :: nat

definition make_recovery_worker :: "int \<Rightarrow> int \<Rightarrow> recovery_worker res" where
  "make_recovery_worker stale_after_seconds batch_size =
    (if \<not> (30 \<le> stale_after_seconds \<and> stale_after_seconds \<le> 86400) \<or> \<not> (1 \<le> batch_size \<and> batch_size \<le> 100)
       then Inl (ValueError ''chat recovery worker bounds are invalid'')
     else Inr \<lparr>rw_stale_after = stale_after_seconds, rw_batch_size = nat batch_size\<rparr>)"

subsection \<open>Candidates\<close>

definition service_user_of :: "db \<Rightarrow> operation \<Rightarrow> str option" where
  "service_user_of d p = Option.bind (find_row bd_client (op_client p) (db_bindings d)) bd_service_user_id"

definition candidate_of :: "operation \<Rightarrow> str \<Rightarrow> candidate" where
  "candidate_of p service_user_id =
    \<lparr>rv_operation_id = op_id p, rv_service_user_id = service_user_id, rv_model_id = op_model p,
     rv_settlement_id = op_settlement_id p, rv_usage_operation_id = op_usage_operation_id p,
     rv_usage_recorded = op_usage_recorded p, rv_prompt = op_prompt p, rv_completion = op_completion p,
     rv_started_at = op_started_at p\<rparr>"

definition stale_operations :: "int \<Rightarrow> db \<Rightarrow> operation list" where
  "stale_operations stale_before d = sort_key (\<lambda>p. (op_updated_at p, op_id p))
     (filter (\<lambda>p. op_state p = Pending \<and> op_updated_at p \<le> stale_before \<and> service_user_of d p \<noteq> None) (db_operations d))"

definition load_candidates :: "recovery_worker \<Rightarrow> int \<Rightarrow> db \<Rightarrow> candidate list" where
  "load_candidates rw now d =
    map (\<lambda>p. candidate_of p (the (service_user_of d p)))
      (take (rw_batch_size rw) (stale_operations (now - rw_stale_after rw) d))"

subsection \<open>Evidence\<close>

definition usage_suffix :: "str \<Rightarrow> str" where
  "usage_suffix operation_id = operation_id @ '':usage''"

definition validate_identity :: "candidate \<Rightarrow> credit_operation \<Rightarrow> unit res" where
  "validate_identity c remote =
    (if co_operation_id remote \<noteq> rv_operation_id c \<or> co_service_user_id remote \<noteq> rv_service_user_id c \<or>
        co_model_id remote \<noteq> rv_model_id c \<or> co_provider remote \<noteq> Some ''bifrost'' \<or>
        co_usage_operation_id remote \<noteq> Some (usage_suffix (rv_operation_id c)) \<or>
        (rv_settlement_id c \<noteq> None \<and> Some (co_settlement_id remote) \<noteq> rv_settlement_id c) \<or>
        (rv_usage_operation_id c \<noteq> None \<and> co_usage_operation_id remote \<noteq> rv_usage_operation_id c)
       then Inl (RuntimeError ''recovery identity evidence conflicts'') else Inr ())"

definition recovery_terminal :: "candidate \<Rightarrow> int \<Rightarrow> terminal_status \<Rightarrow> str \<Rightarrow> int \<Rightarrow> str \<Rightarrow> int \<Rightarrow> terminal" where
  "recovery_terminal c now status outcome http_status code charged_micro =
    (let completed_at = max now (rv_started_at c) in
     \<lparr>tm_status = status, tm_outcome = outcome, tm_stage = ''recovery'', tm_http_status = http_status, tm_code = code,
      tm_retryable = False, tm_duration_ms = min ((completed_at - rv_started_at c) * 1000) SIGNED_BIGINT_MAX,
      tm_charged = charged_micro, tm_qps = 0, tm_concurrency = 0,
      tm_server_request_id = ''recovery_'' @ rv_operation_id c, tm_ip_hash = None, tm_ua_family = None,
      tm_completed_at = completed_at\<rparr>)"

text \<open>The session of the worker: recording the usage, when there is any, and closing the
  operation are one transaction.\<close>

definition close_tx :: "candidate \<Rightarrow> (int \<times> int) option \<Rightarrow> terminal \<Rightarrow> str \<Rightarrow> snapshot tx" where
  "close_tx c usage t uuid d =
    bind_res (case usage of None \<Rightarrow> Inr ((), d)
              | Some (p, q) \<Rightarrow> record_provider_usage (rv_operation_id c) p q (tm_completed_at t) d) (\<lambda>(_, d1).
    bind_res (make_terminal t) (\<lambda>t. finalize_operation (rv_operation_id c) t uuid d1))"

definition close_acts :: "candidate \<Rightarrow> (int \<times> int) option \<Rightarrow> terminal \<Rightarrow> str \<Rightarrow> quota_op list" where
  "close_acts c usage t uuid =
    (case usage of None \<Rightarrow> [] | Some (p, q) \<Rightarrow> [Record_usage (rv_operation_id c) p q (tm_completed_at t)]) @
    [Finalize (rv_operation_id c) t uuid]"

definition close_operation_prog :: "env \<Rightarrow> candidate \<Rightarrow> (int \<times> int) option \<Rightarrow> terminal \<Rightarrow> unit prog" where
  "close_operation_prog en c usage t = at_log (\<lambda>l. let uuid = en_uuid en l 0 in
     bindp (call en (Act_db (close_acts c usage t uuid)) (db_tx (close_tx c usage t uuid))) (\<lambda>_. ret ()))"

definition recovery_finalize :: "env \<Rightarrow> candidate \<Rightarrow> credit_operation \<Rightarrow> int \<Rightarrow> unit prog" where
  "recovery_finalize en c remote now =
    (if list_ex (\<lambda>v. v < 0) [co_prompt remote, co_completion remote, co_total remote, co_charged remote] \<or>
        co_total remote \<noteq> co_prompt remote + co_completion remote
       then raise (RuntimeError ''recovery terminal evidence is invalid'')
     else if co_status remote = ''failed_no_charge'' \<and> co_charged remote \<noteq> 0
       then raise (RuntimeError ''no-charge recovery evidence is invalid'')
     else let succeeded = co_status remote = ''succeeded_charged'';
              usage = (if succeeded \<or> co_total remote > 0 \<or> rv_usage_recorded c
                       then Some (co_prompt remote, co_completion remote) else None);
              t = recovery_terminal c now (if succeeded then T_completed else T_abandoned)
                    (if succeeded then ''success'' else ''abandoned'') (if succeeded then 200 else 499)
                    (if succeeded then ''OK'' else ''RECOVERED_CANCELLED'') (co_charged remote)
       in close_operation_prog en c usage t)"

definition finalize_without_credit :: "env \<Rightarrow> candidate \<Rightarrow> int \<Rightarrow> unit prog" where
  "finalize_without_credit en c now =
    close_operation_prog en c None (recovery_terminal c now T_abandoned ''abandoned'' 499 ''RECOVERED_NO_CREDIT'' 0)"

subsection \<open>One candidate, and a batch\<close>

definition credit_missing :: "candidate \<Rightarrow> exn \<Rightarrow> bool" where
  "credit_missing c e \<longleftrightarrow> (case e of
     OpenWebUIUpstreamError code _ _ \<Rightarrow> code = ''OPENWEBUI_CREDIT_NOT_FOUND'' \<and> rv_settlement_id c = None \<and> \<not> rv_usage_recorded c
   | _ \<Rightarrow> False)"

definition resolve_pending :: "env \<Rightarrow> codec \<Rightarrow> candidate \<Rightarrow> credit_operation prog" where
  "resolve_pending en cd c =
    (if rv_usage_recorded c then
       bindp (ow_settle_operation en cd (rv_operation_id c) (rv_service_user_id c) (rv_prompt c) (rv_completion c)) (\<lambda>remote.
       bindp (of_res (validate_identity c remote)) (\<lambda>_.
         if co_status remote \<noteq> ''succeeded_charged'' then raise (RuntimeError ''recovery settlement is not terminal'')
         else ret remote))
     else
       bindp (ow_cancel_operation en cd (rv_operation_id c) (rv_service_user_id c)) (\<lambda>remote.
       bindp (of_res (validate_identity c remote)) (\<lambda>_.
         if co_status remote \<notin> {''cancelled_charged'', ''failed_no_charge''}
           then raise (RuntimeError ''recovery cancellation is not terminal'')
         else ret remote)))"

definition recover_with :: "env \<Rightarrow> codec \<Rightarrow> candidate \<Rightarrow> int \<Rightarrow> credit_operation \<Rightarrow> unit prog" where
  "recover_with en cd c now remote =
    bindp (of_res (validate_identity c remote)) (\<lambda>_.
      if co_status remote = ''settlement_error'' then ret ()
      else bindp (if co_status remote = ''pending'' then resolve_pending en cd c else ret remote) (\<lambda>remote.
        if co_status remote \<notin> {''succeeded_charged'', ''cancelled_charged'', ''failed_no_charge''} then ret ()
        else recovery_finalize en c remote now))"

definition recovery_process :: "env \<Rightarrow> codec \<Rightarrow> candidate \<Rightarrow> int \<Rightarrow> unit prog" where
  "recovery_process en cd c now =
    bindp (except (bindp (ow_get_operation_status en cd (rv_operation_id c) (rv_service_user_id c)) (\<lambda>r. ret (Some r)))
            (\<lambda>e. if credit_missing c e then bindp (finalize_without_credit en c now) (\<lambda>_. ret None) else raise e)) (\<lambda>r.
      case r of None \<Rightarrow> ret () | Some remote \<Rightarrow> recover_with en cd c now remote)"

text \<open>The exceptions the loop survives.\<close>

definition survives :: "exn \<Rightarrow> bool" where
  "survives e \<longleftrightarrow> is_value_error e \<or> is_runtime_error e"

fun recover_all :: "env \<Rightarrow> codec \<Rightarrow> int \<Rightarrow> candidate list \<Rightarrow> unit prog" where
  "recover_all en cd now [] = ret ()"
| "recover_all en cd now (c # cs) =
    bindp (except (recovery_process en cd c now) (\<lambda>e. if survives e then ret () else raise e)) (\<lambda>_.
      recover_all en cd now cs)"

definition recovery_run_once :: "env \<Rightarrow> codec \<Rightarrow> recovery_worker \<Rightarrow> int \<Rightarrow> int prog" where
  "recovery_run_once en cd rw now =
    (if now < 0 then raise (ValueError ''recovery time is invalid'')
     else bindp (call en (Act_db []) (db_read (load_candidates rw now))) (\<lambda>candidates.
       bindp (recover_all en cd now candidates) (\<lambda>_. ret (int (length candidates)))))"

end
