(* ===== verification/Recovery_Properties.thy ===== *)
theory Recovery_Properties
  imports Recovery
begin

text \<open>
  Properties of the recovery worker: an operation is closed only on evidence, a candidate
  with terminal evidence is closed, and a batch leaves the ledger consistent whatever the
  credit service answers.
\<close>

subsection \<open>Requests do not touch the database\<close>

lemma ow_request_world:
  "wd_db (snd (ow_request en cd path body validate w)) = wd_db w"
  "wd_redis (snd (ow_request en cd path body validate w)) = wd_redis w"
proof -
  have "snd (call en (Act_openwebui path p) (http_do en (ow_interpret cd validate)) w) = record_act (Act_openwebui path p) w" for p
    using call_world [of en "Act_openwebui path p" "http_do en (ow_interpret cd validate)" w] by (auto simp: http_do_def)
  then show "wd_db (snd (ow_request en cd path body validate w)) = wd_db w"
    "wd_redis (snd (ow_request en cd path body validate w)) = wd_redis w"
    by (auto simp: ow_request_def split: sum.splits)
qed

lemma ow_request_Inr:
  assumes "ow_request en cd path body validate w = (Inr x, w')"
  shows "\<exists>l. ow_interpret cd validate (en_reply en l) = Inr x"
  using assms by (auto simp: ow_request_def call_Inr http_do_def split: sum.splits)

lemma ow_request_run:
  assumes "ow_request en cd path body validate w = (r, w')"
  shows "wd_db w' = wd_db w"
  using ow_request_world(1) [of en cd path body validate w] assms by simp

lemmas ow_calls = ow_get_operation_status_def ow_settle_operation_def ow_cancel_operation_def

lemma ow_call_run:
  "ow_get_operation_status en cd k u w = (r, w') \<Longrightarrow> wd_db w' = wd_db w"
  "ow_settle_operation en cd k u p q w = (r, w') \<Longrightarrow> wd_db w' = wd_db w"
  "ow_cancel_operation en cd k u w = (r, w') \<Longrightarrow> wd_db w' = wd_db w"
  by (auto simp: ow_calls dest: ow_request_run)

text \<open>An answer of the credit service about an operation, as the client accepts it.\<close>

definition answered :: "env \<Rightarrow> codec \<Rightarrow> credit_operation \<Rightarrow> bool" where
  "answered en cd remote \<longleftrightarrow> (\<exists>l. ow_interpret cd (validate_operation (cd_valid cd)) (en_reply en l) = Inr remote \<or>
     ow_interpret cd (validate_status (cd_valid cd)) (en_reply en l) = Inr remote)"

lemma ow_call_answer:
  "ow_get_operation_status en cd k u w = (Inr remote, w') \<Longrightarrow> answered en cd remote"
  "ow_settle_operation en cd k u p q w = (Inr remote, w') \<Longrightarrow> answered en cd remote"
  "ow_cancel_operation en cd k u w = (Inr remote, w') \<Longrightarrow> answered en cd remote"
  by (auto simp: ow_calls answered_def dest!: ow_request_Inr)

lemma answered_ok: "answered en cd remote \<Longrightarrow> credit_ok remote"
  using ow_operation_answer by (fastforce simp: answered_def)

subsection \<open>The closing transaction\<close>

lemma close_prog_run:
  assumes "close_operation_prog en c usage t w = (r, w')"
  shows "wd_db w' = wd_db w \<or> (\<exists>uuid sn. commit_tx (close_tx c usage t uuid) (wd_db w) = Inr (sn, wd_db w'))"
proof -
  let ?uuid = "en_uuid en (wd_log w) 0"
  let ?a = "Act_db (close_acts c usage t ?uuid)"
  let ?m = "db_tx (close_tx c usage t ?uuid)"
  have "wd_db w' = wd_db (snd (call en ?a ?m w))"
    using assms by (auto simp: close_operation_prog_def at_log_def Let_def bindp_def split: prod.splits sum.splits)
  moreover have "wd_db (snd (?m (record_act ?a w))) = snd (in_tx (close_tx c usage t ?uuid) (wd_db w))"
    by (simp add: db_tx_def split: prod.splits)
  moreover have "wd_db (snd (call en ?a ?m w)) = wd_db w \<or> wd_db (snd (call en ?a ?m w)) = wd_db (snd (?m (record_act ?a w)))"
    using call_world [of en ?a ?m w] by auto
  ultimately show ?thesis
    by (auto simp: in_tx_def split: sum.splits)
qed

lemma record_usage_find:
  assumes "record_provider_usage k a b now d = Inr (u, d1)"
  shows "\<exists>p. find_row op_id k (db_operations d) = Some p \<and> op_state p = Pending \<and>
    find_row op_id k (db_operations d1) = Some (p\<lparr>op_prompt := a, op_completion := b, op_total := a + b,
      op_usage_recorded := True, op_updated_at := now\<rparr>) \<and> db_events d1 = db_events d"
proof -
  obtain p where p: "pending_operation k d = Inr p" and d1: "d1 = set_operation k (\<lambda>p. p\<lparr>op_prompt := a, op_completion := b,
      op_total := a + b, op_usage_recorded := True, op_updated_at := now\<rparr>) d"
    using assms by (auto simp: record_provider_usage_def Let_def bind_res_Inr split: if_splits)
  have "find_row op_id k (db_operations d) = Some p \<and> op_state p = Pending"
    using p by (auto simp: pending_operation_def split: option.splits if_splits)
  then show ?thesis by (auto simp: d1 set_operation_def find_row_update)
qed

text \<open>What a closing transaction that changed anything has left behind.\<close>

definition closed_by :: "str \<Rightarrow> (int \<times> int) option \<Rightarrow> terminal \<Rightarrow> db \<Rightarrow> db \<Rightarrow> bool" where
  "closed_by k usage t d d' \<longleftrightarrow> (\<exists>p p' e. find_row op_id k (db_operations d) = Some p \<and> op_state p = Pending \<and>
     find_row op_id k (db_operations d') = Some p' \<and> op_state p' = op_status_of (tm_status t) \<and>
     db_events d' = db_events d @ [e] \<and> ev_operation e = Some k \<and> ev_charged e = tm_charged t \<and>
     ev_outcome e = tm_outcome t \<and> ev_stage e = tm_stage t \<and> ev_code e = tm_code t \<and>
     (case usage of None \<Rightarrow> ev_prompt e = op_prompt p \<and> ev_completion e = op_completion p
      | Some (a, b) \<Rightarrow> ev_prompt e = a \<and> ev_completion e = b))"

lemma finalize_closed_by:
  assumes "finalize_operation k t uuid d = Inr (sn, d')" and "d' \<noteq> d"
  shows "closed_by k None t d d'"
  using assms(1)
proof (cases rule: finalize_operation_Inr)
  case (replay p daily lifetime)
  with assms(2) show ?thesis by simp
next
  case (closed p daily lifetime)
  have k: "op_id p = k" using find_row_Some [OF closed(1)] by simp
  show ?thesis
    unfolding closed_by_def option.case
    using closed(1,2) k
    by (intro exI conjI) (auto simp: closed(8) finalized_db_def Let_def set_operation_def find_row_update
        terminal_event_def close_operation_def)
qed

lemma close_tx_closed_by:
  assumes "commit_tx (close_tx c usage t uuid) d = Inr (sn, d')" and "d' \<noteq> d"
  shows "closed_by (rv_operation_id c) usage t d d'"
proof (cases usage)
  case None
  then have "finalize_operation (rv_operation_id c) t uuid d = Inr (sn, d')"
    using assms(1) by (auto simp: commit_tx_Inr close_tx_def bind_res_Inr dest: make_terminal_Inr)
  from finalize_closed_by [OF this assms(2)] None show ?thesis by simp
next
  case (Some ab)
  obtain a b where ab: "usage = Some (a, b)" using Some by (cases ab) auto
  obtain u d1 where s: "record_provider_usage (rv_operation_id c) a b (tm_completed_at t) d = Inr (u, d1)"
    "finalize_operation (rv_operation_id c) t uuid d1 = Inr (sn, d')"
    using assms(1) by (auto simp: ab commit_tx_Inr close_tx_def bind_res_Inr dest: make_terminal_Inr)
  obtain p where p: "find_row op_id (rv_operation_id c) (db_operations d) = Some p" "op_state p = Pending"
    "find_row op_id (rv_operation_id c) (db_operations d1) = Some (p\<lparr>op_prompt := a, op_completion := b, op_total := a + b,
      op_usage_recorded := True, op_updated_at := tm_completed_at t\<rparr>)" "db_events d1 = db_events d"
    using record_usage_find [OF s(1)] by blast
  have "d' \<noteq> d1"
  proof
    assume "d' = d1"
    with s(2) p(2,3) show False
      by (cases rule: finalize_operation_Inr) (auto simp: finalized_db_def Let_def dest: arg_cong [where f = db_events])
  qed
  from finalize_closed_by [OF s(2) this] p show ?thesis by (auto simp: closed_by_def ab)
qed


subsection \<open>An operation is closed only on evidence\<close>

text \<open>The evidence: an answer of the credit service that names this very operation, user,
  model and settlement, in a terminal state.\<close>

definition terminal_evidence :: "candidate \<Rightarrow> credit_operation \<Rightarrow> (int \<times> int) option \<Rightarrow> terminal \<Rightarrow> bool" where
  "terminal_evidence c remote usage t \<longleftrightarrow> validate_identity c remote = Inr () \<and>
     tm_charged t = co_charged remote \<and> co_total remote = co_prompt remote + co_completion remote \<and>
     (usage = Some (co_prompt remote, co_completion remote) \<or> usage = None \<and> co_total remote = 0) \<and>
     (if co_status remote = ''succeeded_charged'' then tm_status t = T_completed \<and> usage \<noteq> None
      else tm_status t = T_abandoned \<and> co_status remote \<in> {''cancelled_charged'', ''failed_no_charge''} \<and>
        (co_status remote = ''failed_no_charge'' \<longrightarrow> tm_charged t = 0))"

definition no_credit_evidence :: "candidate \<Rightarrow> (int \<times> int) option \<Rightarrow> terminal \<Rightarrow> bool" where
  "no_credit_evidence c usage t \<longleftrightarrow> rv_settlement_id c = None \<and> \<not> rv_usage_recorded c \<and> usage = None \<and>
     tm_status t = T_abandoned \<and> tm_charged t = 0 \<and> tm_code t = ''RECOVERED_NO_CREDIT''"

lemma close_prog_closed_by:
  assumes "close_operation_prog en c usage t w = (r, w')" and "wd_db w' \<noteq> wd_db w"
  shows "closed_by (rv_operation_id c) usage t (wd_db w) (wd_db w')"
  using close_prog_run [OF assms(1)] assms(2) close_tx_closed_by by blast

lemma recovery_finalize_evidence:
  assumes "recovery_finalize en c remote now w = (r, w')" and "wd_db w' \<noteq> wd_db w"
    and "validate_identity c remote = Inr ()" and "credit_ok remote"
    and "co_status remote \<in> {''succeeded_charged'', ''cancelled_charged'', ''failed_no_charge''}"
  shows "\<exists>usage t. closed_by (rv_operation_id c) usage t (wd_db w) (wd_db w') \<and> terminal_evidence c remote usage t"
proof -
  define usage where "usage = (if co_status remote = ''succeeded_charged'' \<or> co_total remote > 0 \<or> rv_usage_recorded c
      then Some (co_prompt remote, co_completion remote) else None)"
  define t where "t = recovery_terminal c now (if co_status remote = ''succeeded_charged'' then T_completed else T_abandoned)
      (if co_status remote = ''succeeded_charged'' then ''success'' else ''abandoned'')
      (if co_status remote = ''succeeded_charged'' then 200 else 499)
      (if co_status remote = ''succeeded_charged'' then ''OK'' else ''RECOVERED_CANCELLED'') (co_charged remote)"
  have s: "co_total remote = co_prompt remote + co_completion remote"
    "\<not> (co_status remote = ''failed_no_charge'' \<and> co_charged remote \<noteq> 0)"
    "close_operation_prog en c usage t w = (r, w')"
    using assms(1,2) unfolding usage_def t_def recovery_finalize_def by (auto simp: Let_def split: if_splits)
  have tm: "tm_charged t = co_charged remote"
    "tm_status t = (if co_status remote = ''succeeded_charged'' then T_completed else T_abandoned)"
    by (simp_all add: t_def recovery_terminal_def Let_def)
  have "0 \<le> co_total remote" using assms(4) by (simp add: credit_ok_def in_bigint_def)
  then have "terminal_evidence c remote usage t"
    unfolding terminal_evidence_def using assms(3,5) s(1,2) tm by (auto simp: usage_def)
  with close_prog_closed_by [OF s(3) assms(2)] show ?thesis by blast
qed

lemma resolve_pending_Inr:
  assumes "resolve_pending en cd c w = (Inr remote, w')"
  shows "answered en cd remote \<and> validate_identity c remote = Inr () \<and>
    co_status remote \<in> {''succeeded_charged'', ''cancelled_charged'', ''failed_no_charge''}"
  using assms by (auto simp: resolve_pending_def bindp_Inr dest: ow_call_answer split: if_splits)

lemma resolve_pending_run:
  assumes "resolve_pending en cd c w = (r, w')"
  shows "wd_db w' = wd_db w"
  using assms by (auto simp: resolve_pending_def bindp_def dest: ow_call_run split: if_splits prod.splits sum.splits)

lemma recover_with_evidence:
  assumes "recover_with en cd c now remote w = (r, w')" and "wd_db w' \<noteq> wd_db w" and "answered en cd remote"
  shows "\<exists>usage t remote. closed_by (rv_operation_id c) usage t (wd_db w) (wd_db w') \<and>
    answered en cd remote \<and> terminal_evidence c remote usage t"
proof (cases "co_status remote = ''pending''")
  case True
  then obtain r1 w1 where p: "resolve_pending en cd c w = (r1, w1)" by fastforce
  have db: "wd_db w1 = wd_db w" by (rule resolve_pending_run [OF p])
  obtain remote2 where r1: "r1 = Inr remote2"
    using assms(1,2) True p db by (cases r1) (auto simp: recover_with_def bindp_def split: sum.splits)
  note e = resolve_pending_Inr [OF p [unfolded r1]]
  have f: "recovery_finalize en c remote2 now w1 = (r, w')"
    using assms(1,2) True p e db by (auto simp: recover_with_def bindp_def r1 split: sum.splits)
  have ne: "wd_db w' \<noteq> wd_db w1" using assms(2) db by simp
  have "credit_ok remote2" using e answered_ok by blast
  from recovery_finalize_evidence [OF f ne _ this] e show ?thesis unfolding db by blast
next
  case False
  have v: "validate_identity c remote = Inr ()"
    using assms(1,2) by (cases "validate_identity c remote") (auto simp: recover_with_def bindp_def)
  have s: "co_status remote \<in> {''succeeded_charged'', ''cancelled_charged'', ''failed_no_charge''}"
    "recovery_finalize en c remote now w = (r, w')"
    using assms(1,2) False v by (auto simp: recover_with_def bindp_def split: if_splits)
  from recovery_finalize_evidence [OF s(2) assms(2) v answered_ok [OF assms(3)] s(1)] assms(3) show ?thesis by blast
qed



subsection \<open>A batch keeps the ledger\<close>

lemma close_tx_keeps: "tx_keeps (close_tx c usage t uuid)"
  unfolding tx_keeps_def
proof (intro allI impI)
  fix d x d'
  assume inv: "ledger_inv d" and c: "commit_tx (close_tx c usage t uuid) d = Inr (x, d')"
  obtain d1 where d1: "ledger_inv d1" "finalize_operation (rv_operation_id c) t uuid d1 = Inr (x, d')"
  proof (cases usage)
    case None
    then show thesis
      using c inv by (intro that [of d]) (auto simp: commit_tx_Inr close_tx_def bind_res_Inr dest: make_terminal_Inr)
  next
    case (Some ab)
    obtain a b where "usage = Some (a, b)" using Some by (cases ab) auto
    then obtain u e where "record_provider_usage (rv_operation_id c) a b (tm_completed_at t) d = Inr (u, e)"
      "finalize_operation (rv_operation_id c) t uuid e = Inr (x, d')"
      using c by (auto simp: commit_tx_Inr close_tx_def bind_res_Inr dest: make_terminal_Inr)
    then show thesis using record_usage_inv [OF inv] that by blast
  qed
  have "commit_tx (finalize_operation (rv_operation_id c) t uuid) d1 = Inr (x, d')"
    using c d1(2) by (simp add: commit_tx_Inr)
  from quota_step_inv [OF d1(1) committed_step(5) [OF this]] show "ledger_inv d'" .
qed

lemma close_prog_keeps: "always keeps_ledger (close_operation_prog en c usage t)"
  unfolding close_operation_prog_def Let_def by (intro keeps_rules close_tx_keeps)

lemma ow_request_keeps: "always keeps_ledger (ow_request en cd path body validate)"
  by (simp add: always_def keeps_ledger_def ow_request_world)

lemma process_keeps: "always keeps_ledger (recovery_process en cd c now)"
  unfolding recovery_process_def finalize_without_credit_def recover_with_def resolve_pending_def recovery_finalize_def
    Let_def ow_calls
  by (intro keeps_rules close_prog_keeps ow_request_keeps)

lemma recover_all_keeps: "always keeps_ledger (recover_all en cd now cs)"
  by (induction cs) (simp_all only: recover_all.simps, intro keeps_rules, (intro keeps_rules process_keeps | assumption)+)

lemma recovery_candidates: "recovery_run_once en cd rw now w = (Inr n, w') \<Longrightarrow>
    0 \<le> now \<and> n = int (length (load_candidates rw now (wd_db w)))"
  by (auto simp: recovery_run_once_def bindp_Inr call_Inr db_read_def split: if_splits)

lemma run_once_keeps: "always keeps_ledger (recovery_run_once en cd rw now)"
  unfolding recovery_run_once_def by (intro keeps_rules recover_all_keeps)

subsection \<open>A candidate with terminal evidence is closed\<close>

lemma record_usage_succeeds:
  assumes "find_row op_id k (db_operations d) = Some p" "op_state p = Pending" "0 \<le> a" "0 \<le> b" "a + b \<le> SIGNED_BIGINT_MAX"
    "op_usage_recorded p \<longrightarrow> (op_prompt p, op_completion p, op_total p) = (a, b, a + b)"
  shows "\<exists>d1. record_provider_usage k a b now d = Inr ((), d1) \<and>
    find_row op_id k (db_operations d1) = Some (p\<lparr>op_prompt := a, op_completion := b, op_total := a + b,
      op_usage_recorded := True, op_updated_at := now\<rparr>) \<and>
    db_quotas d1 = db_quotas d \<and> db_events d1 = db_events d"
  using assms by (auto simp: record_provider_usage_def Let_def pending_operation_def find_row_update)

lemma close_tx_commits:
  assumes inv: "ledger_inv d" and t: "make_terminal t = Inr t"
    and p: "find_row op_id (rv_operation_id c) (db_operations d) = Some p" "op_state p = Pending"
    and time: "op_started_at p \<le> tm_completed_at t"
    and use: "case usage of None \<Rightarrow> True | Some (a, b) \<Rightarrow> 0 \<le> a \<and> 0 \<le> b \<and> a + b \<le> SIGNED_BIGINT_MAX \<and>
      (op_usage_recorded p \<longrightarrow> (op_prompt p, op_completion p, op_total p) = (a, b, a + b))"
    and room: "\<forall>q \<in> set (db_quotas d). qu_consumed q + (case usage of None \<Rightarrow> op_total p | Some (a, b) \<Rightarrow> a + b) \<le> SIGNED_BIGINT_MAX"
    and fresh: "uuid \<notin> set (map ev_id (db_events d))"
      "tm_server_request_id t \<notin> set (map ev_server_request_id (db_events d))"
  shows "\<exists>sn d' p'. commit_tx (close_tx c usage t uuid) d = Inr (sn, d') \<and>
    find_row op_id (rv_operation_id c) (db_operations d') = Some (close_operation t p') \<and> op_client p' = op_client p"
proof (cases usage)
  case None
  from finalize_pending [OF inv t p time _ fresh] room None show ?thesis
    by (fastforce simp: commit_tx_Inr close_tx_def t)
next
  case (Some ab)
  obtain a b where ab: "usage = Some (a, b)" using Some by (cases ab) auto
  let ?p1 = "p\<lparr>op_prompt := a, op_completion := b, op_total := a + b, op_usage_recorded := True, op_updated_at := tm_completed_at t\<rparr>"
  obtain d1 where d1: "record_provider_usage (rv_operation_id c) a b (tm_completed_at t) d = Inr ((), d1)"
    "find_row op_id (rv_operation_id c) (db_operations d1) = Some ?p1"
    "db_quotas d1 = db_quotas d" "db_events d1 = db_events d"
    using record_usage_succeeds [OF p, of a b "tm_completed_at t"] use unfolding ab option.case prod.case by blast
  have "\<exists>sn d'. finalize_operation (rv_operation_id c) t uuid d1 = Inr (sn, d') \<and> db_ok d' \<and>
      find_row op_id (rv_operation_id c) (db_operations d') = Some (close_operation t ?p1)"
    using p(2) time room fresh
    by (intro finalize_pending [OF record_usage_inv [OF inv d1(1)] t d1(2)]) (simp_all add: d1(3,4) ab)
  then show ?thesis by (fastforce simp: commit_tx_Inr close_tx_def t ab d1(1))
qed


lemma candidate_of_sel [simp]:
  "rv_operation_id (candidate_of p u) = op_id p" "rv_service_user_id (candidate_of p u) = u"
  "rv_model_id (candidate_of p u) = op_model p" "rv_usage_recorded (candidate_of p u) = op_usage_recorded p"
  "rv_started_at (candidate_of p u) = op_started_at p"
  by (simp_all add: candidate_of_def)

lemma recovery_terminal_ok:
  assumes "(status, outcome, http_status, code) \<in> {(T_completed, ''success'', 200, ''OK''), (T_abandoned, ''abandoned'', 499, ''RECOVERED_CANCELLED'')}"
    and "0 \<le> charged_micro" and "py_len (rv_operation_id c) \<le> 119"
  shows "make_terminal (recovery_terminal c now status outcome http_status code charged_micro) =
    Inr (recovery_terminal c now status outcome http_status code charged_micro)"
proof -
  have "py_len (''recovery_'' @ s) = 9 + py_len s" for s :: str
    by (simp add: py_len_def is_continuation_byte_def)
  with assms(3) have request: "py_len (''recovery_'' @ rv_operation_id c) \<le> 128" by simp
  have bounds: "0 \<le> min ((max now (rv_started_at c) - rv_started_at c) * 1000) SIGNED_BIGINT_MAX"
    by (simp add: SIGNED_BIGINT_MAX_def)
  have classes: "{''success'', ''abandoned''} \<subseteq> set EVENT_OUTCOMES" "''recovery'' \<in> set EVENT_STAGES"
    "py_len ''OK'' \<le> 64" "py_len ''RECOVERED_CANCELLED'' \<le> 64"
    by code_simp+
  have "outcome \<in> set EVENT_OUTCOMES \<and> 100 \<le> http_status \<and> http_status \<le> 599 \<and> code \<noteq> [] \<and> py_len code \<le> 64"
    using assms(1) classes by (elim insertE emptyE) auto
  then show ?thesis
    using request bounds classes(2) assms(2) by (simp add: make_terminal_def recovery_terminal_def Let_def)
qed

lemma recovery_finalize_closes:
  assumes inv: "ledger_inv (wd_db w)" and fate: "\<And>l. en_fate en l = Ends"
    and p: "find_row op_id (op_id p) (db_operations (wd_db w)) = Some p" "op_state p = Pending"
    and status: "co_status remote \<in> {''succeeded_charged'', ''cancelled_charged'', ''failed_no_charge''}"
    and tokens: "co_total remote = co_prompt remote + co_completion remote"
    and ok: "credit_ok remote" and charge: "co_status remote = ''failed_no_charge'' \<longrightarrow> co_charged remote = 0"
    and agree: "op_usage_recorded p \<longrightarrow> (op_prompt p, op_completion p, op_total p) =
      (co_prompt remote, co_completion remote, co_total remote)"
    and room: "\<forall>q \<in> set (db_quotas (wd_db w)). qu_consumed q + max (op_total p) (co_total remote) \<le> SIGNED_BIGINT_MAX"
    and fresh: "\<And>l n. en_uuid en l n \<notin> set (map ev_id (db_events (wd_db w)))"
      "''recovery_'' @ op_id p \<notin> set (map ev_server_request_id (db_events (wd_db w)))"
    and id: "py_len (op_id p) \<le> 119"
  shows "\<exists>w' p'. recovery_finalize en (candidate_of p u) remote now w = (Inr (), w') \<and>
    find_row op_id (op_id p) (db_operations (wd_db w')) = Some p' \<and>
    op_state p' = (if co_status remote = ''succeeded_charged'' then Completed else Abandoned)"
proof -
  let ?c = "candidate_of p u"
  define succeeded where "succeeded \<longleftrightarrow> co_status remote = ''succeeded_charged''"
  define usage where "usage = (if succeeded \<or> co_total remote > 0 \<or> rv_usage_recorded ?c
      then Some (co_prompt remote, co_completion remote) else None)"
  define t where "t = recovery_terminal ?c now (if succeeded then T_completed else T_abandoned)
      (if succeeded then ''success'' else ''abandoned'') (if succeeded then 200 else 499)
      (if succeeded then ''OK'' else ''RECOVERED_CANCELLED'') (co_charged remote)"
  have nonneg: "0 \<le> co_prompt remote" "0 \<le> co_completion remote" "0 \<le> co_total remote" "0 \<le> co_charged remote"
    "co_total remote \<le> SIGNED_BIGINT_MAX"
    using ok by (simp_all add: credit_ok_def in_bigint_def)
  have t: "make_terminal t = Inr t"
    unfolding t_def by (rule recovery_terminal_ok [OF _ nonneg(4)]) (use id in \<open>cases succeeded; simp\<close>)+
  have sel: "tm_server_request_id t = ''recovery_'' @ op_id p" "op_started_at p \<le> tm_completed_at t"
    "tm_status t = (if succeeded then T_completed else T_abandoned)"
    by (simp_all add: t_def recovery_terminal_def Let_def)
  have 1: "find_row op_id (rv_operation_id ?c) (db_operations (wd_db w)) = Some p" using p(1) by simp
  have 2: "case usage of None \<Rightarrow> True | Some (a, b) \<Rightarrow> 0 \<le> a \<and> 0 \<le> b \<and> a + b \<le> SIGNED_BIGINT_MAX \<and>
      (op_usage_recorded p \<longrightarrow> (op_prompt p, op_completion p, op_total p) = (a, b, a + b))"
    using nonneg tokens agree by (auto simp: usage_def)
  have 3: "\<forall>q \<in> set (db_quotas (wd_db w)). qu_consumed q +
      (case usage of None \<Rightarrow> op_total p | Some (a, b) \<Rightarrow> a + b) \<le> SIGNED_BIGINT_MAX"
    using room tokens by (fastforce simp: usage_def)
  define uuid where "uuid = en_uuid en (wd_log w) 0"
  have 4: "uuid \<notin> set (map ev_id (db_events (wd_db w)))"
    "tm_server_request_id t \<notin> set (map ev_server_request_id (db_events (wd_db w)))"
    using fresh by (simp_all add: uuid_def sel)
  obtain sn d' p' where c: "commit_tx (close_tx ?c usage t uuid) (wd_db w) = Inr (sn, d')"
    "find_row op_id (rv_operation_id ?c) (db_operations d') = Some (close_operation t p')"
    using close_tx_commits [OF inv t 1 p(2) sel(2) 2 3 4] by blast
  have "recovery_finalize en ?c remote now w = close_operation_prog en ?c usage t w"
    using nonneg tokens charge by (auto simp: recovery_finalize_def Let_def usage_def t_def succeeded_def)
  also have "\<dots> = (Inr (), (record_act (Act_db (close_acts ?c usage t uuid)) w)\<lparr>wd_db := d'\<rparr>)"
    by (simp add: close_operation_prog_def at_log_def Let_def bindp_def call_def fate db_tx_def in_tx_def c(1)
        flip: uuid_def)
  finally show ?thesis using c(2) sel(3) by (auto simp: succeeded_def close_operation_def)
qed

text \<open>Recovery makes progress. When no call fails and the credit service answers for a
  stale pending operation with a terminal state of its own (at once, or after the settlement
  or cancellation the worker asks for), the operation is closed: completed when it was
  charged as a success, abandoned otherwise.\<close>

theorem recovery_closes_terminal:
  assumes "ledger_inv (wd_db w)" and "\<And>l. en_fate en l = Ends"
    and "find_row op_id (op_id p) (db_operations (wd_db w)) = Some p" and "op_state p = Pending"
    and "ow_get_operation_status en cd (op_id p) u w = (Inr r0, w0)" and "validate_identity (candidate_of p u) r0 = Inr ()"
    and "(if co_status r0 = ''pending'' then resolve_pending en cd (candidate_of p u) else ret r0) w0 = (Inr remote, w1)"
    and "co_status remote \<in> {''succeeded_charged'', ''cancelled_charged'', ''failed_no_charge''}"
    and "co_total remote = co_prompt remote + co_completion remote"
    and "co_status remote = ''failed_no_charge'' \<longrightarrow> co_charged remote = 0"
    and "op_usage_recorded p \<longrightarrow> (op_prompt p, op_completion p, op_total p) =
      (co_prompt remote, co_completion remote, co_total remote)"
    and "\<forall>q \<in> set (db_quotas (wd_db w)). qu_consumed q + max (op_total p) (co_total remote) \<le> SIGNED_BIGINT_MAX"
    and "\<And>l n. en_uuid en l n \<notin> set (map ev_id (db_events (wd_db w)))"
    and "''recovery_'' @ op_id p \<notin> set (map ev_server_request_id (db_events (wd_db w)))"
    and "py_len (op_id p) \<le> 119"
  shows "\<exists>w' p'. recovery_process en cd (candidate_of p u) now w = (Inr (), w') \<and>
    find_row op_id (op_id p) (db_operations (wd_db w')) = Some p' \<and>
    op_state p' = (if co_status remote = ''succeeded_charged'' then Completed else Abandoned)"
proof -
  let ?c = "candidate_of p u"
  have "answered en cd remote \<and> wd_db w1 = wd_db w"
    using assms(7) ow_call_run(1) [OF assms(5)] ow_call_answer(1) [OF assms(5)]
    by (auto dest: resolve_pending_Inr resolve_pending_run split: if_splits)
  then have ok: "credit_ok remote" and db: "wd_db w1 = wd_db w" using answered_ok by blast+
  have "co_status r0 \<noteq> ''settlement_error''"
    using assms(7,8) by (auto split: if_splits)
  then have "recovery_process en cd ?c now w = recovery_finalize en ?c remote now w1"
    using assms(5-8) by (auto simp: recovery_process_def bindp_def except_def recover_with_def split: if_splits)
  with recovery_finalize_closes [of w1 en p remote u now] assms(1-4,8-15) ok db show ?thesis by simp
qed

subsection \<open>Whole batches\<close>

text \<open>A batch keeps the ledger whatever the credit service answers and whichever call
  fails, and when it returns it has gone through every candidate it selected, at most the
  batch size.\<close>

theorem recovery_batch_keeps_ledger:
  assumes "ledger_inv (wd_db w)" and "recovery_run_once en cd rw now w = (r, w')"
  shows "ledger_inv (wd_db w') \<and> (case r of Inl _ \<Rightarrow> True
    | Inr n \<Rightarrow> n = int (length (load_candidates rw now (wd_db w))) \<and> n \<le> int (rw_batch_size rw))"
proof -
  have "ledger_inv (wd_db w')"
    using run_once_keeps [of en cd rw now] assms by (auto simp: always_def keeps_ledger_def dest: spec [of _ w])
  with assms(2) show ?thesis
    by (auto dest: recovery_candidates simp: load_candidates_def split: sum.splits)
qed

subsection \<open>A worked recovery\<close>

text \<open>An operation of a bound client was reserved and then forgotten; the credit service
  knows it as settled.\<close>

definition sample_binding :: binding where
  "sample_binding = \<lparr>bd_id = ''b1'', bd_client = ''c1'', bd_service_user_id = Some ''u1'', bd_virtual_key_id = Some ''v1'',
     bd_value_ciphertext = Some ''x'', bd_value_key_version = Some ''mk'', bd_config_hash = ''h'', bd_sync_status = Sync_active,
     bd_last_error = None, bd_version = 1, bd_created_at = 1, bd_updated_at = 1\<rparr>"

definition sample_bound_db :: db where
  "sample_bound_db = sample_db\<lparr>db_bindings := [sample_binding]\<rparr>"

definition sample_stale_db :: db where
  "sample_stale_db = (case quota_step (Reserve sample_rq ''u1'' ''u2'') sample_bound_db of
     Inl _ \<Rightarrow> sample_bound_db | Inr d \<Rightarrow> d)"

lemma sample_bound_inv: "ledger_inv sample_bound_db"
  by (simp add: ledger_inv_def db_ok_def caller_tables_ok_def control_tables_ok_def usage_tables_ok_def
      ledger_ok_def evidence_complete_def sample_defs client_ok_def credential_ok_def py_len_def
      is_continuation_byte_def sample_bound_db_def sample_binding_def binding_ok_def)

lemma sample_stale_inv: "ledger_inv sample_stale_db"
  using quota_step_inv [OF sample_bound_inv, of "Reserve sample_rq ''u1'' ''u2''"] sample_bound_inv
  by (simp add: sample_stale_db_def del: quota_step.simps split: sum.splits)

definition sample_validation :: validation where
  "sample_validation = \<lparr>vd_int = (\<lambda>j. case j of JInt n \<Rightarrow> Some n | _ \<Rightarrow> None), vd_float = (\<lambda>_. None),
     vd_bool = (\<lambda>j. case j of JBool b \<Rightarrow> Some b | _ \<Rightarrow> None), vd_uuid = (\<lambda>j. case j of JStr s \<Rightarrow> Some s | _ \<Rightarrow> None),
     vd_trim = (\<lambda>s. s)\<rparr>"

definition sample_account :: json where
  "sample_account = JObj [(''account_id'', JStr ''a1''), (''service_user_id'', JStr ''u1''), (''balance_micro'', JInt 100),
     (''status'', JStr ''active''), (''version'', JInt 1), (''updated_at'', JInt 90000)]"

definition sample_credit :: "(str \<times> json) list" where
  "sample_credit = [(''operation_id'', JStr ''o1''), (''settlement_id'', JStr ''s1''), (''service_user_id'', JStr ''u1''),
     (''model_id'', JStr ''m''), (''provider'', JStr ''bifrost''), (''status'', JStr ''succeeded_charged''),
     (''prompt_tokens'', JInt 10), (''completion_tokens'', JInt 20), (''total_tokens'', JInt 30), (''charged_micro'', JInt 7),
     (''started_at'', JInt 90000), (''updated_at'', JInt 90000), (''usage_operation_id'', JStr ''o1:usage''),
     (''account'', sample_account)]"

definition sample_status_codec :: codec where
  "sample_status_codec = \<lparr>cd_loads = (\<lambda>_. Some (JObj (sample_credit @ [(''refunded'', JBool False), (''refunded_micro'', JInt 0)]))),
     cd_dumps = (\<lambda>_. []), cd_valid = sample_validation\<rparr>"

definition sample_env :: env where
  "sample_env = \<lparr>en_time = (\<lambda>_. 90000), en_redis_ms = (\<lambda>_. 90000000), en_link = (\<lambda>_. Link_up), en_fate = (\<lambda>_. Ends),
     en_beats = (\<lambda>_. 0), en_reply = (\<lambda>_. Http_reply 200 ''application/json'' []), en_mono = (\<lambda>_. 5000000),
     en_uuid = (\<lambda>_ _. ''e1'')\<rparr>"

definition sample_world :: world where
  "sample_world = \<lparr>wd_db = sample_stale_db, wd_redis = empty_redis, wd_log = []\<rparr>"

definition sample_candidate :: candidate where
  "sample_candidate = candidate_of (new_operation sample_rq) ''u1''"

definition sample_worker :: recovery_worker where
  "sample_worker = \<lparr>rw_stale_after = 300, rw_batch_size = 10\<rparr>"

lemma sample_world_inv: "ledger_inv (wd_db sample_world)"
  by (simp add: sample_world_def sample_stale_inv)


lemma recovery_closes_terminal_witness:
  "\<exists>w' p'. recovery_process sample_env sample_status_codec sample_candidate 90500 sample_world = (Inr (), w') \<and>
    find_row op_id ''o1'' (db_operations (wd_db w')) = Some p' \<and> op_state p' = Completed"
proof -
  let ?p = "new_operation sample_rq"
  let ?st = "ow_get_operation_status sample_env sample_status_codec (op_id ?p) ''u1'' sample_world"
  define r0 where "r0 = projr (fst ?st)"
  have "is_ok (fst ?st)" by code_simp
  then obtain x where "fst ?st = Inr x" by (auto simp: is_ok_def split: sum.splits)
  then have st: "?st = (Inr r0, snd ?st)" by (metis r0_def prod.collapse sum.sel(2))
  have p: "find_row op_id (op_id ?p) (db_operations (wd_db sample_world)) = Some ?p" "op_state ?p = Pending"
    by code_simp+
  have r0: "validate_identity (candidate_of ?p ''u1'') r0 = Inr ()" "co_status r0 = ''succeeded_charged''"
    "co_total r0 = co_prompt r0 + co_completion r0" "\<not> op_usage_recorded ?p"
    "\<forall>q \<in> set (db_quotas (wd_db sample_world)). qu_consumed q + max (op_total ?p) (co_total r0) \<le> SIGNED_BIGINT_MAX"
    unfolding r0_def by code_simp+
  have fresh: "''e1'' \<notin> set (map ev_id (db_events (wd_db sample_world)))"
    "''recovery_'' @ op_id ?p \<notin> set (map ev_server_request_id (db_events (wd_db sample_world)))" "py_len (op_id ?p) \<le> 119"
    by code_simp+
  have "\<exists>w' p'. recovery_process sample_env sample_status_codec (candidate_of ?p ''u1'') 90500 sample_world = (Inr (), w') \<and>
      find_row op_id (op_id ?p) (db_operations (wd_db w')) = Some p' \<and>
      op_state p' = (if co_status r0 = ''succeeded_charged'' then Completed else Abandoned)"
    by (rule recovery_closes_terminal [OF sample_world_inv _ p st r0(1), where remote = r0 and ?w1.0 = "snd ?st"])
      (use r0 fresh in \<open>simp_all add: sample_env_def\<close>)
  then show ?thesis by (simp add: r0(2) sample_candidate_def new_operation_def sample_rq_def)
qed

lemma recovery_batch_keeps_ledger_witness:
  "ledger_inv (wd_db (snd (recovery_run_once sample_env sample_status_codec sample_worker 90500 sample_world))) \<and>
   map op_state (db_operations (wd_db (snd (recovery_run_once sample_env sample_status_codec sample_worker 90500 sample_world)))) = [Completed]"
proof
  show "ledger_inv (wd_db (snd (recovery_run_once sample_env sample_status_codec sample_worker 90500 sample_world)))"
    using recovery_batch_keeps_ledger [OF sample_world_inv prod.collapse [symmetric]] by blast
  show "map op_state (db_operations (wd_db (snd (recovery_run_once sample_env sample_status_codec sample_worker 90500 sample_world)))) = [Completed]"
    by code_simp
qed

end
