(* ===== verification/Bifrost.thy ===== *)
theory Bifrost
  imports Openwebui Callers
begin

text \<open>
  The client of the model gateway, \<open>backend/app/integrations/bifrost/client.py\<close>, its wire models
  (\<open>models.py\<close>) and the start-up check \<open>preflight.py\<close>. Requests are calls of the environment;
  a reply is interpreted into a validated answer or a \<open>BifrostUpstreamError\<close>. The chunks of
  a streamed answer pass a small state machine that bounds their total size.
\<close>

subsection \<open>Errors and replies\<close>

definition bf_map_status :: "int \<Rightarrow> str \<times> bool" where
  "bf_map_status status_code =
    (if status_code \<in> {401, 403} then (''BIFROST_AUTH_REJECTED'', False)
     else if status_code = 404 then (''BIFROST_NOT_FOUND'', False)
     else if status_code = 409 then (''BIFROST_CONFLICT'', True)
     else if status_code = 429 then (''BIFROST_RATE_LIMITED'', True)
     else if status_code \<ge> 500 then (''BIFROST_UNAVAILABLE'', True)
     else (''BIFROST_REQUEST_REJECTED'', False))"

definition bf_status_error :: "int \<Rightarrow> exn" where
  "bf_status_error status_code =
    (case bf_map_status status_code of (code, retryable) \<Rightarrow> BifrostUpstreamError code status_code retryable)"

definition bf_timeout :: exn where
  "bf_timeout = BifrostUpstreamError ''BIFROST_TIMEOUT'' 504 True"

definition bf_unavailable :: exn where
  "bf_unavailable = BifrostUpstreamError ''BIFROST_UNAVAILABLE'' 503 True"

definition MAX_MANAGEMENT_RESPONSE_BYTES :: int where
  "MAX_MANAGEMENT_RESPONSE_BYTES = 2 * 1024 * 1024"

definition MAX_INFERENCE_RESPONSE_BYTES :: int where
  "MAX_INFERENCE_RESPONSE_BYTES = 16 * 1024 * 1024"

definition bf_json_reply :: "codec \<Rightarrow> int \<Rightarrow> http_reply \<Rightarrow> json res" where
  "bf_json_reply cd max_bytes reply = (case reply of
     Http_timeout \<Rightarrow> Inl bf_timeout
   | Http_request_error \<Rightarrow> Inl bf_unavailable
   | Http_reply status_code content_type chunks \<Rightarrow>
       if content_type_of content_type \<noteq> ''application/json'' \<or> max_bytes < int (length (concat chunks))
         then Inl protocol_error
       else if status_code \<ge> 400 then Inl (bf_status_error status_code)
       else (case cd_loads cd (concat chunks) of None \<Rightarrow> Inl protocol_error | Some payload \<Rightarrow> Inr payload))"

definition bf_validate :: "(json \<Rightarrow> 'a option) \<Rightarrow> json \<Rightarrow> 'a res" where
  "bf_validate validate payload = (case validate payload of None \<Rightarrow> Inl protocol_error | Some x \<Rightarrow> Inr x)"

subsection \<open>Wire models\<close>

definition plain_text :: "str \<Rightarrow> (str \<times> json) list \<Rightarrow> str option" where
  "plain_text k pairs = (case field k pairs of Some (JStr s) \<Rightarrow> Some s | _ \<Rightarrow> None)"

definition len_text :: "nat \<Rightarrow> nat \<Rightarrow> str \<Rightarrow> (str \<times> json) list \<Rightarrow> str option" where
  "len_text lo hi k pairs = (case field k pairs of
     Some (JStr s) \<Rightarrow> if lo \<le> py_len s \<and> py_len s \<le> hi then Some s else None | _ \<Rightarrow> None)"

definition opt_len_text :: "int \<Rightarrow> str \<Rightarrow> (str \<times> json) list \<Rightarrow> str option option" where
  "opt_len_text hi k pairs = (case field k pairs of
     None \<Rightarrow> Some None | Some JNull \<Rightarrow> Some None
   | Some (JStr s) \<Rightarrow> if int (py_len s) \<le> hi then Some (Some s) else None | _ \<Rightarrow> None)"

definition bool_field :: "validation \<Rightarrow> str \<Rightarrow> (str \<times> json) list \<Rightarrow> bool option" where
  "bool_field vd k pairs = Option.bind (field k pairs) (vd_bool vd)"

definition count_field :: "validation \<Rightarrow> str \<Rightarrow> (str \<times> json) list \<Rightarrow> int option" where
  "count_field vd = int_field vd (\<lambda>n. 0 \<le> n)"

definition obj :: "((str \<times> json) list \<Rightarrow> 'a option) \<Rightarrow> json \<Rightarrow> 'a option" where
  "obj f v = (case v of JObj p \<Rightarrow> f p | _ \<Rightarrow> None)"

definition list_of :: "(json \<Rightarrow> 'a option) \<Rightarrow> json option \<Rightarrow> 'a list option" where
  "list_of f v = (case v of Some (JList xs) \<Rightarrow> map_opt f xs | _ \<Rightarrow> None)"

record key_spec =
  ks_name :: str
  ks_description :: str
  ks_provider :: str
  ks_model :: str
  ks_key_ids :: "str list"

definition key_ids_ok :: "str list \<Rightarrow> bool" where
  "key_ids_ok values \<longleftrightarrow> list_all (\<lambda>v. v \<noteq> [] \<and> py_len v \<le> 128) values \<and> distinct values"

definition validate_key_spec :: "validation \<Rightarrow> json \<Rightarrow> key_spec option" where
  "validate_key_spec vd = obj (\<lambda>p.
    let trimmed = (\<lambda>lo hi k. case plain_text k p of None \<Rightarrow> None | Some s \<Rightarrow>
          (let t = vd_trim vd s in if lo \<le> py_len t \<and> py_len t \<le> hi then Some t else None)) in
    (case (trimmed 1 128 ''name'', if field ''description'' p = None then Some [] else trimmed 0 1024 ''description'',
           trimmed 1 128 ''provider'', trimmed 1 255 ''model'',
           if field ''provider_key_ids'' p = None then Some []
           else list_of (\<lambda>j. map_option (vd_trim vd) (json_text j)) (field ''provider_key_ids'' p)) of
       (Some n, Some d, Some pr, Some m, Some ids) \<Rightarrow>
         if forbid_extra [''name'', ''description'', ''provider'', ''model'', ''provider_key_ids''] p \<and>
            length ids \<le> 64 \<and> key_ids_ok ids
           then Some \<lparr>ks_name = n, ks_description = d, ks_provider = pr, ks_model = m, ks_key_ids = sort ids\<rparr> else None
     | _ \<Rightarrow> None))"

definition create_payload :: "key_spec \<Rightarrow> (str \<times> json) list" where
  "create_payload s =
    [(''name'', JStr (ks_name s)), (''description'', JStr (ks_description s)),
     (''provider_configs'', JList [JObj [(''provider'', JStr (ks_provider s)), (''weight'', JFloat (Finite_float ''1.0'')),
        (''allowed_models'', JList [JStr (ks_model s)]), (''blacklisted_models'', JList []),
        (''key_ids'', JList (map JStr (ks_key_ids s)))]]),
     (''mcp_configs'', JList []), (''budgets'', JList []), (''is_active'', JBool True), (''calendar_aligned'', JBool False)]"

record key_state =
  kt_id :: str
  kt_name :: str
  kt_description :: str
  kt_active :: bool
  kt_provider :: str
  kt_model :: str
  kt_config_hash :: str

record key_wire =
  kw_id :: str
  kw_name :: str
  kw_value :: str
  kw_description :: str
  kw_active :: bool
  kw_configs :: "(str \<times> str list) list"
  kw_config_hash :: str

definition validate_provider_config :: "json \<Rightarrow> (str \<times> str list) option" where
  "validate_provider_config = obj (\<lambda>p. case (plain_text ''provider'' p, list_of json_text (field ''allowed_models'' p)) of
     (Some a, Some ms) \<Rightarrow> Some (a, ms) | _ \<Rightarrow> None)"

definition validate_key_wire :: "validation \<Rightarrow> json \<Rightarrow> key_wire option" where
  "validate_key_wire vd = obj (\<lambda>p.
    (case (plain_text ''id'' p, plain_text ''name'' p, plain_text ''value'' p,
           if field ''description'' p = None then Some [] else plain_text ''description'' p,
           bool_field vd ''is_active'' p, list_of validate_provider_config (field ''provider_configs'' p),
           plain_text ''config_hash'' p) of
       (Some i, Some n, Some v, Some d, Some a, Some cs, Some h) \<Rightarrow>
         Some \<lparr>kw_id = i, kw_name = n, kw_value = v, kw_description = d, kw_active = a, kw_configs = cs, kw_config_hash = h\<rparr>
     | _ \<Rightarrow> None))"

definition key_state_of :: "key_wire \<Rightarrow> key_state res" where
  "key_state_of w = (case kw_configs w of
     [(provider, [model])] \<Rightarrow>
       if 1 \<le> py_len (kw_id w) \<and> py_len (kw_id w) \<le> 128 \<and> 1 \<le> py_len (kw_name w) \<and> py_len (kw_name w) \<le> 128 \<and>
          py_len (kw_description w) \<le> 1024 \<and> 1 \<le> py_len provider \<and> py_len provider \<le> 128 \<and>
          1 \<le> py_len model \<and> py_len model \<le> 255 \<and> py_len (kw_config_hash w) \<le> 256
         then Inr \<lparr>kt_id = kw_id w, kt_name = kw_name w, kt_description = kw_description w, kt_active = kw_active w,
                kt_provider = provider, kt_model = model, kt_config_hash = kw_config_hash w\<rparr>
       else Inl protocol_error
   | _ \<Rightarrow> Inl protocol_error)"

definition validate_key_envelope :: "validation \<Rightarrow> json \<Rightarrow> key_wire option" where
  "validate_key_envelope vd = obj (\<lambda>p. Option.bind (field ''virtual_key'' p) (validate_key_wire vd))"

definition validate_key_list :: "validation \<Rightarrow> json \<Rightarrow> key_wire list option" where
  "validate_key_list vd = obj (\<lambda>p.
    if list_all (\<lambda>k. count_field vd k p \<noteq> None) [''count'', ''total_count'', ''limit'', ''offset'']
      then list_of (validate_key_wire vd) (field ''virtual_keys'' p) else None)"

record bifrost_config =
  bc_enforce_auth :: bool
  bc_allow_direct_keys :: bool
  bc_allow_raw_override :: bool
  bc_db_connected :: bool

definition validate_config :: "validation \<Rightarrow> json \<Rightarrow> bifrost_config option" where
  "validate_config vd = obj (\<lambda>p. case (field ''client_config'' p, bool_field vd ''is_db_connected'' p) of
     (Some (JObj c), Some db_connected) \<Rightarrow>
       (case (bool_field vd ''enforce_auth_on_inference'' c, bool_field vd ''allow_direct_keys'' c,
              bool_field vd ''allow_per_request_raw_override'' c) of
          (Some a, Some b, Some r) \<Rightarrow> Some \<lparr>bc_enforce_auth = a, bc_allow_direct_keys = b, bc_allow_raw_override = r,
             bc_db_connected = db_connected\<rparr>
        | _ \<Rightarrow> None)
   | _ \<Rightarrow> None)"

record bifrost_provider =
  bp_name :: str
  bp_store_raw :: bool
  bp_send_raw_request :: bool
  bp_send_raw_response :: bool

definition validate_provider :: "validation \<Rightarrow> json \<Rightarrow> bifrost_provider option" where
  "validate_provider vd = obj (\<lambda>p.
    case (len_text 1 128 ''name'' p, bool_field vd ''store_raw_request_response'' p,
          bool_field vd ''send_back_raw_request'' p, bool_field vd ''send_back_raw_response'' p) of
      (Some n, Some a, Some b, Some c) \<Rightarrow>
        Some \<lparr>bp_name = n, bp_store_raw = a, bp_send_raw_request = b, bp_send_raw_response = c\<rparr>
    | _ \<Rightarrow> None)"

definition validate_providers :: "validation \<Rightarrow> json \<Rightarrow> bifrost_provider list option" where
  "validate_providers vd = obj (\<lambda>p. if count_field vd ''total'' p = None then None
     else list_of (validate_provider vd) (field ''providers'' p))"

definition validate_model :: "json \<Rightarrow> (str \<times> str) option" where
  "validate_model = obj (\<lambda>p. case (len_text 1 255 ''name'' p, len_text 1 128 ''provider'' p) of
     (Some n, Some pr) \<Rightarrow> Some (n, pr) | _ \<Rightarrow> None)"

definition validate_models :: "validation \<Rightarrow> json \<Rightarrow> (str \<times> str) list option" where
  "validate_models vd = obj (\<lambda>p. if count_field vd ''total'' p = None then None
     else list_of validate_model (field ''models'' p))"

text \<open>The usage is validated as in the stream decoder; the coercion to integers is the library's.\<close>

definition coerce_usage :: "validation \<Rightarrow> json \<Rightarrow> (int \<times> int \<times> int) option" where
  "coerce_usage vd = obj (\<lambda>p.
    case (Option.bind (field ''prompt_tokens'' p) (vd_int vd), Option.bind (field ''completion_tokens'' p) (vd_int vd),
          Option.bind (field ''total_tokens'' p) (vd_int vd)) of
      (Some a, Some b, Some c) \<Rightarrow> Some (a, b, c) | _ \<Rightarrow> None)"

record chat_choice =
  ch_index :: int
  ch_role :: str
  ch_content :: "str option"
  ch_finish_reason :: "str option"

record chat_completion =
  cc_id :: str
  cc_created :: "int option"
  cc_model :: str
  cc_choices :: "chat_choice list"
  cc_usage :: chat_usage

definition validate_choice :: "validation \<Rightarrow> json \<Rightarrow> chat_choice option" where
  "validate_choice vd = obj (\<lambda>p.
    case (count_field vd ''index'' p, field ''message'' p, opt_len_text 64 ''finish_reason'' p) of
      (Some i, Some (JObj m), Some f) \<Rightarrow>
        (case (plain_text ''role'' m, opt_len_text (16 * 1024 * 1024) ''content'' m) of
           (Some r, Some c) \<Rightarrow> Some \<lparr>ch_index = i, ch_role = r, ch_content = c, ch_finish_reason = f\<rparr>
         | _ \<Rightarrow> None)
    | _ \<Rightarrow> None)"

definition validate_completion :: "validation \<Rightarrow> json \<Rightarrow> chat_completion option" where
  "validate_completion vd = obj (\<lambda>p.
    case (len_text 1 128 ''id'' p, opt_int_field vd in_bigint ''created'' p, len_text 1 255 ''model'' p,
          list_of (validate_choice vd) (field ''choices'' p), Option.bind (field ''usage'' p) (validate_usage (coerce_usage vd))) of
      (Some i, Some t, Some m, Some cs, Some u) \<Rightarrow>
        if (case field ''object'' p of None \<Rightarrow> True | Some j \<Rightarrow> j = JStr ''chat.completion'') \<and>
           1 \<le> length cs \<and> length cs \<le> 128
          then Some \<lparr>cc_id = i, cc_created = t, cc_model = m, cc_choices = cs, cc_usage = u\<rparr> else None
    | _ \<Rightarrow> None)"

subsection \<open>Requests\<close>

definition bf_request :: "env \<Rightarrow> codec \<Rightarrow> str \<Rightarrow> str \<Rightarrow> (str \<times> json) list \<Rightarrow> int \<Rightarrow> json prog" where
  "bf_request en cd verb path pairs max_bytes =
    call en (Act_bifrost verb path pairs) (http_do en (bf_json_reply cd max_bytes))"

definition bf_json_request :: "env \<Rightarrow> codec \<Rightarrow> str \<Rightarrow> str \<Rightarrow> (str \<times> json) list \<Rightarrow> json prog" where
  "bf_json_request en cd verb path pairs = bf_request en cd verb path pairs MAX_MANAGEMENT_RESPONSE_BYTES"

definition bf_get :: "env \<Rightarrow> codec \<Rightarrow> str \<Rightarrow> (json \<Rightarrow> 'a option) \<Rightarrow> 'a prog" where
  "bf_get en cd path validate =
    bindp (bf_json_request en cd ''GET'' path []) (\<lambda>payload. of_res (bf_validate validate payload))"

definition bf_get_health :: "env \<Rightarrow> codec \<Rightarrow> str prog" where
  "bf_get_health en cd = bf_get en cd ''/health'' (obj (plain_text ''status''))"

definition bf_get_version :: "env \<Rightarrow> codec \<Rightarrow> str prog" where
  "bf_get_version en cd = bf_get en cd ''/api/version'' json_text"

definition bf_get_config :: "env \<Rightarrow> codec \<Rightarrow> bifrost_config prog" where
  "bf_get_config en cd = bf_get en cd ''/api/config'' (validate_config (cd_valid cd))"

definition bf_get_providers :: "env \<Rightarrow> codec \<Rightarrow> bifrost_provider list prog" where
  "bf_get_providers en cd = bf_get en cd ''/api/providers'' (validate_providers (cd_valid cd))"

definition bf_get_models :: "env \<Rightarrow> codec \<Rightarrow> (str \<times> str) list prog" where
  "bf_get_models en cd = bf_get en cd ''/api/models'' (validate_models (cd_valid cd))"

definition keys_path :: str where
  "keys_path = ''/api/governance/virtual-keys''"

definition bf_key_list :: "env \<Rightarrow> codec \<Rightarrow> (str \<times> json) list \<Rightarrow> key_wire list prog" where
  "bf_key_list en cd params = bindp (bf_json_request en cd ''GET'' keys_path params)
    (\<lambda>payload. of_res (bf_validate (validate_key_list (cd_valid cd)) payload))"

definition bf_list_virtual_keys :: "env \<Rightarrow> codec \<Rightarrow> int \<Rightarrow> int \<Rightarrow> key_state list prog" where
  "bf_list_virtual_keys en cd limit offset =
    (if \<not> (0 \<le> limit \<and> limit \<le> 1000) \<or> offset < 0 then raise (ValueError ''virtual-key pagination is out of bounds'')
     else bindp (bf_key_list en cd [(''limit'', JInt limit), (''offset'', JInt offset)])
       (\<lambda>items. of_res (collect_res (map key_state_of items))))"

definition bf_probe_route :: "env \<Rightarrow> codec \<Rightarrow> bool prog" where
  "bf_probe_route en cd = bindp (bf_key_list en cd [(''limit'', JInt 0), (''offset'', JInt 0)]) (\<lambda>_. ret True)"

definition key_material :: "key_wire \<Rightarrow> (key_state \<times> str) res" where
  "key_material w = bind_res (key_state_of w) (\<lambda>s. Inr (s, kw_value w))"

definition bf_find_virtual_key :: "env \<Rightarrow> codec \<Rightarrow> str \<Rightarrow> (key_state \<times> str) option prog" where
  "bf_find_virtual_key en cd name =
    bindp (bf_key_list en cd [(''limit'', JInt 100), (''offset'', JInt 0), (''search'', JStr name)]) (\<lambda>items.
    bindp (of_res (collect_res (map key_material (filter (\<lambda>w. kw_name w = name) items)))) (\<lambda>matches.
      if length matches > 1 then raise protocol_error
      else ret (case matches of [] \<Rightarrow> None | m # _ \<Rightarrow> Some m)))"

definition bf_key_call :: "env \<Rightarrow> codec \<Rightarrow> str \<Rightarrow> str \<Rightarrow> (str \<times> json) list \<Rightarrow> key_wire prog" where
  "bf_key_call en cd verb path pairs = bindp (bf_json_request en cd verb path pairs)
    (\<lambda>payload. of_res (bf_validate (validate_key_envelope (cd_valid cd)) payload))"

definition bf_create_virtual_key :: "env \<Rightarrow> codec \<Rightarrow> key_spec \<Rightarrow> (key_state \<times> str) prog" where
  "bf_create_virtual_key en cd s =
    bindp (bf_key_call en cd ''POST'' keys_path (create_payload s)) (\<lambda>w. of_res (key_material w))"

text \<open>An identifier that becomes part of a path is checked first.\<close>

definition key_path :: "str \<Rightarrow> str res" where
  "key_path virtual_key_id =
    (if \<not> full_class is_version_char 1 128 virtual_key_id then Inl (ValueError ''invalid virtual-key ID'')
     else Inr (keys_path @ ''/'' @ virtual_key_id))"

definition bf_get_envelope :: "env \<Rightarrow> codec \<Rightarrow> str \<Rightarrow> key_wire prog" where
  "bf_get_envelope en cd virtual_key_id =
    bindp (of_res (key_path virtual_key_id)) (\<lambda>path. bf_key_call en cd ''GET'' path [])"

definition bf_get_virtual_key :: "env \<Rightarrow> codec \<Rightarrow> str \<Rightarrow> key_state prog" where
  "bf_get_virtual_key en cd virtual_key_id =
    bindp (bf_get_envelope en cd virtual_key_id) (\<lambda>w. of_res (key_state_of w))"

definition bf_get_virtual_key_material :: "env \<Rightarrow> codec \<Rightarrow> str \<Rightarrow> (key_state \<times> str) prog" where
  "bf_get_virtual_key_material en cd virtual_key_id =
    bindp (bf_get_envelope en cd virtual_key_id) (\<lambda>w. of_res (key_material w))"

definition bf_put :: "env \<Rightarrow> codec \<Rightarrow> str \<Rightarrow> (str \<times> json) list \<Rightarrow> key_wire prog" where
  "bf_put en cd virtual_key_id pairs =
    bindp (of_res (key_path virtual_key_id)) (\<lambda>path. bf_key_call en cd ''PUT'' path pairs)"

definition bf_update_virtual_key :: "env \<Rightarrow> codec \<Rightarrow> str \<Rightarrow> key_spec \<Rightarrow> key_state prog" where
  "bf_update_virtual_key en cd virtual_key_id s =
    bindp (bf_put en cd virtual_key_id (filter (\<lambda>(k, _). k \<noteq> ''is_active'') (create_payload s)))
      (\<lambda>w. of_res (key_state_of w))"

definition bf_disable_virtual_key :: "env \<Rightarrow> codec \<Rightarrow> str \<Rightarrow> key_state prog" where
  "bf_disable_virtual_key en cd virtual_key_id =
    bindp (bf_put en cd virtual_key_id [(''is_active'', JBool False)]) (\<lambda>w. of_res (key_state_of w))"

definition bf_rotate_virtual_key :: "env \<Rightarrow> codec \<Rightarrow> str \<Rightarrow> (key_state \<times> str) prog" where
  "bf_rotate_virtual_key en cd virtual_key_id =
    bindp (of_res (key_path virtual_key_id)) (\<lambda>path.
    bindp (bf_key_call en cd ''POST'' (path @ ''/rotate'') []) (\<lambda>w. of_res (key_material w)))"

definition not_found :: "exn \<Rightarrow> bool" where
  "not_found e \<longleftrightarrow> (case e of BifrostUpstreamError code _ _ \<Rightarrow> code = ''BIFROST_NOT_FOUND'' | _ \<Rightarrow> False)"

definition bf_delete_virtual_key :: "env \<Rightarrow> codec \<Rightarrow> str \<Rightarrow> unit prog" where
  "bf_delete_virtual_key en cd virtual_key_id =
    bindp (of_res (key_path virtual_key_id)) (\<lambda>path.
      except (bindp (bf_json_request en cd ''DELETE'' path []) (\<lambda>_. ret ()))
        (\<lambda>e. if not_found e then ret () else raise e))"

subsection \<open>Inference\<close>

definition chat_path :: str where
  "chat_path = ''/v1/chat/completions''"

definition bf_forward_chat :: "env \<Rightarrow> codec \<Rightarrow> (str \<times> json) list \<Rightarrow> chat_completion prog" where
  "bf_forward_chat en cd payload =
    bindp (bf_request en cd ''POST'' chat_path payload MAX_INFERENCE_RESPONSE_BYTES)
      (\<lambda>response. of_res (bf_validate (validate_completion (cd_valid cd)) response))"

fun json_put :: "str \<Rightarrow> json \<Rightarrow> (str \<times> json) list \<Rightarrow> (str \<times> json) list" where
  "json_put k v [] = [(k, v)]"
| "json_put k v (p # ps) = (if fst p = k then (k, v) # ps else p # json_put k v ps)"

definition stream_payload :: "(str \<times> json) list \<Rightarrow> (str \<times> json) list" where
  "stream_payload payload =
    json_put ''stream_options'' (JObj [(''include_usage'', JBool True)]) (json_put ''stream'' (JBool True) payload)"

text \<open>
  The generator of a streamed answer. Its first step sends the request, whose answer is
  \<open>opened\<close>; each step then takes what the connection delivers next. \<open>Inr None\<close> is the end
  of the stream.
\<close>

datatype opened = Open_timeout | Open_request_error | Opened int str

datatype delivery = Delivery_timeout | Delivery_error | Delivery_chunk str | Delivery_end

datatype generator = Not_started opened | Running int

definition open_stream :: "opened \<Rightarrow> unit res" where
  "open_stream x = (case x of
     Open_timeout \<Rightarrow> Inl bf_timeout
   | Open_request_error \<Rightarrow> Inl bf_unavailable
   | Opened status_code content_type \<Rightarrow>
       if status_code \<ge> 400 then Inl (bf_status_error status_code)
       else if content_type_of content_type \<noteq> ''text/event-stream'' then Inl protocol_error
       else Inr ())"

definition next_chunk :: "int \<Rightarrow> delivery \<Rightarrow> (str option \<times> int) res" where
  "next_chunk tot x = (case x of
     Delivery_timeout \<Rightarrow> Inl bf_timeout
   | Delivery_error \<Rightarrow> Inl bf_unavailable
   | Delivery_end \<Rightarrow> Inr (None, tot)
   | Delivery_chunk c \<Rightarrow>
       let tot' = tot + int (length c) in
       if MAX_INFERENCE_RESPONSE_BYTES < tot' then Inl protocol_error else Inr (Some c, tot'))"

definition stream_next :: "generator \<Rightarrow> delivery \<Rightarrow> (str option \<times> generator) res" where
  "stream_next g x =
    bind_res (case g of Not_started answer \<Rightarrow> bind_res (open_stream answer) (\<lambda>_. Inr 0) | Running n \<Rightarrow> Inr n) (\<lambda>tot.
    bind_res (next_chunk tot x) (\<lambda>(c, tot'). Inr (c, Running tot')))"

subsection \<open>The start-up check\<close>

record preflight_report =
  pr_version :: str
  pr_db_connected :: bool
  pr_provider_count :: int
  pr_model_count :: int
  pr_route_compatible :: bool

definition preflight_verdict :: "str \<Rightarrow> str \<Rightarrow> str \<Rightarrow> bifrost_config \<Rightarrow> bifrost_provider list \<Rightarrow> (str \<times> str) list \<Rightarrow> unit res" where
  "preflight_verdict expected_version status version config providers models =
    (if status \<noteq> ''ok'' \<or> \<not> bc_db_connected config then Inl (RuntimeError ''BIFROST_PREFLIGHT_FAILED'')
     else if version \<noteq> expected_version then Inl (RuntimeError ''BIFROST_VERSION_MISMATCH'')
     else if \<not> bc_enforce_auth config \<or> bc_allow_direct_keys config \<or> bc_allow_raw_override config
       then Inl (RuntimeError ''BIFROST_PREFLIGHT_FAILED'')
     else if providers = [] \<or> models = [] \<or>
         list_ex (\<lambda>p. bp_store_raw p \<or> bp_send_raw_request p \<or> bp_send_raw_response p) providers
       then Inl (RuntimeError ''BIFROST_PREFLIGHT_FAILED'')
     else Inr ())"

definition verify_bifrost_preflight :: "env \<Rightarrow> codec \<Rightarrow> str \<Rightarrow> preflight_report prog" where
  "verify_bifrost_preflight en cd expected_version =
    bindp (bf_get_health en cd) (\<lambda>status.
    bindp (bf_get_version en cd) (\<lambda>version.
    bindp (bf_get_config en cd) (\<lambda>config.
    bindp (bf_get_providers en cd) (\<lambda>providers.
    bindp (bf_get_models en cd) (\<lambda>models.
    bindp (bf_probe_route en cd) (\<lambda>compatible.
    bindp (of_res (preflight_verdict expected_version status version config providers models)) (\<lambda>_.
      ret \<lparr>pr_version = version, pr_db_connected = bc_db_connected config, pr_provider_count = int (length providers),
           pr_model_count = int (length models), pr_route_compatible = compatible\<rparr>)))))))"

end
