(* ===== verification/Chat.thy ===== *)
theory Chat
  imports Bifrost Recovery
begin

text \<open>
  The chat service, \<open>backend/app/services/chat.py\<close>: admission (nonce, policy, request rate, model
  pool, concurrency), the reservation of quota and credit, the provider call, settlement
  and clean-up, for a plain answer. The streamed answer is in \<open>Chat_Stream\<close>.

  The local variable \<open>terminal_committed\<close> of the source is carried by the outcome of the guarded
  body: a body that raises has not committed a terminal state; a body that returns a value
  \<open>Inl e\<close> has committed one and goes on to raise \<open>e\<close>.
\<close>

subsection \<open>Headers and error codes\<close>

definition rate_limit_headers :: "qps_decision \<Rightarrow> headers" where
  "rate_limit_headers d =
    [(''X-RateLimit-Limit'', show_int (qd_limit d)), (''X-RateLimit-Remaining'', show_int (qd_remaining d)),
     (''X-RateLimit-Reset'', show_int ((qd_reset_at d + 999) div 1000))]"

definition concurrency_limit_headers :: "lease_decision \<Rightarrow> headers" where
  "concurrency_limit_headers d =
    [(''X-Concurrency-Limit'', show_int (ld_limit d)), (''X-Concurrency-Remaining'', show_int (ld_remaining d)),
     (''X-Concurrency-Reset'', show_int ((ld_expires_at d + 999) div 1000))] @
    (if ld_allowed d then []
     else [(''Retry-After'', show_int (max ((ld_expires_at d - ld_observed_at d + 999) div 1000) 1))])"

definition model_pool_limit_headers :: "pool_decision \<Rightarrow> headers" where
  "model_pool_limit_headers d =
    [(''X-Model-Pool-Limit'', show_int (pd_active_limit d)), (''X-Model-Pool-Remaining'', show_int (pd_active_remaining d)),
     (''X-Queue-Limit'', show_int (pd_queue_limit d)), (''X-Queue-Remaining'', show_int (pd_queue_remaining d)),
     (''X-Model-Pool-Reset'', show_int ((pd_expires_at d + 999) div 1000))] @
    (if pd_status d = Admitted then []
     else [(''Retry-After'', show_int (max ((pd_expires_at d - pd_observed_at d + 999) div 1000) 1))])"

definition caller_policy_error :: "str \<Rightarrow> str" where
  "caller_policy_error code =
    (if code = ''CLIENT_DISABLED'' then ''CLIENT_DISABLED''
     else if code \<in> {''CREDENTIAL_REVOKED'', ''CREDENTIAL_EXPIRED''} then ''AUTH_FAILED''
     else ''CONTROL_PLANE_UNAVAILABLE'')"

definition quota_error :: "str \<Rightarrow> str" where
  "quota_error code =
    (if code \<in> {''CREDENTIAL_REVOKED'', ''CREDENTIAL_EXPIRED''} then ''AUTH_FAILED''
     else if code \<in> set error_codes then code else ''INTERNAL_ERROR'')"

definition credit_error :: "str \<Rightarrow> str" where
  "credit_error code =
    (if code \<in> {''CREDIT_BALANCE_EXHAUSTED'', ''CREDIT_ACCOUNT_FROZEN''} then code
     else if code = ''CREDIT_PRICING_UNAVAILABLE'' then ''MODEL_UNAVAILABLE''
     else ''CONTROL_PLANE_UNAVAILABLE'')"

definition provider_error :: "str \<Rightarrow> int \<Rightarrow> str" where
  "provider_error code status_code =
    (if status_code = 404 then ''MODEL_NOT_FOUND''
     else if status_code = 504 \<or> contains ''TIMEOUT'' code then ''MODEL_TIMEOUT''
     else ''MODEL_UNAVAILABLE'')"

subsection \<open>The service\<close>

record chat_service =
  cs_crypto :: crypto
  cs_codec :: codec
  cs_keyring :: keyring
  cs_nonce_ttl :: int
  cs_qps_window :: int
  cs_lease :: int
  cs_pool_lease :: int
  cs_policies :: "(str \<times> pool_policy) list"
  cs_max_output :: int
  cs_queue_limit :: int
  cs_caller_queue_limit :: int
  cs_queue_wait :: int
  cs_queue_poll :: int
  cs_patience :: nat

definition check_chat_service :: "chat_service \<Rightarrow> unit res" where
  "check_chat_service s =
    (if \<not> (1 \<le> cs_max_output s \<and> cs_max_output s \<le> 1000000) then Inl (ValueError ''global output Token limit is invalid'')
     else if \<not> (0 \<le> cs_queue_limit s \<and> cs_queue_limit s \<le> 10000) then Inl (ValueError ''global queue limit is invalid'')
     else if \<not> (0 \<le> cs_caller_queue_limit s \<and> cs_caller_queue_limit s \<le> 1000)
       then Inl (ValueError ''caller queue limit is invalid'')
     else if 0 < cs_queue_limit s \<and> cs_caller_queue_limit s = 0
       then Inl (ValueError ''caller queue limit must be positive when queueing is enabled'')
     else if \<not> (1 \<le> cs_queue_wait s \<and> cs_queue_wait s \<le> 300) then Inl (ValueError ''queue wait is invalid'')
     else if \<not> (50 \<le> cs_queue_poll s \<and> cs_queue_poll s \<le> 2000) then Inl (ValueError ''queue poll interval is invalid'')
     else Inr ())"

definition cs_sha :: "chat_service \<Rightarrow> str \<Rightarrow> str" where
  "cs_sha s = cy_sha (cs_crypto s)"

record admission =
  ad_request :: chat_request
  ad_caller :: authenticated_caller
  ad_policy :: caller_policy
  ad_operation :: str
  ad_started_at :: int
  ad_started_ns :: int
  ad_server_request :: str
  ad_qps :: qps_decision
  ad_concurrency :: lease_decision
  ad_pool :: str
  ad_headers :: headers
  ad_settlement :: str
  ad_usage_operation :: str

abbreviation ad_client :: "admission \<Rightarrow> str" where
  "ad_client ad \<equiv> au_api_client_id (ad_caller ad)"

text \<open>An external error raised from within the chat service.\<close>

definition raise_api :: "str \<Rightarrow> str option \<Rightarrow> headers \<Rightarrow> 'a prog" where
  "raise_api code operation_id hs = raise (api_error code operation_id hs)"

subsection \<open>The model pool\<close>

definition pool_admit :: "env \<Rightarrow> chat_service \<Rightarrow> pool_policy \<Rightarrow> str \<Rightarrow> str \<Rightarrow> pool_decision prog" where
  "pool_admit en s p client k = call en (Act_pool_admit k) (redis_do en (\<lambda>l now.
     admit_or_enqueue (cs_sha s) (cs_pool_lease s) l now (pp_pool p) client k (pp_active_limit p)
       (cs_queue_limit s) (cs_caller_queue_limit s) (cs_queue_wait s)))"

definition pool_leave :: "env \<Rightarrow> chat_service \<Rightarrow> pool_policy \<Rightarrow> str \<Rightarrow> str \<Rightarrow> bool prog" where
  "pool_leave en s p client k = call en (Act_pool_cancel k)
     (redis_do en (\<lambda>l now. pool_cancel (cs_sha s) l now (pp_pool p) client k))"

definition pool_free :: "env \<Rightarrow> chat_service \<Rightarrow> str \<Rightarrow> str \<Rightarrow> bool prog" where
  "pool_free en s pool k = call en (Act_pool_release k)
     (redis_do en (\<lambda>l now. pool_release (cs_sha s) l now pool k))"

text \<open>The waiting loop. Its outcomes: admitted, refused after a change of the queue, or still
  waiting after as many rounds as the caller has patience for.\<close>

datatype pool_outcome = Pool_admitted headers | Pool_refused headers | Pool_unfinished

fun pool_wait :: "nat \<Rightarrow> env \<Rightarrow> chat_service \<Rightarrow> pool_policy \<Rightarrow> str \<Rightarrow> str \<Rightarrow> int \<Rightarrow> headers \<Rightarrow> pool_outcome prog" where
  "pool_wait 0 en s p client k deadline hs = ret Pool_unfinished"
| "pool_wait (Suc n) en s p client k deadline hs =
    bindp (read_mono en) (\<lambda>t.
      if deadline - t \<le> 0 then raise_api ''MODEL_CAPACITY_LIMITED'' None (header_put ''Retry-After'' ''1'' hs)
      else bindp (call en Act_sleep (ret ())) (\<lambda>_. bindp (read_mono en) (\<lambda>t.
        if deadline \<le> t then raise_api ''MODEL_CAPACITY_LIMITED'' None (header_put ''Retry-After'' ''1'' hs)
        else bindp (pool_admit en s p client k) (\<lambda>d.
          let hs = headers_update hs (model_pool_limit_headers d) in
          if pd_status d = Admitted then ret (Pool_admitted hs)
          else if pd_status d \<noteq> Queued then ret (Pool_refused hs)
          else pool_wait n en s p client k deadline hs))))"

text \<open>The ticket is given back when waiting ends with an exception, but not when the queue
  refused the operation.\<close>

definition pool_abandon :: "env \<Rightarrow> chat_service \<Rightarrow> pool_policy \<Rightarrow> str \<Rightarrow> str \<Rightarrow> exn \<Rightarrow> 'a prog" where
  "pool_abandon en s p client k e =
    (if is_base_only e then
       bindp (except (bindp (pool_leave en s p client k) (\<lambda>_. ret ()))
           (\<lambda>x. if x = ControlPlaneUnavailable then ret () else raise x)) (\<lambda>_. raise e)
     else bindp (pool_leave en s p client k) (\<lambda>_. raise e))"

definition acquire_model_pool :: "env \<Rightarrow> chat_service \<Rightarrow> str \<Rightarrow> str \<Rightarrow> str \<Rightarrow> headers \<Rightarrow> (pool_policy \<times> headers) prog" where
  "acquire_model_pool en s model client k hs =
    (case map_of (cs_policies s) model of
       None \<Rightarrow> raise_api ''MODEL_UNAVAILABLE'' None hs
     | Some p \<Rightarrow>
         bindp (pool_admit en s p client k) (\<lambda>d.
           let hs = headers_update hs (model_pool_limit_headers d) in
           if pd_status d = Admitted then ret (p, hs)
           else if pd_status d \<noteq> Queued then raise_api ''MODEL_CAPACITY_LIMITED'' None hs
           else bindp (read_mono en) (\<lambda>t.
             let deadline = t + max (pd_expires_at d - pd_observed_at d) 0 * 1000000 in
             bindp (except
                 (bindp (pool_wait (cs_patience s) en s p client k deadline hs) (\<lambda>x.
                    case x of Pool_unfinished \<Rightarrow> raise CancelledError | _ \<Rightarrow> ret x))
                 (\<lambda>e. pool_abandon en s p client k e)) (\<lambda>x.
               case x of Pool_admitted hs \<Rightarrow> ret (p, hs)
               | Pool_refused hs \<Rightarrow> raise_api ''MODEL_CAPACITY_LIMITED'' None hs
               | Pool_unfinished \<Rightarrow> raise CancelledError))))"

subsection \<open>Leases\<close>

definition acquire_concurrency :: "env \<Rightarrow> chat_service \<Rightarrow> str \<Rightarrow> str \<Rightarrow> int \<Rightarrow> str \<Rightarrow> headers \<Rightarrow>
    (lease_decision \<times> headers) prog" where
  "acquire_concurrency en s client k limit pool hs =
    bindp (except
        (call en (Act_acquire k) (redis_do en (\<lambda>l now. conc_acquire (cs_sha s) (cs_lease s) l now client k limit)))
        (\<lambda>e. bindp (pool_free en s pool k) (\<lambda>_. raise e))) (\<lambda>d.
      let hs = headers_update hs (concurrency_limit_headers d) in
      if \<not> ld_allowed d then bindp (pool_free en s pool k) (\<lambda>_. raise_api ''CONCURRENCY_LIMITED'' None hs)
      else ret (d, hs))"

definition lease_heartbeat :: "env \<Rightarrow> chat_service \<Rightarrow> admission \<Rightarrow> unit prog" where
  "lease_heartbeat en s ad =
    bindp (call en (Act_heartbeat (ad_operation ad)) (redis_do en (\<lambda>l now.
        conc_heartbeat (cs_sha s) (cs_lease s) l now (ad_client ad) (ad_operation ad)))) (\<lambda>renewed.
    bindp (call en (Act_pool_heartbeat (ad_operation ad)) (redis_do en (\<lambda>l now.
        pool_heartbeat (cs_sha s) (cs_pool_lease s) l now (ad_pool ad) (ad_operation ad)))) (\<lambda>model_renewed.
      if \<not> renewed \<or> \<not> model_renewed then raise ControlPlaneUnavailable else ret ()))"

fun beats :: "nat \<Rightarrow> unit prog \<Rightarrow> unit prog" where
  "beats 0 m = ret ()"
| "beats (Suc n) m = bindp m (\<lambda>_. beats n m)"

text \<open>A task runs while the lease is kept alive: the environment says how often the heartbeat
  falls due before the task is done. When a heartbeat fails the task is cancelled: it may
  have run to its end by then or not.\<close>

definition lease_run :: "env \<Rightarrow> chat_service \<Rightarrow> admission \<Rightarrow> 'a prog \<Rightarrow> 'a prog" where
  "lease_run en s ad m w =
    (case beats (en_beats en (wd_log w)) (lease_heartbeat en s ad) w of
       (Inr _, w1) \<Rightarrow> m w1
     | (Inl e, w1) \<Rightarrow> (case en_fate en (wd_log w1) of
         Never_done _ \<Rightarrow> (Inl e, w1) | _ \<Rightarrow> (Inl e, snd (m w1))))"

definition release_one :: "bool prog \<Rightarrow> bool prog" where
  "release_one m = except (bindp m (\<lambda>_. ret True)) (\<lambda>e. if e = ControlPlaneUnavailable then ret False else raise e)"

definition release_active_leases :: "env \<Rightarrow> chat_service \<Rightarrow> str \<Rightarrow> str \<Rightarrow> str \<Rightarrow> bool prog" where
  "release_active_leases en s client pool k =
    bindp (release_one (call en (Act_release k) (redis_do en (\<lambda>l now. conc_release (cs_sha s) l now client k)))) (\<lambda>a.
    bindp (release_one (pool_free en s pool k)) (\<lambda>b. ret (a \<and> b)))"

subsection \<open>Admission\<close>

definition claim_nonce :: "env \<Rightarrow> chat_service \<Rightarrow> authenticated_caller \<Rightarrow> bool prog" where
  "claim_nonce en s caller = call en (Act_nonce (au_nonce caller)) (redis_do en (\<lambda>l now.
     claim (cs_sha s) (cs_nonce_ttl s) l now (au_api_client_id caller) (au_credential_id caller) (au_nonce caller)))"

definition load_policy :: "env \<Rightarrow> chat_service \<Rightarrow> authenticated_caller \<Rightarrow> int \<Rightarrow> caller_policy prog" where
  "load_policy en s caller now = call en Act_policy
     (db_load (\<lambda>d. load_caller_policy (cs_crypto s) (cd_loads (cs_codec s)) (cs_keyring s) d caller now))"

definition admit_qps :: "env \<Rightarrow> chat_service \<Rightarrow> authenticated_caller \<Rightarrow> str \<Rightarrow> int \<Rightarrow> qps_decision prog" where
  "admit_qps en s caller server_request_id limit = call en Act_qps (redis_do en (\<lambda>l now.
     qps_admit (cs_sha s) (cs_qps_window s) l now (au_api_client_id caller) server_request_id limit))"

text \<open>The common beginning of a plain and a streamed request; both sources spell it out. The
  settlement is filled in by the reservation.\<close>

definition enter_as :: "env \<Rightarrow> chat_service \<Rightarrow> chat_request \<Rightarrow> authenticated_caller \<Rightarrow> str \<Rightarrow> str \<Rightarrow> admission prog" where
  "enter_as en s q caller server_request_id k =
    bindp (read_time en) (\<lambda>now. bindp (read_mono en) (\<lambda>ns.
    bindp (claim_nonce en s caller) (\<lambda>claimed.
    if \<not> claimed then raise_api ''AUTH_FAILED'' None []
    else bindp (except (load_policy en s caller now) (\<lambda>e. case e of
        CallerPolicyError code \<Rightarrow> raise_api (caller_policy_error code) None [] | _ \<Rightarrow> raise e)) (\<lambda>policy.
    if ''chat.completions'' \<notin> set (cp_allowed_endpoints policy) then raise_api ''ENDPOINT_FORBIDDEN'' None []
    else if cq_model q \<notin> set (cp_allowed_models policy) then raise_api ''MODEL_FORBIDDEN'' None []
    else bindp (admit_qps en s caller server_request_id (cp_qps_limit policy)) (\<lambda>qps.
    let hs = rate_limit_headers qps in
    if \<not> qd_allowed qps then raise_api ''QPS_LIMITED'' None hs
    else bindp (acquire_model_pool en s (cq_model q) (au_api_client_id caller) k hs) (\<lambda>(p, hs).
    bindp (acquire_concurrency en s (au_api_client_id caller) k (cp_concurrency_limit policy) (pp_pool p) hs) (\<lambda>(c, hs).
      ret \<lparr>ad_request = q, ad_caller = caller, ad_policy = policy, ad_operation = k, ad_started_at = now,
        ad_started_ns = ns, ad_server_request = server_request_id, ad_qps = qps, ad_concurrency = c,
        ad_pool = pp_pool p, ad_headers = hs, ad_settlement = [], ad_usage_operation = []\<rparr>)))))))"

definition chat_enter :: "env \<Rightarrow> chat_service \<Rightarrow> chat_request \<Rightarrow> authenticated_caller \<Rightarrow> str \<Rightarrow> admission prog" where
  "chat_enter en s q caller server_request_id = bindp (read_uuid en 0) (enter_as en s q caller server_request_id)"

subsection \<open>Transactions\<close>

definition reserve_quota :: "env \<Rightarrow> reserve_request \<Rightarrow> unit prog" where
  "reserve_quota en rq = at_log (\<lambda>l. let u1 = en_uuid en l 0; u2 = en_uuid en l 1 in
     bindp (call en (Act_db [Reserve rq u1 u2]) (db_tx (reserve_operation rq u1 u2))) (\<lambda>_. ret ()))"

definition record_credit :: "env \<Rightarrow> admission \<Rightarrow> str \<Rightarrow> str \<Rightarrow> int \<Rightarrow> unit prog" where
  "record_credit en ad settlement_id usage_operation_id now =
    bindp (call en (Act_db [Record_credit (ad_operation ad) settlement_id usage_operation_id now])
      (db_tx (record_credit_reservation (ad_operation ad) settlement_id usage_operation_id now))) (\<lambda>_. ret ())"

definition record_usage :: "env \<Rightarrow> admission \<Rightarrow> chat_usage \<Rightarrow> int \<Rightarrow> unit prog" where
  "record_usage en ad u now =
    bindp (call en (Act_db [Record_usage (ad_operation ad) (us_prompt u) (us_completion u) now])
      (db_tx (record_provider_usage (ad_operation ad) (us_prompt u) (us_completion u) now))) (\<lambda>_. ret ())"

definition touch_operation :: "env \<Rightarrow> admission \<Rightarrow> int \<Rightarrow> bool prog" where
  "touch_operation en ad now = call en (Act_db [Touch (ad_operation ad) now]) (db_tx (touch_pending_operation (ad_operation ad) now))"

definition chat_terminal :: "admission \<Rightarrow> terminal_status \<Rightarrow> str \<Rightarrow> str \<Rightarrow> str \<Rightarrow> int \<Rightarrow> int \<Rightarrow> int \<Rightarrow> terminal res" where
  "chat_terminal ad status outcome stage code charged_micro completed_at duration_ms =
    (case (if code = ''OK'' then Some (200, False)
           else map_option (\<lambda>x. (sp_status x, sp_retryable x)) (spec_of code)) of
       None \<Rightarrow> Inl (LookupError code)
     | Some (http_status, retryable) \<Rightarrow>
         Inr \<lparr>tm_status = status, tm_outcome = outcome, tm_stage = stage, tm_http_status = http_status, tm_code = code,
           tm_retryable = retryable, tm_duration_ms = duration_ms, tm_charged = charged_micro,
           tm_qps = qd_count (ad_qps ad), tm_concurrency = ld_count (ad_concurrency ad),
           tm_server_request_id = ad_server_request ad, tm_ip_hash = None, tm_ua_family = None,
           tm_completed_at = completed_at\<rparr>)"

definition terminalize :: "env \<Rightarrow> admission \<Rightarrow> terminal_status \<Rightarrow> str \<Rightarrow> str \<Rightarrow> str \<Rightarrow> int \<Rightarrow> unit prog" where
  "terminalize en ad status outcome stage code charged_micro =
    bindp (read_time en) (\<lambda>now. bindp (read_mono en) (\<lambda>ns. bindp (read_uuid en 0) (\<lambda>uuid.
    bindp (of_res (chat_terminal ad status outcome stage code charged_micro (max now (ad_started_at ad))
        (max ((ns - ad_started_ns ad) div 1000000) 0))) (\<lambda>t.
    bindp (call en (Act_db [Finalize (ad_operation ad) t uuid])
      (db_tx (\<lambda>d. bind_res (make_terminal t) (\<lambda>t. finalize_operation (ad_operation ad) t uuid d)))) (\<lambda>_. ret ())))))"

definition terminal_now :: "env \<Rightarrow> admission \<Rightarrow> int prog" where
  "terminal_now en ad = bindp (read_time en) (\<lambda>now. ret (max now (ad_started_at ad)))"

subsection \<open>The reservation of quota and credit\<close>

definition chat_reserve_request :: "admission \<Rightarrow> str \<Rightarrow> bool \<Rightarrow> int \<Rightarrow> reserve_request" where
  "chat_reserve_request ad fingerprint stream output_tokens =
    \<lparr>rq_client = ad_client ad, rq_credential = au_credential_id (ad_caller ad), rq_operation = ad_operation ad,
     rq_request_id = au_request_id (ad_caller ad), rq_fingerprint = fingerprint, rq_model = cq_model (ad_request ad),
     rq_stream = stream, rq_reserved = estimate_prompt_tokens (ad_request ad) + output_tokens, rq_now = ad_started_at ad\<rparr>"

definition credit_matches :: "admission \<Rightarrow> credit_operation \<Rightarrow> bool" where
  "credit_matches ad c \<longleftrightarrow> co_operation_id c = ad_operation ad \<and>
     co_service_user_id c = cp_service_user_id (ad_policy ad) \<and> co_model_id c = cq_model (ad_request ad) \<and>
     co_provider c = Some ''bifrost'' \<and> co_status c = ''pending'' \<and>
     co_usage_operation_id c = Some (usage_suffix (ad_operation ad))"

definition reserve_tokens :: "env \<Rightarrow> chat_service \<Rightarrow> admission \<Rightarrow> str \<Rightarrow> bool \<Rightarrow> unit prog" where
  "reserve_tokens en s ad fingerprint stream =
    bindp (except (of_res (admitted_output_tokens (cp_max_output_tokens (ad_policy ad)) (cs_max_output s) (ad_request ad)))
      (\<lambda>e. case e of ExternalPayloadError code \<Rightarrow> raise_api code None (ad_headers ad) | _ \<Rightarrow> raise e)) (\<lambda>n.
    except (lease_run en s ad (reserve_quota en (chat_reserve_request ad fingerprint stream n)))
      (\<lambda>e. case e of QuotaAdmissionError code k \<Rightarrow> raise_api (quota_error code) k (ad_headers ad) | _ \<Rightarrow> raise e))"

text \<open>A rejection for want of credit is terminal and committed; every other failure leaves the
  operation pending, for the recovery worker.\<close>

definition reserve_credit :: "env \<Rightarrow> chat_service \<Rightarrow> admission \<Rightarrow> admission res prog" where
  "reserve_credit en s ad =
    bindp (attempt (lease_run en s ad (ow_reserve_operation en (cs_codec s) (ad_operation ad)
        (cp_service_user_id (ad_policy ad)) (cq_model (ad_request ad)) (Some ''bifrost'')))) (\<lambda>r.
    case r of
      Inl e \<Rightarrow> (case e of
        OpenWebUIUpstreamError code _ _ \<Rightarrow>
          let public_code = credit_error code in
          if public_code \<in> {''CREDIT_BALANCE_EXHAUSTED'', ''CREDIT_ACCOUNT_FROZEN''} then
            bindp (lease_run en s ad (terminalize en ad T_rejected ''rejected'' ''credit'' public_code 0))
              (\<lambda>_. ret (Inl (api_error public_code (Some (ad_operation ad)) (ad_headers ad))))
          else raise_api public_code (Some (ad_operation ad)) (ad_headers ad)
      | _ \<Rightarrow> raise e)
    | Inr credit \<Rightarrow>
        if \<not> credit_matches ad credit
          then raise_api ''CONTROL_PLANE_UNAVAILABLE'' (Some (ad_operation ad)) (ad_headers ad)
        else bindp (terminal_now en ad) (\<lambda>now.
          bindp (lease_run en s ad (record_credit en ad (co_settlement_id credit) (usage_suffix (ad_operation ad)) now)) (\<lambda>_.
            ret (Inr (ad\<lparr>ad_settlement := co_settlement_id credit, ad_usage_operation := usage_suffix (ad_operation ad)\<rparr>)))))"

definition chat_reserve :: "env \<Rightarrow> chat_service \<Rightarrow> admission \<Rightarrow> str \<Rightarrow> bool \<Rightarrow> admission res prog" where
  "chat_reserve en s ad fingerprint stream =
    bindp (reserve_tokens en s ad fingerprint stream) (\<lambda>_. reserve_credit en s ad)"

subsection \<open>The provider call and the settlement\<close>

definition cancelled_matches :: "admission \<Rightarrow> credit_operation \<Rightarrow> bool" where
  "cancelled_matches ad c \<longleftrightarrow> co_operation_id c = ad_operation ad \<and>
     co_service_user_id c = cp_service_user_id (ad_policy ad) \<and> co_settlement_id c = ad_settlement ad \<and>
     co_model_id c = cq_model (ad_request ad) \<and> co_provider c = Some ''bifrost'' \<and>
     co_usage_operation_id c = Some (usage_suffix (ad_operation ad)) \<and>
     co_prompt c = 0 \<and> co_completion c = 0 \<and> co_total c = 0 \<and>
     co_status c \<in> {''cancelled_charged'', ''failed_no_charge''} \<and> co_charged c = 0"

definition settled_matches :: "admission \<Rightarrow> chat_usage \<Rightarrow> credit_operation \<Rightarrow> bool" where
  "settled_matches ad u c \<longleftrightarrow> co_operation_id c = ad_operation ad \<and>
     co_service_user_id c = cp_service_user_id (ad_policy ad) \<and> co_settlement_id c = ad_settlement ad \<and>
     co_usage_operation_id c = Some (ad_usage_operation ad) \<and> co_model_id c = cq_model (ad_request ad) \<and>
     co_provider c = Some ''bifrost'' \<and> co_status c = ''succeeded_charged'' \<and>
     co_prompt c = us_prompt u \<and> co_completion c = us_completion u \<and> co_total c = us_total u"

definition raise_plane :: "admission \<Rightarrow> 'a prog" where
  "raise_plane ad = raise_api ''CONTROL_PLANE_UNAVAILABLE'' (Some (ad_operation ad)) (ad_headers ad)"

definition provider_failed :: "env \<Rightarrow> chat_service \<Rightarrow> admission \<Rightarrow> str \<Rightarrow> chat_completion res prog" where
  "provider_failed en s ad public_code =
    bindp (except (lease_run en s ad (ow_cancel_operation en (cs_codec s) (ad_operation ad) (cp_service_user_id (ad_policy ad))))
      (\<lambda>e. case e of OpenWebUIUpstreamError _ _ _ \<Rightarrow> raise_plane ad | _ \<Rightarrow> raise e)) (\<lambda>cancelled.
    if \<not> cancelled_matches ad cancelled then raise_plane ad
    else bindp (lease_run en s ad (terminalize en ad T_rejected ''provider_error'' ''provider'' public_code 0)) (\<lambda>_.
      ret (Inl (api_error public_code (Some (ad_operation ad)) (ad_headers ad)))))"

definition settle_response :: "env \<Rightarrow> chat_service \<Rightarrow> admission \<Rightarrow> chat_completion \<Rightarrow> chat_completion res prog" where
  "settle_response en s ad response =
    bindp (terminal_now en ad) (\<lambda>now.
    bindp (lease_run en s ad (record_usage en ad (cc_usage response) now)) (\<lambda>_.
    bindp (except (lease_run en s ad (ow_settle_operation en (cs_codec s) (ad_operation ad) (cp_service_user_id (ad_policy ad))
        (us_prompt (cc_usage response)) (us_completion (cc_usage response))))
      (\<lambda>e. case e of OpenWebUIUpstreamError code _ _ \<Rightarrow>
          raise_api (credit_error code) (Some (ad_operation ad)) (ad_headers ad) | _ \<Rightarrow> raise e)) (\<lambda>settled.
    if \<not> settled_matches ad (cc_usage response) settled then raise_plane ad
    else bindp (lease_run en s ad (terminalize en ad T_completed ''success'' ''response'' ''OK'' (co_charged settled))) (\<lambda>_.
      ret (Inr response)))))"

definition call_provider :: "env \<Rightarrow> chat_service \<Rightarrow> admission \<Rightarrow> chat_completion res prog" where
  "call_provider en s ad =
    bindp (attempt (lease_run en s ad (bf_forward_chat en (cs_codec s) (bifrost_payload (ad_request ad))))) (\<lambda>r.
    case r of
      Inl e \<Rightarrow> (case e of
        BifrostUpstreamError code status_code _ \<Rightarrow> provider_failed en s ad (provider_error code status_code)
      | _ \<Rightarrow> raise e)
    | Inr response \<Rightarrow> settle_response en s ad response)"

definition execute_body :: "env \<Rightarrow> chat_service \<Rightarrow> admission \<Rightarrow> str \<Rightarrow> chat_completion res prog" where
  "execute_body en s ad fingerprint =
    bindp (chat_reserve en s ad fingerprint False) (\<lambda>r. case r of
      Inl e \<Rightarrow> ret (Inl e) | Inr ad \<Rightarrow> call_provider en s ad)"

text \<open>What follows the guarded body: the leases are released; when that fails and no terminal
  state has been committed, the failure is what the caller sees.\<close>

definition release_after :: "env \<Rightarrow> chat_service \<Rightarrow> admission \<Rightarrow> 'a res res \<Rightarrow> 'a prog" where
  "release_after en s ad r =
    bindp (release_active_leases en s (ad_client ad) (ad_pool ad) (ad_operation ad)) (\<lambda>clean.
      if \<not> clean \<and> \<not> is_ok r then raise ControlPlaneUnavailable
      else of_res (bind_res r (\<lambda>x. x)))"

definition execute :: "env \<Rightarrow> chat_service \<Rightarrow> chat_request \<Rightarrow> authenticated_caller \<Rightarrow> str \<Rightarrow> str \<Rightarrow>
    (chat_completion \<times> headers) prog" where
  "execute en s q caller server_request_id fingerprint =
    bindp (except (of_res (require_non_streaming q))
      (\<lambda>e. case e of ExternalPayloadError code \<Rightarrow> raise_api code None [] | _ \<Rightarrow> raise e)) (\<lambda>_.
    bindp (chat_enter en s q caller server_request_id) (\<lambda>ad.
    bindp (attempt (execute_body en s ad fingerprint)) (\<lambda>r.
    bindp (release_after en s ad r) (\<lambda>response. ret (response, ad_headers ad)))))"

text \<open>A streamed request is admitted and reserved in the same way; its leases are released only
  when that fails, otherwise by the stream.\<close>

definition prepare_stream :: "env \<Rightarrow> chat_service \<Rightarrow> chat_request \<Rightarrow> authenticated_caller \<Rightarrow> str \<Rightarrow> str \<Rightarrow>
    admission prog" where
  "prepare_stream en s q caller server_request_id fingerprint =
    (if \<not> cq_stream q then raise_api ''INVALID_REQUEST'' None []
     else bindp (chat_enter en s q caller server_request_id) (\<lambda>ad.
       bindp (attempt (chat_reserve en s ad fingerprint True)) (\<lambda>r. case r of
         Inr (Inr ad) \<Rightarrow> ret ad
       | _ \<Rightarrow> release_after en s ad r)))"

end
