(* ===== verification/Chat_Stream.thy ===== *)
theory Chat_Stream
  imports Chat
begin

text \<open>
  The streamed answer, \<open>ExternalChatService._stream_response\<close> and its helpers in
  \<open>backend/app/services/chat.py\<close>. The generator is run to its end against a finite list of
  waits: each wait for the next upstream chunk times out, is cancelled, or delivers. When the
  list is exhausted the wait is cancelled, as a server does with a request it gives up.
  A \<open>yield\<close> is a call: its fate may be the exception the consumer throws in.
\<close>

subsection \<open>Frames\<close>

definition SSE_HEARTBEAT :: str where
  "SSE_HEARTBEAT = '': heartbeat'' @ [nl, nl]"

definition SSE_DONE :: str where
  "SSE_DONE = data_frame ''[DONE]''"

definition error_payload :: "error_spec \<Rightarrow> str \<Rightarrow> str \<Rightarrow> str \<Rightarrow> json" where
  "error_payload sp code server_request_id operation_id =
    JObj [(''error'', JObj [(''code'', JStr code), (''message'', JStr (sp_message sp)),
      (''operation_id'', JStr operation_id), (''request_id'', JStr server_request_id),
      (''retryable'', JBool (sp_retryable sp))])]"

definition stream_error_frame :: "codec \<Rightarrow> str \<Rightarrow> str \<Rightarrow> str \<Rightarrow> str res" where
  "stream_error_frame cd code server_request_id operation_id = (case spec_of code of
     None \<Rightarrow> Inl (LookupError code)
   | Some sp \<Rightarrow> Inr (data_frame (cd_dumps cd (error_payload sp code server_request_id operation_id))))"

definition yield_frame :: "env \<Rightarrow> str \<Rightarrow> unit prog" where
  "yield_frame en frame = call en (Act_yield frame) (ret ())"

subsection \<open>Settlement, cancellation and failure\<close>

definition settle_stream :: "env \<Rightarrow> chat_service \<Rightarrow> admission \<Rightarrow> chat_usage \<Rightarrow> int prog" where
  "settle_stream en s ad u =
    bindp (terminal_now en ad) (\<lambda>now.
    bindp (record_usage en ad u now) (\<lambda>_.
    bindp (ow_settle_operation en (cs_codec s) (ad_operation ad) (cp_service_user_id (ad_policy ad))
        (us_prompt u) (us_completion u)) (\<lambda>settled.
      if \<not> settled_matches ad u settled then raise_plane ad else ret (co_charged settled))))"

definition cancel_stream :: "env \<Rightarrow> chat_service \<Rightarrow> admission \<Rightarrow> unit prog" where
  "cancel_stream en s ad =
    bindp (ow_cancel_operation en (cs_codec s) (ad_operation ad) (cp_service_user_id (ad_policy ad))) (\<lambda>cancelled.
      if \<not> cancelled_matches ad cancelled then raise_plane ad else ret ())"

definition finish_stream_failure :: "env \<Rightarrow> chat_service \<Rightarrow> admission \<Rightarrow> chat_usage option \<Rightarrow> str \<Rightarrow> terminal_status \<Rightarrow>
    str \<Rightarrow> str \<Rightarrow> unit prog" where
  "finish_stream_failure en s ad u code status outcome stage =
    bindp (case u of None \<Rightarrow> bindp (cancel_stream en s ad) (\<lambda>_. ret 0) | Some u \<Rightarrow> settle_stream en s ad u) (\<lambda>charged_micro.
      terminalize en ad status outcome stage code charged_micro)"

definition try_finish_stream_failure :: "env \<Rightarrow> chat_service \<Rightarrow> admission \<Rightarrow> chat_usage option \<Rightarrow> str \<Rightarrow> terminal_status \<Rightarrow>
    str \<Rightarrow> str \<Rightarrow> bool prog" where
  "try_finish_stream_failure en s ad u code status outcome stage =
    except (bindp (finish_stream_failure en s ad u code status outcome stage) (\<lambda>_. ret True))
      (\<lambda>e. if is_base_only e then raise e else ret False)"

definition heartbeat_stream :: "env \<Rightarrow> chat_service \<Rightarrow> admission \<Rightarrow> unit prog" where
  "heartbeat_stream en s ad =
    bindp (lease_heartbeat en s ad) (\<lambda>_.
    bindp (terminal_now en ad) (\<lambda>now.
    bindp (touch_operation en ad now) (\<lambda>touched.
      if \<not> touched then raise (RuntimeError ''stream operation is already terminal'') else ret ())))"

subsection \<open>The decoder when it fails\<close>

text \<open>The state of the decoder after a chunk that it refused: what the lines before the faulty
  one have set stays set.\<close>

function left_by_drain :: "(str \<Rightarrow> json option) \<Rightarrow> (json \<Rightarrow> (int \<times> int \<times> int) option) \<Rightarrow> decoder \<Rightarrow> str \<Rightarrow> decoder" where
  "left_by_drain loads coerce d buffer = (case split_line buffer of
     None \<Rightarrow> d
   | Some (line, rest) \<Rightarrow> (case feed_line loads coerce d line of
       Inl _ \<Rightarrow> d | Inr (d', _) \<Rightarrow> left_by_drain loads coerce d' rest))"
  by pat_completeness auto
termination
  by (relation "measure (\<lambda>(_, _, _, buffer). length buffer)") (auto simp: split_line_Some)

declare left_by_drain.simps [simp del]

definition usage_left :: "(str \<Rightarrow> json option) \<Rightarrow> (json \<Rightarrow> (int \<times> int \<times> int) option) \<Rightarrow> decoder \<Rightarrow> str \<Rightarrow> chat_usage option" where
  "usage_left loads coerce d chunk =
    (if chunk = [] \<or> dc_done d then dc_usage d
     else let buffer = dc_buffer d @ chunk in
       if MAX_SSE_LINE_BYTES < int (length buffer) \<and> nl \<notin> set buffer then dc_usage d
       else dc_usage (left_by_drain loads coerce d buffer))"

subsection \<open>The loop\<close>

text \<open>One wait for the upstream task: the heartbeat falls due first, the wait is cancelled, or
  the task is done (and the heartbeat may be due as well).\<close>

datatype stream_wait = Wait_timeout | Wait_cancelled | Wait_done bool delivery

text \<open>How the guarded loop ends: the usage the decoder has by then, whether an upstream task is
  still running, \<open>terminal_committed\<close>, and a return or an exception.\<close>

record loop_end =
  le_usage :: "chat_usage option"
  le_pending :: bool
  le_committed :: bool
  le_result :: "unit res"

definition commit_stream :: "env \<Rightarrow> chat_service \<Rightarrow> admission \<Rightarrow> chat_usage option \<Rightarrow> unit prog" where
  "commit_stream en s ad u = (case u of
     None \<Rightarrow> raise (AssertionError ''decoder returned DONE without usage'')
   | Some u \<Rightarrow> bindp (settle_stream en s ad u) (\<lambda>charged_micro.
       terminalize en ad T_completed ''success'' ''response'' ''OK'' charged_micro))"

text \<open>The frames of one chunk: \<open>None\<close> when the loop goes on.\<close>

fun send_frames :: "env \<Rightarrow> chat_service \<Rightarrow> admission \<Rightarrow> chat_usage option \<Rightarrow> str list \<Rightarrow> world \<Rightarrow> loop_end option \<times> world" where
  "send_frames en s ad u [] w = (None, w)"
| "send_frames en s ad u (frame # frames) w =
    (if frame \<noteq> SSE_DONE then
       (case yield_frame en frame w of
          (Inl e, w1) \<Rightarrow> (Some \<lparr>le_usage = u, le_pending = False, le_committed = False, le_result = Inl e\<rparr>, w1)
        | (Inr _, w1) \<Rightarrow> send_frames en s ad u frames w1)
     else (case commit_stream en s ad u w of
          (Inl e, w1) \<Rightarrow> (Some \<lparr>le_usage = u, le_pending = False, le_committed = False, le_result = Inl e\<rparr>, w1)
        | (Inr _, w1) \<Rightarrow> (case yield_frame en SSE_DONE w1 of
            (r, w2) \<Rightarrow> (Some \<lparr>le_usage = u, le_pending = False, le_committed = True, le_result = r\<rparr>, w2))))"

definition beat_and_yield :: "env \<Rightarrow> chat_service \<Rightarrow> admission \<Rightarrow> unit prog" where
  "beat_and_yield en s ad = bindp (heartbeat_stream en s ad) (\<lambda>_. yield_frame en SSE_HEARTBEAT)"

fun stream_loop :: "env \<Rightarrow> chat_service \<Rightarrow> admission \<Rightarrow> generator \<Rightarrow> decoder \<Rightarrow> stream_wait list \<Rightarrow> world \<Rightarrow>
    loop_end \<times> world" where
  "stream_loop en s ad g d [] w = (\<lparr>le_usage = dc_usage d, le_pending = True, le_committed = False, le_result = Inl CancelledError\<rparr>, w)"
| "stream_loop en s ad g d (Wait_cancelled # waits) w =
    (\<lparr>le_usage = dc_usage d, le_pending = True, le_committed = False, le_result = Inl CancelledError\<rparr>, w)"
| "stream_loop en s ad g d (Wait_timeout # waits) w =
    (case beat_and_yield en s ad w of
       (Inl e, w1) \<Rightarrow> (\<lparr>le_usage = dc_usage d, le_pending = True, le_committed = False, le_result = Inl e\<rparr>, w1)
     | (Inr _, w1) \<Rightarrow> stream_loop en s ad g d waits w1)"
| "stream_loop en s ad g d (Wait_done due x # waits) w =
    (case (if due then beat_and_yield en s ad else ret ()) w of
       (Inl e, w1) \<Rightarrow> (\<lparr>le_usage = dc_usage d, le_pending = False, le_committed = False, le_result = Inl e\<rparr>, w1)
     | (Inr _, w1) \<Rightarrow> (case stream_next g x of
         Inl e \<Rightarrow> (\<lparr>le_usage = dc_usage d, le_pending = False, le_committed = False, le_result = Inl e\<rparr>, w1)
       | Inr (None, _) \<Rightarrow> (\<lparr>le_usage = dc_usage d, le_pending = False, le_committed = False, le_result = finish d\<rparr>, w1)
       | Inr (Some chunk, g') \<Rightarrow>
           (case feed (cd_loads (cs_codec s)) (coerce_usage (cd_valid (cs_codec s))) d chunk of
              Inl e \<Rightarrow> (\<lparr>le_usage = usage_left (cd_loads (cs_codec s)) (coerce_usage (cd_valid (cs_codec s))) d chunk,
                le_pending = False, le_committed = False, le_result = Inl e\<rparr>, w1)
            | Inr (d', frames) \<Rightarrow> (case send_frames en s ad (dc_usage d') frames w1 of
                (Some l, w2) \<Rightarrow> (l, w2)
              | (None, w2) \<Rightarrow> stream_loop en s ad g' d' waits w2))))"

subsection \<open>The handlers and the clean-up\<close>

definition yield_error :: "env \<Rightarrow> chat_service \<Rightarrow> admission \<Rightarrow> str \<Rightarrow> unit prog" where
  "yield_error en s ad code =
    bindp (of_res (stream_error_frame (cs_codec s) code (ad_server_request ad) (ad_operation ad))) (yield_frame en)"

text \<open>What a handler leaves: \<open>terminal_committed\<close> and its own result. When the attempt to finish
  raises, the variable keeps its value.\<close>

type_synonym handled = "(bool \<times> unit res) \<times> world"

definition then_yield :: "env \<Rightarrow> chat_service \<Rightarrow> admission \<Rightarrow> str \<Rightarrow> bool \<Rightarrow> world \<Rightarrow> handled" where
  "then_yield en s ad code committed w = (case yield_error en s ad code w of (r, w1) \<Rightarrow> ((committed, r), w1))"

definition handle_disconnect :: "env \<Rightarrow> chat_service \<Rightarrow> admission \<Rightarrow> loop_end \<Rightarrow> exn \<Rightarrow> world \<Rightarrow> handled" where
  "handle_disconnect en s ad l e w =
    (case try_finish_stream_failure en s ad (le_usage l) ''CLIENT_DISCONNECTED'' T_abandoned ''cancelled'' ''response'' w of
       (Inl x, w1) \<Rightarrow> ((le_committed l, Inl x), w1)
     | (Inr b, w1) \<Rightarrow> ((b, Inl e), w1))"

definition handle_provider :: "env \<Rightarrow> chat_service \<Rightarrow> admission \<Rightarrow> loop_end \<Rightarrow> str \<Rightarrow> world \<Rightarrow> handled" where
  "handle_provider en s ad l public_code w =
    (case finish_stream_failure en s ad (le_usage l) public_code T_rejected ''provider_error'' ''provider'' w of
       (Inr _, w1) \<Rightarrow> then_yield en s ad public_code True w1
     | (Inl x, w1) \<Rightarrow> if is_base_only x then ((le_committed l, Inl x), w1)
         else then_yield en s ad ''CONTROL_PLANE_UNAVAILABLE'' (le_committed l) w1)"

definition handle_internal :: "env \<Rightarrow> chat_service \<Rightarrow> admission \<Rightarrow> loop_end \<Rightarrow> str \<Rightarrow> world \<Rightarrow> handled" where
  "handle_internal en s ad l code w =
    (case try_finish_stream_failure en s ad (le_usage l) code T_abandoned ''system_error'' ''recovery'' w of
       (Inl x, w1) \<Rightarrow> ((le_committed l, Inl x), w1)
     | (Inr b, w1) \<Rightarrow> then_yield en s ad code b w1)"

definition handle_stream :: "env \<Rightarrow> chat_service \<Rightarrow> admission \<Rightarrow> loop_end \<Rightarrow> world \<Rightarrow> handled" where
  "handle_stream en s ad l w = (case le_result l of
     Inr _ \<Rightarrow> ((le_committed l, Inr ()), w)
   | Inl e \<Rightarrow>
       if is_base_only e then handle_disconnect en s ad l e w
       else (case e of
         BifrostUpstreamError code status_code _ \<Rightarrow> handle_provider en s ad l (provider_error code status_code) w
       | ControlPlaneUnavailable \<Rightarrow> handle_internal en s ad l ''CONTROL_PLANE_UNAVAILABLE'' w
       | _ \<Rightarrow> handle_internal en s ad l ''INTERNAL_ERROR'' w))"

text \<open>The \<open>finally\<close> clause. A task still running is cancelled and awaited first. Closing the upstream generator swallows exceptions, but not a
  cancellation; the leases are released in any case.\<close>

definition close_upstream :: "env \<Rightarrow> unit prog" where
  "close_upstream en = except (call en Act_close (ret ())) (\<lambda>e. if is_base_only e then raise e else ret ())"

definition clean_stream :: "env \<Rightarrow> chat_service \<Rightarrow> admission \<Rightarrow> bool \<Rightarrow> bool \<Rightarrow> unit prog" where
  "clean_stream en s ad pending committed =
    bindp (if pending then call en Act_upstream (ret ()) else ret ()) (\<lambda>_.
    finally_do (close_upstream en)
      (bindp (release_active_leases en s (ad_client ad) (ad_pool ad) (ad_operation ad)) (\<lambda>clean.
        if \<not> clean \<and> \<not> committed then raise ControlPlaneUnavailable else ret ())))"

definition stream_response :: "env \<Rightarrow> chat_service \<Rightarrow> admission \<Rightarrow> opened \<Rightarrow> stream_wait list \<Rightarrow> unit prog" where
  "stream_response en s ad answer waits w0 =
    (let w = record_act (Act_bifrost ''POST'' chat_path (stream_payload (bifrost_payload (ad_request ad)))) w0 in
     case stream_loop en s ad (Not_started answer) new_decoder waits w of
       (l, w1) \<Rightarrow> (case handle_stream en s ad l w1 of
         ((committed, r), w2) \<Rightarrow> (case clean_stream en s ad (le_pending l) committed w2 of
           (Inl x, w3) \<Rightarrow> (Inl x, w3) | (Inr _, w3) \<Rightarrow> (r, w3))))"

end
