(* ===== verification/World_Lemmas.thy ===== *)
theory World_Lemmas
  imports World
begin

text \<open>
  More rules for whole programs, and the relation of not touching the database: the shared
  lemmas of the properties of the services.
\<close>

definition same_db :: "world \<Rightarrow> world \<Rightarrow> bool" where
  "same_db w w' \<longleftrightarrow> wd_db w' = wd_db w"

interpretation same_db: world_relation same_db
  by unfold_locales (auto simp: same_db_def)

lemma same_db_act [simp]: "same_db w (record_act a w)"
  by (simp add: same_db_def)

context world_relation
begin

lemma attempt: "always P m \<Longrightarrow> always P (World.attempt m)"
  unfolding always_def World.attempt_def by (auto split: prod.splits) (metis snd_conv)

lemma run: "always P m \<Longrightarrow> m w = (r, w') \<Longrightarrow> P w w'"
  by (auto simp: always_def dest: spec [of _ w])

lemma at_world: "(\<And>w. P w (snd (f w))) \<Longrightarrow> always P f"
  by (simp add: always_def)

lemma reads: "always P (read_time en)" "always P (read_mono en)" "always P (read_uuid en n)" "always P (db_load g)"
    "always P (db_read h)"
  by (simp_all add: always_def read_time_def read_mono_def read_uuid_def db_load_def db_read_def refl)

text \<open>The handlers of one class of exceptions.\<close>

lemma handlers:
  "(\<And>c. always P (f1 c)) \<Longrightarrow> always P (case e of CallerPolicyError c \<Rightarrow> f1 c | _ \<Rightarrow> World.raise e)"
  "(\<And>c. always P (f1 c)) \<Longrightarrow> always P (case e of ExternalPayloadError c \<Rightarrow> f1 c | _ \<Rightarrow> World.raise e)"
  "(\<And>c k. always P (f2 c k)) \<Longrightarrow> always P (case e of QuotaAdmissionError c k \<Rightarrow> f2 c k | _ \<Rightarrow> World.raise e)"
  "(\<And>c s r. always P (f3 c s r)) \<Longrightarrow> always P (case e of OpenWebUIUpstreamError c s r \<Rightarrow> f3 c s r | _ \<Rightarrow> World.raise e)"
  "(\<And>c s r. always P (f3 c s r)) \<Longrightarrow> always P (case e of BifrostUpstreamError c s r \<Rightarrow> f3 c s r | _ \<Rightarrow> World.raise e)"
  by (cases e; simp add: always_def refl; fail)+

end

lemma same_db_rules:
  "always same_db (redis_do en f)" "always same_db (http_do en g)" "always same_db m \<Longrightarrow> always same_db (call en a m)"
  by (auto simp: always_def same_db_def redis_do_def http_do_def split: prod.splits)
    (metis (no_types, lifting) call_world record_act_sel(1))

lemma same_db_run: "always same_db m \<Longrightarrow> m w = (r, w') \<Longrightarrow> wd_db w' = wd_db w"
  using same_db.run by (fastforce simp: same_db_def)

subsection \<open>Transactions beside the ledger\<close>

text \<open>A transaction that leaves the tables of the ledger alone keeps its invariant: the constraints
  are checked when it commits.\<close>

lemma tx_keeps_beside:
  assumes "\<And>d x d'. body d = Inr (x, d') \<Longrightarrow>
    db_quotas d' = db_quotas d \<and> db_operations d' = db_operations d \<and> db_events d' = db_events d"
  shows "tx_keeps body"
  unfolding tx_keeps_def
proof (intro allI impI)
  fix d x d'
  assume inv: "ledger_inv d" and "commit_tx body d = Inr (x, d')"
  then have "body d = Inr (x, d')" "db_ok d'" by (simp_all add: commit_tx_Inr)
  with assms have same: "db_quotas d' = db_quotas d" "db_operations d' = db_operations d" "db_events d' = db_events d" by blast+
  show "ledger_inv d'"
    using inv \<open>db_ok d'\<close> by (simp add: ledger_inv_def ledger_ok_def evidence_complete_def same)
qed

end
