(* ===== verification/Chat_Lemmas.thy ===== *)
theory Chat_Lemmas
  imports Chat_Stream World_Lemmas Recovery_Properties
begin

text \<open>
  What the parts of the chat service leave alone: the shared lemmas of its properties. Most
  are instances of \<open>world_relation\<close>, proved along the structure of the programs.
\<close>

subsection \<open>More rules for whole programs\<close>

context world_relation
begin

lemma beats: "always P m \<Longrightarrow> always P (Chat.beats n m)"
proof (induction n)
  case 0
  show ?case unfolding beats.simps by (rule ret)
next
  case (Suc n)
  then show ?case unfolding beats.simps by (intro bind)
qed

lemma lease_run:
  assumes h: "always P (lease_heartbeat en s ad)" and m: "always P m"
  shows "always P (Chat.lease_run en s ad m)"
  unfolding always_def
proof
  fix w
  obtain r w1 where b: "Chat.beats (en_beats en (wd_log w)) (lease_heartbeat en s ad) w = (r, w1)" by fastforce
  have 1: "P w w1" using beats [OF h, of "en_beats en (wd_log w)"] b by (auto simp: always_def dest: spec [of _ w])
  have 2: "P w1 (snd (m w1))" using m by (simp add: always_def)
  show "P w (snd (Chat.lease_run en s ad m w))"
    using 1 trans [OF 1 2] by (auto simp: lease_run_def b split: sum.splits fate.splits)
qed

end

lemmas same_db_all = same_db.rules same_db.attempt same_db.handlers same_db.beats same_db.lease_run same_db.reads same_db_rules

text \<open>The database goes through transactions of the ledger, in some order.\<close>

definition ledger_steps :: "world \<Rightarrow> world \<Rightarrow> bool" where
  "ledger_steps w w' \<longleftrightarrow> (\<exists>ops. wd_db w' = run_steps quota_step ops (wd_db w))"

lemma run_steps_append: "run_steps step (as @ bs) d = run_steps step bs (run_steps step as d)"
  by (induction as arbitrary: d) simp_all

interpretation steps: world_relation ledger_steps
proof
  fix u v w :: world
  show "ledger_steps w w" unfolding ledger_steps_def by (rule exI [of _ "[]"]) simp
  show "ledger_steps u v \<Longrightarrow> ledger_steps v w \<Longrightarrow> ledger_steps u w"
    unfolding ledger_steps_def by (metis run_steps_append)
qed

lemma ledger_steps_act [simp]: "ledger_steps w (record_act a w)"
  unfolding ledger_steps_def by (rule exI [of _ "[]"]) simp

lemma steps_same_db: "always same_db m \<Longrightarrow> always ledger_steps m"
  unfolding always_def same_db_def ledger_steps_def by (metis run_steps.simps(1))

lemma steps_keep: "always ledger_steps m \<Longrightarrow> always keeps_ledger m"
  unfolding always_def ledger_steps_def keeps_ledger_def by (metis ledger.run_inv)

definition tx_step :: "'a tx \<Rightarrow> bool" where
  "tx_step body \<longleftrightarrow> (\<forall>d x d'. commit_tx body d = Inr (x, d') \<longrightarrow> (\<exists>a. quota_step a d = Inr d'))"

lemma tx_step_ops:
  "tx_step (reserve_operation rq u1 u2)" "tx_step (record_credit_reservation k s uo now)"
  "tx_step (record_provider_usage k a b now)" "tx_step (touch_pending_operation k now)"
  "tx_step (finalize_operation k t uuid)"
  unfolding tx_step_def by (intro allI impI exI, erule committed_step)+

lemma steps_db_tx: "tx_step body \<Longrightarrow> always ledger_steps (db_tx body)"
  unfolding always_def
proof
  fix w
  assume s: "tx_step body"
  show "ledger_steps w (snd (db_tx body w))"
  proof (cases "commit_tx body (wd_db w)")
    case (Inl e)
    then show ?thesis using steps.refl by (simp add: db_tx_def in_tx_def ledger_steps_def)
  next
    case (Inr xd)
    then obtain x d' where "commit_tx body (wd_db w) = Inr (x, d')" by (cases xd) simp
    then obtain a where d': "commit_tx body (wd_db w) = Inr (x, d')" "quota_step a (wd_db w) = Inr d'"
      using s unfolding tx_step_def by blast
    then have "run_steps quota_step [a] (wd_db w) = d'" by simp
    then show ?thesis using d'(1) unfolding ledger_steps_def by (intro exI [of _ "[a]"]) (simp add: db_tx_def in_tx_def)
  qed
qed

lemma steps_call: "always ledger_steps m \<Longrightarrow> always ledger_steps (call en a m)"
  by (rule steps.call) simp_all

lemmas steps_all = steps.rules steps.attempt steps.handlers steps.beats steps.lease_run steps.reads steps_db_tx steps_call

subsection \<open>Parts that do not touch the database\<close>

lemma api_same_db: "always same_db (raise_api c k hs)" "always same_db (raise_plane ad)"
  unfolding raise_plane_def raise_api_def by (rule same_db.raise)+

lemma pool_same_db:
  "always same_db (pool_admit en s p client k)" "always same_db (pool_leave en s p client k)"
  "always same_db (pool_free en s pool k)" "always same_db (pool_abandon en s p client k e)"
  unfolding pool_abandon_def pool_admit_def pool_leave_def pool_free_def by (intro same_db_all)+

lemma pool_wait_same_db: "always same_db (pool_wait n en s p client k deadline hs)"
  by (induction n arbitrary: hs)
    (simp_all only: pool_wait.simps Let_def, (intro same_db_all pool_same_db api_same_db | assumption)+)

lemma case_outcome:
  assumes "\<And>hs. always P (f hs)" "\<And>hs. always P (g hs)" "always P h"
  shows "always P (case x of Pool_admitted hs \<Rightarrow> f hs | Pool_refused hs \<Rightarrow> g hs | Pool_unfinished \<Rightarrow> h)"
  using assms by (cases x) simp_all

lemma acquire_pool_same_db: "always same_db (acquire_model_pool en s model client k hs)"
  unfolding acquire_model_pool_def Let_def
  by (intro same_db_all pool_same_db pool_wait_same_db api_same_db case_outcome)

lemma acquire_concurrency_same_db: "always same_db (acquire_concurrency en s client k limit pool hs)"
  unfolding acquire_concurrency_def Let_def by (intro same_db_all pool_same_db api_same_db)

lemma heartbeat_same_db: "always same_db (lease_heartbeat en s ad)"
  unfolding lease_heartbeat_def by (intro same_db_all)

lemma release_same_db: "always same_db (release_active_leases en s client pool k)"
  unfolding release_active_leases_def release_one_def by (intro same_db_all pool_same_db)

lemma ow_same_db: "always same_db (ow_request en cd path body validate)"
  by (simp add: always_def same_db_def ow_request_world)

lemma forward_same_db: "always same_db (bf_forward_chat en cd payload)"
  unfolding bf_forward_chat_def bf_request_def by (intro same_db_all)

lemma ow_calls_same_db:
  "always same_db (ow_reserve_operation en cd k u m p)" "always same_db (ow_settle_operation en cd k u a b)"
  "always same_db (ow_cancel_operation en cd k u)"
  unfolding ow_reserve_operation_def ow_calls by (rule ow_same_db)+

lemma enter_same_db: "always same_db (chat_enter en s q caller srid)"
  unfolding chat_enter_def enter_as_def Let_def claim_nonce_def load_policy_def admit_qps_def
  by (intro same_db_all acquire_pool_same_db acquire_concurrency_same_db api_same_db)

subsection \<open>Every part runs transactions of the ledger\<close>

lemma finalize_tx_step: "tx_step (\<lambda>d. bind_res (make_terminal t) (\<lambda>t. finalize_operation k t uuid d))"
  unfolding tx_step_def
proof (intro allI impI)
  fix d x d'
  assume c: "commit_tx (\<lambda>d. bind_res (make_terminal t) (\<lambda>t. finalize_operation k t uuid d)) d = Inr (x, d')"
  then have "commit_tx (finalize_operation k t uuid) d = Inr (x, d')"
    by (auto simp: commit_tx_Inr bind_res_Inr dest: make_terminal_Inr)
  from committed_step(5) [OF this] show "\<exists>a. quota_step a d = Inr d'" ..
qed

lemma transactions_step:
  "always ledger_steps (reserve_quota en rq)" "always ledger_steps (record_credit en ad st uo now)"
  "always ledger_steps (record_usage en ad u now)" "always ledger_steps (touch_operation en ad now)"
  "always ledger_steps (terminalize en ad status outcome stage code charged_micro)"
  unfolding reserve_quota_def record_credit_def record_usage_def touch_operation_def terminalize_def Let_def
  by (intro steps_all tx_step_ops finalize_tx_step)+

lemmas same_db_parts = api_same_db pool_same_db acquire_pool_same_db acquire_concurrency_same_db heartbeat_same_db
  release_same_db ow_same_db forward_same_db ow_calls_same_db enter_same_db

lemma parts_step:
  "always ledger_steps (raise_api c ko hs)" "always ledger_steps (raise_plane ad)"
  "always ledger_steps (lease_heartbeat en s ad)" "always ledger_steps (release_active_leases en s client pool k)"
  "always ledger_steps (ow_reserve_operation en cd k u m p)" "always ledger_steps (ow_settle_operation en cd k u a b)"
  "always ledger_steps (ow_cancel_operation en cd k u)" "always ledger_steps (bf_forward_chat en cd payload)"
  "always ledger_steps (chat_enter en s q caller srid)"
  by (intro steps_same_db same_db_parts)+

lemma terminal_now_steps: "always ledger_steps (terminal_now en ad)"
  unfolding terminal_now_def by (intro steps_all)

lemma chat_reserve_steps: "always ledger_steps (chat_reserve en s ad fingerprint stream)"
  unfolding chat_reserve_def reserve_tokens_def reserve_credit_def Let_def
  by (intro steps_all transactions_step parts_step terminal_now_steps)

lemma call_provider_steps: "always ledger_steps (call_provider en s ad)"
  unfolding call_provider_def provider_failed_def settle_response_def
  by (intro steps_all transactions_step parts_step terminal_now_steps)

lemma release_after_steps: "always ledger_steps (release_after en s ad r)"
  unfolding release_after_def by (intro steps_all parts_step)

lemma execute_steps: "always ledger_steps (execute en s q caller srid fingerprint)"
  unfolding execute_def execute_body_def
  by (intro steps_all parts_step chat_reserve_steps call_provider_steps release_after_steps)

lemma prepare_stream_steps: "always ledger_steps (prepare_stream en s q caller srid fingerprint)"
  unfolding prepare_stream_def
  by (intro steps_all parts_step chat_reserve_steps release_after_steps)

subsection \<open>The stream\<close>

lemma settle_stream_steps: "always ledger_steps (settle_stream en s ad u)"
  unfolding settle_stream_def by (intro steps_all parts_step transactions_step terminal_now_steps)

lemma finish_failure_steps: "always ledger_steps (finish_stream_failure en s ad u code status outcome stage)"
  "always ledger_steps (try_finish_stream_failure en s ad u code status outcome stage)"
  unfolding try_finish_stream_failure_def finish_stream_failure_def cancel_stream_def
  by (intro steps_all parts_step settle_stream_steps transactions_step)+

lemma commit_stream_steps: "always ledger_steps (commit_stream en s ad u)"
  unfolding commit_stream_def by (intro steps_all parts_step settle_stream_steps transactions_step)

lemma yield_steps: "always ledger_steps (yield_frame en frame)" "always ledger_steps (yield_error en s ad code)"
  unfolding yield_error_def yield_frame_def by (intro steps_all)+

lemma beat_steps: "always ledger_steps (beat_and_yield en s ad)"
  unfolding beat_and_yield_def heartbeat_stream_def
  by (intro steps_all parts_step transactions_step terminal_now_steps yield_steps)

lemma clean_steps: "always ledger_steps (clean_stream en s ad pending committed)"
  unfolding clean_stream_def close_upstream_def by (intro steps_all parts_step)

subsection \<open>The whole stream\<close>

text \<open>A relation kept by the parts is kept by the stream: the loop, the handlers and the clean-up
  add no effects of their own.\<close>

context world_relation
begin

lemma send_frames:
  assumes y: "\<And>frame. always P (yield_frame en frame)" and c: "always P (commit_stream en s ad u)"
  shows "Chat_Stream.send_frames en s ad u frames w = (x, w') \<Longrightarrow> P w w'"
proof (induction frames arbitrary: w)
  case Nil
  then show ?case by (simp add: refl)
next
  case (Cons frame frames)
  then show ?case
    by (auto split: if_splits prod.splits sum.splits) (metis run [OF y] run [OF c] trans)+
qed

lemma stream_loop:
  assumes y: "\<And>frame. always P (yield_frame en frame)" and c: "\<And>u. always P (commit_stream en s ad u)"
    and b: "always P (beat_and_yield en s ad)"
  shows "Chat_Stream.stream_loop en s ad g d waits w = (x', w') \<Longrightarrow> P w w'"
proof (induction waits arbitrary: g d w)
  case Nil
  then show ?case by (simp add: refl)
next
  case (Cons wait waits)
  show ?case
  proof (cases wait)
    case Wait_timeout
    with Cons show ?thesis by (auto split: prod.splits sum.splits) (metis run [OF b] trans)+
  next
    case Wait_cancelled
    with Cons.prems show ?thesis by (simp add: refl)
  next
    case (Wait_done due x)
    have m: "always P (if due then beat_and_yield en s ad else World.ret ())"
      by (intro if_then b ret)
    obtain r w1 where w1: "(if due then beat_and_yield en s ad else World.ret ()) w = (r, w1)" by fastforce
    note p1 = run [OF m w1]
    show ?thesis
    proof (cases r)
      case (Inl e)
      with Cons.prems p1 show ?thesis by (simp add: Wait_done w1)
    next
      case (Inr u)
      note start = Cons.prems [unfolded Wait_done stream_loop.simps w1 Inr prod.case sum.case]
      show ?thesis
      proof (cases "stream_next g x")
        case (Inl e)
        with start p1 show ?thesis by simp
      next
        case n: (Inr cg)
        obtain ch g' where cg: "cg = (ch, g')" by fastforce
        show ?thesis
        proof (cases ch)
          case None
          with start p1 show ?thesis by (simp add: n cg)
        next
          case (Some chunk)
          let ?feed = "feed (cd_loads (cs_codec s)) (coerce_usage (cd_valid (cs_codec s))) d chunk"
          note start = start [unfolded n cg Some sum.case prod.case option.case]
          show ?thesis
          proof (cases ?feed)
            case (Inl e)
            with start p1 show ?thesis by simp
          next
            case fd: (Inr df)
            obtain d' frames where df: "df = (d', frames)" by fastforce
            obtain l w2 where sf: "Chat_Stream.send_frames en s ad (dc_usage d') frames w1 = (l, w2)" by fastforce
            note p2 = trans [OF p1 send_frames [OF y c sf]]
            show ?thesis
            proof (cases l)
              case None
              with start have "Chat_Stream.stream_loop en s ad g' d' waits w2 = (x', w')" by (simp add: fd df sf)
              from trans [OF p2 Cons.IH [OF this]] show ?thesis .
            next
              case (Some l')
              with start p2 show ?thesis by (simp add: fd df sf)
            qed
          qed
        qed
      qed
    qed
  qed
qed

lemma handle:
  assumes y: "\<And>code. always P (yield_error en s ad code)"
    and f: "\<And>u code st oc sg. always P (finish_stream_failure en s ad u code st oc sg)"
    and t: "\<And>u code st oc sg. always P (try_finish_stream_failure en s ad u code st oc sg)"
  shows "handle_stream en s ad l w = (x, w') \<Longrightarrow> P w w'"
proof -
  have yy: "then_yield en s ad code b w = (x, w') \<Longrightarrow> P w w'" for code b w x w'
    by (auto simp: then_yield_def dest: run [OF y] split: prod.splits)
  have d: "handle_disconnect en s ad l e w = (x, w') \<Longrightarrow> P w w'" for e x w'
    by (auto simp: handle_disconnect_def dest: run [OF t] split: prod.splits sum.splits)
  have yy': "then_yield en s ad code b w1 = (x, w') \<Longrightarrow> P w w1 \<Longrightarrow> P w w'" for code b w1 x w'
    using trans [OF _ yy] by blast
  have p: "P w w'" if h: "handle_provider en s ad l code w = (x, w')" for code x w'
  proof -
    obtain r w1 where 1: "finish_stream_failure en s ad (le_usage l) code T_rejected ''provider_error'' ''provider'' w = (r, w1)"
      by fastforce
    from h run [OF f 1] show ?thesis
      by (cases r) (auto simp: handle_provider_def 1 split: if_splits intro: yy')
  qed
  have i: "P w w'" if h: "handle_internal en s ad l code w = (x, w')" for code x w'
  proof -
    obtain r w1 where 1: "try_finish_stream_failure en s ad (le_usage l) code T_abandoned ''system_error'' ''recovery'' w = (r, w1)"
      by fastforce
    from h run [OF t 1] show ?thesis
      by (cases r) (auto simp: handle_internal_def 1 intro: yy')
  qed
  assume h: "handle_stream en s ad l w = (x, w')"
  show "P w w'"
  proof (cases "le_result l")
    case (Inr u)
    with h show ?thesis by (simp add: handle_stream_def refl)
  next
    case (Inl e)
    have "handle_disconnect en s ad l e w = (x, w') \<or> (\<exists>code. handle_provider en s ad l code w = (x, w')) \<or>
        (\<exists>code. handle_internal en s ad l code w = (x, w'))"
      using h by (cases e) (auto simp: handle_stream_def Inl)
    with d p i show ?thesis by blast
  qed
qed

lemma stream:
  assumes a: "\<And>w a. P w (record_act a w)"
    and y: "\<And>frame. always P (yield_frame en frame)" "\<And>code. always P (yield_error en s ad code)"
    and c: "\<And>u. always P (commit_stream en s ad u)" and b: "always P (beat_and_yield en s ad)"
    and f: "\<And>u code st oc sg. always P (finish_stream_failure en s ad u code st oc sg)"
      "\<And>u code st oc sg. always P (try_finish_stream_failure en s ad u code st oc sg)"
    and k: "\<And>pending committed. always P (clean_stream en s ad pending committed)"
  shows "always P (stream_response en s ad answer waits)"
  unfolding always_def
proof
  fix w0
  let ?w = "record_act (Act_bifrost ''POST'' chat_path (stream_payload (bifrost_payload (ad_request ad)))) w0"
  obtain l w1 where 1: "Chat_Stream.stream_loop en s ad (Not_started answer) new_decoder waits ?w = (l, w1)" by fastforce
  obtain cr w2 where 2: "handle_stream en s ad l w1 = (cr, w2)" by fastforce
  obtain q w3 where 3: "clean_stream en s ad (le_pending l) (fst cr) w2 = (q, w3)" by fastforce
  have "P ?w w3"
    using stream_loop [OF y(1) c b 1] handle [OF y(2) f 2] run [OF k 3] trans by metis
  moreover have "snd (stream_response en s ad answer waits w0) = w3"
    using 3 by (cases cr) (simp add: stream_response_def Let_def 1 2 split: sum.split)
  ultimately show "P w0 (snd (stream_response en s ad answer waits w0))" using a trans by metis
qed

end

lemma stream_steps: "always ledger_steps (stream_response en s ad answer waits)"
  by (rule steps.stream) (simp | rule yield_steps commit_stream_steps beat_steps finish_failure_steps clean_steps)+

end
