(* ===== verification/Chat_Protocol.thy ===== *)
theory Chat_Protocol
  imports Chat_Lemmas
begin

text \<open>
  The order in which a plain chat request acts on the outside, as an abstract state machine over
  the log, and the proof that the chat service refines it: whatever fails and whenever, the
  acts of a run are a path of the machine.
\<close>

subsection \<open>The machine\<close>

datatype phase =
    Arriving | Nonce_claimed | Policy_loaded | Rate_counted | In_pool | Leased
  | Quota_reserved | Credit_asked | Credit_recorded | Provider_called
  | Usage_recorded | Settled | Cancelled | Terminal | Releasing | Left

text \<open>The phases in which the leases of the operation are held.\<close>

definition lease_phases :: "phase set" where
  "lease_phases = {Leased, Quota_reserved, Credit_asked, Credit_recorded, Provider_called, Usage_recorded, Settled,
     Cancelled, Terminal}"

definition reserve_path :: str where
  "reserve_path = ''/api/v1/internal/external-api/operations/reserve''"

definition settle_path :: str where
  "settle_path = ''/api/v1/internal/external-api/operations/settle''"

definition cancel_path :: str where
  "cancel_path = ''/api/v1/internal/external-api/operations/cancel''"

fun db_move :: "str \<Rightarrow> phase \<Rightarrow> quota_op \<Rightarrow> phase option" where
  "db_move k ph (Reserve rq _ _) = (if ph = Leased \<and> rq_operation rq = k then Some Quota_reserved else None)"
| "db_move k ph (Record_credit j _ _ _) = (if ph = Credit_asked \<and> j = k then Some Credit_recorded else None)"
| "db_move k ph (Record_usage j _ _ _) = (if ph = Provider_called \<and> j = k then Some Usage_recorded else None)"
| "db_move k ph (Finalize j t _) =
    (if j = k \<and> (ph = Settled \<and> tm_status t = T_completed \<or>
        ph \<in> {Quota_reserved, Credit_asked, Cancelled} \<and> tm_status t = T_rejected \<and> tm_charged t = 0) then Some Terminal else None)"
| "db_move k ph (Touch _ _) = None"

fun move :: "str \<Rightarrow> phase \<Rightarrow> act \<Rightarrow> phase option" where
  "move k ph (Act_nonce _) = (if ph = Arriving then Some Nonce_claimed else None)"
| "move k ph Act_policy = (if ph = Nonce_claimed then Some Policy_loaded else None)"
| "move k ph Act_qps = (if ph = Policy_loaded then Some Rate_counted else None)"
| "move k ph (Act_pool_admit j) = (if ph \<in> {Rate_counted, In_pool} \<and> j = k then Some In_pool else None)"
| "move k ph Act_sleep = (if ph = In_pool then Some In_pool else None)"
| "move k ph (Act_pool_cancel j) = (if ph = In_pool \<and> j = k then Some Left else None)"
| "move k ph (Act_acquire j) = (if ph = In_pool \<and> j = k then Some Leased else None)"
| "move k ph (Act_heartbeat j) = (if ph \<in> lease_phases \<and> j = k then Some ph else None)"
| "move k ph (Act_pool_heartbeat j) = (if ph \<in> lease_phases \<and> j = k then Some ph else None)"
| "move k ph (Act_db [x]) = db_move k ph x"
| "move k ph (Act_db _) = None"
| "move k ph (Act_openwebui path _) =
    (if ph = Quota_reserved \<and> path = reserve_path then Some Credit_asked
     else if ph = Usage_recorded \<and> path = settle_path then Some Settled
     else if ph \<in> {Credit_recorded, Provider_called} \<and> path = cancel_path then Some Cancelled else None)"
| "move k ph (Act_bifrost verb path _) =
    (if ph = Credit_recorded \<and> verb = ''POST'' \<and> path = chat_path then Some Provider_called else None)"
| "move k ph (Act_release j) = (if ph \<in> lease_phases \<and> j = k then Some Releasing else None)"
| "move k ph (Act_pool_release j) = (if ph \<in> {Releasing, Leased} \<and> j = k then Some Left else None)"
| "move k ph Act_upstream = None"
| "move k ph Act_close = None"
| "move k ph (Act_yield _) = None"
| "move k ph (Act_credential _) = None"
| "move k ph Act_usage = None"
| "move k ph (Act_observe _) = None"
| "move k ph (Act_admin _) = None"

fun moves :: "str \<Rightarrow> phase \<Rightarrow> act list \<Rightarrow> phase option" where
  "moves k ph [] = Some ph"
| "moves k ph (a # as) = (case move k ph a of None \<Rightarrow> None | Some ph' \<Rightarrow> moves k ph' as)"

lemma moves_append: "moves k ph (l @ l') = (case moves k ph l of None \<Rightarrow> None | Some ph' \<Rightarrow> moves k ph' l')"
  by (induction l arbitrary: ph) (auto split: option.split)

subsection \<open>Traces of programs\<close>

definition at_phase :: "str \<Rightarrow> act list \<Rightarrow> phase set \<Rightarrow> world \<Rightarrow> bool" where
  "at_phase k l0 S w \<longleftrightarrow> (\<exists>l ph. wd_log w = l0 @ l \<and> moves k Arriving l = Some ph \<and> ph \<in> S)"

text \<open>From a phase in \<open>S\<close>, \<open>m\<close> ends with a value \<open>x\<close> in a phase of \<open>Q x\<close> or with an exception in one
  of \<open>E\<close>.\<close>

definition trace :: "str \<Rightarrow> phase set \<Rightarrow> 'a prog \<Rightarrow> ('a \<Rightarrow> phase set) \<Rightarrow> phase set \<Rightarrow> bool" where
  "trace k S m Q E \<longleftrightarrow> (\<forall>l0 w. at_phase k l0 S w \<longrightarrow>
     (case m w of (Inl e, w') \<Rightarrow> at_phase k l0 E w' | (Inr x, w') \<Rightarrow> at_phase k l0 (Q x) w'))"

definition quiet :: "'a prog \<Rightarrow> bool" where
  "quiet m \<longleftrightarrow> (\<forall>w. wd_log (snd (m w)) = wd_log w)"

lemma at_phase_mono: "at_phase k l0 S w \<Longrightarrow> S \<subseteq> T \<Longrightarrow> at_phase k l0 T w"
  unfolding at_phase_def by blast

lemma trace_weaken:
  "trace k S m Q E \<Longrightarrow> S' \<subseteq> S \<Longrightarrow> (\<And>x. Q x \<subseteq> Q' x) \<Longrightarrow> E \<subseteq> E' \<Longrightarrow> trace k S' m Q' E'"
  unfolding trace_def
  by (clarsimp split: prod.splits sum.splits) (metis (no_types, lifting) at_phase_mono)

lemma trace_ret: "S \<subseteq> Q x \<Longrightarrow> trace k S (World.ret x) Q E"
  by (auto simp: trace_def intro: at_phase_mono)

lemma trace_raise: "S \<subseteq> E \<Longrightarrow> trace k S (World.raise e) Q E"
  by (auto simp: trace_def intro: at_phase_mono)

lemma trace_quiet: "quiet m \<Longrightarrow> trace k S m (\<lambda>_. S) S"
  unfolding trace_def quiet_def at_phase_def by (auto split: prod.splits sum.splits) (metis snd_conv)+

lemma trace_bind:
  "trace k S m Q E \<Longrightarrow> (\<And>x. trace k (Q x) (f x) R E) \<Longrightarrow> trace k S (bindp m f) R E"
  unfolding trace_def bindp_def by (fastforce split: prod.splits sum.splits)

lemma trace_except:
  "trace k S m Q E \<Longrightarrow> (\<And>e. trace k E (h e) Q F) \<Longrightarrow> trace k S (World.except m h) Q F"
  unfolding trace_def World.except_def by (fastforce split: prod.splits sum.splits)

lemma trace_attempt:
  "trace k S m Q E \<Longrightarrow> trace k S (World.attempt m) (\<lambda>r. case r of Inl e \<Rightarrow> E | Inr x \<Rightarrow> Q x) F"
  unfolding trace_def World.attempt_def by (fastforce split: prod.splits sum.splits)

lemma trace_attempt_case:
  assumes "trace k S m Q E" and "\<And>e. trace k E (f e) R F" and "\<And>x. trace k (Q x) (g x) R F"
  shows "trace k S (bindp (World.attempt m) (\<lambda>r. case r of Inl e \<Rightarrow> f e | Inr x \<Rightarrow> g x)) R F"
  by (rule trace_bind [OF trace_attempt [OF assms(1)]]) (use assms(2,3) in \<open>auto split: sum.split\<close>)

lemma trace_call:
  assumes "quiet m" and "\<And>ph. ph \<in> S \<Longrightarrow> \<exists>ph' \<in> T. move k ph a = Some ph'"
  shows "trace k S (World.call en a m) (\<lambda>_. T) T"
  unfolding trace_def
proof (intro allI impI)
  fix l0 w
  assume "at_phase k l0 S w"
  then obtain l ph where l: "wd_log w = l0 @ l" "moves k Arriving l = Some ph" "ph \<in> S" unfolding at_phase_def by blast
  obtain ph' where "ph' \<in> T" "move k ph a = Some ph'" using assms(2) l(3) by blast
  then have m: "moves k Arriving (l @ [a]) = Some ph'" using l(2) by (simp add: moves_append)
  have "wd_log (snd (World.call en a m w)) = l0 @ (l @ [a])"
    using call_world [of en a m w] assms(1) l(1) by (auto simp: quiet_def)
  with m \<open>ph' \<in> T\<close> have "at_phase k l0 T (snd (World.call en a m w))" unfolding at_phase_def by blast
  then show "case World.call en a m w of (Inl e, w') \<Rightarrow> at_phase k l0 T w' | (Inr x, w') \<Rightarrow> at_phase k l0 T w'"
    by (auto split: prod.splits sum.splits)
qed

lemma trace_if: "(b \<Longrightarrow> trace k S m Q E) \<Longrightarrow> (\<not> b \<Longrightarrow> trace k S n Q E) \<Longrightarrow> trace k S (if b then m else n) Q E"
  by simp

lemma trace_at_log: "(\<And>l. trace k S (f l) Q E) \<Longrightarrow> trace k S (World.at_log f) Q E"
  unfolding trace_def World.at_log_def by simp

lemma trace_beats: "trace k S m (\<lambda>_. S) S \<Longrightarrow> trace k S (Chat.beats n m) (\<lambda>_. S) S"
  by (induction n) (simp_all only: Chat.beats.simps, (intro trace_ret trace_bind | simp)+)

lemma trace_lease_run:
  assumes h: "trace k S (lease_heartbeat en s ad) (\<lambda>_. S) S" and m: "trace k S m Q E"
    and F: "S \<subseteq> F" "E \<subseteq> F" "\<And>x. Q x \<subseteq> F"
  shows "trace k S (Chat.lease_run en s ad m) Q F"
  unfolding trace_def
proof (intro allI impI)
  fix l0 w
  assume a: "at_phase k l0 S w"
  obtain r w1 where b: "Chat.beats (en_beats en (wd_log w)) (lease_heartbeat en s ad) w = (r, w1)" by fastforce
  have 1: "at_phase k l0 S w1"
  proof -
    have "case Chat.beats (en_beats en (wd_log w)) (lease_heartbeat en s ad) w of
        (Inl e, w') \<Rightarrow> at_phase k l0 S w' | (Inr x, w') \<Rightarrow> at_phase k l0 S w'"
      using trace_beats [OF h, of "en_beats en (wd_log w)"] a by (simp add: trace_def)
    then show ?thesis by (simp add: b split: sum.splits)
  qed
  obtain r2 w2 where c: "m w1 = (r2, w2)" by fastforce
  have 2: "case r2 of Inl e \<Rightarrow> at_phase k l0 E w2 | Inr x \<Rightarrow> at_phase k l0 (Q x) w2"
    using m 1 c by (fastforce simp: trace_def split: sum.splits)
  then have 3: "at_phase k l0 F w2" using F(2,3) by (auto split: sum.splits intro: at_phase_mono)
  show "case Chat.lease_run en s ad m w of (Inl e, w') \<Rightarrow> at_phase k l0 F w' | (Inr x, w') \<Rightarrow> at_phase k l0 (Q x) w'"
    using 1 2 3 at_phase_mono [OF 1 F(1)] at_phase_mono [OF _ F(2)]
    by (auto simp: lease_run_def b c split: sum.splits fate.splits)
qed

subsection \<open>Quiet programs\<close>

lemma quiet_basic [intro, simp]:
  "quiet (redis_do en f)" "quiet (http_do en g)" "quiet (db_tx body)" "quiet (db_load h)" "quiet (World.of_res r)"
  "quiet (read_time en)" "quiet (read_mono en)" "quiet (read_uuid en n)"
  by (auto simp: quiet_def redis_do_def http_do_def db_tx_def db_load_def read_time_def read_mono_def read_uuid_def
      split: prod.splits)

lemma quiet_ret: "quiet (World.ret x)"
  by (simp add: quiet_def)

lemma trace_reads:
  "trace k S (read_time en) (\<lambda>_. S) S" "trace k S (read_mono en) (\<lambda>_. S) S" "trace k S (read_uuid en n) (\<lambda>_. S) S"
  "trace k S (World.of_res r) (\<lambda>_. S) S"
  by (intro trace_quiet quiet_basic)+

subsection \<open>The parts of the chat service\<close>

lemma trace_empty: "trace k {} m Q E"
  by (simp add: trace_def at_phase_def)

lemma trace_api: "S \<subseteq> E \<Longrightarrow> trace k S (raise_api c ko hs) Q E" "S \<subseteq> E \<Longrightarrow> trace k S (raise_plane ad) Q E"
  unfolding raise_plane_def raise_api_def by (rule trace_raise, assumption)+

lemma trace_pool:
  "trace k {Rate_counted, In_pool} (pool_admit en s p client k) (\<lambda>_. {In_pool}) {In_pool}"
  "trace k {In_pool} (pool_leave en s p client k) (\<lambda>_. {Left}) {Left}"
  "trace k {Releasing, Leased} (pool_free en s pool k) (\<lambda>_. {Left}) {Left}"
  unfolding pool_admit_def pool_leave_def pool_free_def by (rule trace_call; auto)+

lemma trace_sleep: "trace k {In_pool} (World.call en Act_sleep (World.ret ())) (\<lambda>_. {In_pool}) {In_pool}"
  by (rule trace_call [OF quiet_ret]) simp

lemma trace_admit_again: "trace k {In_pool} (pool_admit en s p client k) (\<lambda>_. {In_pool}) {In_pool}"
  by (rule trace_weaken [OF trace_pool(1)]) auto

lemma trace_pool_wait: "trace k {In_pool} (pool_wait n en s p client k deadline hs) (\<lambda>_. {In_pool}) {In_pool}"
proof (induction n arbitrary: hs)
  case 0
  show ?case unfolding pool_wait.simps by (intro trace_ret) simp
next
  case (Suc n)
  show ?case unfolding pool_wait.simps Let_def
    by (intro trace_bind [OF trace_reads(2)] trace_bind [OF trace_sleep] trace_bind [OF trace_admit_again] trace_if
        trace_api trace_ret Suc.IH subset_refl)
qed

lemma trace_abandon: "trace k {In_pool} (pool_abandon en s p client k e) Q {Left}"
  unfolding pool_abandon_def
  by (intro trace_if trace_bind [where Q = "\<lambda>_. {Left}"] trace_except [where E = "{Left}"] trace_pool trace_ret trace_raise
      subset_refl)

lemma trace_outcome:
  assumes "\<And>hs. trace k S (f hs) Q E" "\<And>hs. trace k S (g hs) Q E" "trace k S h Q E"
  shows "trace k S (case x of Pool_admitted hs \<Rightarrow> f hs | Pool_refused hs \<Rightarrow> g hs | Pool_unfinished \<Rightarrow> h) Q E"
  using assms by (cases x) simp_all

lemma trace_option: "(x = None \<Longrightarrow> trace k S m Q E) \<Longrightarrow> (\<And>y. x = Some y \<Longrightarrow> trace k S (f y) Q E) \<Longrightarrow>
    trace k S (case x of None \<Rightarrow> m | Some y \<Rightarrow> f y) Q E"
  by (cases x) simp_all

lemma trace_res: "(\<And>e. r = Inl e \<Longrightarrow> trace k S (f e) Q E) \<Longrightarrow> (\<And>x. r = Inr x \<Longrightarrow> trace k S (g x) Q E) \<Longrightarrow>
    trace k S (case r of Inl e \<Rightarrow> f e | Inr x \<Rightarrow> g x) Q E"
  by (cases r) simp_all

lemma trace_pair: "(\<And>x y. p = (x, y) \<Longrightarrow> trace k S (f x y) Q E) \<Longrightarrow> trace k S (case p of (x, y) \<Rightarrow> f x y) Q E"
  by (cases p) simp

lemma trace_handlers:
  assumes "S \<subseteq> E"
  shows "(\<And>c. trace k S (f1 c) Q E) \<Longrightarrow> trace k S (case e of CallerPolicyError c \<Rightarrow> f1 c | _ \<Rightarrow> World.raise e) Q E"
    "(\<And>c. trace k S (f1 c) Q E) \<Longrightarrow> trace k S (case e of ExternalPayloadError c \<Rightarrow> f1 c | _ \<Rightarrow> World.raise e) Q E"
    "(\<And>c j. trace k S (f2 c j) Q E) \<Longrightarrow> trace k S (case e of QuotaAdmissionError c j \<Rightarrow> f2 c j | _ \<Rightarrow> World.raise e) Q E"
    "(\<And>c s r. trace k S (f3 c s r) Q E) \<Longrightarrow> trace k S (case e of OpenWebUIUpstreamError c s r \<Rightarrow> f3 c s r | _ \<Rightarrow> World.raise e) Q E"
    "(\<And>c s r. trace k S (f3 c s r) Q E) \<Longrightarrow> trace k S (case e of BifrostUpstreamError c s r \<Rightarrow> f3 c s r | _ \<Rightarrow> World.raise e) Q E"
  by (cases e; simp del: raise_eq add: trace_raise [OF assms]; fail)+

lemma trace_acquire_pool:
  "trace k {Rate_counted} (acquire_model_pool en s model client k hs) (\<lambda>_. {In_pool}) {Rate_counted, In_pool, Left}"
proof -
  have a: "trace k {Rate_counted} (pool_admit en s p client k) (\<lambda>_. {In_pool}) {Rate_counted, In_pool, Left}" for p
    by (rule trace_weaken [OF trace_pool(1)]) auto
  have r: "trace k {In_pool} (read_mono en) (\<lambda>_. {In_pool}) {Rate_counted, In_pool, Left}"
    by (rule trace_weaken [OF trace_reads(2)]) auto
  have w: "trace k {In_pool} (World.except (bindp (pool_wait n en s p client k t hs)
      (\<lambda>x. case x of Pool_unfinished \<Rightarrow> World.raise CancelledError | _ \<Rightarrow> World.ret x)) (\<lambda>e. pool_abandon en s p client k e))
      (\<lambda>_. {In_pool}) {Rate_counted, In_pool, Left}" for n p t hs
    by (rule trace_weaken [OF trace_except [OF trace_bind [OF trace_pool_wait] trace_abandon]])
      (intro trace_outcome trace_ret trace_raise subset_refl | auto)+
  show ?thesis
    unfolding acquire_model_pool_def Let_def
    by (intro trace_option trace_api trace_bind [OF a] trace_if trace_ret trace_bind [OF r] trace_bind [OF w] trace_outcome
        trace_raise) auto
qed

lemma trace_concurrency:
  "trace k {In_pool} (acquire_concurrency en s client k limit pool hs) (\<lambda>_. {Leased}) {Left}"
proof -
  have f: "trace k {Leased} (pool_free en s pool k) (\<lambda>_. {Left}) {Left}"
    by (rule trace_weaken [OF trace_pool(3)]) auto
  have c: "trace k {In_pool} (World.call en (Act_acquire k) (redis_do en g)) (\<lambda>_. {Leased}) {Leased}" for g
    by (rule trace_call) auto
  show ?thesis
    unfolding acquire_concurrency_def Let_def
    by (intro trace_bind [OF trace_except [OF c]] trace_bind [OF f] trace_if trace_ret trace_raise trace_api subset_refl)
qed

subsection \<open>Admission\<close>

definition early :: "phase set" where
  "early = {Nonce_claimed, Policy_loaded, Rate_counted, In_pool, Left}"

lemma trace_of_res: "trace k S (World.of_res r) (\<lambda>x. if r = Inr x then S else {}) S"
  by (auto simp: trace_def split: sum.split)

lemma trace_step:
  "quiet m \<Longrightarrow> move k ph a = Some ph' \<Longrightarrow> {ph'} \<subseteq> E \<Longrightarrow> trace k {ph} (World.call en a m) (\<lambda>_. {ph'}) E"
  by (rule trace_weaken [OF trace_call [where S = "{ph}" and T = "{ph'}"]]) auto

lemma trace_reads_at:
  "S \<subseteq> E \<Longrightarrow> trace k S (read_time en) (\<lambda>_. S) E" "S \<subseteq> E \<Longrightarrow> trace k S (read_mono en) (\<lambda>_. S) E"
  "S \<subseteq> E \<Longrightarrow> trace k S (read_uuid en n) (\<lambda>_. S) E" "S \<subseteq> E \<Longrightarrow> trace k S (terminal_now en ad) (\<lambda>_. S) E"
proof -
  show t: "trace k S (read_time en) (\<lambda>_. S) E" if "S \<subseteq> E" by (rule trace_weaken [OF trace_reads(1)]) (use that in auto)
  show "trace k S (read_mono en) (\<lambda>_. S) E" if "S \<subseteq> E" by (rule trace_weaken [OF trace_reads(2)]) (use that in auto)
  show "trace k S (read_uuid en n) (\<lambda>_. S) E" if "S \<subseteq> E" by (rule trace_weaken [OF trace_reads(3)]) (use that in auto)
  show "trace k S (terminal_now en ad) (\<lambda>_. S) E" if "S \<subseteq> E"
    unfolding terminal_now_def by (intro trace_bind [OF t] trace_ret subset_refl that)
qed

lemma trace_enter:
  "trace k {Arriving} (enter_as en s q caller srid k) (\<lambda>ad. if ad_operation ad = k then {Leased} else {}) (insert Arriving early)"
proof -
  have n: "trace k {Arriving} (claim_nonce en s caller) (\<lambda>_. {Nonce_claimed}) (insert Arriving early)"
    unfolding claim_nonce_def by (rule trace_step) (simp_all add: early_def)
  have p: "trace k {Nonce_claimed} (load_policy en s caller now) (\<lambda>_. {Policy_loaded}) {Policy_loaded}" for now
    unfolding load_policy_def by (rule trace_step) simp_all
  have q: "trace k {Policy_loaded} (admit_qps en s caller srid limit) (\<lambda>_. {Rate_counted}) (insert Arriving early)" for limit
    unfolding admit_qps_def by (rule trace_step) (simp_all add: early_def)
  have pool: "trace k {Rate_counted} (acquire_model_pool en s model client k hs) (\<lambda>_. {In_pool}) (insert Arriving early)"
    for model client hs
    by (rule trace_weaken [OF trace_acquire_pool]) (auto simp: early_def)
  have conc: "trace k {In_pool} (acquire_concurrency en s client k limit pl hs) (\<lambda>_. {Leased}) (insert Arriving early)"
    for client limit pl hs
    by (rule trace_weaken [OF trace_concurrency]) (auto simp: early_def)
  have sub: "{Nonce_claimed} \<subseteq> insert Arriving early" "{Policy_loaded} \<subseteq> insert Arriving early"
    "{Rate_counted} \<subseteq> insert Arriving early" "{Arriving} \<subseteq> insert Arriving early"
    by (auto simp: early_def)
  show ?thesis
    unfolding enter_as_def Let_def
    by (intro trace_bind [OF trace_reads_at(1)] trace_bind [OF trace_reads_at(2)] trace_bind [OF n] trace_if trace_api sub
        trace_bind [OF trace_except [OF p]] trace_handlers trace_bind [OF q] trace_bind [OF pool] trace_pair
        trace_bind [OF conc] trace_ret) simp
qed

subsection \<open>Reservation\<close>

lemma trace_heartbeat:
  assumes "ad_operation ad = k" and "S \<subseteq> lease_phases"
  shows "trace k S (lease_heartbeat en s ad) (\<lambda>_. S) S"
proof -
  have h: "trace k S (World.call en (Act_heartbeat k) (redis_do en g)) (\<lambda>_. S) S" for g
    by (rule trace_call) (use assms(2) in auto)
  have p: "trace k S (World.call en (Act_pool_heartbeat k) (redis_do en g)) (\<lambda>_. S) S" for g
    by (rule trace_call) (use assms(2) in auto)
  show ?thesis
    unfolding lease_heartbeat_def assms(1)
    by (intro trace_bind [OF h] trace_bind [OF p] trace_if trace_raise trace_ret subset_refl)
qed

lemma trace_leased:
  assumes "ad_operation ad = k" and "S \<subseteq> lease_phases" and "trace k S m Q E" and "S \<union> E \<subseteq> F" and "\<And>x. Q x \<subseteq> F"
  shows "trace k S (Chat.lease_run en s ad m) Q F"
  using assms(4) by (intro trace_lease_run [OF trace_heartbeat [OF assms(1,2)] assms(3) _ _ assms(5)]) auto

lemma trace_ow:
  assumes "\<And>ph pairs. ph \<in> S \<Longrightarrow> move k ph (Act_openwebui path pairs) = Some ph'"
  shows "trace k S (ow_request en cd path body validate) (\<lambda>_. {ph'}) (insert ph' S)"
proof (cases body)
  case (Inl e)
  show ?thesis unfolding ow_request_def Inl sum.case by (rule trace_raise) auto
next
  case (Inr pairs)
  show ?thesis
    unfolding ow_request_def Inr sum.case
    by (rule trace_weaken [OF trace_call [where S = S and T = "{ph'}"]]) (use assms in auto)
qed

lemma trace_ow_calls:
  "trace k {Quota_reserved} (ow_reserve_operation en cd j u m p) (\<lambda>_. {Credit_asked}) {Credit_asked, Quota_reserved}"
  "trace k {Credit_recorded, Provider_called} (ow_cancel_operation en cd j u) (\<lambda>_. {Cancelled})
     {Cancelled, Credit_recorded, Provider_called}"
  "trace k {Usage_recorded} (ow_settle_operation en cd j u a b) (\<lambda>_. {Settled}) {Settled, Usage_recorded}"
  unfolding ow_reserve_operation_def ow_calls
  by (rule trace_ow, auto simp: reserve_path_def cancel_path_def settle_path_def)+

lemma trace_transactions:
  "rq_operation rq = k \<Longrightarrow> trace k {Leased} (reserve_quota en rq) (\<lambda>_. {Quota_reserved}) {Quota_reserved}"
  "ad_operation ad = k \<Longrightarrow> trace k {Credit_asked} (record_credit en ad st uo now) (\<lambda>_. {Credit_recorded}) {Credit_recorded}"
  "ad_operation ad = k \<Longrightarrow> trace k {Provider_called} (record_usage en ad u now) (\<lambda>_. {Usage_recorded}) {Usage_recorded}"
  unfolding reserve_quota_def record_credit_def record_usage_def Let_def
  by (rule trace_at_log)? (rule trace_bind, rule trace_step, rule quiet_basic, simp, rule subset_refl, rule trace_ret, simp)+

lemma trace_terminalize:
  assumes "ad_operation ad = k" and "status = T_completed \<and> S \<subseteq> {Settled} \<or>
    status = T_rejected \<and> charged_micro = 0 \<and> S \<subseteq> {Quota_reserved, Credit_asked, Cancelled}"
  shows "trace k S (terminalize en ad status outcome stage code charged_micro) (\<lambda>_. {Terminal}) (insert Terminal S)"
proof -
  have s: "S \<subseteq> insert Terminal S" by auto
  have c: "trace k (if chat_terminal ad status outcome stage code charged_micro a b = Inr t then S else {})
      (World.call en (Act_db [Finalize (ad_operation ad) t uuid]) (db_tx body)) (\<lambda>_. {Terminal}) (insert Terminal S)"
    for a b t uuid and body :: "snapshot tx"
  proof (cases "chat_terminal ad status outcome stage code charged_micro a b = Inr t")
    case True
    then have t: "tm_status t = status" "tm_charged t = charged_micro"
      by (auto simp: chat_terminal_def split: option.splits prod.splits)
    have "trace k S (World.call en (Act_db [Finalize (ad_operation ad) t uuid]) (db_tx body)) (\<lambda>_. {Terminal}) {Terminal}"
      by (rule trace_call) (use assms t in auto)
    then show ?thesis using True by (simp add: trace_weaken)
  next
    case False
    then show ?thesis by (simp add: trace_empty)
  qed
  have r: "trace k S (World.of_res x) (\<lambda>t. if x = Inr t then S else {}) (insert Terminal S)" for x :: "terminal res"
    by (rule trace_weaken [OF trace_of_res]) auto
  show ?thesis
    unfolding terminalize_def
    by (intro trace_bind [OF trace_reads_at(1) [OF s]] trace_bind [OF trace_reads_at(2) [OF s]]
        trace_bind [OF trace_reads_at(3) [OF s]] trace_bind [OF r] trace_bind [OF c] trace_ret subset_refl)
qed

subsection \<open>The whole request\<close>

lemma trace_reserve_tokens:
  assumes k: "ad_operation ad = k"
  shows "trace k {Leased} (reserve_tokens en s ad fingerprint stream) (\<lambda>_. {Quota_reserved}) lease_phases"
proof -
  have a: "trace k {Leased} (World.of_res r) (\<lambda>_. {Leased}) {Leased}" for r :: "int res"
    by (rule trace_quiet) simp
  have r: "trace k {Leased} (Chat.lease_run en s ad (reserve_quota en (chat_reserve_request ad fingerprint stream n)))
      (\<lambda>_. {Quota_reserved}) {Leased, Quota_reserved}" for n
    by (rule trace_leased [OF k _ trace_transactions(1)]) (auto simp: lease_phases_def chat_reserve_request_def k)
  show ?thesis
    unfolding reserve_tokens_def
    by (intro trace_bind [OF trace_except [OF a]] trace_handlers trace_api trace_except [OF r]) (auto simp: lease_phases_def)
qed

lemma trace_reserve_credit:
  assumes k: "ad_operation ad = k"
  shows "trace k {Quota_reserved} (reserve_credit en s ad)
    (\<lambda>r. case r of Inl e \<Rightarrow> {Terminal} | Inr ad' \<Rightarrow> if ad_operation ad' = k then {Credit_recorded} else {}) lease_phases"
proof -
  note leased = trace_leased [OF k]
  have c: "trace k {Quota_reserved} (Chat.lease_run en s ad (ow_reserve_operation en cd j u m p)) (\<lambda>_. {Credit_asked})
      {Quota_reserved, Credit_asked}" for cd j u m p
    by (rule leased [OF _ trace_ow_calls(1)]) (auto simp: lease_phases_def)
  have t: "trace k {Quota_reserved, Credit_asked} (Chat.lease_run en s ad (terminalize en ad T_rejected oc sg code 0))
      (\<lambda>_. {Terminal}) lease_phases" for oc sg code
    by (rule leased [OF _ trace_terminalize [OF k]]) (auto simp: lease_phases_def)
  have r: "trace k {Credit_asked} (Chat.lease_run en s ad (record_credit en ad st uo now)) (\<lambda>_. {Credit_recorded}) lease_phases"
    for st uo now
    by (rule leased [OF _ trace_transactions(2) [OF k]]) (auto simp: lease_phases_def)
  have sub: "{Credit_asked} \<subseteq> lease_phases" "{Quota_reserved, Credit_asked} \<subseteq> lease_phases" by (auto simp: lease_phases_def)
  show ?thesis
    unfolding reserve_credit_def Let_def
    by (intro trace_attempt_case [OF c] trace_handlers(4) trace_if trace_bind [OF t] trace_bind [OF trace_reads_at(4)]
        trace_bind [OF r] trace_ret trace_api sub) (simp_all add: k)
qed

lemma trace_call_provider:
  assumes k: "ad_operation ad = k"
  shows "trace k {Credit_recorded} (call_provider en s ad) (\<lambda>_. {Terminal}) lease_phases"
proof -
  note leased = trace_leased [OF k]
  have f: "trace k {Credit_recorded} (bf_forward_chat en cd pairs) (\<lambda>_. {Provider_called}) {Provider_called}" for cd pairs
  proof -
    have c: "trace k {Credit_recorded} (bf_request en cd ''POST'' chat_path pairs n) (\<lambda>_. {Provider_called}) {Provider_called}" for n
      unfolding bf_request_def by (rule trace_step) simp_all
    show ?thesis unfolding bf_forward_chat_def by (rule trace_bind [OF c]) (rule trace_reads(4))
  qed
  have f: "trace k {Credit_recorded} (Chat.lease_run en s ad (bf_forward_chat en cd pairs)) (\<lambda>_. {Provider_called})
      {Credit_recorded, Provider_called}" for cd pairs
    by (rule leased [OF _ f]) (auto simp: lease_phases_def)
  have x: "trace k {Credit_recorded, Provider_called} (Chat.lease_run en s ad (ow_cancel_operation en cd j u)) (\<lambda>_. {Cancelled})
      lease_phases" for cd j u
    by (rule leased [OF _ trace_ow_calls(2)]) (auto simp: lease_phases_def)
  have u: "trace k {Provider_called} (Chat.lease_run en s ad (record_usage en ad us now)) (\<lambda>_. {Usage_recorded}) lease_phases"
    for us now
    by (rule leased [OF _ trace_transactions(3) [OF k]]) (auto simp: lease_phases_def)
  have st: "trace k {Usage_recorded} (Chat.lease_run en s ad (ow_settle_operation en cd j us a b)) (\<lambda>_. {Settled}) lease_phases"
    for cd j us a b
    by (rule leased [OF _ trace_ow_calls(3)]) (auto simp: lease_phases_def)
  have t: "trace k {Cancelled} (Chat.lease_run en s ad (terminalize en ad T_rejected oc sg code 0)) (\<lambda>_. {Terminal}) lease_phases"
    for oc sg code
    by (rule leased [OF _ trace_terminalize [OF k]]) (auto simp: lease_phases_def)
  have ok: "trace k {Settled} (Chat.lease_run en s ad (terminalize en ad T_completed oc sg code n)) (\<lambda>_. {Terminal}) lease_phases"
    for oc sg code n
    by (rule leased [OF _ trace_terminalize [OF k]]) (auto simp: lease_phases_def)
  have sub: "{Provider_called} \<subseteq> lease_phases" "{Cancelled} \<subseteq> lease_phases" "{Settled} \<subseteq> lease_phases"
    "{Credit_recorded, Provider_called} \<subseteq> lease_phases" "lease_phases \<subseteq> lease_phases"
    by (auto simp: lease_phases_def)
  show ?thesis
    unfolding call_provider_def provider_failed_def settle_response_def
    by (intro trace_attempt_case [OF f] trace_handlers(4,5) trace_bind [OF trace_except [OF x]] trace_if trace_bind [OF t]
        trace_bind [OF trace_reads_at(4)] trace_bind [OF u] trace_bind [OF trace_except [OF st]] trace_bind [OF ok]
        trace_ret trace_api subset_refl sub)
qed

lemma trace_body:
  assumes k: "ad_operation ad = k"
  shows "trace k {Leased} (execute_body en s ad fingerprint) (\<lambda>_. {Terminal}) lease_phases"
  unfolding execute_body_def chat_reserve_def
proof (rule trace_bind [OF trace_bind [OF trace_reserve_tokens [OF k] trace_reserve_credit [OF k]]])
  fix r
  show "trace k (case r of Inl e \<Rightarrow> {Terminal} | Inr ad' \<Rightarrow> if ad_operation ad' = k then {Credit_recorded} else {})
    (case r of Inl e \<Rightarrow> World.ret (Inl e) | Inr ad \<Rightarrow> call_provider en s ad) (\<lambda>_. {Terminal}) lease_phases"
    by (cases r) (auto intro: trace_ret trace_call_provider trace_empty simp del: ret_eq)
qed

lemma trace_release_one: "trace k S m (\<lambda>_. T) T \<Longrightarrow> T \<subseteq> E \<Longrightarrow> trace k S (release_one m) (\<lambda>_. T) E"
  unfolding release_one_def
  by (rule trace_except [OF trace_bind [where Q = "\<lambda>_. T"]]) (assumption | intro trace_ret trace_if trace_raise subset_refl | simp)+

lemma trace_release:
  "trace k lease_phases (release_active_leases en s client pool k) (\<lambda>_. {Left}) {Releasing, Left}"
proof -
  have a: "trace k lease_phases (World.call en (Act_release k) (redis_do en g)) (\<lambda>_. {Releasing}) {Releasing}" for g
    by (rule trace_call) auto
  have b: "trace k {Releasing} (pool_free en s pool k) (\<lambda>_. {Left}) {Left}"
    by (rule trace_weaken [OF trace_pool(3)]) auto
  show ?thesis
    unfolding release_active_leases_def
    by (intro trace_bind [OF trace_release_one [OF a]] trace_bind [OF trace_release_one [OF b]] trace_ret) auto
qed

lemma trace_release_after:
  assumes k: "ad_operation ad = k"
  shows "trace k lease_phases (release_after en s ad r) (\<lambda>_. {Left}) {Releasing, Left}"
proof -
  have o: "trace k {Left} (World.of_res x) (\<lambda>_. {Left}) {Releasing, Left}" for x
    by (rule trace_weaken [OF trace_reads(4)]) auto
  show ?thesis
    unfolding release_after_def k by (intro trace_bind [OF trace_release] trace_if trace_raise o) auto
qed

text \<open>How a request ends: it has left, or it failed before it held a lease, or it was cut off while
  it released its leases.\<close>

definition end_phases :: "phase set" where
  "end_phases = insert Arriving (insert Releasing early)"

lemma trace_after_entry:
  assumes b: "\<And>ad. ad_operation ad = k \<Longrightarrow> trace k {Leased} (m ad) (\<lambda>_. lease_phases) lease_phases"
    and f: "\<And>ad x. ad_operation ad = k \<Longrightarrow> trace k lease_phases (f ad x) Q end_phases"
  shows "trace k {Arriving} (bindp (enter_as en s q caller srid k) (\<lambda>ad. bindp (World.attempt (m ad)) (f ad))) Q end_phases"
proof (rule trace_bind)
  show "trace k {Arriving} (enter_as en s q caller srid k) (\<lambda>ad. if ad_operation ad = k then {Leased} else {}) end_phases"
    by (rule trace_weaken [OF trace_enter]) (auto simp: end_phases_def)
  fix ad
  show "trace k (if ad_operation ad = k then {Leased} else {}) (bindp (World.attempt (m ad)) (f ad)) Q end_phases"
  proof (cases "ad_operation ad = k")
    case True
    have "trace k {Leased} (World.attempt (m ad)) (\<lambda>_. lease_phases) end_phases"
      by (rule trace_weaken [OF trace_attempt [OF b [OF True]]]) (auto split: sum.split)
    from trace_bind [OF this f [OF True]] True show ?thesis by simp
  next
    case False
    then show ?thesis by (simp add: trace_empty)
  qed
qed

lemma trace_execute_as:
  "trace k {Arriving} (bindp (enter_as en s q caller srid k) (\<lambda>ad. bindp (World.attempt (execute_body en s ad fingerprint))
     (\<lambda>r. bindp (release_after en s ad r) (\<lambda>response. World.ret (response, ad_headers ad))))) (\<lambda>_. {Left}) end_phases"
proof (rule trace_after_entry)
  fix ad :: admission and r :: "chat_completion res res"
  assume k: "ad_operation ad = k"
  show "trace k {Leased} (execute_body en s ad fingerprint) (\<lambda>_. lease_phases) lease_phases"
    by (rule trace_weaken [OF trace_body [OF k]]) (auto simp: lease_phases_def)
  have r: "trace k lease_phases (release_after en s ad r) (\<lambda>_. {Left}) end_phases"
    by (rule trace_weaken [OF trace_release_after [OF k]]) (auto simp: end_phases_def early_def)
  show "trace k lease_phases (bindp (release_after en s ad r) (\<lambda>response. World.ret (response, ad_headers ad))) (\<lambda>_. {Left}) end_phases"
    by (intro trace_bind [OF r] trace_ret subset_refl)
qed

end
