(* ===== verification/Chat_Properties.thy ===== *)
theory Chat_Properties
  imports Chat_Protocol
begin

text \<open>
  Properties of the chat service: the order of its acts, what a successful answer has left
  behind, the release of the leases, and the wait for a model pool.
\<close>

subsection \<open>The order of acts\<close>

lemma execute_path:
  assumes "execute en s q caller srid fingerprint w = (r, w')"
  shows "\<exists>l ph. wd_log w' = wd_log w @ l \<and> moves (en_uuid en (wd_log w) 0) Arriving l = Some ph \<and>
    (if is_ok r then ph = Left else ph \<in> end_phases)"
proof -
  let ?k = "en_uuid en (wd_log w) 0"
  let ?run = "bindp (enter_as en s q caller srid ?k) (\<lambda>ad. bindp (attempt (execute_body en s ad fingerprint))
     (\<lambda>r. bindp (release_after en s ad r) (\<lambda>response. ret (response, ad_headers ad))))"
  have start: "at_phase ?k (wd_log w) {Arriving} w"
    unfolding at_phase_def by (intro exI [of _ "[]"] exI [of _ Arriving]) simp
  show ?thesis
  proof (cases "require_non_streaming q")
    case (Inl e)
    then have "r \<noteq> Inr x \<and> w' = w" for x
      using assms by (auto simp: execute_def bindp_def except_def raise_api_def split: exn.splits)
    then show ?thesis
      by (intro exI [of _ "[]"] exI [of _ Arriving]) (auto simp: end_phases_def is_ok_def split: sum.splits)
  next
    case (Inr u)
    have "execute en s q caller srid fingerprint w = ?run w"
      by (simp add: execute_def bindp_def except_def Inr chat_enter_def read_uuid_def)
    then have "?run w = (r, w')" unfolding assms by (rule sym)
    have "case ?run w of (Inl e, w') \<Rightarrow> at_phase ?k (wd_log w) end_phases w' | (Inr x, w') \<Rightarrow> at_phase ?k (wd_log w) {Left} w'"
      by (rule trace_execute_as [unfolded trace_def, rule_format, OF start])
    then have "case r of Inl e \<Rightarrow> at_phase ?k (wd_log w) end_phases w' | Inr x \<Rightarrow> at_phase ?k (wd_log w) {Left} w'"
      unfolding \<open>?run w = (r, w')\<close> prod.case .
    then show ?thesis
      by (cases r) (auto simp: at_phase_def is_ok_def)
  qed
qed


text \<open>What the protocol means for the provider: paths of the machine, read backwards.\<close>

fun rank :: "phase \<Rightarrow> nat" where
  "rank Arriving = 0" | "rank Nonce_claimed = 1" | "rank Policy_loaded = 2" | "rank Rate_counted = 3" | "rank In_pool = 4"
| "rank Leased = 5" | "rank Quota_reserved = 6" | "rank Credit_asked = 7" | "rank Credit_recorded = 8"
| "rank Provider_called = 9" | "rank Usage_recorded = 10" | "rank Settled = 11" | "rank Cancelled = 11" | "rank Terminal = 12"
| "rank Releasing = 13" | "rank Left = 14"

lemma db_move_rank: "db_move k ph x = Some ph' \<Longrightarrow> rank ph < rank ph'"
  by (cases x) (auto split: if_splits)

lemma move_rank:
  assumes "move k ph a = Some ph'"
  shows "ph' = ph \<or> rank ph < rank ph'"
proof (cases a)
  case (Act_db xs)
  then obtain x where "xs = [x]" using assms by (cases xs; cases "tl xs") auto
  with assms Act_db show ?thesis by (auto dest: db_move_rank)
qed (use assms in \<open>auto simp: lease_phases_def split: if_splits\<close>)

lemma moves_rank: "moves k ph l = Some ph' \<Longrightarrow> rank ph \<le> rank ph'"
  by (induction l arbitrary: ph) (auto dest!: move_rank split: option.splits intro: order.trans less_imp_le)

text \<open>The act that brought the machine into its phase.\<close>

lemma entered:
  "moves k Arriving l = Some ph \<Longrightarrow> ph \<noteq> Arriving \<Longrightarrow>
    \<exists>l1 a l2 ph0. l = l1 @ a # l2 \<and> moves k Arriving l1 = Some ph0 \<and> ph0 \<noteq> ph \<and> move k ph0 a = Some ph"
proof (induction l arbitrary: ph rule: rev_induct)
  case Nil
  then show ?case by simp
next
  case (snoc a l)
  obtain ph0 where 0: "moves k Arriving l = Some ph0" "move k ph0 a = Some ph"
    using snoc.prems(1) by (auto simp: moves_append split: option.splits)
  show ?case
  proof (cases "ph0 = ph")
    case True
    with snoc.IH [of ph] 0(1) snoc.prems(2) obtain l1 b l2 ph1 where
      "l = l1 @ b # l2" "moves k Arriving l1 = Some ph1" "ph1 \<noteq> ph" "move k ph1 b = Some ph" by blast
    then show ?thesis by (intro exI [of _ l1] exI [of _ b] exI [of _ "l2 @ [a]"] exI [of _ ph1]) simp
  next
    case False
    with 0 show ?thesis by (intro exI [of _ l] exI [of _ a] exI [of _ "[]"] exI [of _ ph0]) simp
  qed
qed

lemma db_act: "move k ph0 (Act_db xs) = Some ph \<Longrightarrow> \<exists>x. xs = [x] \<and> db_move k ph0 x = Some ph"
  by (cases xs; cases "tl xs") auto

lemma enter_credit_recorded:
  "move k ph0 a = Some Credit_recorded \<Longrightarrow> ph0 \<noteq> Credit_recorded \<Longrightarrow>
    ph0 = Credit_asked \<and> (\<exists>st uo t. a = Act_db [Record_credit k st uo t])"
proof (cases a)
  case (Act_db xs)
  assume m: "move k ph0 a = Some Credit_recorded"
  then obtain x where "xs = [x]" "db_move k ph0 x = Some Credit_recorded" using Act_db db_act by blast
  with Act_db show ?thesis by (cases x) (auto split: if_splits)
qed (auto split: if_splits)

lemma enter_credit_asked:
  "move k ph0 a = Some Credit_asked \<Longrightarrow> ph0 \<noteq> Credit_asked \<Longrightarrow>
    ph0 = Quota_reserved \<and> (\<exists>b. a = Act_openwebui reserve_path b)"
proof (cases a)
  case (Act_db xs)
  assume m: "move k ph0 a = Some Credit_asked"
  then obtain x where "xs = [x]" "db_move k ph0 x = Some Credit_asked" using Act_db db_act by blast
  then show ?thesis by (cases x) (auto split: if_splits)
qed (auto split: if_splits)

lemma enter_quota_reserved:
  "move k ph0 a = Some Quota_reserved \<Longrightarrow> ph0 \<noteq> Quota_reserved \<Longrightarrow>
    \<exists>rq u v. a = Act_db [Reserve rq u v] \<and> rq_operation rq = k"
proof (cases a)
  case (Act_db xs)
  assume m: "move k ph0 a = Some Quota_reserved"
  then obtain x where "xs = [x]" "db_move k ph0 x = Some Quota_reserved" using Act_db db_act by blast
  with Act_db show ?thesis by (cases x) (auto split: if_splits)
qed (auto split: if_splits)

lemma provider_path:
  assumes "moves k Arriving (l1 @ Act_bifrost verb path body # l2) = Some ph"
  shows "(\<forall>v p b. Act_bifrost v p b \<notin> set l1 \<and> Act_bifrost v p b \<notin> set l2) \<and>
    (\<exists>m1 rq u v m2 b m3 st uo t m4. l1 = m1 @ [Act_db [Reserve rq u v]] @ m2 @ [Act_openwebui reserve_path b] @ m3 @
       [Act_db [Record_credit k st uo t]] @ m4 \<and> rq_operation rq = k)"
proof
  have at: "moves k Arriving l1 = Some Credit_recorded" "moves k Provider_called l2 = Some ph"
    using assms by (auto simp: moves_append split: option.splits if_splits)
  have no: "Act_bifrost v p b \<notin> set l" if "moves k ph1 l = Some ph2" "rank ph1 > 8 \<or> rank ph2 \<le> 8" for v p b l ph1 ph2
  proof
    assume "Act_bifrost v p b \<in> set l"
    then obtain x y where "l = x @ Act_bifrost v p b # y" by (meson split_list)
    then have "moves k ph1 x = Some Credit_recorded" "moves k Provider_called y = Some ph2"
      using that(1) by (auto simp: moves_append split: option.splits if_splits)
    from moves_rank [OF this(1)] moves_rank [OF this(2)] that(2) show False by auto
  qed
  show "\<forall>v p b. Act_bifrost v p b \<notin> set l1 \<and> Act_bifrost v p b \<notin> set l2"
    using no [OF at(1)] no [OF at(2)] by simp
  obtain x1 st uo t y1 where 1: "l1 = x1 @ Act_db [Record_credit k st uo t] # y1" "moves k Arriving x1 = Some Credit_asked"
    using entered [OF at(1)] enter_credit_recorded by fastforce
  obtain x2 b y2 where 2: "x1 = x2 @ Act_openwebui reserve_path b # y2" "moves k Arriving x2 = Some Quota_reserved"
    using entered [OF 1(2)] enter_credit_asked by fastforce
  obtain x3 rq u v y3 where 3: "x2 = x3 @ Act_db [Reserve rq u v] # y3" "rq_operation rq = k"
    using entered [OF 2(2)] enter_quota_reserved by fastforce
  show "\<exists>m1 rq u v m2 b m3 st uo t m4. l1 = m1 @ [Act_db [Reserve rq u v]] @ m2 @ [Act_openwebui reserve_path b] @ m3 @
       [Act_db [Record_credit k st uo t]] @ m4 \<and> rq_operation rq = k"
    using 3(2) unfolding 1(1) 2(1) 3(1)
    by (intro exI conjI) (auto intro: arg_cong2 [where f = append])
qed


subsection \<open>Settlement\<close>

text \<open>What a settled operation looks like in the database.\<close>

definition settled :: "str \<Rightarrow> chat_usage \<Rightarrow> int \<Rightarrow> db \<Rightarrow> bool" where
  "settled k u charged_micro d \<longleftrightarrow> (\<exists>p e. find_row op_id k (db_operations d) = Some p \<and> op_state p = Completed \<and>
     op_prompt p = us_prompt u \<and> op_completion p = us_completion u \<and> e \<in> set (db_events d) \<and> ev_operation e = Some k \<and>
     ev_outcome e = ''success'' \<and> ev_code e = ''OK'' \<and> ev_charged e = charged_micro \<and>
     ev_prompt e = us_prompt u \<and> ev_completion e = us_completion u)"

lemma record_usage_Inr:
  "record_usage en ad u now w = (Inr x, w') \<Longrightarrow>
    \<exists>y. record_provider_usage (ad_operation ad) (us_prompt u) (us_completion u) now (wd_db w) = Inr (y, wd_db w')"
  by (auto simp: record_usage_def bindp_Inr call_Inr db_tx_def in_tx_def commit_tx_Inr split: prod.splits sum.splits)

lemma terminalize_Inr:
  assumes "terminalize en ad status outcome stage code charged_micro w = (Inr x, w')"
  shows "\<exists>t uuid sn. finalize_operation (ad_operation ad) t uuid (wd_db w) = Inr (sn, wd_db w') \<and> tm_status t = status \<and>
    tm_outcome t = outcome \<and> tm_code t = code \<and> tm_charged t = charged_micro"
proof -
  obtain a b t uuid sn where t: "chat_terminal ad status outcome stage code charged_micro a b = Inr t"
    "finalize_operation (ad_operation ad) t uuid (wd_db w) = Inr (sn, wd_db w')"
    using assms unfolding terminalize_def bindp_Inr read_time_def read_mono_def read_uuid_def call_Inr db_tx_def in_tx_def
    by (fastforce simp: commit_tx_Inr bind_res_Inr dest: make_terminal_Inr split: prod.splits sum.splits)
  then have "tm_status t = status \<and> tm_outcome t = outcome \<and> tm_code t = code \<and> tm_charged t = charged_micro"
    by (auto simp: chat_terminal_def split: option.splits prod.splits)
  with t(2) show ?thesis by blast
qed

lemma settle_commit:
  assumes u: "record_provider_usage k (us_prompt u) (us_completion u) now d = Inr (y, d1)"
    and f: "finalize_operation k t uuid d1 = Inr (sn, d2)"
    and t: "tm_status t = T_completed" "tm_outcome t = ''success''" "tm_code t = ''OK''" "tm_charged t = charged_micro"
  shows "settled k u charged_micro d2"
proof -
  obtain p where p: "op_state p = Pending" "find_row op_id k (db_operations d1) = Some (p\<lparr>op_prompt := us_prompt u,
      op_completion := us_completion u, op_total := us_prompt u + us_completion u, op_usage_recorded := True, op_updated_at := now\<rparr>)"
    using record_usage_find [OF u] by blast
  from f show ?thesis
  proof (cases rule: finalize_operation_Inr)
    case (replay p' daily lifetime)
    with p show ?thesis by simp
  next
    case (closed p' daily lifetime)
    note id = find_row_Some [OF closed(1)]
    show ?thesis
      unfolding settled_def
      using p t id closed(1)
      by (intro exI conjI) (auto simp: closed(8) finalized_db_def Let_def set_operation_def find_row_update terminal_event_def
          close_operation_def)
  qed
qed

lemma lease_run_Inr:
  assumes "Chat.lease_run en s ad m w = (Inr x, w')"
  shows "\<exists>w1. wd_db w1 = wd_db w \<and> m w1 = (Inr x, w')"
proof -
  obtain r w1 where b: "Chat.beats (en_beats en (wd_log w)) (lease_heartbeat en s ad) w = (r, w1)" by fastforce
  have "wd_db w1 = wd_db w"
    using same_db.run [OF same_db.beats [OF heartbeat_same_db] b] by (simp add: same_db_def)
  moreover have "m w1 = (Inr x, w')" using assms by (auto simp: lease_run_def b split: sum.splits fate.splits)
  ultimately show ?thesis by blast
qed

text \<open>The settlement in force: an answer of the credit service that names this operation, user,
  settlement and model and charges exactly this usage.\<close>

definition settlement_answer :: "env \<Rightarrow> codec \<Rightarrow> str \<Rightarrow> chat_usage \<Rightarrow> int \<Rightarrow> bool" where
  "settlement_answer en cd k u charged_micro \<longleftrightarrow> (\<exists>c. answered en cd c \<and> co_operation_id c = k \<and>
     co_status c = ''succeeded_charged'' \<and> co_prompt c = us_prompt u \<and> co_completion c = us_completion u \<and>
     co_total c = us_total u \<and> co_charged c = charged_micro)"

lemma handler_raises:
  "(case e of OpenWebUIUpstreamError c s r \<Rightarrow> raise_api (f1 c s r) k hs | _ \<Rightarrow> World.raise e) w \<noteq> (Inr x, w')"
  "(case e of QuotaAdmissionError c j \<Rightarrow> raise_api (f2 c j) (g c j) hs | _ \<Rightarrow> World.raise e) w \<noteq> (Inr x, w')"
  by (cases e; simp add: raise_api_def)+

lemma settle_response_Inr:
  assumes "settle_response en s ad response w = (Inr r, w')"
  shows "r = Inr response \<and> (\<exists>charged_micro. settled (ad_operation ad) (cc_usage response) charged_micro (wd_db w') \<and>
    settlement_answer en (cs_codec s) (ad_operation ad) (cc_usage response) charged_micro)"
proof -
  let ?u = "cc_usage response"
  obtain now w1 w2 c w3 y where 1: "Chat.lease_run en s ad (record_usage en ad ?u now) w1 = (Inr y, w2)"
    "World.except (Chat.lease_run en s ad (ow_settle_operation en (cs_codec s) (ad_operation ad) (cp_service_user_id (ad_policy ad))
        (us_prompt ?u) (us_completion ?u))) (\<lambda>e. case e of OpenWebUIUpstreamError code _ _ \<Rightarrow>
          raise_api (credit_error code) (Some (ad_operation ad)) (ad_headers ad) | _ \<Rightarrow> World.raise e) w2 = (Inr c, w3)"
    and m: "settled_matches ad ?u c"
    and 2: "Chat.lease_run en s ad (terminalize en ad T_completed ''success'' ''response'' ''OK'' (co_charged c)) w3 = (Inr (), w')"
    and r: "r = Inr response"
    using assms unfolding settle_response_def bindp_Inr
    by (auto simp: bindp_Inr raise_plane_def raise_api_def split: if_splits)
  have 3: "Chat.lease_run en s ad (ow_settle_operation en (cs_codec s) (ad_operation ad) (cp_service_user_id (ad_policy ad))
        (us_prompt ?u) (us_completion ?u)) w2 = (Inr c, w3)"
    using 1(2) by (auto simp: except_Inr handler_raises)
  obtain v1 where v1: "wd_db v1 = wd_db w1" "record_usage en ad ?u now v1 = (Inr y, w2)" using lease_run_Inr [OF 1(1)] by blast
  obtain v2 where v2: "ow_settle_operation en (cs_codec s) (ad_operation ad) (cp_service_user_id (ad_policy ad))
        (us_prompt ?u) (us_completion ?u) v2 = (Inr c, w3)" "wd_db v2 = wd_db w2" using lease_run_Inr [OF 3] by blast
  obtain v3 where v3: "wd_db v3 = wd_db w3"
    "terminalize en ad T_completed ''success'' ''response'' ''OK'' (co_charged c) v3 = (Inr (), w')" using lease_run_Inr [OF 2] by blast
  have db: "wd_db v3 = wd_db w2" using v3(1) v2(2) same_db_run [OF ow_calls_same_db(2) v2(1)] by simp
  obtain z where u: "record_provider_usage (ad_operation ad) (us_prompt ?u) (us_completion ?u) now (wd_db v1) = Inr (z, wd_db w2)"
    using record_usage_Inr [OF v1(2)] by blast
  obtain t uuid sn where f: "finalize_operation (ad_operation ad) t uuid (wd_db w2) = Inr (sn, wd_db w')"
    "tm_status t = T_completed" "tm_outcome t = ''success''" "tm_code t = ''OK''" "tm_charged t = co_charged c"
    using terminalize_Inr [OF v3(2)] db by auto
  have "settled (ad_operation ad) ?u (co_charged c) (wd_db w')" by (rule settle_commit [OF u f])
  moreover have "settlement_answer en (cs_codec s) (ad_operation ad) ?u (co_charged c)"
    using ow_call_answer(2) [OF v2(1)] m unfolding settlement_answer_def settled_matches_def by blast
  ultimately show ?thesis using r by blast
qed

lemma attempt_Inr: "attempt m w = (Inr r, w') \<longleftrightarrow> m w = (r, w')"
  by (auto simp: attempt_def split: prod.splits)

lemma require_Inr:
  "World.except (of_res (require_non_streaming q)) (\<lambda>e. case e of ExternalPayloadError code \<Rightarrow> raise_api code ko hs | _ \<Rightarrow> World.raise e)
     w = (Inr u, w') \<Longrightarrow> w' = w \<and> \<not> cq_stream q"
  by (auto simp: except_def require_non_streaming_def raise_api_def split: if_splits)

lemma provider_failed_Inr: "provider_failed en s ad code w = (Inr r, w') \<Longrightarrow> \<exists>e. r = Inl e"
  by (auto simp: provider_failed_def bindp_Inr raise_plane_def raise_api_def split: if_splits)

lemma execute_Inr:
  assumes "execute en s q caller srid fingerprint w = (Inr (response, hs), w')"
  obtains ad w1 w2 where "chat_enter en s q caller srid w = (Inr ad, w1)"
    "execute_body en s ad fingerprint w1 = (Inr (Inr response), w2)" "wd_db w' = wd_db w2"
    "release_after en s ad (Inr (Inr response)) w2 = (Inr response, w')"
proof -
  obtain ad w1 r w2 where e: "chat_enter en s q caller srid w = (Inr ad, w1)"
    "execute_body en s ad fingerprint w1 = (r, w2)" "release_after en s ad r w2 = (Inr response, w')"
    using assms by (auto simp: execute_def bindp_Inr attempt_Inr dest!: require_Inr)
  have "r = Inr (Inr response) \<and> wd_db w' = wd_db w2"
    using e(3) same_db_run [OF release_same_db, of en s _ _ _ w2]
    by (auto simp: release_after_def bindp_Inr bind_res_def is_ok_def split: if_splits sum.splits)
  with e that show thesis by blast
qed

lemma enter_operation:
  "chat_enter en s q caller srid w = (Inr ad, w') \<Longrightarrow> ad_operation ad = en_uuid en (wd_log w) 0"
  by (auto simp: chat_enter_def enter_as_def bindp_Inr read_uuid_def read_time_def read_mono_def Let_def
      raise_api_def split: if_splits prod.splits)

lemma reserve_credit_Inr:
  assumes "reserve_credit en s ad w = (Inr (Inr ad'), w')"
  shows "\<exists>c. credit_matches ad c \<and> ad' = ad\<lparr>ad_settlement := co_settlement_id c, ad_usage_operation := usage_suffix (ad_operation ad)\<rparr>"
proof -
  obtain x w1 where x: "Chat.lease_run en s ad (ow_reserve_operation en (cs_codec s) (ad_operation ad)
      (cp_service_user_id (ad_policy ad)) (cq_model (ad_request ad)) (Some ''bifrost'')) w = (x, w1)" by fastforce
  note run = assms [unfolded reserve_credit_def bindp_def attempt_def x prod.case sum.case Let_def]
  show ?thesis
  proof (cases x)
    case (Inl e)
    with run show ?thesis
      by (cases e) (auto simp: raise_api_def split: if_splits prod.splits sum.splits)
  next
    case (Inr c)
    with run show ?thesis
      by (auto simp: raise_api_def split: if_splits prod.splits sum.splits)
  qed
qed

lemma reserve_operation_id:
  "chat_reserve en s ad fingerprint stream w = (Inr (Inr ad'), w') \<Longrightarrow> ad_operation ad' = ad_operation ad"
  by (auto simp: chat_reserve_def bindp_Inr dest!: reserve_credit_Inr)

lemma forward_Inr:
  assumes "bf_forward_chat en cd body w = (Inr response, w')"
  shows "\<exists>l payload. bf_json_reply cd MAX_INFERENCE_RESPONSE_BYTES (en_reply en l) = Inr payload \<and>
    validate_completion (cd_valid cd) payload = Some response"
  using assms
  by (auto simp: bf_forward_chat_def bf_request_def bindp_Inr call_Inr http_do_def bf_validate_def split: option.splits)

text \<open>C4: a plain chat request answers only after the provider has answered, the credit service
  has charged exactly the usage of that answer to this operation, and the terminal state with
  this charge is committed: the operation is completed with the usage, and its event records
  the charge.\<close>

theorem answer_is_settled:
  assumes "execute en s q caller srid fingerprint w = (Inr (response, hs), w')" and "k = en_uuid en (wd_log w) 0"
  shows "\<exists>charged_micro l payload. settled k (cc_usage response) charged_micro (wd_db w') \<and>
    settlement_answer en (cs_codec s) k (cc_usage response) charged_micro \<and>
    bf_json_reply (cs_codec s) MAX_INFERENCE_RESPONSE_BYTES (en_reply en l) = Inr payload \<and>
    validate_completion (cd_valid (cs_codec s)) payload = Some response"
proof (rule execute_Inr [OF assms(1)])
  fix ad w1 w2
  assume e: "chat_enter en s q caller srid w = (Inr ad, w1)"
    "execute_body en s ad fingerprint w1 = (Inr (Inr response), w2)" and db: "wd_db w' = wd_db w2"
  obtain r1 w3 where b: "chat_reserve en s ad fingerprint False w1 = (Inr r1, w3)"
    "(case r1 of Inl e \<Rightarrow> World.ret (Inl e) | Inr ad \<Rightarrow> call_provider en s ad) w3 = (Inr (Inr response), w2)"
    using e(2) unfolding execute_body_def by (auto simp: bindp_Inr)
  obtain ad' where ad': "r1 = Inr ad'" using b(2) by (cases r1) auto
  have k: "ad_operation ad' = k"
    using enter_operation [OF e(1)] reserve_operation_id [OF b(1) [unfolded ad']] assms(2) by simp
  obtain x w4 where x: "Chat.lease_run en s ad' (bf_forward_chat en (cs_codec s) (bifrost_payload (ad_request ad'))) w3 = (x, w4)"
    "(case x of Inl e \<Rightarrow> (case e of BifrostUpstreamError code status_code _ \<Rightarrow>
        provider_failed en s ad' (provider_error code status_code) | _ \<Rightarrow> World.raise e)
      | Inr response \<Rightarrow> settle_response en s ad' response) w4 = (Inr (Inr response), w2)"
    using b(2) unfolding ad' call_provider_def by (auto simp: bindp_Inr attempt_Inr)
  have "\<exists>r. x = Inr r \<and> settle_response en s ad' r w4 = (Inr (Inr response), w2)"
  proof (cases x)
    case (Inl e)
    with x(2) show ?thesis by (cases e) (auto dest: provider_failed_Inr)
  qed (use x(2) in auto)
  then obtain r where r: "x = Inr r" "settle_response en s ad' r w4 = (Inr (Inr response), w2)" by blast
  note st = settle_response_Inr [OF r(2)]
  then have "r = response" by simp
  with lease_run_Inr [OF x(1) [unfolded r(1)]] forward_Inr
  have "\<exists>l payload. bf_json_reply (cs_codec s) MAX_INFERENCE_RESPONSE_BYTES (en_reply en l) = Inr payload \<and>
    validate_completion (cd_valid (cs_codec s)) payload = Some response" by blast
  with st k db \<open>r = response\<close> show ?thesis by auto
qed

subsection \<open>The leases are given back\<close>

text \<open>No lease of the member, now or at any time.\<close>

definition free_of :: "str \<Rightarrow> str \<Rightarrow> redis \<Rightarrow> bool" where
  "free_of key m r \<longleftrightarrow> (\<forall>t. zscore (zget t key r) m = None)"

lemma free_zrem: "free_of key m (zput now key (zrem m z) r)"
  by (auto simp: free_of_def zscore_None zget_def zput_def alive_def split: option.splits)

lemma free_other: "free_of key m r \<Longrightarrow> key \<noteq> j \<Longrightarrow> free_of key m (zput now j z r)"
  by (auto simp: free_of_def zget_def zput_def)

lemma lease_keys_differ:
  "build_redis_key sha ''concurrency'' [a] = Inr k \<Longrightarrow> build_redis_key sha ''model_active'' [b] = Inr j \<Longrightarrow> k \<noteq> j"
  by (auto simp: build_redis_key_single)

lemma released_reply: "bind_res (Inr (Reply_int (if b then 0 else 1))) removed_reply = Inr (\<not> b)"
  by (simp add: removed_reply_def bind_res_def py_int_def)

lemma release_one_call:
  assumes "en_fate en (wd_log w @ [a]) = Ends"
    and "f (en_link en (wd_log w @ [a])) (en_redis_ms en (wd_log w @ [a])) (wd_redis w) = (Inr b, r)"
  shows "release_one (World.call en a (redis_do en f)) w = (Inr True, (record_act a w)\<lparr>wd_redis := r\<rparr>)"
  using assms by (simp add: release_one_def World.except_def bindp_def World.call_def redis_do_def)

lemma release_active_up:
  assumes up: "\<And>l. en_link en l = Link_up" and ends: "\<And>l. en_fate en l = Ends"
    and keys: "lease_key_and_member (cs_sha s) ''concurrency'' client k = Inr (ck, m)" "active_key (cs_sha s) pool = Inr pk"
  shows "\<exists>w'. release_active_leases en s client pool k w = (Inr True, w') \<and>
    free_of ck m (wd_redis w') \<and> free_of pk m (wd_redis w')"
proof -
  have km: "build_redis_key (cs_sha s) ''concurrency'' [client] = Inr ck" "redis_identifier (cs_sha s) k = Inr m"
    using keys(1) by (auto simp: lease_key_and_member_def bind_res_Inr)
  have ne: "ck \<noteq> pk" using lease_keys_differ km(1) keys(2) by (auto simp: active_key_def)
  let ?l1 = "wd_log w @ [Act_release k]"
  let ?now1 = "en_redis_ms en ?l1"
  let ?r1 = "zput ?now1 ck (zrem m (zget ?now1 ck (wd_redis w))) (wd_redis w)"
  let ?w1 = "(record_act (Act_release k) w)\<lparr>wd_redis := ?r1\<rparr>"
  have 1: "\<exists>b. conc_release (cs_sha s) (en_link en ?l1) ?now1 client k (wd_redis w) = (Inr b, ?r1)"
    by (simp add: conc_release_def keys(1) up fail_closed_def release_script_def Let_def released_reply
        del: zget_zput split: prod.splits) (auto simp: removed_reply_def bind_res_def py_int_def)
  let ?l2 = "?l1 @ [Act_pool_release k]"
  let ?now2 = "en_redis_ms en ?l2"
  let ?r2 = "zput ?now2 pk (zrem m (zget ?now2 pk ?r1)) ?r1"
  have 2: "\<exists>b. pool_release (cs_sha s) (en_link en ?l2) ?now2 pool k ?r1 = (Inr b, ?r2)"
    by (simp add: pool_release_def keys(2) km(2) bind_res_def up fail_closed_def release_script_def Let_def
        del: zget_zput split: prod.splits) (auto simp: removed_reply_def bind_res_def py_int_def)
  have e1: "release_one (World.call en (Act_release k) (redis_do en (\<lambda>l now. conc_release (cs_sha s) l now client k))) w =
      (Inr True, ?w1)"
    using 1 ends by (elim exE) (rule release_one_call)
  have e2: "release_one (pool_free en s pool k) ?w1 = (Inr True, (record_act (Act_pool_release k) ?w1)\<lparr>wd_redis := ?r2\<rparr>)"
    unfolding pool_free_def using 2 ends by (elim exE) (rule release_one_call, simp_all)
  have "release_active_leases en s client pool k w = (Inr True, (record_act (Act_pool_release k) ?w1)\<lparr>wd_redis := ?r2\<rparr>)"
    by (simp add: release_active_leases_def bindp_def e1 e2 del: zget_zput)
  moreover have "free_of ck m ?r2" "free_of pk m ?r2"
    using free_zrem ne by (auto intro: free_other)
  ultimately show ?thesis by auto
qed

lemma execute_releases:
  assumes up: "\<And>l. en_link en l = Link_up" and ends: "\<And>l. en_fate en l = Ends"
    and q: "\<not> cq_stream q" and enter: "chat_enter en s q caller srid w = (Inr ad, w1)"
    and keys: "lease_key_and_member (cs_sha s) ''concurrency'' (ad_client ad) (ad_operation ad) = Inr (ck, m)"
      "active_key (cs_sha s) (ad_pool ad) = Inr pk"
    and run: "execute en s q caller srid fingerprint w = (r, w')"
  shows "free_of ck m (wd_redis w') \<and> free_of pk m (wd_redis w')"
proof -
  obtain x w2 where b: "execute_body en s ad fingerprint w1 = (x, w2)" by fastforce
  obtain w3 where rel: "release_active_leases en s (ad_client ad) (ad_pool ad) (ad_operation ad) w2 = (Inr True, w3)"
    "free_of ck m (wd_redis w3) \<and> free_of pk m (wd_redis w3)"
    using release_active_up [OF up ends keys] by blast
  have "w' = w3"
    using run enter b rel(1)
    by (auto simp: execute_def require_non_streaming_def q World.except_def bindp_def attempt_def release_after_def
        split: sum.splits prod.splits)
  with rel(2) show ?thesis by simp
qed

lemma stream_releases:
  assumes up: "\<And>l. en_link en l = Link_up" and ends: "\<And>l. en_fate en l = Ends"
    and keys: "lease_key_and_member (cs_sha s) ''concurrency'' (ad_client ad) (ad_operation ad) = Inr (ck, m)"
      "active_key (cs_sha s) (ad_pool ad) = Inr pk"
    and run: "stream_response en s ad answer waits w = (r, w')"
  shows "free_of ck m (wd_redis w') \<and> free_of pk m (wd_redis w')"
proof -
  obtain l w1 where 1: "stream_loop en s ad (Not_started answer) new_decoder waits
      (record_act (Act_bifrost ''POST'' chat_path (stream_payload (bifrost_payload (ad_request ad)))) w) = (l, w1)" by fastforce
  obtain c q w2 where 2: "handle_stream en s ad l w1 = ((c, q), w2)" by (metis surj_pair)
  have call: "World.call en a (World.ret ()) v = (Inr (), record_act a v)" for a v by (simp add: World.call_def ends)
  obtain v where v: "(if le_pending l then World.call en Act_upstream (World.ret ()) else World.ret ()) w2 = (Inr (), v)"
    by (cases "le_pending l") (simp_all add: call)
  have close: "close_upstream en v = (Inr (), record_act Act_close v)" by (simp add: close_upstream_def World.except_def call)
  obtain w3 where rel: "release_active_leases en s (ad_client ad) (ad_pool ad) (ad_operation ad) (record_act Act_close v) = (Inr True, w3)"
    "free_of ck m (wd_redis w3) \<and> free_of pk m (wd_redis w3)"
    using release_active_up [OF up ends keys] by blast
  have "clean_stream en s ad (le_pending l) c w2 = (Inr (), w3)"
    by (simp add: clean_stream_def bindp_def v finally_do_def close rel(1) del: ret_eq)
      simp
  then have "w' = w3" using run by (simp add: stream_response_def Let_def 1 2)
  with rel(2) show ?thesis by simp
qed

text \<open>C26: the leases are given back. Once a plain request has been admitted, whatever happens in
  the rest of it, and likewise for every run of a stream, however it ends: when Redis answers and
  no call is cut off, neither the caller's concurrency set nor the model pool holds
  the operation any more.\<close>

theorem leases_released:
  assumes "\<And>l. en_link en l = Link_up" and "\<And>l. en_fate en l = Ends"
    and "lease_key_and_member (cs_sha s) ''concurrency'' (ad_client ad) (ad_operation ad) = Inr (ck, m)"
    and "active_key (cs_sha s) (ad_pool ad) = Inr pk"
    and "\<not> cq_stream q \<and> (\<exists>w1. chat_enter en s q caller srid w = (Inr ad, w1)) \<and>
        execute en s q caller srid fingerprint w = (r, w') \<or>
      (\<exists>r'. stream_response en s ad answer waits w = (r', w'))"
  shows "free_of ck m (wd_redis w') \<and> free_of pk m (wd_redis w')"
  using assms(5) execute_releases [OF assms(1,2) _ _ assms(3,4)] stream_releases [OF assms(1-4)] by blast

subsection \<open>The ledger\<close>

text \<open>C27: every program of the chat service keeps the ledger consistent, whatever its environment
  does: plain requests, the preparation of a stream and the stream itself run nothing but
  transactions of the ledger.\<close>

theorem chat_keeps_ledger:
  assumes "ledger_inv (wd_db w)"
  shows "ledger_inv (wd_db (snd (execute en s q caller srid fingerprint w))) \<and>
    ledger_inv (wd_db (snd (prepare_stream en s q caller srid fingerprint w))) \<and>
    ledger_inv (wd_db (snd (stream_response en s ad answer waits w)))"
  using assms steps_keep [OF execute_steps] steps_keep [OF prepare_stream_steps] steps_keep [OF stream_steps]
  by (simp add: always_def keeps_ledger_def)

end
