(* ===== verification/Chat_Stream_Properties.thy ===== *)
theory Chat_Stream_Properties
  imports Chat_Properties
begin

text \<open>
  Properties of the streamed answer: the end marker is sent only after the commit, and what a
  stream passes on.
\<close>

subsection \<open>The end marker of a stream\<close>

lemma step_events: "quota_step a d = Inr d' \<Longrightarrow> set (db_events d) \<subseteq> set (db_events d')"
proof (cases a)
  case (Reserve rq u1 u2)
  assume "quota_step a d = Inr d'"
  then obtain r where "reserve_operation rq u1 u2 d = Inr (r, d')"
    using Reserve by (auto simp: drop_value_Inr commit_tx_Inr)
  then show ?thesis by (rule reserve_operation_Inr) (auto dest!: locked_quota_rows_db)
next
  case (Finalize k t u)
  assume "quota_step a d = Inr d'"
  then obtain r where "finalize_operation k t u d = Inr (r, d')"
    using Finalize by (auto simp: drop_value_Inr commit_tx_Inr)
  then show ?thesis by (cases rule: finalize_operation_Inr) (auto simp: finalized_db_def Let_def)
qed (auto simp: drop_value_Inr commit_tx_Inr record_credit_reservation_def record_provider_usage_def
    touch_pending_operation_def bind_res_Inr Let_def split: if_splits option.splits)

lemma run_events: "set (db_events d) \<subseteq> set (db_events (run_steps quota_step ops d))"
proof (induction ops arbitrary: d)
  case (Cons a ops)
  show ?case
  proof (cases "quota_step a d")
    case (Inl e)
    then show ?thesis using Cons.IH [of d] by simp
  next
    case (Inr d')
    then show ?thesis using Cons.IH [of d'] step_events [OF Inr] by simp
  qed
qed simp

lemma settled_stays:
  assumes "ledger_inv d" and "settled k u charged_micro d"
  shows "settled k u charged_micro (run_steps quota_step ops d)"
proof -
  obtain p e where s: "find_row op_id k (db_operations d) = Some p" "op_state p = Completed"
    "op_prompt p = us_prompt u" "op_completion p = us_completion u" "e \<in> set (db_events d)" "ev_operation e = Some k"
    "ev_outcome e = ''success''" "ev_code e = ''OK''" "ev_charged e = charged_micro"
    "ev_prompt e = us_prompt u" "ev_completion e = us_completion u"
    using assms(2) unfolding settled_def by blast
  let ?d = "run_steps quota_step ops d"
  note mem = find_row_mem [OF s(1)]
  obtain p' where p': "p' \<in> set (db_operations ?d)" "continues p p'"
    using run_continues [OF assms(1) mem(1)] by blast
  then have "p' = p" using s(2) by (simp add: continues_def)
  have "ledger_inv ?d" by (rule ledger.run_inv [OF assms(1)])
  then have "find_row op_id k (db_operations ?d) = Some p"
    using p'(1) \<open>p' = p\<close> by (intro find_row_unique [OF usage_tables_distinct(3) [OF ledger_invD(4)] _ mem(2)]) simp_all
  moreover have "e \<in> set (db_events ?d)" using run_events s(5) by blast
  ultimately show ?thesis unfolding settled_def using s by blast
qed

definition no_done :: "world \<Rightarrow> world \<Rightarrow> bool" where
  "no_done w w' \<longleftrightarrow> (\<exists>l. wd_log w' = wd_log w @ l \<and> Act_yield SSE_DONE \<notin> set l)"

interpretation no_done: world_relation no_done
proof
  fix u v w :: world
  show "no_done w w" by (simp add: no_done_def)
  show "no_done u v \<Longrightarrow> no_done v w \<Longrightarrow> no_done u w" by (auto simp: no_done_def)
qed

lemma no_done_quiet: "quiet m \<Longrightarrow> always no_done m"
  by (simp add: always_def no_done_def quiet_def)

lemma no_done_call:
  assumes "quiet m" and "a \<noteq> Act_yield SSE_DONE"
  shows "always no_done (World.call en a m)"
  unfolding always_def
proof
  fix w
  have "wd_log (snd (World.call en a m w)) = wd_log w @ [a]"
    using call_world [of en a m w] assms(1) by (auto simp: quiet_def)
  then show "no_done w (snd (World.call en a m w))" using assms(2) by (simp add: no_done_def)
qed

lemmas no_done_all = no_done.rules no_done.attempt no_done.handlers no_done.beats no_done.lease_run no_done.reads

lemma parts_no_done:
  "always no_done (raise_api c ko hs)" "always no_done (raise_plane ad)" "always no_done (terminal_now en ad)"
  "always no_done (lease_heartbeat en s ad)" "always no_done (touch_operation en ad now)"
  "always no_done (record_usage en ad u now)" "always no_done (terminalize en ad st oc sg code n)"
  "always no_done (release_active_leases en s client pool k)"
  unfolding raise_plane_def raise_api_def terminal_now_def lease_heartbeat_def touch_operation_def record_usage_def
    terminalize_def release_active_leases_def release_one_def pool_free_def
  by (intro no_done_all no_done_call quiet_basic quiet_ret; simp)+

lemma ow_no_done: "always no_done (ow_request en cd path body validate)"
  unfolding ow_request_def by (intro no_done_all no_done_call quiet_basic) simp

lemma settle_no_done: "always no_done (settle_stream en s ad u)" "always no_done (cancel_stream en s ad)"
  unfolding settle_stream_def cancel_stream_def ow_calls by (intro no_done_all parts_no_done ow_no_done)+

lemma failure_no_done: "always no_done (finish_stream_failure en s ad u code st oc sg)"
  "always no_done (try_finish_stream_failure en s ad u code st oc sg)"
  unfolding try_finish_stream_failure_def finish_stream_failure_def
  by (intro no_done_all parts_no_done settle_no_done)+

lemma yield_no_done: "frame \<noteq> SSE_DONE \<Longrightarrow> always no_done (yield_frame en frame)"
  unfolding yield_frame_def by (intro no_done_call quiet_ret) simp

lemma commit_no_done: "always no_done (commit_stream en s ad u)"
  unfolding commit_stream_def by (intro no_done_all parts_no_done settle_no_done)

lemma beat_no_done: "always no_done (beat_and_yield en s ad)"
  unfolding beat_and_yield_def heartbeat_stream_def
  by (intro no_done_all parts_no_done yield_no_done) (simp add: SSE_HEARTBEAT_def SSE_DONE_def data_frame_def)

lemma clean_no_done: "always no_done (clean_stream en s ad pending committed)"
  unfolding clean_stream_def close_upstream_def
  by (intro no_done_all parts_no_done no_done_call quiet_ret; simp)

lemma error_no_done:
  assumes "\<And>p. cd_dumps (cs_codec s) (JObj p) \<noteq> ''[DONE]''"
  shows "always no_done (yield_error en s ad code)"
  unfolding yield_error_def stream_error_frame_def
proof (cases "spec_of code")
  case None
  show "always no_done (bindp (World.of_res (case spec_of code of None \<Rightarrow> Inl (LookupError code)
      | Some sp \<Rightarrow> Inr (data_frame (cd_dumps (cs_codec s) (error_payload sp code (ad_server_request ad) (ad_operation ad))))))
      (yield_frame en))"
    by (simp add: None always_def bindp_def no_done_def)
next
  case (Some sp)
  have "data_frame (cd_dumps (cs_codec s) (error_payload sp code (ad_server_request ad) (ad_operation ad))) \<noteq> SSE_DONE"
    using assms by (auto simp: SSE_DONE_def data_frame_def error_payload_def)
  from yield_no_done [OF this, of en]
  show "always no_done (bindp (World.of_res (case spec_of code of None \<Rightarrow> Inl (LookupError code)
      | Some sp \<Rightarrow> Inr (data_frame (cd_dumps (cs_codec s) (error_payload sp code (ad_server_request ad) (ad_operation ad))))))
      (yield_frame en))"
    by (simp add: Some always_def bindp_def)
qed

subsection \<open>The commit before the marker\<close>

lemma settle_stream_Inr:
  assumes "settle_stream en s ad u w = (Inr n, w')"
  shows "\<exists>now y. record_provider_usage (ad_operation ad) (us_prompt u) (us_completion u) now (wd_db w) = Inr (y, wd_db w') \<and>
    settlement_answer en (cs_codec s) (ad_operation ad) u n"
proof -
  obtain now w1 y w2 c where r: "record_usage en ad u now w = (Inr y, w2)"
    "ow_settle_operation en (cs_codec s) (ad_operation ad) (cp_service_user_id (ad_policy ad)) (us_prompt u) (us_completion u) w2
      = (Inr c, w')" "settled_matches ad u c" "n = co_charged c"
    using assms by (auto simp: settle_stream_def bindp_Inr terminal_now_def read_time_def raise_plane_def raise_api_def
        split: if_splits)
  have "wd_db w' = wd_db w2" using same_db_run [OF ow_calls_same_db(2) r(2)] .
  then show ?thesis
    using record_usage_Inr [OF r(1)] ow_call_answer(2) [OF r(2)] r(3,4)
    unfolding settlement_answer_def settled_matches_def by auto
qed

lemma commit_stream_Inr:
  assumes "commit_stream en s ad u w = (Inr x, w')"
  shows "\<exists>v n. settled (ad_operation ad) v n (wd_db w') \<and> settlement_answer en (cs_codec s) (ad_operation ad) v n"
proof -
  obtain v n w1 where v: "u = Some v" "settle_stream en s ad v w = (Inr n, w1)"
    "terminalize en ad T_completed ''success'' ''response'' ''OK'' n w1 = (Inr x, w')"
    using assms by (auto simp: commit_stream_def bindp_Inr split: option.splits)
  obtain now y where st: "record_provider_usage (ad_operation ad) (us_prompt v) (us_completion v) now (wd_db w) = Inr (y, wd_db w1)"
    "settlement_answer en (cs_codec s) (ad_operation ad) v n"
    using settle_stream_Inr [OF v(2)] by blast
  obtain t uuid sn where t: "finalize_operation (ad_operation ad) t uuid (wd_db w1) = Inr (sn, wd_db w')"
    "tm_status t = T_completed" "tm_outcome t = ''success''" "tm_code t = ''OK''" "tm_charged t = n"
    using terminalize_Inr [OF v(3)] by blast
  from settle_commit [OF st(1) t] st(2) show ?thesis by blast
qed

definition committed :: "env \<Rightarrow> chat_service \<Rightarrow> str \<Rightarrow> db \<Rightarrow> bool" where
  "committed en s k d \<longleftrightarrow> (\<exists>v n. settled k v n d \<and> settlement_answer en (cs_codec s) k v n)"

definition done_ok :: "env \<Rightarrow> chat_service \<Rightarrow> str \<Rightarrow> world \<Rightarrow> world \<Rightarrow> bool" where
  "done_ok en s k w w' \<longleftrightarrow> no_done w w' \<or> committed en s k (wd_db w')"

lemma send_frames_done:
  "send_frames en s ad u frames w = (x, w') \<Longrightarrow>
    no_done w w' \<or> (\<exists>l. x = Some l) \<and> committed en s (ad_operation ad) (wd_db w')"
proof (induction frames arbitrary: w)
  case Nil
  then show ?case using no_done.refl by simp
next
  case (Cons frame frames)
  show ?case
  proof (cases "frame = SSE_DONE")
    case False
    obtain r w1 where y: "yield_frame en frame w = (r, w1)" by fastforce
    note n = no_done.run [OF yield_no_done [OF False] y]
    from Cons False y n show ?thesis
      by (cases r) (auto dest: no_done.trans [OF n])
  next
    case True
    obtain r w1 where c: "commit_stream en s ad u w = (r, w1)" by fastforce
    show ?thesis
    proof (cases r)
      case (Inl e)
      with Cons.prems True c no_done.run [OF commit_no_done c] show ?thesis by simp
    next
      case (Inr v)
      obtain r2 w2 where y: "yield_frame en SSE_DONE w1 = (r2, w2)" by fastforce
      have "always same_db (yield_frame en SSE_DONE)" unfolding yield_frame_def by (intro same_db_all)
      from same_db_run [OF this y] have "wd_db w2 = wd_db w1" .
      with commit_stream_Inr [OF c [unfolded Inr]] have "committed en s (ad_operation ad) (wd_db w2)"
        by (simp add: committed_def)
      with Cons.prems True c Inr y show ?thesis by auto
    qed
  qed
qed

lemma stream_loop_done:
  "stream_loop en s ad g d waits w = (l, w') \<Longrightarrow> done_ok en s (ad_operation ad) w w'"
proof (induction waits arbitrary: g d w)
  case Nil
  then show ?case using no_done.refl by (simp add: done_ok_def)
next
  case (Cons wait waits)
  have step: "done_ok en s (ad_operation ad) w w'"
    if "no_done w v" "stream_loop en s ad g d waits v = (l, w')" for g d v
    using Cons.IH [OF that(2)] no_done.trans [OF that(1)] by (auto simp: done_ok_def)
  have here: "done_ok en s (ad_operation ad) w w'" if "no_done w w'"
    using that by (simp add: done_ok_def)
  show ?case
  proof (cases wait)
    case Wait_cancelled
    with Cons.prems show ?thesis using no_done.refl by (simp add: done_ok_def)
  next
    case Wait_timeout
    obtain r w1 where b: "beat_and_yield en s ad w = (r, w1)" by fastforce
    note n = no_done.run [OF beat_no_done b]
    from Cons.prems Wait_timeout b n show ?thesis by (cases r) (auto intro: here step)
  next
    case (Wait_done due x)
    have m: "always no_done (if due then beat_and_yield en s ad else World.ret ())"
      by (intro no_done.if_then beat_no_done no_done.ret)
    obtain r w1 where b: "(if due then beat_and_yield en s ad else World.ret ()) w = (r, w1)" by fastforce
    note n = no_done.run [OF m b]
    show ?thesis
    proof (cases "\<exists>chunk g' d' frames. r = Inr () \<and> stream_next g x = Inr (Some chunk, g') \<and>
        feed (cd_loads (cs_codec s)) (coerce_usage (cd_valid (cs_codec s))) d chunk = Inr (d', frames)")
      case False
      then have "w' = w1"
        using Cons.prems by (auto simp: Wait_done b split: sum.splits option.splits prod.splits)
      with n here show ?thesis by simp
    next
      case True
      then obtain chunk g' d' frames where f: "r = Inr ()" "stream_next g x = Inr (Some chunk, g')"
        "feed (cd_loads (cs_codec s)) (coerce_usage (cd_valid (cs_codec s))) d chunk = Inr (d', frames)" by blast
      obtain y w2 where sf: "send_frames en s ad (dc_usage d') frames w1 = (y, w2)" by fastforce
      note run = Cons.prems [unfolded Wait_done stream_loop.simps b f prod.case sum.case option.case sf]
      from send_frames_done [OF sf] show ?thesis
      proof
        assume "no_done w1 w2"
        from no_done.trans [OF n this] run show ?thesis by (cases y) (auto intro: here step)
      next
        assume "(\<exists>l. y = Some l) \<and> committed en s (ad_operation ad) (wd_db w2)"
        with run show ?thesis by (auto simp: done_ok_def)
      qed
    qed
  qed
qed

lemma no_done_act: "a \<noteq> Act_yield SSE_DONE \<Longrightarrow> no_done w (record_act a w)"
  by (simp add: no_done_def)

lemma stream_done:
  assumes codec: "\<And>p. cd_dumps (cs_codec s) (JObj p) \<noteq> ''[DONE]''" and inv: "ledger_inv (wd_db w)"
    and run: "stream_response en s ad answer waits w = (r, w')"
  shows "done_ok en s (ad_operation ad) w w'"
proof -
  let ?w = "record_act (Act_bifrost ''POST'' chat_path (stream_payload (bifrost_payload (ad_request ad)))) w"
  obtain l w1 where 1: "stream_loop en s ad (Not_started answer) new_decoder waits ?w = (l, w1)" by fastforce
  obtain c q w2 where 2: "handle_stream en s ad l w1 = ((c, q), w2)" by (metis surj_pair)
  obtain x w3 where 3: "clean_stream en s ad (le_pending l) c w2 = (x, w3)" by fastforce
  have w': "w' = w3" using run by (auto simp: stream_response_def Let_def 1 2 3 split: sum.splits)
  note err = error_no_done [OF codec]
  have n: "no_done w1 w3"
    by (rule no_done.trans [OF no_done.handle [OF err failure_no_done 2] no_done.run [OF clean_no_done 3]])
  have s1: "ledger_steps ?w w1"
    by (rule steps.stream_loop [OF _ _ _ 1]) (rule yield_steps commit_stream_steps beat_steps)+
  have s2: "ledger_steps w1 w3"
    by (rule steps.trans [OF steps.handle [OF _ _ _ 2] steps.run [OF clean_steps 3]])
      (rule yield_steps finish_failure_steps)+
  have "done_ok en s (ad_operation ad) ?w w1" by (rule stream_loop_done [OF 1])
  then consider (quiet) "no_done ?w w1" | (committed) "committed en s (ad_operation ad) (wd_db w1)"
    by (auto simp: done_ok_def)
  then show ?thesis
  proof cases
    case quiet
    have "no_done w ?w" by (rule no_done_act) simp
    from no_done.trans [OF this no_done.trans [OF quiet n]] show ?thesis by (simp add: done_ok_def w')
  next
    case committed
    have "ledger_inv (wd_db w1)" using s1 inv ledger.run_inv by (auto simp: ledger_steps_def)
    with committed s2 settled_stays have "committed en s (ad_operation ad) (wd_db w3)"
      unfolding committed_def ledger_steps_def by metis
    then show ?thesis by (simp add: done_ok_def w')
  qed
qed


end
