(* ===== verification/Chat_Sample.thy ===== *)
theory Chat_Sample
  imports Chat_Stream_Properties Auth_Properties
begin

text \<open>
  A concrete chat request in the model: its environment (a credit service, a model), its
  admission evaluated step by step, and its four transactions.
\<close>

subsection \<open>The world of the runs\<close>

definition chat_db :: db where
  "chat_db = policy_db\<lparr>db_credentials := [(cn_credential auth_creation)\<lparr>cr_expires_at := None\<rparr>]\<rparr>"

definition chat_world :: world where
  "chat_world = \<lparr>wd_db = chat_db, wd_redis = empty_redis, wd_log = []\<rparr>"

text \<open>The credit service knows an operation as pending until it is settled; the model answers
  with a fixed completion.\<close>

definition chat_account :: json where
  "chat_account = JObj [(''account_id'', JStr ''a1''), (''service_user_id'', JStr ''12345678-1234-5678-1234-567812345678''),
     (''balance_micro'', JInt 100), (''status'', JStr ''active''), (''version'', JInt 1), (''updated_at'', JInt 90000)]"

definition chat_credit :: "str \<Rightarrow> int \<Rightarrow> int \<Rightarrow> int \<Rightarrow> json" where
  "chat_credit status a b n = JObj [(''operation_id'', JStr ''op''), (''settlement_id'', JStr ''s1''),
     (''service_user_id'', JStr ''12345678-1234-5678-1234-567812345678''), (''model_id'', JStr ''m''),
     (''provider'', JStr ''bifrost''), (''status'', JStr status), (''prompt_tokens'', JInt a), (''completion_tokens'', JInt b),
     (''total_tokens'', JInt (a + b)), (''charged_micro'', JInt n), (''started_at'', JInt 90000), (''updated_at'', JInt 90000),
     (''usage_operation_id'', JStr ''op:usage''), (''account'', chat_account)]"

definition chat_usage_json :: json where
  "chat_usage_json = JObj [(''prompt_tokens'', JInt 1), (''completion_tokens'', JInt 2), (''total_tokens'', JInt 3)]"

definition chat_answer :: json where
  "chat_answer = JObj [(''id'', JStr ''i''), (''model'', JStr ''m''), (''choices'', JList [JObj [(''index'', JInt 0),
     (''message'', JObj [(''role'', JStr ''assistant''), (''content'', JStr ''hi'')])]]), (''usage'', chat_usage_json)]"

definition chat_chunk :: json where
  "chat_chunk = JObj [(''object'', JStr ''chat.completion.chunk''), (''id'', JStr ''i''), (''model'', JStr ''m''),
     (''choices'', JList []), (''usage'', chat_usage_json)]"

definition chat_loads :: "str \<Rightarrow> json option" where
  "chat_loads t = (if t = ''R'' then Some (chat_credit ''pending'' 0 0 0)
     else if t = ''S'' then Some (chat_credit ''succeeded_charged'' 1 2 7)
     else if t = ''B'' then Some chat_answer else if t = ''C'' then Some chat_chunk else toy_loads t)"

definition chat_codec :: codec where
  "chat_codec = \<lparr>cd_loads = chat_loads, cd_dumps = (\<lambda>_. ''{}''), cd_valid = sample_validation\<rparr>"

definition chat_reply :: "act list \<Rightarrow> http_reply" where
  "chat_reply l = Http_reply 200 ''application/json'' [case last l of
     Act_openwebui path _ \<Rightarrow> if path = reserve_path then ''R'' else ''S'' | _ \<Rightarrow> ''B'']"

definition chat_env :: env where
  "chat_env = \<lparr>en_time = (\<lambda>_. 90000), en_redis_ms = (\<lambda>_. 90000000), en_link = (\<lambda>_. Link_up), en_fate = (\<lambda>_. Ends),
     en_beats = (\<lambda>_. 0), en_reply = chat_reply, en_mono = (\<lambda>l. int (length l) * 1000000000),
     en_uuid = (\<lambda>l n. if l = [] then ''op'' else CHR ''u'' # replicate n CHR ''x'' @ map (\<lambda>_. CHR ''y'') l)\<rparr>"

definition chat_sample_service :: chat_service where
  "chat_sample_service = \<lparr>cs_crypto = toy_crypto, cs_codec = chat_codec, cs_keyring = auth_keyring, cs_nonce_ttl = 600,
     cs_qps_window = 1000, cs_lease = 60000, cs_pool_lease = 60000, cs_policies = [(''m'', \<lparr>pp_pool = ''p1'', pp_active_limit = 2\<rparr>)],
     cs_max_output = 100, cs_queue_limit = 10, cs_caller_queue_limit = 2, cs_queue_wait = 30, cs_queue_poll = 500, cs_patience = 1\<rparr>"

definition chat_sample_request :: "bool \<Rightarrow> chat_request" where
  "chat_sample_request stream = \<lparr>cq_model = ''m'', cq_messages = [(''user'', ''hi'')], cq_stream = stream, cq_temperature = None,
     cq_top_p = None, cq_max_tokens = None, cq_max_completion_tokens = None, cq_stop = None\<rparr>"

subsection \<open>Admission\<close>

abbreviation svc :: chat_service where
  "svc \<equiv> chat_sample_service"

definition chat_policy :: caller_policy where
  "chat_policy = \<lparr>cp_api_client_id = ''c1'', cp_credential_id = ''u1'', cp_allowed_endpoints = [''chat.completions''],
     cp_allowed_models = [''m''], cp_qps_limit = 5, cp_concurrency_limit = 5, cp_daily_request_limit = Some 2,
     cp_daily_token_limit = Some 100, cp_total_request_limit = None, cp_total_token_limit = Some 150, cp_max_output_tokens = 10,
     cp_service_user_id = ''12345678-1234-5678-1234-567812345678'', cp_virtual_key = ''sk-1''\<rparr>"

definition chat_qps :: qps_decision where
  "chat_qps = \<lparr>qd_allowed = True, qd_count = 1, qd_limit = 5, qd_remaining = 4, qd_reset_at = 90001000,
     qd_observed_at = 90000000\<rparr>"

definition chat_pool :: pool_policy where
  "chat_pool = \<lparr>pp_pool = ''p1'', pp_active_limit = 2\<rparr>"

definition chat_place :: pool_decision where
  "chat_place = \<lparr>pd_status = Admitted, pd_active_count = 1, pd_active_limit = 2, pd_active_remaining = 1, pd_queue_count = 0,
     pd_queue_limit = 10, pd_queue_remaining = 10, pd_pool_queue_count = 0, pd_queue_position = 0, pd_expires_at = 90060000,
     pd_observed_at = 90000000\<rparr>"

definition chat_lease :: lease_decision where
  "chat_lease = \<lparr>ld_allowed = True, ld_count = 1, ld_limit = 5, ld_remaining = 4, ld_expires_at = 90060000,
     ld_observed_at = 90000000\<rparr>"

definition chat_conc :: "lease_decision prog" where
  "chat_conc = World.call chat_env (Act_acquire ''op'') (redis_do chat_env
     (\<lambda>l now. conc_acquire (cs_sha svc) (cs_lease svc) l now ''c1'' ''op'' 5))"

definition chat_w1 :: world where
  "chat_w1 = snd (claim_nonce chat_env svc policy_caller chat_world)"

definition chat_w2 :: world where
  "chat_w2 = record_act Act_policy chat_w1"

definition chat_w3 :: world where
  "chat_w3 = snd (admit_qps chat_env svc policy_caller ''srv1'' 5 chat_w2)"

definition chat_w4 :: world where
  "chat_w4 = snd (pool_admit chat_env svc chat_pool ''c1'' ''op'' chat_w3)"

definition chat_w5 :: world where
  "chat_w5 = snd (chat_conc chat_w4)"

lemma chat_nonce: "claim_nonce chat_env svc policy_caller chat_world = (Inr True, chat_w1)"
proof -
  have "fst (claim_nonce chat_env svc policy_caller chat_world) = Inr True" by code_simp
  then show ?thesis by (simp add: chat_w1_def prod_eq_iff)
qed

lemma chat_loaded: "load_policy chat_env svc policy_caller 90000 chat_w1 = (Inr chat_policy, chat_w2)"
proof -
  have "fst (load_policy chat_env svc policy_caller 90000 chat_w1) = Inr chat_policy" by code_simp
  moreover have "snd (load_policy chat_env svc policy_caller 90000 chat_w1) = chat_w2"
    by (simp add: load_policy_def World.call_def chat_env_def db_load_def chat_w2_def)
  ultimately show ?thesis by (simp add: prod_eq_iff)
qed

lemma chat_counted: "admit_qps chat_env svc policy_caller ''srv1'' 5 chat_w2 = (Inr chat_qps, chat_w3)"
proof -
  have "fst (admit_qps chat_env svc policy_caller ''srv1'' 5 chat_w2) = Inr chat_qps" by code_simp
  then show ?thesis by (simp add: chat_w3_def prod_eq_iff)
qed

lemma chat_placed: "pool_admit chat_env svc chat_pool ''c1'' ''op'' chat_w3 = (Inr chat_place, chat_w4)"
proof -
  have "fst (pool_admit chat_env svc chat_pool ''c1'' ''op'' chat_w3) = Inr chat_place" by code_simp
  then show ?thesis by (simp add: chat_w4_def prod_eq_iff)
qed

lemma chat_leased: "chat_conc chat_w4 = (Inr chat_lease, chat_w5)"
proof -
  have "fst (chat_conc chat_w4) = Inr chat_lease" by code_simp
  then show ?thesis by (simp add: chat_w5_def prod_eq_iff)
qed

definition chat_headers :: headers where
  "chat_headers = headers_update (headers_update (rate_limit_headers chat_qps) (model_pool_limit_headers chat_place))
     (concurrency_limit_headers chat_lease)"

definition chat_admission :: admission where
  "chat_admission = \<lparr>ad_request = chat_sample_request False, ad_caller = policy_caller, ad_policy = chat_policy,
     ad_operation = ''op'', ad_started_at = 90000, ad_started_ns = 0, ad_server_request = ''srv1'', ad_qps = chat_qps,
     ad_concurrency = chat_lease, ad_pool = ''p1'', ad_headers = chat_headers, ad_settlement = [], ad_usage_operation = []\<rparr>"

lemmas chat_answers = chat_policy_def chat_qps_def chat_place_def chat_lease_def

lemma chat_env_sel [simp]: "en_fate chat_env l = Ends" "en_link chat_env l = Link_up" "en_beats chat_env l = 0"
    "en_time chat_env l = 90000" "en_mono chat_env l = int (length l) * 1000000000" "en_reply chat_env = chat_reply"
    "en_uuid chat_env [] n = ''op''"
  by (simp_all add: chat_env_def)

lemma lease_run_still [simp]: "Chat.lease_run chat_env s ad m w = m w"
  by (simp add: Chat.lease_run_def)

lemma chat_entered:
  "chat_enter chat_env svc (chat_sample_request False) policy_caller ''srv1'' chat_world = (Inr chat_admission, chat_w5)"
proof -
  have m: "map_of (cs_policies svc) ''m'' = Some chat_pool" "cq_model (chat_sample_request False) = ''m''"
    by (simp_all add: chat_sample_service_def chat_pool_def chat_sample_request_def)
  have c: "au_api_client_id policy_caller = ''c1''" "wd_log chat_world = []" "pp_pool chat_pool = ''p1''"
    by (simp_all add: policy_caller_def chat_world_def chat_pool_def)
  have p: "acquire_model_pool chat_env svc ''m'' ''c1'' ''op'' hs chat_w3 =
      (Inr (chat_pool, headers_update hs (model_pool_limit_headers chat_place)), chat_w4)" for hs
    by (simp add: acquire_model_pool_def m(1) bindp_def chat_placed Let_def chat_answers)
  have a: "acquire_concurrency chat_env svc ''c1'' ''op'' 5 ''p1'' hs chat_w4 =
      (Inr (chat_lease, headers_update hs (concurrency_limit_headers chat_lease)), chat_w5)" for hs
    by (simp add: acquire_concurrency_def bindp_def World.except_def chat_leased [unfolded chat_conc_def] Let_def chat_answers)
  have "cp_qps_limit chat_policy = 5" "cp_concurrency_limit chat_policy = 5" "qd_allowed chat_qps"
    "cp_allowed_endpoints chat_policy = [''chat.completions'']" "cp_allowed_models chat_policy = [''m'']"
    by (simp_all add: chat_answers)
  then show ?thesis
    by (simp add: chat_enter_def enter_as_def bindp_def read_uuid_def read_time_def read_mono_def c m(2) chat_nonce
        chat_loaded chat_counted World.except_def p a Let_def chat_admission_def chat_headers_def)
qed

subsection \<open>The transactions\<close>

definition chat_quota :: reserve_request where
  "chat_quota = \<lparr>rq_client = ''c1'', rq_credential = ''u1'', rq_operation = ''op'', rq_request_id = ''request_request_1'',
     rq_fingerprint = replicate 64 CHR ''0'', rq_model = ''m'', rq_stream = False, rq_reserved = 24, rq_now = 90000\<rparr>"

definition chat_terminal_of :: "int \<Rightarrow> terminal" where
  "chat_terminal_of ms = \<lparr>tm_status = T_completed, tm_outcome = ''success'', tm_stage = ''response'', tm_http_status = 200,
     tm_code = ''OK'', tm_retryable = False, tm_duration_ms = ms, tm_charged = 7, tm_qps = 1, tm_concurrency = 1,
     tm_server_request_id = ''srv1'', tm_ip_hash = None, tm_ua_family = None, tm_completed_at = 90000\<rparr>"

definition after_step :: "quota_op \<Rightarrow> db \<Rightarrow> db" where
  "after_step a d = (case quota_step a d of Inl _ \<Rightarrow> d | Inr d' \<Rightarrow> d')"

definition chat_d1 :: db where "chat_d1 = after_step (Reserve chat_quota ''uyyyyy'' ''uxyyyyy'') chat_db"
definition chat_d2 :: db where "chat_d2 = after_step (Record_credit ''op'' ''s1'' ''op:usage'' 90000) chat_d1"
definition chat_d3 :: db where "chat_d3 = after_step (Record_usage ''op'' 1 2 90000) chat_d2"
definition chat_d4 :: db where "chat_d4 = after_step (Finalize ''op'' (chat_terminal_of 11000) ''uyyyyyyyyyyy'') chat_d3"

lemma after_step_ok: "is_ok (quota_step a d) \<Longrightarrow> quota_step a d = Inr (after_step a d)"
  by (auto simp: after_step_def is_ok_def split: sum.splits)

lemma chat_steps:
  "quota_step (Reserve chat_quota ''uyyyyy'' ''uxyyyyy'') chat_db = Inr chat_d1"
  "quota_step (Record_credit ''op'' ''s1'' ''op:usage'' 90000) chat_d1 = Inr chat_d2"
  "quota_step (Record_usage ''op'' 1 2 90000) chat_d2 = Inr chat_d3"
  "quota_step (Finalize ''op'' (chat_terminal_of 11000) ''uyyyyyyyyyyy'') chat_d3 = Inr chat_d4"
  unfolding chat_d1_def chat_d2_def chat_d3_def chat_d4_def by (rule after_step_ok, code_simp)+

lemma chat_db_inv: "ledger_inv chat_db"
  by (simp add: ledger_inv_def db_ok_def caller_tables_ok_def control_tables_ok_def usage_tables_ok_def
      ledger_ok_def evidence_complete_def sample_client_def client_ok_def credential_ok_def py_len_def
      is_continuation_byte_def chat_db_def policy_db_def auth_db_def auth_creation_def auth_binding_def binding_ok_def empty_db_def)

end
