(* ===== verification/Chat_Pool_Properties.thy ===== *)
theory Chat_Pool_Properties
  imports Chat_Protocol
begin

text \<open>
  The wait for a place in a model pool: under clock assumptions it ends within a number of
  rounds that the configuration bounds, so the bound that the model puts on the rounds is
  never what ends it.
\<close>

subsection \<open>The wait for a model pool ends\<close>

lemma call_log: "quiet m \<Longrightarrow> World.call en a m w = (r, w') \<Longrightarrow> wd_log w' = wd_log w @ [a]"
  using call_world [of en a m w] by (auto simp: quiet_def)

lemma pool_admit_log: "pool_admit en s p client k w = (r, w') \<Longrightarrow> wd_log w' = wd_log w @ [Act_pool_admit k]"
  unfolding pool_admit_def by (rule call_log [OF quiet_basic(1)])

lemma sleep_log: "World.call en Act_sleep (World.ret ()) w = (r, w') \<Longrightarrow> wd_log w' = wd_log w @ [Act_sleep]"
  by (rule call_log [OF quiet_ret])

text \<open>One round: what it leads to, and how the clock has moved when it leads to another one.\<close>

definition pool_round :: "env \<Rightarrow> chat_service \<Rightarrow> pool_policy \<Rightarrow> str \<Rightarrow> str \<Rightarrow> int \<Rightarrow> headers \<Rightarrow>
    (pool_outcome res + headers) \<times> world \<Rightarrow> world \<Rightarrow> bool" where
  "pool_round en s p client k deadline hs x w \<longleftrightarrow> (\<forall>n. pool_wait (Suc n) en s p client k deadline hs w =
     (case x of (Inl r, w') \<Rightarrow> (r, w') | (Inr hs', w') \<Rightarrow> pool_wait n en s p client k deadline hs' w'))"

lemma pool_round_exists:
  obtains (ends) r w' where "pool_round en s p client k deadline hs (Inl r, w') w" "r \<noteq> Inr Pool_unfinished"
  | (again) hs' w' where "pool_round en s p client k deadline hs (Inr hs', w') w"
      "wd_log w' = (wd_log w @ [Act_sleep]) @ [Act_pool_admit k]"
      "en_mono en (wd_log w) < deadline" "en_mono en (wd_log w @ [Act_sleep]) < deadline"
proof (cases "deadline - en_mono en (wd_log w) \<le> 0")
  case True
  then show thesis
    by (intro ends) (auto simp: pool_round_def bindp_def read_mono_def raise_api_def)
next
  case now: False
  obtain r1 w1 where 1: "World.call en Act_sleep (World.ret ()) w = (r1, w1)" by fastforce
  note l1 = sleep_log [OF 1]
  show thesis
  proof (cases r1)
    case (Inl e)
    with now 1 show thesis by (intro ends [of "Inl e" w1]) (auto simp: pool_round_def bindp_def read_mono_def)
  next
    case s1: (Inr u)
    show thesis
    proof (cases "deadline \<le> en_mono en (wd_log w1)")
      case True
      with now 1 s1 show thesis
        by (intro ends) (auto simp: pool_round_def bindp_def read_mono_def raise_api_def)
    next
      case late: False
      obtain r2 w2 where 2: "pool_admit en s p client k w1 = (r2, w2)" by fastforce
      show thesis
      proof (cases r2)
        case (Inl e)
        with now 1 s1 late 2 show thesis
          by (intro ends [of "Inl e" w2]) (auto simp: pool_round_def bindp_def read_mono_def)
      next
        case (Inr d)
        let ?hs = "headers_update hs (model_pool_limit_headers d)"
        have run: "pool_wait (Suc n) en s p client k deadline hs w =
            (if pd_status d = Admitted then (Inr (Pool_admitted ?hs), w2)
             else if pd_status d \<noteq> Queued then (Inr (Pool_refused ?hs), w2)
             else pool_wait n en s p client k deadline ?hs w2)" for n
          using now late by (simp add: bindp_def read_mono_def 1 s1 2 Inr Let_def)
        show thesis
        proof (cases "pd_status d = Queued")
          case True
          then show thesis using run now late l1 pool_admit_log [OF 2]
            by (intro again [of ?hs w2]) (simp_all add: pool_round_def)
        next
          case False
          then show thesis
            by (intro ends [of "Inr (if pd_status d = Admitted then Pool_admitted ?hs else Pool_refused ?hs)" w2])
              (simp_all add: pool_round_def run del: pool_wait.simps)
        qed
      qed
    qed
  qed
qed

lemma pool_wait_enough:
  assumes forward: "\<And>l a. en_mono en l \<le> en_mono en (l @ [a])"
    and sleeps: "\<And>l. min deadline (en_mono en l + poll) \<le> en_mono en (l @ [Act_sleep])" and "0 \<le> poll"
  shows "deadline - en_mono en (wd_log w) \<le> int n * poll \<Longrightarrow>
    fst (pool_wait (Suc n) en s p client k deadline hs w) \<noteq> Inr Pool_unfinished \<and>
    pool_wait (Suc (n + m)) en s p client k deadline hs w = pool_wait (Suc n) en s p client k deadline hs w"
proof (induction n arbitrary: hs w)
  case 0
  then show ?case by (simp add: bindp_def read_mono_def raise_api_def)
next
  case (Suc n)
  show ?case
  proof (cases rule: pool_round_exists [of en s p client k deadline hs w])
    case (ends r w')
    then show ?thesis unfolding pool_round_def by (simp del: pool_wait.simps)
  next
    case (again hs' w')
    have "en_mono en (wd_log w) + poll \<le> en_mono en (wd_log w @ [Act_sleep])" using sleeps [of "wd_log w"] again(4) by simp
    also have "\<dots> \<le> en_mono en (wd_log w')" unfolding again(2) by (rule forward)
    finally have "deadline - en_mono en (wd_log w') \<le> int n * poll" using Suc.prems by (simp add: algebra_simps)
    from Suc.IH [OF this, of hs'] again(1) show ?thesis unfolding pool_round_def by (simp del: pool_wait.simps)
  qed
qed


end
