(* ===== verification/Chat_Witnesses.thy ===== *)
theory Chat_Witnesses
  imports Chat_Sample Chat_Pool_Properties
begin

text \<open>
  The sample request, run: a plain one that is answered and settled, and a streamed one. The
  witnesses apply the properties of the chat service to these runs.
\<close>

subsection \<open>Steps of a run\<close>

lemma commit_of_step:
  "quota_step (Reserve rq u1 u2) d = Inr d' \<Longrightarrow> \<exists>x. in_tx (reserve_operation rq u1 u2) d = (Inr x, d')"
  "quota_step (Record_credit k s u now) d = Inr d' \<Longrightarrow> \<exists>x. in_tx (record_credit_reservation k s u now) d = (Inr x, d')"
  "quota_step (Record_usage k p c now) d = Inr d' \<Longrightarrow> \<exists>x. in_tx (record_provider_usage k p c now) d = (Inr x, d')"
  "quota_step (Finalize k t u) d = Inr d' \<Longrightarrow> \<exists>x. in_tx (finalize_operation k t u) d = (Inr x, d')"
  by (auto simp: drop_value_Inr in_tx_def)

definition run_at :: "db \<Rightarrow> act list \<Rightarrow> world" where
  "run_at d l = \<lparr>wd_db = d, wd_redis = wd_redis chat_w5, wd_log = wd_log chat_w5 @ l\<rparr>"

lemma at_sel [simp]: "wd_db (run_at d l) = d" "wd_log (run_at d l) = wd_log chat_w5 @ l"
  "(run_at d l)\<lparr>wd_db := d'\<rparr> = run_at d' l" "record_act a (run_at d l) = run_at d (l @ [a])"
  by (simp_all add: run_at_def record_act_def)

lemma chat_log: "wd_log chat_w5 = [Act_nonce ''nonce_nonce_nonce'', Act_policy, Act_qps, Act_pool_admit ''op'', Act_acquire ''op'']"
  by (simp add: chat_w5_def chat_w4_def chat_w3_def chat_w2_def chat_w1_def chat_conc_def pool_admit_def admit_qps_def
      claim_nonce_def World.call_def redis_do_def Let_def chat_world_def policy_caller_def split: prod.splits)

lemma chat_w5_at: "chat_w5 = run_at chat_db []"
proof -
  have "wd_db chat_w5 = chat_db"
    by (simp add: chat_w5_def chat_w4_def chat_w3_def chat_w2_def chat_w1_def chat_conc_def pool_admit_def admit_qps_def
        claim_nonce_def World.call_def redis_do_def Let_def chat_world_def split: prod.splits)
  then show ?thesis by (simp add: run_at_def)
qed

lemma call_at: "World.call chat_env a m (run_at d l) = m (run_at d (l @ [a]))"
  by (simp add: World.call_def)

lemma db_at: "in_tx body d = (Inr x, d') \<Longrightarrow> db_tx body (run_at d l) = (Inr x, run_at d' l)"
  by (simp add: db_tx_def)

definition u_name :: "act list \<Rightarrow> nat \<Rightarrow> str" where
  "u_name l n = CHR ''u'' # replicate n CHR ''x'' @ ''yyyyy'' @ map (\<lambda>_. CHR ''y'') l"

lemma uuid_at: "en_uuid chat_env (wd_log chat_w5 @ l) n = u_name l n"
  by (simp add: u_name_def chat_log chat_env_def)

lemma reserve_at:
  assumes "quota_step (Reserve rq (u_name l 0) (u_name l 1)) d = Inr d'"
  shows "reserve_quota chat_env rq (run_at d l) = (Inr (), run_at d' (l @ [Act_db [Reserve rq (u_name l 0) (u_name l 1)]]))"
  using commit_of_step(1) [OF assms]
  by (auto simp: reserve_quota_def World.at_log_def Let_def bindp_def uuid_at call_at db_at)

lemma record_at:
  assumes "quota_step (Record_credit (ad_operation ad) s u now) d = Inr d'"
  shows "record_credit chat_env ad s u now (run_at d l) = (Inr (), run_at d' (l @ [Act_db [Record_credit (ad_operation ad) s u now]]))"
  using commit_of_step(2) [OF assms] by (auto simp: record_credit_def bindp_def call_at db_at)

lemma usage_at:
  assumes "quota_step (Record_usage (ad_operation ad) (us_prompt u) (us_completion u) now) d = Inr d'"
  shows "record_usage chat_env ad u now (run_at d l) =
    (Inr (), run_at d' (l @ [Act_db [Record_usage (ad_operation ad) (us_prompt u) (us_completion u) now]]))"
  using commit_of_step(3) [OF assms] by (auto simp: record_usage_def bindp_def call_at db_at)

lemma terminalize_at:
  assumes "chat_terminal ad st oc sg code n (max 90000 (ad_started_at ad))
      (max (((5 + int (length l)) * 1000000000 - ad_started_ns ad) div 1000000) 0) = Inr t"
    and "make_terminal t = Inr t" and "quota_step (Finalize (ad_operation ad) t (u_name l 0)) d = Inr d'"
  shows "terminalize chat_env ad st oc sg code n (run_at d l) = (Inr (), run_at d' (l @ [Act_db [Finalize (ad_operation ad) t (u_name l 0)]]))"
  using commit_of_step(4) [OF assms(3)] assms(1,2)
  by (auto simp: terminalize_def bindp_def read_time_def read_mono_def read_uuid_def uuid_at call_at db_at bind_res_def
      arg_cong [OF chat_log, of length, simplified])

subsection \<open>Replies\<close>

definition chat_credit_operation :: "str \<Rightarrow> int \<Rightarrow> int \<Rightarrow> int \<Rightarrow> credit_operation" where
  "chat_credit_operation status a b n = \<lparr>co_operation_id = ''op'', co_settlement_id = ''s1'',
     co_service_user_id = ''12345678-1234-5678-1234-567812345678'', co_model_id = ''m'', co_provider = Some ''bifrost'',
     co_status = status, co_prompt = a, co_completion = b, co_total = a + b, co_charged = n, co_balance_after = None,
     co_version_after = None, co_started_at = 90000, co_completed_at = None, co_updated_at = 90000,
     co_usage_operation_id = Some ''op:usage'',
     co_account = \<lparr>ca_account_id = ''a1'', ca_service_user_id = ''12345678-1234-5678-1234-567812345678'', ca_balance = 100,
       ca_status = ''active'', ca_version = 1, ca_updated_at = 90000\<rparr>\<rparr>"

definition chat_completion_value :: chat_completion where
  "chat_completion_value = \<lparr>cc_id = ''i'', cc_created = None, cc_model = ''m'',
     cc_choices = [\<lparr>ch_index = 0, ch_role = ''assistant'', ch_content = Some ''hi'', ch_finish_reason = None\<rparr>],
     cc_usage = \<lparr>us_prompt = 1, us_completion = 2, us_total = 3\<rparr>\<rparr>"

lemma chat_replies:
  "ow_interpret chat_codec (validate_operation (cd_valid chat_codec)) (Http_reply 200 ''application/json'' [''R'']) =
    Inr (chat_credit_operation ''pending'' 0 0 0)"
  "ow_interpret chat_codec (validate_operation (cd_valid chat_codec)) (Http_reply 200 ''application/json'' [''S'']) =
    Inr (chat_credit_operation ''succeeded_charged'' 1 2 7)"
  "bf_json_reply chat_codec MAX_INFERENCE_RESPONSE_BYTES (Http_reply 200 ''application/json'' [''B'']) = Inr chat_answer"
  "bf_validate (validate_completion (cd_valid chat_codec)) chat_answer = Inr chat_completion_value"
  by code_simp+

lemma chat_bodies:
  "reserve_body (cd_valid chat_codec) ''op'' ''12345678-1234-5678-1234-567812345678'' ''m'' (Some ''bifrost'') =
    Inr [(''model_id'', JStr ''m''), (''operation_id'', JStr ''op''), (''provider'', JStr ''bifrost''),
      (''service_user_id'', JStr ''12345678-1234-5678-1234-567812345678'')]"
  "settle_body (cd_valid chat_codec) ''op'' ''12345678-1234-5678-1234-567812345678'' 1 2 =
    Inr [(''completion_tokens'', JInt 2), (''operation_id'', JStr ''op''), (''prompt_tokens'', JInt 1),
      (''service_user_id'', JStr ''12345678-1234-5678-1234-567812345678'')]"
  by code_simp+

lemma reply_at: "chat_reply (wd_log chat_w5 @ l @ [Act_openwebui path b]) =
    Http_reply 200 ''application/json'' [if path = reserve_path then ''R'' else ''S'']"
  "chat_reply (wd_log chat_w5 @ l @ [Act_bifrost v path b]) = Http_reply 200 ''application/json'' [''B'']"
  by (simp_all add: chat_reply_def)

subsection \<open>The plain run\<close>

lemma svc_sel [simp]: "cs_codec svc = chat_codec" "cs_max_output svc = 100"
  by (simp_all add: chat_sample_service_def)

lemma admission_sel [simp]: "ad_operation chat_admission = ''op''" "ad_policy chat_admission = chat_policy"
    "ad_request chat_admission = chat_sample_request False" "ad_started_at chat_admission = 90000"
    "ad_pool chat_admission = ''p1''" "ad_caller chat_admission = policy_caller" "ad_started_ns chat_admission = 0"
  by (simp_all add: chat_admission_def)

abbreviation service_user :: str where
  "service_user \<equiv> ''12345678-1234-5678-1234-567812345678''"

definition asked :: act where
  "asked = Act_openwebui reserve_path [(''model_id'', JStr ''m''), (''operation_id'', JStr ''op''),
     (''provider'', JStr ''bifrost''), (''service_user_id'', JStr service_user)]"

definition reserved :: "act list" where
  "reserved = [Act_db [Reserve chat_quota ''uyyyyy'' ''uxyyyyy''], asked, Act_db [Record_credit ''op'' ''s1'' ''op:usage'' 90000]]"

definition chat_admitted :: admission where
  "chat_admitted = chat_admission\<lparr>ad_settlement := ''s1'', ad_usage_operation := ''op:usage''\<rparr>"

lemma policy_sel [simp]: "cp_service_user_id chat_policy = service_user" "cp_max_output_tokens chat_policy = 10"
  by (simp_all add: chat_policy_def)

lemma quota_request: "chat_reserve_request chat_admission (replicate 64 CHR ''0'') False 10 = chat_quota"
  by (simp add: chat_reserve_request_def chat_quota_def chat_admission_def policy_caller_def chat_sample_request_def
      estimate_prompt_tokens_def)

lemma tokens_at: "reserve_tokens chat_env svc chat_admission (replicate 64 CHR ''0'') False (run_at chat_db []) =
    (Inr (), run_at chat_d1 [Act_db [Reserve chat_quota ''uyyyyy'' ''uxyyyyy'']])"
proof -
  have "admitted_output_tokens 10 100 (chat_sample_request False) = Inr 10"
    by (simp add: admitted_output_tokens_def chat_sample_request_def or_int_def)
  then show ?thesis
    using reserve_at [of chat_quota "[]" chat_db chat_d1] chat_steps(1)
    by (simp add: reserve_tokens_def World.except_def bindp_def quota_request u_name_def)
qed

lemma asked_at: "ow_reserve_operation chat_env chat_codec ''op'' service_user ''m'' (Some ''bifrost'') (run_at d l) =
    (Inr (chat_credit_operation ''pending'' 0 0 0), run_at d (l @ [asked]))"
  using reply_at(1) [of l reserve_path]
  by (simp add: ow_reserve_operation_def ow_request_def chat_bodies call_at http_do_def asked_def reserve_path_def chat_replies)

lemma reserved_at: "chat_reserve chat_env svc chat_admission (replicate 64 CHR ''0'') False (run_at chat_db []) =
    (Inr (Inr chat_admitted), run_at chat_d2 reserved)"
proof -
  have m: "credit_matches chat_admission (chat_credit_operation ''pending'' 0 0 0)" "cq_model (chat_sample_request False) = ''m''"
    by (simp_all add: credit_matches_def chat_credit_operation_def chat_sample_request_def usage_suffix_def)
  have u: "usage_suffix ''op'' = ''op:usage''" "co_settlement_id (chat_credit_operation ''pending'' 0 0 0) = ''s1''"
    by (simp_all add: usage_suffix_def chat_credit_operation_def)
  show ?thesis
    using record_at [of chat_admission "''s1''" "''op:usage''" 90000 chat_d1 chat_d2] chat_steps(2)
    by (simp add: chat_reserve_def bindp_def tokens_at reserve_credit_def attempt_def m u asked_at Let_def terminal_now_def
        read_time_def reserved_def chat_admitted_def)
qed

lemma admitted_sel [simp]: "ad_operation chat_admitted = ''op''" "ad_policy chat_admitted = chat_policy"
    "ad_request chat_admitted = chat_sample_request False" "ad_started_at chat_admitted = 90000"
    "ad_pool chat_admitted = ''p1''" "ad_caller chat_admitted = policy_caller" "ad_started_ns chat_admitted = 0"
  by (simp_all add: chat_admitted_def)

definition forwarded :: act where
  "forwarded = Act_bifrost ''POST'' chat_path (bifrost_payload (chat_sample_request False))"

definition settled_act :: act where
  "settled_act = Act_openwebui settle_path [(''completion_tokens'', JInt 2), (''operation_id'', JStr ''op''),
     (''prompt_tokens'', JInt 1), (''service_user_id'', JStr service_user)]"

lemma forwarded_at: "bf_forward_chat chat_env chat_codec (bifrost_payload (chat_sample_request False)) (run_at d l) =
    (Inr chat_completion_value, run_at d (l @ [forwarded]))"
  by (simp add: bf_forward_chat_def bf_request_def bindp_def call_at http_do_def reply_at chat_replies forwarded_def)

lemma settled_at: "ow_settle_operation chat_env chat_codec ''op'' service_user 1 2 (run_at d l) =
    (Inr (chat_credit_operation ''succeeded_charged'' 1 2 7), run_at d (l @ [settled_act]))"
  using reply_at(1) [of l settle_path]
  by (simp add: ow_settle_operation_def ow_request_def chat_bodies call_at http_do_def settled_act_def reserve_path_def
      settle_path_def chat_replies)

definition finished :: "int \<Rightarrow> act list \<Rightarrow> act" where
  "finished ms l = Act_db [Finalize ''op'' (chat_terminal_of ms) (u_name l 0)]"

lemma terminal_at:
  assumes "quota_step (Finalize ''op'' (chat_terminal_of (5000 + int (length l) * 1000)) (u_name l 0)) d = Inr d'"
    and "length l < 100"
  shows "terminalize chat_env chat_admitted T_completed ''success'' ''response'' ''OK'' 7 (run_at d l) =
    (Inr (), run_at d' (l @ [finished (5000 + int (length l) * 1000) l]))"
proof -
  have ms: "max (((5 + int (length l)) * 1000000000 - 0) div 1000000) 0 = 5000 + int (length l) * 1000" by simp
  have "chat_terminal chat_admitted T_completed ''success'' ''response'' ''OK'' 7 90000 (5000 + int (length l) * 1000) =
      Inr (chat_terminal_of (5000 + int (length l) * 1000))"
    by (simp add: chat_terminal_def chat_terminal_of_def chat_admitted_def chat_admission_def chat_qps_def chat_lease_def)
  moreover have "make_terminal (chat_terminal_of (5000 + int (length l) * 1000)) = Inr (chat_terminal_of (5000 + int (length l) * 1000))"
    using assms(2) by (simp add: make_terminal_def chat_terminal_of_def EVENT_OUTCOMES_def EVENT_STAGES_def py_len_def
        is_continuation_byte_def SIGNED_BIGINT_MAX_def)
  ultimately show ?thesis
    unfolding finished_def
    using terminalize_at [of chat_admitted T_completed "''success''" "''response''" "''OK''" 7 l
        "chat_terminal_of (5000 + int (length l) * 1000)" d d'] assms(1) ms by (simp only: admitted_sel max.idem)
qed

definition answered_log :: "act list" where
  "answered_log = reserved @ [forwarded, Act_db [Record_usage ''op'' 1 2 90000], settled_act]"

lemma answer_matches: "settled_matches chat_admitted \<lparr>us_prompt = 1, us_completion = 2, us_total = 3\<rparr> (chat_credit_operation ''succeeded_charged'' 1 2 7)"
    "cc_usage chat_completion_value = \<lparr>us_prompt = 1, us_completion = 2, us_total = 3\<rparr>"
    "co_charged (chat_credit_operation ''succeeded_charged'' 1 2 7) = 7"
  by (simp_all add: settled_matches_def chat_credit_operation_def chat_completion_value_def chat_admitted_def chat_admission_def
      chat_policy_def chat_sample_request_def)

lemma body_at: "execute_body chat_env svc chat_admission (replicate 64 CHR ''0'') (run_at chat_db []) =
    (Inr (Inr chat_completion_value), run_at chat_d4 (answered_log @ [finished 11000 answered_log]))"
proof -
  have l: "answered_log = (reserved @ [forwarded, Act_db [Record_usage ''op'' 1 2 90000]]) @ [settled_act]"
    "5000 + int (length answered_log) * 1000 = 11000" "u_name answered_log 0 = ''uyyyyyyyyyyy''"
    "length answered_log < 100"
    by (simp_all add: answered_log_def reserved_def u_name_def)
  have u: "record_usage chat_env chat_admitted \<lparr>us_prompt = 1, us_completion = 2, us_total = 3\<rparr> 90000 (run_at chat_d2 (reserved @ [forwarded])) =
      (Inr (), run_at chat_d3 (reserved @ [forwarded, Act_db [Record_usage ''op'' 1 2 90000]]))"
    using usage_at [of chat_admitted "\<lparr>us_prompt = 1, us_completion = 2, us_total = 3\<rparr>" 90000 chat_d2 chat_d3] chat_steps(3) by simp
  have t: "terminalize chat_env chat_admitted T_completed ''success'' ''response'' ''OK'' 7
      (run_at chat_d3 (reserved @ [forwarded, Act_db [Record_usage ''op'' 1 2 90000], settled_act])) =
      (Inr (), run_at chat_d4 (answered_log @ [finished 11000 answered_log]))"
    using terminal_at [of answered_log chat_d3 chat_d4] chat_steps(4) l(2,3,4) by (simp add: l(1))
  show ?thesis
    by (simp add: execute_body_def bindp_def reserved_at call_provider_def attempt_def forwarded_at settle_response_def
        terminal_now_def read_time_def answer_matches u World.except_def settled_at t)
qed

definition chat_run :: "(chat_completion \<times> headers) res \<times> world" where
  "chat_run = execute chat_env svc (chat_sample_request False) policy_caller ''srv1'' (replicate 64 CHR ''0'') chat_world"

lemma chat_keys: "\<exists>ck pk m. lease_key_and_member (cs_sha svc) ''concurrency'' ''c1'' ''op'' = Inr (ck, m) \<and> active_key (cs_sha svc) ''p1'' = Inr pk"
proof -
  have "is_ok (lease_key_and_member (cs_sha svc) ''concurrency'' ''c1'' ''op'')" "is_ok (active_key (cs_sha svc) ''p1'')"
    by code_simp+
  then show ?thesis by (auto simp: is_ok_def split: sum.splits)
qed

lemma release_one_log:
  "quiet m \<Longrightarrow> release_one (World.call en a m) w = (r, w') \<Longrightarrow> wd_log w' = wd_log w @ [a]"
  by (auto simp: release_one_def World.except_def bindp_def dest: call_log split: prod.splits sum.splits if_splits)

lemma release_log:
  assumes "release_active_leases en s client pool k w = (r, w')"
  shows "is_ok r \<Longrightarrow> wd_log w' = wd_log w @ [Act_release k, Act_pool_release k]"
proof -
  let ?a = "release_one (World.call en (Act_release k) (redis_do en (\<lambda>l now. conc_release (cs_sha s) l now client k)))"
  obtain r1 w1 where 1: "?a w = (r1, w1)" by fastforce
  note l1 = release_one_log [OF quiet_basic(1) 1]
  obtain r2 w2 where 2: "release_one (pool_free en s pool k) w1 = (r2, w2)" by fastforce
  note l2 = release_one_log [OF quiet_basic(1) 2 [unfolded pool_free_def]]
  from assms 1 2 l1 l2 show "is_ok r \<Longrightarrow> wd_log w' = wd_log w @ [Act_release k, Act_pool_release k]"
    by (auto simp: release_active_leases_def bindp_def is_ok_def split: sum.splits)
qed

lemma chat_run_ok: "\<exists>w. chat_run = (Inr (chat_completion_value, chat_headers), w) \<and> wd_db w = chat_d4 \<and>
    wd_log w = wd_log chat_w5 @ answered_log @ [finished 11000 answered_log, Act_release ''op'', Act_pool_release ''op'']"
proof -
  let ?w = "run_at chat_d4 (answered_log @ [finished 11000 answered_log])"
  obtain w where w: "release_active_leases chat_env svc ''c1'' ''p1'' ''op'' ?w = (Inr True, w)"
  proof -
    obtain ck pk m where k: "lease_key_and_member (cs_sha svc) ''concurrency'' ''c1'' ''op'' = Inr (ck, m)"
      "active_key (cs_sha svc) ''p1'' = Inr pk" using chat_keys by blast
    from release_active_up [OF chat_env_sel(2,1) k, of ?w] that show thesis by blast
  qed
  have "wd_log w = wd_log ?w @ [Act_release ''op'', Act_pool_release ''op'']"
    using release_log [OF w] by (simp add: is_ok_def)
  moreover have "wd_db w = chat_d4"
    using same_db_run [OF release_same_db w] by simp
  moreover have "chat_run = (Inr (chat_completion_value, chat_headers), w)"
  proof -
    have h: "ad_headers chat_admission = chat_headers" "au_api_client_id policy_caller = ''c1''" "require_non_streaming (chat_sample_request False) = Inr ()"
      by (simp_all add: chat_admission_def policy_caller_def require_non_streaming_def chat_sample_request_def)
    show ?thesis
      by (simp add: chat_run_def execute_def bindp_def World.except_def h chat_entered chat_w5_at body_at attempt_def release_after_def w
          bind_res_def)
  qed
  ultimately show ?thesis by auto
qed

subsection \<open>Witnesses for the plain request\<close>

lemma chat_world_log [simp]: "wd_log chat_world = []" "wd_db chat_world = chat_db"
  by (simp_all add: chat_world_def)



lemma answer_is_settled_witness:
  "\<exists>charged_micro. settled ''op'' \<lparr>us_prompt = 1, us_completion = 2, us_total = 3\<rparr> charged_micro (wd_db (snd chat_run))"
proof -
  obtain w where w: "chat_run = (Inr (chat_completion_value, chat_headers), w)" using chat_run_ok by blast
  from answer_is_settled [OF w [unfolded chat_run_def] refl] show ?thesis
    by (auto simp: w answer_matches(2))
qed

lemma leases_released_witness:
  "\<exists>ck pk m. lease_key_and_member (cs_sha svc) ''concurrency'' ''c1'' ''op'' = Inr (ck, m) \<and>
     active_key (cs_sha svc) ''p1'' = Inr pk \<and> free_of ck m (wd_redis (snd chat_run)) \<and> free_of pk m (wd_redis (snd chat_run))"
proof -
  have ad: "au_api_client_id policy_caller = ''c1''" "\<not> cq_stream (chat_sample_request False)"
    by (simp_all add: policy_caller_def chat_sample_request_def)
  obtain ck pk m where k: "lease_key_and_member (cs_sha svc) ''concurrency'' (ad_client chat_admission) (ad_operation chat_admission) = Inr (ck, m)"
    "active_key (cs_sha svc) (ad_pool chat_admission) = Inr pk" using chat_keys by (auto simp: ad)
  obtain r w where run: "execute chat_env svc (chat_sample_request False) policy_caller ''srv1'' (replicate 64 CHR ''0'') chat_world = (r, w)"
    by fastforce
  have "free_of ck m (wd_redis w) \<and> free_of pk m (wd_redis w)"
    by (rule leases_released [OF chat_env_sel(2,1) k disjI1]) (use ad(2) chat_entered run in blast)
  with k ad show ?thesis by (auto simp: chat_run_def run)
qed

lemma chat_keeps_ledger_witness: "ledger_inv (wd_db (snd chat_run)) \<and> map op_id (db_operations (wd_db (snd chat_run))) = [''op'']"
proof
  have "ledger_inv (wd_db chat_world)" using chat_db_inv by simp
  from chat_keeps_ledger [OF this] show "ledger_inv (wd_db (snd chat_run))" unfolding chat_run_def by blast
  have "map op_id (db_operations chat_d4) = [''op'']" by code_simp
  moreover have "wd_db (snd chat_run) = chat_d4" using chat_run_ok by (metis snd_conv)
  ultimately show "map op_id (db_operations (wd_db (snd chat_run))) = [''op'']" by metis
qed


subsection \<open>The streamed run\<close>

definition stream_chunk :: str where
  "stream_chunk = ''data: C'' @ [nl, nl] @ ''data: [DONE]'' @ [nl, nl]"

definition stream_run :: "unit res \<times> world" where
  "stream_run = stream_response chat_env svc chat_admitted (Opened 200 ''text/event-stream'')
     [Wait_done False (Delivery_chunk stream_chunk)] (run_at chat_d2 reserved)"

definition stream_log :: "act list" where
  "stream_log = reserved @ [Act_bifrost ''POST'' chat_path (stream_payload (bifrost_payload (chat_sample_request False))),
     Act_yield (data_frame ''C''), Act_db [Record_usage ''op'' 1 2 90000], settled_act]"

definition stream_db :: db where
  "stream_db = after_step (Finalize ''op'' (chat_terminal_of 12000) ''uyyyyyyyyyyyy'') chat_d3"

lemma stream_step: "quota_step (Finalize ''op'' (chat_terminal_of 12000) ''uyyyyyyyyyyyy'') chat_d3 = Inr stream_db"
  unfolding stream_db_def by (rule after_step_ok) code_simp

definition stream_decoder :: decoder where
  "stream_decoder = new_decoder\<lparr>dc_usage := Some \<lparr>us_prompt = 1, us_completion = 2, us_total = 3\<rparr>, dc_done := True\<rparr>"

lemma stream_feed: "feed chat_loads (coerce_usage (cd_valid chat_codec)) new_decoder stream_chunk =
    Inr (stream_decoder, [data_frame ''C'', SSE_DONE])"
  by code_simp

lemma yield_at: "yield_frame chat_env frame (run_at d l) = (Inr (), run_at d (l @ [Act_yield frame]))"
  by (simp add: yield_frame_def call_at)

lemma commit_at: "commit_stream chat_env svc chat_admitted (Some \<lparr>us_prompt = 1, us_completion = 2, us_total = 3\<rparr>)
     (run_at chat_d2 (reserved @ [Act_bifrost ''POST'' chat_path (stream_payload (bifrost_payload (chat_sample_request False))),
       Act_yield (data_frame ''C'')])) = (Inr (), run_at stream_db (stream_log @ [finished 12000 stream_log]))"
proof -
  let ?l = "reserved @ [Act_bifrost ''POST'' chat_path (stream_payload (bifrost_payload (chat_sample_request False))),
       Act_yield (data_frame ''C'')]"
  have l: "5000 + int (length stream_log) * 1000 = 12000" "u_name stream_log 0 = ''uyyyyyyyyyyyy''" "length stream_log < 100"
    by (simp_all add: stream_log_def reserved_def u_name_def)
  have u: "record_usage chat_env chat_admitted \<lparr>us_prompt = 1, us_completion = 2, us_total = 3\<rparr> 90000 (run_at chat_d2 ?l) =
      (Inr (), run_at chat_d3 (?l @ [Act_db [Record_usage ''op'' 1 2 90000]]))"
    using usage_at [of chat_admitted "\<lparr>us_prompt = 1, us_completion = 2, us_total = 3\<rparr>" 90000 chat_d2 chat_d3 ?l] chat_steps(3) by simp
  have t: "terminalize chat_env chat_admitted T_completed ''success'' ''response'' ''OK'' 7 (run_at chat_d3 stream_log) =
      (Inr (), run_at stream_db (stream_log @ [finished 12000 stream_log]))"
    using terminal_at [of stream_log chat_d3 stream_db] stream_step l by simp
  have s: "settle_stream chat_env svc chat_admitted \<lparr>us_prompt = 1, us_completion = 2, us_total = 3\<rparr> (run_at chat_d2 ?l) =
      (Inr 7, run_at chat_d3 stream_log)"
    using answer_matches by (simp add: settle_stream_def bindp_def terminal_now_def read_time_def u [simplified] settled_at stream_log_def)
  show ?thesis using s t by (simp add: commit_stream_def bindp_def)
qed

lemma stream_run_log: "\<exists>r w l. stream_run = (r, w) \<and> wd_log w = wd_log (run_at chat_d2 reserved) @ l \<and> Act_yield SSE_DONE \<in> set l"
proof -
  let ?answer = "Opened 200 ''text/event-stream''" and ?g = "Running (int (length stream_chunk))"
  let ?w = "run_at stream_db (stream_log @ [finished 12000 stream_log, Act_yield SSE_DONE])"
  have n: "stream_next (Not_started ?answer) (Delivery_chunk stream_chunk) = Inr (Some stream_chunk, ?g)"
    by code_simp
  have "data_frame ''C'' \<noteq> SSE_DONE" by (simp add: data_frame_def SSE_DONE_def)
  then have f: "send_frames chat_env svc chat_admitted (Some \<lparr>us_prompt = 1, us_completion = 2, us_total = 3\<rparr>) [data_frame ''C'', SSE_DONE]
      (run_at chat_d2 (reserved @ [Act_bifrost ''POST'' chat_path (stream_payload (bifrost_payload (chat_sample_request False)))])) =
      (Some \<lparr>le_usage = Some \<lparr>us_prompt = 1, us_completion = 2, us_total = 3\<rparr>, le_pending = False, le_committed = True, le_result = Inr ()\<rparr>, ?w)"
    using commit_at by (simp add: yield_at)
  have l: "stream_loop chat_env svc chat_admitted (Not_started ?answer) new_decoder [Wait_done False (Delivery_chunk stream_chunk)]
      (run_at chat_d2 (reserved @ [Act_bifrost ''POST'' chat_path (stream_payload (bifrost_payload (chat_sample_request False)))])) =
      (\<lparr>le_usage = Some \<lparr>us_prompt = 1, us_completion = 2, us_total = 3\<rparr>, le_pending = False, le_committed = True, le_result = Inr ()\<rparr>, ?w)"
    using f n stream_feed by (simp add: chat_codec_def stream_decoder_def del: send_frames.simps)
  obtain w where w: "release_active_leases chat_env svc ''c1'' ''p1'' ''op'' (record_act Act_close ?w) = (Inr True, w)"
  proof -
    obtain ck pk m where k: "lease_key_and_member (cs_sha svc) ''concurrency'' ''c1'' ''op'' = Inr (ck, m)"
      "active_key (cs_sha svc) ''p1'' = Inr pk" using chat_keys by blast
    from release_active_up [OF chat_env_sel(2,1) k, of "record_act Act_close ?w"] that show thesis by blast
  qed
  have "clean_stream chat_env svc chat_admitted False True ?w = (Inr (), w)"
    using w by (simp add: clean_stream_def bindp_def finally_do_def close_upstream_def World.except_def call_at policy_caller_def)
  then have "stream_run = (Inr (), w)"
    using l by (simp add: stream_run_def stream_response_def Let_def handle_stream_def)
  moreover have "wd_log w = wd_log (run_at chat_d2 reserved) @ drop (length reserved) (stream_log @ [finished 12000 stream_log, Act_yield SSE_DONE,
      Act_close, Act_release ''op'', Act_pool_release ''op''])"
    using release_log [OF w] by (simp add: is_ok_def stream_log_def)
  moreover have "Act_yield SSE_DONE \<in> set (drop (length reserved) (stream_log @ [finished 12000 stream_log, Act_yield SSE_DONE,
      Act_close, Act_release ''op'', Act_pool_release ''op'']))"
    by (simp add: stream_log_def)
  ultimately show ?thesis by blast
qed


end
