(* ===== verification/Outbox.thy ===== *)
theory Outbox
  imports Bifrost
begin

text \<open>
  The outbox: changes of a caller's upstream key are queued with the change of its binding, and
  a worker carries them out. The queue and the check of its payloads,
  \<open>backend/app/models/outbox.py\<close>; what is queued, \<open>backend/app/integrations/bifrost/binding_service.py\<close>;
  the worker, \<open>backend/app/workers/outbox.py\<close>.
\<close>

subsection \<open>Payloads\<close>

definition SENSITIVE_PAYLOAD_FRAGMENTS :: "str list" where
  "SENSITIVE_PAYLOAD_FRAGMENTS = [''answer'', ''authorization'', ''bifrostvalue'', ''ciphertext'', ''nonce'', ''prompt'',
     ''rawbody'', ''rawrequest'', ''rawresponse'', ''secret'', ''signature'', ''upstreamerror'', ''xbfvk'']"

text \<open>\<open>uni\<close> is the Unicode table of the runtime: the lower-case form
  of a code point outside ASCII when it is alphanumeric, nothing otherwise.\<close>

definition plain_key :: "(str \<Rightarrow> str) \<Rightarrow> str \<Rightarrow> str" where
  "plain_key uni key = concat (map (\<lambda>p. case p of [c] \<Rightarrow> (if is_alnum c then [lower_char c] else []) | _ \<Rightarrow> uni p)
     (code_points key))"

definition sensitive_key :: "(str \<Rightarrow> str) \<Rightarrow> str \<Rightarrow> bool" where
  "sensitive_key uni key = list_ex (\<lambda>fragment. contains fragment (plain_key uni key)) SENSITIVE_PAYLOAD_FRAGMENTS"

fun payload_contains_sensitive_key :: "(str \<Rightarrow> str) \<Rightarrow> json \<Rightarrow> bool" where
  "payload_contains_sensitive_key uni (JObj pairs) =
     list_ex (\<lambda>p. sensitive_key uni (fst p) \<or> payload_contains_sensitive_key uni (snd p)) pairs"
| "payload_contains_sensitive_key uni (JList items) = list_ex (payload_contains_sensitive_key uni) items"
| "payload_contains_sensitive_key uni _ = False"

record outbox_payload =
  pl_config_hash :: str
  pl_binding_version :: int
  pl_desired :: "key_spec option"

definition payload_ok :: "outbox_payload \<Rightarrow> bool" where
  "payload_ok p \<longleftrightarrow> 1 \<le> py_len (pl_config_hash p) \<and> py_len (pl_config_hash p) \<le> 128 \<and> 0 < pl_binding_version p"

definition validate_payload :: "validation \<Rightarrow> json \<Rightarrow> outbox_payload option" where
  "validate_payload vd = obj (\<lambda>p.
    (case (plain_text ''config_hash'' p, int_field vd (\<lambda>_. True) ''binding_version'' p,
           case field ''desired'' p of None \<Rightarrow> Some None | Some JNull \<Rightarrow> Some None
             | Some j \<Rightarrow> map_option Some (validate_key_spec vd j)) of
       (Some h, Some n, Some s) \<Rightarrow>
         let x = \<lparr>pl_config_hash = h, pl_binding_version = n, pl_desired = s\<rparr> in
         if forbid_extra [''config_hash'', ''binding_version'', ''desired''] p \<and> payload_ok x then Some x else None
     | _ \<Rightarrow> None))"

definition spec_json :: "key_spec \<Rightarrow> json" where
  "spec_json s = JObj [(''name'', JStr (ks_name s)), (''description'', JStr (ks_description s)),
     (''provider'', JStr (ks_provider s)), (''model'', JStr (ks_model s)),
     (''provider_key_ids'', JList (map JStr (ks_key_ids s)))]"

definition payload_json :: "outbox_payload \<Rightarrow> json" where
  "payload_json p = JObj ([(''config_hash'', JStr (pl_config_hash p)), (''binding_version'', JInt (pl_binding_version p))] @
     (case pl_desired p of None \<Rightarrow> [] | Some s \<Rightarrow> [(''desired'', spec_json s)]))"

subsection \<open>The queue\<close>

definition binding_queued :: "str \<Rightarrow> int \<Rightarrow> binding \<Rightarrow> binding" where
  "binding_queued config_hash now b = b\<lparr>bd_config_hash := config_hash, bd_sync_status := Sync_pending, bd_last_error := None,
     bd_version := bd_version b + 1, bd_updated_at := now\<rparr>"

definition new_item :: "str \<Rightarrow> str \<Rightarrow> outbox_target \<Rightarrow> outbox_action \<Rightarrow> str \<Rightarrow> json \<Rightarrow> int \<Rightarrow> outbox_item" where
  "new_item uuid binding_id target action idempotency_key payload now =
    \<lparr>ob_id = uuid, ob_aggregate_type = ''api_client_binding'', ob_aggregate_id = binding_id, ob_target = target, ob_action = action,
     ob_idempotency_key = idempotency_key, ob_payload = payload, ob_status = Ob_pending, ob_attempts = 0, ob_available_at = now,
     ob_locked_at = None, ob_completed_at = None, ob_last_error = None, ob_created_at = now, ob_updated_at = now\<rparr>"

text \<open>Targets and actions are values of their types here; the check for unknown ones is not
  needed.\<close>

definition queue_binding_sync :: "(str \<Rightarrow> str) \<Rightarrow> str \<Rightarrow> str \<Rightarrow> str \<Rightarrow> outbox_target \<Rightarrow> outbox_action \<Rightarrow> str \<Rightarrow> json \<Rightarrow>
    int \<Rightarrow> outbox_item tx" where
  "queue_binding_sync uni uuid binding_id config_hash target action idempotency_key payload now d =
    (if payload_contains_sensitive_key uni payload then Inl (ValueError ''outbox payload contains a sensitive key'')
     else let item = new_item uuid binding_id target action idempotency_key payload now in
       Inr (item, d\<lparr>db_bindings := update_row bd_id binding_id (binding_queued config_hash now) (db_bindings d),
                    db_outbox := db_outbox d @ [item]\<rparr>))"

definition desired_config_hash :: "(str \<Rightarrow> str) \<Rightarrow> (json \<Rightarrow> str) \<Rightarrow> key_spec \<Rightarrow> str" where
  "desired_config_hash sha dumps s = sha (dumps (JObj (create_payload s)))"

definition make_payload :: "str \<Rightarrow> int \<Rightarrow> key_spec option \<Rightarrow> outbox_payload res" where
  "make_payload config_hash binding_version desired =
    (let p = \<lparr>pl_config_hash = config_hash, pl_binding_version = binding_version, pl_desired = desired\<rparr> in
     if payload_ok p then Inr p else Inl (ValueError ''outbox payload''))"

definition stage_bifrost_binding_sync :: "(str \<Rightarrow> str) \<Rightarrow> (str \<Rightarrow> str) \<Rightarrow> (json \<Rightarrow> str) \<Rightarrow> str \<Rightarrow> binding \<Rightarrow> key_spec \<Rightarrow>
    outbox_action \<Rightarrow> str \<Rightarrow> int \<Rightarrow> outbox_item tx" where
  "stage_bifrost_binding_sync uni sha dumps uuid b s action idempotency_key now d =
    (if action \<notin> {Act_create, Act_update} then Inl (ValueError ''unsupported Bifrost binding action'')
     else if action = Act_create \<and> bd_virtual_key_id b \<noteq> None then Inl (ValueError ''Bifrost binding already exists'')
     else if action = Act_update \<and> bd_virtual_key_id b = None then Inl (ValueError ''Bifrost binding does not exist'')
     else let config_hash = desired_config_hash sha dumps s in
       bind_res (make_payload config_hash (bd_version b + 1) (Some s)) (\<lambda>p.
         queue_binding_sync uni uuid (bd_id b) config_hash Target_bifrost action idempotency_key (payload_json p) now d))"

definition client_disabled :: "str \<Rightarrow> int \<Rightarrow> api_client \<Rightarrow> api_client" where
  "client_disabled actor_id now c = c\<lparr>ac_status := Client_disabled, ac_disabled_at := Some now, ac_updated_at := now,
     ac_updated_by := actor_id, ac_version := ac_version c + 1\<rparr>"

definition credential_revoked :: "str \<Rightarrow> int \<Rightarrow> credential \<Rightarrow> credential" where
  "credential_revoked actor_id now c =
    (if cr_status c = Cred_active
     then c\<lparr>cr_status := Cred_revoked, cr_revoked_by := Some actor_id, cr_revoked_at := Some now\<rparr> else c)"

definition stage_local_client_disable :: "(str \<Rightarrow> str) \<Rightarrow> str \<Rightarrow> api_client \<Rightarrow> binding \<Rightarrow> str \<Rightarrow> str \<Rightarrow> int \<Rightarrow>
    outbox_item tx" where
  "stage_local_client_disable uni uuid c b actor_id idempotency_key now d =
    (let d1 = d\<lparr>db_clients := update_row ac_id (ac_id c) (client_disabled actor_id now) (db_clients d),
          db_credentials := update_row cr_client (ac_id c) (credential_revoked actor_id now) (db_credentials d)\<rparr> in
     bind_res (make_payload (bd_config_hash b) (bd_version b + 1) None) (\<lambda>p.
       queue_binding_sync uni uuid (bd_id b) (bd_config_hash b) Target_bifrost Act_disable idempotency_key (payload_json p) now d1))"

subsection \<open>The worker\<close>

text \<open>The bounds of the worker and what it is given: the key ring, the JSON reader and validation,
  the writer of an envelope and the random nonces.\<close>

record outbox_worker =
  ww_max_attempts :: int
  ww_base_retry :: int
  ww_max_retry :: int
  ww_claim_timeout :: int
  ww_batch_size :: nat
  ww_crypto :: crypto
  ww_keyring :: keyring
  ww_codec :: codec
  ww_write_envelope :: "str \<Rightarrow> str \<Rightarrow> str"
  ww_nonce :: "act list \<Rightarrow> str"

definition check_outbox_worker :: "outbox_worker \<Rightarrow> unit res" where
  "check_outbox_worker ww =
    (if \<not> (1 \<le> ww_max_attempts ww \<and> ww_max_attempts ww \<le> 100) \<or> \<not> (1 \<le> ww_batch_size ww \<and> ww_batch_size ww \<le> 100) \<or>
        ww_base_retry ww < 1 \<or> ww_max_retry ww < ww_base_retry ww \<or> ww_claim_timeout ww < 1
       then Inl (ValueError ''outbox worker bounds are invalid'') else Inr ())"

definition claimable :: "outbox_worker \<Rightarrow> int \<Rightarrow> outbox_item \<Rightarrow> bool" where
  "claimable ww now i \<longleftrightarrow> ob_target i = Target_bifrost \<and> ob_attempts i < ww_max_attempts ww \<and>
     (ob_status i \<in> {Ob_pending, Ob_failed} \<and> ob_available_at i \<le> now \<or>
      ob_status i = Ob_processing \<and> (case ob_locked_at i of None \<Rightarrow> False | Some t \<Rightarrow> t \<le> now - ww_claim_timeout ww))"

definition claimed_item :: "int \<Rightarrow> outbox_item \<Rightarrow> outbox_item" where
  "claimed_item now i = i\<lparr>ob_status := Ob_processing, ob_attempts := ob_attempts i + 1, ob_locked_at := Some now,
     ob_updated_at := now\<rparr>"

definition claim_ids :: "outbox_worker \<Rightarrow> int \<Rightarrow> db \<Rightarrow> str list" where
  "claim_ids ww now d = map ob_id (take (ww_batch_size ww)
     (sort_key (\<lambda>i. (ob_available_at i, ob_id i)) (filter (claimable ww now) (db_outbox d))))"

definition outbox_claim :: "outbox_worker \<Rightarrow> int \<Rightarrow> str list tx" where
  "outbox_claim ww now d = (let ids = claim_ids ww now d in
     Inr (ids, d\<lparr>db_outbox := map (\<lambda>i. if ob_id i \<in> set ids then claimed_item now i else i) (db_outbox d)\<rparr>))"

definition outbox_load :: "outbox_worker \<Rightarrow> str \<Rightarrow> db \<Rightarrow> (outbox_action \<times> binding \<times> outbox_payload) res" where
  "outbox_load ww item_id d = (case find_row ob_id item_id (db_outbox d) of
     None \<Rightarrow> Inl (ValueError ''outbox item is not claimable'')
   | Some i \<Rightarrow>
       if ob_status i \<noteq> Ob_processing \<or> ob_target i \<noteq> Target_bifrost then Inl (ValueError ''outbox item is not claimable'')
       else (case find_row bd_id (ob_aggregate_id i) (db_bindings d) of
           None \<Rightarrow> Inl (ValueError ''outbox binding is unavailable'')
         | Some b \<Rightarrow>
             if ob_aggregate_type i \<noteq> ''api_client_binding'' then Inl (ValueError ''outbox binding is unavailable'')
             else (case validate_payload (cd_valid (ww_codec ww)) (ob_payload i) of
                 None \<Rightarrow> Inl (ValueError ''outbox payload'') | Some p \<Rightarrow> Inr (ob_action i, b, p))))"

datatype outbox_result = Nothing_done | Key_state key_state | Key_created key_state str

definition verify_desired :: "key_state \<Rightarrow> key_spec \<Rightarrow> unit res" where
  "verify_desired st s =
    (if kt_name st \<noteq> ks_name s \<or> kt_provider st \<noteq> ks_provider s \<or> kt_model st \<noteq> ks_model s \<or> \<not> kt_active st
       then Inl protocol_error else Inr ())"

definition execute_disable :: "env \<Rightarrow> codec \<Rightarrow> binding \<Rightarrow> outbox_result prog" where
  "execute_disable en cd b = (case bd_virtual_key_id b of
     None \<Rightarrow> ret Nothing_done
   | Some k \<Rightarrow>
       bindp (except (bindp (bf_disable_virtual_key en cd k) (\<lambda>st. ret (Some st)))
           (\<lambda>e. if not_found e then ret None else raise e)) (\<lambda>r. case r of
         None \<Rightarrow> ret Nothing_done
       | Some st \<Rightarrow> if kt_active st then raise protocol_error else ret (Key_state st)))"

definition execute_create :: "env \<Rightarrow> codec \<Rightarrow> binding \<Rightarrow> key_spec \<Rightarrow> outbox_result prog" where
  "execute_create en cd b s =
    bindp (if filled (bd_virtual_key_id b) then bf_get_virtual_key_material en cd (the (bd_virtual_key_id b))
           else bindp (bf_find_virtual_key en cd (ks_name s)) (\<lambda>existing. case existing of
                  Some m \<Rightarrow> ret m | None \<Rightarrow> bf_create_virtual_key en cd s)) (\<lambda>(st, v).
    bindp (of_res (verify_desired st s)) (\<lambda>_. ret (Key_created st v)))"

definition execute_update :: "env \<Rightarrow> codec \<Rightarrow> str \<Rightarrow> key_spec \<Rightarrow> outbox_result prog" where
  "execute_update en cd k s =
    bindp (bf_update_virtual_key en cd k s) (\<lambda>st. bindp (of_res (verify_desired st s)) (\<lambda>_. ret (Key_state st)))"

definition outbox_execute :: "env \<Rightarrow> codec \<Rightarrow> outbox_action \<Rightarrow> binding \<Rightarrow> outbox_payload \<Rightarrow> outbox_result prog" where
  "outbox_execute en cd action b p =
    (if action = Act_disable then execute_disable en cd b
     else case pl_desired p of
       None \<Rightarrow> raise (ValueError ''Bifrost desired configuration is missing'')
     | Some s \<Rightarrow>
         if action = Act_create then execute_create en cd b s
         else if action = Act_update \<and> filled (bd_virtual_key_id b) then execute_update en cd (the (bd_virtual_key_id b)) s
         else raise (ValueError ''unsupported Bifrost outbox action''))"

definition set_item :: "str \<Rightarrow> (outbox_item \<Rightarrow> outbox_item) \<Rightarrow> db \<Rightarrow> db" where
  "set_item k f d = d\<lparr>db_outbox := update_row ob_id k f (db_outbox d)\<rparr>"

definition set_binding :: "str \<Rightarrow> (binding \<Rightarrow> binding) \<Rightarrow> db \<Rightarrow> db" where
  "set_binding k f d = d\<lparr>db_bindings := update_row bd_id k f (db_bindings d)\<rparr>"

text \<open>The binding after a completed item.\<close>

definition synced :: "sync_status \<Rightarrow> int \<Rightarrow> binding \<Rightarrow> binding" where
  "synced status now b = b\<lparr>bd_sync_status := (if binding_remote_fields_complete b then status else Sync_pending),
     bd_last_error := None, bd_updated_at := now\<rparr>"

definition completed_binding :: "outbox_worker \<Rightarrow> str \<Rightarrow> outbox_action \<Rightarrow> outbox_result \<Rightarrow> outbox_payload \<Rightarrow> int \<Rightarrow> binding \<Rightarrow>
    binding res" where
  "completed_binding ww nonce action result p now b =
    bind_res (case result of
        Key_created st v \<Rightarrow> persist_created_binding (ww_crypto ww) (ww_write_envelope ww) (ww_keyring ww) nonce now
          \<lparr>vk_id = kt_id st, vk_active = kt_active st, vk_value = Some v\<rparr> b
      | _ \<Rightarrow> Inr (synced (if action = Act_disable then Sync_disabled else Sync_active) now b)) (\<lambda>b'.
      Inr (if bd_version b' \<noteq> pl_binding_version p then b'\<lparr>bd_sync_status := Sync_pending\<rparr> else b'))"

definition completed_item :: "int \<Rightarrow> outbox_item \<Rightarrow> outbox_item" where
  "completed_item now i = i\<lparr>ob_status := Ob_completed, ob_completed_at := Some now, ob_locked_at := None,
     ob_last_error := None, ob_updated_at := now\<rparr>"

definition outbox_complete :: "outbox_worker \<Rightarrow> str \<Rightarrow> str \<Rightarrow> outbox_result \<Rightarrow> int \<Rightarrow> unit tx" where
  "outbox_complete ww nonce item_id result now d = (case find_row ob_id item_id (db_outbox d) of
     None \<Rightarrow> Inr ((), d)
   | Some i \<Rightarrow>
       if ob_status i \<noteq> Ob_processing then Inr ((), d)
       else (case find_row bd_id (ob_aggregate_id i) (db_bindings d) of
           None \<Rightarrow> Inl (ValueError ''outbox binding is unavailable'')
         | Some b \<Rightarrow> (case validate_payload (cd_valid (ww_codec ww)) (ob_payload i) of
             None \<Rightarrow> Inl (ValueError ''outbox payload'')
           | Some p \<Rightarrow> bind_res (completed_binding ww nonce (ob_action i) result p now b) (\<lambda>b'.
               Inr ((), set_item item_id (completed_item now) (set_binding (bd_id b) (\<lambda>_. b') d))))))"

text \<open>Failure. The delay grows with the number of attempts, which is at least one for an item that
  has been claimed. A version in the payload is compared as Python compares numbers: \<open>True\<close>
  and \<open>1.0\<close> are equal to one.\<close>

definition retry_delay :: "outbox_worker \<Rightarrow> int \<Rightarrow> int" where
  "retry_delay ww attempts = min (ww_base_retry ww * 2 ^ nat (attempts - 1)) (ww_max_retry ww)"

definition failed_item :: "outbox_worker \<Rightarrow> str \<Rightarrow> bool \<Rightarrow> int \<Rightarrow> outbox_item \<Rightarrow> outbox_item" where
  "failed_item ww code retryable now i =
    (let i' = i\<lparr>ob_status := Ob_failed, ob_locked_at := None, ob_last_error := Some (py_take 64 code), ob_updated_at := now\<rparr> in
     if retryable then i'\<lparr>ob_available_at := now + retry_delay ww (ob_attempts i)\<rparr>
     else i'\<lparr>ob_attempts := ww_max_attempts ww, ob_available_at := now\<rparr>)"

definition json_is_int :: "validation \<Rightarrow> int \<Rightarrow> json option \<Rightarrow> bool" where
  "json_is_int vd n v = (case v of
     Some (JInt m) \<Rightarrow> m = n
   | Some (JBool b) \<Rightarrow> n = (if b then 1 else 0)
   | Some (JFloat f) \<Rightarrow> (case vd_float vd (JFloat f) of Some (q, _) \<Rightarrow> q = of_int n | None \<Rightarrow> False)
   | _ \<Rightarrow> False)"

definition payload_version :: "json \<Rightarrow> json option" where
  "payload_version v = (case v of JObj p \<Rightarrow> field ''binding_version'' p | _ \<Rightarrow> None)"

definition failed_binding :: "validation \<Rightarrow> json \<Rightarrow> str \<Rightarrow> int \<Rightarrow> binding \<Rightarrow> binding" where
  "failed_binding vd payload code now b =
    (if json_is_int vd (bd_version b) (payload_version payload)
     then b\<lparr>bd_sync_status := Sync_error, bd_last_error := Some (py_take 64 code), bd_updated_at := now\<rparr> else b)"

definition outbox_fail :: "outbox_worker \<Rightarrow> str \<Rightarrow> str \<Rightarrow> bool \<Rightarrow> int \<Rightarrow> unit tx" where
  "outbox_fail ww item_id code retryable now d = (case find_row ob_id item_id (db_outbox d) of
     None \<Rightarrow> Inr ((), d)
   | Some i \<Rightarrow>
       if ob_status i \<noteq> Ob_processing then Inr ((), d)
       else Inr ((), set_binding (ob_aggregate_id i) (failed_binding (cd_valid (ww_codec ww)) (ob_payload i) code now)
              (set_item item_id (failed_item ww code retryable now) d)))"

text \<open>A transaction of the worker: its act carries no step of the ledger.\<close>

definition outbox_tx :: "env \<Rightarrow> 'a tx \<Rightarrow> 'a prog" where
  "outbox_tx en body = call en (Act_db []) (db_tx body)"

definition outbox_try :: "env \<Rightarrow> outbox_worker \<Rightarrow> str \<Rightarrow> int \<Rightarrow> unit prog" where
  "outbox_try en ww item_id now =
    bindp (call en (Act_db []) (db_load (outbox_load ww item_id))) (\<lambda>(action, b, p).
    bindp (outbox_execute en (ww_codec ww) action b p) (\<lambda>result.
    at_log (\<lambda>l. outbox_tx en (outbox_complete ww (ww_nonce ww l) item_id result now))))"

definition outbox_process :: "env \<Rightarrow> outbox_worker \<Rightarrow> int \<Rightarrow> str \<Rightarrow> unit prog" where
  "outbox_process en ww now item_id =
    except (outbox_try en ww item_id now) (\<lambda>e. case e of
        BifrostUpstreamError code _ retryable \<Rightarrow> outbox_tx en (outbox_fail ww item_id code retryable now)
      | _ \<Rightarrow> if is_value_error e \<or> is_runtime_error e
             then outbox_tx en (outbox_fail ww item_id ''BIFROST_RECONCILIATION_FAILED'' False now) else raise e)"

fun outbox_all :: "env \<Rightarrow> outbox_worker \<Rightarrow> int \<Rightarrow> str list \<Rightarrow> unit prog" where
  "outbox_all en ww now [] = ret ()"
| "outbox_all en ww now (k # ks) = bindp (outbox_process en ww now k) (\<lambda>_. outbox_all en ww now ks)"

definition outbox_run_once :: "env \<Rightarrow> outbox_worker \<Rightarrow> int \<Rightarrow> int prog" where
  "outbox_run_once en ww now =
    bindp (outbox_tx en (outbox_claim ww now)) (\<lambda>ids.
    bindp (outbox_all en ww now ids) (\<lambda>_. ret (int (length ids))))"

end
