(* ===== verification/Outbox_Lemmas.thy ===== *)
theory Outbox_Lemmas
  imports Outbox World_Lemmas
begin

text \<open>
  Lemmas of the outbox: what each transaction of the worker does to items and bindings, what an
  active binding rests on, and the attempts that are left.
\<close>

subsection \<open>Calls of the upstream\<close>

lemma bf_same_db:
  "always same_db (bf_request en cd verb path pairs max_bytes)"
  "always same_db (bf_json_request en cd verb path pairs)" "always same_db (bf_key_list en cd params)"
  "always same_db (bf_key_call en cd verb path pairs)"
  unfolding bf_json_request_def bf_request_def bf_key_list_def bf_key_call_def
  by (intro same_db.rules same_db_rules)+

lemma bf_keys_same_db:
  "always same_db (bf_find_virtual_key en cd name)" "always same_db (bf_create_virtual_key en cd s)"
  "always same_db (bf_get_virtual_key_material en cd k)" "always same_db (bf_update_virtual_key en cd k s)"
  "always same_db (bf_disable_virtual_key en cd k)"
  unfolding bf_find_virtual_key_def bf_create_virtual_key_def bf_get_virtual_key_material_def bf_get_envelope_def
    bf_update_virtual_key_def bf_disable_virtual_key_def bf_put_def
  by (intro same_db.rules bf_same_db)+

lemma execute_same_db: "always same_db (outbox_execute en cd action b p)"
  unfolding outbox_execute_def execute_disable_def execute_create_def execute_update_def
  by (intro same_db.rules bf_keys_same_db)

text \<open>A key that the upstream has shown in a reply of the run from \<open>w\<close> to \<open>w'\<close>.\<close>

definition shown_key :: "env \<Rightarrow> codec \<Rightarrow> key_state \<Rightarrow> world \<Rightarrow> world \<Rightarrow> bool" where
  "shown_key en cd st w w' \<longleftrightarrow> (\<exists>before after payload wire. wd_log w' = wd_log w @ before @ after \<and> before \<noteq> [] \<and>
     bf_json_reply cd MAX_MANAGEMENT_RESPONSE_BYTES (en_reply en (wd_log w @ before)) = Inr payload \<and>
     (validate_key_envelope (cd_valid cd) payload = Some wire \<or>
      (\<exists>wires. validate_key_list (cd_valid cd) payload = Some wires \<and> wire \<in> set wires)) \<and>
     key_state_of wire = Inr st)"

lemma shown_keyI:
  assumes "wd_log w' = wd_log w @ [a]" and "bf_json_reply cd MAX_MANAGEMENT_RESPONSE_BYTES (en_reply en (wd_log w')) = Inr payload"
    and "validate_key_envelope (cd_valid cd) payload = Some wire \<or>
      (\<exists>wires. validate_key_list (cd_valid cd) payload = Some wires \<and> wire \<in> set wires)"
    and "key_state_of wire = Inr st"
  shows "shown_key en cd st w w'"
  unfolding shown_key_def using assms by (intro exI [of _ "[a]"] exI [of _ "[]"] exI [of _ payload] exI [of _ wire]) auto

lemma shown_key_earlier: "shown_key en cd st w1 w2 \<Longrightarrow> log_grows w w1 \<Longrightarrow> shown_key en cd st w w2"
  unfolding shown_key_def log_grows_def by (metis (no_types, lifting) append.assoc append_is_Nil_conv)

lemma shown_key_later: "shown_key en cd st w w1 \<Longrightarrow> log_grows w1 w2 \<Longrightarrow> shown_key en cd st w w2"
  unfolding shown_key_def log_grows_def by (metis (no_types, lifting) append.assoc)

lemma bf_validate_Inr: "bf_validate f payload = Inr x \<longleftrightarrow> f payload = Some x"
  by (auto simp: bf_validate_def split: option.splits)

lemma key_call_Inr:
  assumes "bf_key_call en cd verb path pairs w = (Inr wire, w')" and "key_state_of wire = Inr st"
  shows "shown_key en cd st w w'"
  using assms
  by (auto simp: bf_key_call_def bf_json_request_def bf_request_def bindp_Inr call_Inr http_do_def bf_validate_Inr
      intro!: shown_keyI)

lemma key_list_Inr:
  assumes "bf_key_list en cd params w = (Inr wires, w')" and "wire \<in> set wires" and "key_state_of wire = Inr st"
  shows "shown_key en cd st w w'"
  using assms
  by (auto simp: bf_key_list_def bf_json_request_def bf_request_def bindp_Inr call_Inr http_do_def bf_validate_Inr
      intro!: shown_keyI)

lemma key_material_Inr: "key_material w = Inr (st, v) \<longleftrightarrow> key_state_of w = Inr st \<and> v = kw_value w"
  by (auto simp: key_material_def bind_res_Inr)

lemma collect_res_mem: "collect_res rs = Inr xs \<Longrightarrow> x \<in> set xs \<Longrightarrow> Inr x \<in> set rs"
  by (induction rs arbitrary: xs) (auto simp: bind_res_Inr split: sum.splits)

lemma find_key_Inr:
  assumes "bf_find_virtual_key en cd name w = (Inr m, w')"
  shows "log_grows w w' \<and> (\<forall>st v. m = Some (st, v) \<longrightarrow> shown_key en cd st w w')"
proof -
  obtain wires xs where l: "bf_key_list en cd [(''limit'', JInt 100), (''offset'', JInt 0), (''search'', JStr name)] w = (Inr wires, w')"
    "collect_res (map key_material (filter (\<lambda>w. kw_name w = name) wires)) = Inr xs" "\<And>y. m = Some y \<Longrightarrow> y \<in> set xs"
    using assms by (auto simp: bf_find_virtual_key_def bindp_Inr split: if_splits list.splits)
  have "shown_key en cd st w w'" if "m = Some (st, v)" for st v
  proof -
    from collect_res_mem [OF l(2) l(3) [OF that]] obtain wire where "wire \<in> set wires" "key_material wire = Inr (st, v)" by auto
    with key_list_Inr [OF l(1)] show ?thesis by (simp add: key_material_Inr)
  qed
  moreover have "log_grows w w'"
    using l(1) by (auto simp: bf_key_list_def bf_json_request_def bf_request_def bindp_Inr call_Inr http_do_def)
  ultimately show ?thesis by blast
qed

lemma bf_key_Inr:
  "bf_create_virtual_key en cd s w = (Inr (st, v), w') \<Longrightarrow> shown_key en cd st w w'"
  "bf_get_virtual_key_material en cd k w = (Inr (st, v), w') \<Longrightarrow> shown_key en cd st w w'"
  "bf_update_virtual_key en cd k s w = (Inr st, w') \<Longrightarrow> shown_key en cd st w w'"
  by (auto simp: bf_create_virtual_key_def bf_get_virtual_key_material_def bf_get_envelope_def bf_update_virtual_key_def
      bf_put_def bindp_Inr key_material_Inr intro: key_call_Inr)

text \<open>What an execution that is not a disabling can return.\<close>

definition shows_desired :: "env \<Rightarrow> codec \<Rightarrow> key_spec \<Rightarrow> outbox_result \<Rightarrow> world \<Rightarrow> world \<Rightarrow> bool" where
  "shows_desired en cd s result w w' \<longleftrightarrow> (\<exists>st. (result = Key_state st \<or> (\<exists>v. result = Key_created st v)) \<and>
     shown_key en cd st w w' \<and> verify_desired st s = Inr ())"

lemma execute_create_Inr:
  assumes "execute_create en cd b s w = (Inr result, w')"
  shows "shows_desired en cd s result w w'"
proof -
  obtain st v where r: "result = Key_created st v" "verify_desired st s = Inr ()"
    and m: "(if filled (bd_virtual_key_id b) then bf_get_virtual_key_material en cd (the (bd_virtual_key_id b))
           else bindp (bf_find_virtual_key en cd (ks_name s)) (\<lambda>existing. case existing of
                  Some m \<Rightarrow> ret m | None \<Rightarrow> bf_create_virtual_key en cd s)) w = (Inr (st, v), w')"
    using assms by (auto simp: execute_create_def bindp_Inr)
  have "shown_key en cd st w w'"
  proof (cases "filled (bd_virtual_key_id b)")
    case True
    with m show ?thesis by (auto intro: bf_key_Inr)
  next
    case False
    with m obtain existing w1 where 1: "bf_find_virtual_key en cd (ks_name s) w = (Inr existing, w1)"
      "(case existing of Some m \<Rightarrow> ret m | None \<Rightarrow> bf_create_virtual_key en cd s) w1 = (Inr (st, v), w')"
      by (auto simp: bindp_Inr)
    from find_key_Inr [OF 1(1)] 1(2) show ?thesis
      by (cases existing) (auto intro: shown_key_earlier bf_key_Inr)
  qed
  with r show ?thesis by (auto simp: shows_desired_def)
qed

lemma execute_update_Inr: "execute_update en cd k s w = (Inr result, w') \<Longrightarrow> shows_desired en cd s result w w'"
  unfolding execute_update_def shows_desired_def by (auto simp: bindp_Inr intro: bf_key_Inr)

lemma outbox_execute_Inr:
  assumes "outbox_execute en cd action b p w = (Inr result, w')"
  shows "action = Act_disable \<and> (\<forall>st v. result \<noteq> Key_created st v) \<or>
    action \<noteq> Act_disable \<and> (\<exists>s. pl_desired p = Some s \<and> shows_desired en cd s result w w')"
proof (cases "action = Act_disable")
  case True
  with assms show ?thesis
    by (auto simp: outbox_execute_def execute_disable_def bindp_Inr split: option.splits if_splits)
next
  case False
  with assms show ?thesis
    by (auto simp: outbox_execute_def split: option.splits if_splits dest: execute_create_Inr execute_update_Inr)
qed

lemma shows_desired_wider:
  "shows_desired en cd s result w1 w2 \<Longrightarrow> log_grows w w1 \<Longrightarrow> log_grows w2 w' \<Longrightarrow> shows_desired en cd s result w w'"
  unfolding shows_desired_def using shown_key_earlier shown_key_later by blast

subsection \<open>What a transaction of the worker does\<close>

lemma persist_created_Inr:
  "persist_created_binding y wr k nonce now r b = Inr b' \<Longrightarrow> bd_id b' = bd_id b \<and> bd_version b' = bd_version b \<and>
    (bd_sync_status b' = Sync_active \<longrightarrow> binding_remote_fields_complete b' \<and> vk_active r)"
  by (auto simp: persist_created_binding_def bind_res_Inr Let_def binding_remote_fields_complete_def split: option.splits if_splits)

lemma completed_binding_Inr:
  assumes "completed_binding ww nonce action result p now b = Inr b'"
  shows "bd_id b' = bd_id b \<and> bd_version b' = bd_version b \<and> (bd_sync_status b' = Sync_active \<longrightarrow>
    bd_version b' = pl_binding_version p \<and> binding_remote_fields_complete b' \<and>
    (action \<noteq> Act_disable \<or> (\<exists>st v. result = Key_created st v)))"
proof -
  obtain b1 where b1: "(case result of
        Key_created st v \<Rightarrow> persist_created_binding (ww_crypto ww) (ww_write_envelope ww) (ww_keyring ww) nonce now
          \<lparr>vk_id = kt_id st, vk_active = kt_active st, vk_value = Some v\<rparr> b
      | _ \<Rightarrow> Inr (synced (if action = Act_disable then Sync_disabled else Sync_active) now b)) = Inr b1"
    "b' = (if bd_version b1 \<noteq> pl_binding_version p then b1\<lparr>bd_sync_status := Sync_pending\<rparr> else b1)"
    using assms by (auto simp: completed_binding_def bind_res_Inr)
  have "bd_id b1 = bd_id b \<and> bd_version b1 = bd_version b \<and> (bd_sync_status b1 = Sync_active \<longrightarrow>
      binding_remote_fields_complete b1 \<and> (action \<noteq> Act_disable \<or> (\<exists>st v. result = Key_created st v)))"
  proof (cases result)
    case (Key_created st v)
    with b1(1) show ?thesis by (auto dest: persist_created_Inr)
  qed (use b1(1) in \<open>auto simp: synced_def binding_remote_fields_complete_def split: if_splits\<close>)
  with b1(2) show ?thesis by (auto split: if_splits)
qed

lemma outbox_complete_Inr:
  assumes "outbox_complete ww nonce k result now d = Inr (u, d')"
  obtains "d' = d"
  | i b p b' where "find_row ob_id k (db_outbox d) = Some i" "ob_status i = Ob_processing"
      "find_row bd_id (ob_aggregate_id i) (db_bindings d) = Some b"
      "validate_payload (cd_valid (ww_codec ww)) (ob_payload i) = Some p"
      "completed_binding ww nonce (ob_action i) result p now b = Inr b'"
      "d' = set_item k (completed_item now) (set_binding (bd_id b) (\<lambda>_. b') d)"
proof -
  have "d' = d \<or> (\<exists>i b p b'. find_row ob_id k (db_outbox d) = Some i \<and> ob_status i = Ob_processing \<and>
      find_row bd_id (ob_aggregate_id i) (db_bindings d) = Some b \<and>
      validate_payload (cd_valid (ww_codec ww)) (ob_payload i) = Some p \<and>
      completed_binding ww nonce (ob_action i) result p now b = Inr b' \<and>
      d' = set_item k (completed_item now) (set_binding (bd_id b) (\<lambda>_. b') d))"
    using assms unfolding outbox_complete_def by (simp add: bind_res_Inr split: option.splits if_splits) metis
  with that show thesis by blast
qed

lemma outbox_fail_Inr:
  assumes "outbox_fail ww k code retryable now d = Inr (u, d')"
  obtains "d' = d"
  | i where "find_row ob_id k (db_outbox d) = Some i" "ob_status i = Ob_processing"
      "d' = set_binding (ob_aggregate_id i) (failed_binding (cd_valid (ww_codec ww)) (ob_payload i) code now)
        (set_item k (failed_item ww code retryable now) d)"
proof (cases "find_row ob_id k (db_outbox d)")
  case None
  with assms have "d' = d" by (simp add: outbox_fail_def)
  then show thesis by (rule that(1))
next
  case (Some i)
  show thesis
  proof (cases "ob_status i = Ob_processing")
    case True
    with assms Some show thesis by (intro that(2) [OF Some True]) (simp add: outbox_fail_def)
  next
    case False
    with assms Some have "d' = d" by (simp add: outbox_fail_def)
    then show thesis by (rule that(1))
  qed
qed

lemma outbox_tx_db:
  assumes "outbox_tx en body w = (r, w')"
  shows "wd_db w' = wd_db w \<or> (\<exists>x. body (wd_db w) = Inr (x, wd_db w'))"
proof -
  have "wd_db (snd (db_tx body v)) = wd_db v \<or> (\<exists>x. body (wd_db v) = Inr (x, wd_db (snd (db_tx body v))))" for v
    by (auto simp: db_tx_def in_tx_def commit_tx_def split: sum.splits prod.splits)
  from this [of "record_act (Act_db []) w"] show ?thesis
    using call_world [of en "Act_db []" "db_tx body" w] assms by (auto simp: outbox_tx_def)
qed

lemma always_log_load: "always log_grows (call en a (db_load f))"
  by (intro log.call log.reads log_grows_act)

lemma always_log_tx: "always log_grows (outbox_tx en body)"
  unfolding outbox_tx_def by (intro log.call log_grows_act) (simp add: always_def db_tx_def log_grows_def split: prod.splits)

lemma outbox_tx_Inr: "outbox_tx en body w = (Inr x, w') \<Longrightarrow> body (wd_db w) = Inr (x, wd_db w')"
  by (auto simp: outbox_tx_def call_Inr db_tx_def in_tx_def commit_tx_def split: sum.splits prod.splits if_splits)

lemma outbox_load_Inr:
  "outbox_load ww k d = Inr (action, b, p) \<Longrightarrow> \<exists>i. find_row ob_id k (db_outbox d) = Some i \<and> ob_action i = action \<and>
    find_row bd_id (ob_aggregate_id i) (db_bindings d) = Some b \<and>
    validate_payload (cd_valid (ww_codec ww)) (ob_payload i) = Some p"
  by (auto simp: outbox_load_def split: option.splits if_splits)

text \<open>The database after one try: as before, or with the item completed on the strength of what was
  executed.\<close>

lemma outbox_try_db:
  assumes "outbox_try en ww k now w = (r, w')"
  shows "wd_db w' = wd_db w \<or> (\<exists>i b p b' nonce result. find_row ob_id k (db_outbox (wd_db w)) = Some i \<and>
    find_row bd_id (ob_aggregate_id i) (db_bindings (wd_db w)) = Some b \<and>
    validate_payload (cd_valid (ww_codec ww)) (ob_payload i) = Some p \<and>
    (ob_action i = Act_disable \<and> (\<forall>st v. result \<noteq> Key_created st v) \<or>
     ob_action i \<noteq> Act_disable \<and> (\<exists>s. pl_desired p = Some s \<and> shows_desired en (ww_codec ww) s result w w')) \<and>
    completed_binding ww nonce (ob_action i) result p now b = Inr b' \<and>
    wd_db w' = set_item k (completed_item now) (set_binding (bd_id b) (\<lambda>_. b') (wd_db w)))"
proof -
  obtain x w1 where 1: "call en (Act_db []) (db_load (outbox_load ww k)) w = (x, w1)" by fastforce
  have "always same_db (call en (Act_db []) (db_load (outbox_load ww k)))"
    by (intro same_db_rules same_db.reads)
  note d1 = same_db_run [OF this 1]
  show ?thesis
  proof (cases x)
    case (Inl e)
    with assms d1 show ?thesis by (simp add: outbox_try_def bindp_def 1)
  next
    case (Inr abp)
    obtain action b p where abp: "abp = (action, b, p)" by (metis surj_pair)
    have load: "outbox_load ww k (wd_db w) = Inr (action, b, p)"
      using 1 by (auto simp: Inr abp call_Inr db_load_def)
    obtain i where i: "find_row ob_id k (db_outbox (wd_db w)) = Some i" "ob_action i = action"
      "find_row bd_id (ob_aggregate_id i) (db_bindings (wd_db w)) = Some b"
      "validate_payload (cd_valid (ww_codec ww)) (ob_payload i) = Some p"
      using outbox_load_Inr [OF load] by blast
    obtain y w2 where 2: "outbox_execute en (ww_codec ww) action b p w1 = (y, w2)" by fastforce
    note d2 = same_db_run [OF execute_same_db 2]
    show ?thesis
    proof (cases y)
      case (Inl e)
      with assms d1 d2 show ?thesis by (simp add: outbox_try_def bindp_def 1 Inr abp 2)
    next
      case y: (Inr result)
      let ?body = "outbox_complete ww (ww_nonce ww (wd_log w2)) k result now"
      have "outbox_tx en ?body w2 = (r, w')"
        using assms by (simp add: outbox_try_def bindp_def 1 Inr abp 2 y World.at_log_def)
      from outbox_tx_db [OF this] show ?thesis
      proof
        assume "wd_db w' = wd_db w2"
        with d1 d2 show ?thesis by simp
      next
        assume "\<exists>u. ?body (wd_db w2) = Inr (u, wd_db w')"
        then obtain u where "?body (wd_db w) = Inr (u, wd_db w')" using d1 d2 by auto
        then show ?thesis
        proof (cases rule: outbox_complete_Inr)
          case 1
          then show ?thesis by simp
        next
          case (2 i' b2 p2 b')
          with i have "i' = i" "b2 = b" "p2 = p" by auto
          have grows: "log_grows w w1" "log_grows w2 w'"
            using log.run [OF always_log_load 1(1)] log.run [OF always_log_tx \<open>outbox_tx en ?body w2 = (r, w')\<close>] by auto
          from \<open>i' = i\<close> \<open>b2 = b\<close> \<open>p2 = p\<close> 2 i grows
            outbox_execute_Inr [OF \<open>outbox_execute en (ww_codec ww) action b p w1 = (y, w2)\<close> [unfolded y]]
          show ?thesis by (intro disjI2 exI [of _ i] exI [of _ b] exI [of _ p] exI [of _ b'] exI [of _ result] exI) (auto dest: shows_desired_wider)
        qed
      qed
    qed
  qed
qed

subsection \<open>Active bindings\<close>

lemma failed_binding_not_active:
  "bd_sync_status (failed_binding vd payload code now b) = Sync_active \<Longrightarrow> failed_binding vd payload code now b = b"
  by (auto simp: failed_binding_def split: if_splits)

lemma failed_active_old:
  assumes "outbox_fail ww k code retryable now d = Inr (u, d')" and "b' \<in> set (db_bindings d')"
    and "bd_sync_status b' = Sync_active"
  shows "b' \<in> set (db_bindings d)"
  using assms(1)
proof (cases rule: outbox_fail_Inr)
  case 1
  with assms show ?thesis by simp
next
  case (2 i)
  with assms(2,3) show ?thesis
    by (auto simp: set_binding_def set_item_def set_update_row dest: failed_binding_not_active split: if_splits)
qed

text \<open>What an active binding that appears rests on.\<close>

definition synced_by :: "env \<Rightarrow> outbox_worker \<Rightarrow> str \<Rightarrow> world \<Rightarrow> world \<Rightarrow> binding \<Rightarrow> bool" where
  "synced_by en ww k w w' b' \<longleftrightarrow> (\<exists>i p s st. find_row ob_id k (db_outbox (wd_db w)) = Some i \<and>
     ob_aggregate_id i = bd_id b' \<and> ob_action i \<noteq> Act_disable \<and>
     validate_payload (cd_valid (ww_codec ww)) (ob_payload i) = Some p \<and> pl_binding_version p = bd_version b' \<and>
     pl_desired p = Some s \<and> shown_key en (ww_codec ww) st w w' \<and> verify_desired st s = Inr () \<and>
     binding_remote_fields_complete b')"

lemma try_active:
  assumes "outbox_try en ww k now w = (r, w')" and "b' \<in> set (db_bindings (wd_db w'))"
    and "b' \<notin> set (db_bindings (wd_db w))" and "bd_sync_status b' = Sync_active"
  shows "synced_by en ww k w w' b'"
proof -
  from outbox_try_db [OF assms(1)] assms(2,3) obtain i b p nonce result b1 where
      i: "find_row ob_id k (db_outbox (wd_db w)) = Some i" "validate_payload (cd_valid (ww_codec ww)) (ob_payload i) = Some p"
    and b: "find_row bd_id (ob_aggregate_id i) (db_bindings (wd_db w)) = Some b"
    and e: "ob_action i = Act_disable \<and> (\<forall>st v. result \<noteq> Key_created st v) \<or>
       ob_action i \<noteq> Act_disable \<and> (\<exists>s. pl_desired p = Some s \<and> shows_desired en (ww_codec ww) s result w w')"
    and c: "completed_binding ww nonce (ob_action i) result p now b = Inr b1"
    and d: "wd_db w' = set_item k (completed_item now) (set_binding (bd_id b) (\<lambda>_. b1) (wd_db w))"
    by auto
  have "b' = b1" using d assms(2,3) by (auto simp: set_item_def set_binding_def set_update_row split: if_splits)
  with completed_binding_Inr [OF c] assms(4) have b1: "bd_id b' = bd_id b" "bd_version b' = pl_binding_version p"
      "binding_remote_fields_complete b'" "ob_action i \<noteq> Act_disable \<or> (\<exists>st v. result = Key_created st v)" by auto
  with e obtain s st where "ob_action i \<noteq> Act_disable" "pl_desired p = Some s" "shown_key en (ww_codec ww) st w w'"
      "verify_desired st s = Inr ()" by (auto simp: shows_desired_def)
  moreover have "ob_aggregate_id i = bd_id b'" using find_row_Some [OF b] b1(1) by simp
  ultimately show ?thesis using i b1(2,3) by (auto simp: synced_by_def)
qed

lemma synced_by_later: "synced_by en ww k w w1 b' \<Longrightarrow> log_grows w1 w' \<Longrightarrow> synced_by en ww k w w' b'"
  unfolding synced_by_def using shown_key_later by blast

lemma process_active:
  assumes run: "outbox_process en ww now k w = (r, w')" and new: "b' \<in> set (db_bindings (wd_db w'))"
    "b' \<notin> set (db_bindings (wd_db w))" and active: "bd_sync_status b' = Sync_active"
  shows "synced_by en ww k w w' b'"
proof -
  obtain x w1 where 1: "outbox_try en ww k now w = (x, w1)" by fastforce
  consider "w' = w1" | code retryable where "outbox_tx en (outbox_fail ww k code retryable now) w1 = (r, w')"
    using run by (cases x) (auto simp: outbox_process_def except_def 1 split: exn.splits if_splits)
  then show ?thesis
  proof cases
    case 1
    with \<open>outbox_try en ww k now w = (x, w1)\<close> new active show ?thesis by (simp add: try_active)
  next
    case (2 code retryable)
    have "b' \<in> set (db_bindings (wd_db w1))"
      using outbox_tx_db [OF 2] new(1) active by (auto dest: failed_active_old)
    from try_active [OF 1 this new(2) active] log.run [OF always_log_tx 2] show ?thesis by (rule synced_by_later)
  qed
qed

subsection \<open>Attempts\<close>

text \<open>What may happen to an item: attempts are only added, up to the bound; a completed item stays as
  it is.\<close>

definition item_kept :: "int \<Rightarrow> outbox_item \<Rightarrow> outbox_item \<Rightarrow> bool" where
  "item_kept m i i' \<longleftrightarrow> ob_id i' = ob_id i \<and> ob_payload i' = ob_payload i \<and>
     (ob_attempts i \<le> m \<longrightarrow> ob_attempts i \<le> ob_attempts i' \<and> ob_attempts i' \<le> m) \<and>
     (m \<le> ob_attempts i \<longrightarrow> m \<le> ob_attempts i') \<and> (ob_status i = Ob_completed \<longrightarrow> i' = i)"

lemma item_kept_refl: "item_kept m i i"
  by (simp add: item_kept_def)

lemma item_kept_trans: "item_kept m i j \<Longrightarrow> item_kept m j k \<Longrightarrow> item_kept m i k"
  by (auto simp: item_kept_def)

definition items_kept :: "int \<Rightarrow> db \<Rightarrow> db \<Rightarrow> bool" where
  "items_kept m d d' \<longleftrightarrow> list_all2 (item_kept m) (db_outbox d) (db_outbox d')"

lemma items_kept_refl: "items_kept m d d"
  by (simp add: items_kept_def list.rel_refl item_kept_refl)

lemma items_kept_trans: "items_kept m d e \<Longrightarrow> items_kept m e f \<Longrightarrow> items_kept m d f"
  unfolding items_kept_def by (rule list_all2_trans [of "item_kept m"]) (rule item_kept_trans)

definition keeps_items :: "int \<Rightarrow> world \<Rightarrow> world \<Rightarrow> bool" where
  "keeps_items m w w' \<longleftrightarrow> (db_ok (wd_db w) \<longrightarrow> db_ok (wd_db w') \<and> items_kept m (wd_db w) (wd_db w'))"

interpretation kept_items: world_relation "keeps_items m"
  by unfold_locales (auto simp: keeps_items_def items_kept_refl dest: items_kept_trans)

lemma keeps_items_same: "always same_db m \<Longrightarrow> always (keeps_items n) m"
  by (auto simp: always_def same_db_def keeps_items_def items_kept_refl)

lemma items_distinct: "db_ok d \<Longrightarrow> distinct (map ob_id (db_outbox d))"
  by (simp add: db_ok_def control_tables_ok_def)

lemma set_item_kept:
  assumes "db_ok d" and "find_row ob_id k (db_outbox d) = Some i" and "item_kept m i (f i)"
  shows "items_kept m d (set_item k f d)"
proof -
  have "j = i" if "j \<in> set (db_outbox d)" "ob_id j = k" for j
    using find_row_unique [OF items_distinct [OF assms(1)] that] assms(2) by simp
  then show ?thesis
    using assms(3) by (auto simp: items_kept_def set_item_def update_row_def list_all2_map2 item_kept_refl
        intro!: list.rel_refl_strong)
qed

lemma complete_items:
  assumes "db_ok d" and "outbox_complete ww nonce k result now d = Inr (u, d')"
  shows "items_kept m d d'"
  using assms(2)
proof (cases rule: outbox_complete_Inr)
  case 1
  then show ?thesis by (simp add: items_kept_refl)
next
  case (2 i b p b')
  have "item_kept m i (completed_item now i)" using 2 by (simp add: item_kept_def completed_item_def)
  from set_item_kept [where f = "completed_item now", OF assms(1) 2(1) this] 2 show ?thesis by (simp add: items_kept_def set_binding_def set_item_def)
qed

lemma fail_items:
  assumes "db_ok d" and "outbox_fail ww k code retryable now d = Inr (u, d')"
  shows "items_kept (ww_max_attempts ww) d d'"
  using assms(2)
proof (cases rule: outbox_fail_Inr)
  case 1
  then show ?thesis by (simp add: items_kept_refl)
next
  case (2 i)
  have "item_kept (ww_max_attempts ww) i (failed_item ww code retryable now i)"
    using 2 by (auto simp: item_kept_def failed_item_def Let_def)
  from set_item_kept [where f = "failed_item ww code retryable now", OF assms(1) 2(1) this] 2 show ?thesis by (simp add: items_kept_def set_binding_def set_item_def)
qed

lemma tx_keeps_items:
  assumes "\<And>d x d'. db_ok d \<Longrightarrow> body d = Inr (x, d') \<Longrightarrow> items_kept m d d'"
  shows "always (keeps_items m) (outbox_tx en body)"
  unfolding outbox_tx_def
proof (rule kept_items.call)
  show "always (keeps_items m) (db_tx body)"
    using assms by (auto simp: always_def keeps_items_def db_tx_def in_tx_def commit_tx_Inr items_kept_refl
        split: prod.splits sum.splits)
qed (simp add: keeps_items_def items_kept_refl)

lemma try_items: "always (keeps_items (ww_max_attempts ww)) (outbox_try en ww k now)"
  unfolding outbox_try_def
  by (intro kept_items.rules tx_keeps_items complete_items keeps_items_same same_db_rules same_db.reads execute_same_db)

lemma process_items: "always (keeps_items (ww_max_attempts ww)) (outbox_process en ww now k)"
proof -
  have f: "always (keeps_items (ww_max_attempts ww)) (outbox_tx en (outbox_fail ww k code retryable now))" for code retryable
    by (intro tx_keeps_items fail_items)
  show ?thesis
    unfolding outbox_process_def
  proof (rule kept_items.except [OF try_items])
    fix e
    show "always (keeps_items (ww_max_attempts ww)) (case e of
        BifrostUpstreamError code _ retryable \<Rightarrow> outbox_tx en (outbox_fail ww k code retryable now)
      | _ \<Rightarrow> if is_value_error e \<or> is_runtime_error e
             then outbox_tx en (outbox_fail ww k ''BIFROST_RECONCILIATION_FAILED'' False now) else raise e)"
      by (cases e) (auto simp: f intro: kept_items.raise)
  qed
qed

lemma all_items: "always (keeps_items (ww_max_attempts ww)) (outbox_all en ww now ks)"
  by (induction ks) (simp_all only: outbox_all.simps kept_items.ret kept_items.bind process_items)

lemma claim_mem:
  "k \<in> set (claim_ids ww now d) \<Longrightarrow> \<exists>i \<in> set (db_outbox d). ob_id i = k \<and> claimable ww now i"
  by (auto simp: claim_ids_def dest!: in_set_takeD)

lemma claimed_claimable:
  assumes "db_ok d" and "i \<in> set (db_outbox d)" and "ob_id i \<in> set (claim_ids ww now d)"
  shows "claimable ww now i"
proof -
  obtain j where "j \<in> set (db_outbox d)" "ob_id j = ob_id i" "claimable ww now j" using claim_mem [OF assms(3)] by blast
  with find_row_unique [OF items_distinct [OF assms(1)]] assms(2) show ?thesis by (metis option.inject)
qed

lemma claim_items:
  assumes "db_ok d" and "outbox_claim ww now d = Inr (ids, d')"
  shows "items_kept (ww_max_attempts ww) d d'"
proof -
  have "item_kept (ww_max_attempts ww) i (claimed_item now i)" if "claimable ww now i" for i
    using that by (auto simp: item_kept_def claimed_item_def claimable_def)
  with claimed_claimable [OF assms(1)] assms(2) show ?thesis
    by (auto simp: outbox_claim_def Let_def items_kept_def list_all2_map2 item_kept_refl intro!: list.rel_refl_strong)
qed

lemma run_once_items: "always (keeps_items (ww_max_attempts ww)) (outbox_run_once en ww now)"
  unfolding outbox_run_once_def by (intro kept_items.rules tx_keeps_items claim_items all_items)

text \<open>The attempts left.\<close>

definition attempts_left :: "int \<Rightarrow> db \<Rightarrow> int" where
  "attempts_left m d = sum_list (map (\<lambda>i. max 0 (m - ob_attempts i)) (db_outbox d))"

lemma attempts_left_kept: "items_kept m d d' \<Longrightarrow> attempts_left m d' \<le> attempts_left m d"
  unfolding items_kept_def attempts_left_def
proof (induction rule: list_all2_induct)
  case (Cons i xs i' ys)
  then have "max 0 (m - ob_attempts i') \<le> max 0 (m - ob_attempts i)" by (auto simp: item_kept_def)
  with Cons show ?case by simp
qed simp

lemma sum_list_map_diff: "sum_list (map (\<lambda>x. f x - g x) xs) = sum_list (map f xs) - (sum_list (map g xs) :: int)"
  by (induction xs) simp_all

lemma claim_ids_distinct: "db_ok d \<Longrightarrow> distinct (claim_ids ww now d)"
proof -
  assume "db_ok d"
  from items_distinct [OF this] have "distinct (map ob_id (filter (claimable ww now) (db_outbox d)))"
    by (simp add: distinct_map_filter)
  then have "distinct (map ob_id (sort_key (\<lambda>i. (ob_available_at i, ob_id i)) (filter (claimable ww now) (db_outbox d))))"
    by (auto simp: distinct_map)
  then show ?thesis by (simp add: claim_ids_def take_map [symmetric])
qed

lemma claimed_count:
  assumes "db_ok d"
  shows "sum_list (map (\<lambda>i. if ob_id i \<in> set (claim_ids ww now d) then 1 else 0) (db_outbox d)) =
    int (length (claim_ids ww now d))"
proof -
  let ?ids = "claim_ids ww now d" and ?f = "filter (\<lambda>i. ob_id i \<in> set (claim_ids ww now d)) (db_outbox d)"
  have "sum_list (map (\<lambda>i. if ob_id i \<in> set ?ids then 1 else 0) xs) =
      int (length (filter (\<lambda>i. ob_id i \<in> set ?ids) xs))" for xs :: "outbox_item list"
    by (induction xs) simp_all
  moreover have "length ?f = card (set (map ob_id ?f))"
    using distinct_card [OF distinct_map_filter [OF items_distinct [OF assms]]] by (metis length_map)
  moreover have "set (map ob_id ?f) = set ?ids" using claim_mem by fastforce
  moreover have "card (set ?ids) = length ?ids" by (rule distinct_card [OF claim_ids_distinct [OF assms]])
  ultimately show ?thesis by simp
qed

lemma claim_attempts:
  assumes "db_ok d" and "outbox_claim ww now d = Inr (ids, d')"
  shows "attempts_left (ww_max_attempts ww) d' = attempts_left (ww_max_attempts ww) d - int (length ids)"
proof -
  let ?ids = "claim_ids ww now d" and ?left = "\<lambda>i. max 0 (ww_max_attempts ww - ob_attempts i)"
  have "?left (if ob_id i \<in> set ?ids then claimed_item now i else i) = ?left i - (if ob_id i \<in> set ?ids then 1 else 0)"
    if "i \<in> set (db_outbox d)" for i
    using claimed_claimable [OF assms(1) that, of ww now] by (auto simp: claimed_item_def claimable_def)
  then have changed: "map (?left \<circ> (\<lambda>i. if ob_id i \<in> set ?ids then claimed_item now i else i)) (db_outbox d) =
      map (\<lambda>i. ?left i - (if ob_id i \<in> set ?ids then 1 else 0)) (db_outbox d)" by simp
  have "ids = ?ids" and "db_outbox d' = map (\<lambda>i. if ob_id i \<in> set ?ids then claimed_item now i else i) (db_outbox d)"
    using assms(2) by (auto simp: outbox_claim_def Let_def)
  then show ?thesis
    using claimed_count [OF assms(1), of ww now] by (simp only: attempts_left_def map_map changed sum_list_map_diff)
qed

lemma claim_length: "length (claim_ids ww now d) \<le> ww_batch_size ww"
  by (simp add: claim_ids_def)

lemma run_once_attempts:
  assumes ok: "db_ok (wd_db w)" and run: "outbox_run_once en ww now w = (Inr n, w')"
  shows "0 \<le> n \<and> n \<le> int (ww_batch_size ww) \<and>
    attempts_left (ww_max_attempts ww) (wd_db w') + n \<le> attempts_left (ww_max_attempts ww) (wd_db w)"
proof -
  obtain ids w1 where 1: "outbox_tx en (outbox_claim ww now) w = (Inr ids, w1)"
    and 2: "outbox_all en ww now ids w1 = (Inr (), w')" and n: "n = int (length ids)"
    using run by (auto simp: outbox_run_once_def bindp_Inr)
  from outbox_tx_Inr [OF 1] have claim: "outbox_claim ww now (wd_db w) = Inr (ids, wd_db w1)" .
  then have "ids = claim_ids ww now (wd_db w)" by (simp add: outbox_claim_def Let_def)
  moreover have "db_ok (wd_db w1)"
    using kept_items.run [OF tx_keeps_items [OF claim_items] 1] ok by (simp add: keeps_items_def)
  moreover from this have "attempts_left (ww_max_attempts ww) (wd_db w') \<le> attempts_left (ww_max_attempts ww) (wd_db w1)"
    using kept_items.run [OF all_items 2] attempts_left_kept by (simp add: keeps_items_def)
  ultimately show ?thesis using claim_attempts [OF ok claim] n claim_length [of ww now "wd_db w"] by simp
qed

text \<open>Rounds of the worker, each with an environment and a clock of its own; a round that raises counts
  for nothing.\<close>

primrec outbox_rounds :: "(env \<times> int) list \<Rightarrow> outbox_worker \<Rightarrow> world \<Rightarrow> int \<times> world" where
  "outbox_rounds [] ww w = (0, w)"
| "outbox_rounds (r # rs) ww w = (case outbox_run_once (fst r) ww (snd r) w of
     (x, w1) \<Rightarrow> (case outbox_rounds rs ww w1 of (n, w') \<Rightarrow> ((case x of Inl _ \<Rightarrow> 0 | Inr m \<Rightarrow> m) + n, w')))"

lemma rounds_attempts:
  "db_ok (wd_db w) \<Longrightarrow> outbox_rounds rs ww w = (n, w') \<Longrightarrow>
    n + attempts_left (ww_max_attempts ww) (wd_db w') \<le> attempts_left (ww_max_attempts ww) (wd_db w)"
proof (induction rs arbitrary: w n w')
  case (Cons r rs)
  obtain x w1 where 1: "outbox_run_once (fst r) ww (snd r) w = (x, w1)" by fastforce
  obtain k w2 where 2: "outbox_rounds rs ww w1 = (k, w2)" by fastforce
  have kept: "db_ok (wd_db w1) \<and> items_kept (ww_max_attempts ww) (wd_db w) (wd_db w1)"
    using kept_items.run [OF run_once_items 1] Cons.prems(1) by (simp add: keeps_items_def)
  with Cons.IH [OF _ 2] have rest: "k + attempts_left (ww_max_attempts ww) (wd_db w2) \<le> attempts_left (ww_max_attempts ww) (wd_db w1)"
    by simp
  show ?case
  proof (cases x)
    case (Inl e)
    with Cons.prems(2) 1 2 rest kept attempts_left_kept show ?thesis by fastforce
  next
    case (Inr m)
    with run_once_attempts [OF Cons.prems(1)] 1 have
      "attempts_left (ww_max_attempts ww) (wd_db w1) + m \<le> attempts_left (ww_max_attempts ww) (wd_db w)" by auto
    with Cons.prems(2) 1 2 Inr rest show ?thesis by simp
  qed
qed simp

lemma attempts_left_nonneg: "0 \<le> attempts_left m d"
  by (auto simp: attempts_left_def intro!: sum_list_nonneg)

end
