(* ===== verification/Outbox_Properties.thy ===== *)
theory Outbox_Properties
  imports Outbox_Lemmas Recovery_Properties Auth_Properties
begin

text \<open>
  Properties of the outbox: what is staged is what the worker loads, a binding becomes active
  only after the upstream has shown the desired key, and the tries are bounded.
\<close>

subsection \<open>What is staged is loaded\<close>

lemma map_opt_map: "(\<And>x. x \<in> set xs \<Longrightarrow> f (g x) = Some x) \<Longrightarrow> map_opt f (map g xs) = Some xs"
  by (induction xs) simp_all

lemma field_simps_pair: "field k [] = None"
    "field k (ps @ [(k', v)]) = (if k = k' then Some v else field k ps)"
  by (simp_all add: field_def)

lemma field_two: "field k [(a, x), (b, y)] = (if k = b then Some y else if k = a then Some x else None)"
  by (simp add: field_def)

text \<open>A specification that the validation has accepted reads back.\<close>

definition spec_normal :: "validation \<Rightarrow> key_spec \<Rightarrow> bool" where
  "spec_normal vd s \<longleftrightarrow> validate_key_spec vd (spec_json s) = Some s"

lemma map_opt_trim:
  assumes "map_opt (\<lambda>j. map_option (vd_trim vd) (json_text j)) xs = Some ids" and "\<And>t. vd_trim vd (vd_trim vd t) = vd_trim vd t"
  shows "\<forall>t \<in> set ids. vd_trim vd t = t"
  using assms(1)
proof (induction xs arbitrary: ids)
  case (Cons x xs)
  then show ?case using assms(2) by (auto split: option.splits)
qed simp

lemma five_fields:
  assumes "(case (a, b, c, d, e) of (Some n, Some x, Some y, Some m, Some ids) \<Rightarrow> f n x y m ids | _ \<Rightarrow> None) = Some r"
  obtains n x y m ids where "a = Some n" "b = Some x" "c = Some y" "d = Some m" "e = Some ids" "f n x y m ids = Some r"
  using assms by (cases a; cases b; cases c; cases d; cases e) auto

lemma trimmed_field:
  assumes "(case plain_text k p of None \<Rightarrow> None | Some s \<Rightarrow>
      (let t = vd_trim vd s in if lo \<le> py_len t \<and> py_len t \<le> hi then Some t else None)) = Some t"
    and "\<And>t. vd_trim vd (vd_trim vd t) = vd_trim vd t"
  shows "lo \<le> py_len t \<and> py_len t \<le> hi \<and> vd_trim vd t = t"
  using assms by (auto simp: Let_def split: option.splits if_splits)

lemma validated_spec_normal:
  assumes "validate_key_spec vd v = Some s" and trim: "\<And>t. vd_trim vd (vd_trim vd t) = vd_trim vd t" and nil: "vd_trim vd [] = []"
  shows "spec_normal vd s"
proof -
  obtain p where "v = JObj p" using assms(1) by (auto simp: validate_key_spec_def obj_def split: json.splits)
  with assms(1) obtain n x y m ids where f:
      "(case plain_text ''name'' p of None \<Rightarrow> None | Some s \<Rightarrow>
         (let t = vd_trim vd s in if 1 \<le> py_len t \<and> py_len t \<le> 128 then Some t else None)) = Some n"
      "(if field ''description'' p = None then Some [] else case plain_text ''description'' p of None \<Rightarrow> None | Some s \<Rightarrow>
         (let t = vd_trim vd s in if 0 \<le> py_len t \<and> py_len t \<le> 1024 then Some t else None)) = Some x"
      "(case plain_text ''provider'' p of None \<Rightarrow> None | Some s \<Rightarrow>
         (let t = vd_trim vd s in if 1 \<le> py_len t \<and> py_len t \<le> 128 then Some t else None)) = Some y"
      "(case plain_text ''model'' p of None \<Rightarrow> None | Some s \<Rightarrow>
         (let t = vd_trim vd s in if 1 \<le> py_len t \<and> py_len t \<le> 255 then Some t else None)) = Some m"
      "(if field ''provider_key_ids'' p = None then Some []
        else list_of (\<lambda>j. map_option (vd_trim vd) (json_text j)) (field ''provider_key_ids'' p)) = Some ids"
      "(if forbid_extra [''name'', ''description'', ''provider'', ''model'', ''provider_key_ids''] p \<and>
          length ids \<le> 64 \<and> key_ids_ok ids
        then Some \<lparr>ks_name = n, ks_description = x, ks_provider = y, ks_model = m, ks_key_ids = sort ids\<rparr> else None) = Some s"
    unfolding validate_key_spec_def obj_def Let_def by (simp only: json.case) (erule five_fields, blast)
  have x: "py_len x \<le> 1024 \<and> vd_trim vd x = x"
    using f(2) nil trimmed_field [OF _ trim] by (auto simp: py_len_def split: if_splits)
  have ids: "\<forall>t \<in> set ids. vd_trim vd t = t"
    using f(5) map_opt_trim [OF _ trim] by (auto simp: list_of_def split: if_splits option.splits json.splits)
  have s: "s = \<lparr>ks_name = n, ks_description = x, ks_provider = y, ks_model = m, ks_key_ids = sort ids\<rparr>"
    "length ids \<le> 64" "key_ids_ok (sort ids)" using f(6) by (auto simp: key_ids_ok_def list_all_iff split: if_splits)
  have "map_opt (\<lambda>j. map_option (vd_trim vd) (json_text j)) (map JStr (sort ids)) = Some (sort ids)"
    using ids by (intro map_opt_map) (simp add: json_text_def)
  with trimmed_field [OF f(1) trim] trimmed_field [OF f(3) trim] trimmed_field [OF f(4) trim] x ids s show ?thesis
    by (simp add: spec_normal_def spec_json_def validate_key_spec_def obj_def list_of_def plain_text_def field_def
        forbid_extra_def sorted_sort_id)
qed

text \<open>Staging a change, the claim of its item, and what the worker then loads.\<close>

definition staged_payload :: "(str \<Rightarrow> str) \<Rightarrow> (json \<Rightarrow> str) \<Rightarrow> binding \<Rightarrow> key_spec \<Rightarrow> outbox_payload" where
  "staged_payload sha dumps b s = \<lparr>pl_config_hash = desired_config_hash sha dumps s, pl_binding_version = bd_version b + 1,
     pl_desired = Some s\<rparr>"

lemma payload_reads_back:
  assumes "spec_normal vd s" and "payload_ok p" and "pl_desired p = Some s" and "vd_int vd (JInt (pl_binding_version p)) = Some (pl_binding_version p)"
  shows "validate_payload vd (payload_json p) = Some p"
  using assms
  by (cases p) (simp add: validate_payload_def payload_json_def obj_def plain_text_def int_field_def field_def spec_normal_def
      forbid_extra_def spec_json_def Let_def)

lemma stage_Inr:
  assumes "stage_bifrost_binding_sync uni sha dumps uuid b s action key now d = Inr (item, d')"
  shows "action \<in> {Act_create, Act_update} \<and> payload_ok (staged_payload sha dumps b s) \<and>
    item = new_item uuid (bd_id b) Target_bifrost action key (payload_json (staged_payload sha dumps b s)) now \<and>
    d' = d\<lparr>db_bindings := update_row bd_id (bd_id b) (binding_queued (desired_config_hash sha dumps s) now) (db_bindings d),
           db_outbox := db_outbox d @ [item]\<rparr>"
  using assms
  by (auto simp: stage_bifrost_binding_sync_def queue_binding_sync_def make_payload_def staged_payload_def bind_res_Inr Let_def
      split: if_splits)

lemma claimed_row:
  assumes "db_ok d" and "outbox_claim ww now d = Inr (ids, d')" and "i \<in> set (db_outbox d)" and "ob_id i \<in> set ids"
  shows "find_row ob_id (ob_id i) (db_outbox d') = Some (claimed_item now i) \<and> db_bindings d' = db_bindings d"
proof -
  have d': "d' = d\<lparr>db_outbox := map (\<lambda>i. if ob_id i \<in> set ids then claimed_item now i else i) (db_outbox d)\<rparr>"
    using assms(2) by (auto simp: outbox_claim_def Let_def)
  have "map ob_id (db_outbox d') = map ob_id (db_outbox d)" by (simp add: d' claimed_item_def)
  with items_distinct [OF assms(1)] have "distinct (map ob_id (db_outbox d'))" by (simp only:)
  moreover have "claimed_item now i \<in> set (db_outbox d')" using assms(3,4) by (auto simp: d' image_iff)
  moreover have "ob_id (claimed_item now i) = ob_id i" by (simp add: claimed_item_def)
  ultimately have "find_row ob_id (ob_id i) (db_outbox d') = Some (claimed_item now i)" by (rule find_row_unique)
  then show ?thesis by (simp add: d')
qed

lemma staged_load:
  assumes stage: "commit_tx (stage_bifrost_binding_sync uni sha dumps uuid b s action key now) d = Inr (item, d')"
    and b: "b \<in> set (db_bindings d)" and claim: "outbox_claim ww t d' = Inr (ids, d'')" "uuid \<in> set ids"
    and s: "spec_normal (cd_valid (ww_codec ww)) s" and int: "\<And>n. vd_int (cd_valid (ww_codec ww)) (JInt n) = Some n"
  shows "outbox_load ww uuid d'' =
    Inr (action, binding_queued (desired_config_hash sha dumps s) now b, staged_payload sha dumps b s)"
proof -
  let ?p = "staged_payload sha dumps b s" and ?q = "binding_queued (desired_config_hash sha dumps s) now"
  have ok: "db_ok d'" and p: "payload_ok ?p"
    and item: "item = new_item uuid (bd_id b) Target_bifrost action key (payload_json ?p) now"
    and d': "d' = d\<lparr>db_bindings := update_row bd_id (bd_id b) ?q (db_bindings d), db_outbox := db_outbox d @ [item]\<rparr>"
    using stage stage_Inr [of uni sha dumps uuid b s action key now d item d'] by (auto simp: commit_tx_Inr)
  have id: "bd_id (?q r) = bd_id r" for r by (simp add: binding_queued_def)
  have "distinct (map bd_id (db_bindings d))"
    using ok by (simp add: db_ok_def caller_tables_ok_def d' map_update_row id)
  from find_row_unique [OF this b refl] have found: "find_row bd_id (bd_id b) (db_bindings d') = Some (?q b)"
    by (simp add: d' find_row_update id)
  have "item \<in> set (db_outbox d')" "ob_id item = uuid" by (simp_all add: d' item new_item_def)
  with claimed_row [OF ok claim(1)] claim(2) have row: "find_row ob_id uuid (db_outbox d'') = Some (claimed_item t item)"
    "db_bindings d'' = db_bindings d'" by auto
  have "validate_payload (cd_valid (ww_codec ww)) (payload_json ?p) = Some ?p"
    by (rule payload_reads_back [OF s p]) (simp_all add: staged_payload_def int)
  with row found show ?thesis by (simp add: outbox_load_def claimed_item_def item new_item_def)
qed

subsection \<open>A sample key, staged, created and synchronised\<close>

definition spec_sample :: key_spec where
  "spec_sample = \<lparr>ks_name = ''zangpu-c1'', ks_description = ''d'', ks_provider = ''p'', ks_model = ''m'', ks_key_ids = []\<rparr>"

definition unsynced_binding :: binding where
  "unsynced_binding = sample_binding\<lparr>bd_virtual_key_id := None, bd_value_ciphertext := None, bd_value_key_version := None,
     bd_sync_status := Sync_pending\<rparr>"

definition unsynced_db :: db where
  "unsynced_db = sample_db\<lparr>db_bindings := [unsynced_binding]\<rparr>"

definition plain_uni :: "str \<Rightarrow> str" where
  "plain_uni _ = []"

definition stage_sample :: "outbox_item tx" where
  "stage_sample = stage_bifrost_binding_sync plain_uni (\<lambda>_. ''hash'') (\<lambda>_. []) ''i1'' unsynced_binding spec_sample Act_create ''k1'' 100"

definition staged_db :: db where
  "staged_db = (case stage_sample unsynced_db of Inl _ \<Rightarrow> unsynced_db | Inr (i, d) \<Rightarrow> d)"

text \<open>The upstream knows no key yet and creates the one asked for.\<close>

definition key_sample_json :: json where
  "key_sample_json = JObj [(''id'', JStr ''vk1''), (''name'', JStr ''zangpu-c1''), (''value'', JStr ''sk-1''), (''is_active'', JBool True),
     (''provider_configs'', JList [JObj [(''provider'', JStr ''p''), (''allowed_models'', JList [JStr ''m''])]]), (''config_hash'', JStr ''h'')]"

definition outbox_loads :: "str \<Rightarrow> json option" where
  "outbox_loads t = (if t = ''L''
     then Some (JObj [(''virtual_keys'', JList []), (''count'', JInt 0), (''total_count'', JInt 0), (''limit'', JInt 100), (''offset'', JInt 0)])
     else Some (JObj [(''virtual_key'', key_sample_json)]))"

definition outbox_env :: env where
  "outbox_env = sample_env\<lparr>en_reply := (\<lambda>l. case last l of
     Act_bifrost verb _ _ \<Rightarrow> Http_reply 200 ''application/json'' [if verb = ''GET'' then ''L'' else ''K'']
   | _ \<Rightarrow> Http_timeout)\<rparr>"

definition outbox_sample :: outbox_worker where
  "outbox_sample = \<lparr>ww_max_attempts = 5, ww_base_retry = 1, ww_max_retry = 60, ww_claim_timeout = 300, ww_batch_size = 10,
     ww_crypto = toy_crypto, ww_keyring = auth_keyring,
     ww_codec = \<lparr>cd_loads = outbox_loads, cd_dumps = (\<lambda>_. []), cd_valid = sample_validation\<rparr>,
     ww_write_envelope = (\<lambda>c n. c @ n), ww_nonce = (\<lambda>_. ''abcdefghijkl'')\<rparr>"

definition staged_world :: world where
  "staged_world = \<lparr>wd_db = staged_db, wd_redis = empty_redis, wd_log = []\<rparr>"

definition claimed_db :: db where
  "claimed_db = (case outbox_claim outbox_sample 101 staged_db of Inl _ \<Rightarrow> staged_db | Inr (ids, d) \<Rightarrow> d)"

definition claimed_world :: world where
  "claimed_world = \<lparr>wd_db = claimed_db, wd_redis = empty_redis, wd_log = []\<rparr>"

lemma staged_sample: "stage_sample unsynced_db = Inr (new_item ''i1'' ''b1'' Target_bifrost Act_create ''k1''
    (payload_json (staged_payload (\<lambda>_. ''hash'') (\<lambda>_. []) unsynced_binding spec_sample)) 100, staged_db)"
  by code_simp

lemma claimed_sample: "outbox_claim outbox_sample 101 staged_db = Inr ([''i1''], claimed_db)"
  by code_simp

lemma processed_sample:
  "fst (outbox_process outbox_env outbox_sample 101 ''i1'' claimed_world) = Inr () \<and>
   map bd_sync_status (db_bindings (wd_db (snd (outbox_process outbox_env outbox_sample 101 ''i1'' claimed_world)))) = [Sync_active]"
  by code_simp

lemma staged_ok: "db_ok staged_db"
  by code_simp

lemma claimed_binding: "db_bindings claimed_db = [binding_queued ''hash'' 100 unsynced_binding]"
  by code_simp

subsection \<open>The properties\<close>

text \<open>A desired configuration that was accepted and staged (with its binding moved to the next
  version, in one transaction) is what the worker loads once it has claimed the item: the same
  action, the hash of the configuration, the version of the binding as staging left it, and the
  specification itself.\<close>

theorem staged_change_is_loaded:
  assumes "validate_key_spec (cd_valid (ww_codec ww)) v = Some s"
    and "\<And>t. vd_trim (cd_valid (ww_codec ww)) (vd_trim (cd_valid (ww_codec ww)) t) = vd_trim (cd_valid (ww_codec ww)) t"
    and "vd_trim (cd_valid (ww_codec ww)) [] = []" and "\<And>n. vd_int (cd_valid (ww_codec ww)) (JInt n) = Some n"
    and "commit_tx (stage_bifrost_binding_sync uni sha dumps uuid b s action key now) d = Inr (item, d')"
    and "b \<in> set (db_bindings d)" and "outbox_claim ww t d' = Inr (ids, d'')" and "uuid \<in> set ids"
  shows "outbox_load ww uuid d'' =
    Inr (action, binding_queued (desired_config_hash sha dumps s) now b, staged_payload sha dumps b s)"
  using assms(5-8) validated_spec_normal [OF assms(1-3)] assms(4) by (rule staged_load)

lemma staged_change_is_loaded_witness:
  "outbox_load outbox_sample ''i1'' claimed_db =
    Inr (Act_create, binding_queued ''hash'' 100 unsynced_binding, staged_payload (\<lambda>_. ''hash'') (\<lambda>_. []) unsynced_binding spec_sample)"
proof -
  have "commit_tx stage_sample unsynced_db = Inr (new_item ''i1'' ''b1'' Target_bifrost Act_create ''k1''
      (payload_json (staged_payload (\<lambda>_. ''hash'') (\<lambda>_. []) unsynced_binding spec_sample)) 100, staged_db)"
    using staged_sample staged_ok by (simp add: commit_tx_Inr)
  moreover have "validate_key_spec (cd_valid (ww_codec outbox_sample)) (spec_json spec_sample) = Some spec_sample"
    by code_simp
  moreover have "unsynced_binding \<in> set (db_bindings unsynced_db)" by (simp add: unsynced_db_def)
  ultimately show ?thesis
    using staged_change_is_loaded [of outbox_sample "spec_json spec_sample" spec_sample plain_uni "\<lambda>_. ''hash''" "\<lambda>_. []" "''i1''"
        unsynced_binding Act_create "''k1''" 100 unsynced_db _ staged_db 101 "[''i1'']" claimed_db] claimed_sample
    by (simp add: stage_sample_def outbox_sample_def sample_validation_def desired_config_hash_def)
qed

text \<open>C13: A binding becomes active by the processing of an item only if that item, queued for this binding
  and no disabling, carries the binding's current version and a desired configuration, the upstream
  has shown in this very processing an active key with the desired name, provider and model, and
  the protected value of the key is stored.\<close>

theorem outbox_syncs_desired:
  assumes "outbox_process en ww now k w = (r, w')" and "b' \<in> set (db_bindings (wd_db w'))"
    and "b' \<notin> set (db_bindings (wd_db w))" and "bd_sync_status b' = Sync_active"
  shows "\<exists>i p s st. find_row ob_id k (db_outbox (wd_db w)) = Some i \<and>
    ob_aggregate_id i = bd_id b' \<and> ob_action i \<noteq> Act_disable \<and>
    validate_payload (cd_valid (ww_codec ww)) (ob_payload i) = Some p \<and> pl_binding_version p = bd_version b' \<and>
    pl_desired p = Some s \<and> shown_key en (ww_codec ww) st w w' \<and> verify_desired st s = Inr () \<and>
    binding_remote_fields_complete b'"
  using process_active [OF assms] by (simp add: synced_by_def)

lemma outbox_syncs_desired_witness:
  "\<exists>st w'. shown_key outbox_env (ww_codec outbox_sample) st claimed_world w' \<and> kt_name st = ''zangpu-c1'' \<and> kt_active st"
proof -
  obtain r w' where run: "outbox_process outbox_env outbox_sample 101 ''i1'' claimed_world = (r, w')" by fastforce
  with processed_sample have "map bd_sync_status (db_bindings (wd_db w')) = [Sync_active]" by simp
  then obtain b' where b': "b' \<in> set (db_bindings (wd_db w'))" "bd_sync_status b' = Sync_active" by auto
  moreover have "b' \<notin> set (db_bindings (wd_db claimed_world))"
    using b'(2) by (auto simp: claimed_world_def claimed_binding binding_queued_def)
  ultimately obtain i p s st where h: "find_row ob_id ''i1'' (db_outbox (wd_db claimed_world)) = Some i"
      "validate_payload (cd_valid (ww_codec outbox_sample)) (ob_payload i) = Some p" "pl_desired p = Some s"
      "shown_key outbox_env (ww_codec outbox_sample) st claimed_world w'" "verify_desired st s = Inr ()"
    using outbox_syncs_desired [OF run b'(1) _ b'(2)] by blast
  have "map_option (\<lambda>i. map_option pl_desired (validate_payload (cd_valid (ww_codec outbox_sample)) (ob_payload i)))
      (find_row ob_id ''i1'' (db_outbox (wd_db claimed_world))) = Some (Some (Some spec_sample))" by code_simp
  with h(1-3) have "s = spec_sample" by simp
  with h(4,5) show ?thesis by (auto simp: verify_desired_def spec_sample_def split: if_splits)
qed



end
