(* ===== verification/Audits.thy ===== *)
theory Audits
  imports Auth
begin

text \<open>
  The administrator audit, \<open>backend/app/models/audits.py\<close>: bounded summaries of flat values under
  names that are not sensitive, checked when a record is made and again when it is inserted.
  Records are only appended; the ORM refuses to change or delete them.
\<close>

definition SENSITIVE_AUDIT_TOKENS :: "str list" where
  "SENSITIVE_AUDIT_TOKENS = [''authorization'', ''body'', ''ciphertext'', ''nonce'', ''prompt'', ''query'', ''secret'', ''signature'']"

definition SENSITIVE_AUDIT_FRAGMENTS :: "str list" where
  "SENSITIVE_AUDIT_FRAGMENTS = [''answer'', ''authorization'', ''bifrost_value'', ''body'', ''ciphertext'', ''nonce'', ''prompt'',
     ''query'', ''raw_error'', ''raw_response'', ''secret'', ''signature'', ''upstream_error'', ''x_bf_vk'']"

definition AUDIT_MAX_FIELDS :: nat where
  "AUDIT_MAX_FIELDS = 64"

definition AUDIT_MAX_LIST_ITEMS :: nat where
  "AUDIT_MAX_LIST_ITEMS = 256"

definition AUDIT_MAX_VALUE_LENGTH :: nat where
  "AUDIT_MAX_VALUE_LENGTH = 512"

text \<open>\<open>uni\<close> is the Unicode table of the runtime: the lower-case form of a code point outside ASCII
  when it is alphanumeric, nothing otherwise.\<close>

definition normalized_field_name :: "(str \<Rightarrow> str) \<Rightarrow> str \<Rightarrow> str" where
  "normalized_field_name uni field_name = join_on CHR ''_'' (filter (\<lambda>word. word \<noteq> []) (split_on CHR '' ''
     (concat (map (\<lambda>p. case p of
          [c] \<Rightarrow> [if is_alnum c then lower_char c else CHR '' '']
        | _ \<Rightarrow> (if uni p = [] then '' '' else uni p)) (code_points field_name)))))"

definition audit_field_is_sensitive :: "(str \<Rightarrow> str) \<Rightarrow> str \<Rightarrow> bool" where
  "audit_field_is_sensitive uni field_name = (let normalized = normalized_field_name uni field_name in
     list_ex (\<lambda>t. t \<in> set SENSITIVE_AUDIT_TOKENS) (split_on CHR ''_'' normalized) \<or>
     list_ex (\<lambda>fragment. contains fragment normalized) SENSITIVE_AUDIT_FRAGMENTS)"

definition validate_summary_scalar :: "json \<Rightarrow> json res" where
  "validate_summary_scalar value = (case value of
     JNull \<Rightarrow> Inr value | JBool _ \<Rightarrow> Inr value | JInt _ \<Rightarrow> Inr value
   | JFloat f \<Rightarrow> if f = Non_finite then Inl (ValueError ''non-finite number'') else Inr value
   | JStr s \<Rightarrow> if AUDIT_MAX_VALUE_LENGTH < py_len s then Inl (ValueError ''oversized value'') else Inr value
   | _ \<Rightarrow> Inl (ValueError ''flat JSON scalar values''))"

definition validate_summary_value :: "json \<Rightarrow> json res" where
  "validate_summary_value value = (case value of
     JList xs \<Rightarrow> if AUDIT_MAX_LIST_ITEMS < length xs then Inl (ValueError ''oversized list'')
       else bind_res (map_res validate_summary_scalar xs) (\<lambda>ys. Inr (JList ys))
   | _ \<Rightarrow> validate_summary_scalar value)"

definition validate_summary_item :: "(str \<Rightarrow> str) \<Rightarrow> str \<times> json \<Rightarrow> (str \<times> json) res" where
  "validate_summary_item uni item = (case item of (key, value) \<Rightarrow>
     if key = [] \<or> 64 < py_len key then Inl (ValueError ''invalid field name'')
     else if audit_field_is_sensitive uni key then Inl (ValueError ''sensitive field'')
     else bind_res (validate_summary_value value) (\<lambda>v. Inr (key, v)))"

text \<open>A summary is a dictionary: an association list with distinct keys, sorted by key on return.\<close>

definition validate_audit_summary :: "(str \<Rightarrow> str) \<Rightarrow> (str \<times> json) list \<Rightarrow> (str \<times> json) list res" where
  "validate_audit_summary uni value =
    (if AUDIT_MAX_FIELDS < length value then Inl (ValueError ''bounded object'')
     else bind_res (map_res (validate_summary_item uni) value) (\<lambda>items. Inr (sort_key fst items)))"

definition validate_changed_fields :: "(str \<Rightarrow> str) \<Rightarrow> str list \<Rightarrow> str list res" where
  "validate_changed_fields uni value =
    bind_res (validate_string_set None (int AUDIT_MAX_FIELDS) 64 value) (\<lambda>names.
      if list_ex (audit_field_is_sensitive uni) names then Inl (ValueError ''sensitive field'') else Inr names)"

text \<open>The record: its attributes are validated in the order of the constructor's arguments.\<close>

definition admin_audit :: "(str \<Rightarrow> str) \<Rightarrow> str \<Rightarrow> str \<Rightarrow> str option \<Rightarrow> str \<Rightarrow> str \<Rightarrow> str \<Rightarrow> str list \<Rightarrow> (str \<times> json) list \<Rightarrow>
    (str \<times> json) list \<Rightarrow> int \<Rightarrow> audit res" where
  "admin_audit uni uuid actor_id client_id target_type target_id action changed_fields before_summary after_summary now =
    (if target_type \<notin> set AUDIT_TARGET_TYPES then Inl (ValueError ''unsupported audit target type'')
     else if action = [] \<or> 64 < py_len action then Inl (ValueError ''audit action'')
     else bind_res (validate_changed_fields uni changed_fields) (\<lambda>names.
       bind_res (validate_audit_summary uni before_summary) (\<lambda>b.
       bind_res (validate_audit_summary uni after_summary) (\<lambda>a.
         Inr \<lparr>au_id = uuid, au_actor = actor_id, au_client = client_id, au_target_type = target_type,
              au_target_id = Some target_id, au_action = action, au_changed_fields = names,
              au_before = b, au_after = a, au_created_at = now\<rparr>))))"

text \<open>The check before an insert, and the insert.\<close>

definition insert_audit :: "audit \<Rightarrow> unit tx" where
  "insert_audit a d =
    (if \<not> set (map fst (au_before a)) \<union> set (map fst (au_after a)) \<subseteq> set (au_changed_fields a)
       then Inl (ValueError ''audit summary fields must be included in changed_fields'')
     else Inr ((), d\<lparr>db_audits := db_audits d @ [a]\<rparr>))"

definition add_audit :: "audit res \<Rightarrow> unit tx" where
  "add_audit r d = bind_res r (\<lambda>a. insert_audit a d)"

subsection \<open>Reading a successful audit back\<close>

lemma admin_audit_Inr:
  assumes "admin_audit uni uuid actor client tt ti action names bef aft now = Inr a"
  shows "au_id a = uuid \<and> au_actor a = actor \<and> au_client a = client \<and> au_target_type a = tt \<and>
    au_target_id a = Some ti \<and> au_action a = action \<and> set (au_changed_fields a) = set names \<and> au_created_at a = now"
  using assms
  by (auto simp: admin_audit_def validate_changed_fields_def bind_res_Inr dest: validate_string_set_Inr(1) split: if_splits)

lemma add_audit_Inr: "add_audit r d = Inr (u, d') \<Longrightarrow> \<exists>a. r = Inr a \<and> d' = d\<lparr>db_audits := db_audits d @ [a]\<rparr>"
  by (auto simp: add_audit_def insert_audit_def bind_res_Inr split: if_splits)

lemma list_all2_member: "list_all2 P xs ys \<Longrightarrow> x \<in> set xs \<Longrightarrow> \<exists>y. P x y"
  by (induction rule: list_all2_induct) auto

lemma long_text_refused:
  assumes "(k, JStr s) \<in> set pairs" and "512 < py_len s"
  shows "\<nexists>x. validate_audit_summary uni pairs = Inr x"
proof
  assume "\<exists>x. validate_audit_summary uni pairs = Inr x"
  then obtain ys where "list_all2 (\<lambda>x y. validate_summary_item uni x = Inr y) pairs ys"
    by (auto simp: validate_audit_summary_def bind_res_Inr map_res_Inr split: if_splits)
  from list_all2_member [OF this assms(1)] obtain y where "validate_summary_item uni (k, JStr s) = Inr y" ..
  moreover have "validate_summary_value (JStr s) = Inl (ValueError ''oversized value'')"
    using assms(2) by (simp add: validate_summary_value_def validate_summary_scalar_def AUDIT_MAX_VALUE_LENGTH_def)
  ultimately show False by (simp add: validate_summary_item_def split: if_splits)
qed

end
