(* ===== verification/Admin.thy ===== *)
theory Admin
  imports Outbox Audits "HOL-Library.Monad_Syntax"
begin

text \<open>
  The administrator's operations on callers, \<open>backend/app/services/admin.py\<close>: the two request
  models, the summaries of a caller, and the operations, each one transaction. What the ORM does
  is written out: attributes are validated when they are set, a query of a relationship first
  flushes what is pending, and every flush checks the constraints.
\<close>

subsection \<open>Validation\<close>

definition trimmed_text :: "validation \<Rightarrow> nat \<Rightarrow> nat \<Rightarrow> json \<Rightarrow> str option" where
  "trimmed_text vd lo hi v = (case v of
     JStr s \<Rightarrow> (let t = vd_trim vd s in if lo \<le> py_len t \<and> py_len t \<le> hi then Some t else None) | _ \<Rightarrow> None)"

definition bounded_int :: "validation \<Rightarrow> int \<Rightarrow> int \<Rightarrow> json \<Rightarrow> int option" where
  "bounded_int vd lo hi v = (case vd_int vd v of Some n \<Rightarrow> if lo \<le> n \<and> n \<le> hi then Some n else None | None \<Rightarrow> None)"

definition text_list :: "validation \<Rightarrow> nat \<Rightarrow> nat \<Rightarrow> json \<Rightarrow> str list option" where
  "text_list vd lo hi v = (case v of
     JList xs \<Rightarrow> if lo \<le> length xs \<and> length xs \<le> hi then map_opt (\<lambda>j. map_option (vd_trim vd) (json_text j)) xs else None
   | _ \<Rightarrow> None)"

definition given :: "'a option \<Rightarrow> (json \<Rightarrow> 'a option) \<Rightarrow> str \<Rightarrow> (str \<times> json) list \<Rightarrow> 'a option" where
  "given absent f k pairs = (case field k pairs of None \<Rightarrow> absent | Some j \<Rightarrow> f j)"

definition nullable :: "(json \<Rightarrow> 'a option) \<Rightarrow> json \<Rightarrow> 'a option option" where
  "nullable f v = (if v = JNull then Some None else map_option Some (f v))"

definition ok_opt :: "'a res \<Rightarrow> 'a option" where
  "ok_opt r = (case r of Inl _ \<Rightarrow> None | Inr x \<Rightarrow> Some x)"

text \<open>A list of strings after the field validator.\<close>

definition string_set :: "validation \<Rightarrow> str list option \<Rightarrow> nat \<Rightarrow> nat \<Rightarrow> json \<Rightarrow> str list option" where
  "string_set vd allowed lo hi v = do {
     xs \<leftarrow> text_list vd lo hi v;
     ok_opt (validate_string_set allowed (int hi) 255 xs) }"

record create_request =
  nc_name :: str
  nc_description :: "str option"
  nc_service_user_id :: str
  nc_provider :: str
  nc_model :: str
  nc_allowed_endpoints :: "str list"
  nc_allowed_models :: "str list"
  nc_group_ids :: "str list"
  nc_qps_limit :: int
  nc_concurrency_limit :: int
  nc_daily_request_limit :: "int option"
  nc_daily_token_limit :: "int option"
  nc_total_request_limit :: "int option"
  nc_total_token_limit :: "int option"
  nc_max_output_tokens :: int

definition CREATE_FIELDS :: "str list" where
  "CREATE_FIELDS = [''name'', ''description'', ''service_user_id'', ''provider'', ''model'', ''allowed_endpoints'', ''allowed_models'',
     ''group_ids'', ''qps_limit'', ''concurrency_limit'', ''daily_request_limit'', ''daily_token_limit'', ''total_request_limit'',
     ''total_token_limit'', ''max_output_tokens_per_request'']"

definition validate_create_request :: "validation \<Rightarrow> json \<Rightarrow> create_request option" where
  "validate_create_request vd = obj (\<lambda>p. do {
     name \<leftarrow> given None (trimmed_text vd 1 128) ''name'' p;
     description \<leftarrow> given (Some None) (nullable (trimmed_text vd 0 1024)) ''description'' p;
     service_user \<leftarrow> given None (trimmed_text vd 1 128) ''service_user_id'' p;
     provider \<leftarrow> given None (trimmed_text vd 1 128) ''provider'' p;
     model \<leftarrow> given None (trimmed_text vd 1 255) ''model'' p;
     endpoints \<leftarrow> given (Some [''chat.completions'']) (string_set vd (Some ENDPOINT_PERMISSIONS) 0 (length ENDPOINT_PERMISSIONS))
       ''allowed_endpoints'' p;
     models \<leftarrow> given None (string_set vd None 1 256) ''allowed_models'' p;
     groups \<leftarrow> given (Some []) (string_set vd None 0 256) ''group_ids'' p;
     qps \<leftarrow> given (Some 10) (bounded_int vd 1 100000) ''qps_limit'' p;
     concurrency \<leftarrow> given (Some 2) (bounded_int vd 1 10000) ''concurrency_limit'' p;
     daily_requests \<leftarrow> given (Some None) (nullable (bounded_int vd 1 SIGNED_BIGINT_MAX)) ''daily_request_limit'' p;
     daily_tokens \<leftarrow> given (Some None) (nullable (bounded_int vd 1 SIGNED_BIGINT_MAX)) ''daily_token_limit'' p;
     total_requests \<leftarrow> given (Some None) (nullable (bounded_int vd 1 SIGNED_BIGINT_MAX)) ''total_request_limit'' p;
     total_tokens \<leftarrow> given (Some None) (nullable (bounded_int vd 1 SIGNED_BIGINT_MAX)) ''total_token_limit'' p;
     max_output \<leftarrow> given (Some 4096) (bounded_int vd 1 1000000) ''max_output_tokens_per_request'' p;
     (if forbid_extra CREATE_FIELDS p \<and> model \<in> set models
      then Some \<lparr>nc_name = name, nc_description = description, nc_service_user_id = service_user, nc_provider = provider,
             nc_model = model, nc_allowed_endpoints = endpoints, nc_allowed_models = models, nc_group_ids = groups,
             nc_qps_limit = qps, nc_concurrency_limit = concurrency, nc_daily_request_limit = daily_requests,
             nc_daily_token_limit = daily_tokens, nc_total_request_limit = total_requests,
             nc_total_token_limit = total_tokens, nc_max_output_tokens = max_output\<rparr>
      else None) })"

text \<open>A patch: the expected version and the fields that are set, with their validated values, in the
  order in which the update visits them.\<close>

record patch_request =
  pt_expected_version :: int
  pt_set :: "(str \<times> json) list"

definition PATCH_FIELDS :: "str list" where
  "PATCH_FIELDS = [''name'', ''description'', ''allowed_endpoints'', ''allowed_models'', ''group_ids'', ''qps_limit'',
     ''concurrency_limit'', ''daily_request_limit'', ''daily_token_limit'', ''total_request_limit'', ''total_token_limit'',
     ''max_output_tokens_per_request'']"

definition NULLABLE_FIELDS :: "str list" where
  "NULLABLE_FIELDS = [''description'', ''daily_request_limit'', ''daily_token_limit'', ''total_request_limit'', ''total_token_limit'']"

definition strings_json :: "str list \<Rightarrow> json" where
  "strings_json xs = JList (map JStr xs)"

definition patch_value :: "validation \<Rightarrow> str \<Rightarrow> json \<Rightarrow> json option" where
  "patch_value vd k v =
    (if v = JNull then (if k \<in> set NULLABLE_FIELDS then Some JNull else None)
     else if k = ''name'' then map_option JStr (trimmed_text vd 1 128 v)
     else if k = ''description'' then map_option JStr (trimmed_text vd 0 1024 v)
     else if k = ''allowed_endpoints''
       then map_option strings_json (string_set vd (Some ENDPOINT_PERMISSIONS) 0 (length ENDPOINT_PERMISSIONS) v)
     else if k = ''allowed_models'' then map_option strings_json (string_set vd None 1 256 v)
     else if k = ''group_ids'' then map_option strings_json (string_set vd None 0 256 v)
     else if k = ''qps_limit'' then map_option JInt (bounded_int vd 1 100000 v)
     else if k = ''concurrency_limit'' then map_option JInt (bounded_int vd 1 10000 v)
     else if k = ''max_output_tokens_per_request'' then map_option JInt (bounded_int vd 1 1000000 v)
     else map_option JInt (bounded_int vd 1 SIGNED_BIGINT_MAX v))"

fun set_fields :: "validation \<Rightarrow> (str \<times> json) list \<Rightarrow> str list \<Rightarrow> (str \<times> json) list option" where
  "set_fields vd p [] = Some []"
| "set_fields vd p (k # ks) = (case field k p of
     None \<Rightarrow> set_fields vd p ks
   | Some j \<Rightarrow> do { v \<leftarrow> patch_value vd k j; rest \<leftarrow> set_fields vd p ks; Some ((k, v) # rest) })"

definition validate_patch_request :: "validation \<Rightarrow> json \<Rightarrow> patch_request option" where
  "validate_patch_request vd = obj (\<lambda>p. do {
     version \<leftarrow> int_field vd (\<lambda>n. 0 < n) ''expected_version'' p;
     items \<leftarrow> set_fields vd p PATCH_FIELDS;
     (if forbid_extra (''expected_version'' # PATCH_FIELDS) p
      then Some \<lparr>pt_expected_version = version, pt_set = items\<rparr> else None) })"

subsection \<open>Summaries\<close>

record client_summary =
  cl_id :: str
  cl_name :: str
  cl_description :: "str option"
  cl_status :: client_status
  cl_allowed_endpoints :: "str list"
  cl_allowed_models :: "str list"
  cl_group_ids :: "str list"
  cl_qps_limit :: int
  cl_concurrency_limit :: int
  cl_daily_request_limit :: "int option"
  cl_daily_token_limit :: "int option"
  cl_total_request_limit :: "int option"
  cl_total_token_limit :: "int option"
  cl_max_output_tokens :: int
  cl_version :: int
  cl_created_at :: int
  cl_updated_at :: int

definition summary_of_client :: "api_client \<Rightarrow> client_summary" where
  "summary_of_client c = \<lparr>cl_id = ac_id c, cl_name = ac_name c, cl_description = ac_description c, cl_status = ac_status c,
     cl_allowed_endpoints = ac_allowed_endpoints c, cl_allowed_models = ac_allowed_models c, cl_group_ids = ac_group_ids c,
     cl_qps_limit = ac_qps_limit c, cl_concurrency_limit = ac_concurrency_limit c,
     cl_daily_request_limit = ac_daily_request_limit c, cl_daily_token_limit = ac_daily_token_limit c,
     cl_total_request_limit = ac_total_request_limit c, cl_total_token_limit = ac_total_token_limit c,
     cl_max_output_tokens = ac_max_output_tokens c, cl_version = ac_version c, cl_created_at = ac_created_at c,
     cl_updated_at = ac_updated_at c\<rparr>"

record credential_summary =
  kd_id :: str
  kd_client :: str
  kd_key_id :: str
  kd_status :: credential_status
  kd_expires_at :: "int option"
  kd_last_used_at :: "int option"
  kd_replaced_by :: "str option"
  kd_created_at :: int
  kd_revoked_at :: "int option"

definition summary_of_credential :: "credential \<Rightarrow> credential_summary" where
  "summary_of_credential c = \<lparr>kd_id = cr_id c, kd_client = cr_client c, kd_key_id = cr_key_id c, kd_status = cr_status c,
     kd_expires_at = cr_expires_at c, kd_last_used_at = cr_last_used_at c, kd_replaced_by = cr_replaced_by c,
     kd_created_at = cr_created_at c, kd_revoked_at = cr_revoked_at c\<rparr>"

record binding_summary =
  bs_id :: str
  bs_client :: str
  bs_service_user_id :: "str option"
  bs_virtual_key_id :: "str option"
  bs_config_hash :: str
  bs_sync_status :: sync_status
  bs_last_error :: "str option"
  bs_version :: int
  bs_created_at :: int
  bs_updated_at :: int

definition summary_of_binding :: "binding \<Rightarrow> binding_summary" where
  "summary_of_binding b = \<lparr>bs_id = bd_id b, bs_client = bd_client b, bs_service_user_id = bd_service_user_id b,
     bs_virtual_key_id = bd_virtual_key_id b, bs_config_hash = bd_config_hash b, bs_sync_status = bd_sync_status b,
     bs_last_error = bd_last_error b, bs_version = bd_version b, bs_created_at = bd_created_at b,
     bs_updated_at = bd_updated_at b\<rparr>"

record caller_detail =
  dt_client :: client_summary
  dt_credentials :: "credential_summary list"
  dt_binding :: "binding_summary option"

definition detail_of :: "db \<Rightarrow> api_client \<Rightarrow> caller_detail" where
  "detail_of d c = \<lparr>dt_client = summary_of_client c,
     dt_credentials = map summary_of_credential (filter (\<lambda>k. cr_client k = ac_id c) (db_credentials d)),
     dt_binding = map_option summary_of_binding (find_row bd_client (ac_id c) (db_bindings d))\<rparr>"

record create_result =
  nr_client :: client_summary
  nr_credential :: credential_summary
  nr_binding :: binding_summary
  nr_outbox_id :: str
  nr_secret :: "str option"

record issue_result =
  ir_credential :: credential_summary
  ir_secret :: "str option"

subsection \<open>The service\<close>

text \<open>What the service is given, and the fresh identifiers of one operation.\<close>

record admin_service =
  as_crypto :: crypto
  as_keyring :: keyring
  as_unicode :: "str \<Rightarrow> str"
  as_dumps :: "json \<Rightarrow> str"
  as_valid :: validation

record admin_fresh =
  af_client :: str
  af_credential :: fresh
  af_binding :: str
  af_outbox :: str
  af_audit :: str

definition flush :: "db \<Rightarrow> db res" where
  "flush d = (if db_ok d then Inr d else Inl IntegrityError)"

definition caller_not_found :: exn where
  "caller_not_found = AdminCallerNotFound ''caller was not found''"

definition admin_idempotency_key :: "(str \<Rightarrow> str) \<Rightarrow> str \<Rightarrow> str \<Rightarrow> str \<Rightarrow> str res" where
  "admin_idempotency_key sha action actor_id supplied =
    (if supplied = [] \<or> 128 < py_len supplied then Inl (ValueError ''administrator idempotency key is invalid'')
     else Inr (''admin:'' @ sha (join_on nl [action, actor_id, supplied])))"

definition write_audit :: "admin_service \<Rightarrow> str \<Rightarrow> str \<Rightarrow> str \<Rightarrow> str \<Rightarrow> str list \<Rightarrow> (str \<times> json) list \<Rightarrow> (str \<times> json) list \<Rightarrow>
    str option \<Rightarrow> int \<Rightarrow> unit tx" where
  "write_audit s uuid actor_id client_id action changed_fields before_summary after_summary target_id now =
    add_audit (admin_audit (as_unicode s) uuid actor_id (Some client_id)
      (if take 7 action = ''caller.'' then ''client'' else ''credential'')
      (case target_id of None \<Rightarrow> client_id | Some t \<Rightarrow> if t = [] then client_id else t)
      action changed_fields before_summary after_summary now)"

definition text_json :: "str option \<Rightarrow> json" where
  "text_json v = (case v of None \<Rightarrow> JNull | Some s \<Rightarrow> JStr s)"

definition int_json :: "int option \<Rightarrow> json" where
  "int_json v = (case v of None \<Rightarrow> JNull | Some n \<Rightarrow> JInt n)"

definition client_status_json :: "client_status \<Rightarrow> json" where
  "client_status_json st = JStr (case st of Client_active \<Rightarrow> ''active'' | Client_disabled \<Rightarrow> ''disabled'' | Client_archived \<Rightarrow> ''archived'')"

text \<open>\<open>getattr\<close> and \<open>setattr\<close> of the fields a patch may name; the list columns validate what is
  stored in them.\<close>

definition client_field :: "api_client \<Rightarrow> str \<Rightarrow> json" where
  "client_field c k =
    (if k = ''name'' then JStr (ac_name c) else if k = ''description'' then text_json (ac_description c)
     else if k = ''allowed_endpoints'' then strings_json (ac_allowed_endpoints c)
     else if k = ''allowed_models'' then strings_json (ac_allowed_models c)
     else if k = ''group_ids'' then strings_json (ac_group_ids c)
     else if k = ''qps_limit'' then JInt (ac_qps_limit c)
     else if k = ''concurrency_limit'' then JInt (ac_concurrency_limit c)
     else if k = ''daily_request_limit'' then int_json (ac_daily_request_limit c)
     else if k = ''daily_token_limit'' then int_json (ac_daily_token_limit c)
     else if k = ''total_request_limit'' then int_json (ac_total_request_limit c)
     else if k = ''total_token_limit'' then int_json (ac_total_token_limit c)
     else JInt (ac_max_output_tokens c))"

definition json_strings :: "json \<Rightarrow> str list" where
  "json_strings v = (case v of JList xs \<Rightarrow> map (\<lambda>j. case j of JStr s \<Rightarrow> s | _ \<Rightarrow> []) xs | _ \<Rightarrow> [])"

definition json_int_opt :: "json \<Rightarrow> int option" where
  "json_int_opt v = (case v of JInt n \<Rightarrow> Some n | _ \<Rightarrow> None)"

definition json_int :: "json \<Rightarrow> int" where
  "json_int v = (case v of JInt n \<Rightarrow> n | _ \<Rightarrow> 0)"

definition validate_sets :: "str \<Rightarrow> str list \<Rightarrow> str list res" where
  "validate_sets key vs =
    (if key = ''allowed_endpoints''
     then validate_string_set (Some ENDPOINT_PERMISSIONS) (int (length ENDPOINT_PERMISSIONS)) 255 vs
     else validate_string_set None 256 255 vs)"

definition set_client_field :: "str \<Rightarrow> json \<Rightarrow> api_client \<Rightarrow> api_client res" where
  "set_client_field k v c =
    (if k = ''name'' then Inr (c\<lparr>ac_name := the (json_text v)\<rparr>)
     else if k = ''description'' then Inr (c\<lparr>ac_description := json_text v\<rparr>)
     else if k = ''allowed_endpoints'' then bind_res (validate_sets k (json_strings v)) (\<lambda>xs. Inr (c\<lparr>ac_allowed_endpoints := xs\<rparr>))
     else if k = ''allowed_models'' then bind_res (validate_sets k (json_strings v)) (\<lambda>xs. Inr (c\<lparr>ac_allowed_models := xs\<rparr>))
     else if k = ''group_ids'' then bind_res (validate_sets k (json_strings v)) (\<lambda>xs. Inr (c\<lparr>ac_group_ids := xs\<rparr>))
     else if k = ''qps_limit'' then Inr (c\<lparr>ac_qps_limit := json_int v\<rparr>)
     else if k = ''concurrency_limit'' then Inr (c\<lparr>ac_concurrency_limit := json_int v\<rparr>)
     else if k = ''daily_request_limit'' then Inr (c\<lparr>ac_daily_request_limit := json_int_opt v\<rparr>)
     else if k = ''daily_token_limit'' then Inr (c\<lparr>ac_daily_token_limit := json_int_opt v\<rparr>)
     else if k = ''total_request_limit'' then Inr (c\<lparr>ac_total_request_limit := json_int_opt v\<rparr>)
     else if k = ''total_token_limit'' then Inr (c\<lparr>ac_total_token_limit := json_int_opt v\<rparr>)
     else Inr (c\<lparr>ac_max_output_tokens := json_int v\<rparr>))"

subsection \<open>Creating a caller\<close>

definition new_client :: "str \<Rightarrow> create_request \<Rightarrow> str \<Rightarrow> int \<Rightarrow> api_client res" where
  "new_client uuid q actor_id now =
    bind_res (validate_sets ''allowed_endpoints'' (nc_allowed_endpoints q)) (\<lambda>endpoints.
    bind_res (validate_sets ''allowed_models'' (nc_allowed_models q)) (\<lambda>models.
    bind_res (validate_sets ''group_ids'' (nc_group_ids q)) (\<lambda>groups.
      Inr \<lparr>ac_id = uuid, ac_name = nc_name q, ac_description = nc_description q, ac_status = Client_active,
        ac_allowed_endpoints = endpoints, ac_allowed_models = models, ac_group_ids = groups,
        ac_qps_limit = nc_qps_limit q, ac_concurrency_limit = nc_concurrency_limit q,
        ac_daily_request_limit = nc_daily_request_limit q, ac_daily_token_limit = nc_daily_token_limit q,
        ac_total_request_limit = nc_total_request_limit q, ac_total_token_limit = nc_total_token_limit q,
        ac_max_output_tokens = nc_max_output_tokens q, ac_version = 1, ac_created_by = actor_id,
        ac_updated_by = actor_id, ac_created_at = now, ac_updated_at = now, ac_disabled_at = None,
        ac_archived_at = None\<rparr>)))"

definition caller_key_spec :: "validation \<Rightarrow> str \<Rightarrow> create_request \<Rightarrow> key_spec res" where
  "caller_key_spec vd client_id q =
    (case validate_key_spec vd (JObj [(''name'', JStr (''zangpu-'' @ client_id)),
        (''description'', JStr (if filled (nc_description q) then the (nc_description q) else ''Managed by Zangpu control plane'')),
        (''provider'', JStr (nc_provider q)), (''model'', JStr (nc_model q))]) of
      None \<Rightarrow> Inl (ValueError ''VirtualKeySpec'') | Some s \<Rightarrow> Inr s)"

definition new_binding :: "str \<Rightarrow> str \<Rightarrow> str \<Rightarrow> str \<Rightarrow> int \<Rightarrow> binding" where
  "new_binding uuid client_id service_user_id config_hash now =
    \<lparr>bd_id = uuid, bd_client = client_id, bd_service_user_id = Some service_user_id, bd_virtual_key_id = None,
     bd_value_ciphertext = None, bd_value_key_version = None, bd_config_hash = config_hash, bd_sync_status = Sync_pending,
     bd_last_error = None, bd_version = 1, bd_created_at = now, bd_updated_at = now\<rparr>"

definition created_summary :: "api_client \<Rightarrow> (str \<times> json) list" where
  "created_summary c = map (\<lambda>k. (k, client_field c k)) PATCH_FIELDS @ [(''status'', client_status_json (ac_status c))]"

definition create_caller :: "admin_service \<Rightarrow> admin_fresh \<Rightarrow> create_request \<Rightarrow> str \<Rightarrow> str \<Rightarrow> int \<Rightarrow> create_result tx" where
  "create_caller s f q actor_id supplied now d =
    bind_res (new_client (af_client f) q actor_id now) (\<lambda>c.
    bind_res (flush (d\<lparr>db_clients := db_clients d @ [c]\<rparr>)) (\<lambda>d1.
    bind_res (create_protected_credential (as_crypto s) (as_keyring s) (af_credential f) (ac_id c) actor_id None None now None) (\<lambda>r.
    bind_res (caller_key_spec (as_valid s) (ac_id c) q) (\<lambda>spec.
    let b = new_binding (af_binding f) (ac_id c) (nc_service_user_id q)
          (desired_config_hash (cy_sha (as_crypto s)) (as_dumps s) spec) now;
        d2 = d1\<lparr>db_credentials := db_credentials d1 @ [cn_credential r], db_bindings := db_bindings d1 @ [b]\<rparr> in
    bind_res (admin_idempotency_key (cy_sha (as_crypto s)) ''create'' actor_id supplied) (\<lambda>key.
    bind_res (stage_bifrost_binding_sync (as_unicode s) (cy_sha (as_crypto s)) (as_dumps s) (af_outbox f) b spec Act_create key now d2)
      (\<lambda>(item, d3).
    bind_res (write_audit s (af_audit f) actor_id (ac_id c) ''caller.created'' (PATCH_FIELDS @ [''status'']) []
        (created_summary c) None now d3) (\<lambda>(_, d4).
    bind_res (flush d4) (\<lambda>d5.
    bind_res (fst (take_secret r)) (\<lambda>secret.
      Inr (\<lparr>nr_client = summary_of_client c, nr_credential = summary_of_credential (cn_credential r),
            nr_binding = summary_of_binding (binding_queued (bd_config_hash b) now b), nr_outbox_id = ob_id item,
            nr_secret = Some secret\<rparr>, d5))))))))))"

subsection \<open>Reading callers\<close>

definition get_caller :: "str \<Rightarrow> db \<Rightarrow> caller_detail res" where
  "get_caller client_id d = (case find_row ac_id client_id (db_clients d) of
     None \<Rightarrow> Inl caller_not_found | Some c \<Rightarrow> Inr (detail_of d c))"

definition list_callers :: "int \<Rightarrow> int \<Rightarrow> db \<Rightarrow> caller_detail list res" where
  "list_callers offset limit d =
    (if offset < 0 \<or> \<not> (1 \<le> limit \<and> limit \<le> 100) then Inl (ValueError ''pagination bounds are invalid'')
     else Inr (map (detail_of d) (take (nat limit) (drop (nat offset)
       (sort_key (\<lambda>c. (ac_name c, ac_id c)) (db_clients d))))))"

subsection \<open>Changing callers\<close>

definition disable_caller :: "admin_service \<Rightarrow> admin_fresh \<Rightarrow> str \<Rightarrow> str \<Rightarrow> str \<Rightarrow> int \<Rightarrow> caller_detail tx" where
  "disable_caller s f client_id actor_id supplied now d = (case find_row ac_id client_id (db_clients d) of
     None \<Rightarrow> Inl caller_not_found
   | Some c \<Rightarrow>
       if ac_status c = Client_disabled then Inr (detail_of d c, d)
       else if ac_status c \<noteq> Client_active then Inl (AdminCallerStateError ''only active callers can be disabled'')
       else (case find_row bd_client (ac_id c) (db_bindings d) of
           None \<Rightarrow> Inl (AdminCallerStateError ''caller binding is not configured'')
         | Some b \<Rightarrow>
             bind_res (admin_idempotency_key (cy_sha (as_crypto s)) ''disable'' actor_id supplied) (\<lambda>key.
             bind_res (stage_local_client_disable (as_unicode s) (af_outbox f) c b actor_id key now d) (\<lambda>(item, d1).
             bind_res (write_audit s (af_audit f) actor_id (ac_id c) ''caller.disabled'' [''status'', ''credentials'']
                 [(''status'', JStr ''active''), (''credentials'', JStr ''active'')]
                 [(''status'', JStr ''disabled''), (''credentials'', JStr ''revoked'')] None now d1) (\<lambda>(_, d2).
             bind_res (flush d2) (\<lambda>d3. Inr (detail_of d3 (client_disabled actor_id now c), d3)))))))"

definition client_touched :: "str \<Rightarrow> int \<Rightarrow> api_client \<Rightarrow> api_client" where
  "client_touched actor_id now c = c\<lparr>ac_updated_by := actor_id, ac_updated_at := now, ac_version := ac_version c + 1\<rparr>"

text \<open>The loop over \<open>client.credentials\<close> runs over the flushed table: the credential that was just added
  is one of them.\<close>

definition credential_rotated :: "str \<Rightarrow> int \<Rightarrow> str \<Rightarrow> credential \<Rightarrow> credential" where
  "credential_rotated actor_id now replaced_by c =
    (if cr_status c = Cred_active
     then c\<lparr>cr_status := Cred_revoked, cr_revoked_by := Some actor_id, cr_revoked_at := Some now, cr_replaced_by := Some replaced_by\<rparr>
     else c)"

definition rotate_credential :: "admin_service \<Rightarrow> admin_fresh \<Rightarrow> str \<Rightarrow> str \<Rightarrow> int \<Rightarrow> issue_result tx" where
  "rotate_credential s f client_id actor_id now d = (case find_row ac_id client_id (db_clients d) of
     None \<Rightarrow> Inl caller_not_found
   | Some c \<Rightarrow>
       if ac_status c \<noteq> Client_active then Inl (AdminCallerStateError ''disabled caller cannot rotate credentials'')
       else
         bind_res (create_protected_credential (as_crypto s) (as_keyring s) (af_credential f) (ac_id c) actor_id None None now None) (\<lambda>r.
         bind_res (flush (d\<lparr>db_credentials := db_credentials d @ [cn_credential r]\<rparr>)) (\<lambda>d1.
         let rotated = credential_rotated actor_id now (cr_id (cn_credential r));
             d2 = d1\<lparr>db_credentials := update_row cr_client (ac_id c) rotated (db_credentials d1),
                db_clients := update_row ac_id (ac_id c) (client_touched actor_id now) (db_clients d1)\<rparr> in
         bind_res (write_audit s (af_audit f) actor_id (ac_id c) ''credential.rotated'' [''credentials'']
             [(''credentials'', JStr ''active'')] [(''credentials'', JStr ''rotated'')] (Some (cr_id (cn_credential r))) now d2) (\<lambda>(_, d3).
         bind_res (flush d3) (\<lambda>d4.
         bind_res (fst (take_secret r)) (\<lambda>secret.
           Inr (\<lparr>ir_credential = summary_of_credential (rotated (cn_credential r)), ir_secret = Some secret\<rparr>, d4)))))))"

definition revoke_credential :: "admin_service \<Rightarrow> admin_fresh \<Rightarrow> str \<Rightarrow> str \<Rightarrow> str \<Rightarrow> int \<Rightarrow> credential_summary tx" where
  "revoke_credential s f client_id credential_id actor_id now d = (case find_row ac_id client_id (db_clients d) of
     None \<Rightarrow> Inl caller_not_found
   | Some c \<Rightarrow> (case find_row cr_id credential_id (db_credentials d) of
       None \<Rightarrow> Inl (AdminCallerNotFound ''credential was not found'')
     | Some k \<Rightarrow>
         if cr_client k \<noteq> ac_id c then Inl (AdminCallerNotFound ''credential was not found'')
         else if cr_status k = Cred_active
         then
           let d1 = d\<lparr>db_credentials := update_row cr_id credential_id (credential_revoked actor_id now) (db_credentials d),
                 db_clients := update_row ac_id (ac_id c) (client_touched actor_id now) (db_clients d)\<rparr> in
           bind_res (write_audit s (af_audit f) actor_id (ac_id c) ''credential.revoked'' [''credential_status'']
               [(''credential_status'', JStr ''active'')] [(''credential_status'', JStr ''revoked'')] (Some (cr_id k)) now d1) (\<lambda>(_, d2).
           bind_res (flush d2) (\<lambda>d3. Inr (summary_of_credential (credential_revoked actor_id now k), d3)))
         else Inr (summary_of_credential k, d)))"

text \<open>The loop of an update: the fields that are set, in order, with what was there before.\<close>

fun patch_fields :: "(str \<times> json) list \<Rightarrow> api_client \<Rightarrow> (api_client \<times> (str \<times> json) list) res" where
  "patch_fields [] c = Inr (c, [])"
| "patch_fields ((k, v) # rest) c = bind_res (set_client_field k v c) (\<lambda>c1.
     bind_res (patch_fields rest c1) (\<lambda>(c2, before). Inr (c2, (k, client_field c k) # before)))"

definition update_caller :: "admin_service \<Rightarrow> admin_fresh \<Rightarrow> str \<Rightarrow> int \<Rightarrow> (str \<times> json) list \<Rightarrow> str \<Rightarrow> int \<Rightarrow> caller_detail tx" where
  "update_caller s f client_id expected_version patch actor_id now d =
    (case validate_patch_request (as_valid s) (JObj ((''expected_version'', JInt expected_version) # patch)) of
       None \<Rightarrow> Inl (ValueError ''AdminCallerPatchRequest'')
     | Some v \<Rightarrow> (case find_row ac_id client_id (db_clients d) of
         None \<Rightarrow> Inl caller_not_found
       | Some c \<Rightarrow>
           if ac_version c \<noteq> pt_expected_version v then Inl (AdminCallerStateError ''caller version is stale'')
           else bind_res (patch_fields (pt_set v) c) (\<lambda>(c1, before_summary).
             if pt_set v = [] then Inl (AdminCallerStateError ''caller update is empty'')
             else
               let c2 = client_touched actor_id now c1;
                   d1 = d\<lparr>db_clients := update_row ac_id (ac_id c) (\<lambda>_. c2) (db_clients d)\<rparr> in
               bind_res (write_audit s (af_audit f) actor_id (ac_id c) ''caller.updated'' (map fst (pt_set v)) before_summary (pt_set v)
                   None now d1) (\<lambda>(_, d2).
               bind_res (flush d2) (\<lambda>d3. Inr (detail_of d3 c2, d3))))))"

end
