(* ===== verification/Admin_Lemmas.thy ===== *)
theory Admin_Lemmas
  imports Admin
begin

text \<open>
  Lemmas of the administrator's operations: each one inverted on success, the audit record it
  leaves, the tables it does not touch, and the access view it refines: per caller its status,
  its version and the credentials that may be used.
\<close>

subsection \<open>Reading successful operations back\<close>

lemma flush_Inr [simp]: "flush d = Inr d' \<longleftrightarrow> d' = d \<and> db_ok d"
  by (auto simp: flush_def)

lemma write_audit_Inr:
  assumes "write_audit s uuid actor client action changed bef aft target now d = Inr (u, d')"
  shows "\<exists>a. d' = d\<lparr>db_audits := db_audits d @ [a]\<rparr> \<and> au_id a = uuid \<and> au_actor a = actor \<and> au_client a = Some client \<and>
    au_action a = action \<and> set (au_changed_fields a) = set changed \<and> au_created_at a = now"
  using add_audit_Inr [OF assms [unfolded write_audit_def]] admin_audit_Inr by blast

text \<open>The audit record of an operation.\<close>

definition recorded :: "str \<Rightarrow> str \<Rightarrow> str \<Rightarrow> int \<Rightarrow> audit \<Rightarrow> bool" where
  "recorded actor client action now a \<longleftrightarrow> au_actor a = actor \<and> au_client a = Some client \<and> au_action a = action \<and> au_created_at a = now"

definition beside_ledger :: "db \<Rightarrow> db \<Rightarrow> bool" where
  "beside_ledger d d' \<longleftrightarrow> db_quotas d' = db_quotas d \<and> db_operations d' = db_operations d \<and> db_events d' = db_events d"

lemma stage_create_Inr:
  assumes "stage_bifrost_binding_sync uni sha dumps uuid b s action key now d = Inr (item, d')"
  shows "ob_id item = uuid \<and> d' = d\<lparr>db_bindings := update_row bd_id (bd_id b) (binding_queued (desired_config_hash sha dumps s) now) (db_bindings d),
           db_outbox := db_outbox d @ [item]\<rparr>"
  using assms
  by (auto simp: stage_bifrost_binding_sync_def queue_binding_sync_def make_payload_def bind_res_Inr Let_def new_item_def split: if_splits)

lemma new_client_Inr:
  "new_client uuid q actor now = Inr c \<Longrightarrow> ac_id c = uuid \<and> ac_status c = Client_active \<and> ac_version c = 1 \<and>
    ac_description c = nc_description q \<and> ac_name c = nc_name q"
  by (auto simp: new_client_def bind_res_Inr)

lemma create_caller_Inr:
  assumes "create_caller s f q actor supplied now d = Inr (x, d')"
  shows "\<exists>c r b item a. new_client (af_client f) q actor now = Inr c \<and>
    db_ok (d\<lparr>db_clients := db_clients d @ [c]\<rparr>) \<and>
    create_protected_credential (as_crypto s) (as_keyring s) (af_credential f) (ac_id c) actor None None now None = Inr r \<and>
    recorded actor (af_client f) ''caller.created'' now a \<and>
    d' = d\<lparr>db_clients := db_clients d @ [c], db_credentials := db_credentials d @ [cn_credential r],
           db_bindings := update_row bd_id (bd_id b) (binding_queued (bd_config_hash b) now) (db_bindings d @ [b]),
           db_outbox := db_outbox d @ [item], db_audits := db_audits d @ [a]\<rparr> \<and>
    fst (take_secret r) = map_sum id the (Inr (nr_secret x)) \<and> nr_secret x \<noteq> None \<and>
    nr_credential x = summary_of_credential (cn_credential r) \<and> nr_client x = summary_of_client c \<and> db_ok d'"
proof -
  obtain c r spec key item d3 u d4 secret where
      c: "new_client (af_client f) q actor now = Inr c" "db_ok (d\<lparr>db_clients := db_clients d @ [c]\<rparr>)"
    and r: "create_protected_credential (as_crypto s) (as_keyring s) (af_credential f) (ac_id c) actor None None now None = Inr r"
    and st: "stage_bifrost_binding_sync (as_unicode s) (cy_sha (as_crypto s)) (as_dumps s) (af_outbox f)
      (new_binding (af_binding f) (ac_id c) (nc_service_user_id q) (desired_config_hash (cy_sha (as_crypto s)) (as_dumps s) spec) now)
      spec Act_create key now (d\<lparr>db_clients := db_clients d @ [c], db_credentials := db_credentials d @ [cn_credential r],
        db_bindings := db_bindings d @ [new_binding (af_binding f) (ac_id c) (nc_service_user_id q)
          (desired_config_hash (cy_sha (as_crypto s)) (as_dumps s) spec) now]\<rparr>) = Inr (item, d3)"
    and au: "write_audit s (af_audit f) actor (ac_id c) ''caller.created'' (PATCH_FIELDS @ [''status'']) []
        (created_summary c) None now d3 = Inr (u, d4)"
    and fin: "db_ok d4" "fst (take_secret r) = Inr secret" "d' = d4" "nr_secret x = Some secret"
      "nr_credential x = summary_of_credential (cn_credential r)" "nr_client x = summary_of_client c"
    using assms unfolding create_caller_def Let_def by (auto simp: bind_res_Inr)
  from stage_create_Inr [OF st] write_audit_Inr [OF au] obtain a where a: "d4 = d3\<lparr>db_audits := db_audits d3 @ [a]\<rparr>"
      "recorded actor (af_client f) ''caller.created'' now a"
    using new_client_Inr [OF c(1)] by (auto simp: recorded_def)
  show ?thesis
    using c r fin a stage_create_Inr [OF st]
    by (intro exI [of _ c] exI [of _ r] exI [of _ "new_binding (af_binding f) (ac_id c) (nc_service_user_id q)
        (desired_config_hash (cy_sha (as_crypto s)) (as_dumps s) spec) now"] exI [of _ item] exI [of _ a])
      (auto simp: new_binding_def)
qed

lemma disable_staged_Inr:
  assumes "stage_local_client_disable uni uuid c b actor key now d = Inr (item, d')"
  shows "\<exists>q. d' = d\<lparr>db_clients := update_row ac_id (ac_id c) (client_disabled actor now) (db_clients d),
      db_credentials := update_row cr_client (ac_id c) (credential_revoked actor now) (db_credentials d),
      db_bindings := update_row bd_id (bd_id b) q (db_bindings d), db_outbox := db_outbox d @ [item]\<rparr> \<and> ob_action item = Act_disable"
  using assms
  by (auto simp: stage_local_client_disable_def queue_binding_sync_def bind_res_Inr Let_def new_item_def split: if_splits)

lemma disable_caller_Inr:
  assumes "disable_caller s f client actor supplied now d = Inr (x, d')"
  shows "\<exists>c. find_row ac_id client (db_clients d) = Some c \<and> (ac_status c = Client_disabled \<and> d' = d \<or>
    ac_status c = Client_active \<and> db_ok d' \<and> (\<exists>bid q item a. recorded actor client ''caller.disabled'' now a \<and> ob_action item = Act_disable \<and>
      d' = d\<lparr>db_clients := update_row ac_id client (client_disabled actor now) (db_clients d),
        db_credentials := update_row cr_client client (credential_revoked actor now) (db_credentials d),
        db_bindings := update_row bd_id bid q (db_bindings d), db_outbox := db_outbox d @ [item],
        db_audits := db_audits d @ [a]\<rparr>))"
proof -
  obtain c where c: "find_row ac_id client (db_clients d) = Some c"
    using assms by (auto simp: disable_caller_def split: option.splits)
  have id: "ac_id c = client" using find_row_Some [OF c] by simp
  show ?thesis
  proof (cases "ac_status c = Client_disabled")
    case True
    with assms c show ?thesis by (auto simp: disable_caller_def)
  next
    case False
    then obtain b key item d1 u d2 where st: "ac_status c = Client_active"
        "stage_local_client_disable (as_unicode s) (af_outbox f) c b actor key now d = Inr (item, d1)"
        "write_audit s (af_audit f) actor (ac_id c) ''caller.disabled'' [''status'', ''credentials'']
           [(''status'', JStr ''active''), (''credentials'', JStr ''active'')]
           [(''status'', JStr ''disabled''), (''credentials'', JStr ''revoked'')] None now d1 = Inr (u, d2)" "d' = d2" "db_ok d2"
      using assms c by (auto simp: disable_caller_def bind_res_Inr split: if_splits option.splits)
    from write_audit_Inr [OF st(3)] obtain a where "d2 = d1\<lparr>db_audits := db_audits d1 @ [a]\<rparr>"
        "recorded actor client ''caller.disabled'' now a" by (auto simp: recorded_def id)
    moreover from disable_staged_Inr [OF st(2)] obtain q where
        "d1 = d\<lparr>db_clients := update_row ac_id client (client_disabled actor now) (db_clients d),
          db_credentials := update_row cr_client client (credential_revoked actor now) (db_credentials d),
          db_bindings := update_row bd_id (bd_id b) q (db_bindings d), db_outbox := db_outbox d @ [item]\<rparr>"
        and act: "ob_action item = Act_disable"
      unfolding id by blast
    ultimately have "d' = d\<lparr>db_clients := update_row ac_id client (client_disabled actor now) (db_clients d),
        db_credentials := update_row cr_client client (credential_revoked actor now) (db_credentials d),
        db_bindings := update_row bd_id (bd_id b) q (db_bindings d), db_outbox := db_outbox d @ [item],
        db_audits := db_audits d @ [a]\<rparr>" "recorded actor client ''caller.disabled'' now a" "db_ok d'"
      using st(4,5) by simp_all
    with act st(1) c show ?thesis by blast
  qed
qed

lemma rotate_credential_Inr:
  assumes "rotate_credential s f client actor now d = Inr (x, d')"
  shows "\<exists>c r a. find_row ac_id client (db_clients d) = Some c \<and> ac_status c = Client_active \<and>
    create_protected_credential (as_crypto s) (as_keyring s) (af_credential f) client actor None None now None = Inr r \<and>
    db_ok d' \<and> recorded actor client ''credential.rotated'' now a \<and>
    ir_credential x = summary_of_credential (credential_rotated actor now (cr_id (cn_credential r)) (cn_credential r)) \<and>
    d' = d\<lparr>db_clients := update_row ac_id client (client_touched actor now) (db_clients d),
      db_credentials := update_row cr_client client (credential_rotated actor now (cr_id (cn_credential r)))
        (db_credentials d @ [cn_credential r]), db_audits := db_audits d @ [a]\<rparr>"
proof -
  obtain c where c: "find_row ac_id client (db_clients d) = Some c"
    using assms by (auto simp: rotate_credential_def split: option.splits)
  have id: "ac_id c = client" using find_row_Some [OF c] by simp
  obtain r u where
      r: "create_protected_credential (as_crypto s) (as_keyring s) (af_credential f) client actor None None now None = Inr r"
    and au: "write_audit s (af_audit f) actor client ''credential.rotated'' [''credentials'']
         [(''credentials'', JStr ''active'')] [(''credentials'', JStr ''rotated'')] (Some (cr_id (cn_credential r))) now
         (d\<lparr>db_credentials := update_row cr_client client (credential_rotated actor now (cr_id (cn_credential r)))
              (db_credentials d @ [cn_credential r]),
            db_clients := update_row ac_id client (client_touched actor now) (db_clients d)\<rparr>) = Inr (u, d')"
    and fin: "ac_status c = Client_active" "db_ok d'"
      "ir_credential x = summary_of_credential (credential_rotated actor now (cr_id (cn_credential r)) (cn_credential r))"
    using assms unfolding rotate_credential_def c option.case Let_def id
    by (simp add: bind_res_Inr if_Inl_Inr split_beta) (elim exE conjE, rule that, (assumption | fastforce)+)
  note w = write_audit_Inr [OF au]
  then obtain a where a: "d' = (d\<lparr>db_credentials := update_row cr_client client (credential_rotated actor now (cr_id (cn_credential r))) (db_credentials d @ [cn_credential r]), db_clients := update_row ac_id client (client_touched actor now) (db_clients d)\<rparr>)\<lparr>db_audits := db_audits ((d\<lparr>db_credentials := update_row cr_client client (credential_rotated actor now (cr_id (cn_credential r))) (db_credentials d @ [cn_credential r]), db_clients := update_row ac_id client (client_touched actor now) (db_clients d)\<rparr>)) @ [a]\<rparr>" "recorded actor client ''credential.rotated'' now a"
    unfolding recorded_def by blast
  then have "d' = d\<lparr>db_clients := update_row ac_id client (client_touched actor now) (db_clients d),
      db_credentials := update_row cr_client client (credential_rotated actor now (cr_id (cn_credential r)))
        (db_credentials d @ [cn_credential r]), db_audits := db_audits d @ [a]\<rparr>" by simp
  with c r fin a(2) show ?thesis by (intro exI [of _ c] exI [of _ r] exI [of _ a] conjI) simp_all
qed

lemma revoke_credential_Inr:
  assumes "revoke_credential s f client credential_id actor now d = Inr (x, d')"
  shows "\<exists>c k. find_row ac_id client (db_clients d) = Some c \<and> find_row cr_id credential_id (db_credentials d) = Some k \<and>
    cr_client k = client \<and> (cr_status k \<noteq> Cred_active \<and> d' = d \<or> cr_status k = Cred_active \<and> db_ok d' \<and>
     (\<exists>a. recorded actor client ''credential.revoked'' now a \<and>
      d' = d\<lparr>db_clients := update_row ac_id client (client_touched actor now) (db_clients d),
        db_credentials := update_row cr_id credential_id (credential_revoked actor now) (db_credentials d),
        db_audits := db_audits d @ [a]\<rparr>))"
proof -
  obtain c where c: "find_row ac_id client (db_clients d) = Some c"
    using assms by (cases "find_row ac_id client (db_clients d)") (simp_all add: revoke_credential_def)
  obtain k where k: "find_row cr_id credential_id (db_credentials d) = Some k"
    using assms c by (cases "find_row cr_id credential_id (db_credentials d)") (simp_all add: revoke_credential_def)
  have id: "ac_id c = client" using find_row_Some [OF c] by simp
  show ?thesis
  proof (cases "cr_status k = Cred_active")
    case False
    with assms c k id show ?thesis by (auto simp: revoke_credential_def split: if_splits)
  next
    case True
    then obtain u where au: "write_audit s (af_audit f) actor client ''credential.revoked'' [''credential_status'']
           [(''credential_status'', JStr ''active'')] [(''credential_status'', JStr ''revoked'')] (Some (cr_id k)) now
           (d\<lparr>db_credentials := update_row cr_id credential_id (credential_revoked actor now) (db_credentials d),
              db_clients := update_row ac_id client (client_touched actor now) (db_clients d)\<rparr>) = Inr (u, d')"
        "db_ok d'" "cr_client k = client"
      using assms unfolding revoke_credential_def c k option.case Let_def id
      by (auto simp: bind_res_Inr if_Inl_Inr)
    note w = write_audit_Inr [OF au(1)]
  then obtain a where a: "d' = (d\<lparr>db_credentials := update_row cr_id credential_id (credential_revoked actor now) (db_credentials d), db_clients := update_row ac_id client (client_touched actor now) (db_clients d)\<rparr>)\<lparr>db_audits := db_audits ((d\<lparr>db_credentials := update_row cr_id credential_id (credential_revoked actor now) (db_credentials d), db_clients := update_row ac_id client (client_touched actor now) (db_clients d)\<rparr>)) @ [a]\<rparr>" "recorded actor client ''credential.revoked'' now a"
    unfolding recorded_def by blast
  then have "d' = d\<lparr>db_clients := update_row ac_id client (client_touched actor now) (db_clients d),
          db_credentials := update_row cr_id credential_id (credential_revoked actor now) (db_credentials d),
          db_audits := db_audits d @ [a]\<rparr>" by simp
  with c k au True a(2) show ?thesis by (intro exI [of _ c] exI [of _ k] conjI disjI2 exI [of _ a]) simp_all
  qed
qed

lemma set_client_field_keeps:
  "set_client_field k v c = Inr c' \<Longrightarrow> ac_id c' = ac_id c \<and> ac_status c' = ac_status c \<and> ac_version c' = ac_version c"
  by (auto simp: set_client_field_def bind_res_Inr split: if_splits)

lemma patch_fields_keeps:
  "patch_fields items c = Inr (c', bef) \<Longrightarrow> ac_id c' = ac_id c \<and> ac_status c' = ac_status c \<and> ac_version c' = ac_version c"
proof (induction items c arbitrary: c' bef rule: patch_fields.induct)
  case (2 k v rest c)
  then show ?case by (fastforce simp: bind_res_Inr dest: set_client_field_keeps)
qed simp

lemma update_caller_Inr:
  assumes "update_caller s f client version patch actor now d = Inr (x, d')"
  shows "\<exists>v c c1 bef a. validate_patch_request (as_valid s) (JObj ((''expected_version'', JInt version) # patch)) = Some v \<and>
    find_row ac_id client (db_clients d) = Some c \<and> ac_version c = pt_expected_version v \<and> pt_set v \<noteq> [] \<and>
    patch_fields (pt_set v) c = Inr (c1, bef) \<and> db_ok d' \<and> recorded actor client ''caller.updated'' now a \<and>
    d' = d\<lparr>db_clients := update_row ac_id client (\<lambda>_. client_touched actor now c1) (db_clients d), db_audits := db_audits d @ [a]\<rparr>"
proof -
  obtain v where v: "validate_patch_request (as_valid s) (JObj ((''expected_version'', JInt version) # patch)) = Some v"
    using assms by (cases "validate_patch_request (as_valid s) (JObj ((''expected_version'', JInt version) # patch))")
      (simp_all add: update_caller_def)
  with assms obtain c where c: "find_row ac_id client (db_clients d) = Some c"
    by (cases "find_row ac_id client (db_clients d)") (simp_all add: update_caller_def)
  have id: "ac_id c = client" using find_row_Some [OF c] by simp
  from assms v c obtain c1 bef u where st: "ac_version c = pt_expected_version v" "pt_set v \<noteq> []"
      "patch_fields (pt_set v) c = Inr (c1, bef)"
      "write_audit s (af_audit f) actor client ''caller.updated'' (map fst (pt_set v)) bef (pt_set v) None now
        (d\<lparr>db_clients := update_row ac_id client (\<lambda>_. client_touched actor now c1) (db_clients d)\<rparr>) = Inr (u, d')"
      "db_ok d'"
    unfolding update_caller_def v c option.case Let_def id
    by (simp add: bind_res_Inr if_Inl_Inr split_beta) (elim exE conjE, rule that, (assumption | fastforce)+)
  note w = write_audit_Inr [OF st(4)]
  then obtain a where a: "d' = (d\<lparr>db_clients := update_row ac_id client (\<lambda>_. client_touched actor now c1) (db_clients d)\<rparr>)\<lparr>db_audits := db_audits ((d\<lparr>db_clients := update_row ac_id client (\<lambda>_. client_touched actor now c1) (db_clients d)\<rparr>)) @ [a]\<rparr>" "recorded actor client ''caller.updated'' now a"
    unfolding recorded_def by blast
  then have "d' = d\<lparr>db_clients := update_row ac_id client (\<lambda>_. client_touched actor now c1) (db_clients d), db_audits := db_audits d @ [a]\<rparr>" by simp
  with v c st a(2) show ?thesis
    by (intro exI [of _ v] exI [of _ c] exI [of _ c1] exI [of _ bef] exI [of _ a] conjI) simp_all
qed

subsection \<open>The operations as one step\<close>

datatype admin_op =
    Create create_request str
  | Disable str str
  | Rotate str
  | Revoke str str
  | Update str int "(str \<times> json) list"

definition forget :: "'a tx \<Rightarrow> unit tx" where
  "forget body d = bind_res (body d) (\<lambda>(_, d'). Inr ((), d'))"

lemma forget_Inr: "forget body d = Inr (u, d') \<longleftrightarrow> (\<exists>x. body d = Inr (x, d'))"
  by (auto simp: forget_def bind_res_Inr)

fun admin_step :: "admin_service \<Rightarrow> admin_fresh \<Rightarrow> str \<Rightarrow> int \<Rightarrow> admin_op \<Rightarrow> unit tx" where
  "admin_step s f actor now (Create q supplied) = forget (create_caller s f q actor supplied now)"
| "admin_step s f actor now (Disable client supplied) = forget (disable_caller s f client actor supplied now)"
| "admin_step s f actor now (Rotate client) = forget (rotate_credential s f client actor now)"
| "admin_step s f actor now (Revoke client credential) = forget (revoke_credential s f client credential actor now)"
| "admin_step s f actor now (Update client version patch) = forget (update_caller s f client version patch actor now)"

text \<open>What an operation is called in the audit, and the caller it is about.\<close>

fun op_action :: "admin_op \<Rightarrow> str" where
  "op_action (Create _ _) = ''caller.created''" | "op_action (Disable _ _) = ''caller.disabled''"
| "op_action (Rotate _) = ''credential.rotated''" | "op_action (Revoke _ _) = ''credential.revoked''"
| "op_action (Update _ _ _) = ''caller.updated''"

fun op_caller :: "admin_fresh \<Rightarrow> admin_op \<Rightarrow> str" where
  "op_caller f (Create _ _) = af_client f" | "op_caller f (Disable client _) = client" | "op_caller f (Rotate client) = client"
| "op_caller f (Revoke client _) = client" | "op_caller f (Update client _ _) = client"

lemma admin_step_beside:
  assumes "admin_step s f actor now op d = Inr (u, d')"
  shows "beside_ledger d d' \<and> (d' = d \<or> (\<exists>a. db_audits d' = db_audits d @ [a] \<and> recorded actor (op_caller f op) (op_action op) now a))"
proof (cases op)
  case (Create q supplied)
  with assms obtain x where "create_caller s f q actor supplied now d = Inr (x, d')" by (auto simp: forget_Inr)
  from create_caller_Inr [OF this] Create show ?thesis by (auto simp: beside_ledger_def)
next
  case (Disable client supplied)
  with assms obtain x where "disable_caller s f client actor supplied now d = Inr (x, d')" by (auto simp: forget_Inr)
  from disable_caller_Inr [OF this] Disable show ?thesis by (auto simp: beside_ledger_def)
next
  case (Rotate client)
  with assms obtain x where "rotate_credential s f client actor now d = Inr (x, d')" by (auto simp: forget_Inr)
  from rotate_credential_Inr [OF this] Rotate show ?thesis by (auto simp: beside_ledger_def)
next
  case (Revoke client credential)
  with assms obtain x where "revoke_credential s f client credential actor now d = Inr (x, d')" by (auto simp: forget_Inr)
  from revoke_credential_Inr [OF this] Revoke show ?thesis by (auto simp: beside_ledger_def)
next
  case (Update client version patch)
  with assms obtain x where "update_caller s f client version patch actor now d = Inr (x, d')" by (auto simp: forget_Inr)
  from update_caller_Inr [OF this] Update show ?thesis by (auto simp: beside_ledger_def)
qed

subsection \<open>Who may call\<close>

text \<open>The access a caller has: its status, its version and the credentials that may be used.\<close>

type_synonym access = "str \<Rightarrow> (client_status \<times> int \<times> str set) option"

definition active_keys :: "str \<Rightarrow> credential list \<Rightarrow> str set" where
  "active_keys client rows = set (map cr_id (filter (\<lambda>c. cr_client c = client \<and> cr_status c = Cred_active) rows))"

definition access_of :: "db \<Rightarrow> access" where
  "access_of d client = map_option (\<lambda>c. (ac_status c, ac_version c, active_keys client (db_credentials d)))
     (find_row ac_id client (db_clients d))"

fun access_step :: "admin_fresh \<Rightarrow> admin_op \<Rightarrow> access \<Rightarrow> access" where
  "access_step f (Create _ _) v = v(af_client f \<mapsto> (Client_active, 1, {fr_uuid (af_credential f)}))"
| "access_step f (Disable client _) v = (case v client of
     Some (Client_active, n, keys) \<Rightarrow> v(client \<mapsto> (Client_disabled, n + 1, {})) | _ \<Rightarrow> v)"
| "access_step f (Rotate client) v = (case v client of Some (st, n, keys) \<Rightarrow> v(client \<mapsto> (st, n + 1, {})) | None \<Rightarrow> v)"
| "access_step f (Revoke client credential) v = (case v client of
     Some (st, n, keys) \<Rightarrow> if credential \<in> keys then v(client \<mapsto> (st, n + 1, keys - {credential})) else v | None \<Rightarrow> v)"
| "access_step f (Update client _ _) v = (case v client of Some (st, n, keys) \<Rightarrow> v(client \<mapsto> (st, n + 1, keys)) | None \<Rightarrow> v)"

lemma find_row_client_update:
  assumes "\<And>c. ac_id (g c) = ac_id c"
  shows "find_row ac_id j (update_row ac_id k g rows) = (if j = k then map_option g (find_row ac_id j rows) else find_row ac_id j rows)"
  using assms by (rule find_row_update)

lemma client_changes_id [simp]:
  "ac_id (client_disabled actor now c) = ac_id c" "ac_id (client_touched actor now c) = ac_id c"
  "cr_client (credential_revoked actor now k) = cr_client k" "cr_client (credential_rotated actor now i k) = cr_client k"
  "cr_id (credential_revoked actor now k) = cr_id k" "cr_id (credential_rotated actor now i k) = cr_id k"
  by (simp_all add: client_disabled_def client_touched_def credential_revoked_def credential_rotated_def)

lemma client_changes_status [simp]:
  "cr_status (credential_revoked actor now k) = Cred_revoked" "cr_status (credential_rotated actor now i k) = Cred_revoked"
  using credential_status.exhaust [of "cr_status k"] by (auto simp: credential_revoked_def credential_rotated_def)

lemma active_keys_row:
  assumes "\<And>c. cr_client (g c) = cr_client c" and "\<And>c. cr_status (g c) = Cred_revoked"
  shows "active_keys client (update_row cr_client k g rows) = (if client = k then {} else active_keys client rows)"
proof -
  let ?h = "\<lambda>c. if cr_client c = k then g c else c"
  have "(cr_client (?h c) = client \<and> cr_status (?h c) = Cred_active) =
      (client \<noteq> k \<and> cr_client c = client \<and> cr_status c = Cred_active)" for c
    using assms by auto
  moreover have "cr_client c = client \<Longrightarrow> client \<noteq> k \<Longrightarrow> cr_id (?h c) = cr_id c" for c by simp
  ultimately show ?thesis
    by (auto simp: active_keys_def update_row_def filter_map o_def)
qed

lemma active_keys_one:
  "active_keys client (update_row cr_id k (credential_revoked actor now) rows) = active_keys client rows - {k}"
  unfolding active_keys_def update_row_def by (induction rows) auto

lemma active_keys_append:
  "active_keys client (rows @ [c]) = active_keys client rows \<union> (if cr_client c = client \<and> cr_status c = Cred_active then {cr_id c} else {})"
  by (auto simp: active_keys_def)

lemma active_keys_unknown:
  assumes "db_ok d" and "client \<notin> set (map ac_id (db_clients d))"
  shows "active_keys client (db_credentials d) = {}"
proof -
  have "cr_client c \<in> set (map ac_id (db_clients d))" if "c \<in> set (db_credentials d)" for c
    using assms(1) that by (simp add: db_ok_def caller_tables_ok_def list_all_iff)
  with assms(2) show ?thesis by (auto simp: active_keys_def)
qed

lemma created_credential_fields:
  assumes "create_protected_credential y k f client actor None None now e = Inr r"
  shows "cr_id (cn_credential r) = fr_uuid f \<and> cr_client (cn_credential r) = client \<and> cr_status (cn_credential r) = Cred_active"
  using assms by (auto simp: create_protected_credential_def bind_res_Inr Let_def)

lemma find_new_client:
  assumes "db_ok (d\<lparr>db_clients := db_clients d @ [c]\<rparr>)"
  shows "find_row ac_id j (db_clients d @ [c]) = (if j = ac_id c then Some c else find_row ac_id j (db_clients d))"
    and "ac_id c \<notin> set (map ac_id (db_clients d))"
proof -
  show new: "ac_id c \<notin> set (map ac_id (db_clients d))"
    using assms by (simp add: db_ok_def caller_tables_ok_def)
  then have "find_row ac_id (ac_id c) (db_clients d) = None" by (auto simp: find_row_None) (metis image_eqI)
  then show "find_row ac_id j (db_clients d @ [c]) = (if j = ac_id c then Some c else find_row ac_id j (db_clients d))"
    by (auto simp: find_row_append split: option.splits) (auto simp: find_row_def)
qed

lemma create_access:
  assumes "db_ok d" and "create_caller s f q actor supplied now d = Inr (x, d')"
  shows "access_of d' = access_step f (Create q supplied) (access_of d)"
proof
  fix j
  obtain c r where c: "new_client (af_client f) q actor now = Inr c" "db_ok (d\<lparr>db_clients := db_clients d @ [c]\<rparr>)"
    and r: "create_protected_credential (as_crypto s) (as_keyring s) (af_credential f) (ac_id c) actor None None now None = Inr r"
    and d': "db_clients d' = db_clients d @ [c]" "db_credentials d' = db_credentials d @ [cn_credential r]"
    using create_caller_Inr [OF assms(2)] by fastforce
  note cf = new_client_Inr [OF c(1)] and rf = created_credential_fields [OF r] and new = find_new_client [OF c(2)]
  have "active_keys (ac_id c) (db_credentials d) = {}" by (rule active_keys_unknown [OF assms(1) new(2)])
  then show "access_of d' j = access_step f (Create q supplied) (access_of d) j"
    using cf rf by (auto simp: access_of_def d' new(1) active_keys_append)
qed

lemma disable_access:
  assumes "disable_caller s f client actor supplied now d = Inr (x, d')"
  shows "access_of d' = access_step f (Disable client supplied) (access_of d)"
proof -
  obtain c where c: "find_row ac_id client (db_clients d) = Some c"
    and e: "ac_status c = Client_disabled \<and> d' = d \<or> ac_status c = Client_active \<and>
      db_clients d' = update_row ac_id client (client_disabled actor now) (db_clients d) \<and>
      db_credentials d' = update_row cr_client client (credential_revoked actor now) (db_credentials d)"
    using disable_caller_Inr [OF assms] by fastforce
  from e show ?thesis
  proof
    assume "ac_status c = Client_disabled \<and> d' = d"
    with c show ?thesis by (simp add: access_of_def)
  next
    assume "ac_status c = Client_active \<and>
      db_clients d' = update_row ac_id client (client_disabled actor now) (db_clients d) \<and>
      db_credentials d' = update_row cr_client client (credential_revoked actor now) (db_credentials d)"
    with c show ?thesis
      by (simp add: access_of_def find_row_client_update active_keys_row fun_eq_iff)
        (simp add: client_disabled_def)
  qed
qed

lemma rotate_access:
  assumes "rotate_credential s f client actor now d = Inr (x, d')"
  shows "access_of d' = access_step f (Rotate client) (access_of d)"
proof -
  obtain c r where c: "find_row ac_id client (db_clients d) = Some c" "ac_status c = Client_active"
    and r: "create_protected_credential (as_crypto s) (as_keyring s) (af_credential f) client actor None None now None = Inr r"
    and d': "db_clients d' = update_row ac_id client (client_touched actor now) (db_clients d)"
      "db_credentials d' = update_row cr_client client (credential_rotated actor now (cr_id (cn_credential r)))
        (db_credentials d @ [cn_credential r])"
    using rotate_credential_Inr [OF assms] by fastforce
  from c created_credential_fields [OF r] show ?thesis
    by (simp add: access_of_def d' find_row_client_update active_keys_row active_keys_append fun_eq_iff)
      (simp add: client_touched_def)
qed

lemma revoke_access:
  assumes "db_ok d" and "revoke_credential s f client credential actor now d = Inr (x, d')"
  shows "access_of d' = access_step f (Revoke client credential) (access_of d)"
proof -
  obtain c k where c: "find_row ac_id client (db_clients d) = Some c"
    and k: "find_row cr_id credential (db_credentials d) = Some k" "cr_client k = client"
    and e: "cr_status k \<noteq> Cred_active \<and> d' = d \<or> cr_status k = Cred_active \<and>
      db_clients d' = update_row ac_id client (client_touched actor now) (db_clients d) \<and>
      db_credentials d' = update_row cr_id credential (credential_revoked actor now) (db_credentials d)"
    using revoke_credential_Inr [OF assms(2)] by fastforce
  have dist: "distinct (map cr_id (db_credentials d))" using assms(1) by (simp add: db_ok_def caller_tables_ok_def)
  have only: "k' = k" if "k' \<in> set (db_credentials d)" "cr_id k' = credential" for k'
    using find_row_unique [OF dist that] k(1) by simp
  have mem: "credential \<in> active_keys j (db_credentials d) \<longleftrightarrow> j = client \<and> cr_status k = Cred_active" for j
    unfolding active_keys_def set_map set_filter image_iff using find_row_Some [OF k(1)] only k(2) by blast
  from e show ?thesis
  proof
    assume "cr_status k \<noteq> Cred_active \<and> d' = d"
    with c mem show ?thesis by (simp add: access_of_def)
  next
    assume a: "cr_status k = Cred_active \<and>
      db_clients d' = update_row ac_id client (client_touched actor now) (db_clients d) \<and>
      db_credentials d' = update_row cr_id credential (credential_revoked actor now) (db_credentials d)"
    have other: "active_keys j (db_credentials d) - {credential} = active_keys j (db_credentials d)" if "j \<noteq> client" for j
      using mem [of j] that by blast
    from a c mem other show ?thesis
      by (simp add: access_of_def find_row_client_update active_keys_one fun_eq_iff) (simp add: client_touched_def)
  qed
qed

lemma update_access:
  assumes "update_caller s f client version patch actor now d = Inr (x, d')"
  shows "access_of d' = access_step f (Update client version patch) (access_of d)"
proof -
  obtain items c c1 bef where c: "find_row ac_id client (db_clients d) = Some c" and p: "patch_fields items c = Inr (c1, bef)"
    and d': "db_clients d' = update_row ac_id client (\<lambda>_. client_touched actor now c1) (db_clients d)"
      "db_credentials d' = db_credentials d"
    using update_caller_Inr [OF assms] by (elim exE conjE) (rule that, assumption+, simp_all)
  have "update_row ac_id client (\<lambda>_. client_touched actor now c1) (db_clients d) =
      update_row ac_id client (\<lambda>r. if ac_id r = client then client_touched actor now c1 else r) (db_clients d)"
    by (simp add: update_row_def)
  moreover have "ac_id c1 = client" using patch_fields_keeps [OF p] find_row_Some [OF c] by simp
  ultimately show ?thesis
    using c patch_fields_keeps [OF p] by (auto simp: access_of_def d' find_row_client_update fun_eq_iff client_touched_def)
qed

lemma step_access:
  "db_ok d \<Longrightarrow> admin_step s f actor now op d = Inr (u, d') \<Longrightarrow> access_of d' = access_step f op (access_of d)"
  by (cases op) (auto simp: forget_Inr create_access disable_access rotate_access revoke_access update_access
      simp del: access_step.simps)

end
