(* ===== verification/Admin_Properties.thy ===== *)
theory Admin_Properties
  imports Admin_Lemmas Auth_Properties World_Lemmas
begin

text \<open>
  Properties of the administrator's operations: what they do to who may call, that they leave the
  ledger alone and one audit record each, and what follows for the requests of a caller.
\<close>

subsection \<open>Authentication needs access\<close>

lemma authenticated_access:
  assumes "authenticate y k (resolve_credential d) tolerance t q = Inr caller"
  shows "\<exists>n keys. access_of d (au_api_client_id caller) = Some (Client_active, n, keys) \<and> au_credential_id caller \<in> keys"
proof -
  obtain key rc where rc: "resolve_credential d key = Some rc" "rc_credential_status rc = Cred_active"
    "rc_client_status rc = Client_active" "au_api_client_id caller = rc_api_client_id rc" "au_credential_id caller = rc_credential_id rc"
    by (rule authenticate_Inr [OF assms]) (rule that, simp_all)
  obtain c where c1: "find_row cr_key_id key (db_credentials d) = Some c"
    using rc(1) by (cases "find_row cr_key_id key (db_credentials d)") (simp_all add: resolve_credential_def)
  obtain cl where c2: "find_row ac_id (cr_client c) (db_clients d) = Some cl"
    using rc(1) c1 by (cases "find_row ac_id (cr_client c) (db_clients d)") (simp_all add: resolve_credential_def)
  have c: "rc_credential_id rc = cr_id c" "rc_api_client_id rc = cr_client c" "cr_status c = Cred_active" "ac_status cl = Client_active"
    using rc c1 c2 by (auto simp: resolve_credential_def)
  from find_row_Some [OF c1] c(3) have "cr_id c \<in> active_keys (cr_client c) (db_credentials d)"
    by (auto simp: active_keys_def)
  with c c2 rc(4,5) show ?thesis by (simp add: access_of_def)
qed

lemma no_access_refused:
  assumes "\<And>n keys. access_of d client = Some (Client_active, n, keys) \<Longrightarrow> keys = {}"
    and "authenticate y k (resolve_credential d) tolerance t q = Inr caller"
  shows "au_api_client_id caller \<noteq> client"
  using authenticated_access [OF assms(2)] assms(1) by blast

lemma commit_forget: "commit_tx body d = Inr (x, d') \<Longrightarrow> commit_tx (forget body) d = Inr ((), d')"
  by (auto simp: commit_tx_Inr forget_Inr)

subsection \<open>Samples\<close>

definition admin_sample :: admin_service where
  "admin_sample = \<lparr>as_crypto = toy_crypto, as_keyring = auth_keyring, as_unicode = (\<lambda>_. []), as_dumps = (\<lambda>_. []),
     as_valid = \<lparr>vd_int = (\<lambda>j. case j of JInt n \<Rightarrow> Some n | _ \<Rightarrow> None), vd_float = (\<lambda>_. None),
       vd_bool = (\<lambda>j. case j of JBool b \<Rightarrow> Some b | _ \<Rightarrow> None), vd_uuid = (\<lambda>j. case j of JStr s \<Rightarrow> Some s | _ \<Rightarrow> None),
       vd_trim = (\<lambda>s. s)\<rparr>\<rparr>"

definition admin_names :: admin_fresh where
  "admin_names = \<lparr>af_client = ''c9'', af_credential = auth_fresh, af_binding = ''b9'', af_outbox = ''i9'', af_audit = ''a9''\<rparr>"

definition create_sample :: create_request where
  "create_sample = \<lparr>nc_name = ''partner'', nc_description = None, nc_service_user_id = ''su9'', nc_provider = ''p'', nc_model = ''m'',
     nc_allowed_endpoints = [''chat.completions''], nc_allowed_models = [''m''], nc_group_ids = [], nc_qps_limit = 10,
     nc_concurrency_limit = 2, nc_daily_request_limit = None, nc_daily_token_limit = None, nc_total_request_limit = None,
     nc_total_token_limit = None, nc_max_output_tokens = 4096\<rparr>"

text \<open>The steps of the creation, one by one.\<close>

definition admin_client :: api_client where
  "admin_client = \<lparr>ac_id = ''c9'', ac_name = ''partner'', ac_description = None, ac_status = Client_active,
     ac_allowed_endpoints = [''chat.completions''], ac_allowed_models = [''m''], ac_group_ids = [], ac_qps_limit = 10,
     ac_concurrency_limit = 2, ac_daily_request_limit = None, ac_daily_token_limit = None, ac_total_request_limit = None,
     ac_total_token_limit = None, ac_max_output_tokens = 4096, ac_version = 1, ac_created_by = ''admin'',
     ac_updated_by = ''admin'', ac_created_at = 100, ac_updated_at = 100, ac_disabled_at = None, ac_archived_at = None\<rparr>"

definition admin_credential :: creation_result where
  "admin_credential = (case create_protected_credential toy_crypto auth_keyring auth_fresh ''c9'' ''admin'' None None 100 None of
     Inr r \<Rightarrow> r | Inl _ \<Rightarrow> auth_creation)"

definition admin_spec :: key_spec where
  "admin_spec = \<lparr>ks_name = ''zangpu-c9'', ks_description = ''Managed by Zangpu control plane'', ks_provider = ''p'', ks_model = ''m'',
     ks_key_ids = []\<rparr>"

definition admin_binding :: binding where
  "admin_binding = new_binding ''b9'' ''c9'' ''su9'' (desired_config_hash (cy_sha toy_crypto) (\<lambda>_. []) admin_spec) 100"

definition admin_db1 :: db where
  "admin_db1 = sample_db\<lparr>db_clients := db_clients sample_db @ [admin_client]\<rparr>"

definition admin_db2 :: db where
  "admin_db2 = admin_db1\<lparr>db_credentials := db_credentials admin_db1 @ [cn_credential admin_credential],
     db_bindings := db_bindings admin_db1 @ [admin_binding]\<rparr>"

definition admin_key :: str where
  "admin_key = ''admin:'' @ replicate 64 CHR ''0''"

definition admin_db3 :: db where
  "admin_db3 = (case stage_bifrost_binding_sync (\<lambda>_. []) (cy_sha toy_crypto) (\<lambda>_. []) ''i9'' admin_binding admin_spec Act_create
     admin_key 100 admin_db2 of Inr (i, d) \<Rightarrow> d | Inl _ \<Rightarrow> admin_db2)"

definition admin_record :: audit where
  "admin_record = \<lparr>au_id = ''a9'', au_actor = ''admin'', au_client = Some ''c9'', au_target_type = ''client'', au_target_id = Some ''c9'',
     au_action = ''caller.created'', au_changed_fields = sort (PATCH_FIELDS @ [''status'']), au_before = [],
     au_after = sort_key fst (created_summary admin_client), au_created_at = 100\<rparr>"

definition admin_db :: db where
  "admin_db = admin_db3\<lparr>db_audits := db_audits admin_db3 @ [admin_record]\<rparr>"

lemma admin_steps:
  "new_client ''c9'' create_sample ''admin'' 100 = Inr admin_client"
  "create_protected_credential toy_crypto auth_keyring auth_fresh ''c9'' ''admin'' None None 100 None = Inr admin_credential"
  "caller_key_spec (as_valid admin_sample) ''c9'' create_sample = Inr admin_spec"
  "db_ok admin_db1" "db_ok admin_db"
  by code_simp+

lemma admin_staged: "map_sum id snd (stage_bifrost_binding_sync (\<lambda>_. []) (cy_sha toy_crypto) (\<lambda>_. []) ''i9'' admin_binding
    admin_spec Act_create admin_key 100 admin_db2) = Inr admin_db3"
  by code_simp

lemma admin_summaries:
  "validate_changed_fields (\<lambda>_. []) (PATCH_FIELDS @ [''status'']) = Inr (sort (PATCH_FIELDS @ [''status'']))"
  "validate_audit_summary (\<lambda>_. []) (created_summary admin_client) = Inr (sort_key fst (created_summary admin_client))"
  by code_simp+

lemma no_summary: "validate_audit_summary uni [] = Inr []"
  by (simp add: validate_audit_summary_def)

lemma admin_audited: "write_audit admin_sample ''a9'' ''admin'' ''c9'' ''caller.created'' (PATCH_FIELDS @ [''status'']) []
    (created_summary admin_client) None 100 admin_db3 = Inr ((), admin_db)"
proof -
  have "insert_audit admin_record admin_db3 = Inr ((), admin_db)"
    by (simp add: insert_audit_def admin_db_def) (simp add: admin_record_def created_summary_def PATCH_FIELDS_def)
  then show ?thesis
    by (simp add: write_audit_def add_audit_def admin_audit_def admin_sample_def admin_summaries admin_record_def
        AUDIT_TARGET_TYPES_def py_len_def is_continuation_byte_def no_summary)
qed

lemma sample_created:
  "\<exists>x. create_caller admin_sample admin_names create_sample ''admin'' ''key-0001'' 100 sample_db = Inr (x, admin_db) \<and>
    nr_secret x = Some ''zps_S_1'' \<and> nr_client x = summary_of_client admin_client \<and>
    nr_credential x = summary_of_credential (cn_credential admin_credential)"
proof -
  obtain i where st: "stage_bifrost_binding_sync (\<lambda>_. []) (cy_sha toy_crypto) (\<lambda>_. []) ''i9'' admin_binding
    admin_spec Act_create admin_key 100 admin_db2 = Inr (i, admin_db3)"
    using admin_staged by (auto simp: map_sum_def split: sum.splits)
  have key: "admin_idempotency_key (cy_sha toy_crypto) ''create'' ''admin'' ''key-0001'' = Inr admin_key"
    by code_simp
  have flushed: "flush admin_db1 = Inr admin_db1" "flush admin_db = Inr admin_db"
    using admin_steps(4,5) by (simp_all add: flush_def)
  have sec: "fst (take_secret admin_credential) = Inr ''zps_S_1''" by code_simp
  have sel: "as_crypto admin_sample = toy_crypto" "as_keyring admin_sample = auth_keyring" "as_unicode admin_sample = (\<lambda>_. [])"
    "as_dumps admin_sample = (\<lambda>_. [])" "af_client admin_names = ''c9''" "af_credential admin_names = auth_fresh"
    "af_binding admin_names = ''b9''" "af_outbox admin_names = ''i9''" "af_audit admin_names = ''a9''" "ac_id admin_client = ''c9''"
    "nc_service_user_id create_sample = ''su9''"
    by (simp_all add: admin_sample_def admin_names_def admin_client_def create_sample_def)
  show ?thesis
    by (simp add: create_caller_def sel admin_steps(1-3) flushed Let_def admin_db1_def [symmetric] admin_binding_def [symmetric]
        admin_db2_def [symmetric] key st admin_audited sec)
qed

text \<open>The caller of the sample database, bound, is disabled.\<close>

definition bound_binding :: binding where
  "bound_binding = \<lparr>bd_id = ''b1'', bd_client = ''c1'', bd_service_user_id = Some ''u1'', bd_virtual_key_id = Some ''v1'',
     bd_value_ciphertext = Some ''x'', bd_value_key_version = Some ''mk'', bd_config_hash = ''h'', bd_sync_status = Sync_active,
     bd_last_error = None, bd_version = 1, bd_created_at = 1, bd_updated_at = 1\<rparr>"

definition bound_db :: db where
  "bound_db = sample_db\<lparr>db_bindings := [bound_binding]\<rparr>"

definition disable_item :: outbox_item where
  "disable_item = new_item ''i9'' ''b1'' Target_bifrost Act_disable admin_key
     (JObj [(''config_hash'', JStr ''h''), (''binding_version'', JInt 2)]) 200"

definition disabled_db1 :: db where
  "disabled_db1 = bound_db\<lparr>db_clients := [client_disabled ''admin'' 200 sample_client],
     db_credentials := [credential_revoked ''admin'' 200 sample_credential],
     db_bindings := [binding_queued ''h'' 200 bound_binding], db_outbox := [disable_item]\<rparr>"

definition disabled_record :: audit where
  "disabled_record = \<lparr>au_id = ''a9'', au_actor = ''admin'', au_client = Some ''c1'', au_target_type = ''client'', au_target_id = Some ''c1'',
     au_action = ''caller.disabled'', au_changed_fields = [''credentials'', ''status''],
     au_before = [(''credentials'', JStr ''active''), (''status'', JStr ''active'')],
     au_after = [(''credentials'', JStr ''revoked''), (''status'', JStr ''disabled'')], au_created_at = 200\<rparr>"

definition disabled_db :: db where
  "disabled_db = disabled_db1\<lparr>db_audits := [disabled_record]\<rparr>"

lemma disabled_staged: "stage_local_client_disable (\<lambda>_. []) ''i9'' sample_client bound_binding ''admin'' admin_key 200 bound_db =
    Inr (disable_item, disabled_db1)"
proof -
  have "\<not> payload_contains_sensitive_key (\<lambda>_. []) (JObj [(''config_hash'', JStr ''h''), (''binding_version'', JInt 2)])"
    by code_simp
  then show ?thesis
    by (simp add: stage_local_client_disable_def make_payload_def payload_ok_def bound_binding_def py_len_def is_continuation_byte_def
        queue_binding_sync_def payload_json_def disable_item_def disabled_db1_def bound_db_def sample_db_def update_row_def
        sample_client_def sample_credential_def empty_db_def Let_def)
qed

lemma disabled_audited: "write_audit admin_sample ''a9'' ''admin'' ''c1'' ''caller.disabled'' [''status'', ''credentials'']
    [(''status'', JStr ''active''), (''credentials'', JStr ''active'')]
    [(''status'', JStr ''disabled''), (''credentials'', JStr ''revoked'')] None 200 disabled_db1 = Inr ((), disabled_db)"
proof -
  have a: "admin_audit (\<lambda>_. []) ''a9'' ''admin'' (Some ''c1'') ''client'' ''c1'' ''caller.disabled'' [''status'', ''credentials'']
    [(''status'', JStr ''active''), (''credentials'', JStr ''active'')]
    [(''status'', JStr ''disabled''), (''credentials'', JStr ''revoked'')] 200 = Inr disabled_record" by code_simp
  have "db_audits disabled_db1 = []" by (simp add: disabled_db1_def bound_db_def sample_db_def empty_db_def)
  then have "insert_audit disabled_record disabled_db1 = Inr ((), disabled_db)"
    by (simp add: insert_audit_def disabled_db_def) (simp add: disabled_record_def)
  then show ?thesis by (simp add: write_audit_def add_audit_def admin_sample_def a)
qed

lemma bound_ok: "db_ok bound_db" "db_ok disabled_db"
  by (simp_all add: db_ok_def caller_tables_ok_def control_tables_ok_def usage_tables_ok_def sample_defs client_ok_def
      credential_ok_def py_len_def is_continuation_byte_def bound_db_def bound_binding_def binding_ok_def empty_db_def disabled_db_def
      disabled_db1_def disable_item_def new_item_def outbox_ok_def disabled_record_def audit_ok_def AUDIT_TARGET_TYPES_def
      client_disabled_def credential_revoked_def binding_queued_def)

lemma sample_disabled:
  "\<exists>x. disable_caller admin_sample admin_names ''c1'' ''admin'' ''key-0002'' 200 bound_db = Inr (x, disabled_db)"
proof -
  have key: "admin_idempotency_key (cy_sha toy_crypto) ''disable'' ''admin'' ''key-0002'' = Inr admin_key" by code_simp
  have f: "find_row ac_id ''c1'' (db_clients bound_db) = Some sample_client"
    "find_row bd_client ''c1'' (db_bindings bound_db) = Some bound_binding" "ac_id sample_client = ''c1''" "ac_status sample_client = Client_active"
    by (simp_all add: bound_db_def sample_db_def sample_client_def bound_binding_def find_row_def)
  have sel: "as_crypto admin_sample = toy_crypto" "as_unicode admin_sample = (\<lambda>_. [])" "af_outbox admin_names = ''i9''"
    "af_audit admin_names = ''a9''" by (simp_all add: admin_sample_def admin_names_def)
  show ?thesis by (simp add: disable_caller_def f sel key disabled_staged disabled_audited flush_def bound_ok)
qed

lemma sample_disabled_commits:
  "\<exists>x. commit_tx (disable_caller admin_sample admin_names ''c1'' ''admin'' ''key-0002'' 200) bound_db = Inr (x, disabled_db)"
  using sample_disabled bound_ok by (auto simp: commit_tx_Inr)

lemma admin_step_commits:
  "commit_tx (admin_step admin_sample admin_names ''admin'' 100 (Create create_sample ''key-0001'')) sample_db = Inr ((), admin_db)"
  "commit_tx (admin_step admin_sample admin_names ''admin'' 200 (Disable ''c1'' ''key-0002'')) bound_db = Inr ((), disabled_db)"
  using sample_created sample_disabled bound_ok admin_steps(5) by (auto simp: commit_tx_Inr forget_Inr)

subsection \<open>The properties\<close>

text \<open>C12: The administrator's operations refine a small access table: per caller its status, its version and
  the identifiers of the credentials that may be used. Creating a caller adds it with one usable credential,
  disabling takes every credential, rotating takes every credential, revoking takes one, an update takes none;
  the version of a caller that is changed grows by one, and no other caller is touched.\<close>

theorem admin_refines_access:
  assumes "db_ok d" and "commit_tx (admin_step s f actor now op) d = Inr (u, d')"
  shows "access_of d' = access_step f op (access_of d)"
  using assms by (auto simp: commit_tx_Inr intro: step_access)

lemma admin_refines_access_witness:
  "access_of admin_db ''c9'' = Some (Client_active, 1, {''u1''}) \<and> access_of disabled_db ''c1'' = Some (Client_disabled, 2, {})"
proof -
  have ok: "db_ok sample_db" using sample_db_inv by (simp add: ledger_inv_def)
  have a: "access_of admin_db ''c9'' = Some (Client_active, 1, {''u1''})"
    unfolding admin_refines_access [OF ok admin_step_commits(1)] by (simp add: admin_names_def auth_fresh_def)
  have "access_of bound_db ''c1'' = Some (Client_active, 1, active_keys ''c1'' (db_credentials bound_db))"
    by (simp add: access_of_def bound_db_def sample_db_def sample_client_def find_row_def)
  with admin_refines_access [OF bound_ok(1) admin_step_commits(2)] a show ?thesis by simp
qed

text \<open>C35: Every operation of the administrator that commits keeps the invariant of the ledger, and either changes
  nothing at all or appends exactly one audit record with the actor, the caller and the name of the operation; no
  earlier record is touched.\<close>

theorem admin_keeps_ledger_and_audits:
  assumes "ledger_inv d" and "commit_tx (admin_step s f actor now op) d = Inr (u, d')"
  shows "ledger_inv d' \<and> (d' = d \<or> (\<exists>a. db_audits d' = db_audits d @ [a] \<and> au_actor a = actor \<and>
    au_client a = Some (op_caller f op) \<and> au_action a = op_action op \<and> au_created_at a = now))"
proof -
  have "tx_keeps (admin_step s f actor now op)"
    by (rule tx_keeps_beside) (auto dest: admin_step_beside simp: beside_ledger_def)
  with assms have "ledger_inv d'" by (simp add: tx_keeps_def)
  with assms admin_step_beside show ?thesis by (fastforce simp: commit_tx_Inr recorded_def)
qed

lemma admin_keeps_ledger_and_audits_witness: "ledger_inv admin_db \<and> map au_actor (db_audits admin_db) = [''admin'']"
proof -
  have "db_clients admin_db \<noteq> db_clients sample_db" "db_audits sample_db = []" by code_simp+
  with admin_keeps_ledger_and_audits [OF sample_db_inv admin_step_commits(1)] show ?thesis by auto
qed

text \<open>Once a caller has been disabled, no request is authenticated as that caller, whatever its headers, its
  credential and the time.\<close>

theorem disabled_caller_refused:
  assumes "db_ok d" and "commit_tx (disable_caller s f client actor supplied now) d = Inr (x, d')"
  shows "\<nexists>y k tolerance t q caller. authenticate y k (resolve_credential d') tolerance t q = Inr caller \<and>
    au_api_client_id caller = client"
proof -
  have run: "disable_caller s f client actor supplied now d = Inr (x, d')" using assms(2) by (simp add: commit_tx_Inr)
  have "keys = {}" if "access_of d' client = Some (Client_active, n, keys)" for n keys
    using that unfolding disable_access [OF run] by (auto split: option.splits client_status.splits)
  then show ?thesis using no_access_refused by blast
qed

lemma disabled_caller_refused_witness:
  "\<nexists>y k tolerance t q caller. authenticate y k (resolve_credential disabled_db) tolerance t q = Inr caller \<and>
    au_api_client_id caller = ''c1''"
proof -
  obtain x where "commit_tx (disable_caller admin_sample admin_names ''c1'' ''admin'' ''key-0002'' 200) bound_db = Inr (x, disabled_db)"
    using sample_disabled_commits ..
  from disabled_caller_refused [OF bound_ok(1) this] show ?thesis .
qed

text \<open>What an administrator hands over works: with the one-time secret of a caller whose creation has committed,
  the SDK signs requests that the server accepts as this caller's, while the clocks agree within the tolerance.\<close>

theorem created_caller_accepted:
  assumes "crypto_laws (as_crypto s)"
    and "commit_tx (create_caller s f q actor supplied now) d = Inr (x, d')" and "nr_secret x = Some secret"
    and "list_all is_token_char (fr_secret_token (af_credential f))" and "length (fr_nonce (af_credential f)) = 12"
    and "make_signer (kd_key_id (nr_credential x)) secret = Inr sg"
    and "sdk_sign (cy_sha (as_crypto s)) (cy_mac (as_crypto s)) sg clock new_nonce new_request_id rq = Inr sh"
    and "\<bar>t - (case sr_timestamp rq of None \<Rightarrow> clock | Some u \<Rightarrow> u)\<bar> \<le> tolerance"
  shows "map_sum id au_api_client_id (authenticate (as_crypto s) (as_keyring s) (resolve_credential d') tolerance t
      \<lparr>hr_method = sr_method rq, hr_path = sr_path rq, hr_query = sr_query rq, hr_body = sr_body rq, hr_headers = as_headers sh\<rparr>) =
    Inr (cl_id (nr_client x))"
proof -
  have ok: "db_ok d'" and run: "create_caller s f q actor supplied now d = Inr (x, d')" using assms(2) by (simp_all add: commit_tx_Inr)
  obtain c r where c: "new_client (af_client f) q actor now = Inr c"
    and r: "create_protected_credential (as_crypto s) (as_keyring s) (af_credential f) (ac_id c) actor None None now None = Inr r"
    and d': "db_clients d' = db_clients d @ [c]" "db_credentials d' = db_credentials d @ [cn_credential r]"
    and x: "fst (take_secret r) = map_sum id the (Inr (nr_secret x))" "nr_credential x = summary_of_credential (cn_credential r)"
      "nr_client x = summary_of_client c"
    using create_caller_Inr [OF run] by (elim exE conjE) (rule that, assumption+, simp_all)
  let ?k = "cn_credential r"
  have "distinct (map cr_key_id (db_credentials d'))" "distinct (map ac_id (db_clients d'))"
    using ok by (simp_all add: db_ok_def caller_tables_ok_def)
  then have found: "find_row cr_key_id (cr_key_id ?k) (db_credentials d') = Some ?k" "find_row ac_id (ac_id c) (db_clients d') = Some c"
    by (auto intro: find_row_unique simp: d')
  have take: "take_secret r = (Inr secret, snd (take_secret r))" using x(1) assms(3) by (simp add: prod_eq_iff)
  have signer: "make_signer (cr_key_id ?k) secret = Inr sg" using assms(6) x(2) by (simp add: summary_of_credential_def)
  have "ac_status c = Client_active" using new_client_Inr [OF c] by simp
  from signed_request_accepted [OF assms(1) r take assms(4,5) signer assms(7) found this _ assms(8)] x(3)
  show ?thesis by (simp add: summary_of_client_def)
qed

lemma created_caller_accepted_witness:
  "map_sum id au_api_client_id (authenticate toy_crypto auth_keyring (resolve_credential admin_db) 300 250
      \<lparr>hr_method = sr_method auth_sign_request, hr_path = sr_path auth_sign_request, hr_query = sr_query auth_sign_request,
       hr_body = sr_body auth_sign_request, hr_headers = as_headers auth_signed\<rparr>) = Inr ''c9''"
proof -
  obtain x where x: "create_caller admin_sample admin_names create_sample ''admin'' ''key-0001'' 100 sample_db = Inr (x, admin_db)"
    "nr_secret x = Some ''zps_S_1''" "nr_client x = summary_of_client admin_client"
    "nr_credential x = summary_of_credential (cn_credential admin_credential)"
    using sample_created by blast
  have sel: "as_crypto admin_sample = toy_crypto" "as_keyring admin_sample = auth_keyring" "af_credential admin_names = auth_fresh"
    by (simp_all add: admin_sample_def admin_names_def)
  have key: "kd_key_id (nr_credential x) = ''zpk_AAAA''"
    unfolding x(4) by code_simp
  have "commit_tx (create_caller admin_sample admin_names create_sample ''admin'' ''key-0001'' 100) sample_db = Inr (x, admin_db)"
    using x(1) admin_steps(5) by (simp add: commit_tx_Inr)
  note accepted = created_caller_accepted [OF _ this x(2), unfolded sel key]
  have "map_sum id au_api_client_id (authenticate toy_crypto auth_keyring (resolve_credential admin_db) 300 250
      \<lparr>hr_method = sr_method auth_sign_request, hr_path = sr_path auth_sign_request, hr_query = sr_query auth_sign_request,
       hr_body = sr_body auth_sign_request, hr_headers = as_headers auth_signed\<rparr>) = Inr (cl_id (nr_client x))"
  proof (rule accepted [OF toy_crypto_laws _ _ _ auth_signed_ok])
    show "list_all is_token_char (fr_secret_token auth_fresh)" by code_simp
    show "length (fr_nonce auth_fresh) = 12" by code_simp
    show "make_signer ''zpk_AAAA'' ''zps_S_1'' = Inr auth_signer" by code_simp
    show "\<bar>250 - (case sr_timestamp auth_sign_request of None \<Rightarrow> 0 | Some t \<Rightarrow> t)\<bar> \<le> (300 :: int)"
      by (simp add: auth_sign_request_def)
  qed
  then show ?thesis by (simp add: x(3) summary_of_client_def admin_client_def)
qed

text \<open>C36: Rotation locks the caller out. The credential that a committed rotation returns, with its fresh secret, is
  itself revoked (the loop over the caller's credentials meets it too), and afterwards no request at all is
  authenticated as this caller.\<close>

theorem rotated_credential_refused:
  assumes "commit_tx (rotate_credential s f client actor now) d = Inr (x, d')"
  shows "kd_status (ir_credential x) = Cred_revoked \<and>
    (\<forall>y k tolerance t q caller. authenticate y k (resolve_credential d') tolerance t q = Inr caller \<longrightarrow>
      au_api_client_id caller \<noteq> client)"
proof -
  have run: "rotate_credential s f client actor now d = Inr (x, d')" using assms by (simp add: commit_tx_Inr)
  have "kd_status (ir_credential x) = Cred_revoked"
    using rotate_credential_Inr [OF run] by (auto simp: summary_of_credential_def)
  moreover have "keys = {}" if "access_of d' client = Some (Client_active, n, keys)" for n keys
    using that unfolding rotate_access [OF run] by (auto split: option.splits)
  ultimately show ?thesis using no_access_refused by blast
qed

definition rotation_record :: audit where
  "rotation_record = \<lparr>au_id = ''a9'', au_actor = ''admin'', au_client = Some ''c1'', au_target_type = ''credential'',
     au_target_id = Some ''u1'', au_action = ''credential.rotated'', au_changed_fields = [''credentials''],
     au_before = [(''credentials'', JStr ''active'')], au_after = [(''credentials'', JStr ''rotated'')], au_created_at = 200\<rparr>"

lemma sample_rotated:
  "\<exists>x d'. commit_tx (rotate_credential admin_sample admin_names ''c1'' ''admin'' 200) sample_db = Inr (x, d') \<and> ir_secret x = Some ''zps_S_1''"
proof -
  obtain r where r: "create_protected_credential toy_crypto auth_keyring auth_fresh ''c1'' ''admin'' None None 200 None = Inr r"
    "cr_id (cn_credential r) = ''u1''" "cr_client (cn_credential r) = ''c1''" "cr_key_id (cn_credential r) = ''zpk_AAAA''"
    "cr_status (cn_credential r) = Cred_active" "cr_expires_at (cn_credential r) = None" "cr_replaced_by (cn_credential r) = None"
    "fst (take_secret r) = Inr ''zps_S_1''"
  proof -
    have "map_sum id (\<lambda>r. (cr_id (cn_credential r), cr_client (cn_credential r), cr_key_id (cn_credential r), cr_status (cn_credential r),
        cr_expires_at (cn_credential r), cr_replaced_by (cn_credential r), fst (take_secret r)))
      (create_protected_credential toy_crypto auth_keyring auth_fresh ''c1'' ''admin'' None None 200 None) =
      Inr (''u1'', ''c1'', ''zpk_AAAA'', Cred_active, None, None, Inr ''zps_S_1'')" by code_simp
    with that show thesis by (auto simp: map_sum_def split: sum.splits)
  qed
  have a: "admin_audit (\<lambda>_. []) ''a9'' ''admin'' (Some ''c1'') ''credential'' ''u1'' ''credential.rotated'' [''credentials'']
     [(''credentials'', JStr ''active'')] [(''credentials'', JStr ''rotated'')] 200 = Inr rotation_record" by code_simp
  have au: "write_audit admin_sample ''a9'' ''admin'' ''c1'' ''credential.rotated'' [''credentials'']
     [(''credentials'', JStr ''active'')] [(''credentials'', JStr ''rotated'')] (Some ''u1'') 200 e =
     Inr ((), e\<lparr>db_audits := db_audits e @ [rotation_record]\<rparr>)" for e
    by (simp add: write_audit_def add_audit_def admin_sample_def a insert_audit_def rotation_record_def)
  note ok_defs = db_ok_def caller_tables_ok_def control_tables_ok_def usage_tables_ok_def sample_defs client_ok_def
      credential_ok_def py_len_def is_continuation_byte_def empty_db_def
  let ?g = "credential_rotated ''admin'' 200 ''u1''"
  have flushes: "db_ok (sample_db\<lparr>db_credentials := db_credentials sample_db @ [cn_credential r]\<rparr>)"
    by (simp add: ok_defs r)
  have sel: "as_crypto admin_sample = toy_crypto" "as_keyring admin_sample = auth_keyring" "af_credential admin_names = auth_fresh"
    "af_audit admin_names = ''a9''" "find_row ac_id ''c1'' (db_clients sample_db) = Some sample_client" "ac_id sample_client = ''c1''"
    "ac_status sample_client = Client_active"
    by (simp_all add: admin_sample_def admin_names_def sample_db_def sample_client_def find_row_def)
  have finished: "db_ok (sample_db\<lparr>db_credentials := update_row cr_client ''c1'' ?g (db_credentials sample_db @ [cn_credential r]),
      db_clients := update_row ac_id ''c1'' (client_touched ''admin'' 200) (db_clients sample_db), db_audits := db_audits sample_db @ [rotation_record]\<rparr>)"
    by (simp add: ok_defs r update_row_def credential_rotated_def client_touched_def rotation_record_def audit_ok_def AUDIT_TARGET_TYPES_def)
  show ?thesis
    using finished by (simp add: commit_tx_Inr rotate_credential_def sel r flush_def flushes au Let_def)
qed

lemma rotated_credential_refused_witness:
  "\<exists>x d'. commit_tx (rotate_credential admin_sample admin_names ''c1'' ''admin'' 200) sample_db = Inr (x, d') \<and>
    ir_secret x = Some ''zps_S_1'' \<and> kd_status (ir_credential x) = Cred_revoked"
proof -
  obtain x d' where "commit_tx (rotate_credential admin_sample admin_names ''c1'' ''admin'' 200) sample_db = Inr (x, d')"
    "ir_secret x = Some ''zps_S_1''" using sample_rotated by blast
  with rotated_credential_refused [OF this(1)] show ?thesis by blast
qed

text \<open>A caller with a description of more than 512 characters cannot be created although the request model and the
  table allow up to 1024: the audit record of the creation refuses the value, and the transaction fails.\<close>

theorem long_description_refused:
  assumes "nc_description q = Some t" and "512 < py_len t"
  shows "\<exists>e. create_caller s f q actor supplied now d = Inl e"
proof (rule ccontr)
  assume "\<not> ?thesis"
  then obtain x d' where "create_caller s f q actor supplied now d = Inr (x, d')" by (metis sum.exhaust surj_pair)
  then obtain c d3 r where c: "new_client (af_client f) q actor now = Inr c"
    and w: "write_audit s (af_audit f) actor (ac_id c) ''caller.created'' (PATCH_FIELDS @ [''status'']) []
        (created_summary c) None now d3 = Inr r"
    unfolding create_caller_def Let_def by (auto simp: bind_res_Inr)
  have "(''description'', JStr t) \<in> set (created_summary c)"
    using new_client_Inr [OF c] assms(1) by (simp add: created_summary_def PATCH_FIELDS_def client_field_def text_json_def)
  from long_text_refused [OF this assms(2)] w show False
    by (auto simp: write_audit_def add_audit_def admin_audit_def bind_res_Inr split: if_splits)
qed

definition long_sample :: create_request where
  "long_sample = create_sample\<lparr>nc_description := Some (replicate 600 CHR ''x'')\<rparr>"

lemma long_description_refused_witness:
  "validate_create_request (as_valid admin_sample) (JObj [(''name'', JStr ''partner''), (''description'', JStr (replicate 600 CHR ''x'')),
      (''service_user_id'', JStr ''su9''), (''provider'', JStr ''p''), (''model'', JStr ''m''), (''allowed_models'', JList [JStr ''m''])]) =
    Some long_sample \<and>
   (\<exists>e. create_caller admin_sample admin_names long_sample ''admin'' ''key-0001'' 100 sample_db = Inl e)"
proof (rule conjI)
  show "validate_create_request (as_valid admin_sample) (JObj [(''name'', JStr ''partner''), (''description'', JStr (replicate 600 CHR ''x'')),
      (''service_user_id'', JStr ''su9''), (''provider'', JStr ''p''), (''model'', JStr ''m''), (''allowed_models'', JList [JStr ''m''])]) =
    Some long_sample" by code_simp
  have "512 < py_len (replicate 600 CHR ''x'')" by code_simp
  then show "\<exists>e. create_caller admin_sample admin_names long_sample ''admin'' ''key-0001'' 100 sample_db = Inl e"
    by (intro long_description_refused [of _ "replicate 600 CHR ''x''"]) (simp add: long_sample_def)
qed

end
