(* ===== verification/Retention.thy ===== *)
theory Retention
  imports Audits
begin

text \<open>
  Retention, \<open>backend/app/services/retention.py\<close>: a preview of what is old enough to go, and a
  purge of the oldest records, which must be confirmed with the counts of a preview and leaves an
  audit record of its own.
\<close>

subsection \<open>Requests, previews and results\<close>

definition SECONDS_PER_DAY :: int where
  "SECONDS_PER_DAY = 86400"

definition MIN_EVENT_RETENTION_DAYS :: int where
  "MIN_EVENT_RETENTION_DAYS = 30"

definition MIN_AUDIT_RETENTION_DAYS :: int where
  "MIN_AUDIT_RETENTION_DAYS = 365"

definition MAX_RETENTION_DAYS :: int where
  "MAX_RETENTION_DAYS = 3650"

definition MAX_RETENTION_BATCH_SIZE :: nat where
  "MAX_RETENTION_BATCH_SIZE = 10000"

record purge_request =
  pg_event_count :: int
  pg_audit_count :: int
  pg_confirmed :: bool

text \<open>The model is strict: an integer is an integer, a truth value a truth value.\<close>

definition strict_count :: "json option \<Rightarrow> int option" where
  "strict_count v = (case v of Some (JInt n) \<Rightarrow> if 0 \<le> n \<and> n \<le> SIGNED_BIGINT_MAX then Some n else None | _ \<Rightarrow> None)"

definition validate_purge_request :: "json \<Rightarrow> purge_request option" where
  "validate_purge_request v = (case v of
     JObj p \<Rightarrow> (case (strict_count (map_of (rev p) ''expected_event_count''), strict_count (map_of (rev p) ''expected_audit_count''),
             map_of (rev p) ''confirmed'') of
         (Some e, Some a, Some (JBool c)) \<Rightarrow>
           if set (map fst p) \<subseteq> {''expected_event_count'', ''expected_audit_count'', ''confirmed''}
           then Some \<lparr>pg_event_count = e, pg_audit_count = a, pg_confirmed = c\<rparr> else None
       | _ \<Rightarrow> None)
   | _ \<Rightarrow> None)"

record retention_preview =
  rp_generated_at :: int
  rp_event_retention_days :: int
  rp_audit_retention_days :: int
  rp_event_cutoff :: int
  rp_audit_cutoff :: int
  rp_event_eligible :: int
  rp_audit_eligible :: int
  rp_event_batch :: int
  rp_audit_batch :: int
  rp_batch_size :: nat

record purge_result =
  pr_audit_id :: str
  pr_completed_at :: int
  pr_event_cutoff :: int
  pr_audit_cutoff :: int
  pr_event_deleted :: int
  pr_audit_deleted :: int
  pr_event_remaining :: int
  pr_audit_remaining :: int
  pr_batch_size :: nat

subsection \<open>The service\<close>

record retention_service =
  rs_event_days :: int
  rs_audit_days :: int
  rs_batch_size :: nat
  rs_unicode :: "str \<Rightarrow> str"

definition check_retention_service :: "retention_service \<Rightarrow> unit res" where
  "check_retention_service s =
    (if \<not> (MIN_EVENT_RETENTION_DAYS \<le> rs_event_days s \<and> rs_event_days s \<le> MAX_RETENTION_DAYS)
       then Inl (ValueError ''event retention days are outside the supported range'')
     else if \<not> (MIN_AUDIT_RETENTION_DAYS \<le> rs_audit_days s \<and> rs_audit_days s \<le> MAX_RETENTION_DAYS)
       then Inl (ValueError ''administrator audit retention days are outside the supported range'')
     else if rs_audit_days s < rs_event_days s
       then Inl (ValueError ''administrator audit retention must not be shorter than event retention'')
     else if \<not> (1 \<le> rs_batch_size s \<and> rs_batch_size s \<le> MAX_RETENTION_BATCH_SIZE)
       then Inl (ValueError ''retention batch size is outside the supported range'')
     else Inr ())"

definition cutoffs :: "retention_service \<Rightarrow> int \<Rightarrow> (int \<times> int) res" where
  "cutoffs s now =
    (if now < 0 then Inl (ValueError ''retention time must not be negative'')
     else Inr (max 0 (now - rs_event_days s * SECONDS_PER_DAY), max 0 (now - rs_audit_days s * SECONDS_PER_DAY)))"

definition event_count :: "int \<Rightarrow> db \<Rightarrow> int" where
  "event_count cutoff d = count_where (\<lambda>e. ev_created_at e < cutoff) (db_events d)"

definition audit_count :: "int \<Rightarrow> db \<Rightarrow> int" where
  "audit_count cutoff d = count_where (\<lambda>a. au_created_at a < cutoff) (db_audits d)"

definition retention_preview_of :: "retention_service \<Rightarrow> int \<Rightarrow> int \<Rightarrow> int \<Rightarrow> int \<Rightarrow> int \<Rightarrow> retention_preview" where
  "retention_preview_of s now event_cutoff audit_cutoff events audits =
    \<lparr>rp_generated_at = now, rp_event_retention_days = rs_event_days s, rp_audit_retention_days = rs_audit_days s,
     rp_event_cutoff = event_cutoff, rp_audit_cutoff = audit_cutoff, rp_event_eligible = events, rp_audit_eligible = audits,
     rp_event_batch = min events (int (rs_batch_size s)), rp_audit_batch = min audits (int (rs_batch_size s)),
     rp_batch_size = rs_batch_size s\<rparr>"

definition preview :: "retention_service \<Rightarrow> int \<Rightarrow> db \<Rightarrow> retention_preview res" where
  "preview s now d = bind_res (cutoffs s now) (\<lambda>(event_cutoff, audit_cutoff).
     Inr (retention_preview_of s now event_cutoff audit_cutoff (event_count event_cutoff d) (audit_count audit_cutoff d)))"

text \<open>The oldest rows before a cut-off, and the deletion by identifier with the number of rows
  deleted.\<close>

definition oldest :: "('r \<Rightarrow> int) \<Rightarrow> ('r \<Rightarrow> str) \<Rightarrow> int \<Rightarrow> nat \<Rightarrow> 'r list \<Rightarrow> str list" where
  "oldest created key cutoff n rows =
    map key (take n (sort_key (\<lambda>r. (created r, key r)) (filter (\<lambda>r. created r < cutoff) rows)))"

definition delete_rows :: "('r \<Rightarrow> str) \<Rightarrow> str list \<Rightarrow> 'r list \<Rightarrow> 'r list \<times> int" where
  "delete_rows key ids rows =
    (filter (\<lambda>r. key r \<notin> set ids) rows, int (length (filter (\<lambda>r. key r \<in> set ids) rows)))"

definition purge_before :: "int \<Rightarrow> int \<Rightarrow> (str \<times> json) list" where
  "purge_before events audits = [(''event_eligible_count'', JInt events), (''audit_eligible_count'', JInt audits)]"

definition purge_after :: "retention_service \<Rightarrow> int \<Rightarrow> int \<Rightarrow> int \<Rightarrow> int \<Rightarrow> int \<Rightarrow> int \<Rightarrow> (str \<times> json) list" where
  "purge_after s events audits events_deleted audits_deleted event_cutoff audit_cutoff =
    [(''event_deleted_count'', JInt events_deleted), (''audit_deleted_count'', JInt audits_deleted),
     (''event_remaining_count'', JInt (events - events_deleted)), (''audit_remaining_count'', JInt (audits - audits_deleted)),
     (''event_cutoff'', JInt event_cutoff), (''audit_cutoff'', JInt audit_cutoff),
     (''event_retention_days'', JInt (rs_event_days s)), (''admin_audit_retention_days'', JInt (rs_audit_days s)),
     (''batch_size'', JInt (int (rs_batch_size s)))]"

definition purge_records :: "retention_service \<Rightarrow> str \<Rightarrow> str \<Rightarrow> int \<Rightarrow> int \<Rightarrow> int \<Rightarrow> int \<Rightarrow> int \<Rightarrow> purge_result tx" where
  "purge_records s uuid actor_id now events audits event_cutoff audit_cutoff d =
    (let event_ids = oldest ev_created_at ev_id event_cutoff (rs_batch_size s) (db_events d);
         audit_ids = oldest au_created_at au_id audit_cutoff (rs_batch_size s) (db_audits d);
         (events_left, events_deleted) = delete_rows ev_id event_ids (db_events d);
         (audits_left, audits_deleted) = delete_rows au_id audit_ids (db_audits d) in
     if events_deleted \<noteq> int (length event_ids) \<or> audits_deleted \<noteq> int (length audit_ids) then Inl RetentionSnapshotConflict
     else
       let b = purge_before events audits;
           a = purge_after s events audits events_deleted audits_deleted event_cutoff audit_cutoff in
       bind_res (add_audit (admin_audit (rs_unicode s) uuid actor_id None ''retention'' uuid ''retention.purged'' (map fst b @ map fst a)
           b a now) (d\<lparr>db_events := events_left, db_audits := audits_left\<rparr>)) (\<lambda>(_, d').
       Inr (\<lparr>pr_audit_id = uuid, pr_completed_at = now, pr_event_cutoff = event_cutoff, pr_audit_cutoff = audit_cutoff,
         pr_event_deleted = events_deleted, pr_audit_deleted = audits_deleted, pr_event_remaining = events - events_deleted,
         pr_audit_remaining = audits - audits_deleted, pr_batch_size = rs_batch_size s\<rparr>, d')))"

definition retention_purge :: "retention_service \<Rightarrow> str \<Rightarrow> str \<Rightarrow> int \<Rightarrow> int \<Rightarrow> int \<Rightarrow> bool \<Rightarrow> purge_result tx" where
  "retention_purge s uuid actor_id now expected_events expected_audits confirmed d =
    (if \<not> confirmed then Inl RetentionConfirmationError
     else if expected_events < 0 \<or> expected_audits < 0 then Inl (ValueError ''expected retention counts must not be negative'')
     else bind_res (cutoffs s now) (\<lambda>(event_cutoff, audit_cutoff).
       let events = event_count event_cutoff d; audits = audit_count audit_cutoff d in
       if (events, audits) \<noteq> (expected_events, expected_audits) then Inl RetentionSnapshotConflict
       else if events = 0 \<and> audits = 0 then Inl RetentionNothingToPurge
       else purge_records s uuid actor_id now events audits event_cutoff audit_cutoff d))"

end
