(* ===== verification/Retention_Properties.thy ===== *)
theory Retention_Properties
  imports Retention World_Lemmas
begin

text \<open>
  Properties of retention: only old records go, the oldest first and at most a batch of them, and
  what a preview has counted can be purged.
\<close>

subsection \<open>The oldest rows\<close>

lemma sorted_take_drop:
  assumes "x \<in> set (take n (sort_key f xs))" and "y \<in> set (drop n (sort_key f xs))"
  shows "f x \<le> f y"
proof -
  have "sorted (map f (take n (sort_key f xs)) @ map f (drop n (sort_key f xs)))"
    by (simp only: map_append [symmetric] append_take_drop_id sorted_sort_key)
  with assms show ?thesis by (auto simp: sorted_append)
qed

lemma oldest_row:
  assumes "distinct (map key rows)" and "r \<in> set rows" and "key r \<in> set (oldest created key cutoff n rows)"
  shows "r \<in> set (take n (sort_key (\<lambda>r. (created r, key r)) (filter (\<lambda>r. created r < cutoff) rows)))"
proof -
  let ?s = "sort_key (\<lambda>r. (created r, key r)) (filter (\<lambda>r. created r < cutoff) rows)"
  obtain r' where r': "r' \<in> set (take n ?s)" "key r' = key r" using assms(3) by (force simp: oldest_def)
  then have "r' \<in> set ?s" by (blast dest: in_set_takeD)
  then have "r' \<in> set rows" by simp
  with assms(1,2) r'(2) have "r' = r" by (metis distinct_map inj_onD)
  with r'(1) show ?thesis by simp
qed

lemma oldest_old:
  assumes "distinct (map key rows)" and "r \<in> set rows" and "key r \<in> set (oldest created key cutoff n rows)"
  shows "created r < cutoff"
  using in_set_takeD [OF oldest_row [OF assms]] by simp

lemma oldest_first:
  assumes "distinct (map key rows)" and "r \<in> set rows" and "key r \<in> set (oldest created key cutoff n rows)"
    and "q \<in> set rows" and "key q \<notin> set (oldest created key cutoff n rows)" and "created q < cutoff"
  shows "created r \<le> created q"
proof -
  let ?s = "sort_key (\<lambda>r. (created r, key r)) (filter (\<lambda>r. created r < cutoff) rows)"
  have "q \<in> set ?s" using assms(4,6) by simp
  then have "q \<in> set (take n ?s) \<or> q \<in> set (drop n ?s)"
    by (metis Un_iff append_take_drop_id set_append)
  moreover have "q \<notin> set (take n ?s)" using assms(5) by (auto simp: oldest_def)
  ultimately have "(created r, key r) \<le> (created q, key q)"
    using sorted_take_drop [OF oldest_row [OF assms(1-3)]] by blast
  then show ?thesis by (auto simp: less_eq_prod_def)
qed

lemma oldest_length: "length (oldest created key cutoff n rows) = min n (length (filter (\<lambda>r. created r < cutoff) rows))"
  by (simp add: oldest_def min.commute)

text \<open>Every identifier found belongs to exactly one row, so the deletion counts them all.\<close>

lemma deleted_count:
  assumes "distinct (map key rows)"
  shows "length (filter (\<lambda>r. key r \<in> set (oldest created key cutoff n rows)) rows) = length (oldest created key cutoff n rows)"
proof -
  let ?ids = "oldest created key cutoff n rows" and ?f = "filter (\<lambda>r. key r \<in> set (oldest created key cutoff n rows)) rows"
  have "distinct (map key ?f)" using assms by (rule distinct_map_filter)
  then have "length ?f = card (set (map key ?f))" by (metis distinct_card length_map)
  moreover have "set ?ids \<subseteq> key ` set rows" by (auto simp: oldest_def dest: in_set_takeD)
  then have "set (map key ?f) = set ?ids" by auto
  moreover have "distinct (map key (sort_key (\<lambda>r. (created r, key r)) (filter (\<lambda>r. created r < cutoff) rows)))"
    using distinct_map_filter [OF assms] by (simp add: distinct_map)
  then have "distinct ?ids" by (simp add: oldest_def take_map [symmetric])
  then have "card (set ?ids) = length ?ids" by (rule distinct_card)
  ultimately show ?thesis by simp
qed

subsection \<open>The audit record of a purge\<close>

lemma purge_names_sound:
  "list_ex (audit_field_is_sensitive uni) (sort (map fst (purge_before b1 b2) @ map fst (purge_after s a1 a2 a3 a4 a5 a6))) = False"
  "validate_string_set None (int AUDIT_MAX_FIELDS) 64 (map fst (purge_before b1 b2) @ map fst (purge_after s a1 a2 a3 a4 a5 a6)) =
    Inr (sort (map fst (purge_before b1 b2) @ map fst (purge_after s a1 a2 a3 a4 a5 a6)))"
  by code_simp+

lemma purge_summaries_sound:
  "validate_audit_summary uni (purge_before b1 b2) = Inr (sort_key fst (purge_before b1 b2))"
  "validate_audit_summary uni (purge_after s a1 a2 a3 a4 a5 a6) = Inr (sort_key fst (purge_after s a1 a2 a3 a4 a5 a6))"
  by code_simp+

definition purge_record :: "retention_service \<Rightarrow> str \<Rightarrow> str \<Rightarrow> int \<Rightarrow> int \<Rightarrow> int \<Rightarrow> int \<Rightarrow> int \<Rightarrow> int \<Rightarrow> int \<Rightarrow> audit" where
  "purge_record s uuid actor now events audits de da ec ac =
    \<lparr>au_id = uuid, au_actor = actor, au_client = None, au_target_type = ''retention'', au_target_id = Some uuid,
     au_action = ''retention.purged'',
     au_changed_fields = sort (map fst (purge_before events audits) @ map fst (purge_after s events audits de da ec ac)),
     au_before = sort_key fst (purge_before events audits), au_after = sort_key fst (purge_after s events audits de da ec ac),
     au_created_at = now\<rparr>"

lemma purge_audited:
  "add_audit (admin_audit uni uuid actor None ''retention'' uuid ''retention.purged''
     (map fst (purge_before events audits) @ map fst (purge_after s events audits de da ec ac))
     (purge_before events audits) (purge_after s events audits de da ec ac) now) d =
   Inr ((), d\<lparr>db_audits := db_audits d @ [purge_record s uuid actor now events audits de da ec ac]\<rparr>)"
proof -
  have "validate_changed_fields uni (map fst (purge_before events audits) @ map fst (purge_after s events audits de da ec ac)) =
      Inr (sort (map fst (purge_before events audits) @ map fst (purge_after s events audits de da ec ac)))"
    by (simp add: validate_changed_fields_def purge_names_sound(2)) (metis append_assoc list.simps(9) purge_names_sound(1))
  moreover have "py_len ''retention.purged'' = 16" by code_simp
  ultimately show ?thesis
    by (simp add: add_audit_def admin_audit_def purge_summaries_sound insert_audit_def purge_record_def AUDIT_TARGET_TYPES_def)
qed

text \<open>A successful purge, and when it is one.\<close>

definition purged_db :: "retention_service \<Rightarrow> str \<Rightarrow> str \<Rightarrow> int \<Rightarrow> int \<Rightarrow> int \<Rightarrow> db \<Rightarrow> db" where
  "purged_db s uuid actor now ec ac d =
    (let es = oldest ev_created_at ev_id ec (rs_batch_size s) (db_events d);
         as = oldest au_created_at au_id ac (rs_batch_size s) (db_audits d) in
     d\<lparr>db_events := filter (\<lambda>e. ev_id e \<notin> set es) (db_events d),
       db_audits := filter (\<lambda>a. au_id a \<notin> set as) (db_audits d) @
         [purge_record s uuid actor now (event_count ec d) (audit_count ac d) (int (length es)) (int (length as)) ec ac]\<rparr>)"

lemma purge_records_eq:
  assumes "db_ok d"
  shows "purge_records s uuid actor now (event_count ec d) (audit_count ac d) ec ac d =
    Inr (\<lparr>pr_audit_id = uuid, pr_completed_at = now, pr_event_cutoff = ec, pr_audit_cutoff = ac,
      pr_event_deleted = int (length (oldest ev_created_at ev_id ec (rs_batch_size s) (db_events d))),
      pr_audit_deleted = int (length (oldest au_created_at au_id ac (rs_batch_size s) (db_audits d))),
      pr_event_remaining = event_count ec d - int (length (oldest ev_created_at ev_id ec (rs_batch_size s) (db_events d))),
      pr_audit_remaining = audit_count ac d - int (length (oldest au_created_at au_id ac (rs_batch_size s) (db_audits d))),
      pr_batch_size = rs_batch_size s\<rparr>, purged_db s uuid actor now ec ac d)"
proof -
  have "distinct (map ev_id (db_events d))" "distinct (map au_id (db_audits d))"
    using assms by (simp_all add: db_ok_def usage_tables_ok_def control_tables_ok_def)
  then show ?thesis
    by (simp add: purge_records_def delete_rows_def deleted_count purge_audited purged_db_def Let_def)
qed

lemma purge_Inr:
  assumes "db_ok d"
  shows "retention_purge s uuid actor now ne na confirmed d = Inr (r, d') \<longleftrightarrow>
    confirmed \<and> 0 \<le> now \<and> (0 < ne \<or> 0 < na) \<and>
    (let ec = max 0 (now - rs_event_days s * SECONDS_PER_DAY); ac = max 0 (now - rs_audit_days s * SECONDS_PER_DAY) in
     ne = event_count ec d \<and> na = audit_count ac d \<and>
     purge_records s uuid actor now (event_count ec d) (audit_count ac d) ec ac d = Inr (r, d'))"
proof -
  have "0 \<le> event_count c d" "0 \<le> audit_count c d" for c
    by (simp_all add: event_count_def audit_count_def count_where_def sum_where_nonneg)
  then have "\<not> event_count c d < 0" "\<not> audit_count c d < 0" "event_count c d \<noteq> 0 \<longleftrightarrow> 0 < event_count c d"
    "audit_count c d \<noteq> 0 \<longleftrightarrow> 0 < audit_count c d" for c
    by (simp_all add: order.order_iff_strict not_less) (metis less_irrefl)+
  then show ?thesis
    by (auto simp: retention_purge_def cutoffs_def Let_def)
qed

lemma removed_rows:
  assumes "distinct (map key rows)"
  shows "set rows - set (filter (\<lambda>r. key r \<notin> set (oldest created key cutoff n rows)) rows) =
      {r \<in> set rows. key r \<in> set (oldest created key cutoff n rows)}"
    and "card {r \<in> set rows. key r \<in> set (oldest created key cutoff n rows)} = length (oldest created key cutoff n rows)"
proof -
  show "set rows - set (filter (\<lambda>r. key r \<notin> set (oldest created key cutoff n rows)) rows) =
      {r \<in> set rows. key r \<in> set (oldest created key cutoff n rows)}" by auto
  have "distinct (filter (\<lambda>r. key r \<in> set (oldest created key cutoff n rows)) rows)"
    using assms by (simp add: distinct_map)
  from distinct_card [OF this] deleted_count [OF assms, of created cutoff n]
  show "card {r \<in> set rows. key r \<in> set (oldest created key cutoff n rows)} = length (oldest created key cutoff n rows)"
    by simp
qed

lemma table_purged:
  fixes created :: "'r \<Rightarrow> int" and cutoff :: int and n :: nat and rows :: "'r list"
  assumes "distinct (map key rows)"
  defines "left \<equiv> filter (\<lambda>r. key r \<notin> set (oldest created key cutoff n rows)) rows"
  shows "r \<in> set rows - set left \<Longrightarrow> created r < cutoff"
    and "r \<in> set rows - set left \<Longrightarrow> q \<in> set left \<Longrightarrow> created r \<le> created q"
    and "card (set rows - set left) = length (oldest created key cutoff n rows)"
    and "left = filter (\<lambda>r. r \<notin> set rows - set left) rows"
proof -
  note old = oldest_old [OF assms(1)] and first = oldest_first [OF assms(1)]
  show "r \<in> set rows - set left \<Longrightarrow> created r < cutoff" using old by (auto simp: left_def)
  show "r \<in> set rows - set left \<Longrightarrow> q \<in> set left \<Longrightarrow> created r \<le> created q"
    using old [of r] first [of r _ _ _ q] by (cases "created q < cutoff") (fastforce simp: left_def)+
  show "card (set rows - set left) = length (oldest created key cutoff n rows)"
    unfolding left_def by (simp only: removed_rows [OF assms(1)])
  show "left = filter (\<lambda>r. r \<notin> set rows - set left) rows" by (auto simp: left_def intro: filter_cong)
qed

lemma filter_table:
  "distinct (map f rows) \<Longrightarrow> distinct (map f (filter P rows))" "list_all Q rows \<Longrightarrow> list_all Q (filter P rows)"
  by (simp_all add: distinct_map_filter list_all_iff)

lemma distinct_filter_map: "distinct (filter Q (map f rows)) \<Longrightarrow> distinct (filter Q (map f (filter P rows)))"
  by (induction rows) auto

lemma purged_db_ok:
  assumes "db_ok d" and "1 \<le> py_len actor" "py_len actor \<le> 128" and "1 \<le> py_len uuid" "py_len uuid \<le> 128"
    and "uuid \<notin> au_id ` set (db_audits d)"
  shows "db_ok (purged_db s uuid actor now ec ac d)"
proof -
  let ?a = "purge_record s uuid actor now (event_count ec d) (audit_count ac d)
    (int (length (oldest ev_created_at ev_id ec (rs_batch_size s) (db_events d))))
    (int (length (oldest au_created_at au_id ac (rs_batch_size s) (db_audits d)))) ec ac"
  have "py_len ''retention.purged'' = 16" by code_simp
  then have "audit_ok ?a" "au_client ?a = None" "au_id ?a = uuid"
    using assms(2-5) by (simp_all add: audit_ok_def purge_record_def AUDIT_TARGET_TYPES_def)
  moreover have "caller_tables_ok d" "control_tables_ok d" "usage_tables_ok d" using assms(1) by (simp_all add: db_ok_def)
  ultimately show ?thesis
    using assms(6)
    by (auto simp: db_ok_def caller_tables_ok_def control_tables_ok_def usage_tables_ok_def purged_db_def Let_def
        filter_table distinct_filter_map)
qed

subsection \<open>A sample\<close>

definition aged_event :: "str \<Rightarrow> int \<Rightarrow> event" where
  "aged_event key created = \<lparr>ev_id = key, ev_server_request_id = key, ev_client_request_id = key, ev_operation = None, ev_client = None, ev_credential = None,
     ev_endpoint = ''/'', ev_method = ''GET'', ev_model = None, ev_stream = False, ev_outcome = ''rejected'',
     ev_stage = ''auth'', ev_http_status = 401, ev_code = ''X'', ev_retryable = False, ev_duration_ms = 0,
     ev_overrun = False, ev_prompt = 0, ev_completion = 0, ev_total = 0, ev_charged = 0, ev_qps = 0, ev_concurrency = 0,
     ev_daily_requests = 0, ev_daily_tokens = 0, ev_total_requests = 0, ev_total_tokens = 0, ev_ip_hash = None,
     ev_ua_family = None, ev_started_at = 0, ev_completed_at = 0, ev_created_at = created\<rparr>"

definition aged_audit :: "str \<Rightarrow> int \<Rightarrow> audit" where
  "aged_audit key created = \<lparr>au_id = key, au_actor = ''admin'', au_client = None, au_target_type = ''client'', au_target_id = None,
     au_action = ''x'', au_changed_fields = [], au_before = [], au_after = [], au_created_at = created\<rparr>"

definition aged_db :: db where
  "aged_db = empty_db\<lparr>db_events := [aged_event ''e1'' 90000, aged_event ''e2'' 80000, aged_event ''e3'' 40000000],
     db_audits := [aged_audit ''a1'' 1000]\<rparr>"

definition retention_sample :: retention_service where
  "retention_sample = \<lparr>rs_event_days = 30, rs_audit_days = 365, rs_batch_size = 1, rs_unicode = (\<lambda>_. [])\<rparr>"

lemma aged_ok: "db_ok aged_db" "check_retention_service retention_sample = Inr ()"
  by code_simp+

lemma aged_preview: "preview retention_sample 40000000 aged_db = Inr (retention_preview_of retention_sample 40000000 37408000 8464000 2 1)"
  by code_simp

lemma aged_names: "py_len ''admin'' = 5" "py_len ''u1'' = 2" "''u1'' \<notin> au_id ` set (db_audits aged_db)"
  by code_simp+

definition purge_reply :: purge_result where
  "purge_reply = \<lparr>pr_audit_id = ''u1'', pr_completed_at = 40000000, pr_event_cutoff = 37408000, pr_audit_cutoff = 8464000,
     pr_event_deleted = 1, pr_audit_deleted = 1, pr_event_remaining = 1, pr_audit_remaining = 0, pr_batch_size = 1\<rparr>"

lemma aged_oldest:
  "oldest ev_created_at ev_id 37408000 (Suc 0) (db_events aged_db) = [''e2'']"
  "oldest au_created_at au_id 8464000 (Suc 0) (db_audits aged_db) = [''a1'']"
  by code_simp+

subsection \<open>Only old records go\<close>



subsection \<open>A preview can be carried out\<close>

lemma oldest_count: "int (length (oldest created key cutoff n rows)) = min (count_where (\<lambda>r. created r < cutoff) rows) (int n)"
  by (simp add: oldest_length count_where_length of_nat_min min.commute)

lemma remaining_count:
  assumes "distinct (map key rows)"
  shows "count_where (\<lambda>r. created r < cutoff) (filter (\<lambda>r. key r \<notin> set (oldest created key cutoff n rows)) rows) =
    count_where (\<lambda>r. created r < cutoff) rows - int (length (oldest created key cutoff n rows))"
proof -
  let ?ids = "set (oldest created key cutoff n rows)"
  have "filter (\<lambda>r. key r \<in> ?ids) (filter (\<lambda>r. created r < cutoff) rows) = filter (\<lambda>r. key r \<in> ?ids) rows"
    using oldest_old [OF assms] by (auto intro: filter_cong)
  then have "length (oldest created key cutoff n rows) = length (filter (\<lambda>r. key r \<in> ?ids) (filter (\<lambda>r. created r < cutoff) rows))"
    using deleted_count [OF assms, of created cutoff n] by simp
  moreover have "filter (\<lambda>r. created r < cutoff) (filter (\<lambda>r. key r \<notin> ?ids) rows) =
      filter (\<lambda>r. key r \<notin> ?ids) (filter (\<lambda>r. created r < cutoff) rows)"
    by (simp add: conj_commute)
  ultimately show ?thesis
    using sum_length_filter_compl [of "\<lambda>r. key r \<in> ?ids" "filter (\<lambda>r. created r < cutoff) rows"]
    by (simp add: count_where_length)
qed

text \<open>What a preview has counted can be purged. When a preview finds a record to remove and the
  tables do not change in between, the purge confirmed with its counts commits, removes exactly the
  previewed batches, and a preview taken right after it counts exactly what the purge reported as
  remaining.\<close>

theorem preview_then_purge:
  assumes "db_ok d" and "preview s now d = Inr p" and "check_retention_service s = Inr ()"
    and "0 < rp_event_eligible p \<or> 0 < rp_audit_eligible p"
    and "1 \<le> py_len actor" "py_len actor \<le> 128" and "1 \<le> py_len uuid" "py_len uuid \<le> 128"
    and "uuid \<notin> au_id ` set (db_audits d)"
  shows "\<exists>r d' q. commit_tx (retention_purge s uuid actor now (rp_event_eligible p) (rp_audit_eligible p) True) d = Inr (r, d') \<and>
    preview s now d' = Inr q \<and>
    pr_event_deleted r = rp_event_batch p \<and> pr_audit_deleted r = rp_audit_batch p \<and>
    rp_event_eligible q = pr_event_remaining r \<and> rp_audit_eligible q = pr_audit_remaining r \<and>
    pr_event_remaining r = rp_event_eligible p - rp_event_batch p \<and>
    pr_audit_remaining r = rp_audit_eligible p - rp_audit_batch p"
proof -
  define ec where "ec = max 0 (now - rs_event_days s * SECONDS_PER_DAY)"
  define ac where "ac = max 0 (now - rs_audit_days s * SECONDS_PER_DAY)"
  have now: "0 \<le> now" and p: "p = retention_preview_of s now ec ac (event_count ec d) (audit_count ac d)"
    using assms(2) by (auto simp: preview_def cutoffs_def ec_def ac_def split: if_splits)
  have "365 \<le> rs_audit_days s" using assms(3)
    by (auto simp: check_retention_service_def MIN_AUDIT_RETENTION_DAYS_def split: if_splits)
  then have ac: "\<not> now < ac" using now by (simp add: ac_def SECONDS_PER_DAY_def)
  have keys: "distinct (map ev_id (db_events d))" "distinct (map au_id (db_audits d))"
    using assms(1) by (simp_all add: db_ok_def usage_tables_ok_def control_tables_ok_def)
  let ?d = "purged_db s uuid actor now ec ac d"
  obtain r where r: "retention_purge s uuid actor now (event_count ec d) (audit_count ac d) True d = Inr (r, ?d)"
    "pr_event_deleted r = min (event_count ec d) (int (rs_batch_size s))"
    "pr_audit_deleted r = min (audit_count ac d) (int (rs_batch_size s))"
    "pr_event_remaining r = event_count ec d - pr_event_deleted r" "pr_audit_remaining r = audit_count ac d - pr_audit_deleted r"
    using assms(4) now unfolding purge_Inr [OF assms(1)] Let_def ec_def [symmetric] ac_def [symmetric] purge_records_eq [OF assms(1)]
    by (auto simp: p retention_preview_of_def oldest_count event_count_def audit_count_def)
  have "db_ok ?d" using assms(1,5-9) by (rule purged_db_ok)
  with r(1) have c: "commit_tx (retention_purge s uuid actor now (event_count ec d) (audit_count ac d) True) d = Inr (r, ?d)"
    by (simp add: commit_tx_Inr)
  have left: "count_where (\<lambda>r. created r < cutoff) (filter (\<lambda>r. key r \<notin> set (oldest created key cutoff n rows)) rows) =
      count_where (\<lambda>r. created r < cutoff) rows - min (count_where (\<lambda>r. created r < cutoff) rows) (int n)"
    if "distinct (map key rows)" for created :: "'r \<Rightarrow> int" and key :: "'r \<Rightarrow> str" and cutoff n rows
    using remaining_count [OF that] by (simp add: oldest_count)
  have "event_count ec ?d = pr_event_remaining r" "audit_count ac ?d = pr_audit_remaining r"
    using left [OF keys(1)] left [OF keys(2)] r ac
    by (simp_all add: event_count_def audit_count_def purged_db_def Let_def)
      (simp_all add: count_where_def purge_record_def)
  then have "preview s now ?d = Inr (retention_preview_of s now ec ac (pr_event_remaining r) (pr_audit_remaining r))"
    using now by (simp add: preview_def cutoffs_def ec_def ac_def)
  then show ?thesis
    using c r
    by (intro exI [of _ r] exI [of _ ?d] exI [of _ "retention_preview_of s now ec ac (pr_event_remaining r) (pr_audit_remaining r)"])
      (simp add: p retention_preview_of_def)
qed

lemma preview_then_purge_witness:
  "\<exists>r d'. commit_tx (retention_purge retention_sample ''u1'' ''admin'' 40000000 2 1 True) aged_db = Inr (r, d') \<and>
    pr_event_deleted r = 1 \<and> pr_event_remaining r = 1"
  using preview_then_purge [OF aged_ok(1) aged_preview aged_ok(2), of "''admin''" "''u1''"] aged_names
  by (auto simp: retention_preview_of_def retention_sample_def)

end
