(* ===== verification/Metadata.thy ===== *)
theory Metadata
  imports World Callers
begin

text \<open>
  What a caller may ask about itself, \<open>backend/app/services/metadata.py\<close> and
  \<open>backend/app/api/metadata_models.py\<close>: its models and its usage. Such a request is admitted like
  a chat request (nonce, policy, endpoint, request rate) and reserves nothing.
\<close>

subsection \<open>Response models\<close>

definition external_model_ok :: "str \<Rightarrow> bool" where
  "external_model_ok model_id \<longleftrightarrow> 1 \<le> py_len model_id \<and> py_len model_id \<le> 255"

definition external_model_list :: "str list \<Rightarrow> json res" where
  "external_model_list ids =
    (if \<not> list_all external_model_ok ids \<or> 256 < length ids then Inl (ValueError ''ValidationError'')
     else Inr (JObj [(''object'', JStr ''list''),
       (''data'', JList (map (\<lambda>m. JObj [(''id'', JStr m), (''object'', JStr ''model'')]) ids))]))"

record external_usage_scope =
  ux_scope :: str
  ux_period_start :: int
  ux_period_end :: "int option"
  ux_request_count :: int
  ux_request_limit :: "int option"
  ux_request_remaining :: "int option"
  ux_token_consumed :: int
  ux_token_reserved :: int
  ux_token_limit :: "int option"
  ux_token_remaining :: "int option"
  ux_updated_at :: "int option"

definition usage_scope_ok :: "external_usage_scope \<Rightarrow> bool" where
  "usage_scope_ok x \<longleftrightarrow> ux_scope x \<in> {''daily'', ''lifetime''} \<and> 0 \<le> ux_period_start x \<and>
    opt_all (\<lambda>n. 0 \<le> n) (ux_period_end x) \<and> 0 \<le> ux_request_count x \<and> opt_all (\<lambda>n. 0 < n) (ux_request_limit x) \<and>
    opt_all (\<lambda>n. 0 \<le> n) (ux_request_remaining x) \<and> 0 \<le> ux_token_consumed x \<and> 0 \<le> ux_token_reserved x \<and>
    opt_all (\<lambda>n. 0 < n) (ux_token_limit x) \<and> opt_all (\<lambda>n. 0 \<le> n) (ux_token_remaining x) \<and>
    opt_all (\<lambda>n. 0 \<le> n) (ux_updated_at x)"

record external_usage =
  ue_as_of :: int
  ue_daily :: external_usage_scope
  ue_lifetime :: external_usage_scope

definition validate_usage_response :: "external_usage \<Rightarrow> external_usage res" where
  "validate_usage_response u =
    (if usage_scope_ok (ue_daily u) \<and> usage_scope_ok (ue_lifetime u) \<and> 0 \<le> ue_as_of u then Inr u
     else Inl (ValueError ''ValidationError''))"

definition opt_json :: "int option \<Rightarrow> json" where
  "opt_json v = (case v of None \<Rightarrow> JNull | Some n \<Rightarrow> JInt n)"

definition usage_scope_json :: "external_usage_scope \<Rightarrow> json" where
  "usage_scope_json x = JObj [(''scope'', JStr (ux_scope x)), (''period_start'', JInt (ux_period_start x)),
     (''period_end'', opt_json (ux_period_end x)), (''request_count'', JInt (ux_request_count x)),
     (''request_limit'', opt_json (ux_request_limit x)), (''request_remaining'', opt_json (ux_request_remaining x)),
     (''token_consumed'', JInt (ux_token_consumed x)), (''token_reserved'', JInt (ux_token_reserved x)),
     (''token_limit'', opt_json (ux_token_limit x)), (''token_remaining'', opt_json (ux_token_remaining x)),
     (''updated_at'', opt_json (ux_updated_at x))]"

definition usage_json :: "external_usage \<Rightarrow> json" where
  "usage_json u = JObj [(''object'', JStr ''usage''), (''as_of'', JInt (ue_as_of u)),
     (''daily'', usage_scope_json (ue_daily u)), (''lifetime'', usage_scope_json (ue_lifetime u))]"

subsection \<open>The service\<close>

record usage_snapshot =
  sn_request_count :: int
  sn_token_reserved :: int
  sn_token_consumed :: int
  sn_updated_at :: "int option"

definition metadata_rate_headers :: "qps_decision \<Rightarrow> headers" where
  "metadata_rate_headers d =
    [(''X-RateLimit-Limit'', show_int (qd_limit d)), (''X-RateLimit-Remaining'', show_int (qd_remaining d)),
     (''X-RateLimit-Reset'', show_int ((qd_reset_at d + 999) div 1000))]"

definition caller_error_code :: "str \<Rightarrow> str" where
  "caller_error_code code =
    (if code = ''CLIENT_DISABLED'' then ''CLIENT_DISABLED''
     else if code \<in> {''CREDENTIAL_REVOKED'', ''CREDENTIAL_EXPIRED''} then ''AUTH_FAILED''
     else ''CONTROL_PLANE_UNAVAILABLE'')"

definition quota_remaining :: "int option \<Rightarrow> int \<Rightarrow> int option" where
  "quota_remaining limit used = (case limit of None \<Rightarrow> None | Some l \<Rightarrow> Some (max (l - used) 0))"

record metadata_service =
  ms_sha :: "str \<Rightarrow> str"
  ms_nonce_ttl :: int
  ms_qps_window :: int

definition load_metadata_policy :: "env \<Rightarrow> authenticated_caller \<Rightarrow> int \<Rightarrow> metadata_policy prog" where
  "load_metadata_policy en caller now = call en Act_policy (db_load (\<lambda>d. load_caller_metadata_policy d caller now))"

text \<open>The rows become a dictionary by scope: a later row of a scope replaces an earlier one.\<close>

definition usage_row :: "str \<Rightarrow> int \<Rightarrow> quota_row \<Rightarrow> bool" where
  "usage_row client day q \<longleftrightarrow> qu_client q = client \<and>
    (qu_scope q = Daily \<and> qu_period q = day \<or> qu_scope q = Lifetime \<and> qu_period q = 0)"

definition snapshot_of :: "quota_row \<Rightarrow> usage_snapshot" where
  "snapshot_of q = \<lparr>sn_request_count = qu_requests q, sn_token_reserved = qu_reserved q, sn_token_consumed = qu_consumed q,
     sn_updated_at = Some (qu_updated_at q)\<rparr>"

definition load_usage :: "db \<Rightarrow> str \<Rightarrow> int \<Rightarrow> (quota_scope \<rightharpoonup> usage_snapshot) res" where
  "load_usage d client now = bind_res (utc_day_start now) (\<lambda>day.
    Inr (map_of (rev (map (\<lambda>q. (qu_scope q, snapshot_of q)) (filter (usage_row client day) (db_quotas d))))))"

definition metadata_error :: "str \<Rightarrow> headers \<Rightarrow> 'a prog" where
  "metadata_error code hs = raise (api_error code None hs)"

definition metadata_admit :: "env \<Rightarrow> metadata_service \<Rightarrow> authenticated_caller \<Rightarrow> str \<Rightarrow> str \<Rightarrow> int \<Rightarrow>
    (metadata_policy \<times> headers) prog" where
  "metadata_admit en s caller server_request_id permission now =
    bindp (call en (Act_nonce (au_nonce caller)) (redis_do en (\<lambda>l t.
      claim (ms_sha s) (ms_nonce_ttl s) l t (au_api_client_id caller) (au_credential_id caller) (au_nonce caller)))) (\<lambda>claimed.
    if \<not> claimed then metadata_error ''AUTH_FAILED'' []
    else bindp (except (load_metadata_policy en caller now) (\<lambda>e. case e of
        CallerPolicyError code \<Rightarrow> metadata_error (caller_error_code code) [] | _ \<Rightarrow> raise e)) (\<lambda>policy.
    if permission \<notin> set (mp_allowed_endpoints policy) then metadata_error ''ENDPOINT_FORBIDDEN'' []
    else bindp (call en Act_qps (redis_do en (\<lambda>l t.
      qps_admit (ms_sha s) (ms_qps_window s) l t (au_api_client_id caller) server_request_id (mp_qps_limit policy)))) (\<lambda>qps.
    let hs = metadata_rate_headers qps in
    if \<not> qd_allowed qps then metadata_error ''QPS_LIMITED'' hs else ret (policy, hs))))"

definition metadata_now :: "env \<Rightarrow> int prog" where
  "metadata_now en = bindp (read_time en) (\<lambda>t.
    if t < 0 then raise (ValueError ''metadata clock returned an invalid value'') else ret t)"

definition list_models :: "env \<Rightarrow> metadata_service \<Rightarrow> authenticated_caller \<Rightarrow> str \<Rightarrow> (json \<times> headers) prog" where
  "list_models en s caller server_request_id =
    bindp (metadata_now en) (\<lambda>now.
    bindp (metadata_admit en s caller server_request_id ''models.read'' now) (\<lambda>(policy, hs).
    bindp (of_res (external_model_list (sort (mp_allowed_models policy)))) (\<lambda>response. ret (response, hs))))"

definition empty_usage :: usage_snapshot where
  "empty_usage = \<lparr>sn_request_count = 0, sn_token_reserved = 0, sn_token_consumed = 0, sn_updated_at = None\<rparr>"

definition usage_scope :: "str \<Rightarrow> int \<Rightarrow> int option \<Rightarrow> usage_snapshot \<Rightarrow> int option \<Rightarrow> int option \<Rightarrow> external_usage_scope" where
  "usage_scope scope start ends n request_limit token_limit =
    \<lparr>ux_scope = scope, ux_period_start = start, ux_period_end = ends, ux_request_count = sn_request_count n,
     ux_request_limit = request_limit, ux_request_remaining = quota_remaining request_limit (sn_request_count n),
     ux_token_consumed = sn_token_consumed n, ux_token_reserved = sn_token_reserved n, ux_token_limit = token_limit,
     ux_token_remaining = quota_remaining token_limit (sn_token_consumed n + sn_token_reserved n),
     ux_updated_at = sn_updated_at n\<rparr>"

definition usage_of :: "metadata_policy \<Rightarrow> int \<Rightarrow> int \<Rightarrow> (quota_scope \<rightharpoonup> usage_snapshot) \<Rightarrow> external_usage" where
  "usage_of policy now day rows =
    (let daily = (case rows Daily of Some n \<Rightarrow> n | None \<Rightarrow> empty_usage);
         lifetime = (case rows Lifetime of Some n \<Rightarrow> n | None \<Rightarrow> empty_usage) in
     \<lparr>ue_as_of = now,
      ue_daily = usage_scope ''daily'' day (Some (day + 86400)) daily (mp_daily_request_limit policy) (mp_daily_token_limit policy),
      ue_lifetime = usage_scope ''lifetime'' 0 None lifetime (mp_total_request_limit policy) (mp_total_token_limit policy)\<rparr>)"

definition get_usage :: "env \<Rightarrow> metadata_service \<Rightarrow> authenticated_caller \<Rightarrow> str \<Rightarrow> (external_usage \<times> headers) prog" where
  "get_usage en s caller server_request_id =
    bindp (metadata_now en) (\<lambda>now.
    bindp (metadata_admit en s caller server_request_id ''usage.read'' now) (\<lambda>(policy, hs).
    bindp (call en Act_usage (db_load (\<lambda>d. load_usage d (mp_api_client_id policy) now))) (\<lambda>rows.
    bindp (of_res (utc_day_start now)) (\<lambda>day.
    bindp (of_res (validate_usage_response (usage_of policy now day rows))) (\<lambda>response. ret (response, hs))))))"

end
