(* ===== verification/External.thy ===== *)
theory External
  imports Chat Metadata
begin

text \<open>
  The endpoints of the external interface, \<open>backend/app/api/external.py\<close>: what is read from an
  HTTP request, in which order it is checked, authenticated and served, and which response every
  exception becomes. The body of a request has been received when its handler runs.
\<close>

subsection \<open>Reading a request\<close>

definition MAX_EXTERNAL_BODY_BYTES :: nat where
  "MAX_EXTERNAL_BODY_BYTES = 1048576"

text \<open>Headers are looked up by the first name that matches; the values are Latin-1 text, of which
  \<open>strip\<close> also removes the next-line and the no-break space.\<close>

definition latin_space :: "char \<Rightarrow> bool" where
  "latin_space c \<longleftrightarrow> is_py_space c \<or> c \<in> {CHR 0x85, CHR 0xA0}"

definition latin_strip :: "str \<Rightarrow> str" where
  "latin_strip s = rev (dropWhile latin_space (rev (dropWhile latin_space s)))"

text \<open>\<open>int(text)\<close>: a sign, then digits with single underscores between them, at most 4300 of them.\<close>

definition header_int :: "str \<Rightarrow> int option" where
  "header_int text = (let t = latin_strip text;
       (sign, u) = (case t of [] \<Rightarrow> (1, [])
         | c # cs \<Rightarrow> if c = CHR ''-'' then (- 1, cs) else if c = CHR ''+'' then (1, cs) else (1, t)) in
     if 4300 < length (filter is_digit u) then None else map_option (\<lambda>n. sign * n) (digits_value 0 False u))"

definition bounded_json_body :: "http_request \<Rightarrow> str res" where
  "bounded_json_body q =
    (let content_type = (case map_of (hr_headers q) ''content-type'' of None \<Rightarrow> [] | Some v \<Rightarrow> v);
         media = map lower_char (latin_strip (fst (partition_on CHR '';'' content_type)));
         body = hr_body q;
         rest = (if MAX_EXTERNAL_BODY_BYTES < length body then Inl (api_error ''PAYLOAD_TOO_LARGE'' None [])
           else if body = [] then Inl (api_error ''INVALID_REQUEST'' None [])
           else Inr body) in
     if media \<noteq> ''application/json'' then Inl (api_error ''INVALID_REQUEST'' None [])
     else case map_of (hr_headers q) ''content-length'' of
       None \<Rightarrow> rest
     | Some v \<Rightarrow> (case header_int v of
           None \<Rightarrow> Inl (api_error ''INVALID_REQUEST'' None [])
         | Some n \<Rightarrow> if n < 0 then Inl (api_error ''INVALID_REQUEST'' None [])
             else if int MAX_EXTERNAL_BODY_BYTES < n then Inl (api_error ''PAYLOAD_TOO_LARGE'' None [])
             else rest))"

subsection \<open>The application\<close>

text \<open>What the application's state holds for the external interface; \<open>xa_loads\<close> is the JSON reader of
  the validation library.\<close>

record external_app =
  xa_crypto :: crypto
  xa_keyring :: keyring
  xa_tolerance :: int
  xa_loads :: "str \<Rightarrow> json option"
  xa_valid :: validation
  xa_chat :: chat_service
  xa_metadata :: metadata_service

datatype external_answer =
    Answered response
  | Streamed headers admission

text \<open>The authenticator with its resolver: the headers are read before the credential is looked up,
  and the clock is read after it.\<close>

definition external_caller :: "env \<Rightarrow> external_app \<Rightarrow> str option \<Rightarrow> http_request \<Rightarrow> authenticated_caller prog" where
  "external_caller en a raw_path q =
    (let auth = (\<lambda>resolver now. authenticate_http_request (xa_crypto a) (xa_keyring a) resolver (xa_tolerance a) now raw_path q) in
     case (if opt_all is_ascii raw_path \<and> is_ascii (hr_query q) then parse_external_auth_headers (hr_headers q)
           else Inl (ExternalAuthFailure ''request_target_encoding'')) of
       Inl e \<Rightarrow> raise e
     | Inr h \<Rightarrow> bindp (call en (Act_credential (ah_key_id h)) (db_read (\<lambda>d. resolve_credential d (ah_key_id h)))) (\<lambda>found.
         bindp (read_time en) (\<lambda>now. of_res (auth (\<lambda>_. found) now))))"

text \<open>The handlers shared by the endpoints.\<close>

definition external_failure :: "str \<Rightarrow> exn \<Rightarrow> external_answer prog" where
  "external_failure server_request_id e =
    (let answer = (\<lambda>code. external_error_response code server_request_id None []) in
     bindp (case e of
         ExternalApiError _ _ _ \<Rightarrow> of_res (to_response e server_request_id)
       | ExternalAuthFailure _ \<Rightarrow> of_res (answer ''AUTH_FAILED'')
       | ExternalClientDisabled \<Rightarrow> of_res (answer ''CLIENT_DISABLED'')
       | ControlPlaneUnavailable \<Rightarrow> of_res (answer ''CONTROL_PLANE_UNAVAILABLE'')
       | _ \<Rightarrow> if is_base_only e then raise e else of_res (answer ''INTERNAL_ERROR'')) (\<lambda>r. ret (Answered r)))"

definition json_answer :: "str \<Rightarrow> headers \<Rightarrow> json \<Rightarrow> external_answer" where
  "json_answer server_request_id hs content = Answered \<lparr>rp_status = 200, rp_body = content,
     rp_headers = headers_update [(''Cache-Control'', ''no-store''), (''X-Zangpu-Request-Id'', server_request_id)] hs\<rparr>"

datatype metadata_resource = Models | Usage

definition external_metadata_response :: "env \<Rightarrow> external_app \<Rightarrow> str \<Rightarrow> metadata_resource \<Rightarrow> str option \<Rightarrow> http_request \<Rightarrow>
    external_answer prog" where
  "external_metadata_response en a server_request_id resource raw_path q =
    except
      (bindp (external_caller en a raw_path q) (\<lambda>caller.
       if hr_query q \<noteq> [] \<or> hr_body q \<noteq> [] then raise (api_error ''INVALID_REQUEST'' None [])
       else (case resource of
           Models \<Rightarrow> bindp (list_models en (xa_metadata a) caller server_request_id) (\<lambda>(content, hs).
             ret (json_answer server_request_id hs content))
         | Usage \<Rightarrow> bindp (get_usage en (xa_metadata a) caller server_request_id) (\<lambda>(u, hs).
             ret (json_answer server_request_id hs (usage_json u))))))
      (external_failure server_request_id)"

text \<open>A completion without its empty fields.\<close>

definition opt_text :: "str \<Rightarrow> str option \<Rightarrow> (str \<times> json) list" where
  "opt_text k v = (case v of None \<Rightarrow> [] | Some s \<Rightarrow> [(k, JStr s)])"

definition choice_json :: "chat_choice \<Rightarrow> json" where
  "choice_json c = JObj ([(''index'', JInt (ch_index c)),
     (''message'', JObj ((''role'', JStr (ch_role c)) # opt_text ''content'' (ch_content c)))] @
     opt_text ''finish_reason'' (ch_finish_reason c))"

definition completion_json :: "chat_completion \<Rightarrow> json" where
  "completion_json c = JObj ([(''id'', JStr (cc_id c)), (''object'', JStr ''chat.completion'')] @
     opt_field ''created'' (map_option JInt (cc_created c)) @
     [(''model'', JStr (cc_model c)), (''choices'', JList (map choice_json (cc_choices c))),
      (''usage'', JObj [(''prompt_tokens'', JInt (us_prompt (cc_usage c))),
        (''completion_tokens'', JInt (us_completion (cc_usage c))), (''total_tokens'', JInt (us_total (cc_usage c)))])])"

definition stream_headers :: "str \<Rightarrow> headers \<Rightarrow> headers" where
  "stream_headers server_request_id hs = headers_update [(''Cache-Control'', ''no-store, no-transform''),
     (''X-Accel-Buffering'', ''no''), (''X-Zangpu-Request-Id'', server_request_id)] hs"

definition external_chat_completion :: "env \<Rightarrow> external_app \<Rightarrow> str \<Rightarrow> str option \<Rightarrow> http_request \<Rightarrow> external_answer prog" where
  "external_chat_completion en a server_request_id raw_path q =
    except
      (bindp (of_res (bounded_json_body q)) (\<lambda>body.
       case Option.bind (xa_loads a body) (validate_chat_request (xa_valid a)) of
         None \<Rightarrow> raise (api_error ''INVALID_REQUEST'' None [])
       | Some request \<Rightarrow>
           bindp (external_caller en a raw_path q) (\<lambda>caller.
           let fingerprint = cy_sha (xa_crypto a) body in
           if cq_stream request then
             bindp (prepare_stream en (xa_chat a) request caller server_request_id fingerprint) (\<lambda>ad.
               ret (Streamed (stream_headers server_request_id (ad_headers ad)) ad))
           else
             bindp (execute en (xa_chat a) request caller server_request_id fingerprint) (\<lambda>(response, hs).
               ret (json_answer server_request_id hs (completion_json response))))))
      (external_failure server_request_id)"

end
