(* ===== verification/External_Lemmas.thy ===== *)
theory External_Lemmas
  imports External World_Lemmas
begin

text \<open>
  The exceptions a program of the external interface can end with: an error of the interface
  carries a code of the error table and no header that overrides those every response has. The
  constructor of the exception sees to the first, the services to the second.
\<close>

subsection \<open>Well-formed errors\<close>

definition names_ok :: "headers \<Rightarrow> bool" where
  "names_ok hs \<longleftrightarrow> list_all (\<lambda>h. fst h \<notin> {''Cache-Control'', ''X-Zangpu-Request-Id''}) hs"

definition api_ok :: "exn \<Rightarrow> bool" where
  "api_ok e \<longleftrightarrow> (\<forall>code k hs. e = ExternalApiError code k hs \<longrightarrow> spec_of code \<noteq> None \<and> names_ok hs)"

lemma names_ok_simps [simp]: "names_ok []" "names_ok (h # hs) \<longleftrightarrow> fst h \<notin> {''Cache-Control'', ''X-Zangpu-Request-Id''} \<and> names_ok hs"
    "names_ok (hs @ hs') \<longleftrightarrow> names_ok hs \<and> names_ok hs'"
  by (simp_all add: names_ok_def)

lemma names_ok_put: "names_ok hs \<Longrightarrow> k \<notin> {''Cache-Control'', ''X-Zangpu-Request-Id''} \<Longrightarrow> names_ok (header_put k v hs)"
  by (induction hs) (auto simp: names_ok_def)

lemma names_ok_update [simp]: "names_ok hs \<Longrightarrow> names_ok new \<Longrightarrow> names_ok (headers_update hs new)"
  by (induction new arbitrary: hs) (auto simp: headers_update_def names_ok_put)

lemma api_ok_error [simp]: "names_ok hs \<Longrightarrow> api_ok (api_error code k hs)"
  by (auto simp: api_ok_def api_error_def)

lemma service_headers [simp]: "names_ok (rate_limit_headers d)" "names_ok (concurrency_limit_headers c)"
    "names_ok (model_pool_limit_headers p)" "names_ok (metadata_rate_headers d)"
  by (simp_all add: rate_limit_headers_def concurrency_limit_headers_def model_pool_limit_headers_def metadata_rate_headers_def)

text \<open>A computation that never raises an error of the interface.\<close>

definition foreign :: "'a res \<Rightarrow> bool" where
  "foreign r \<longleftrightarrow> (\<forall>code k hs. r \<noteq> Inl (ExternalApiError code k hs))"

lemma foreign_simps [simp]: "foreign (Inr x)" "foreign (Inl (ValueError m))" "foreign (Inl ControlPlaneUnavailable)"
    "foreign (Inl (CallerPolicyError m))" "foreign (Inl (QuotaAdmissionError m i))" "foreign (Inl (QuotaStateError m))"
    "foreign (Inl (RuntimeError m))" "foreign (Inl (LookupError m))" "foreign (Inl IntegrityError)"
    "foreign (Inl (OpenWebUIUpstreamError m j b))" "foreign (Inl (BifrostUpstreamError m j b))"
    "foreign (Inl (ExternalPayloadError m))" "foreign (Inl KeyVersionUnavailable)" "foreign (Inl CredentialDecryptionError)"
    "foreign (Inl (ExternalAuthFailure m))" "foreign (Inl ExternalClientDisabled)" "foreign (Inl CancelledError)"
    "foreign (Inl (AssertionError m))" "foreign (Inl OtherException)" "foreign (Inl (CanonicalizationError m))"
  by (simp_all add: foreign_def)

lemma foreign_bind [intro]: "foreign r \<Longrightarrow> (\<And>x. foreign (f x)) \<Longrightarrow> foreign (bind_res r f)"
  by (cases r) (auto simp: foreign_def)

lemma foreign_ok: "foreign (Inl e) \<Longrightarrow> api_ok e"
  by (auto simp: foreign_def api_ok_def)

lemma foreign_drop: "foreign (Inl e :: 'a res) \<longleftrightarrow> foreign (Inl e :: 'b res)"
  by (simp add: foreign_def)

lemma foreign_map_res: "(\<And>x. foreign (f x)) \<Longrightarrow> foreign (map_res f xs)"
  by (induction xs) (auto intro!: foreign_bind)

subsection \<open>Sound programs\<close>

text \<open>A program that raises only well-formed errors and returns a value with the given property,
  from every world.\<close>

definition sound :: "('a \<Rightarrow> bool) \<Rightarrow> 'a prog \<Rightarrow> bool" where
  "sound Q m \<longleftrightarrow> (\<forall>w. case fst (m w) of Inl e \<Rightarrow> api_ok e | Inr x \<Rightarrow> Q x)"

definition env_ok :: "env \<Rightarrow> bool" where
  "env_ok en \<longleftrightarrow> (\<forall>l e. en_fate en l \<in> {Never_done e, Done_but e} \<longrightarrow> api_ok e)"

lemma sound_ret: "Q x \<Longrightarrow> sound Q (ret x)"
  by (simp add: sound_def)

lemma sound_raise: "api_ok e \<Longrightarrow> sound Q (raise e)"
  by (simp add: sound_def)

lemma sound_of_res: "(\<And>e. r = Inl e \<Longrightarrow> api_ok e) \<Longrightarrow> (\<And>x. r = Inr x \<Longrightarrow> Q x) \<Longrightarrow> sound Q (of_res r)"
  by (cases r) (simp_all add: sound_def)

lemma sound_foreign: "foreign r \<Longrightarrow> sound (\<lambda>_. True) (of_res r)"
  by (cases r) (auto simp: sound_def intro: foreign_ok)

lemma sound_bind: "sound Q' m \<Longrightarrow> (\<And>x. Q' x \<Longrightarrow> sound Q (f x)) \<Longrightarrow> sound Q (bindp m f)"
  unfolding sound_def bindp_def by (auto split: prod.splits sum.splits) (metis fst_conv sum.case)+

lemma sound_except: "sound Q m \<Longrightarrow> (\<And>e. api_ok e \<Longrightarrow> sound Q (h e)) \<Longrightarrow> sound Q (except m h)"
  unfolding sound_def except_def by (auto split: prod.splits sum.splits) (metis fst_conv sum.case)+

lemma sound_weak: "sound Q m \<Longrightarrow> (\<And>x. Q x \<Longrightarrow> Q' x) \<Longrightarrow> sound Q' m"
  by (auto simp: sound_def split: sum.splits)

lemma sound_attempt: "sound Q m \<Longrightarrow> sound (\<lambda>r. case r of Inl e \<Rightarrow> api_ok e | Inr x \<Rightarrow> Q x) (attempt m)"
  by (auto simp: sound_def attempt_def split: prod.splits) (metis fst_conv)

lemma sound_call: "env_ok en \<Longrightarrow> sound Q m \<Longrightarrow> sound Q (call en a m)"
  by (auto simp: sound_def env_ok_def call_def Let_def split: fate.splits)

lemma sound_reads: "sound (\<lambda>_. True) (read_time en)" "sound (\<lambda>_. True) (read_mono en)" "sound (\<lambda>_. True) (read_uuid en n)"
    "sound (\<lambda>_. True) (db_read f)"
  by (simp_all add: sound_def read_time_def read_mono_def read_uuid_def db_read_def)

lemma sound_redis: "(\<And>l t r. foreign (fst (f l t r))) \<Longrightarrow> sound (\<lambda>_. True) (redis_do en f)"
  by (auto simp: sound_def redis_do_def split: prod.splits sum.splits) (metis foreign_ok fst_conv)

lemma sound_http: "(\<And>y. foreign (f y)) \<Longrightarrow> sound (\<lambda>_. True) (http_do en f)"
  by (auto simp: sound_def http_do_def split: sum.splits) (metis foreign_ok)

lemma sound_db_load: "(\<And>d. foreign (f d)) \<Longrightarrow> sound (\<lambda>_. True) (db_load f)"
  by (auto simp: sound_def db_load_def split: sum.splits) (metis foreign_ok)

lemma sound_db_tx: "(\<And>d. foreign (body d)) \<Longrightarrow> sound (\<lambda>_. True) (db_tx body)"
  by (auto simp: sound_def db_tx_def in_tx_def commit_tx_def split: prod.splits sum.splits if_splits)
    (metis foreign_ok foreign_drop foreign_simps(9))+

lemma sound_at_log: "(\<And>l. sound Q (f l)) \<Longrightarrow> sound Q (at_log f)"
  by (simp add: sound_def at_log_def)

lemma sound_api: "names_ok hs \<Longrightarrow> sound Q (raise_api code k hs)" "names_ok hs \<Longrightarrow> sound Q (metadata_error code hs)"
  by (simp_all add: raise_api_def metadata_error_def sound_raise)

subsection \<open>The limiters\<close>

lemma foreign_identifiers [intro!]: "foreign (redis_identifier sha i)" "foreign (build_redis_key sha ns is)"
proof -
  have one: "foreign (redis_identifier sha i)" for i by (simp add: redis_identifier_def)
  show "foreign (redis_identifier sha i)" by (rule one)
  have "foreign (collect_res (map (redis_identifier sha) is))"
    by (induction "is") (auto intro!: foreign_bind one)
  then show "foreign (build_redis_key sha ns is)"
    by (auto simp: build_redis_key_def intro!: foreign_bind)
qed

lemma foreign_ints: "foreign (fst (run_ints l script n r))" "foreign (parse_integer_sequence v n)"
  by (auto simp: run_ints_def fail_closed_def parse_integer_sequence_def foreign_def split: link.splits prod.splits reply.splits option.splits)

lemma foreign_case: "foreign r \<Longrightarrow> (\<And>x. foreign (fst (f x))) \<Longrightarrow> foreign (fst (case r of Inl e \<Rightarrow> (Inl e, w) | Inr x \<Rightarrow> f x))"
  by (cases r) (auto simp: foreign_def)

lemma foreign_pair: "foreign (fst p) \<Longrightarrow> (\<And>ns. foreign (f ns)) \<Longrightarrow> foreign (fst (case p of (ns, r) \<Rightarrow> (bind_res ns f, r)))"
  by (cases p) (auto intro: foreign_bind)

lemma foreign_fail_closed [intro!]: "foreign (fst (fail_closed l command r))"
  by (auto simp: fail_closed_def split: link.splits prod.splits)

lemma foreign_replies [intro!]: "foreign (qps_reply limit ns)" "foreign (acquire_reply limit ns)" "foreign (heartbeat_reply ns)"
    "foreign (removed_reply v)" "foreign (admit_reply n m ns)" "foreign (lease_key_and_member sha namespace owner k)"
    "foreign (pool_keys_of sha pool client)" "foreign (active_key sha pool)" "foreign (validate_limits i j m n)"
  by (auto simp: qps_reply_def acquire_reply_def heartbeat_reply_def removed_reply_def lease_key_and_member_def pool_keys_of_def
      active_key_def queue_keys_def validate_limits_def split: list.splits option.splits intro!: foreign_bind)
    (auto simp: admit_reply_def split: list.splits option.splits)

lemmas foreign_rules = foreign_case foreign_bind foreign_pair foreign_ints

lemma foreign_claim: "foreign (fst (claim sha ttl l now client credential nonce r))"
  unfolding claim_def
  by (intro foreign_case foreign_identifiers) (auto simp: fail_closed_def split: link.splits prod.splits reply.splits bool.splits)

lemma foreign_qps: "foreign (fst (qps_admit sha window l now client srid limit r))"
  by (auto simp: qps_admit_def intro!: foreign_rules)

lemma foreign_leases: "foreign (fst (conc_acquire sha lease l now client k limit r))"
    "foreign (fst (conc_heartbeat sha lease l now client k r))" "foreign (fst (conc_release sha l now client k r))"
  by (auto simp: conc_acquire_def conc_heartbeat_def conc_release_def intro!: foreign_rules)

lemma foreign_pools: "foreign (fst (admit_or_enqueue sha lease l now pool client k i j m n r))"
    "foreign (fst (pool_heartbeat sha lease l now pool k r))" "foreign (fst (pool_release sha l now pool k r))"
    "foreign (fst (pool_cancel sha l now pool client k r))"
  by (auto simp: admit_or_enqueue_def pool_heartbeat_def pool_release_def pool_cancel_def Let_def intro!: foreign_rules)

subsection \<open>The caller, the ledger and the remote services\<close>

lemma foreign_policy: "foreign (load_caller_policy y loads k d caller now)" "foreign (load_caller_metadata_policy d caller now)"
proof -
  have state: "foreign (check_caller_state t client c)" for t client c by (simp add: check_caller_state_def)
  have "foreign (decrypt y k e aad)" for e aad by (simp add: decrypt_def split: option.splits)
  then have "foreign (decrypt_envelope y k c n v aad)" for c n v aad
    by (auto simp: decrypt_envelope_def split: json.splits)
  then have key: "foreign (decrypt_binding_value y loads k b)" for b
    by (auto simp: decrypt_binding_value_def binding_aad_def Let_def split: option.splits intro!: foreign_bind)
  have "foreign (case r of Inl e \<Rightarrow> if P e then Inl (CallerPolicyError m) else Inl e | Inr v \<Rightarrow> Inr (f v))"
    if "foreign r" for r :: "str res" and P m and f :: "str \<Rightarrow> caller_policy"
    using that by (cases r) (auto simp: foreign_def)
  with key show "foreign (load_caller_policy y loads k d caller now)"
    by (auto simp: load_caller_policy_def Let_def split: option.splits intro!: foreign_bind state)
  show "foreign (load_caller_metadata_policy d caller now)"
    by (auto simp: load_caller_metadata_policy_def split: option.splits intro!: foreign_bind state)
qed

lemma foreign_rows: "foreign (locked_quota_rows client t create d)"
  by (auto simp: locked_quota_rows_def utc_day_start_def Let_def split: option.splits intro!: foreign_bind)

lemma foreign_ledger: "foreign (reserve_operation rq u1 u2 d)" "foreign (record_credit_reservation k i j now d)"
    "foreign (record_provider_usage k a b now d)" "foreign (touch_pending_operation k now d)" "foreign (finalize_operation k t u d)"
    "foreign (make_terminal t)"
proof -
  have c: "foreign (check_reserve_request rq)" "foreign (locked_caller rq d)" "foreign (check_caller client cred rq)"
    "foreign (check_new_request rq d)" "foreign (check_quota_limit row l m n i j)" "foreign (pending_operation k d)"
    "foreign (check_settle p row)" for rq d client cred row l m n i j k p
    by (auto simp: check_reserve_request_def locked_caller_def check_caller_def check_new_request_def check_quota_limit_def
        Let_def pending_operation_def check_settle_def raise_for_existing_operation_def split: option.splits)
  show "foreign (reserve_operation rq u1 u2 d)"
    unfolding reserve_operation_def by (auto simp: Let_def intro!: foreign_bind c foreign_rows)
  show "foreign (record_credit_reservation k i j now d)" "foreign (record_provider_usage k a b now d)"
    by (auto simp: record_credit_reservation_def record_provider_usage_def Let_def intro!: foreign_bind c)
  show "foreign (touch_pending_operation k now d)"
    by (simp add: touch_pending_operation_def split: option.splits)
  show "foreign (finalize_operation k t u d)"
    by (auto simp: finalize_operation_def Let_def split: option.splits intro!: foreign_bind c foreign_rows)
  show "foreign (make_terminal t)" by (simp add: make_terminal_def)
qed

lemma foreign_remote: "foreign (ow_interpret cd v r)" "foreign (bf_json_reply cd n r)" "foreign (bf_validate v' j)"
    "foreign (action_body vd a b)" "foreign (reserve_body vd a b m q)" "foreign (settle_body vd a b x y)"
proof -
  have "foreign (uuid_arg vd a)" "foreign (text_arg vd a)" "foreign (token_arg x)" for a x
    by (auto simp: uuid_arg_def text_arg_def token_arg_def split: option.splits)
  then show "foreign (action_body vd a b)" "foreign (reserve_body vd a b m q)" "foreign (settle_body vd a b x y)"
    by (auto simp: action_body_def reserve_body_def settle_body_def split: option.splits intro!: foreign_bind)
  show "foreign (ow_interpret cd v r)" "foreign (bf_json_reply cd n r)" "foreign (bf_validate v' j)"
    by (auto simp: ow_interpret_def ow_protocol_error_def bf_json_reply_def bf_timeout_def bf_unavailable_def bf_status_error_def
        bf_validate_def protocol_error_def Let_def split: http_reply.splits option.splits prod.splits)
qed

subsection \<open>Admission\<close>

lemmas sound_rules = sound_ret sound_raise sound_api sound_reads sound_redis sound_http sound_db_load sound_db_tx sound_call
  sound_foreign

lemma sound_pool: assumes "env_ok en"
  shows "sound (\<lambda>_. True) (pool_admit en s p client k)" "sound (\<lambda>_. True) (pool_leave en s p client k)"
    "sound (\<lambda>_. True) (pool_free en s pool k)"
  unfolding pool_admit_def pool_leave_def pool_free_def by (intro sound_rules foreign_pools assms)+

definition outcome_ok :: "pool_outcome \<Rightarrow> bool" where
  "outcome_ok x \<longleftrightarrow> (case x of Pool_admitted hs \<Rightarrow> names_ok hs | Pool_refused hs \<Rightarrow> names_ok hs | Pool_unfinished \<Rightarrow> True)"

lemma retry_ok: "names_ok hs \<Longrightarrow> names_ok (header_put ''Retry-After'' v hs)"
  by (rule names_ok_put) simp_all

lemma sound_pool_wait: assumes "env_ok en" and "names_ok hs"
  shows "sound outcome_ok (pool_wait n en s p client k deadline hs)"
  using assms(2)
proof (induction n arbitrary: hs)
  case (Suc n)
  show ?case
    unfolding pool_wait.simps
    by (rule sound_bind [OF sound_reads(2)], simp, intro conjI impI sound_api retry_ok Suc.prems,
        rule sound_bind [OF sound_call [OF assms(1) sound_ret [where Q = "\<lambda>_. True"]]], simp,
        rule sound_bind [OF sound_reads(2)], simp, intro conjI impI sound_api retry_ok Suc.prems,
        rule sound_bind [OF sound_pool(1) [OF assms(1)]])
      (simp add: Let_def Suc sound_ret outcome_ok_def)
qed (simp add: sound_ret outcome_ok_def)

lemma sound_base: "is_base_only e \<Longrightarrow> api_ok e"
  by (cases e) (simp_all add: api_ok_def)

lemma sound_pool_abandon: "env_ok en \<Longrightarrow> api_ok e \<Longrightarrow> sound Q (pool_abandon en s p client k e)"
  unfolding pool_abandon_def
  by (simp, intro conjI impI sound_bind [where Q' = "\<lambda>_. True"] sound_except)
    (auto intro: sound_rules sound_pool)

lemma sound_model_pool: assumes "env_ok en" and "names_ok hs"
  shows "sound (\<lambda>(p, hs). names_ok hs) (acquire_model_pool en s model client k hs)"
proof (cases "map_of (cs_policies s) model")
  case (Some p)
  have "sound outcome_ok (except (bindp (pool_wait n en s p client k t hs')
      (\<lambda>x. case x of Pool_unfinished \<Rightarrow> raise CancelledError | _ \<Rightarrow> ret x)) (\<lambda>e. pool_abandon en s p client k e))"
    if "names_ok hs'" for n t hs'
    by (intro sound_except sound_pool_abandon assms(1) sound_bind [OF sound_pool_wait [OF assms(1) that]])
      (auto intro!: sound_ret sound_raise sound_base simp: outcome_ok_def split: pool_outcome.splits)
  then show ?thesis
    unfolding acquire_model_pool_def using assms Some
    by (auto simp: Let_def outcome_ok_def intro!: sound_bind [OF sound_pool(1)] sound_bind [OF sound_reads(2)] sound_rules sound_base
        sound_bind [where Q' = outcome_ok] split: pool_outcome.splits)
qed (simp add: acquire_model_pool_def sound_api assms)

lemma sound_concurrency: assumes "env_ok en" and "names_ok hs"
  shows "sound (\<lambda>(d, hs). names_ok hs) (acquire_concurrency en s client k limit pool hs)"
  unfolding acquire_concurrency_def
  by (rule sound_bind [where Q' = "\<lambda>_. True"])
    (auto simp: Let_def assms intro!: sound_except sound_call sound_redis foreign_leases sound_bind [OF sound_pool(3)] sound_rules)

definition headers_ok :: "admission \<Rightarrow> bool" where
  "headers_ok ad \<longleftrightarrow> names_ok (ad_headers ad)"

definition admitted_ok :: "admission res \<Rightarrow> bool" where
  "admitted_ok r \<longleftrightarrow> (case r of Inl e \<Rightarrow> api_ok e | Inr ad \<Rightarrow> headers_ok ad)"

definition ends_ok :: "'a res \<Rightarrow> bool" where
  "ends_ok r \<longleftrightarrow> (case r of Inl e \<Rightarrow> api_ok e | Inr _ \<Rightarrow> True)"

lemma ends_ok_simps [simp]: "ends_ok (Inl e) \<longleftrightarrow> api_ok e" "ends_ok (Inr x)" "admitted_ok (Inl e) \<longleftrightarrow> api_ok e"
    "admitted_ok (Inr ad) \<longleftrightarrow> headers_ok ad"
  by (simp_all add: ends_ok_def admitted_ok_def)

lemma sound_entry: assumes "env_ok en"
  shows "sound (\<lambda>_. True) (claim_nonce en s caller)" "sound (\<lambda>_. True) (load_policy en s caller now)"
    "sound (\<lambda>_. True) (admit_qps en s caller srid limit)"
  unfolding claim_nonce_def load_policy_def admit_qps_def
  by (intro sound_rules foreign_claim foreign_qps foreign_policy assms)+

lemma sound_policy_handler: "names_ok hs \<Longrightarrow> api_ok e \<Longrightarrow> sound Q (case e of CallerPolicyError c \<Rightarrow> raise_api (f c) k hs | _ \<Rightarrow> raise e)"
  by (cases e) (simp_all add: sound_api sound_raise)

lemma sound_chat_enter: assumes "env_ok en"
  shows "sound headers_ok (chat_enter en s q caller srid)"
proof -
  have "sound headers_ok (enter_as en s q caller srid k)" for k
    unfolding enter_as_def
    by (auto simp: Let_def headers_ok_def assms intro!: sound_bind [OF sound_reads(1)] sound_bind [OF sound_reads(2)]
        sound_bind [OF sound_entry(1)] sound_bind [OF sound_except [OF sound_entry(2)]] sound_bind [OF sound_entry(3)]
        sound_bind [OF sound_model_pool] sound_bind [OF sound_concurrency] sound_policy_handler sound_api sound_ret)
  then show ?thesis unfolding chat_enter_def by (rule sound_bind [OF sound_reads(3)])
qed

subsection \<open>A task under a lease\<close>

lemma sound_heartbeat: "env_ok en \<Longrightarrow> sound (\<lambda>_. True) (lease_heartbeat en s ad)"
  unfolding lease_heartbeat_def
  by (intro sound_bind [where Q' = "\<lambda>_. True"] sound_call sound_redis foreign_leases foreign_pools)
    (auto intro!: sound_rules simp: api_ok_def)

lemma sound_beats: "sound (\<lambda>_. True) m \<Longrightarrow> sound (\<lambda>_. True) (beats n m)"
  by (induction n) (auto intro: sound_ret sound_bind)

lemma sound_lease_run: assumes "env_ok en" and "sound Q m"
  shows "sound Q (lease_run en s ad m)"
  using sound_beats [OF sound_heartbeat [OF assms(1)]] assms(2) unfolding sound_def lease_run_def
  by (auto split: prod.splits sum.splits fate.splits) (metis fst_conv sum.case)+

lemma sound_release_one: "sound (\<lambda>_. True) m \<Longrightarrow> sound (\<lambda>_. True) (release_one m)"
  unfolding release_one_def by (intro sound_except sound_bind [where Q' = "\<lambda>_. True"]) (auto intro: sound_rules)

lemma sound_release_leases: "env_ok en \<Longrightarrow> sound (\<lambda>_. True) (release_active_leases en s client pool k)"
  unfolding release_active_leases_def
  by (intro sound_bind [where Q' = "\<lambda>_. True"] sound_release_one sound_call sound_redis foreign_leases sound_pool(3) sound_ret) simp_all

lemma sound_release_after: assumes "env_ok en" and "ends_ok r" and "\<And>e. r = Inr (Inl e) \<Longrightarrow> api_ok e"
  shows "sound (\<lambda>_. True) (release_after en s ad r)"
  unfolding release_after_def
  by (rule sound_bind [OF sound_release_leases [OF assms(1)]])
    (use assms(2,3) in \<open>auto intro!: sound_raise sound_of_res simp: api_ok_def [of ControlPlaneUnavailable] bind_res_def split: sum.splits\<close>)

subsection \<open>Reservation, provider call and settlement\<close>

lemma sound_txs: assumes "env_ok en"
  shows "sound (\<lambda>_. True) (reserve_quota en rq)" "sound (\<lambda>_. True) (record_credit en ad i j now)"
    "sound (\<lambda>_. True) (record_usage en ad u now)" "sound (\<lambda>_. True) (terminalize en ad st oc sg code ch)"
    "sound (\<lambda>_. True) (terminal_now en ad)"
proof -
  have fin: "foreign (bind_res (make_terminal t) (\<lambda>t. finalize_operation k t u d))" for t k u d
    by (intro foreign_bind foreign_ledger)
  have t: "foreign (chat_terminal ad st oc sg code c t d)" for c t d
    by (simp add: chat_terminal_def split: option.splits prod.splits)
  show "sound (\<lambda>_. True) (reserve_quota en rq)" "sound (\<lambda>_. True) (record_credit en ad i j now)"
    "sound (\<lambda>_. True) (record_usage en ad u now)" "sound (\<lambda>_. True) (terminal_now en ad)"
    "sound (\<lambda>_. True) (terminalize en ad st oc sg code ch)"
    unfolding reserve_quota_def record_credit_def record_usage_def terminalize_def terminal_now_def Let_def
    by (intro sound_at_log sound_bind [where Q' = "\<lambda>_. True"] sound_rules foreign_ledger fin t assms TrueI)+
qed

lemma sound_ow_request: "env_ok en \<Longrightarrow> foreign body \<Longrightarrow> sound (\<lambda>_. True) (ow_request en cd path body v)"
  by (cases body) (auto simp: ow_request_def intro!: sound_rules foreign_remote foreign_ok)

lemma sound_remote: assumes "env_ok en"
  shows "sound (\<lambda>_. True) (ow_reserve_operation en cd k u m q)" "sound (\<lambda>_. True) (ow_settle_operation en cd k u a b)"
    "sound (\<lambda>_. True) (ow_cancel_operation en cd k u)" "sound (\<lambda>_. True) (bf_forward_chat en cd pairs)"
  unfolding ow_reserve_operation_def ow_settle_operation_def ow_cancel_operation_def bf_forward_chat_def bf_request_def
  by (intro sound_ow_request foreign_remote assms sound_bind [where Q' = "\<lambda>_. True"] sound_rules)+

text \<open>The handlers of the services turn some exceptions into errors of the interface.\<close>

lemma sound_handlers:
  "names_ok hs \<Longrightarrow> api_ok e \<Longrightarrow> sound Q (case e of ExternalPayloadError c \<Rightarrow> raise_api c k hs | _ \<Rightarrow> raise e)"
  "names_ok hs \<Longrightarrow> api_ok e \<Longrightarrow> sound Q (case e of QuotaAdmissionError c k \<Rightarrow> raise_api (f c) k hs | _ \<Rightarrow> raise e)"
  "names_ok hs \<Longrightarrow> api_ok e \<Longrightarrow> sound Q (case e of OpenWebUIUpstreamError c i b \<Rightarrow> raise_api (g c) k hs | _ \<Rightarrow> raise e)"
  by (cases e; simp add: sound_api sound_raise)+

lemma sound_reserve: assumes "env_ok en" and "headers_ok ad"
  shows "sound admitted_ok (chat_reserve en s ad fingerprint stream)"
proof -
  have hs: "names_ok (ad_headers ad)" using assms(2) by (simp add: headers_ok_def)
  have n: "foreign (admitted_output_tokens a b q)" for a b q
    by (simp add: admitted_output_tokens_def Let_def split: option.splits)
  have tokens: "sound (\<lambda>_. True) (reserve_tokens en s ad fingerprint stream)"
    unfolding reserve_tokens_def
    by (intro sound_bind [where Q' = "\<lambda>_. True"] sound_except sound_foreign n sound_handlers sound_lease_run sound_txs assms(1) hs)
  have "sound admitted_ok (reserve_credit en s ad)"
    unfolding reserve_credit_def
  proof (rule sound_bind [OF sound_attempt [OF sound_lease_run [OF assms(1) sound_remote(1) [OF assms(1)]]]], goal_cases)
    case (1 r)
    show ?case
    proof (cases r)
      case (Inl e)
      with 1 have e: "api_ok e" by simp
      have fin: "sound (\<lambda>_. True) (lease_run en s ad (terminalize en ad T_rejected ''rejected'' ''credit'' c 0))" for c
        by (intro sound_lease_run sound_txs assms(1))
      show ?thesis
        using e hs unfolding Inl by (cases e) (auto simp: Let_def intro!: sound_rules sound_bind [OF fin])
    next
      case (Inr c)
      have rec: "sound (\<lambda>_. True) (lease_run en s ad (record_credit en ad i j t))" for i j t
        by (intro sound_lease_run sound_txs assms(1))
      show ?thesis
        using assms(2) hs unfolding Inr
        by (auto simp: headers_ok_def intro!: sound_rules sound_bind [OF sound_txs(5) [OF assms(1)]] sound_bind [OF rec])
    qed
  qed
  then show ?thesis unfolding chat_reserve_def by (rule sound_bind [OF tokens])
qed

lemma sound_provider: assumes "env_ok en" and "headers_ok ad"
  shows "sound ends_ok (call_provider en s ad)"
proof -
  have hs: "names_ok (ad_headers ad)" using assms(2) by (simp add: headers_ok_def)
  have fin: "sound (\<lambda>_. True) (lease_run en s ad (terminalize en ad st oc sg c n))" for st oc sg c n
    by (intro sound_lease_run sound_txs assms(1))
  have usage: "sound (\<lambda>_. True) (lease_run en s ad (record_usage en ad u t))" for u t
    by (intro sound_lease_run sound_txs assms(1))
  have cancel: "sound (\<lambda>_. True) (except (lease_run en s ad (ow_cancel_operation en cd k u))
      (\<lambda>e. case e of OpenWebUIUpstreamError _ _ _ \<Rightarrow> raise_plane ad | _ \<Rightarrow> raise e))" for cd k u
    unfolding raise_plane_def by (intro sound_except sound_lease_run sound_remote assms(1) sound_handlers hs)
  have settle: "sound (\<lambda>_. True) (except (lease_run en s ad (ow_settle_operation en cd k u a b))
      (\<lambda>e. case e of OpenWebUIUpstreamError c _ _ \<Rightarrow> raise_api (credit_error c) (Some (ad_operation ad)) (ad_headers ad)
        | _ \<Rightarrow> raise e))" for cd k u a b
    by (intro sound_except sound_lease_run sound_remote assms(1) sound_handlers hs)
  have failed: "sound ends_ok (provider_failed en s ad c)" for c
    unfolding provider_failed_def
    by (rule sound_bind [OF cancel]) (auto simp: raise_plane_def hs intro!: sound_rules sound_bind [OF fin])
  have settled: "sound ends_ok (settle_response en s ad x)" for x
    unfolding settle_response_def
    by (rule sound_bind [OF sound_txs(5) [OF assms(1)]], rule sound_bind [OF usage], rule sound_bind [OF settle])
      (auto simp: raise_plane_def hs intro!: sound_rules sound_bind [OF fin])
  show ?thesis
    unfolding call_provider_def
  proof (rule sound_bind [OF sound_attempt [OF sound_lease_run [OF assms(1) sound_remote(4) [OF assms(1)]]]], goal_cases)
    case (1 r)
    show ?case
    proof (cases r)
      case (Inl e)
      with 1 show ?thesis by (cases e) (auto intro: sound_raise failed)
    qed (simp add: settled)
  qed
qed

subsection \<open>The services\<close>

lemma sound_execute: assumes "env_ok en"
  shows "sound (\<lambda>(_, hs). names_ok hs) (execute en s q caller srid fingerprint)"
proof -
  have body: "sound ends_ok (execute_body en s ad fingerprint)" if "headers_ok ad" for ad
    unfolding execute_body_def
  proof (rule sound_bind [OF sound_reserve [OF assms that]], goal_cases)
    case (1 r)
    then show ?case by (cases r) (auto intro: sound_ret sound_provider assms)
  qed
  have after: "sound (\<lambda>_. True) (release_after en s ad r)" if "case r of Inl e \<Rightarrow> api_ok e | Inr x \<Rightarrow> ends_ok x" for ad r
    by (rule sound_release_after [OF assms]) (use that in \<open>auto split: sum.splits\<close>)
  show ?thesis
    unfolding execute_def
    by (rule sound_bind [where Q' = "\<lambda>_. True"],
        intro sound_except sound_foreign sound_handlers, simp add: require_non_streaming_def, simp, assumption,
        rule sound_bind [OF sound_chat_enter [OF assms]], rule sound_bind [OF sound_attempt [OF body]], assumption,
        rule sound_bind [OF after], assumption) (simp add: sound_ret headers_ok_def)
qed

lemma sound_prepare_stream: assumes "env_ok en"
  shows "sound headers_ok (prepare_stream en s q caller srid fingerprint)"
proof -
  have "sound headers_ok (case r of Inr (Inr ad) \<Rightarrow> ret ad | _ \<Rightarrow> release_after en s ad' r)"
    if "case r of Inl e \<Rightarrow> api_ok e | Inr x \<Rightarrow> admitted_ok x" for r ad'
  proof (cases "\<exists>ad. r = Inr (Inr ad)")
    case False
    then obtain e where e: "r = Inl e \<or> r = Inr (Inl e)" by (metis sum.exhaust)
    with that have "api_ok e" by auto
    have "sound headers_ok (release_after en s ad' r)"
      unfolding release_after_def
      by (rule sound_bind [OF sound_release_leases [OF assms]])
        (use e \<open>api_ok e\<close> in \<open>auto intro!: sound_raise sound_of_res simp: api_ok_def [of ControlPlaneUnavailable]\<close>)
    with e show ?thesis by auto
  qed (use that in \<open>auto intro: sound_ret\<close>)
  then show ?thesis
    unfolding prepare_stream_def
    by (auto intro!: sound_api sound_bind [OF sound_chat_enter [OF assms]] sound_bind [OF sound_attempt [OF sound_reserve [OF assms]]])
qed

lemma sound_metadata: assumes "env_ok en"
  shows "sound (\<lambda>(_, hs). names_ok hs) (list_models en m caller srid)" "sound (\<lambda>(_, hs). names_ok hs) (get_usage en m caller srid)"
proof -
  have now: "sound (\<lambda>_. True) (metadata_now en)"
    unfolding metadata_now_def by (rule sound_bind [OF sound_reads(1)]) (auto intro!: sound_rules simp: api_ok_def)
  have handler: "sound Q (case e of CallerPolicyError c \<Rightarrow> metadata_error (f c) [] | _ \<Rightarrow> raise e)" if "api_ok e" for e f Q
    using that by (cases e) (simp_all add: sound_api sound_raise)
  have policy: "sound (\<lambda>_. True) (except (load_metadata_policy en caller t)
      (\<lambda>e. case e of CallerPolicyError c \<Rightarrow> metadata_error (caller_error_code c) [] | _ \<Rightarrow> raise e))" for t
    unfolding load_metadata_policy_def by (intro sound_except sound_call sound_db_load foreign_policy assms handler)
  have admit: "sound (\<lambda>(_, hs). names_ok hs) (metadata_admit en m caller srid permission t)" for permission t
    unfolding metadata_admit_def
    by (rule sound_bind [where Q' = "\<lambda>_. True"], intro sound_call sound_redis foreign_claim assms, simp, intro conjI impI sound_api,
        simp, rule sound_bind [OF policy], simp, intro conjI impI sound_api, simp, rule sound_bind [where Q' = "\<lambda>_. True"],
        intro sound_call sound_redis foreign_qps assms) (auto simp: Let_def intro!: sound_api sound_ret)
  have models: "foreign (external_model_list ids)" for ids by (simp add: external_model_list_def)
  show "sound (\<lambda>(_, hs). names_ok hs) (list_models en m caller srid)"
    unfolding list_models_def
    by (rule sound_bind [OF now], rule sound_bind [OF admit], clarsimp, rule sound_bind [OF sound_foreign [OF models]])
      (simp add: sound_ret)
  have loaded: "foreign (load_usage d client t)" "foreign (utc_day_start t)" "foreign (validate_usage_response u)" for d client t u
    by (auto simp: load_usage_def utc_day_start_def validate_usage_response_def intro!: foreign_bind)
  have rows: "sound (\<lambda>_. True) (call en Act_usage (db_load (\<lambda>d. load_usage d client t)))" for client t
    by (intro sound_call sound_db_load loaded assms)
  show "sound (\<lambda>(_, hs). names_ok hs) (get_usage en m caller srid)"
    unfolding get_usage_def
    by (rule sound_bind [OF now], rule sound_bind [OF admit], clarsimp, rule sound_bind [OF rows],
        rule sound_bind [OF sound_foreign [OF loaded(2)]], rule sound_bind [OF sound_foreign [OF loaded(3)]]) (simp add: sound_ret)
qed

lemma foreign_headers: "foreign (parse_external_auth_headers hs)"
proof -
  have "foreign (read_header seen h)" for seen h by (auto simp: read_header_def split: prod.splits option.splits)
  then have "foreign (read_headers seen hs)" for seen hs
    by (induction hs arbitrary: seen) (auto intro!: foreign_bind)
  then show ?thesis
    by (auto simp: parse_external_auth_headers_def Let_def split: sum.splits intro!: foreign_bind)
qed

lemma foreign_authenticate: "foreign (authenticate_http_request y k resolver tolerance now raw_path q)"
  by (auto simp: authenticate_http_request_def authenticate_def split: option.splits sum.splits bool.splits
      intro!: foreign_bind foreign_headers)

lemma sound_caller: assumes "env_ok en"
  shows "sound (\<lambda>_. True) (external_caller en a raw_path q)"
proof -
  have r: "foreign (if b then parse_external_auth_headers hs else Inl (ExternalAuthFailure m))" for b hs m
    by (simp add: foreign_headers)
  then show ?thesis
    unfolding external_caller_def Let_def
    by (auto split: sum.split intro!: sound_raise foreign_ok [where 'a = auth_headers] sound_bind [where Q' = "\<lambda>_. True"]
        sound_rules foreign_authenticate assms) (metis foreign_ok r)
qed

end
