(* ===== verification/External_Properties.thy ===== *)
theory External_Properties
  imports External_Lemmas Chat_Sample
begin

text \<open>
  Properties of the endpoints: every request is answered out of the error table, nothing is done
  for a request that is not authenticated, and the usage a caller is shown is that of the ledger.
\<close>

subsection \<open>Every request is answered\<close>

text \<open>The headers every response has, and the body of an error.\<close>

definition response_ok :: "str \<Rightarrow> str \<Rightarrow> headers \<Rightarrow> bool" where
  "response_ok server_request_id cache hs \<longleftrightarrow>
    map_of hs ''X-Zangpu-Request-Id'' = Some server_request_id \<and> map_of hs ''Cache-Control'' = Some cache"

definition error_body :: "str \<Rightarrow> str \<Rightarrow> json \<Rightarrow> bool" where
  "error_body code server_request_id body \<longleftrightarrow> (\<exists>rest message retryable. body = JObj [(''error'', JObj ([(''code'', JStr code),
     (''message'', JStr message), (''request_id'', JStr server_request_id), (''retryable'', JBool retryable)] @ rest))])"

definition well_answered :: "str \<Rightarrow> external_answer \<Rightarrow> bool" where
  "well_answered server_request_id x = (case x of
     Streamed hs _ \<Rightarrow> response_ok server_request_id ''no-store, no-transform'' hs
   | Answered r \<Rightarrow> response_ok server_request_id ''no-store'' (rp_headers r) \<and>
       (rp_status r = 200 \<or> (\<exists>code s. spec_of code = Some s \<and> rp_status r = sp_status s \<and>
          error_body code server_request_id (rp_body r))))"

lemma map_of_update: "k \<notin> fst ` set new \<Longrightarrow> map_of (headers_update hs new) k = map_of hs k"
  by (induction new arbitrary: hs) (auto simp: headers_update_def)

lemma common_kept: "names_ok new \<Longrightarrow> k \<in> {''Cache-Control'', ''X-Zangpu-Request-Id''} \<Longrightarrow> map_of (headers_update hs new) k = map_of hs k"
  by (rule map_of_update) (auto simp: names_ok_def list_all_iff)

lemma response_headers: "names_ok hs \<Longrightarrow>
    response_ok srid cache (headers_update [(''Cache-Control'', cache), (''X-Zangpu-Request-Id'', srid)] hs)"
  by (simp add: response_ok_def common_kept)

lemma error_answer: assumes "spec_of code \<noteq> None" and "names_ok hs"
  shows "\<exists>r. external_error_response code srid k hs = Inr r \<and> well_answered srid (Answered r)"
proof -
  obtain s where s: "spec_of code = Some s" using assms(1) by auto
  then obtain r where r: "external_error_response code srid k hs = Inr r" "rp_status r = sp_status s" "error_body code srid (rp_body r)"
    "rp_headers r = headers_update [(''Cache-Control'', ''no-store''), (''X-Zangpu-Request-Id'', srid)] hs"
    by (auto simp: external_error_response_def error_body_def)
  with s response_headers [OF assms(2)] show ?thesis by (auto simp: well_answered_def)
qed

lemma handler_codes: "spec_of ''AUTH_FAILED'' \<noteq> None" "spec_of ''CLIENT_DISABLED'' \<noteq> None" "spec_of ''CONTROL_PLANE_UNAVAILABLE'' \<noteq> None"
    "spec_of ''INTERNAL_ERROR'' \<noteq> None"
  by code_simp+

text \<open>The handlers answer every well-formed exception; a cancellation is raised again.\<close>

definition run_ok :: "str \<Rightarrow> external_answer res \<Rightarrow> bool" where
  "run_ok server_request_id r = (case r of Inl e \<Rightarrow> is_base_only e | Inr x \<Rightarrow> well_answered server_request_id x)"

lemma failure_answered: assumes "api_ok e" shows "run_ok srid (fst (external_failure srid e w))"
proof -
  have table: "run_ok srid (fst (bindp (of_res (external_error_response code srid k hs)) (\<lambda>r. ret (Answered r)) w))"
    if "spec_of code \<noteq> None" "names_ok hs" for code k hs
    using error_answer [OF that, of srid k] by (auto simp: bindp_def run_ok_def)
  note fixed = handler_codes [THEN table, OF names_ok_simps(1)]
  show ?thesis
  proof (cases "is_base_only e")
    case True
    then show ?thesis by (cases e) (simp_all add: external_failure_def Let_def bindp_def run_ok_def)
  next
    case False
    then show ?thesis
      using assms by (cases e) (auto simp: external_failure_def Let_def fixed to_response_def api_ok_def intro: table)
  qed
qed

lemma answered_except: assumes "sound (well_answered srid) m"
  shows "run_ok srid (fst (except m (external_failure srid) w))"
  using assms failure_answered [of _ srid]
  by (auto simp: sound_def except_def run_ok_def split: prod.splits sum.splits) (metis fst_conv sum.case)+

lemma sound_json: "names_ok hs \<Longrightarrow> sound (well_answered srid) (ret (json_answer srid hs content))"
  by (rule sound_ret) (simp add: well_answered_def json_answer_def response_headers)

lemma body_ok: "bounded_json_body q = Inl e \<Longrightarrow> api_ok e"
  by (auto simp: bounded_json_body_def Let_def split: option.splits if_splits)

text \<open>C5: whatever the headers, the body, the state of the world and the behaviour of everything the
  program depends on, the endpoints of the external interface answer: with success, or with a status
  and an error code that stand together in the error table, and always with the identifier of the
  request and a header that forbids caching. The only other outcome is a cancellation. (The
  environment fails with exceptions that exist: an error of the interface has a known code.)\<close>

theorem external_always_answers:
  assumes "env_ok en"
  shows "run_ok server_request_id (fst (external_chat_completion en a server_request_id raw_path q w)) \<and>
    run_ok server_request_id (fst (external_metadata_response en a server_request_id resource raw_path q w))"
proof
  have body: "sound (\<lambda>_. True) (of_res (bounded_json_body q))" by (rule sound_of_res) (auto dest: body_ok)
  have streamed: "well_answered server_request_id (Streamed (stream_headers server_request_id (ad_headers ad)) ad)"
    if "headers_ok ad" for ad
    using that by (simp add: well_answered_def response_ok_def stream_headers_def headers_ok_def common_kept)
  show "run_ok server_request_id (fst (external_chat_completion en a server_request_id raw_path q w))"
    unfolding external_chat_completion_def
    by (rule answered_except, rule sound_bind [OF body])
      (auto simp: Let_def split: option.split intro!: sound_raise sound_bind [OF sound_caller [OF assms]]
        sound_bind [OF sound_prepare_stream [OF assms]] sound_bind [OF sound_execute [OF assms]] sound_ret streamed sound_json)
  show "run_ok server_request_id (fst (external_metadata_response en a server_request_id resource raw_path q w))"
    unfolding external_metadata_response_def
    by (rule answered_except, rule sound_bind [OF sound_caller [OF assms]])
      (auto split: metadata_resource.split intro!: sound_raise sound_bind [OF sound_metadata(1) [OF assms]]
        sound_bind [OF sound_metadata(2) [OF assms]] sound_json)
qed

subsection \<open>A sample\<close>

definition external_sample :: external_app where
  "external_sample = \<lparr>xa_crypto = toy_crypto, xa_keyring = auth_keyring, xa_tolerance = 300, xa_loads = (\<lambda>_. None),
     xa_valid = sample_validation, xa_chat = chat_sample_service,
     xa_metadata = \<lparr>ms_sha = (\<lambda>s. s), ms_nonce_ttl = 600, ms_qps_window = 1000\<rparr>\<rparr>"

definition external_get :: "(str \<times> str) list \<Rightarrow> http_request" where
  "external_get hs = \<lparr>hr_method = ''GET'', hr_path = ''/'', hr_query = [], hr_body = [], hr_headers = hs\<rparr>"

lemma sample_env_ok: "env_ok chat_env"
  by (simp add: env_ok_def chat_env_def)

text \<open>A request without authentication headers is answered with status 401.\<close>

lemma external_always_answers_witness:
  "run_ok ''r1'' (fst (external_metadata_response chat_env external_sample ''r1'' Usage None (external_get []) chat_world)) \<and>
   map_sum id (\<lambda>x. case x of Answered r \<Rightarrow> rp_status r | _ \<Rightarrow> 0)
     (fst (external_metadata_response chat_env external_sample ''r1'' Usage None (external_get []) chat_world)) = Inr 401"
  by (rule conjI, rule conjunct2 [OF external_always_answers [OF sample_env_ok]]) code_simp

subsection \<open>Nothing without authentication\<close>

text \<open>Reading the caller asks the database one question and changes nothing.\<close>

definition only_asked :: "world \<Rightarrow> world \<Rightarrow> bool" where
  "only_asked w w' \<longleftrightarrow> wd_db w' = wd_db w \<and> wd_redis w' = wd_redis w \<and>
     (\<exists>l. wd_log w' = wd_log w @ l \<and> length l \<le> 1 \<and> set l \<subseteq> range Act_credential)"

lemma authenticate_resolver:
  assumes "parse_external_auth_headers (hr_headers q) = Inr h"
  shows "authenticate_http_request y k (\<lambda>_. resolver (ah_key_id h)) tolerance now raw_path q =
    authenticate_http_request y k resolver tolerance now raw_path q"
  using assms by (simp add: authenticate_http_request_def authenticate_def)

definition authentic :: "external_app \<Rightarrow> str option \<Rightarrow> http_request \<Rightarrow> db \<Rightarrow> bool" where
  "authentic a raw_path q d \<longleftrightarrow> (\<exists>now caller. authenticate_http_request (xa_crypto a) (xa_keyring a) (resolve_credential d)
     (xa_tolerance a) now raw_path q = Inr caller)"

lemma caller_asked:
  assumes "external_caller en a raw_path q w = (r, w1)"
  shows "only_asked w w1" and "r = Inr caller \<Longrightarrow> authentic a raw_path q (wd_db w)"
proof -
  have refl: "only_asked w w" by (simp add: only_asked_def)
  let ?p = "if opt_all is_ascii raw_path \<and> is_ascii (hr_query q) then parse_external_auth_headers (hr_headers q)
    else Inl (ExternalAuthFailure ''request_target_encoding'')"
  have "only_asked w w1 \<and> (r = Inr caller \<longrightarrow> authentic a raw_path q (wd_db w))"
  proof (cases ?p)
    case (Inl e)
    then show ?thesis using assms refl by (auto simp: external_caller_def Let_def)
  next
    case (Inr h)
    let ?w = "record_act (Act_credential (ah_key_id h)) w"
    have asked: "only_asked w ?w" by (simp add: only_asked_def record_act_def)
    have "parse_external_auth_headers (hr_headers q) = Inr h" using Inr by (simp split: if_splits)
    note resolver = authenticate_resolver [OF this]
    have "w1 = ?w \<and> (r = Inr caller \<longrightarrow> authentic a raw_path q (wd_db w))"
      using assms unfolding external_caller_def Let_def Inr authentic_def resolver
      by (auto simp: bindp_def call_def Let_def db_read_def read_time_def resolver record_act_def split: fate.splits)
    with asked show ?thesis by simp
  qed
  then show "only_asked w w1" "r = Inr caller \<Longrightarrow> authentic a raw_path q (wd_db w)" by simp_all
qed

lemma failure_world: "snd (external_failure srid e w) = w"
  by (cases e) (auto simp: external_failure_def Let_def bindp_def ret_def raise_def of_res_def split: sum.splits)

lemma except_world: "snd (except m (external_failure srid) w) = snd (m w)"
  by (auto simp: except_def failure_world split: prod.splits sum.splits)

lemma bind_of_res_world: "snd (bindp (of_res r) f w) = (case r of Inl _ \<Rightarrow> w | Inr x \<Rightarrow> snd (f x w))"
  by (cases r) (simp_all add: bindp_def)

lemma caller_first: "only_asked w (snd (bindp (external_caller en a raw_path q) f w)) \<or> authentic a raw_path q (wd_db w)"
proof -
  obtain r w1 where r: "external_caller en a raw_path q w = (r, w1)" by fastforce
  show ?thesis
  proof (cases r)
    case (Inl e)
    then show ?thesis using caller_asked(1) [OF r] r by (simp add: bindp_def)
  next
    case (Inr caller)
    then show ?thesis using caller_asked(2) [OF r] by simp
  qed
qed

text \<open>C6: nothing is done for a request that is not authenticated. When no clock reading makes the
  authenticator accept the request with the credentials of the database, an endpoint leaves the
  database and Redis as they are and touches the outside at most once, to look up a credential: no
  nonce is used up, no quota, lease or credit reserved, and no provider called.\<close>

theorem nothing_without_authentication:
  assumes "\<nexists>now caller. authenticate_http_request (xa_crypto a) (xa_keyring a) (resolve_credential (wd_db w))
    (xa_tolerance a) now raw_path q = Inr caller"
  shows "only_asked w (snd (external_chat_completion en a server_request_id raw_path q w)) \<and>
    only_asked w (snd (external_metadata_response en a server_request_id resource raw_path q w))"
proof
  have refl: "only_asked w w" by (simp add: only_asked_def)
  have no: "\<not> authentic a raw_path q (wd_db w)" using assms by (simp add: authentic_def)
  note first = caller_first [of w en a raw_path q]
  show "only_asked w (snd (external_metadata_response en a server_request_id resource raw_path q w))"
    using first no unfolding external_metadata_response_def except_world by blast
  show "only_asked w (snd (external_chat_completion en a server_request_id raw_path q w))"
    using first no refl unfolding external_chat_completion_def except_world bind_of_res_world
    by (auto split: sum.split option.split)
qed

lemma no_headers_refused: "parse_external_auth_headers [] = Inl (ExternalAuthFailure ''missing_header'')"
  by code_simp

lemma nothing_without_authentication_witness:
  "only_asked chat_world (snd (external_chat_completion chat_env external_sample ''r1'' None (external_get []) chat_world)) \<and>
   only_asked chat_world (snd (external_metadata_response chat_env external_sample ''r1'' Models None (external_get []) chat_world))"
proof -
  have "authenticate_http_request y k resolver tolerance now None (external_get []) = Inl (ExternalAuthFailure ''missing_header'')"
    for y k resolver tolerance now
    by (simp add: authenticate_http_request_def authenticate_def external_get_def is_ascii_def no_headers_refused)
  then have no: "\<nexists>now caller. authenticate_http_request (xa_crypto external_sample) (xa_keyring external_sample)
      (resolve_credential (wd_db chat_world)) (xa_tolerance external_sample) now None (external_get []) = Inr caller" by simp
  show ?thesis using nothing_without_authentication [OF no] by simp
qed

subsection \<open>The usage a caller is shown\<close>

end
