(* ===== verification/Observability.thy ===== *)
theory Observability
  imports Complex_Main Audits Api
begin

text \<open>
  What administrators see of past calls, \<open>backend/app/services/observability.py\<close>: pages of events, a
  summary with a trend and percentiles, and an export as CSV text that leaves an audit record.
\<close>

subsection \<open>Queries\<close>

definition ALLOWED_TREND_BUCKET_SECONDS :: "int list" where
  "ALLOWED_TREND_BUCKET_SECONDS = [300, 3600, 86400]"

definition MAX_PAGE_SIZE :: int where
  "MAX_PAGE_SIZE = 200"

definition MAX_EXPORT_ROWS :: int where
  "MAX_EXPORT_ROWS = 10000"

definition MAX_AGGREGATE_ROWS :: int where
  "MAX_AGGREGATE_ROWS = 100000"

record event_query =
  eq_client :: "str option"
  eq_from :: "int option"
  eq_to :: "int option"
  eq_outcome :: "str option"
  eq_stage :: "str option"
  eq_status :: "int option"
  eq_code :: "str option"
  eq_endpoint :: "str option"
  eq_model :: "str option"
  eq_stream :: "bool option"

definition len_within :: "nat \<Rightarrow> nat \<Rightarrow> str option \<Rightarrow> bool" where
  "len_within lo hi = opt_all (\<lambda>s. lo \<le> py_len s \<and> py_len s \<le> hi)"

definition trim_query :: "(str \<Rightarrow> str) \<Rightarrow> event_query \<Rightarrow> event_query" where
  "trim_query trim q = q\<lparr>eq_client := map_option trim (eq_client q), eq_outcome := map_option trim (eq_outcome q),
     eq_stage := map_option trim (eq_stage q), eq_code := map_option trim (eq_code q),
     eq_endpoint := map_option trim (eq_endpoint q), eq_model := map_option trim (eq_model q)\<rparr>"

definition query_ok :: "event_query \<Rightarrow> bool" where
  "query_ok q \<longleftrightarrow> len_within 1 36 (eq_client q) \<and> opt_all (\<lambda>t. 0 \<le> t) (eq_from q) \<and> opt_all (\<lambda>t. 0 \<le> t) (eq_to q) \<and>
     len_within 0 24 (eq_outcome q) \<and> len_within 0 24 (eq_stage q) \<and> opt_all (\<lambda>n. 100 \<le> n \<and> n \<le> 599) (eq_status q) \<and>
     len_within 1 64 (eq_code q) \<and> len_within 1 64 (eq_endpoint q) \<and> len_within 1 255 (eq_model q) \<and>
     opt_all (\<lambda>s. s \<in> set EVENT_OUTCOMES) (eq_outcome q) \<and> opt_all (\<lambda>s. s \<in> set EVENT_STAGES) (eq_stage q) \<and>
     opt_all (\<lambda>a. opt_all (\<lambda>b. a \<le> b) (eq_to q)) (eq_from q)"

definition validate_event_query :: "(str \<Rightarrow> str) \<Rightarrow> event_query \<Rightarrow> event_query option" where
  "validate_event_query trim q = (let t = trim_query trim q in if query_ok t then Some t else None)"

text \<open>The conditions on a row; a condition on a nullable column is false of a null.\<close>

definition eq_opt :: "'a option \<Rightarrow> 'a option \<Rightarrow> bool" where
  "eq_opt wanted v \<longleftrightarrow> (case wanted of None \<Rightarrow> True | Some x \<Rightarrow> v = Some x)"

definition conditions :: "event_query \<Rightarrow> event \<Rightarrow> bool" where
  "conditions q e \<longleftrightarrow> eq_opt (eq_client q) (ev_client e) \<and> eq_opt (eq_outcome q) (Some (ev_outcome e)) \<and>
     eq_opt (eq_stage q) (Some (ev_stage e)) \<and> eq_opt (eq_status q) (Some (ev_http_status e)) \<and>
     eq_opt (eq_code q) (Some (ev_code e)) \<and> eq_opt (eq_endpoint q) (Some (ev_endpoint e)) \<and>
     eq_opt (eq_model q) (ev_model e) \<and> eq_opt (eq_stream q) (Some (ev_stream e)) \<and>
     opt_all (\<lambda>t. t \<le> ev_created_at e) (eq_from q) \<and> opt_all (\<lambda>t. ev_created_at e \<le> t) (eq_to q)"

definition matching_events :: "event_query \<Rightarrow> db \<Rightarrow> event list" where
  "matching_events q d = filter (conditions q) (db_events d)"

definition count_events :: "event_query \<Rightarrow> db \<Rightarrow> int" where
  "count_events q d = int (length (matching_events q d))"

text \<open>The newest events first; equal times are ordered by identifier.\<close>

definition newest_first :: "event list \<Rightarrow> event list" where
  "newest_first es = rev (sort_key (\<lambda>e. (ev_created_at e, ev_id e)) es)"

subsection \<open>Pages\<close>

record event_page =
  pg_items :: "event list"
  pg_total :: int
  pg_offset :: int
  pg_limit :: int

definition list_events :: "event_query \<Rightarrow> int \<Rightarrow> int \<Rightarrow> db \<Rightarrow> event_page res" where
  "list_events q offset limit d =
    (if offset < 0 then Inl (ValueError ''offset must not be negative'')
     else if \<not> (1 \<le> limit \<and> limit \<le> MAX_PAGE_SIZE) then Inl (ValueError ''limit must be between 1 and 200'')
     else Inr \<lparr>pg_items = take (nat limit) (drop (nat offset) (newest_first (matching_events q d))),
            pg_total = count_events q d, pg_offset = offset, pg_limit = limit\<rparr>)"

subsection \<open>Summaries\<close>

record trend_bucket =
  tb_start :: int
  tb_requests :: int
  tb_successes :: int
  tb_failures :: int
  tb_tokens :: int
  tb_charged :: int

record event_summary =
  su_requests :: int
  su_successes :: int
  su_failures :: int
  su_tokens :: int
  su_charged :: int
  su_average :: "rat option"
  su_p50 :: "int option"
  su_p95 :: "int option"
  su_p99 :: "int option"
  su_overruns :: int
  su_bucket :: int
  su_trend :: "trend_bucket list"

text \<open>
  \<open>ceil(percentile * n)\<close> with the percentile in hundredths. The source multiplies by 0.5, 0.95 or 0.99
  as a double: the relative error of these constants is below half a unit in the last place, so an
  exact product that is an integer is the rounded one, and every other exact product is at least a
  hundredth away from an integer.
\<close>

definition ceil_percent :: "int \<Rightarrow> int \<Rightarrow> int" where
  "ceil_percent percentile n = - ((- (percentile * n)) div 100)"

definition nearest_rank :: "int list \<Rightarrow> int \<Rightarrow> int option" where
  "nearest_rank sorted_values percentile =
    (if sorted_values = [] then None
     else let n = int (length sorted_values) in
       Some (sorted_values ! nat (min (max (ceil_percent percentile n - 1) 0) (n - 1))))"

definition empty_bucket :: "int \<Rightarrow> trend_bucket" where
  "empty_bucket start = \<lparr>tb_start = start, tb_requests = 0, tb_successes = 0, tb_failures = 0, tb_tokens = 0, tb_charged = 0\<rparr>"

definition is_success :: "event \<Rightarrow> bool" where
  "is_success e \<longleftrightarrow> ev_outcome e = ''success''"

definition bucket_add :: "event \<Rightarrow> trend_bucket \<Rightarrow> trend_bucket" where
  "bucket_add e b = b\<lparr>tb_requests := tb_requests b + 1,
     tb_successes := tb_successes b + (if is_success e then 1 else 0),
     tb_failures := tb_failures b + (if is_success e then 0 else 1),
     tb_tokens := tb_tokens b + ev_total e, tb_charged := tb_charged b + ev_charged e\<rparr>"

definition bucket_start :: "int \<Rightarrow> event \<Rightarrow> int" where
  "bucket_start bucket_seconds e = ev_created_at e - ev_created_at e mod bucket_seconds"

text \<open>The dictionary of buckets, in order of insertion: a missing bucket is added empty.\<close>

fun trend_add :: "int \<Rightarrow> event \<Rightarrow> trend_bucket list \<Rightarrow> trend_bucket list" where
  "trend_add start e [] = [bucket_add e (empty_bucket start)]"
| "trend_add start e (b # bs) = (if tb_start b = start then bucket_add e b # bs else b # trend_add start e bs)"

definition trend_of :: "int \<Rightarrow> event list \<Rightarrow> trend_bucket list" where
  "trend_of bucket_seconds rows =
    sort_key tb_start (foldl (\<lambda>bs e. trend_add (bucket_start bucket_seconds e) e bs) [] rows)"

definition total_of :: "(event \<Rightarrow> int) \<Rightarrow> event list \<Rightarrow> int" where
  "total_of f rows = sum_list (map f rows)"

definition summary_of :: "int \<Rightarrow> event list \<Rightarrow> event_summary" where
  "summary_of bucket_seconds rows =
    (let durations = sort (map ev_duration_ms rows);
         successes = total_of (\<lambda>e. if is_success e then 1 else 0) rows in
     \<lparr>su_requests = int (length rows), su_successes = successes, su_failures = int (length rows) - successes,
      su_tokens = total_of ev_total rows, su_charged = total_of ev_charged rows,
      su_average = (if durations = [] then None else Some (of_int (sum_list durations) / of_nat (length durations))),
      su_p50 = nearest_rank durations 50, su_p95 = nearest_rank durations 95, su_p99 = nearest_rank durations 99,
      su_overruns = total_of (\<lambda>e. if ev_overrun e then 1 else 0) rows, su_bucket = bucket_seconds,
      su_trend = trend_of bucket_seconds rows\<rparr>)"

record observability_service =
  os_max_export :: int
  os_max_aggregate :: int
  os_unicode :: "str \<Rightarrow> str"
  os_space :: "str \<Rightarrow> bool"

definition check_observability_service :: "observability_service \<Rightarrow> unit res" where
  "check_observability_service s =
    (if \<not> (1 \<le> os_max_export s \<and> os_max_export s \<le> MAX_EXPORT_ROWS)
       then Inl (ValueError ''max_export_rows must be between 1 and 10000'')
     else if \<not> (1 \<le> os_max_aggregate s \<and> os_max_aggregate s \<le> MAX_AGGREGATE_ROWS)
       then Inl (ValueError ''max_aggregate_rows must be between 1 and 100000'')
     else Inr ())"

definition summarize :: "observability_service \<Rightarrow> event_query \<Rightarrow> int \<Rightarrow> db \<Rightarrow> event_summary res" where
  "summarize s q bucket_seconds d =
    (if bucket_seconds \<notin> set ALLOWED_TREND_BUCKET_SECONDS
       then Inl (ValueError ''bucket_seconds must be one of 300, 3600 or 86400'')
     else if os_max_aggregate s < count_events q d then Inl AdminObservabilityLimitError
     else let rows = take (nat (os_max_aggregate s + 1)) (matching_events q d) in
       if os_max_aggregate s < int (length rows) then Inl AdminObservabilityLimitError
       else Inr (summary_of bucket_seconds rows))"

subsection \<open>The time stamp of an export\<close>

text \<open>The civil date of a day counted from 1970-01-01, in the proleptic Gregorian calendar.\<close>

definition civil_date :: "int \<Rightarrow> int \<times> int \<times> int" where
  "civil_date days =
    (let z = days + 719468;
         era = z div 146097;
         doe = z - era * 146097;
         yoe = (doe - doe div 1460 + doe div 36524 - doe div 146096) div 365;
         doy = doe - (365 * yoe + yoe div 4 - yoe div 100);
         mp = (5 * doy + 2) div 153;
         day = doy - (153 * mp + 2) div 5 + 1;
         month = (if mp < 10 then mp + 3 else mp - 9)
     in (yoe + era * 400 + (if month \<le> 2 then 1 else 0), month, day))"

definition pad_to :: "nat \<Rightarrow> int \<Rightarrow> str" where
  "pad_to width n = (let s = show_int n in replicate (width - length s) CHR ''0'' @ s)"

definition utc_stamp :: "int \<Rightarrow> str res" where
  "utc_stamp now =
    (let (year, month, day) = civil_date (now div 86400); t = now mod 86400 in
     if \<not> (1 \<le> year \<and> year \<le> 9999) then Inl (ValueError ''year is out of range'')
     else Inr (show_int year @ pad_to 2 month @ pad_to 2 day @ ''T'' @ pad_to 2 (t div 3600) @ pad_to 2 (t mod 3600 div 60) @
       pad_to 2 (t mod 60) @ ''Z''))"

subsection \<open>CSV\<close>

text \<open>One value: line breaks and tabulators become spaces, and a text that a spreadsheet would read as
  a formula is marked. \<open>space\<close> says which code points outside ASCII are white space.\<close>

datatype csv_value = Csv_none | Csv_bool bool | Csv_int int | Csv_text str

definition blank :: "char \<Rightarrow> char" where
  "blank c = (if c \<in> {CHR 0x0D, CHR 0x0A, CHR 0x09} then CHR '' '' else c)"

definition lstrip :: "(str \<Rightarrow> bool) \<Rightarrow> str \<Rightarrow> str" where
  "lstrip space s = concat (dropWhile (\<lambda>p. case p of [c] \<Rightarrow> is_py_space c | _ \<Rightarrow> space p) (code_points s))"

definition is_formula :: "str \<Rightarrow> bool" where
  "is_formula s \<longleftrightarrow> (case s of [] \<Rightarrow> False | c # _ \<Rightarrow> c \<in> {CHR ''='', CHR ''+'', CHR ''-'', CHR ''@''})"

definition csv_text :: "(str \<Rightarrow> bool) \<Rightarrow> str \<Rightarrow> str" where
  "csv_text space s = (let rendered = map blank s in
     if is_formula (lstrip space rendered) then CHR 0x27 # rendered else rendered)"

definition csv_value :: "(str \<Rightarrow> bool) \<Rightarrow> csv_value \<Rightarrow> str" where
  "csv_value space v = (case v of
     Csv_none \<Rightarrow> [] | Csv_bool b \<Rightarrow> if b then ''true'' else ''false''
   | Csv_int n \<Rightarrow> csv_text space (show_int n) | Csv_text s \<Rightarrow> csv_text space s)"

definition csv_opt :: "str option \<Rightarrow> csv_value" where
  "csv_opt v = (case v of None \<Rightarrow> Csv_none | Some s \<Rightarrow> Csv_text s)"

definition EXPORT_FIELDS :: "str list" where
  "EXPORT_FIELDS = [''id'', ''server_request_id'', ''client_request_id'', ''operation_id'', ''api_client_id'', ''credential_id'',
     ''endpoint'', ''method'', ''model_id'', ''stream'', ''outcome'', ''stage'', ''http_status'', ''business_code'', ''retryable'',
     ''duration_ms'', ''quota_overrun'', ''total_tokens'', ''charged_micro'', ''qps_observed'', ''concurrency_observed'',
     ''user_agent_family'', ''remote_ip_hash'', ''started_at'', ''completed_at'', ''created_at'']"

definition event_values :: "event \<Rightarrow> csv_value list" where
  "event_values e = [Csv_text (ev_id e), Csv_text (ev_server_request_id e), Csv_text (ev_client_request_id e),
     csv_opt (ev_operation e), csv_opt (ev_client e), csv_opt (ev_credential e), Csv_text (ev_endpoint e), Csv_text (ev_method e),
     csv_opt (ev_model e), Csv_bool (ev_stream e), Csv_text (ev_outcome e), Csv_text (ev_stage e), Csv_int (ev_http_status e),
     Csv_text (ev_code e), Csv_bool (ev_retryable e), Csv_int (ev_duration_ms e), Csv_bool (ev_overrun e), Csv_int (ev_total e),
     Csv_int (ev_charged e), Csv_int (ev_qps e), Csv_int (ev_concurrency e), csv_opt (ev_ua_family e), csv_opt (ev_ip_hash e),
     Csv_int (ev_started_at e), Csv_int (ev_completed_at e), Csv_int (ev_created_at e)]"

text \<open>The writer of the standard library with its default dialect: a field is quoted when it holds a
  comma, a quotation mark or the line terminator; a quotation mark is doubled.\<close>

definition csv_field :: "str \<Rightarrow> str" where
  "csv_field s =
    (if list_ex (\<lambda>c. c \<in> {CHR '','', CHR 0x22, CHR 0x0A}) s
     then CHR 0x22 # concat (map (\<lambda>c. if c = CHR 0x22 then [c, c] else [c]) s) @ [CHR 0x22] else s)"

definition csv_line :: "str list \<Rightarrow> str" where
  "csv_line cells = join_on CHR '','' (map csv_field cells) @ [CHR 0x0A]"

definition event_cells :: "(str \<Rightarrow> bool) \<Rightarrow> event \<Rightarrow> str list" where
  "event_cells space e = map (csv_value space) (event_values e)"

definition render_csv :: "(str \<Rightarrow> bool) \<Rightarrow> event list \<Rightarrow> str" where
  "render_csv space events = concat (map csv_line (EXPORT_FIELDS # map (event_cells space) events))"

subsection \<open>Exports\<close>

record event_export =
  ex_filename :: str
  ex_row_count :: int
  ex_content :: str

definition export_audit :: "observability_service \<Rightarrow> str \<Rightarrow> str \<Rightarrow> event_query \<Rightarrow> str \<Rightarrow> int \<Rightarrow> int \<Rightarrow> audit res" where
  "export_audit s uuid actor_id q filename rows now =
    admin_audit (os_unicode s) uuid actor_id (if rows \<noteq> 0 then eq_client q else None) ''export'' filename ''events.exported''
      [''format'', ''row_count''] [] [(''format'', JStr ''csv''), (''row_count'', JInt rows)] now"

definition export_csv :: "observability_service \<Rightarrow> str \<Rightarrow> event_query \<Rightarrow> str \<Rightarrow> int \<Rightarrow> event_export tx" where
  "export_csv s uuid q actor_id now d =
    (if os_max_export s < count_events q d then Inl AdminObservabilityLimitError
     else let events = take (nat (os_max_export s + 1)) (newest_first (matching_events q d)) in
       if os_max_export s < int (length events) then Inl AdminObservabilityLimitError
       else bind_res (utc_stamp now) (\<lambda>stamp.
         let filename = ''zangpu-api-events-'' @ stamp @ ''.csv''; n = int (length events) in
         bind_res (add_audit (export_audit s uuid actor_id q filename n now) d) (\<lambda>(_, d').
         Inr (\<lparr>ex_filename = filename, ex_row_count = n, ex_content = render_csv (os_space s) events\<rparr>, d'))))"

end
