(* ===== verification/Observability_Properties.thy ===== *)
theory Observability_Properties
  imports Observability World_Lemmas "HOL-Library.Multiset"
begin

text \<open>
  Properties of what administrators see of past calls: an export reads back and is harmless to a
  spreadsheet, and a summary adds up.
\<close>

subsection \<open>Reading CSV\<close>

text \<open>A reader for comparison: where it is in a record decides what the next character means.\<close>

datatype csv_mode = Field_start | Unquoted | Quoted | Quote_seen

fun csv_scan :: "csv_mode \<Rightarrow> str \<Rightarrow> str list \<Rightarrow> str \<Rightarrow> str list list" where
  "csv_scan m cell row [] = (if m = Field_start \<and> cell = [] \<and> row = [] then [] else [row @ [cell]])"
| "csv_scan m cell row (c # cs) =
    (if m = Quoted then (if c = CHR 0x22 then csv_scan Quote_seen cell row cs else csv_scan Quoted (cell @ [c]) row cs)
     else if c = CHR 0x22 \<and> m = Field_start then csv_scan Quoted cell row cs
     else if c = CHR 0x22 \<and> m = Quote_seen then csv_scan Quoted (cell @ [c]) row cs
     else if c = CHR '','' then csv_scan Field_start [] (row @ [cell]) cs
     else if c = CHR 0x0A then (row @ [cell]) # csv_scan Field_start [] [] cs
     else csv_scan Unquoted (cell @ [c]) row cs)"

definition csv_rows :: "str \<Rightarrow> str list list" where
  "csv_rows = csv_scan Field_start [] []"

text \<open>What follows a field.\<close>

definition csv_next :: "char \<Rightarrow> str list \<Rightarrow> str \<Rightarrow> str list list" where
  "csv_next c row rest = (if c = CHR '','' then csv_scan Field_start [] row rest else row # csv_scan Field_start [] [] rest)"

lemma scan_unquoted:
  assumes "list_all (\<lambda>c. c \<notin> {CHR '','', CHR 0x22, CHR 0x0A}) s" and "c \<in> {CHR '','', CHR 0x0A}"
  shows "csv_scan Unquoted cell row (s @ c # rest) = csv_next c (row @ [cell @ s]) rest"
  using assms by (induction s arbitrary: cell) (auto simp: csv_next_def)

lemma scan_quoted:
  assumes "c \<in> {CHR '','', CHR 0x0A}"
  shows "csv_scan Quoted cell row (concat (map (\<lambda>c. if c = CHR 0x22 then [c, c] else [c]) s) @ CHR 0x22 # c # rest) =
    csv_next c (row @ [cell @ s]) rest"
  using assms by (induction s arbitrary: cell) (auto simp: csv_next_def)

lemma scan_field:
  assumes "c \<in> {CHR '','', CHR 0x0A}"
  shows "csv_scan Field_start [] row (csv_field s @ c # rest) = csv_next c (row @ [s]) rest"
proof (cases "list_ex (\<lambda>c. c \<in> {CHR '','', CHR 0x22, CHR 0x0A}) s")
  case True
  then have f: "csv_field s = CHR 0x22 # concat (map (\<lambda>c. if c = CHR 0x22 then [c, c] else [c]) s) @ [CHR 0x22]"
    unfolding csv_field_def by (rule if_P)
  show ?thesis using scan_quoted [OF assms, of "[]" row s rest] unfolding f by simp
next
  case False
  then have f: "csv_field s = s" and plain: "list_all (\<lambda>c. c \<notin> {CHR '','', CHR 0x22, CHR 0x0A}) s"
    unfolding csv_field_def by (simp_all add: list_ex_iff list_all_iff)
  show ?thesis
  proof (cases s)
    case (Cons a as)
    then show ?thesis using scan_unquoted [of as c "[a]" row rest] plain assms unfolding f by simp
  qed (use f assms in \<open>auto simp: csv_next_def\<close>)
qed

lemma scan_line:
  assumes "cells \<noteq> []"
  shows "csv_scan Field_start [] row (csv_line cells @ rest) = (row @ cells) # csv_scan Field_start [] [] rest"
  using assms
proof (induction cells arbitrary: row)
  case (Cons s cells)
  show ?case
  proof (cases cells)
    case Nil
    then show ?thesis using scan_field [of "CHR 0x0A" row s rest] by (simp add: csv_line_def csv_next_def)
  next
    case (Cons t ts)
    have "csv_line (s # cells) @ rest = csv_field s @ CHR '','' # (csv_line cells @ rest)"
      using Cons by (simp add: csv_line_def)
    then show ?thesis
      using scan_field [of "CHR '',''" row s "csv_line cells @ rest"] Cons.IH [of "row @ [s]"] Cons
      by (simp add: csv_next_def)
  qed
qed simp

lemma rows_of_lines: "list_all (\<lambda>cells. cells \<noteq> []) rows \<Longrightarrow> csv_rows (concat (map csv_line rows)) = rows"
  by (induction rows) (simp_all add: csv_rows_def scan_line)

subsection \<open>Harmless cells\<close>

definition harmless :: "(str \<Rightarrow> bool) \<Rightarrow> str \<Rightarrow> bool" where
  "harmless space cell \<longleftrightarrow> \<not> is_formula (lstrip space cell) \<and> set cell \<inter> {CHR 0x0D, CHR 0x0A, CHR 0x09} = {}"

lemma code_points_concat: "concat (code_points s) = s"
  by (induction s) (auto split: list.splits)

lemma code_points_first: "\<exists>p ps. code_points (c # cs) = (c # p) # ps"
  by (auto split: list.splits)

lemma marked_not_formula:
  assumes "\<And>p. space p \<Longrightarrow> 128 \<le> (of_char (hd p) :: nat)"
  shows "\<not> is_formula (lstrip space (CHR 0x27 # s))"
proof -
  obtain p ps where c: "code_points (CHR 0x27 # s) = (CHR 0x27 # p) # ps" using code_points_first by blast
  have "\<not> (case CHR 0x27 # p of [c] \<Rightarrow> is_py_space c | _ \<Rightarrow> space (CHR 0x27 # p))"
    using assms [of "CHR 0x27 # p"] by (auto simp: is_py_space_def split: list.splits)
  then have "lstrip space (CHR 0x27 # s) = CHR 0x27 # p @ concat ps" by (simp add: lstrip_def c del: code_points.simps)
  then show ?thesis by (simp add: is_formula_def)
qed

lemma blank_clean: "set (map blank s) \<inter> {CHR 0x0D, CHR 0x0A, CHR 0x09} = {}"
  by (auto simp: blank_def)

lemma csv_text_harmless:
  assumes "\<And>p. space p \<Longrightarrow> 128 \<le> (of_char (hd p) :: nat)"
  shows "harmless space (csv_text space s)"
  using marked_not_formula [OF assms] blank_clean [of s] by (auto simp: csv_text_def Let_def harmless_def)

lemma words_harmless: "harmless space []" "harmless space ''true''" "harmless space ''false''"
  by (simp_all add: harmless_def lstrip_def is_formula_def is_continuation_byte_def is_py_space_def)

lemma event_cells_harmless:
  assumes "\<And>p. space p \<Longrightarrow> 128 \<le> (of_char (hd p) :: nat)"
  shows "list_all (harmless space) (event_cells space e)"
proof -
  have "harmless space (csv_value space v)" for v
    using csv_text_harmless [OF assms] words_harmless by (cases v) (simp_all add: csv_value_def)
  then show ?thesis by (simp add: event_cells_def list_all_iff)
qed

subsection \<open>Exports\<close>

lemma newest_first_set: "set (newest_first es) = set es" and newest_first_length: "length (newest_first es) = length es"
  by (simp_all add: newest_first_def)

lemma export_Inr:
  assumes "export_csv s uuid q actor now d = Inr (x, d')"
  shows "ex_row_count x = count_events q d \<and> count_events q d \<le> os_max_export s \<and>
    ex_content x = render_csv (os_space s) (newest_first (matching_events q d)) \<and>
    (\<exists>a. d' = d\<lparr>db_audits := db_audits d @ [a]\<rparr> \<and> au_id a = uuid \<and> au_actor a = actor \<and> au_action a = ''events.exported'' \<and>
      au_target_id a = Some (ex_filename x) \<and> au_created_at a = now)"
proof -
  let ?es = "newest_first (matching_events q d)"
  have n: "count_events q d \<le> os_max_export s" and all: "take (nat (os_max_export s + 1)) ?es = ?es"
    using assms by (auto simp: export_csv_def count_events_def newest_first_length split: if_splits)
  obtain stamp where "utc_stamp now = Inr stamp"
    "bind_res (add_audit (export_audit s uuid actor q (''zangpu-api-events-'' @ stamp @ ''.csv'') (count_events q d) now) d) (\<lambda>(_, d').
       Inr (\<lparr>ex_filename = ''zangpu-api-events-'' @ stamp @ ''.csv'', ex_row_count = count_events q d,
         ex_content = render_csv (os_space s) ?es\<rparr>, d')) = Inr (x, d')"
    using assms n unfolding export_csv_def all Let_def
    by (auto simp: bind_res_Inr count_events_def newest_first_length split: if_splits)
  then obtain u a where "d' = d\<lparr>db_audits := db_audits d @ [a]\<rparr>"
    "export_audit s uuid actor q (''zangpu-api-events-'' @ stamp @ ''.csv'') (count_events q d) now = Inr a"
    "x = \<lparr>ex_filename = ''zangpu-api-events-'' @ stamp @ ''.csv'', ex_row_count = count_events q d,
         ex_content = render_csv (os_space s) ?es\<rparr>"
    by (auto simp: bind_res_Inr dest!: add_audit_Inr)
  with n admin_audit_Inr show ?thesis by (auto simp: export_audit_def dest!: admin_audit_Inr)
qed

text \<open>C38: an export reads back. A reader of CSV finds in the text of a successful export the header and
  then exactly one record for every event that matches the query, the newest first, with the cells
  the export means to show; the export announces this number of rows, is within its limit, and
  records itself once in the audit, in the name of the actor and under its file name.\<close>

theorem export_reads_back:
  assumes "export_csv s uuid q actor now d = Inr (x, d')"
  shows "csv_rows (ex_content x) = EXPORT_FIELDS # map (event_cells (os_space s)) (newest_first (matching_events q d)) \<and>
    ex_row_count x = int (length (matching_events q d)) \<and> ex_row_count x \<le> os_max_export s \<and>
    (\<exists>a. d' = d\<lparr>db_audits := db_audits d @ [a]\<rparr> \<and> au_actor a = actor \<and> au_action a = ''events.exported'' \<and>
      au_target_id a = Some (ex_filename x) \<and> au_created_at a = now)"
proof -
  have "list_all (\<lambda>cells. cells \<noteq> []) (EXPORT_FIELDS # map (event_cells space) es)" for space es
    by (simp add: EXPORT_FIELDS_def event_cells_def event_values_def list_all_iff)
  from rows_of_lines [OF this] export_Inr [OF assms] show ?thesis
    unfolding render_csv_def by (auto simp: count_events_def)
qed

text \<open>C39: an export is harmless to a spreadsheet: no cell of it starts, after white space, with a
  character that makes a formula, and no cell holds a line break or a tabulator, whatever callers
  have put into the identifiers, codes and names of their requests. (White space outside ASCII is
  decided by the Unicode table of the runtime.)\<close>

theorem export_is_harmless:
  assumes "\<And>p. os_space s p \<Longrightarrow> 128 \<le> (of_char (hd p) :: nat)"
    and "export_csv s uuid q actor now d = Inr (x, d')"
  shows "list_all (list_all (harmless (os_space s))) (tl (csv_rows (ex_content x)))"
proof -
  have "list_all (\<lambda>cells. cells \<noteq> []) (EXPORT_FIELDS # map (event_cells space) es)" for space es
    by (simp add: EXPORT_FIELDS_def event_cells_def event_values_def list_all_iff)
  from rows_of_lines [OF this] export_Inr [OF assms(2)] show ?thesis
    unfolding render_csv_def using event_cells_harmless [OF assms(1)] by (simp add: list_all_iff)
qed

subsection \<open>Nearest ranks\<close>

lemma ceil_percent_bounds: "percentile * n \<le> 100 * ceil_percent percentile n \<and> 100 * (ceil_percent percentile n - 1) < percentile * n"
  unfolding ceil_percent_def by presburger

lemma sorted_nth_counts:
  assumes "sorted xs" and "i < length xs"
  shows "i + 1 \<le> length (filter (\<lambda>x. x \<le> xs ! i) xs)" and "length (filter (\<lambda>x. x < xs ! i) xs) \<le> i"
proof -
  have "{..i} \<subseteq> {j. j < length xs \<and> xs ! j \<le> xs ! i}" using assms by (auto simp: sorted_iff_nth_mono)
  from card_mono [OF _ this] show "i + 1 \<le> length (filter (\<lambda>x. x \<le> xs ! i) xs)" by (simp add: length_filter_conv_card)
  have "{j. j < length xs \<and> xs ! j < xs ! i} \<subseteq> {..<i}" using assms by (auto simp: sorted_iff_nth_mono not_le [symmetric])
  from card_mono [OF _ this] show "length (filter (\<lambda>x. x < xs ! i) xs) \<le> i" by (simp add: length_filter_conv_card)
qed

lemma nearest_rank_counts:
  assumes "sorted xs" and "nearest_rank xs percentile = Some v" and "1 \<le> percentile" "percentile \<le> 100"
  shows "v \<in> set xs" and "percentile * int (length xs) \<le> 100 * int (length (filter (\<lambda>x. x \<le> v) xs))"
    and "100 * int (length (filter (\<lambda>x. x < v) xs)) < percentile * int (length xs)"
proof -
  let ?n = "int (length xs)" and ?c = "ceil_percent percentile (int (length xs))"
  have ne: "xs \<noteq> []" using assms(2) by (auto simp: nearest_rank_def)
  note c = ceil_percent_bounds [of percentile ?n, THEN conjunct1] ceil_percent_bounds [of percentile ?n, THEN conjunct2]
  have n: "0 < ?n" using ne by simp
  have "0 < percentile * ?n" using n assms(3) by simp
  then have c1: "1 \<le> ?c" using c by linarith
  have "percentile * ?n \<le> 100 * ?n" using n assms(4) by (intro mult_right_mono) simp_all
  with c(2) have "100 * (?c - 1) < 100 * ?n" by (rule less_le_trans)
  then have c2: "?c \<le> ?n" by simp
  have i: "min (max (?c - 1) 0) (?n - 1) = ?c - 1" using c1 c2 by simp
  with assms(2) ne have v: "v = xs ! nat (?c - 1)" by (simp add: nearest_rank_def Let_def)
  have len: "nat (?c - 1) < length xs" using c1 c2 by linarith
  with v show "v \<in> set xs" by simp
  have counts: "?c \<le> int (length (filter (\<lambda>x. x \<le> v) xs))" "int (length (filter (\<lambda>x. x < v) xs)) \<le> ?c - 1"
    using sorted_nth_counts [OF assms(1) len] c1 unfolding v by linarith+
  with c(1) show "percentile * ?n \<le> 100 * int (length (filter (\<lambda>x. x \<le> v) xs))" by linarith
  from counts(2) have "100 * int (length (filter (\<lambda>x. x < v) xs)) \<le> 100 * (?c - 1)" by simp
  also note c(2)
  finally show "100 * int (length (filter (\<lambda>x. x < v) xs)) < percentile * ?n" .
qed

subsection \<open>Trends\<close>

definition bucket_of :: "int \<Rightarrow> event list \<Rightarrow> int \<Rightarrow> trend_bucket" where
  "bucket_of sec rows start = (let es = filter (\<lambda>e. bucket_start sec e = start) rows in
     \<lparr>tb_start = start, tb_requests = int (length es), tb_successes = total_of (\<lambda>e. if is_success e then 1 else 0) es,
      tb_failures = total_of (\<lambda>e. if is_success e then 0 else 1) es, tb_tokens = total_of ev_total es,
      tb_charged = total_of ev_charged es\<rparr>)"

lemma bucket_of_snoc: "bucket_of sec (rows @ [e]) start =
    (if bucket_start sec e = start then bucket_add e (bucket_of sec rows start) else bucket_of sec rows start)"
  by (simp add: bucket_of_def Let_def bucket_add_def total_of_def)

lemma bucket_of_none: "start \<notin> bucket_start sec ` set rows \<Longrightarrow> bucket_of sec rows start = empty_bucket start"
proof -
  assume "start \<notin> bucket_start sec ` set rows"
  then have "filter (\<lambda>e. bucket_start sec e = start) rows = []" by (auto simp: filter_empty_conv)
  then show ?thesis by (simp add: bucket_of_def empty_bucket_def Let_def total_of_def)
qed

lemma trend_add_spec:
  assumes "\<forall>b\<in>set bs. b = B (tb_start b)" and "distinct (map tb_start bs)"
    and "start \<notin> tb_start ` set bs \<Longrightarrow> B start = empty_bucket start"
    and "\<And>j. B' j = (if j = start then bucket_add e (B j) else B j)"
  shows "(\<forall>b\<in>set (trend_add start e bs). b = B' (tb_start b)) \<and> distinct (map tb_start (trend_add start e bs)) \<and>
    tb_start ` set (trend_add start e bs) = insert start (tb_start ` set bs)"
  using assms(1-3)
proof (induction bs)
  case Nil
  then show ?case by (simp add: assms(4) bucket_add_def empty_bucket_def)
next
  case (Cons b bs)
  show ?case
  proof (cases "tb_start b = start")
    case True
    then show ?thesis using Cons.prems(1,2) by (auto simp: assms(4) bucket_add_def)
  next
    case False
    then have "(\<forall>b\<in>set (trend_add start e bs). b = B' (tb_start b)) \<and> distinct (map tb_start (trend_add start e bs)) \<and>
        tb_start ` set (trend_add start e bs) = insert start (tb_start ` set bs)"
      using Cons by auto
    with False Cons.prems(1,2) show ?thesis by (auto simp: assms(4))
  qed
qed

definition unsorted_trend :: "int \<Rightarrow> event list \<Rightarrow> trend_bucket list" where
  "unsorted_trend sec rows = foldl (\<lambda>bs e. trend_add (bucket_start sec e) e bs) [] rows"

lemma unsorted_trend_spec: "(\<forall>b\<in>set (unsorted_trend sec rows). b = bucket_of sec rows (tb_start b)) \<and>
    distinct (map tb_start (unsorted_trend sec rows)) \<and> tb_start ` set (unsorted_trend sec rows) = bucket_start sec ` set rows"
proof (induction rows rule: rev_induct)
  case (snoc e rows)
  then have I: "\<forall>b\<in>set (unsorted_trend sec rows). b = bucket_of sec rows (tb_start b)" "distinct (map tb_start (unsorted_trend sec rows))"
    "tb_start ` set (unsorted_trend sec rows) = bucket_start sec ` set rows" by blast+
  have step: "unsorted_trend sec (rows @ [e]) = trend_add (bucket_start sec e) e (unsorted_trend sec rows)"
    by (simp add: unsorted_trend_def)
  have "bucket_of sec (rows @ [e]) j = (if j = bucket_start sec e then bucket_add e (bucket_of sec rows j) else bucket_of sec rows j)" for j
    by (auto simp: bucket_of_snoc)
  from trend_add_spec [OF I(1,2) bucket_of_none [folded I(3)] this] show ?case
    unfolding step by (auto simp: I(3))
qed (simp add: unsorted_trend_def)

lemma trend_add_sum: "f (bucket_add e (empty_bucket start)) = g e \<Longrightarrow> (\<And>b. f (bucket_add e b) = f b + g e) \<Longrightarrow>
    sum_list (map f (trend_add start e bs)) = sum_list (map f bs) + (g e :: int)"
  by (induction bs) auto

lemma trend_sum:
  assumes "\<And>e start. f (bucket_add e (empty_bucket start)) = g e" and "\<And>e b. f (bucket_add e b) = f b + (g e :: int)"
  shows "sum_list (map f (trend_of sec rows)) = total_of g rows"
proof -
  have "sum_list (map f (unsorted_trend sec rows)) = total_of g rows"
    by (induction rows rule: rev_induct)
      (simp_all add: unsorted_trend_def total_of_def trend_add_sum [of f _ _ g, OF assms])
  moreover have "mset (map f (trend_of sec rows)) = mset (map f (unsorted_trend sec rows))"
    by (simp add: trend_of_def unsorted_trend_def)
  ultimately show ?thesis by (metis sum_mset_sum_list)
qed

lemma trend_sums:
  "sum_list (map tb_requests (trend_of sec rows)) = int (length rows)"
  "sum_list (map tb_successes (trend_of sec rows)) = total_of (\<lambda>e. if is_success e then 1 else 0) rows"
  "sum_list (map tb_failures (trend_of sec rows)) = total_of (\<lambda>e. if is_success e then 0 else 1) rows"
  "sum_list (map tb_tokens (trend_of sec rows)) = total_of ev_total rows"
  "sum_list (map tb_charged (trend_of sec rows)) = total_of ev_charged rows"
proof -
  have "total_of (\<lambda>_. 1) rows = int (length rows)" by (induction rows) (simp_all add: total_of_def)
  moreover have "sum_list (map tb_requests (trend_of sec rows)) = total_of (\<lambda>_. 1) rows"
    by (rule trend_sum) (simp_all add: bucket_add_def empty_bucket_def)
  ultimately show "sum_list (map tb_requests (trend_of sec rows)) = int (length rows)" by simp
qed (rule trend_sum; simp add: bucket_add_def empty_bucket_def)+

lemma trend_sorted: "sorted_wrt (<) (map tb_start (trend_of sec rows))"
proof -
  have "sorted (map tb_start (trend_of sec rows))" by (simp add: trend_of_def)
  moreover have "mset (map tb_start (trend_of sec rows)) = mset (map tb_start (unsorted_trend sec rows))"
    by (simp add: trend_of_def unsorted_trend_def)
  then have "distinct (map tb_start (trend_of sec rows))"
    using unsorted_trend_spec [of sec rows] mset_eq_imp_distinct_iff by blast
  ultimately show ?thesis by (simp add: strict_sorted_iff)
qed

lemma div_interval: "0 < sec \<Longrightarrow> x div sec = k \<longleftrightarrow> sec * k \<le> x \<and> x < sec * k + sec" for sec k x :: int
proof
  assume "0 < sec" "x div sec = k"
  then have "x = sec * k + x mod sec" "0 \<le> x mod sec" "x mod sec < sec" using mult_div_mod_eq [of sec x] by simp_all
  then show "sec * k \<le> x \<and> x < sec * k + sec" by linarith
next
  assume "0 < sec" "sec * k \<le> x \<and> x < sec * k + sec"
  then show "x div sec = k" by (intro int_div_pos_eq [where r = "x - sec * k"]) simp_all
qed

lemma in_bucket: "0 < sec \<Longrightarrow> sec dvd start \<Longrightarrow> bucket_start sec e = start \<longleftrightarrow> start \<le> ev_created_at e \<and> ev_created_at e < start + sec"
proof -
  assume "0 < sec" "sec dvd start"
  then obtain k where k: "start = sec * k" by (auto simp: dvd_def)
  have "bucket_start sec e = sec * (ev_created_at e div sec)" by (simp add: bucket_start_def minus_mod_eq_mult_div)
  with k \<open>0 < sec\<close> div_interval [OF \<open>0 < sec\<close>, of "ev_created_at e" k] show ?thesis by simp
qed

lemma trend_bucket_counts:
  assumes "0 < sec" and "b \<in> set (trend_of sec rows)"
  shows "sec dvd tb_start b" and "0 < tb_requests b"
    and "tb_requests b = int (length (filter (\<lambda>e. tb_start b \<le> ev_created_at e \<and> ev_created_at e < tb_start b + sec) rows))"
proof -
  have "set (trend_of sec rows) = set (unsorted_trend sec rows)" by (simp add: trend_of_def unsorted_trend_def)
  with assms(2) unsorted_trend_spec [of sec rows]
  have b: "b = bucket_of sec rows (tb_start b)" and k: "tb_start b \<in> bucket_start sec ` set rows" by blast+
  then show d: "sec dvd tb_start b" by (auto simp: bucket_start_def minus_mod_eq_mult_div)
  have n: "tb_requests b = int (length (filter (\<lambda>e. bucket_start sec e = tb_start b) rows))"
    by (subst b) (simp add: bucket_of_def Let_def)
  with k show "0 < tb_requests b" by (auto simp: length_filter_conv_card [symmetric] filter_empty_conv intro: length_pos_if_in_set)
  show "tb_requests b = int (length (filter (\<lambda>e. tb_start b \<le> ev_created_at e \<and> ev_created_at e < tb_start b + sec) rows))"
    unfolding n in_bucket [OF assms(1) d] ..
qed

subsection \<open>Summaries\<close>

lemma summarize_Inr:
  assumes "summarize s q sec d = Inr x"
  shows "x = summary_of sec (matching_events q d)" and "0 < sec"
proof -
  have "\<not> os_max_aggregate s < int (length (matching_events q d))"
    using assms by (auto simp: summarize_def count_events_def split: if_splits)
  then have "take (nat (os_max_aggregate s + 1)) (matching_events q d) = matching_events q d" by simp
  with assms show "x = summary_of sec (matching_events q d)" "0 < sec"
    by (auto simp: summarize_def Let_def ALLOWED_TREND_BUCKET_SECONDS_def split: if_splits)
qed

text \<open>A summary adds up. It counts every matching event once, successes and failures together are
  all of them, and its trend splits them without loss: the buckets start at increasing multiples of
  the bucket length, none is empty, each counts the events of its own interval, and requests,
  successes, failures, Tokens and charges of the buckets sum up to those of the summary.\<close>

theorem summary_adds_up:
  assumes "summarize s q sec d = Inr x"
  shows "su_requests x = int (length (matching_events q d)) \<and> su_successes x + su_failures x = su_requests x \<and>
    su_tokens x = sum_list (map ev_total (matching_events q d)) \<and>
    sorted_wrt (<) (map tb_start (su_trend x)) \<and>
    (\<forall>b\<in>set (su_trend x). sec dvd tb_start b \<and> 0 < tb_requests b \<and> tb_requests b = int (length (filter
      (\<lambda>e. tb_start b \<le> ev_created_at e \<and> ev_created_at e < tb_start b + sec) (matching_events q d)))) \<and>
    sum_list (map tb_requests (su_trend x)) = su_requests x \<and> sum_list (map tb_successes (su_trend x)) = su_successes x \<and>
    sum_list (map tb_failures (su_trend x)) = su_failures x \<and> sum_list (map tb_tokens (su_trend x)) = su_tokens x \<and>
    sum_list (map tb_charged (su_trend x)) = su_charged x"
proof -
  have split: "total_of (\<lambda>e. if is_success e then 1 else 0) es + total_of (\<lambda>e. if is_success e then 0 else 1) es = int (length es)" for es
    by (induction es) (simp_all add: total_of_def)
  note x = summarize_Inr [OF assms]
  have sel: "su_trend x = trend_of sec (matching_events q d)" "su_requests x = int (length (matching_events q d))"
    "su_successes x = total_of (\<lambda>e. if is_success e then 1 else 0) (matching_events q d)"
    "su_failures x = int (length (matching_events q d)) - total_of (\<lambda>e. if is_success e then 1 else 0) (matching_events q d)"
    "su_tokens x = total_of ev_total (matching_events q d)" "su_charged x = total_of ev_charged (matching_events q d)"
    by (simp_all add: x(1) summary_of_def Let_def)
  show ?thesis
    unfolding sel using split [of "matching_events q d"] trend_bucket_counts [OF x(2), of _ "matching_events q d"]
    by (simp add: trend_sums trend_sorted total_of_def)
qed

text \<open>The percentiles of a summary are nearest ranks. The 50th, 95th and 99th percentile is the
  duration of a matching event; at least that share of the events took no longer, and less than that
  share was faster.\<close>

theorem summary_percentiles:
  assumes "summarize s q sec d = Inr x" and "(percentile, v) \<in> {(50, su_p50 x), (95, su_p95 x), (99, su_p99 x)}" and "v = Some t"
  shows "let durations = map ev_duration_ms (matching_events q d); n = int (length durations) in t \<in> set durations \<and>
    percentile * n \<le> 100 * int (length (filter (\<lambda>u. u \<le> t) durations)) \<and>
    100 * int (length (filter (\<lambda>u. u < t) durations)) < percentile * n"
proof -
  let ?ds = "map ev_duration_ms (matching_events q d)"
  have "nearest_rank (sort ?ds) percentile = Some t" "1 \<le> percentile" "percentile \<le> 100"
    using assms(2,3) by (auto simp: summarize_Inr(1) [OF assms(1)] summary_of_def Let_def)
  from nearest_rank_counts [OF sorted_sort this] have "t \<in> set ?ds"
    "percentile * int (length ?ds) \<le> 100 * int (length (filter (\<lambda>u. u \<le> t) (sort ?ds)))"
    "100 * int (length (filter (\<lambda>u. u < t) (sort ?ds))) < percentile * int (length ?ds)" by simp_all
  moreover have "length (filter P (sort ?ds)) = length (filter P ?ds)" for P
    by (metis mset_filter mset_sort size_mset)
  ultimately show ?thesis by (simp add: Let_def)
qed

subsection \<open>A sample\<close>

text \<open>Three requests in two intervals of five minutes; one caller sent an identifier that a spreadsheet
  would take for a formula.\<close>

definition seen_event :: "str \<Rightarrow> str \<Rightarrow> int \<Rightarrow> str \<Rightarrow> int \<Rightarrow> event" where
  "seen_event key sent created outcome ms = \<lparr>ev_id = key, ev_server_request_id = key, ev_client_request_id = sent, ev_operation = None,
     ev_client = None, ev_credential = None, ev_endpoint = ''/'', ev_method = ''GET'', ev_model = None, ev_stream = False,
     ev_outcome = outcome, ev_stage = ''auth'', ev_http_status = 401, ev_code = ''X'', ev_retryable = False, ev_duration_ms = ms,
     ev_overrun = False, ev_prompt = 0, ev_completion = 0, ev_total = 0, ev_charged = 0, ev_qps = 0, ev_concurrency = 0,
     ev_daily_requests = 0, ev_daily_tokens = 0, ev_total_requests = 0, ev_total_tokens = 0, ev_ip_hash = None,
     ev_ua_family = None, ev_started_at = 0, ev_completed_at = 0, ev_created_at = created\<rparr>"

definition seen_db :: db where
  "seen_db = empty_db\<lparr>db_events := [seen_event ''e1'' ''=1,2'' 900 ''success'' 20, seen_event ''e2'' ''a'' 1200 ''rejected'' 10,
     seen_event ''e3'' ''b'' 1100 ''rejected'' 30]\<rparr>"

definition any_query :: event_query where
  "any_query = \<lparr>eq_client = None, eq_from = None, eq_to = None, eq_outcome = None, eq_stage = None, eq_status = None, eq_code = None,
     eq_endpoint = None, eq_model = None, eq_stream = None\<rparr>"

definition observability_sample :: observability_service where
  "observability_sample = \<lparr>os_max_export = 100, os_max_aggregate = 100, os_unicode = (\<lambda>_. []), os_space = (\<lambda>_. False)\<rparr>"

definition seen_export :: event_export where
  "seen_export = \<lparr>ex_filename = ''zangpu-api-events-19700101T002000Z.csv'', ex_row_count = 3,
     ex_content = render_csv (\<lambda>_. False) [seen_event ''e2'' ''a'' 1200 ''rejected'' 10, seen_event ''e3'' ''b'' 1100 ''rejected'' 30,
       seen_event ''e1'' ''=1,2'' 900 ''success'' 20]\<rparr>"

definition seen_after :: db where
  "seen_after = seen_db\<lparr>db_audits := [\<lparr>au_id = ''u1'', au_actor = ''admin'', au_client = None, au_target_type = ''export'',
     au_target_id = Some ''zangpu-api-events-19700101T002000Z.csv'', au_action = ''events.exported'',
     au_changed_fields = [''format'', ''row_count''], au_before = [],
     au_after = [(''format'', JStr ''csv''), (''row_count'', JInt 3)], au_created_at = 1200\<rparr>]\<rparr>"

lemma seen_rows: "matching_events any_query seen_db = db_events seen_db"
  "newest_first (db_events seen_db) = [seen_event ''e2'' ''a'' 1200 ''rejected'' 10, seen_event ''e3'' ''b'' 1100 ''rejected'' 30,
    seen_event ''e1'' ''=1,2'' 900 ''success'' 20]"
  "int (length (db_events seen_db)) = 3"
  by code_simp+

lemma seen_stamp: "utc_stamp 1200 = Inr ''19700101T002000Z''"
  by code_simp

lemma seen_audit: "add_audit (export_audit observability_sample ''u1'' ''admin'' any_query
    ''zangpu-api-events-19700101T002000Z.csv'' 3 1200) seen_db = Inr ((), seen_after)"
  by code_simp

lemma seen_exported: "export_csv observability_sample ''u1'' any_query ''admin'' 1200 seen_db = Inr (seen_export, seen_after)"
proof -
  have t: "take (nat (os_max_export observability_sample + 1)) (newest_first (db_events seen_db)) = newest_first (db_events seen_db)"
    unfolding seen_rows(2) by (simp add: observability_sample_def)
  have n: "\<not> os_max_export observability_sample < 3" "os_space observability_sample = (\<lambda>_. False)"
    by (simp_all add: observability_sample_def)
  have l: "int (length (newest_first (db_events seen_db))) = 3" unfolding seen_rows(2) by simp
  show ?thesis
    unfolding export_csv_def count_events_def seen_rows(1,3) t l Let_def seen_stamp
    using seen_audit n by (simp add: seen_rows(2) seen_export_def)
qed

lemma export_reads_back_witness:
  "csv_rows (ex_content seen_export) = EXPORT_FIELDS # map (event_cells (\<lambda>_. False)) (newest_first (db_events seen_db)) \<and>
   ex_row_count seen_export = 3 \<and> hd (drop 2 (last (csv_rows (ex_content seen_export)))) = CHR 0x27 # ''=1,2''"
proof -
  have "hd (drop 2 (event_cells (\<lambda>_. False) (seen_event ''e1'' ''=1,2'' 900 ''success'' 20))) = CHR 0x27 # ''=1,2''" by code_simp
  with export_reads_back [OF seen_exported] show ?thesis
    by (simp add: seen_rows observability_sample_def seen_export_def)
qed

lemma export_is_harmless_witness:
  "list_all (list_all (harmless (\<lambda>_. False))) (tl (csv_rows (ex_content seen_export))) \<and> \<not> harmless (\<lambda>_. False) ''=1,2''"
proof -
  have s: "os_space observability_sample = (\<lambda>_. False)" by (simp add: observability_sample_def)
  have "\<not> harmless (\<lambda>_. False) ''=1,2''" by code_simp
  with export_is_harmless [OF _ seen_exported] show ?thesis unfolding s by simp
qed

lemma seen_summarized: "summarize observability_sample any_query 300 seen_db = Inr (summary_of 300 (db_events seen_db))"
  using seen_rows(3)
  by (simp add: summarize_def ALLOWED_TREND_BUCKET_SECONDS_def count_events_def seen_rows(1) observability_sample_def)

lemma seen_summary: "map (\<lambda>b. (tb_start b, tb_requests b, tb_failures b)) (su_trend (summary_of 300 (db_events seen_db))) =
    [(900, 2, 1), (1200, 1, 1)]" "su_p50 (summary_of 300 (db_events seen_db)) = Some 20"
  by code_simp+

lemma summary_adds_up_witness:
  "su_requests (summary_of 300 (db_events seen_db)) = 3 \<and>
   sum_list (map tb_requests (su_trend (summary_of 300 (db_events seen_db)))) = 3 \<and>
   sum_list (map tb_failures (su_trend (summary_of 300 (db_events seen_db)))) = su_failures (summary_of 300 (db_events seen_db)) \<and>
   map tb_start (su_trend (summary_of 300 (db_events seen_db))) = [900, 1200]"
proof -
  have "map tb_start (su_trend (summary_of 300 (db_events seen_db))) = [900, 1200]" by code_simp
  with summary_adds_up [OF seen_summarized] show ?thesis by (simp add: seen_rows(1,3))
qed

lemma summary_percentiles_witness:
  "50 * 3 \<le> 100 * int (length (filter (\<lambda>u. u \<le> (20 :: int)) (map ev_duration_ms (matching_events any_query seen_db)))) \<and>
   su_p50 (summary_of 300 (db_events seen_db)) = Some 20"
proof -
  have n: "int (length (map ev_duration_ms (matching_events any_query seen_db))) = 3" by (simp add: seen_rows(1,3))
  from summary_percentiles [OF seen_summarized insertI1 seen_summary(2)] show ?thesis
    using seen_summary(2) unfolding Let_def n by simp
qed

end
