(* ===== verification/Capacity.thy ===== *)
theory Capacity
  imports World
begin

text \<open>
  The capacity of the model pools as administrators see it, \<open>backend/app/services/capacity.py\<close>: the
  policies grouped by pool when the service is made, and a snapshot that observes every pool once.
\<close>

subsection \<open>The pools of the policies\<close>

datatype capacity_state = Idle | Available | Saturated | In_queue

record pool_capacity =
  pc_pool_id :: str
  pc_model_ids :: "str list"
  pc_state :: capacity_state
  pc_active_count :: int
  pc_active_max :: int
  pc_active_remaining :: int
  pc_pool_queue_count :: int
  pc_next_active_expires_at :: int
  pc_next_queue_expires_at :: int
  pc_observed_at :: int

record capacity_snapshot =
  ct_state :: capacity_state
  ct_pool_count :: int
  ct_active_count :: int
  ct_active_limit :: int
  ct_active_remaining :: int
  ct_queue_count :: int
  ct_queue_limit :: int
  ct_queue_remaining :: int
  ct_observed_at :: int
  ct_pools :: "pool_capacity list"

text \<open>One entry for a pool: its limit and the models that share it. \<open>ky_clock\<close> is the clock for a
  snapshot without pools.\<close>

record capacity_service =
  ky_sha :: "str \<Rightarrow> str"
  ky_pools :: "(str \<times> int \<times> str list) list"
  ky_queue_limit :: int
  ky_clock :: "act list \<Rightarrow> int"

text \<open>The two dictionaries of the constructor, as one: the limit is the first policy's, and every
  other policy of the pool must agree with it.\<close>

fun group_policy :: "str \<Rightarrow> pool_policy \<Rightarrow> (str \<times> int \<times> str list) list \<Rightarrow> (str \<times> int \<times> str list) list res" where
  "group_policy m p [] = Inr [(pp_pool p, pp_active_limit p, [m])]"
| "group_policy m p ((k, l, ms) # ps) =
    (if k = pp_pool p
     then (if l \<noteq> pp_active_limit p then Inl (ValueError ''models sharing a pool must use the same active limit'')
           else Inr ((k, l, ms @ [m]) # ps))
     else bind_res (group_policy m p ps) (\<lambda>ps'. Inr ((k, l, ms) # ps')))"

fun group_policies :: "(str \<times> pool_policy) list \<Rightarrow> (str \<times> int \<times> str list) list \<Rightarrow> (str \<times> int \<times> str list) list res" where
  "group_policies [] ps = Inr ps"
| "group_policies ((m, p) # policies) ps = bind_res (group_policy m p ps) (group_policies policies)"

definition make_capacity_service :: "(str \<Rightarrow> str) \<Rightarrow> (act list \<Rightarrow> int) \<Rightarrow> (str \<times> pool_policy) list \<Rightarrow> int \<Rightarrow> capacity_service res" where
  "make_capacity_service sha clock policies global_queue_limit =
    (if \<not> (0 \<le> global_queue_limit \<and> global_queue_limit \<le> 10000) then Inl (ValueError ''global queue limit is invalid'')
     else bind_res (group_policies policies []) (\<lambda>ps.
       Inr \<lparr>ky_sha = sha, ky_pools = map (\<lambda>(k, l, ms). (k, l, sort ms)) (sort_key fst ps),
         ky_queue_limit = global_queue_limit, ky_clock = clock\<rparr>))"

subsection \<open>A snapshot\<close>

definition pool_capacity_of :: "str \<Rightarrow> str list \<Rightarrow> pool_snapshot \<Rightarrow> pool_capacity" where
  "pool_capacity_of pool_id model_ids n =
    \<lparr>pc_pool_id = pool_id, pc_model_ids = model_ids,
     pc_state = (if 0 < pn_pool_queue_count n then In_queue else if pn_active_count n = 0 then Idle
       else if pn_active_remaining n = 0 then Saturated else Available),
     pc_active_count = pn_active_count n, pc_active_max = pn_active_limit n, pc_active_remaining = pn_active_remaining n,
     pc_pool_queue_count = pn_pool_queue_count n, pc_next_active_expires_at = pn_next_active_expires_at n,
     pc_next_queue_expires_at = pn_next_queue_expires_at n, pc_observed_at = pn_observed_at n\<rparr>"

text \<open>The latest observation; of several, \<open>max\<close> returns the first.\<close>

fun latest :: "pool_snapshot \<Rightarrow> pool_snapshot list \<Rightarrow> pool_snapshot" where
  "latest n [] = n"
| "latest n (m # ms) = latest (if pn_observed_at n < pn_observed_at m then m else n) ms"

definition capacity_of :: "int \<Rightarrow> pool_capacity list \<Rightarrow> pool_snapshot \<Rightarrow> capacity_snapshot" where
  "capacity_of queue_limit pools last_seen =
    (let active = sum_list (map pc_active_count pools); queued = pn_queue_count last_seen in
     \<lparr>ct_state = (if 0 < queued then In_queue else if active = 0 then Idle
        else if \<exists>p\<in>set pools. pc_state p = Saturated then Saturated else Available),
      ct_pool_count = int (length pools), ct_active_count = active, ct_active_limit = sum_list (map pc_active_max pools),
      ct_active_remaining = sum_list (map pc_active_remaining pools), ct_queue_count = queued, ct_queue_limit = queue_limit,
      ct_queue_remaining = max (queue_limit - queued) 0, ct_observed_at = pn_observed_at last_seen, ct_pools = pools\<rparr>)"

text \<open>\<open>gather\<close>: every observation is made, each one script of Redis, and the first failure is raised.\<close>

definition observe_pool :: "env \<Rightarrow> capacity_service \<Rightarrow> str \<times> int \<times> str list \<Rightarrow> pool_snapshot prog" where
  "observe_pool en s = (\<lambda>(pool_id, active_limit, _). call en (Act_observe pool_id)
     (redis_do en (\<lambda>l t. pool_observe (ky_sha s) l t pool_id active_limit (ky_queue_limit s))))"

fun gather :: "'a prog list \<Rightarrow> 'a list prog" where
  "gather [] = ret []"
| "gather (m # ms) = bindp (attempt m) (\<lambda>r. bindp (attempt (gather ms)) (\<lambda>rs.
     of_res (bind_res r (\<lambda>x. bind_res rs (\<lambda>xs. Inr (x # xs))))))"

definition observe_capacity :: "env \<Rightarrow> capacity_service \<Rightarrow> capacity_snapshot prog" where
  "observe_capacity en s =
    (if ky_pools s = [] then at_log (\<lambda>l. ret \<lparr>ct_state = Idle, ct_pool_count = 0, ct_active_count = 0, ct_active_limit = 0,
       ct_active_remaining = 0, ct_queue_count = 0, ct_queue_limit = ky_queue_limit s,
       ct_queue_remaining = ky_queue_limit s, ct_observed_at = ky_clock s l, ct_pools = []\<rparr>)
     else bindp (gather (map (observe_pool en s) (ky_pools s))) (\<lambda>ns.
       ret (capacity_of (ky_queue_limit s)
         (map2 (\<lambda>(pool_id, _, model_ids) n. pool_capacity_of pool_id model_ids n) (ky_pools s) ns)
         (latest (hd ns) (tl ns)))))"

end
