(* ===== verification/Capacity_Properties.thy ===== *)
theory Capacity_Properties
  imports Capacity Chat_Sample
begin

text \<open>
  Properties of the capacity snapshot: it shows every configured pool once with all its models, and
  its figures are consistent.
\<close>

subsection \<open>Grouping\<close>

text \<open>What the list of pools says after some policies: the pools are distinct and are those of the
  policies, a pool has the limit of each of its policies and lists exactly their models.\<close>

definition models_of :: "(str \<times> pool_policy) list \<Rightarrow> str \<Rightarrow> str list" where
  "models_of policies k = map fst (filter (\<lambda>x. pp_pool (snd x) = k) policies)"

definition groups :: "(str \<times> pool_policy) list \<Rightarrow> (str \<times> int \<times> str list) list \<Rightarrow> bool" where
  "groups policies ps \<longleftrightarrow> distinct (map fst ps) \<and> fst ` set ps = pp_pool ` snd ` set policies \<and>
    (\<forall>k l ms. map_of ps k = Some (l, ms) \<longrightarrow> ms = models_of policies k \<and>
      (\<forall>m p. (m, p) \<in> set policies \<longrightarrow> pp_pool p = k \<longrightarrow> pp_active_limit p = l))"

lemma groups_entry:
  assumes "groups policies ps" and "map_of ps k = Some (l, ms)"
  shows "ms = models_of policies k" and "(m, p) \<in> set policies \<Longrightarrow> pp_pool p = k \<Longrightarrow> pp_active_limit p = l"
  using assms unfolding groups_def by simp_all

text \<open>One policy changes the entry of its pool and no other.\<close>

definition earlier_models :: "str \<Rightarrow> (str \<times> int \<times> str list) list \<Rightarrow> str list" where
  "earlier_models k ps = (case map_of ps k of None \<Rightarrow> [] | Some (_, ms) \<Rightarrow> ms)"

lemma group_policy_Inr:
  "group_policy m p ps = Inr qs \<Longrightarrow>
    map_of qs = (map_of ps)(pp_pool p \<mapsto> (pp_active_limit p, earlier_models (pp_pool p) ps @ [m])) \<and>
    opt_all (\<lambda>(l, _). l = pp_active_limit p) (map_of ps (pp_pool p)) \<and>
    map fst qs = (if pp_pool p \<in> fst ` set ps then map fst ps else map fst ps @ [pp_pool p])"
proof (induction m p ps arbitrary: qs rule: group_policy.induct)
  case (2 m p k l ms ps)
  show ?case
  proof (cases "k = pp_pool p")
    case True
    then show ?thesis using 2(2) by (auto simp: earlier_models_def fun_eq_iff split: if_splits)
  next
    case False
    then obtain qs' where q: "group_policy m p ps = Inr qs'" "qs = (k, l, ms) # qs'"
      using 2(2) by (auto simp: bind_res_Inr)
    from 2(1) [OF False q(1)] show ?thesis using False unfolding q(2) by (auto simp: earlier_models_def fun_eq_iff)
  qed
qed (auto simp: earlier_models_def fun_eq_iff)

lemma models_of_snoc: "models_of (policies @ [(m, p)]) k = models_of policies k @ (if pp_pool p = k then [m] else [])"
  by (simp add: models_of_def)

lemma models_of_none: "k \<notin> pp_pool ` snd ` set policies \<Longrightarrow> models_of policies k = []"
  by (auto simp: models_of_def filter_empty_conv)

lemma groups_add:
  assumes "groups policies ps" and "group_policy m p ps = Inr qs"
  shows "groups (policies @ [(m, p)]) qs"
proof -
  let ?k = "pp_pool p"
  from assms(1) have d: "distinct (map fst ps)" and f: "fst ` set ps = pp_pool ` snd ` set policies"
    unfolding groups_def by blast+
  note g = groups_entry [OF assms(1)]
  note q = group_policy_Inr [OF assms(2)]
  have old: "earlier_models ?k ps = models_of policies ?k \<and>
      (\<forall>m p'. (m, p') \<in> set policies \<longrightarrow> pp_pool p' = ?k \<longrightarrow> pp_active_limit p' = pp_active_limit p)"
  proof (cases "map_of ps ?k")
    case None
    then have k: "?k \<notin> pp_pool ` snd ` set policies" unfolding f [symmetric] by (simp add: map_of_eq_None_iff)
    then have "(m, p') \<in> set policies \<Longrightarrow> pp_pool p' \<noteq> ?k" for m p' by (metis imageI snd_conv)
    with models_of_none [OF k] None show ?thesis by (simp add: earlier_models_def)
  next
    case (Some x)
    then obtain l ms where e: "map_of ps ?k = Some (l, ms)" by (cases x) simp
    then have "l = pp_active_limit p" using q by simp
    with g [OF e] e show ?thesis by (simp add: earlier_models_def)
  qed
  have keys: "fst ` set qs = insert ?k (fst ` set ps)"
  proof -
    have "fst ` set qs = set (map fst qs)" by simp
    then show ?thesis using q by auto
  qed
  have "distinct (map fst qs)" using q d by auto
  moreover have "fst ` set qs = pp_pool ` snd ` set (policies @ [(m, p)])" unfolding keys f by auto
  moreover have "ms = models_of (policies @ [(m, p)]) k \<and>
      (\<forall>m' p'. (m', p') \<in> set (policies @ [(m, p)]) \<longrightarrow> pp_pool p' = k \<longrightarrow> pp_active_limit p' = l)"
    if "map_of qs k = Some (l, ms)" for k l ms
  proof (cases "k = ?k")
    case True
    then show ?thesis using that q old by (auto simp: models_of_snoc)
  next
    case False
    then have "map_of ps k = Some (l, ms)" using that q by simp
    from g [OF this] False show ?thesis by (auto simp: models_of_snoc)
  qed
  ultimately show ?thesis unfolding groups_def by blast
qed

lemma group_policies_groups:
  "group_policies policies ps = Inr qs \<Longrightarrow> groups earlier ps \<Longrightarrow> groups (earlier @ policies) qs"
proof (induction policies ps arbitrary: earlier qs rule: group_policies.induct)
  case (2 m p policies ps)
  then obtain ps' where a: "group_policy m p ps = Inr ps'" "group_policies policies ps' = Inr qs" by (auto simp: bind_res_Inr)
  from groups_add [OF 2(3) a(1)] 2(1) [OF a(2)] have "groups ((earlier @ [(m, p)]) @ policies) qs" by blast
  then show ?case by simp
qed simp

text \<open>The pools of a service: increasing identifiers, sorted models.\<close>

lemma strict_from_groups: "groups policies ps \<Longrightarrow> sorted_wrt (<) (map fst (sort_key fst ps))"
proof -
  assume "groups policies ps"
  then have "distinct (map fst ps)" by (simp add: groups_def)
  then have "distinct (map fst (sort_key fst ps))" by (simp add: distinct_map)
  then show ?thesis by (simp add: strict_sorted_iff)
qed

lemma service_Inr:
  assumes "make_capacity_service sha clock policies q = Inr s"
  shows "\<exists>ps. groups policies ps \<and> ky_pools s = map (\<lambda>(k, l, ms). (k, l, sort ms)) (sort_key fst ps) \<and>
    ky_queue_limit s = q \<and> 0 \<le> q"
proof -
  obtain ps where ps: "group_policies policies [] = Inr ps"
    "ky_pools s = map (\<lambda>(k, l, ms). (k, l, sort ms)) (sort_key fst ps)" "ky_queue_limit s = q" "0 \<le> q"
    using assms by (auto simp: make_capacity_service_def bind_res_Inr split: if_splits)
  have "groups ([] @ policies) ps" using ps(1) by (rule group_policies_groups) (simp add: groups_def)
  with ps(2-4) show ?thesis by auto
qed

lemma service_pools:
  assumes "make_capacity_service sha clock policies q = Inr s"
  shows "sorted_wrt (<) (map fst (ky_pools s))" and "fst ` set (ky_pools s) = pp_pool ` snd ` set policies"
    and "(k, l, ms) \<in> set (ky_pools s) \<Longrightarrow> ms = sort (models_of policies k) \<and>
      (\<forall>m p. (m, p) \<in> set policies \<longrightarrow> pp_pool p = k \<longrightarrow> pp_active_limit p = l)"
    and "ky_queue_limit s = q" and "0 \<le> q"
proof -
  from service_Inr [OF assms] obtain ps where g: "groups policies ps"
    and p: "ky_pools s = map (\<lambda>(k, l, ms). (k, l, sort ms)) (sort_key fst ps)" and q: "ky_queue_limit s = q" "0 \<le> q" by blast
  have m: "map fst (ky_pools s) = map fst (sort_key fst ps)" unfolding p by (simp add: case_prod_unfold comp_def)
  show "sorted_wrt (<) (map fst (ky_pools s))" unfolding m by (rule strict_from_groups [OF g])
  have "fst ` set (ky_pools s) = set (map fst (ky_pools s))" by simp
  also have "\<dots> = fst ` set ps" unfolding m by simp
  finally show "fst ` set (ky_pools s) = pp_pool ` snd ` set policies" using g by (simp add: groups_def)
  show "ky_queue_limit s = q" "0 \<le> q" by (rule q)+
  assume "(k, l, ms) \<in> set (ky_pools s)"
  then obtain n where n: "(k, l, n) \<in> set ps" "ms = sort n" unfolding p by auto
  moreover have "distinct (map fst ps)" using g by (simp add: groups_def)
  ultimately have "map_of ps k = Some (l, n)" by (simp add: map_of_eq_Some_iff)
  from groups_entry [OF g this] n(2) show "ms = sort (models_of policies k) \<and>
      (\<forall>m p. (m, p) \<in> set policies \<longrightarrow> pp_pool p = k \<longrightarrow> pp_active_limit p = l)" by simp
qed

subsection \<open>Observations\<close>

definition snapshot_ok :: "int \<Rightarrow> int \<Rightarrow> pool_snapshot \<Rightarrow> bool" where
  "snapshot_ok l q n \<longleftrightarrow> 0 \<le> pn_active_count n \<and> pn_active_count n \<le> l \<and> pn_active_limit n = l \<and>
    pn_active_remaining n = l - pn_active_count n \<and> 0 \<le> pn_pool_queue_count n \<and> 0 \<le> pn_queue_count n \<and> pn_queue_count n \<le> q"

lemma observe_reply_ok: "pool_observe_reply l q ns = Inr n \<Longrightarrow> snapshot_ok l q n"
  by (auto simp: pool_observe_reply_def snapshot_ok_def split: list.splits if_splits)

lemma observe_ok: "fst (pool_observe sha k now pool l q r) = Inr n \<Longrightarrow> snapshot_ok l q n"
  unfolding pool_observe_def
  by (auto simp: bind_res_Inr observe_reply_ok split: if_split_asm sum.split_asm prod.split_asm)

lemma observe_pool_Inr:
  "observe_pool en s (k, l, ms) w = (Inr n, w') \<Longrightarrow> snapshot_ok l (ky_queue_limit s) n \<and> wd_db w' = wd_db w"
  by (auto simp: observe_pool_def call_Inr redis_do_def split: prod.splits
      dest: observe_ok [OF arg_cong [where f = fst, THEN trans, OF _ fst_conv]])

lemma gather_Inr:
  assumes "gather (map (observe_pool en s) ps) w = (Inr ns, w')"
  shows "list_all2 (\<lambda>(k, l, ms). snapshot_ok l (ky_queue_limit s)) ps ns \<and> wd_db w' = wd_db w"
  using assms
proof (induction ps arbitrary: ns w)
  case (Cons p ps)
  obtain k l ms where p: "p = (k, l, ms)" by (cases p)
  obtain r w1 where r: "observe_pool en s p w = (r, w1)" by fastforce
  obtain rs w2 where rs: "gather (map (observe_pool en s) ps) w1 = (rs, w2)" by fastforce
  from Cons.prems obtain n ns' where n: "r = Inr n" "rs = Inr ns'" "ns = n # ns'" "w' = w2"
    by (auto simp: bindp_def attempt_def r rs bind_res_Inr split: sum.splits)
  show ?case
    using Cons.IH [of w1 ns'] observe_pool_Inr [of en s k l ms w n w1] r rs unfolding n p by simp
qed simp

lemma latest_of: "latest n ns \<in> set (n # ns) \<and> (\<forall>m\<in>set (n # ns). pn_observed_at m \<le> pn_observed_at (latest n ns))"
proof (induction ns arbitrary: n)
  case (Cons m ms)
  show ?case using Cons [of m] Cons [of n] by (cases "pn_observed_at n < pn_observed_at m") auto
qed simp

subsection \<open>The snapshot\<close>

lemma map2_keys: "length ps = length ns \<Longrightarrow> (\<And>k l ms n. f (g (k, l, ms) n) = k) \<Longrightarrow> map f (map2 g ps ns) = map fst ps"
  by (induction ps ns rule: list_induct2) auto

lemma sum_list_split: "(\<And>c. c \<in> set cs \<Longrightarrow> f c + g c = (h c :: int)) \<Longrightarrow> sum_list (map f cs) + sum_list (map g cs) = sum_list (map h cs)"
  by (induction cs) (auto simp: algebra_simps)

text \<open>A pool of the snapshot is an entry of the service with its observation.\<close>

definition pool_shown :: "capacity_service \<Rightarrow> int \<Rightarrow> pool_capacity \<Rightarrow> bool" where
  "pool_shown s t c \<longleftrightarrow> (pc_pool_id c, pc_active_max c, pc_model_ids c) \<in> set (ky_pools s) \<and> 0 \<le> pc_active_count c \<and>
    0 \<le> pc_active_remaining c \<and> pc_active_count c + pc_active_remaining c = pc_active_max c \<and> pc_observed_at c \<le> t"

lemma pools_shown:
  assumes "list_all2 (\<lambda>(k, l, ms). snapshot_ok l q) ps ns" and "set ps \<subseteq> set (ky_pools s)" and "\<forall>n\<in>set ns. pn_observed_at n \<le> t"
  shows "\<forall>c\<in>set (map2 (\<lambda>(k, _, ms) n. pool_capacity_of k ms n) ps ns). pool_shown s t c"
  using assms by (induction rule: list_all2_induct) (auto simp: pool_shown_def pool_capacity_of_def snapshot_ok_def)

lemma capacity_Inr:
  assumes "observe_capacity en s w = (Inr x, w')" and "0 \<le> ky_queue_limit s"
  shows "map pc_pool_id (ct_pools x) = map fst (ky_pools s) \<and> (\<forall>c\<in>set (ct_pools x). pool_shown s (ct_observed_at x) c) \<and>
    ct_pool_count x = int (length (ct_pools x)) \<and> ct_active_count x = sum_list (map pc_active_count (ct_pools x)) \<and>
    ct_active_remaining x = sum_list (map pc_active_remaining (ct_pools x)) \<and>
    ct_active_limit x = sum_list (map pc_active_max (ct_pools x)) \<and>
    0 \<le> ct_queue_count x \<and> 0 \<le> ct_queue_remaining x \<and> ct_queue_count x + ct_queue_remaining x = ky_queue_limit s \<and>
    (ct_state x = Idle \<longleftrightarrow> ct_queue_count x = 0 \<and> ct_active_count x = 0) \<and> wd_db w' = wd_db w"
proof (cases "ky_pools s = []")
  case True
  then show ?thesis using assms by (auto simp: observe_capacity_def at_log_def)
next
  case False
  let ?pools = "\<lambda>ns. map2 (\<lambda>(k, _, ms) n. pool_capacity_of k ms n) (ky_pools s) ns"
  from False assms(1) obtain ns where ns: "gather (map (observe_pool en s) (ky_pools s)) w = (Inr ns, w')"
    and x: "x = capacity_of (ky_queue_limit s) (?pools ns) (latest (hd ns) (tl ns))"
    by (auto simp: observe_capacity_def bindp_Inr)
  from gather_Inr [OF ns] have oks: "list_all2 (\<lambda>(k, l, ms). snapshot_ok l (ky_queue_limit s)) (ky_pools s) ns"
    and d: "wd_db w' = wd_db w" by simp_all
  from list_all2_lengthD [OF oks] False have len: "length (ky_pools s) = length ns" and ne: "ns \<noteq> []" by auto
  let ?n = "latest (hd ns) (tl ns)"
  have n: "?n \<in> set ns" "\<forall>m\<in>set ns. pn_observed_at m \<le> pn_observed_at ?n"
    using latest_of [of "hd ns" "tl ns"] ne by simp_all
  from n(1) oks have "\<exists>l. snapshot_ok l (ky_queue_limit s) ?n"
    by (metis (mono_tags, lifting) case_prod_unfold in_set_conv_nth list_all2_conv_all_nth)
  then have q: "0 \<le> pn_queue_count ?n" "pn_queue_count ?n \<le> ky_queue_limit s" by (auto simp: snapshot_ok_def)
  have "map pc_pool_id (?pools ns) = map fst (ky_pools s)" by (rule map2_keys [OF len]) (simp add: pool_capacity_of_def)
  moreover have "\<forall>c\<in>set (?pools ns). pool_shown s (pn_observed_at ?n) c" by (rule pools_shown [OF oks subset_refl n(2)])
  ultimately show ?thesis using q d unfolding x by (auto simp: capacity_of_def Let_def)
qed

text \<open>A capacity snapshot is complete and adds up. It shows every pool of the configured policies
  once, in order, with all models that share it and their common limit; in each pool, active and
  remaining slots make up that limit, and so they do in total; queued and remaining places make up
  the limit of the queue; the snapshot is as old as its latest observation, is idle exactly when
  nothing is active or queued, and leaves the database alone.\<close>

theorem capacity_adds_up:
  assumes "make_capacity_service sha clock policies q = Inr s" and "observe_capacity en s w = (Inr x, w')"
  shows "sorted_wrt (<) (map pc_pool_id (ct_pools x)) \<and> pc_pool_id ` set (ct_pools x) = pp_pool ` snd ` set policies \<and>
    (\<forall>c\<in>set (ct_pools x). pc_model_ids c = sort (models_of policies (pc_pool_id c)) \<and>
      (\<forall>m p. (m, p) \<in> set policies \<longrightarrow> pp_pool p = pc_pool_id c \<longrightarrow> pp_active_limit p = pc_active_max c) \<and>
      0 \<le> pc_active_count c \<and> 0 \<le> pc_active_remaining c \<and> pc_active_count c + pc_active_remaining c = pc_active_max c \<and>
      pc_observed_at c \<le> ct_observed_at x) \<and>
    ct_active_count x = sum_list (map pc_active_count (ct_pools x)) \<and>
    ct_active_limit x = sum_list (map pc_active_max (ct_pools x)) \<and> ct_active_count x + ct_active_remaining x = ct_active_limit x \<and>
    0 \<le> ct_queue_count x \<and> 0 \<le> ct_queue_remaining x \<and> ct_queue_count x + ct_queue_remaining x = q \<and>
    (ct_state x = Idle \<longleftrightarrow> ct_queue_count x = 0 \<and> ct_active_count x = 0) \<and> wd_db w' = wd_db w"
proof -
  note pools = service_pools [OF assms(1)]
  have "0 \<le> ky_queue_limit s" using pools(4,5) by simp
  note x = capacity_Inr [OF assms(2) this]
  have ids: "map pc_pool_id (ct_pools x) = map fst (ky_pools s)" using x by (rule conjunct1)
  have shown: "\<forall>c\<in>set (ct_pools x). pool_shown s (ct_observed_at x) c" using x by blast
  have "pc_pool_id ` set (ct_pools x) = set (map pc_pool_id (ct_pools x))" by simp
  also have "\<dots> = pp_pool ` snd ` set policies" unfolding ids using pools(2) by simp
  finally have keys: "pc_pool_id ` set (ct_pools x) = pp_pool ` snd ` set policies" .
  have "sum_list (map pc_active_count (ct_pools x)) + sum_list (map pc_active_remaining (ct_pools x)) =
      sum_list (map pc_active_max (ct_pools x))"
    using shown by (intro sum_list_split) (simp add: pool_shown_def)
  moreover have "pc_model_ids c = sort (models_of policies (pc_pool_id c)) \<and>
      (\<forall>m p. (m, p) \<in> set policies \<longrightarrow> pp_pool p = pc_pool_id c \<longrightarrow> pp_active_limit p = pc_active_max c)"
    if "c \<in> set (ct_pools x)" for c
    using pools(3) [of "pc_pool_id c" "pc_active_max c" "pc_model_ids c"] shown that unfolding pool_shown_def by simp
  ultimately show ?thesis
    using x pools(1) keys shown unfolding ids pool_shown_def pools(4) by simp
qed

text \<open>Two models share a pool that is idle, a third has its own.\<close>

definition capacity_policies :: "(str \<times> pool_policy) list" where
  "capacity_policies = [(''m2'', \<lparr>pp_pool = ''p'', pp_active_limit = 2\<rparr>), (''a'', \<lparr>pp_pool = ''b'', pp_active_limit = 1\<rparr>),
     (''m1'', \<lparr>pp_pool = ''p'', pp_active_limit = 2\<rparr>)]"

definition capacity_sample :: capacity_service where
  "capacity_sample = \<lparr>ky_sha = (\<lambda>s. s), ky_pools = [(''b'', 1, [''a'']), (''p'', 2, [''m1'', ''m2''])], ky_queue_limit = 5,
     ky_clock = (\<lambda>_. 0)\<rparr>"

lemma capacity_made: "make_capacity_service (\<lambda>s. s) (\<lambda>_. 0) capacity_policies 5 = Inr capacity_sample"
proof -
  have "group_policies capacity_policies [] = Inr [(''p'', 2, [''m2'', ''m1'']), (''b'', 1, [''a''])]" by code_simp
  moreover have "sort_key fst [(''p'', 2 :: int, [''m2'', ''m1'']), (''b'', 1, [''a''])] = [(''b'', 1, [''a'']), (''p'', 2, [''m2'', ''m1''])]"
    "sort [''m2'', ''m1''] = [''m1'', ''m2'']" "sort [''a''] = [''a'']"
    by code_simp+
  ultimately show ?thesis by (simp add: make_capacity_service_def capacity_sample_def)
qed

lemma capacity_seen:
  assumes "wd_redis w = empty_redis"
  shows "\<exists>x w'. observe_capacity chat_env capacity_sample w = (Inr x, w') \<and>
    map pc_model_ids (ct_pools x) = [[''a''], [''m1'', ''m2'']] \<and> ct_active_limit x = 3"
proof -
  obtain d l where w: "w = \<lparr>wd_db = d, wd_redis = empty_redis, wd_log = l\<rparr>" using assms by (cases w) simp
  let ?r = "observe_capacity chat_env capacity_sample \<lparr>wd_db = d, wd_redis = empty_redis, wd_log = l\<rparr>"
  have "(case fst ?r of Inl _ \<Rightarrow> False | Inr x \<Rightarrow> map pc_model_ids (ct_pools x) = [[''a''], [''m1'', ''m2'']] \<and> ct_active_limit x = 3)"
    by code_simp
  then show ?thesis unfolding w by (cases ?r) (auto split: sum.splits)
qed

lemma capacity_adds_up_witness:
  "\<exists>x w'. observe_capacity chat_env capacity_sample chat_world = (Inr x, w') \<and>
     map pc_model_ids (ct_pools x) = [[''a''], [''m1'', ''m2'']] \<and> ct_active_limit x = 3 \<and>
     ct_active_count x + ct_active_remaining x = 3 \<and> ct_queue_count x + ct_queue_remaining x = 5"
proof -
  have "wd_redis chat_world = empty_redis" by (simp add: chat_world_def)
  from capacity_seen [OF this] obtain x w' where x: "observe_capacity chat_env capacity_sample chat_world = (Inr x, w')"
    "map pc_model_ids (ct_pools x) = [[''a''], [''m1'', ''m2'']]" "ct_active_limit x = 3" by (elim exE conjE)
  from capacity_adds_up [OF capacity_made x(1)] x show ?thesis by auto
qed

end
