(* ===== verification/Admin_Sessions.thy ===== *)
theory Admin_Sessions
  imports Admin
begin

text \<open>
  The administrator's sessions, \<open>backend/app/security/admin.py\<close>: a signed token that carries its
  claims, issued against a bootstrap token and verified without any stored state, and the check of
  the CSRF token. Base64 is written out as the standard library has it.
\<close>

subsection \<open>Base64\<close>

definition b64_digit :: "nat \<Rightarrow> char" where
  "b64_digit n = (if n < 26 then char_of (65 + n) else if n < 52 then char_of (71 + n) else if n < 62 then char_of (n - 4)
     else if n = 62 then CHR ''-'' else CHR ''_'')"

fun b64_groups :: "nat list \<Rightarrow> str" where
  "b64_groups [] = []"
| "b64_groups [a] = [b64_digit (a div 4), b64_digit (a mod 4 * 16), CHR ''='', CHR ''='']"
| "b64_groups [a, b] = [b64_digit (a div 4), b64_digit (a mod 4 * 16 + b div 16), b64_digit (b mod 16 * 4), CHR ''='']"
| "b64_groups (a # b # c # ns) = b64_digit (a div 4) # b64_digit (a mod 4 * 16 + b div 16) #
     b64_digit (b mod 16 * 4 + c div 64) # b64_digit (c mod 64) # b64_groups ns"

text \<open>The URL-safe decoder takes either alphabet, skips what is in none, and stops at a padding that
  completes a group.\<close>

definition b64_value :: "char \<Rightarrow> nat option" where
  "b64_value c = (let n = of_char c in
     if 65 \<le> n \<and> n \<le> 90 then Some (n - 65) else if 97 \<le> n \<and> n \<le> 122 then Some (n - 71)
     else if 48 \<le> n \<and> n \<le> 57 then Some (n + 4) else if c \<in> {CHR ''-'', CHR ''+''} then Some 62
     else if c \<in> {CHR ''_'', CHR ''/''} then Some 63 else None)"

fun b64_scan :: "nat \<Rightarrow> nat \<Rightarrow> nat \<Rightarrow> str \<Rightarrow> nat list option" where
  "b64_scan q left pads [] = (if q = 0 then Some [] else None)"
| "b64_scan q left pads (c # cs) =
    (if c = CHR ''='' then
       (if 2 \<le> q \<and> 4 \<le> q + pads + 1 then Some [] else b64_scan q left (if 2 \<le> q then pads + 1 else pads) cs)
     else case b64_value c of
       None \<Rightarrow> b64_scan q left pads cs
     | Some v \<Rightarrow>
         if q = 0 then b64_scan 1 v 0 cs
         else if q = 1 then map_option (\<lambda>ns. (left * 4 + v div 16) # ns) (b64_scan 2 (v mod 16) 0 cs)
         else if q = 2 then map_option (\<lambda>ns. (left * 16 + v div 4) # ns) (b64_scan 3 (v mod 4) 0 cs)
         else map_option (\<lambda>ns. (left * 64 + v) # ns) (b64_scan 0 0 0 cs))"

definition session_encode :: "str \<Rightarrow> str" where
  "session_encode s = rev (dropWhile (\<lambda>c. c = CHR ''='') (rev (b64_groups (map of_char s))))"

definition session_decode :: "str \<Rightarrow> str option" where
  "session_decode s =
    (if s = [] \<or> 8192 < py_len s \<or> \<not> is_ascii s then None
     else map_option (map char_of) (b64_scan 0 0 0 (s @ replicate (nat ((- int (length s)) mod 4)) CHR ''='')))"

subsection \<open>Claims and tokens\<close>

record session_claims =
  sc_actor :: str
  sc_issued_at :: int
  sc_expires_at :: int
  sc_csrf :: str

definition CLAIM_FIELDS :: "str list" where
  "CLAIM_FIELDS = [''actor_id'', ''csrf_token'', ''expires_at'', ''issued_at'', ''version'']"

definition claims_json :: "session_claims \<Rightarrow> json" where
  "claims_json c = JObj [(''actor_id'', JStr (sc_actor c)), (''csrf_token'', JStr (sc_csrf c)),
     (''expires_at'', JInt (sc_expires_at c)), (''issued_at'', JInt (sc_issued_at c)), (''version'', JStr ''1'')]"

definition validate_claims :: "validation \<Rightarrow> json \<Rightarrow> session_claims option" where
  "validate_claims vd = obj (\<lambda>p. do {
     version \<leftarrow> Option.bind (field ''version'' p) json_text;
     actor \<leftarrow> Option.bind (field ''actor_id'' p) json_text;
     issued \<leftarrow> int_field vd (\<lambda>n. 0 < n) ''issued_at'' p;
     expires \<leftarrow> int_field vd (\<lambda>n. 0 < n) ''expires_at'' p;
     csrf \<leftarrow> Option.bind (field ''csrf_token'' p) json_text;
     (if version = ''1'' \<and> 1 \<le> py_len actor \<and> py_len actor \<le> 128 \<and> 20 \<le> py_len csrf \<and> py_len csrf \<le> 256 \<and>
         forbid_extra CLAIM_FIELDS p
      then Some \<lparr>sc_actor = actor, sc_issued_at = issued, sc_expires_at = expires, sc_csrf = csrf\<rparr> else None) })"

record issued_session =
  is_token :: str
  is_csrf :: str
  is_expires_at :: int

record session_manager =
  sm_crypto :: crypto
  sm_valid :: validation
  sm_dumps :: "json \<Rightarrow> str"
  sm_loads :: "str \<Rightarrow> json option"
  sm_secret :: str
  sm_bootstrap :: "str option"
  sm_ttl :: int

definition check_session_manager :: "session_manager \<Rightarrow> unit res" where
  "check_session_manager m =
    (if py_len (sm_secret m) < 32 then Inl (ValueError ''administrator session Secret is too short'')
     else if \<not> opt_all (\<lambda>t. 32 \<le> py_len t) (sm_bootstrap m) then Inl (ValueError ''administrator bootstrap token is too short'')
     else if \<not> (300 \<le> sm_ttl m \<and> sm_ttl m \<le> 86400) then Inl (ValueError ''administrator session TTL is out of bounds'')
     else Inr ())"

text \<open>\<open>hmac.compare_digest\<close> on texts: only ASCII is allowed.\<close>

definition compare_digest :: "str \<Rightarrow> str \<Rightarrow> bool res" where
  "compare_digest a b = (if is_ascii a \<and> is_ascii b then Inr (a = b) else Inl TypeError)"

definition session_signature :: "session_manager \<Rightarrow> str \<Rightarrow> str" where
  "session_signature m body = cy_mac (sm_crypto m) (sm_secret m) body"

definition session_body :: "str \<Rightarrow> str" where
  "session_body payload = ''zpa1.'' @ payload"

text \<open>\<open>csrf\<close> is the random text of the session.\<close>

definition issue_session :: "session_manager \<Rightarrow> str \<Rightarrow> str \<Rightarrow> str \<Rightarrow> int \<Rightarrow> issued_session res" where
  "issue_session m csrf bootstrap_token actor_id now =
    bind_res (case sm_bootstrap m of None \<Rightarrow> Inr False | Some configured \<Rightarrow> compare_digest configured bootstrap_token) (\<lambda>same.
     if \<not> same then Inl (AdminSessionError ''administrator authentication failed'')
     else if actor_id = [] \<or> 128 < py_len actor_id then Inl (AdminSessionError ''administrator identity is invalid'')
     else case validate_claims (sm_valid m) (claims_json \<lparr>sc_actor = actor_id, sc_issued_at = now,
         sc_expires_at = now + sm_ttl m, sc_csrf = csrf\<rparr>) of
       None \<Rightarrow> Inl (ValueError ''AdminSessionClaims'')
     | Some claims \<Rightarrow>
         let body = session_body (session_encode (sm_dumps m (claims_json claims))) in
         Inr \<lparr>is_token = body @ CHR ''.'' # session_signature m body, is_csrf = sc_csrf claims,
           is_expires_at = sc_expires_at claims\<rparr>)"

text \<open>\<open>token.split(".", 2)\<close> into exactly three parts.\<close>

definition split_token :: "str \<Rightarrow> (str \<times> str \<times> str) option" where
  "split_token token = (case dropWhile (\<lambda>c. c \<noteq> CHR ''.'') token of
     [] \<Rightarrow> None
   | _ # rest \<Rightarrow> (case dropWhile (\<lambda>c. c \<noteq> CHR ''.'') rest of
       [] \<Rightarrow> None
     | _ # signature \<Rightarrow> Some (takeWhile (\<lambda>c. c \<noteq> CHR ''.'') token, takeWhile (\<lambda>c. c \<noteq> CHR ''.'') rest, signature)))"

text \<open>The claims of a token with a good signature; whatever fails is the same error.\<close>

definition signed_claims :: "session_manager \<Rightarrow> str \<Rightarrow> session_claims option" where
  "signed_claims m token = do {
     (version, payload, signature) \<leftarrow> split_token token;
     same \<leftarrow> (if version \<noteq> ''zpa1'' \<or> py_len signature \<noteq> 64 then None
       else ok_opt (compare_digest (session_signature m (session_body payload)) signature));
     decoded \<leftarrow> (if same then session_decode payload else None);
     content \<leftarrow> sm_loads m decoded;
     validate_claims (sm_valid m) content }"

definition verify_session :: "session_manager \<Rightarrow> str \<Rightarrow> int \<Rightarrow> session_claims res" where
  "verify_session m token now = (case signed_claims m token of
     None \<Rightarrow> Inl (AdminSessionError ''invalid administrator session'')
   | Some claims \<Rightarrow>
       if sc_expires_at claims \<le> now \<or> now + 60 < sc_issued_at claims then Inl (AdminSessionError ''administrator session expired'')
       else Inr claims)"

definition verify_csrf :: "session_claims \<Rightarrow> str option \<Rightarrow> unit res" where
  "verify_csrf claims supplied = (case supplied of
     None \<Rightarrow> Inl (AdminSessionError ''administrator CSRF validation failed'')
   | Some s \<Rightarrow>
       if s = [] then Inl (AdminSessionError ''administrator CSRF validation failed'')
       else bind_res (compare_digest (sc_csrf claims) s) (\<lambda>same.
         if same then Inr () else Inl (AdminSessionError ''administrator CSRF validation failed'')))"

subsection \<open>Decoding what was encoded\<close>

lemma of_char_of_byte: "k < 256 \<Longrightarrow> (of_char (char_of k) :: nat) = k"
  by (simp add: take_bit_eq_mod)

lemma b64_digit_value:
  assumes "n < 64"
  shows "(of_char (b64_digit n) :: nat) = (if n < 26 then 65 + n else if n < 52 then 71 + n else if n < 62 then n - 4
    else if n = 62 then 45 else 95)"
  using assms by (auto simp: b64_digit_def of_char_of_byte)

lemma b64_value_digit:
  assumes "n < 64"
  shows "b64_value (b64_digit n) = Some n" and "b64_digit n \<noteq> CHR ''=''" and "b64_digit n \<noteq> CHR ''.''"
proof -
  have "(of_char (b64_digit n) :: nat) \<noteq> 61" "(of_char (b64_digit n) :: nat) \<noteq> 46"
    using assms unfolding b64_digit_value [OF assms] by auto
  then show "b64_digit n \<noteq> CHR ''=''" "b64_digit n \<noteq> CHR ''.''" by auto
  consider "n < 26" | "26 \<le> n" "n < 52" | "52 \<le> n" "n < 62" | "n = 62" | "n = 63" using assms by linarith
  then show "b64_value (b64_digit n) = Some n"
  proof cases
    case 3
    then have "48 \<le> n - 4" "n - 4 \<le> 57" by simp_all
    with 3 show ?thesis by (simp add: b64_value_def b64_digit_value [OF assms] Let_def)
  qed (simp_all add: b64_value_def b64_digit_value [OF assms] Let_def, simp_all add: b64_digit_def)
qed

text \<open>An encoding without its padding.\<close>

fun b64_core :: "nat list \<Rightarrow> str" where
  "b64_core [] = []"
| "b64_core [a] = [b64_digit (a div 4), b64_digit (a mod 4 * 16)]"
| "b64_core [a, b] = [b64_digit (a div 4), b64_digit (a mod 4 * 16 + b div 16), b64_digit (b mod 16 * 4)]"
| "b64_core (a # b # c # ns) = b64_digit (a div 4) # b64_digit (a mod 4 * 16 + b div 16) #
     b64_digit (b mod 16 * 4 + c div 64) # b64_digit (c mod 64) # b64_core ns"

definition b64_text :: "str \<Rightarrow> bool" where
  "b64_text s \<longleftrightarrow> set s \<subseteq> b64_digit ` {..<64}"

lemma byte_parts:
  fixes a b c :: nat
  shows "a < 256 \<Longrightarrow> a div 4 < 64" "a mod 4 * 16 < 64" "b < 256 \<Longrightarrow> a mod 4 * 16 + b div 16 < 64" "b mod 16 * 4 < 64"
    "c < 256 \<Longrightarrow> b mod 16 * 4 + c div 64 < 64" "c mod 64 < 64"
proof -
  have "a mod 4 < 4" "b mod 16 < 16" by simp_all
  moreover have "b < 256 \<Longrightarrow> b div 16 < 16" "c < 256 \<Longrightarrow> c div 64 < 4" by (simp_all add: less_mult_imp_div_less)
  ultimately show "a mod 4 * 16 < 64" "b mod 16 * 4 < 64"
    "b < 256 \<Longrightarrow> a mod 4 * 16 + b div 16 < 64" "c < 256 \<Longrightarrow> b mod 16 * 4 + c div 64 < 64"
    by linarith+
qed (simp_all add: less_mult_imp_div_less)

lemma byte_joined:
  fixes b c :: nat
  shows "b < 256 \<Longrightarrow> b div 16 div 16 = 0" "b < 256 \<Longrightarrow> b div 16 mod 16 * 16 + b mod 16 = b"
    "c < 256 \<Longrightarrow> c div 64 div 4 = 0" "c < 256 \<Longrightarrow> c div 64 mod 4 * 64 + c mod 64 = c"
proof -
  assume "b < 256"
  then have "b div 16 < 16" by (simp add: less_mult_imp_div_less)
  then show "b div 16 div 16 = 0" "b div 16 mod 16 * 16 + b mod 16 = b" by simp_all
next
  assume "c < 256"
  then have "c div 64 < 4" by (simp add: less_mult_imp_div_less)
  then show "c div 64 div 4 = 0" "c div 64 mod 4 * 64 + c mod 64 = c" by simp_all
qed

lemma b64_core_text: "list_all (\<lambda>n. n < 256) ns \<Longrightarrow> b64_text (b64_core ns)"
  by (induction ns rule: b64_core.induct) (auto simp: b64_text_def byte_parts)

lemma b64_padding: "(- int (Suc (Suc (Suc (Suc n))))) mod 4 = (- int n) mod 4"
  by presburger

lemma b64_groups_core: "b64_groups ns = b64_core ns @ replicate (nat ((- int (length (b64_core ns))) mod 4)) CHR ''=''"
proof (induction ns rule: b64_core.induct)
  case (4 a b c ns)
  then show ?case by (simp only: b64_groups.simps b64_core.simps list.size add_Suc_right add_0_right b64_padding append_Cons)
qed (simp_all add: numeral_2_eq_2)

lemma b64_scan_groups: "list_all (\<lambda>n. n < 256) ns \<Longrightarrow> b64_scan 0 0 0 (b64_groups ns) = Some ns"
  by (induction ns rule: b64_groups.induct) (simp_all add: byte_parts byte_joined b64_value_digit)

lemma b64_text_chars:
  assumes "b64_text s" and "c \<in> set s"
  shows "c \<noteq> CHR ''=''" and "c \<noteq> CHR ''.''" and "(of_char c :: nat) < 128"
proof -
  obtain n where n: "n < 64" "c = b64_digit n" using assms by (auto simp: b64_text_def)
  show "c \<noteq> CHR ''=''" "c \<noteq> CHR ''.''" unfolding n(2) by (rule b64_value_digit [OF n(1)])+
  show "(of_char c :: nat) < 128" using n(1) unfolding n(2) b64_digit_value [OF n(1)] by auto
qed

lemma b64_text_ascii: "b64_text s \<Longrightarrow> is_ascii s" and b64_text_len: "b64_text s \<Longrightarrow> py_len s \<le> length s"
  by (auto simp: is_ascii_def list_all_iff py_len_def dest: b64_text_chars)

lemma bytes_small: "list_all (\<lambda>n. n < 256) (map of_char s :: nat list)"
  by (simp add: list_all_iff)

lemma dropWhile_rev_absent: "x \<notin> set xs \<Longrightarrow> dropWhile (\<lambda>c. c = x) (rev xs) = rev xs"
  by (induction xs rule: rev_induct) auto

lemma dropWhile_replicate: "dropWhile (\<lambda>c. c = x) (replicate n x @ ys) = dropWhile (\<lambda>c. c = x) ys"
  by (induction n) simp_all

lemma session_encode_core: "session_encode s = b64_core (map of_char s)"
proof -
  let ?c = "b64_core (map of_char s)"
  have "CHR ''='' \<notin> set ?c" using b64_text_chars(1) [OF b64_core_text [OF bytes_small]] by blast
  then have "dropWhile (\<lambda>c. c = CHR ''='') (rev ?c) = rev ?c"
    by (rule dropWhile_rev_absent)
  then show ?thesis
    unfolding session_encode_def b64_groups_core by (simp add: dropWhile_replicate)
qed

lemma session_encode_text: "b64_text (session_encode s)"
  unfolding session_encode_core by (rule b64_core_text [OF bytes_small])

lemma session_decode_encode:
  assumes "s \<noteq> []" and "length (session_encode s) \<le> 8192"
  shows "session_decode (session_encode s) = Some s"
proof -
  have "map of_char s \<noteq> ([] :: nat list)" using assms(1) by simp
  then have ne: "session_encode s \<noteq> []"
    unfolding session_encode_core by (cases "map of_char s :: nat list" rule: b64_core.cases) simp_all
  have "py_len (session_encode s) \<le> 8192" using b64_text_len [OF session_encode_text, of s] assms(2) by simp
  moreover have "session_encode s @ replicate (nat ((- int (length (session_encode s))) mod 4)) CHR ''='' = b64_groups (map of_char s)"
    unfolding session_encode_core b64_groups_core ..
  moreover have "map char_of (map of_char s :: nat list) = s" by (simp add: comp_def)
  ultimately show ?thesis
    using ne b64_text_ascii [OF session_encode_text, of s] b64_scan_groups [OF bytes_small, of s]
    by (simp add: session_decode_def)
qed

end
