(* ===== verification/Admin_Session_Properties.thy ===== *)
theory Admin_Session_Properties
  imports Admin_Sessions Auth_Properties
begin

text \<open>
  Properties of the administrator's sessions: an issued token is accepted until it expires, and
  nothing is accepted but a signed token with current claims.
\<close>

definition issued_claims :: "session_manager \<Rightarrow> str \<Rightarrow> str \<Rightarrow> int \<Rightarrow> session_claims" where
  "issued_claims m csrf actor now = \<lparr>sc_actor = actor, sc_issued_at = now, sc_expires_at = now + sm_ttl m, sc_csrf = csrf\<rparr>"

lemma split_token_parts:
  assumes "CHR ''.'' \<notin> set v" and "CHR ''.'' \<notin> set p"
  shows "split_token (v @ CHR ''.'' # p @ CHR ''.'' # s) = Some (v, p, s)"
proof -
  have "dropWhile (\<lambda>c. c \<noteq> CHR ''.'') (v @ CHR ''.'' # r) = CHR ''.'' # r"
    "takeWhile (\<lambda>c. c \<noteq> CHR ''.'') (v @ CHR ''.'' # r) = v" for r
    using assms(1) by (induction v) auto
  moreover have "dropWhile (\<lambda>c. c \<noteq> CHR ''.'') (p @ CHR ''.'' # r) = CHR ''.'' # r"
    "takeWhile (\<lambda>c. c \<noteq> CHR ''.'') (p @ CHR ''.'' # r) = p" for r
    using assms(2) by (induction p) auto
  ultimately show ?thesis by (simp add: split_token_def)
qed

lemma split_token_Some:
  assumes "split_token token = Some (v, p, s)"
  shows "token = v @ CHR ''.'' # p @ CHR ''.'' # s"
proof -
  have part: "t = takeWhile (\<lambda>c. c \<noteq> CHR ''.'') t @ CHR ''.'' # r" if "dropWhile (\<lambda>c. c \<noteq> CHR ''.'') t = c # r" for t c r
  proof -
    have "c = CHR ''.''" using that by (metis (mono_tags, lifting) dropWhile_eq_Cons_conv)
    with that show ?thesis by (metis takeWhile_dropWhile_id)
  qed
  from assms obtain a r b where "dropWhile (\<lambda>c. c \<noteq> CHR ''.'') token = a # r" "dropWhile (\<lambda>c. c \<noteq> CHR ''.'') r = b # s"
    "v = takeWhile (\<lambda>c. c \<noteq> CHR ''.'') token" "p = takeWhile (\<lambda>c. c \<noteq> CHR ''.'') r"
    by (auto simp: split_token_def split: list.splits)
  with part [of token a r] part [of r b s] show ?thesis by metis
qed

lemma hash_ascii: "hash_ok s \<Longrightarrow> is_ascii s \<and> py_len s = 64"
proof -
  assume h: "hash_ok s"
  then have c: "is_lower_hex x" if "x \<in> set s" for x using that by (simp add: hash_ok_def full_class_set)
  have small: "(of_char x :: nat) < 128" if "x \<in> set s" for x
    using c [OF that] by (auto simp: is_lower_hex_def is_digit_def)
  then have "\<not> is_continuation_byte x" if "x \<in> set s" for x
    using that by (meson is_continuation_byte_def not_le)
  then have "filter (\<lambda>c. \<not> is_continuation_byte c) s = s" by (intro filter_True) blast
  with small show ?thesis using h by (simp add: is_ascii_def list_all_iff py_len_def hash_ok_def full_class_def)
qed

lemma issue_Inr:
  assumes "issue_session m csrf bootstrap actor now = Inr x" and "\<And>n. vd_int (sm_valid m) (JInt n) = Some n"
  shows "validate_claims (sm_valid m) (claims_json (issued_claims m csrf actor now)) = Some (issued_claims m csrf actor now) \<and>
    sm_bootstrap m = Some bootstrap \<and> csrf \<noteq> [] \<and>
    (let body = session_body (session_encode (sm_dumps m (claims_json (issued_claims m csrf actor now)))) in
      x = \<lparr>is_token = body @ CHR ''.'' # session_signature m body, is_csrf = csrf, is_expires_at = now + sm_ttl m\<rparr>)"
proof -
  obtain claims where c: "validate_claims (sm_valid m) (claims_json (issued_claims m csrf actor now)) = Some claims"
    and x: "x = (let body = session_body (session_encode (sm_dumps m (claims_json claims))) in
      \<lparr>is_token = body @ CHR ''.'' # session_signature m body, is_csrf = sc_csrf claims, is_expires_at = sc_expires_at claims\<rparr>)"
    and b: "sm_bootstrap m = Some bootstrap"
    using assms(1) unfolding issue_session_def issued_claims_def Let_def
    by (auto simp: bind_res_Inr compare_digest_def split: if_splits option.splits)
  have e: "claims = issued_claims m csrf actor now" "csrf \<noteq> []"
    using c assms(2) by (auto simp: validate_claims_def claims_json_def obj_def field_def int_field_def json_text_def
        issued_claims_def py_len_def bind_eq_Some_conv split: if_splits option.splits)
  with b c x show ?thesis by (simp add: Let_def issued_claims_def)
qed

text \<open>A session that was issued is accepted. The token is verified until it expires (and, with
  clocks that differ, from a minute before it was issued), with the actor and the times it was issued
  for, and the CSRF token that came with it passes. Only the configured bootstrap token is given a
  session. (The JSON library reads back the claims it has written, in at most 8192 characters of
  the token; a digest is 64 hexadecimal digits, an integer is an integer.)\<close>

theorem session_round_trip:
  assumes "issue_session m csrf bootstrap actor now = Inr x"
    and "hash_ok (session_signature m (session_body (session_encode (sm_dumps m (claims_json (issued_claims m csrf actor now))))))"
    and "sm_loads m (sm_dumps m (claims_json (issued_claims m csrf actor now))) = Some (claims_json (issued_claims m csrf actor now))"
    and "sm_loads m [] = None" and "\<And>n. vd_int (sm_valid m) (JInt n) = Some n" and "is_ascii csrf"
    and "length (is_token x) \<le> 8192" and "now \<le> t + 60" and "t < is_expires_at x"
  shows "sm_bootstrap m = Some bootstrap \<and> is_expires_at x = now + sm_ttl m \<and>
    verify_session m (is_token x) t = Inr (issued_claims m csrf actor now) \<and>
    verify_csrf (issued_claims m csrf actor now) (Some (is_csrf x)) = Inr ()"
proof -
  let ?c = "issued_claims m csrf actor now"
  let ?text = "sm_dumps m (claims_json ?c)"
  let ?p = "session_encode ?text"
  let ?sig = "session_signature m (session_body ?p)"
  from issue_Inr [OF assms(1,5)] have v: "validate_claims (sm_valid m) (claims_json ?c) = Some ?c"
    and b: "sm_bootstrap m = Some bootstrap" "csrf \<noteq> []"
    and x: "is_token x = ''zpa1'' @ CHR ''.'' # ?p @ CHR ''.'' # ?sig" "is_csrf x = csrf" "is_expires_at x = now + sm_ttl m"
    by (simp_all add: Let_def session_body_def)
  have "?text \<noteq> []" using assms(3,4) by auto
  moreover have "length ?p \<le> 8192" using assms(7) unfolding x(1) by simp
  ultimately have d: "session_decode ?p = Some ?text" by (rule session_decode_encode)
  have "CHR ''.'' \<notin> set ?p" using b64_text_chars(2) [OF session_encode_text] by blast
  then have s: "split_token (is_token x) = Some (''zpa1'', ?p, ?sig)" unfolding x(1) by (intro split_token_parts) simp_all
  from hash_ascii [OF assms(2)] have "signed_claims m (is_token x) = Some ?c"
    unfolding signed_claims_def s by (simp add: compare_digest_def ok_opt_def d assms(3) v)
  moreover have "sc_expires_at ?c = now + sm_ttl m" "sc_issued_at ?c = now" "sc_csrf ?c = csrf" by (simp_all add: issued_claims_def)
  ultimately show ?thesis
    using assms(6,8,9) b x(2,3) by (simp add: verify_session_def verify_csrf_def compare_digest_def)
qed

text \<open>C20: nothing else is accepted. A token that is verified consists of the version, a payload and the
  signature of both under the session secret; its payload decodes to valid claims, which are the ones
  returned; they have not expired and were issued at most a minute ahead of the clock. No byte of the
  token is free: with this payload there is no other token.\<close>

theorem session_is_signed:
  assumes "verify_session m token t = Inr c"
  shows "\<exists>payload decoded content. token = session_body payload @ CHR ''.'' # session_signature m (session_body payload) \<and>
    session_decode payload = Some decoded \<and> sm_loads m decoded = Some content \<and> validate_claims (sm_valid m) content = Some c \<and>
    t < sc_expires_at c \<and> sc_issued_at c \<le> t + 60"
proof -
  from assms have c: "signed_claims m token = Some c" "t < sc_expires_at c" "sc_issued_at c \<le> t + 60"
    by (auto simp: verify_session_def split: option.splits if_splits)
  from c(1) obtain payload signature decoded content where s: "split_token token = Some (''zpa1'', payload, signature)"
    and "session_signature m (session_body payload) = signature" "session_decode payload = Some decoded"
    "sm_loads m decoded = Some content" "validate_claims (sm_valid m) content = Some c"
    unfolding signed_claims_def
    by (auto simp: bind_eq_Some_conv compare_digest_def ok_opt_def split: if_splits sum.splits)
  with split_token_Some [OF s] c(2,3) show ?thesis by (auto simp: session_body_def)
qed

subsection \<open>A sample\<close>

definition session_sample_claims :: session_claims where
  "session_sample_claims = \<lparr>sc_actor = ''admin'', sc_issued_at = 1000, sc_expires_at = 1600, sc_csrf = replicate 32 CHR ''c''\<rparr>"

text \<open>A JSON library that knows one text.\<close>

definition session_sample :: session_manager where
  "session_sample = \<lparr>sm_crypto = toy_crypto, sm_valid = \<lparr>vd_int = (\<lambda>j. case j of JInt n \<Rightarrow> Some n | _ \<Rightarrow> None), vd_float = (\<lambda>_. None),
     vd_bool = (\<lambda>_. None), vd_uuid = (\<lambda>_. None), vd_trim = (\<lambda>s. s)\<rparr>, sm_dumps = (\<lambda>_. ''claims''),
     sm_loads = (\<lambda>s. if s = ''claims'' then Some (claims_json session_sample_claims) else None),
     sm_secret = replicate 32 CHR ''s'', sm_bootstrap = Some (replicate 32 CHR ''b''), sm_ttl = 600\<rparr>"

definition session_sample_issued :: issued_session where
  "session_sample_issued = \<lparr>is_token = ''zpa1.Y2xhaW1z.'' @ replicate 64 CHR ''a'', is_csrf = replicate 32 CHR ''c'',
     is_expires_at = 1600\<rparr>"

lemma session_sample_checked: "check_session_manager session_sample = Inr ()"
  "issue_session session_sample (replicate 32 CHR ''c'') (replicate 32 CHR ''b'') ''admin'' 1000 = Inr session_sample_issued"
  by code_simp+

lemma session_sample_is: "issued_claims session_sample (replicate 32 CHR ''c'') ''admin'' 1000 = session_sample_claims"
  by (simp add: issued_claims_def session_sample_def session_sample_claims_def)

lemma session_round_trip_witness:
  "verify_session session_sample (is_token session_sample_issued) 1599 = Inr session_sample_claims \<and>
   verify_csrf session_sample_claims (Some (replicate 32 CHR ''c'')) = Inr () \<and>
   verify_session session_sample (is_token session_sample_issued) 1600 = Inl (AdminSessionError ''administrator session expired'')"
proof -
  have "hash_ok (session_signature session_sample b)" for b
    using toy_crypto_laws by (simp add: session_signature_def session_sample_def crypto_laws_def)
  moreover have "sm_loads session_sample (sm_dumps session_sample j) = Some (claims_json session_sample_claims)"
    "sm_loads session_sample [] = None" "vd_int (sm_valid session_sample) (JInt n) = Some n" for j n
    by (simp_all add: session_sample_def)
  moreover have "is_ascii (replicate 32 CHR ''c'')" "length (is_token session_sample_issued) \<le> 8192"
    "is_csrf session_sample_issued = replicate 32 CHR ''c''" "is_expires_at session_sample_issued = 1600"
    by (simp_all add: is_ascii_def session_sample_issued_def list_all_iff)
  ultimately have "verify_session session_sample (is_token session_sample_issued) 1599 = Inr session_sample_claims \<and>
      verify_csrf session_sample_claims (Some (replicate 32 CHR ''c'')) = Inr ()"
    using session_round_trip [OF session_sample_checked(2), of 1599] unfolding session_sample_is by simp
  moreover have "verify_session session_sample (is_token session_sample_issued) 1600 = Inl (AdminSessionError ''administrator session expired'')"
    by code_simp
  ultimately show ?thesis by simp
qed

lemma session_is_signed_witness:
  "\<exists>payload. is_token session_sample_issued = session_body payload @ CHR ''.'' # session_signature session_sample (session_body payload)"
proof -
  have "verify_session session_sample (is_token session_sample_issued) 1599 = Inr session_sample_claims" by code_simp
  from session_is_signed [OF this] show ?thesis by blast
qed

end
