(* ===== verification/Admin_Api.thy ===== *)
theory Admin_Api
  imports Capacity Admin_Sessions Observability Retention
begin

text \<open>
  The administrator's endpoints, \<open>backend/app/api/admin.py\<close>: who may call them, what they ask the
  services, and which response every failure becomes. The framework has routed the request and
  converted its parameters; the bounds it checks are written out, and a request that violates them
  gets its response with status 422. The texts of error messages are left out.
\<close>

subsection \<open>Requests and responses\<close>

datatype request_body = No_body | Bad_json | Json_body json

record admin_request =
  aq_cookie :: "str option"
  aq_csrf :: "str option"
  aq_admin_token :: "str option"

datatype admin_call =
    Create_session
  | Read_session
  | Delete_session
  | List_callers int int
  | Pool_capacity
  | List_events event_query int int
  | Summarize_events event_query int
  | Export_events event_query
  | Preview_retention
  | Purge_retention request_body
  | Create_caller request_body "str option"
  | Get_caller str
  | Caller_concurrency str
  | Update_caller str request_body
  | Rotate_credential str
  | Revoke_credential str str
  | Disable_caller str "str option"

datatype cookie_change = Set_session str int bool | Delete_session_cookie

record caller_concurrency =
  cy_client :: str
  cy_limit :: int
  cy_occupied :: int
  cy_available :: int
  cy_state :: capacity_state
  cy_observed_at :: int
  cy_next_expires_at :: int
  cy_last_expires_at :: int

datatype admin_body =
    Error_body str str
  | Validation_errors
  | Session_body str int str
  | Signed_out
  | Callers_body "client_summary list" int int
  | Capacity_body capacity_snapshot
  | Events_body event_page
  | Summary_body event_summary
  | Export_body event_export
  | Preview_body retention_preview
  | Purge_body purge_result
  | Created_body client_summary credential_summary binding_summary str str
  | Detail_body caller_detail
  | Concurrency_body caller_concurrency
  | Issued_body credential_summary str
  | Credential_body credential_summary

record admin_response =
  ap_status :: int
  ap_body :: admin_body
  ap_headers :: headers
  ap_cookie :: "cookie_change option"

text \<open>What the state of the application holds for these endpoints, and the random values one request
  may draw.\<close>

record admin_app =
  aa_sessions :: session_manager
  aa_service :: admin_service
  aa_observability :: observability_service
  aa_retention :: retention_service
  aa_capacity :: capacity_service
  aa_sha :: "str \<Rightarrow> str"
  aa_secure :: bool

record admin_draws =
  dr_request_id :: str
  dr_csrf :: str
  dr_uuid :: str
  dr_fresh :: admin_fresh

definition no_store :: headers where
  "no_store = [(''Cache-Control'', ''no-store'')]"

definition admin_json :: "int \<Rightarrow> admin_body \<Rightarrow> admin_response" where
  "admin_json status body = \<lparr>ap_status = status, ap_body = body, ap_headers = no_store, ap_cookie = None\<rparr>"

definition admin_error_response :: "str \<Rightarrow> str \<Rightarrow> int \<Rightarrow> admin_response" where
  "admin_error_response request_id code status = \<lparr>ap_status = status, ap_body = Error_body code request_id,
     ap_headers = no_store @ [(''X-Zangpu-Request-Id'', request_id)], ap_cookie = None\<rparr>"

definition invalid_parameters :: admin_response where
  "invalid_parameters = \<lparr>ap_status = 422, ap_body = Validation_errors, ap_headers = [], ap_cookie = None\<rparr>"

subsection \<open>Who may call\<close>

definition require_admin_session :: "env \<Rightarrow> admin_app \<Rightarrow> admin_request \<Rightarrow> session_claims prog" where
  "require_admin_session en a q = (case aq_cookie q of
     None \<Rightarrow> raise (AdminApiError ''ADMIN_AUTH_REQUIRED'' 401)
   | Some token \<Rightarrow>
       if token = [] then raise (AdminApiError ''ADMIN_AUTH_REQUIRED'' 401)
       else bindp (read_time en) (\<lambda>now. except (of_res (verify_session (aa_sessions a) token now)) (\<lambda>e. case e of
           AdminSessionError _ \<Rightarrow> raise (AdminApiError ''ADMIN_AUTH_REQUIRED'' 401) | _ \<Rightarrow> raise e)))"

definition require_admin_write :: "env \<Rightarrow> admin_app \<Rightarrow> admin_request \<Rightarrow> session_claims prog" where
  "require_admin_write en a q =
    bindp (require_admin_session en a q) (\<lambda>claims.
    bindp (except (of_res (verify_csrf claims (aq_csrf q))) (\<lambda>e. case e of
        AdminSessionError _ \<Rightarrow> raise (AdminApiError ''ADMIN_CSRF_FAILED'' 403) | _ \<Rightarrow> raise e)) (\<lambda>_. ret claims))"

text \<open>The filters of an event query: the bounds of the framework, then those of the model.\<close>

definition raw_query_ok :: "event_query \<Rightarrow> bool" where
  "raw_query_ok q \<longleftrightarrow> len_within 1 36 (eq_client q) \<and> opt_all (\<lambda>t. 0 \<le> t) (eq_from q) \<and> opt_all (\<lambda>t. 0 \<le> t) (eq_to q) \<and>
     len_within 0 24 (eq_outcome q) \<and> len_within 0 24 (eq_stage q) \<and> opt_all (\<lambda>n. 100 \<le> n \<and> n \<le> 599) (eq_status q) \<and>
     len_within 1 64 (eq_code q) \<and> len_within 1 64 (eq_endpoint q) \<and> len_within 1 255 (eq_model q)"

definition read_event_query :: "admin_app \<Rightarrow> event_query \<Rightarrow> event_query option prog" where
  "read_event_query a q =
    (if \<not> raw_query_ok q then ret None
     else case validate_event_query (vd_trim (as_valid (aa_service a))) q of
       None \<Rightarrow> raise (AdminApiError ''ADMIN_INVALID_FILTER'' 422)
     | Some v \<Rightarrow> ret (Some v))"

definition checked :: "bool \<Rightarrow> admin_response prog \<Rightarrow> admin_response prog" where
  "checked ok m = (if ok then m else ret invalid_parameters)"

text \<open>A body that is no JSON is refused before anything else, one that does not fit its model after
  the caller has been checked.\<close>

definition with_body :: "request_body \<Rightarrow> session_claims prog \<Rightarrow> (json \<Rightarrow> 'a option) \<Rightarrow> (session_claims \<Rightarrow> 'a \<Rightarrow> admin_response prog) \<Rightarrow>
    admin_response prog" where
  "with_body body guard parse f =
    (if body = Bad_json then ret invalid_parameters
     else bindp guard (\<lambda>claims. case (case body of Json_body j \<Rightarrow> parse j | _ \<Rightarrow> None) of
       None \<Rightarrow> ret invalid_parameters | Some x \<Rightarrow> f claims x))"

definition key_ok :: "str option \<Rightarrow> bool" where
  "key_ok key = (case key of None \<Rightarrow> False | Some k \<Rightarrow> 8 \<le> py_len k \<and> py_len k \<le> 128)"

subsection \<open>Sessions\<close>

definition create_admin_session :: "env \<Rightarrow> admin_app \<Rightarrow> admin_draws \<Rightarrow> admin_request \<Rightarrow> admin_response prog" where
  "create_admin_session en a dr q =
    bindp (read_time en) (\<lambda>now.
    bindp (except (of_res (issue_session (aa_sessions a) (dr_csrf dr) (case aq_admin_token q of None \<Rightarrow> [] | Some t \<Rightarrow> t) ''admin'' now))
      (\<lambda>e. case e of AdminSessionError _ \<Rightarrow> raise (AdminApiError ''ADMIN_AUTH_FAILED'' 401) | _ \<Rightarrow> raise e)) (\<lambda>issued.
    bindp (read_time en) (\<lambda>later.
      ret ((admin_json 200 (Session_body ''admin'' (is_expires_at issued) (is_csrf issued)))
        \<lparr>ap_cookie := Some (Set_session (is_token issued) (is_expires_at issued - later) (aa_secure a))\<rparr>))))"

definition read_admin_session :: "env \<Rightarrow> admin_app \<Rightarrow> admin_request \<Rightarrow> admin_response prog" where
  "read_admin_session en a q = bindp (require_admin_session en a q) (\<lambda>claims.
     ret ((admin_json 200 (Session_body (sc_actor claims) (sc_expires_at claims) (sc_csrf claims)))\<lparr>ap_headers := []\<rparr>))"

definition delete_admin_session :: "env \<Rightarrow> admin_app \<Rightarrow> admin_request \<Rightarrow> admin_response prog" where
  "delete_admin_session en a q = bindp (require_admin_write en a q) (\<lambda>_.
     ret ((admin_json 200 Signed_out)\<lparr>ap_cookie := Some Delete_session_cookie\<rparr>))"

subsection \<open>Reading\<close>

definition reads :: "env \<Rightarrow> str \<Rightarrow> (db \<Rightarrow> 'a res) \<Rightarrow> 'a prog" where
  "reads en name f = call en (Act_admin name) (db_load f)"

definition list_callers_endpoint :: "env \<Rightarrow> admin_app \<Rightarrow> admin_request \<Rightarrow> int \<Rightarrow> int \<Rightarrow> admin_response prog" where
  "list_callers_endpoint en a q offset limit =
    bindp (require_admin_session en a q) (\<lambda>_.
    checked (0 \<le> offset \<and> 1 \<le> limit \<and> limit \<le> 100)
      (bindp (reads en ''list_callers'' (list_callers offset limit)) (\<lambda>items.
         ret (admin_json 200 (Callers_body (map dt_client items) offset limit)))))"

definition control_plane_error :: "exn \<Rightarrow> 'a prog" where
  "control_plane_error e = (case e of
     ControlPlaneUnavailable \<Rightarrow> raise (AdminApiError ''ADMIN_CONTROL_PLANE_UNAVAILABLE'' 503) | _ \<Rightarrow> raise e)"

definition get_model_pool_capacity :: "env \<Rightarrow> admin_app \<Rightarrow> admin_request \<Rightarrow> admin_response prog" where
  "get_model_pool_capacity en a q =
    bindp (require_admin_session en a q) (\<lambda>_.
    bindp (except (observe_capacity en (aa_capacity a)) control_plane_error) (\<lambda>snapshot.
      ret (admin_json 200 (Capacity_body snapshot))))"

definition list_events_endpoint :: "env \<Rightarrow> admin_app \<Rightarrow> admin_request \<Rightarrow> event_query \<Rightarrow> int \<Rightarrow> int \<Rightarrow> admin_response prog" where
  "list_events_endpoint en a q query offset limit =
    bindp (require_admin_session en a q) (\<lambda>_.
    bindp (read_event_query a query) (\<lambda>v. case v of
      None \<Rightarrow> ret invalid_parameters
    | Some event_query \<Rightarrow> checked (0 \<le> offset \<and> 1 \<le> limit \<and> limit \<le> 200)
        (bindp (reads en ''list_events'' (list_events event_query offset limit)) (\<lambda>page. ret (admin_json 200 (Events_body page))))))"

definition summarize_events :: "env \<Rightarrow> admin_app \<Rightarrow> admin_request \<Rightarrow> event_query \<Rightarrow> int \<Rightarrow> admin_response prog" where
  "summarize_events en a q query bucket_seconds =
    bindp (require_admin_session en a q) (\<lambda>_.
    bindp (read_event_query a query) (\<lambda>v. case v of
      None \<Rightarrow> ret invalid_parameters
    | Some event_query \<Rightarrow> checked (1 \<le> bucket_seconds)
        (bindp (except (reads en ''summarize'' (summarize (aa_observability a) event_query bucket_seconds)) (\<lambda>e. case e of
            AdminObservabilityLimitError \<Rightarrow> raise (AdminApiError ''ADMIN_OBSERVABILITY_LIMIT'' 422)
          | _ \<Rightarrow> if is_value_error e then raise (AdminApiError ''ADMIN_INVALID_FILTER'' 422) else raise e))
          (\<lambda>summary. ret (admin_json 200 (Summary_body summary))))))"

definition preview_retention :: "env \<Rightarrow> admin_app \<Rightarrow> admin_request \<Rightarrow> admin_response prog" where
  "preview_retention en a q =
    bindp (require_admin_session en a q) (\<lambda>_.
    bindp (read_time en) (\<lambda>now.
    bindp (reads en ''preview'' (preview (aa_retention a) now)) (\<lambda>p. ret (admin_json 200 (Preview_body p)))))"

definition missing_caller :: "str \<Rightarrow> exn \<Rightarrow> 'a prog" where
  "missing_caller code e = (case e of AdminCallerNotFound _ \<Rightarrow> raise (AdminApiError code 404) | _ \<Rightarrow> raise e)"

definition get_caller_endpoint :: "env \<Rightarrow> admin_app \<Rightarrow> admin_request \<Rightarrow> str \<Rightarrow> admin_response prog" where
  "get_caller_endpoint en a q client_id =
    bindp (require_admin_session en a q) (\<lambda>_.
    bindp (except (reads en ''get_caller'' (get_caller client_id)) (missing_caller ''ADMIN_CALLER_NOT_FOUND'')) (\<lambda>detail.
      ret (admin_json 200 (Detail_body detail))))"

definition get_caller_concurrency :: "env \<Rightarrow> admin_app \<Rightarrow> admin_request \<Rightarrow> str \<Rightarrow> admin_response prog" where
  "get_caller_concurrency en a q client_id =
    bindp (require_admin_session en a q) (\<lambda>_.
    bindp (except (reads en ''get_caller'' (get_caller client_id)) (missing_caller ''ADMIN_CALLER_NOT_FOUND'')) (\<lambda>detail.
    bindp (except (call en (Act_observe client_id) (redis_do en (\<lambda>l t.
        conc_observe (aa_sha a) l t client_id (cl_concurrency_limit (dt_client detail))))) control_plane_error) (\<lambda>n.
      ret (admin_json 200 (Concurrency_body \<lparr>cy_client = client_id, cy_limit = ls_limit n, cy_occupied = ls_occupied n,
        cy_available = ls_remaining n,
        cy_state = (if ls_occupied n = 0 then Idle else if ls_saturated n then Saturated else Available),
        cy_observed_at = ls_observed_at n, cy_next_expires_at = ls_next_expires_at n, cy_last_expires_at = ls_last_expires_at n\<rparr>)))))"

subsection \<open>Writing\<close>

definition writes :: "env \<Rightarrow> str \<Rightarrow> (int \<Rightarrow> 'a tx) \<Rightarrow> 'a prog" where
  "writes en name body = bindp (read_time en) (\<lambda>now. call en (Act_admin name) (db_tx (body now)))"

definition export_events :: "env \<Rightarrow> admin_app \<Rightarrow> admin_draws \<Rightarrow> admin_request \<Rightarrow> event_query \<Rightarrow> admin_response prog" where
  "export_events en a dr q query =
    bindp (require_admin_write en a q) (\<lambda>claims.
    bindp (read_event_query a query) (\<lambda>v. case v of
      None \<Rightarrow> ret invalid_parameters
    | Some event_query \<Rightarrow>
        bindp (except (writes en ''export'' (export_csv (aa_observability a) (dr_uuid dr) event_query (sc_actor claims))) (\<lambda>e. case e of
            AdminObservabilityLimitError \<Rightarrow> raise (AdminApiError ''ADMIN_OBSERVABILITY_LIMIT'' 422) | _ \<Rightarrow> raise e)) (\<lambda>x.
          ret ((admin_json 200 (Export_body x))\<lparr>ap_headers := no_store @
            [(''Content-Disposition'', ''attachment; filename='' @ [CHR 0x22] @ ex_filename x @ [CHR 0x22]),
             (''X-Zangpu-Export-Rows'', show_int (ex_row_count x))]\<rparr>))))"

definition purge_retention :: "env \<Rightarrow> admin_app \<Rightarrow> admin_draws \<Rightarrow> admin_request \<Rightarrow> request_body \<Rightarrow> admin_response prog" where
  "purge_retention en a dr q body =
    with_body body (require_admin_write en a q) validate_purge_request (\<lambda>claims payload.
      bindp (except (writes en ''purge'' (\<lambda>now. retention_purge (aa_retention a) (dr_uuid dr) (sc_actor claims) now
          (pg_event_count payload) (pg_audit_count payload) (pg_confirmed payload))) (\<lambda>e. case e of
          RetentionConfirmationError \<Rightarrow> raise (AdminApiError ''ADMIN_RETENTION_CONFIRMATION_REQUIRED'' 422)
        | RetentionSnapshotConflict \<Rightarrow> raise (AdminApiError ''ADMIN_RETENTION_SNAPSHOT_CHANGED'' 409)
        | RetentionNothingToPurge \<Rightarrow> raise (AdminApiError ''ADMIN_RETENTION_EMPTY'' 409)
        | _ \<Rightarrow> raise e)) (\<lambda>x. ret (admin_json 200 (Purge_body x))))"

definition create_caller_endpoint :: "env \<Rightarrow> admin_app \<Rightarrow> admin_draws \<Rightarrow> admin_request \<Rightarrow> request_body \<Rightarrow> str option \<Rightarrow>
    admin_response prog" where
  "create_caller_endpoint en a dr q body key =
    with_body body (require_admin_write en a q) (validate_create_request (as_valid (aa_service a))) (\<lambda>claims payload.
    checked (key_ok key)
      (bindp (except (writes en ''create_caller'' (create_caller (aa_service a) (dr_fresh dr) payload (sc_actor claims) (the key)))
          (\<lambda>e. case e of IntegrityError \<Rightarrow> raise (AdminApiError ''ADMIN_CONFLICT'' 409) | _ \<Rightarrow> raise e)) (\<lambda>r.
       case nr_secret r of
         None \<Rightarrow> raise (RuntimeError ''secret was already taken'')
       | Some secret \<Rightarrow> ret (admin_json 201 (Created_body (nr_client r) (nr_credential r) (nr_binding r) (nr_outbox_id r) secret)))))"

definition update_caller_endpoint :: "env \<Rightarrow> admin_app \<Rightarrow> admin_draws \<Rightarrow> admin_request \<Rightarrow> str \<Rightarrow> request_body \<Rightarrow>
    admin_response prog" where
  "update_caller_endpoint en a dr q client_id body =
    with_body body (require_admin_write en a q) (validate_patch_request (as_valid (aa_service a))) (\<lambda>claims payload.
      bindp (except (writes en ''update_caller'' (update_caller (aa_service a) (dr_fresh dr) client_id (pt_expected_version payload)
          (pt_set payload) (sc_actor claims))) (\<lambda>e. case e of
          AdminCallerNotFound _ \<Rightarrow> raise (AdminApiError ''ADMIN_CALLER_NOT_FOUND'' 404)
        | AdminCallerStateError _ \<Rightarrow> raise (AdminApiError ''ADMIN_CALLER_CONFLICT'' 409)
        | IntegrityError \<Rightarrow> raise (AdminApiError ''ADMIN_CONFLICT'' 409)
        | _ \<Rightarrow> raise e)) (\<lambda>detail. ret (admin_json 200 (Detail_body detail))))"

definition caller_changed :: "exn \<Rightarrow> 'a prog" where
  "caller_changed e = (case e of
     AdminCallerNotFound _ \<Rightarrow> raise (AdminApiError ''ADMIN_CALLER_NOT_FOUND'' 404)
   | AdminCallerStateError _ \<Rightarrow> raise (AdminApiError ''ADMIN_CALLER_CONFLICT'' 409)
   | _ \<Rightarrow> raise e)"

definition rotate_caller_credential :: "env \<Rightarrow> admin_app \<Rightarrow> admin_draws \<Rightarrow> admin_request \<Rightarrow> str \<Rightarrow> admin_response prog" where
  "rotate_caller_credential en a dr q client_id =
    bindp (require_admin_write en a q) (\<lambda>claims.
    bindp (except (writes en ''rotate_credential'' (rotate_credential (aa_service a) (dr_fresh dr) client_id (sc_actor claims)))
      caller_changed) (\<lambda>r. case ir_secret r of
        None \<Rightarrow> raise (RuntimeError ''secret was already taken'')
      | Some secret \<Rightarrow> ret (admin_json 201 (Issued_body (ir_credential r) secret))))"

definition revoke_caller_credential :: "env \<Rightarrow> admin_app \<Rightarrow> admin_draws \<Rightarrow> admin_request \<Rightarrow> str \<Rightarrow> str \<Rightarrow> admin_response prog" where
  "revoke_caller_credential en a dr q client_id credential_id =
    bindp (require_admin_write en a q) (\<lambda>claims.
    bindp (except (writes en ''revoke_credential'' (revoke_credential (aa_service a) (dr_fresh dr) client_id credential_id (sc_actor claims)))
      (missing_caller ''ADMIN_CREDENTIAL_NOT_FOUND'')) (\<lambda>credential. ret (admin_json 200 (Credential_body credential))))"

definition disable_caller_endpoint :: "env \<Rightarrow> admin_app \<Rightarrow> admin_draws \<Rightarrow> admin_request \<Rightarrow> str \<Rightarrow> str option \<Rightarrow> admin_response prog" where
  "disable_caller_endpoint en a dr q client_id key =
    bindp (require_admin_write en a q) (\<lambda>claims.
    checked (key_ok key)
      (bindp (except (writes en ''disable_caller'' (disable_caller (aa_service a) (dr_fresh dr) client_id (sc_actor claims) (the key)))
        caller_changed) (\<lambda>detail. ret (admin_json 200 (Detail_body detail)))))"

subsection \<open>The interface\<close>

definition admin_endpoint :: "env \<Rightarrow> admin_app \<Rightarrow> admin_draws \<Rightarrow> admin_request \<Rightarrow> admin_call \<Rightarrow> admin_response prog" where
  "admin_endpoint en a dr q c = (case c of
     Create_session \<Rightarrow> create_admin_session en a dr q
   | Read_session \<Rightarrow> read_admin_session en a q
   | Delete_session \<Rightarrow> delete_admin_session en a q
   | List_callers offset limit \<Rightarrow> list_callers_endpoint en a q offset limit
   | Pool_capacity \<Rightarrow> get_model_pool_capacity en a q
   | List_events query offset limit \<Rightarrow> list_events_endpoint en a q query offset limit
   | Summarize_events query bucket_seconds \<Rightarrow> summarize_events en a q query bucket_seconds
   | Export_events query \<Rightarrow> export_events en a dr q query
   | Preview_retention \<Rightarrow> preview_retention en a q
   | Purge_retention body \<Rightarrow> purge_retention en a dr q body
   | Create_caller body key \<Rightarrow> create_caller_endpoint en a dr q body key
   | Get_caller client_id \<Rightarrow> get_caller_endpoint en a q client_id
   | Caller_concurrency client_id \<Rightarrow> get_caller_concurrency en a q client_id
   | Update_caller client_id body \<Rightarrow> update_caller_endpoint en a dr q client_id body
   | Rotate_credential client_id \<Rightarrow> rotate_caller_credential en a dr q client_id
   | Revoke_credential client_id credential_id \<Rightarrow> revoke_caller_credential en a dr q client_id credential_id
   | Disable_caller client_id key \<Rightarrow> disable_caller_endpoint en a dr q client_id key)"

text \<open>The handler of the application turns an \<open>AdminApiError\<close> into a response; every other exception
  is left to the framework.\<close>

definition admin_handle :: "env \<Rightarrow> admin_app \<Rightarrow> admin_draws \<Rightarrow> admin_request \<Rightarrow> admin_call \<Rightarrow> admin_response prog" where
  "admin_handle en a dr q c = except (admin_endpoint en a dr q c) (\<lambda>e. case e of
     AdminApiError code status \<Rightarrow> ret (admin_error_response (dr_request_id dr) code status) | _ \<Rightarrow> raise e)"

end
