(* ===== verification/Admin_Api_Properties.thy ===== *)
theory Admin_Api_Properties
  imports Admin_Api Admin_Session_Properties Admin_Properties Retention_Properties Observability_Properties Capacity_Properties
begin

text \<open>
  Properties of the administrator's endpoints: without a session, and for a write without its CSRF
  token, nothing happens; and whatever changes the database is recorded under the administrator's name.
\<close>

subsection \<open>Authorisation\<close>

fun is_write :: "admin_call \<Rightarrow> bool" where
  "is_write Delete_session = True"
| "is_write (Export_events _) = True"
| "is_write (Purge_retention _) = True"
| "is_write (Create_caller _ _) = True"
| "is_write (Update_caller _ _) = True"
| "is_write (Rotate_credential _) = True"
| "is_write (Revoke_credential _ _) = True"
| "is_write (Disable_caller _ _) = True"
| "is_write _ = False"

definition authorised :: "admin_app \<Rightarrow> admin_request \<Rightarrow> session_claims \<Rightarrow> bool \<Rightarrow> bool" where
  "authorised a q claims writing \<longleftrightarrow> (\<exists>token t. aq_cookie q = Some token \<and> verify_session (aa_sessions a) token t = Inr claims \<and>
     (writing \<longrightarrow> verify_csrf claims (aq_csrf q) = Inr ()))"

definition may_call :: "admin_app \<Rightarrow> admin_request \<Rightarrow> admin_call \<Rightarrow> bool" where
  "may_call a q c \<longleftrightarrow>
    (if c = Create_session then sm_bootstrap (aa_sessions a) = Some (case aq_admin_token q of None \<Rightarrow> [] | Some t \<Rightarrow> t)
     else \<exists>claims. authorised a q claims (is_write c))"

definition auth_required :: exn where
  "auth_required = AdminApiError ''ADMIN_AUTH_REQUIRED'' 401"

definition write_errors :: "exn set" where
  "write_errors = {auth_required, AdminApiError ''ADMIN_CSRF_FAILED'' 403, TypeError}"

lemma session_guard:
  "require_admin_session en a q w = (Inl auth_required, w) \<or>
   (\<exists>claims. require_admin_session en a q w = (Inr claims, w) \<and> authorised a q claims False)"
  by (auto simp: require_admin_session_def authorised_def auth_required_def bindp_def read_time_def except_def verify_session_def
      split: option.splits)

lemma csrf_error: "verify_csrf claims s = Inl e \<Longrightarrow> e = TypeError \<or> (\<exists>m. e = AdminSessionError m)"
  by (auto simp: verify_csrf_def compare_digest_def split: option.splits if_splits)

lemma write_guard:
  "(\<exists>e\<in>write_errors. require_admin_write en a q w = (Inl e, w)) \<or>
   (\<exists>claims. require_admin_write en a q w = (Inr claims, w) \<and> authorised a q claims True)"
proof -
  from session_guard [of en a q w] show ?thesis
  proof (elim disjE exE conjE)
    assume "require_admin_session en a q w = (Inl auth_required, w)"
    then show ?thesis by (simp add: require_admin_write_def bindp_def write_errors_def)
  next
    fix claims
    assume c: "require_admin_session en a q w = (Inr claims, w)" "authorised a q claims False"
    show ?thesis
    proof (cases "verify_csrf claims (aq_csrf q)")
      case (Inl e)
      with csrf_error [OF Inl] c show ?thesis
        by (auto simp: require_admin_write_def bindp_def except_def write_errors_def)
    next
      case (Inr u)
      with c show ?thesis by (auto simp: require_admin_write_def bindp_def except_def authorised_def)
    qed
  qed
qed

text \<open>A guarded program without authorisation.\<close>

definition stopped :: "'a prog \<Rightarrow> world \<Rightarrow> bool" where
  "stopped m w \<longleftrightarrow> (\<exists>e\<in>write_errors. m w = (Inl e, w))"

lemma stopped_session: "\<nexists>claims. authorised a q claims False \<Longrightarrow> stopped (bindp (require_admin_session en a q) f) w"
  using session_guard [of en a q w] by (auto simp: stopped_def write_errors_def bindp_def)

lemma stopped_write: "\<nexists>claims. authorised a q claims True \<Longrightarrow> stopped (bindp (require_admin_write en a q) f) w"
  using write_guard [of en a q w] by (auto simp: stopped_def bindp_def)

lemma stopped_body:
  "\<nexists>claims. authorised a q claims True \<Longrightarrow>
    with_body body (require_admin_write en a q) parse f w = (Inr invalid_parameters, w) \<or>
    stopped (with_body body (require_admin_write en a q) parse f) w"
  using stopped_write [of a q en _ w] by (auto simp: with_body_def stopped_def)

lemma unauthorised_write:
  assumes "\<nexists>claims. authorised a q claims True" and "is_write c"
  shows "admin_endpoint en a dr q c w = (Inr invalid_parameters, w) \<or> stopped (admin_endpoint en a dr q c) w"
  using assms(2) unfolding admin_endpoint_def
  by (cases c) (simp_all only: simp_thms is_write.simps admin_call.simps delete_admin_session_def export_events_def purge_retention_def
      create_caller_endpoint_def update_caller_endpoint_def rotate_caller_credential_def revoke_caller_credential_def
      disable_caller_endpoint_def stopped_write [OF assms(1)] stopped_body [OF assms(1)])

lemma unauthorised_read:
  assumes "\<nexists>claims. authorised a q claims False" and "\<not> is_write c" "c \<noteq> Create_session"
  shows "stopped (admin_endpoint en a dr q c) w"
  using assms(2,3) unfolding admin_endpoint_def
  by (cases c) (simp_all only: simp_thms is_write.simps admin_call.simps read_admin_session_def list_callers_endpoint_def
      get_model_pool_capacity_def list_events_endpoint_def summarize_events_def preview_retention_def get_caller_endpoint_def
      get_caller_concurrency_def stopped_session [OF assms(1)])

lemma unauthorised_endpoint:
  assumes "\<not> may_call a q c" and "c \<noteq> Create_session"
  shows "admin_endpoint en a dr q c w = (Inr invalid_parameters, w) \<or> stopped (admin_endpoint en a dr q c) w"
  using assms unauthorised_write [of a q c en dr w] unauthorised_read [of a q c en dr w]
  by (cases "is_write c") (auto simp: may_call_def)

lemma session_refused:
  assumes "\<not> may_call a q Create_session"
  shows "\<exists>e. create_admin_session en a dr q w = (Inl e, w) \<and> e \<in> {AdminApiError ''ADMIN_AUTH_FAILED'' 401, TypeError}"
proof -
  have "issue_session (aa_sessions a) csrf (case aq_admin_token q of None \<Rightarrow> [] | Some t \<Rightarrow> t) ''admin'' now \<in>
      {Inl (AdminSessionError ''administrator authentication failed''), Inl TypeError}" for csrf now
    using assms by (cases "sm_bootstrap (aa_sessions a)") (auto simp: issue_session_def may_call_def compare_digest_def)
  from this [of "dr_csrf dr" "en_time en (wd_log w)"] show ?thesis
    by (auto simp: create_admin_session_def bindp_def read_time_def except_def)
qed


subsection \<open>What is recorded\<close>

text \<open>The database is as it was, or its last audit record names the actor.\<close>

definition audited_by :: "str \<Rightarrow> db \<Rightarrow> bool" where
  "audited_by actor d \<longleftrightarrow> db_audits d \<noteq> [] \<and> au_actor (last (db_audits d)) = actor"

definition audit_step :: "str \<Rightarrow> world \<Rightarrow> world \<Rightarrow> bool" where
  "audit_step actor w w' \<longleftrightarrow> wd_db w' = wd_db w \<or> audited_by actor (wd_db w')"

interpretation audit_step: world_relation "audit_step actor" for actor
  by unfold_locales (auto simp: audit_step_def)

definition audits :: "str \<Rightarrow> 'a tx \<Rightarrow> bool" where
  "audits actor body \<longleftrightarrow> (\<forall>d x d'. body d = Inr (x, d') \<longrightarrow> d' = d \<or> audited_by actor d')"

lemma audit_step_call: "always (audit_step actor) m \<Longrightarrow> always (audit_step actor) (call en act m)"
  by (rule audit_step.call) (simp_all add: audit_step_def)

lemma audit_step_writes: "(\<And>now. audits actor (body now)) \<Longrightarrow> always (audit_step actor) (writes en name body)"
  unfolding writes_def
  by (intro audit_step.bind audit_step.reads audit_step_call)
    (auto simp: always_def audit_step_def db_tx_def in_tx_def audits_def commit_tx_Inr split: prod.splits sum.splits)

lemma audited_append: "d' = d\<lparr>db_audits := db_audits e @ [x]\<rparr> \<Longrightarrow> au_actor x = actor \<Longrightarrow> audited_by actor d'"
  by (simp add: audited_by_def)

lemma audits_all:
  "audits actor (create_caller s f p actor key now)"
  "audits actor (update_caller s f client_id version patch actor now)"
  "audits actor (rotate_credential s f client_id actor now)"
  "audits actor (revoke_credential s f client_id credential_id actor now)"
  "audits actor (disable_caller s f client_id actor key now)"
  by (auto simp: audits_def audited_by_def recorded_def dest!: create_caller_Inr update_caller_Inr rotate_credential_Inr
      revoke_credential_Inr disable_caller_Inr)

lemma audits_export: "audits actor (export_csv s uuid query actor now)"
  by (auto simp: audits_def audited_by_def dest!: export_Inr)

lemma audits_added: "add_audit (admin_audit uni uuid actor client tt ti action names bef aft now) d = Inr (u, d') \<Longrightarrow> audited_by actor d'"
  by (auto simp: audited_by_def dest!: add_audit_Inr admin_audit_Inr)

lemma audits_purge: "audits actor (retention_purge s uuid actor now ne na confirmed)"
proof -
  have "audited_by actor d'" if "purge_records s uuid actor now e a ec ac d = Inr (x, d')" for e a ec ac d x d'
    using that by (auto simp: purge_records_def Let_def case_prod_unfold bind_res_Inr split: if_splits dest: audits_added)
  then show ?thesis
    by (auto simp: audits_def retention_purge_def Let_def bind_res_Inr split: if_splits)
qed

text \<open>A guarded write, with its handlers and its answer.\<close>

lemma audit_step_handled:
  "always (audit_step actor) m \<Longrightarrow> (\<And>e. always (audit_step actor) (h e)) \<Longrightarrow> (\<And>x. always (audit_step actor) (g x)) \<Longrightarrow>
    always (audit_step actor) (bindp (except m h) g)"
  by (intro audit_step.bind audit_step.except)

lemma audit_step_pure: "(\<And>w. snd (m w) = w) \<Longrightarrow> always (audit_step actor) m"
  by (simp add: always_def audit_step_def)

lemma handlers_pure:
  "snd (caller_changed e w) = w" "snd (missing_caller code e w) = w" "snd (control_plane_error e w) = w"
  by (auto simp: caller_changed_def missing_caller_def control_plane_error_def split: exn.split)

lemma guarded_step:
  assumes "\<And>claims. always (audit_step (sc_actor claims)) (f claims)"
  shows "wd_db (snd (bindp (require_admin_write en a q) f w)) = wd_db w \<or>
    (\<exists>claims. authorised a q claims True \<and> audited_by (sc_actor claims) (wd_db (snd (bindp (require_admin_write en a q) f w))))"
proof -
  from write_guard [of en a q w] consider e where "require_admin_write en a q w = (Inl e, w)"
    | claims where "require_admin_write en a q w = (Inr claims, w)" "authorised a q claims True" by blast
  then show ?thesis
  proof cases
    case (2 claims)
    then show ?thesis using assms [of claims] by (auto simp: bindp_def always_def audit_step_def)
  qed (simp add: bindp_def)
qed

lemma guarded_body_step:
  assumes "\<And>claims x. always (audit_step (sc_actor claims)) (f claims x)"
  shows "wd_db (snd (with_body body (require_admin_write en a q) parse f w)) = wd_db w \<or>
    (\<exists>claims. authorised a q claims True \<and>
      audited_by (sc_actor claims) (wd_db (snd (with_body body (require_admin_write en a q) parse f w))))"
proof (cases "body = Bad_json")
  case False
  have "always (audit_step (sc_actor claims)) (case parsed of None \<Rightarrow> ret invalid_parameters | Some x \<Rightarrow> f claims x)" for claims parsed
    using assms by (cases parsed) (simp_all add: audit_step.ret)
  then show ?thesis using False unfolding with_body_def by (simp add: guarded_step)
qed (simp add: with_body_def)

lemma write_endpoint_step:
  assumes "is_write c"
  shows "wd_db (snd (admin_endpoint en a dr q c w)) = wd_db w \<or>
    (\<exists>claims. authorised a q claims True \<and> audited_by (sc_actor claims) (wd_db (snd (admin_endpoint en a dr q c w))))"
proof -
  note steps = audit_step_handled audit_step_writes audit_step_pure audits_all audits_export audits_purge
  have query: "always (audit_step actor) (read_event_query a query)" for actor query
    by (rule audit_step_pure) (simp add: read_event_query_def split: option.split)
  show ?thesis
  proof (cases c)
    case Delete_session
    show ?thesis unfolding Delete_session admin_endpoint_def admin_call.simps delete_admin_session_def
      by (rule guarded_step) (simp add: audit_step.ret)
  next
    case (Export_events query)
    show ?thesis unfolding Export_events admin_endpoint_def admin_call.simps export_events_def
    proof (rule guarded_step, rule audit_step.bind [OF query])
      fix claims and v :: "event_query option"
      show "always (audit_step (sc_actor claims)) (case v of None \<Rightarrow> ret invalid_parameters | Some event_query \<Rightarrow>
        bindp (except (writes en ''export'' (export_csv (aa_observability a) (dr_uuid dr) event_query (sc_actor claims))) (\<lambda>e. case e of
            AdminObservabilityLimitError \<Rightarrow> raise (AdminApiError ''ADMIN_OBSERVABILITY_LIMIT'' 422) | _ \<Rightarrow> raise e)) (\<lambda>x.
          ret ((admin_json 200 (Export_body x))\<lparr>ap_headers := no_store @
            [(''Content-Disposition'', ''attachment; filename='' @ [CHR 0x22] @ ex_filename x @ [CHR 0x22]),
             (''X-Zangpu-Export-Rows'', show_int (ex_row_count x))]\<rparr>)))"
      proof (cases v)
        case (Some event_query)
        show ?thesis unfolding Some option.case
          by (rule steps(1), rule steps(2), rule audits_export) (auto split: exn.split intro!: audit_step_pure)
      qed (simp add: audit_step.ret)
    qed
  next
    case (Purge_retention body)
    show ?thesis unfolding Purge_retention admin_endpoint_def admin_call.simps purge_retention_def
      by (rule guarded_body_step, rule steps(1), rule steps(2), rule audits_purge) (auto split: exn.split intro!: audit_step_pure)
  next
    case (Create_caller body key)
    show ?thesis unfolding Create_caller admin_endpoint_def admin_call.simps create_caller_endpoint_def checked_def
      by (rule guarded_body_step, rule audit_step.if_then, rule steps(1), rule steps(2), rule audits_all(1))
        (auto split: exn.split option.split intro!: audit_step_pure)
  next
    case (Update_caller client_id body)
    show ?thesis unfolding Update_caller admin_endpoint_def admin_call.simps update_caller_endpoint_def
      by (rule guarded_body_step, rule steps(1), rule steps(2), rule audits_all(2)) (auto split: exn.split intro!: audit_step_pure)
  next
    case (Rotate_credential client_id)
    show ?thesis unfolding Rotate_credential admin_endpoint_def admin_call.simps rotate_caller_credential_def
      by (rule guarded_step, rule steps(1), rule steps(2), rule audits_all(3))
        (auto split: option.split intro!: audit_step_pure simp: handlers_pure)
  next
    case (Revoke_credential client_id credential_id)
    show ?thesis unfolding Revoke_credential admin_endpoint_def admin_call.simps revoke_caller_credential_def
      by (rule guarded_step, rule steps(1), rule steps(2), rule audits_all(4)) (auto intro!: audit_step_pure simp: handlers_pure)
  next
    case (Disable_caller client_id key)
    show ?thesis unfolding Disable_caller admin_endpoint_def admin_call.simps disable_caller_endpoint_def checked_def
      by (rule guarded_step, rule audit_step.if_then, rule steps(1), rule steps(2), rule audits_all(5))
        (auto intro!: audit_step_pure simp: handlers_pure)
  qed (use assms in simp_all)
qed

text \<open>Everything else only reads.\<close>

lemma same_db_reads: "always same_db (reads en name f)"
  unfolding reads_def by (intro same_db_rules same_db.reads)

lemma same_db_pure: "(\<And>w. snd (m w) = w) \<Longrightarrow> always same_db m"
  by (simp add: always_def same_db_def)

lemma same_db_gather: "(\<And>m. m \<in> set ms \<Longrightarrow> always same_db m) \<Longrightarrow> always same_db (gather ms)"
  by (induction ms) (auto intro!: same_db.bind same_db.attempt same_db.ret same_db.of_res)

lemma same_db_capacity: "always same_db (observe_capacity en s)"
proof -
  have "always same_db (observe_pool en s p)" for p
    by (auto simp: observe_pool_def split: prod.split intro!: same_db_rules)
  then have "always same_db (gather (map (observe_pool en s) ps))" for ps by (intro same_db_gather) auto
  then show ?thesis unfolding observe_capacity_def by (intro same_db.rules)
qed

lemma same_db_session: "always same_db (require_admin_session en a q)"
  unfolding always_def same_db_def
proof
  fix w
  from session_guard [of en a q w] show "wd_db (snd (require_admin_session en a q w)) = wd_db w" by auto
qed

lemma same_db_query: "always same_db (read_event_query a query)"
  by (rule same_db_pure) (simp add: read_event_query_def split: option.split)

lemma read_endpoint_same:
  assumes "\<not> is_write c"
  shows "always same_db (admin_endpoint en a dr q c)"
proof -
  note all = same_db.bind same_db_session same_db_reads same_db_query same_db_capacity same_db.except same_db.ret same_db.reads same_db.of_res
    same_db_rules
  have pure: "always same_db (control_plane_error e)" "always same_db (missing_caller code e)" for code and e
    by (rule same_db_pure, simp add: handlers_pure)+
  show ?thesis
    using assms unfolding admin_endpoint_def
    by (cases c) (auto simp: create_admin_session_def read_admin_session_def list_callers_endpoint_def get_model_pool_capacity_def
        list_events_endpoint_def summarize_events_def preview_retention_def get_caller_endpoint_def get_caller_concurrency_def
        checked_def same_db.raise split: option.split exn.split intro!: all pure)
qed

lemma handled_world: "snd (admin_handle en a dr q c w) = snd (admin_endpoint en a dr q c w)"
  by (auto simp: admin_handle_def except_def split: prod.splits sum.splits exn.splits)


subsection \<open>A sample\<close>

definition api_claims :: session_claims where
  "api_claims = \<lparr>sc_actor = ''admin'', sc_issued_at = 150, sc_expires_at = 750, sc_csrf = replicate 32 CHR ''c''\<rparr>"

definition api_app :: admin_app where
  "api_app = \<lparr>aa_sessions = session_sample\<lparr>sm_loads := \<lambda>_. Some (claims_json api_claims)\<rparr>, aa_service = admin_sample,
     aa_observability = observability_sample, aa_retention = retention_sample, aa_capacity = capacity_sample, aa_sha = (\<lambda>s. s),
     aa_secure = True\<rparr>"

definition api_env :: env where
  "api_env = chat_env\<lparr>en_time := \<lambda>_. 200\<rparr>"

definition api_draws :: admin_draws where
  "api_draws = \<lparr>dr_request_id = ''adm_1'', dr_csrf = replicate 32 CHR ''c'', dr_uuid = ''u9'', dr_fresh = admin_names\<rparr>"

definition api_world :: world where
  "api_world = \<lparr>wd_db = bound_db, wd_redis = empty_redis, wd_log = []\<rparr>"

definition api_request :: "str option \<Rightarrow> admin_request" where
  "api_request csrf = \<lparr>aq_cookie = Some (is_token session_sample_issued), aq_csrf = csrf, aq_admin_token = None\<rparr>"

lemma api_session: "verify_session (aa_sessions api_app) (is_token session_sample_issued) 200 = Inr api_claims"
  "verify_csrf api_claims (Some (replicate 32 CHR ''c'')) = Inr ()"
  "key_ok (Some ''key-0002'')"
  by code_simp+

lemma api_sel: "en_time api_env l = 200" "en_fate api_env l = Ends" "aa_service api_app = admin_sample"
    "dr_fresh api_draws = admin_names" "sc_actor api_claims = ''admin''" "is_token session_sample_issued \<noteq> []"
  by (simp_all add: api_env_def chat_env_def api_app_def api_draws_def api_claims_def session_sample_issued_def)

lemma api_disabled:
  "wd_db (snd (admin_handle api_env api_app api_draws (api_request (Some (replicate 32 CHR ''c'')))
     (Disable_caller ''c1'' (Some ''key-0002'')) api_world)) = disabled_db"
proof -
  obtain x where x: "commit_tx (disable_caller admin_sample admin_names ''c1'' ''admin'' ''key-0002'' 200) bound_db = Inr (x, disabled_db)"
    using sample_disabled_commits by blast
  have guard: "require_admin_write api_env api_app (api_request (Some (replicate 32 CHR ''c''))) api_world = (Inr api_claims, api_world)"
    by (simp add: require_admin_write_def require_admin_session_def api_request_def bindp_def read_time_def except_def api_sel api_session)
  have wd: "wd_db api_world = bound_db" by (simp add: api_world_def)
  show ?thesis
    unfolding handled_world admin_endpoint_def admin_call.simps disable_caller_endpoint_def
    using x by (simp add: bindp_def guard checked_def api_session api_sel except_def writes_def read_time_def call_def
        record_act_def db_tx_def in_tx_def wd)
qed



end
