(* ===== verification/Urls.thy ===== *)
theory Urls
  imports Prelude
begin

text \<open>
  A parsed URL as the HTTP library's \<open>httpx.URL\<close> hands it out, and the check that the three clients
  (\<open>integrations/bifrost/client.py\<close>, \<open>integrations/openwebui/client.py\<close> and the SDK) share: an
  origin and nothing else.
\<close>

record base_url =
  ul_scheme :: str
  ul_host :: str
  ul_user :: str
  ul_password :: str
  ul_query :: str
  ul_fragment :: str
  ul_path :: str

definition origin_url :: "base_url \<Rightarrow> bool" where
  "origin_url u \<longleftrightarrow> ul_scheme u \<in> {''http'', ''https''} \<and> ul_host u \<noteq> [] \<and> ul_user u = [] \<and> ul_password u = [] \<and>
     ul_query u = [] \<and> ul_fragment u = [] \<and> ul_path u \<in> {[], ''/''}"

end
