(* ===== verification/Sdk_Client.thy ===== *)
theory Sdk_Client
  imports External Urls
begin

text \<open>
  The client of the Python SDK, \<open>sdk/python/src/zangpu_sdk/client.py\<close>: signed requests, bounded
  responses, errors that keep only what is safe, and the reader of a stream. The HTTP library is the
  transport; its answer is what it delivers before it ends or fails. JSON is a parameter.
\<close>

definition MAX_REQUEST_BYTES :: nat where
  "MAX_REQUEST_BYTES = 1024 * 1024"

definition MAX_JSON_RESPONSE_BYTES :: nat where
  "MAX_JSON_RESPONSE_BYTES = 4 * 1024 * 1024"

definition MAX_SSE_EVENT_BYTES :: nat where
  "MAX_SSE_EVENT_BYTES = 1024 * 1024"

definition LOOPBACK_HOSTS :: "str list" where
  "LOOPBACK_HOSTS = [''127.0.0.1'', ''localhost'', ''::1'']"

definition safe_response_id :: "str \<Rightarrow> bool" where
  "safe_response_id s = full_class is_token_char 1 128 s"

subsection \<open>Responses\<close>

text \<open>Header names are in lower case. The body comes in chunks, or as lines; reading it may fail after
  what was delivered.\<close>

datatype sdk_fault = Timeout_fault | Request_fault

record sdk_response =
  hp_status :: int
  hp_headers :: headers
  hp_chunks :: "str list"
  hp_lines :: "str list"
  hp_fault :: "sdk_fault option"

datatype sdk_reply = No_reply sdk_fault | Reply sdk_response

record sdk_rate_limit =
  sl_limit :: int
  sl_remaining :: int
  sl_reset_at :: int

record sdk_result =
  sd_data :: "(str \<times> json) list"
  sd_request_id :: str
  sd_rate_limit :: sdk_rate_limit

record sdk_event =
  se_data :: "(str \<times> json) list"
  se_request_id :: str

definition sdk_fault_error :: "sdk_fault \<Rightarrow> exn" where
  "sdk_fault_error f = (case f of Timeout_fault \<Rightarrow> ZangpuTransportError ''REQUEST_TIMEOUT'' True
     | Request_fault \<Rightarrow> ZangpuTransportError ''REQUEST_UNAVAILABLE'' True)"

fun read_bounded :: "nat \<Rightarrow> str \<Rightarrow> str list \<Rightarrow> sdk_fault option \<Rightarrow> str res" where
  "read_bounded limit content [] fault = (case fault of None \<Rightarrow> Inr content | Some f \<Rightarrow> Inl (sdk_fault_error f))"
| "read_bounded limit content (c # cs) fault =
    (if limit < length content + length c then Inl ZangpuProtocolError else read_bounded limit (content @ c) cs fault)"

definition header_of :: "sdk_response \<Rightarrow> str \<Rightarrow> str option" where
  "header_of r k = map_of (hp_headers r) k"

definition sdk_content_type :: "sdk_response \<Rightarrow> str" where
  "sdk_content_type r = map lower_char (latin_strip (fst (partition_on CHR '';''
     (case header_of r ''content-type'' of None \<Rightarrow> [] | Some v \<Rightarrow> v))))"

definition sdk_request_id :: "sdk_response \<Rightarrow> str res" where
  "sdk_request_id r = (let s = (case header_of r ''x-zangpu-request-id'' of None \<Rightarrow> [] | Some v \<Rightarrow> v) in
     if safe_response_id s then Inr s else Inl ZangpuProtocolError)"

definition sdk_rate_limit_of :: "sdk_response \<Rightarrow> sdk_rate_limit res" where
  "sdk_rate_limit_of r =
    (let number = (\<lambda>k. Option.bind (header_of r k) header_int) in
     case (number ''x-ratelimit-limit'', number ''x-ratelimit-remaining'', number ''x-ratelimit-reset'') of
       (Some limit, Some remaining, Some reset_at) \<Rightarrow>
         if limit \<le> 0 \<or> remaining < 0 \<or> limit < remaining \<or> reset_at < 0 then Inl ZangpuProtocolError
         else Inr \<lparr>sl_limit = limit, sl_remaining = remaining, sl_reset_at = reset_at\<rparr>
     | _ \<Rightarrow> Inl ZangpuProtocolError)"

definition safe_error_text :: "json option \<Rightarrow> str \<Rightarrow> nat \<Rightarrow> str" where
  "safe_error_text v absent max_length = (case v of
     Some (JStr s) \<Rightarrow> if s = [] \<or> max_length < py_len s \<or> list_ex is_control s then absent else s
   | _ \<Rightarrow> absent)"

definition safe_id :: "json option \<Rightarrow> str option" where
  "safe_id v = (case v of Some (JStr s) \<Rightarrow> if safe_response_id s then Some s else None | _ \<Rightarrow> None)"

text \<open>The error object of the payload, when there is one.\<close>

definition error_object :: "json option \<Rightarrow> (str \<times> json) list option" where
  "error_object payload = (case payload of
     Some (JObj p) \<Rightarrow> (case field ''error'' p of Some (JObj e) \<Rightarrow> Some e | _ \<Rightarrow> None)
   | _ \<Rightarrow> None)"

definition api_error_of :: "(str \<Rightarrow> json option) \<Rightarrow> sdk_response \<Rightarrow> str \<Rightarrow> exn" where
  "api_error_of loads r content =
    (let found = (if sdk_content_type r = ''application/json'' then error_object (loads content) else None);
         entry = (\<lambda>k. case found of None \<Rightarrow> None | Some e \<Rightarrow> field k e);
         retryable = (case entry ''retryable'' of Some (JBool b) \<Rightarrow> b | _ \<Rightarrow> hp_status r = 429 \<or> 500 \<le> hp_status r);
         request_id = (case safe_id (entry ''request_id'') of Some s \<Rightarrow> Some s | None \<Rightarrow> header_of r ''x-zangpu-request-id'')
     in ZangpuAPIError (hp_status r) (safe_error_text (entry ''code'') ''HTTP_ERROR'' 64)
          (safe_error_text (entry ''message'') ''Request failed.'' 512)
          (if opt_all safe_response_id request_id then request_id else None) retryable (safe_id (entry ''operation_id'')))"

subsection \<open>The client\<close>

text \<open>The URL of the service: an origin, over TLS unless the host is this machine.\<close>

definition base_url_ok :: "base_url \<Rightarrow> bool" where
  "base_url_ok u \<longleftrightarrow> origin_url u \<and> (ul_scheme u = ''http'' \<longrightarrow> map lower_char (ul_host u) \<in> set LOOPBACK_HOSTS)"

definition make_client :: "base_url \<Rightarrow> rat \<Rightarrow> str \<Rightarrow> str \<Rightarrow> signer res" where
  "make_client u timeout_seconds key_id secret =
    (if \<not> base_url_ok u then Inl (ValueError ''base URL must be an HTTPS origin or a loopback HTTP origin'')
     else if \<not> (1 / 10 \<le> timeout_seconds \<and> timeout_seconds \<le> 300) then Inl (ValueError ''timeout must be between 0.1 and 300 seconds'')
     else make_signer key_id secret)"

text \<open>What one call is given besides its arguments: the signer, the digests, the clock and the random
  values, JSON, and the transport.\<close>

record sdk_env =
  sk_signer :: signer
  sk_sha :: "str \<Rightarrow> str"
  sk_mac :: "str \<Rightarrow> str \<Rightarrow> str"
  sk_clock :: int
  sk_nonce :: str
  sk_new_id :: str
  sk_dumps :: "json \<Rightarrow> str option"
  sk_loads :: "str \<Rightarrow> json option"
  sk_send :: "str \<Rightarrow> str \<Rightarrow> headers \<Rightarrow> str \<Rightarrow> sdk_reply"

definition sdk_json_body :: "sdk_env \<Rightarrow> json \<Rightarrow> str res" where
  "sdk_json_body k payload = (case sk_dumps k payload of
     None \<Rightarrow> Inl (ValueError ''request payload is not JSON serializable'')
   | Some body \<Rightarrow> if MAX_REQUEST_BYTES < length body then Inl (ValueError ''request payload exceeds 1 MiB'') else Inr body)"

definition sdk_headers :: "sdk_env \<Rightarrow> str \<Rightarrow> str \<Rightarrow> str \<Rightarrow> str option \<Rightarrow> bool \<Rightarrow> headers res" where
  "sdk_headers k method path body request_id stream =
    bind_res (sdk_sign (sk_sha k) (sk_mac k) (sk_signer k) (sk_clock k) (sk_nonce k) (sk_new_id k)
      \<lparr>sr_method = method, sr_path = path, sr_body = body, sr_query = [], sr_request_id = request_id, sr_nonce = None,
       sr_timestamp = None\<rparr>) (\<lambda>signed.
    Inr (as_headers signed @ [(''accept'', if stream then ''text/event-stream'' else ''application/json'')] @
      (if body = [] then [] else [(''content-type'', ''application/json'')])))"

definition sdk_result_of :: "(str \<Rightarrow> json option) \<Rightarrow> sdk_response \<Rightarrow> sdk_result res" where
  "sdk_result_of loads r =
    bind_res (read_bounded MAX_JSON_RESPONSE_BYTES [] (hp_chunks r) (hp_fault r)) (\<lambda>content.
    if 400 \<le> hp_status r then Inl (api_error_of loads r content)
    else if sdk_content_type r \<noteq> ''application/json'' then Inl ZangpuProtocolError
    else (case loads content of
        Some (JObj payload) \<Rightarrow> bind_res (sdk_request_id r) (\<lambda>request_id. bind_res (sdk_rate_limit_of r) (\<lambda>rate_limit.
          Inr \<lparr>sd_data = payload, sd_request_id = request_id, sd_rate_limit = rate_limit\<rparr>))
      | _ \<Rightarrow> Inl ZangpuProtocolError))"

definition sdk_request_json :: "sdk_env \<Rightarrow> str \<Rightarrow> str \<Rightarrow> str \<Rightarrow> str option \<Rightarrow> sdk_result res" where
  "sdk_request_json k method path body request_id =
    bind_res (sdk_headers k method path body request_id False) (\<lambda>hs. case sk_send k method path hs body of
      No_reply f \<Rightarrow> Inl (sdk_fault_error f) | Reply r \<Rightarrow> sdk_result_of (sk_loads k) r)"

definition sdk_list_models :: "sdk_env \<Rightarrow> str option \<Rightarrow> sdk_result res" where
  "sdk_list_models k request_id = sdk_request_json k ''GET'' ''/api/v1/external/models'' [] request_id"

definition sdk_get_usage :: "sdk_env \<Rightarrow> str option \<Rightarrow> sdk_result res" where
  "sdk_get_usage k request_id = sdk_request_json k ''GET'' ''/api/v1/external/usage'' [] request_id"

text \<open>The arguments of a chat request, as the JSON values they become; \<open>JNull\<close> is \<open>None\<close>.\<close>

record sdk_chat =
  sq_model :: json
  sq_messages :: json
  sq_temperature :: json
  sq_top_p :: json
  sq_max_tokens :: json
  sq_max_completion_tokens :: json
  sq_stop :: json

definition sdk_chat_payload :: "sdk_chat \<Rightarrow> bool \<Rightarrow> json res" where
  "sdk_chat_payload q stream =
    (if (case sq_model q of JStr m \<Rightarrow> m = [] \<or> 255 < py_len m | _ \<Rightarrow> True) then Inl (ValueError ''model must be bounded non-empty text'')
     else case sq_messages q of
       JList ms \<Rightarrow>
         if \<not> (1 \<le> length ms \<and> length ms \<le> 100) then Inl (ValueError ''messages must contain between 1 and 100 items'')
         else if list_ex (\<lambda>m. case m of JObj _ \<Rightarrow> False | _ \<Rightarrow> True) ms then Inl (ValueError ''each message must be a mapping'')
         else if sq_max_tokens q \<noteq> JNull \<and> sq_max_completion_tokens q \<noteq> JNull
           then Inl (ValueError ''max_tokens and max_completion_tokens are mutually exclusive'')
         else Inr (JObj ([(''model'', sq_model q), (''messages'', sq_messages q), (''stream'', JBool stream)] @
           filter (\<lambda>(_, v). v \<noteq> JNull) [(''temperature'', sq_temperature q), (''top_p'', sq_top_p q), (''max_tokens'', sq_max_tokens q),
             (''max_completion_tokens'', sq_max_completion_tokens q), (''stop'', sq_stop q)]))
     | _ \<Rightarrow> Inl (ValueError ''messages must contain between 1 and 100 items''))"

definition CHAT_PATH :: str where
  "CHAT_PATH = ''/api/v1/external/chat/completions''"

definition sdk_chat_completions :: "sdk_env \<Rightarrow> sdk_chat \<Rightarrow> str option \<Rightarrow> sdk_result res" where
  "sdk_chat_completions k q request_id =
    bind_res (sdk_chat_payload q False) (\<lambda>payload.
    bind_res (sdk_json_body k payload) (\<lambda>body.
      sdk_request_json k ''POST'' CHAT_PATH body request_id))"

subsection \<open>Streams\<close>

text \<open>The loop over the lines, for a consumer that reads to the end: the events it is given, and how the
  iteration ends. \<open>pending\<close> are the data lines of the current event.\<close>

definition drop_space :: "str \<Rightarrow> str" where
  "drop_space s = (case s of c # cs \<Rightarrow> if c = CHR '' '' then cs else s | [] \<Rightarrow> [])"

definition stream_error :: "(str \<Rightarrow> json option) \<Rightarrow> (json \<Rightarrow> str) \<Rightarrow> str \<Rightarrow> json \<Rightarrow> exn" where
  "stream_error loads dumps request_id event = api_error_of loads \<lparr>hp_status = 200,
     hp_headers = [(''content-type'', ''application/json''), (''x-zangpu-request-id'', request_id)], hp_chunks = [], hp_lines = [],
     hp_fault = None\<rparr> (dumps event)"

fun sdk_lines :: "(str \<Rightarrow> json option) \<Rightarrow> (json \<Rightarrow> str) \<Rightarrow> str \<Rightarrow> str list \<Rightarrow> nat \<Rightarrow> str list \<Rightarrow> sdk_fault option \<Rightarrow>
    sdk_event list \<times> unit res" where
  "sdk_lines loads dumps request_id pending event_bytes [] fault =
    ([], Inl (case fault of None \<Rightarrow> ZangpuProtocolError | Some f \<Rightarrow> sdk_fault_error f))"
| "sdk_lines loads dumps request_id pending event_bytes (line # lines) fault =
    (if line = [] then
       (if pending = [] then sdk_lines loads dumps request_id pending event_bytes lines fault
        else let event_text = join_on nl pending in
          if event_text = ''[DONE]'' then ([], Inr ())
          else (case loads event_text of
              Some (JObj event) \<Rightarrow>
                if ''error'' \<in> set (map fst event) then ([], Inl (stream_error loads dumps request_id (JObj event)))
                else (case sdk_lines loads dumps request_id [] 0 lines fault of
                    (events, r) \<Rightarrow> (\<lparr>se_data = event, se_request_id = request_id\<rparr> # events, r))
            | _ \<Rightarrow> ([], Inl ZangpuProtocolError)))
     else if take 1 line = '':'' then
       (if pending \<noteq> [] then ([], Inl ZangpuProtocolError)
        else sdk_lines loads dumps request_id pending event_bytes lines fault)
     else if take 5 line \<noteq> ''data:'' then ([], Inl ZangpuProtocolError)
     else let v = drop_space (drop 5 line) in
       if MAX_SSE_EVENT_BYTES < event_bytes + length v then ([], Inl ZangpuProtocolError)
       else sdk_lines loads dumps request_id (pending @ [v]) (event_bytes + length v) lines fault)"

definition sdk_stream_of :: "(str \<Rightarrow> json option) \<Rightarrow> (json \<Rightarrow> str) \<Rightarrow> sdk_response \<Rightarrow> sdk_event list \<times> unit res" where
  "sdk_stream_of loads dumps r =
    (if 400 \<le> hp_status r then
       ([], bind_res (read_bounded MAX_JSON_RESPONSE_BYTES [] (hp_chunks r) (hp_fault r)) (\<lambda>content. Inl (api_error_of loads r content)))
     else if sdk_content_type r \<noteq> ''text/event-stream'' then ([], Inl ZangpuProtocolError)
     else (case sdk_request_id r of
         Inl e \<Rightarrow> ([], Inl e)
       | Inr request_id \<Rightarrow> sdk_lines loads dumps request_id [] 0 (hp_lines r) (hp_fault r)))"

definition sdk_stream_chat :: "sdk_env \<Rightarrow> (json \<Rightarrow> str) \<Rightarrow> sdk_chat \<Rightarrow> str option \<Rightarrow> sdk_event list \<times> unit res" where
  "sdk_stream_chat k dumps q request_id =
    (case bind_res (sdk_chat_payload q True) (\<lambda>payload. bind_res (sdk_json_body k payload) (\<lambda>body.
        bind_res (sdk_headers k ''POST'' CHAT_PATH body request_id True) (\<lambda>hs. Inr (hs, body)))) of
       Inl e \<Rightarrow> ([], Inl e)
     | Inr (hs, body) \<Rightarrow> (case sk_send k ''POST'' CHAT_PATH hs body of
         No_reply f \<Rightarrow> ([], Inl (sdk_fault_error f))
       | Reply r \<Rightarrow> sdk_stream_of (sk_loads k) dumps r))"

end
