(* ===== verification/Sdk_Client_Properties.thy ===== *)
theory Sdk_Client_Properties
  imports Sdk_Client Chat_Sample "HOL-Library.Sublist"
begin

text \<open>
  The SDK's client against the service: it reads the frames of a stream and the errors of the
  interface as they were meant, and takes no stream that was cut off for a complete one.
\<close>

subsection \<open>Lines\<close>

text \<open>The lines of a text in which only the line feed ends a line.\<close>

fun lines_of :: "str \<Rightarrow> str \<Rightarrow> str list" where
  "lines_of cur [] = (if cur = [] then [] else [cur])"
| "lines_of cur (c # cs) = (if c = nl then cur # lines_of [] cs else lines_of (cur @ [c]) cs)"

lemma lines_of_line: "nl \<notin> set line \<Longrightarrow> lines_of cur (line @ nl # rest) = (cur @ line) # lines_of [] rest"
  by (induction line arbitrary: cur) auto

datatype stream_item = Beat | Event str

fun frame_of :: "stream_item \<Rightarrow> str" where
  "frame_of Beat = SSE_HEARTBEAT"
| "frame_of (Event t) = data_frame t"

lemma frame_lines: "nl \<notin> set t \<Longrightarrow> lines_of [] (data_frame t @ rest) = (''data: '' @ t) # [] # lines_of [] rest"
proof -
  assume "nl \<notin> set t"
  then have "nl \<notin> set (''data: '' @ t)" by (simp add: nl_def)
  from lines_of_line [OF this, of "[]" "nl # rest"] show ?thesis by (simp add: data_frame_def)
qed

lemma beat_lines: "lines_of [] (SSE_HEARTBEAT @ rest) = '': heartbeat'' # [] # lines_of [] rest"
proof -
  have "nl \<notin> set '': heartbeat''" by (simp add: nl_def)
  from lines_of_line [OF this, of "[]" "nl # rest"] show ?thesis by (simp add: SSE_HEARTBEAT_def)
qed

subsection \<open>Streams\<close>

text \<open>A text the client takes for an event, and the events of some frames.\<close>

definition event_text :: "(str \<Rightarrow> json option) \<Rightarrow> str \<Rightarrow> bool" where
  "event_text loads t \<longleftrightarrow> nl \<notin> set t \<and> t \<noteq> ''[DONE]'' \<and> length t \<le> MAX_SSE_EVENT_BYTES \<and>
     (case loads t of Some (JObj p) \<Rightarrow> ''error'' \<notin> set (map fst p) | _ \<Rightarrow> False)"

definition event_data :: "(str \<Rightarrow> json option) \<Rightarrow> str \<Rightarrow> (str \<times> json) list" where
  "event_data loads t = (case loads t of Some (JObj p) \<Rightarrow> p | _ \<Rightarrow> [])"

fun events_of :: "(str \<Rightarrow> json option) \<Rightarrow> str \<Rightarrow> stream_item list \<Rightarrow> sdk_event list" where
  "events_of loads request_id [] = []"
| "events_of loads request_id (Beat # items) = events_of loads request_id items"
| "events_of loads request_id (Event t # items) =
    \<lparr>se_data = event_data loads t, se_request_id = request_id\<rparr> # events_of loads request_id items"

definition items_ok :: "(str \<Rightarrow> json option) \<Rightarrow> stream_item list \<Rightarrow> bool" where
  "items_ok loads items \<longleftrightarrow> list_all (\<lambda>i. case i of Beat \<Rightarrow> True | Event t \<Rightarrow> event_text loads t) items"

lemma sdk_data_line:
  assumes "length t \<le> MAX_SSE_EVENT_BYTES"
  shows "sdk_lines loads dumps request_id [] 0 ((''data: '' @ t) # lines) fault =
    sdk_lines loads dumps request_id [t] (length t) lines fault"
  using assms by (simp add: drop_space_def)

lemma sdk_frames:
  assumes "items_ok loads items"
  shows "sdk_lines loads dumps request_id [] 0 (lines_of [] (concat (map frame_of items) @ rest)) fault =
    (case sdk_lines loads dumps request_id [] 0 (lines_of [] rest) fault of (es, r) \<Rightarrow> (events_of loads request_id items @ es, r))"
  using assms
proof (induction items)
  case (Cons i items)
  then have IH: "sdk_lines loads dumps request_id [] 0 (lines_of [] (concat (map frame_of items) @ rest)) fault =
    (case sdk_lines loads dumps request_id [] 0 (lines_of [] rest) fault of (es, r) \<Rightarrow> (events_of loads request_id items @ es, r))"
    by (simp add: items_ok_def)
  show ?case
  proof (cases i)
    case Beat
    then show ?thesis using IH by (simp add: beat_lines)
  next
    case (Event t)
    with Cons.prems have t: "nl \<notin> set t" "t \<noteq> ''[DONE]''" "length t \<le> MAX_SSE_EVENT_BYTES"
      and p: "\<exists>p. loads t = Some (JObj p) \<and> ''error'' \<notin> set (map fst p)"
      by (auto simp: items_ok_def event_text_def split: option.splits json.splits)
    from p obtain p where p: "loads t = Some (JObj p)" "''error'' \<notin> set (map fst p)" by blast
    have "sdk_lines loads dumps request_id [] 0 (lines_of [] (concat (map frame_of (i # items)) @ rest)) fault =
        sdk_lines loads dumps request_id [t] (length t) ([] # lines_of [] (concat (map frame_of items) @ rest)) fault"
      using sdk_data_line [OF t(3)] by (simp add: Event frame_lines [OF t(1)] del: sdk_lines.simps)
    then show ?thesis
      using p t(2) IH by (simp add: Event join_on.simps event_data_def Let_def split: prod.splits)
  qed
qed simp

text \<open>A last line without its end is no complete event, whatever it says.\<close>

lemma lines_of_open: "nl \<notin> set q \<Longrightarrow> lines_of cur q = (if cur @ q = [] then [] else [cur @ q])"
  by (induction q arbitrary: cur) auto

lemma sdk_open_line: "\<exists>e. sdk_lines loads dumps request_id [] 0 [line] fault = ([], Inl e)"
  by (auto simp: Let_def)

definition open_frame :: "str \<Rightarrow> bool" where
  "open_frame f \<longleftrightarrow> (\<exists>line. nl \<notin> set line \<and> f = line @ [nl, nl])"

lemma open_frame_cut:
  assumes "open_frame f" and "strict_prefix q f"
  shows "\<exists>e. sdk_lines loads dumps request_id [] 0 (lines_of [] q) fault = ([], Inl e)"
proof -
  from assms(1) obtain line where line: "nl \<notin> set line" "f = line @ [nl, nl]" by (auto simp: open_frame_def)
  from assms(2) line(2) have "prefix q (line @ [nl])"
    by (metis append.assoc append_Cons append_Nil strict_prefix_def prefix_snoc)
  then consider "q = line @ [nl]" | "prefix q line" by (metis prefix_snoc)
  then show ?thesis
  proof cases
    case 1
    then show ?thesis using lines_of_line [OF line(1), of "[]" "[]"] sdk_open_line by simp
  next
    case 2
    then have "nl \<notin> set q" using line(1) set_mono_prefix by fastforce
    then have "lines_of [] q = [] \<or> lines_of [] q = [q]" using lines_of_open [of q "[]"] by simp
    then show ?thesis using sdk_open_line [of loads dumps request_id q fault] by auto
  qed
qed

lemma open_frames: "items_ok loads [i] \<Longrightarrow> open_frame (frame_of i)" "open_frame SSE_DONE"
proof -
  show "open_frame SSE_DONE"
    unfolding open_frame_def SSE_DONE_def data_frame_def by (rule exI [of _ "''data: [DONE]''"]) (simp add: nl_def)
  show "items_ok loads [i] \<Longrightarrow> open_frame (frame_of i)"
  proof (cases i)
    case Beat
    then show ?thesis unfolding open_frame_def by (intro exI [of _ "'': heartbeat''"]) (simp add: SSE_HEARTBEAT_def nl_def)
  next
    case (Event t)
    moreover assume "items_ok loads [i]"
    ultimately show ?thesis
      unfolding open_frame_def by (intro exI [of _ "''data: '' @ t"]) (simp add: items_ok_def event_text_def data_frame_def nl_def)
  qed
qed

text \<open>A text cut short ends inside one of its frames.\<close>

lemma cut_frames:
  assumes "strict_prefix q (concat fs @ f)"
  shows "\<exists>gs hs p f'. fs @ [f] = gs @ f' # hs \<and> q = concat gs @ p \<and> strict_prefix p f'"
  using assms
proof (induction fs arbitrary: q)
  case Nil
  then show ?case by (intro exI [of _ "[]"] exI [of _ q] exI [of _ f]) simp
next
  case (Cons g fs)
  show ?case
  proof (cases "strict_prefix q g")
    case True
    then show ?thesis by (intro exI [of _ "[]"] exI [of _ "fs @ [f]"] exI [of _ q] exI [of _ g]) simp
  next
    case False
    have "prefix q (g @ concat fs @ f)" using Cons.prems by (simp add: strict_prefix_def)
    then have "prefix g q" using False prefix_same_cases [of g "g @ concat fs @ f" q] by (auto simp: strict_prefix_def)
    then obtain q' where q: "q = g @ q'" by (auto simp: prefix_def)
    with Cons.prems have q': "strict_prefix q' (concat fs @ f)" by (auto simp: strict_prefix_def)
    from Cons.IH [OF q'] obtain gs hs p f' where "fs @ [f] = gs @ f' # hs" "q' = concat gs @ p" "strict_prefix p f'" by blast
    with q show ?thesis by (intro exI [of _ "g # gs"] exI [of _ hs] exI [of _ p] exI [of _ f']) simp
  qed
qed

lemma items_ok_append [simp]: "items_ok loads (xs @ ys) \<longleftrightarrow> items_ok loads xs \<and> items_ok loads ys"
  by (simp add: items_ok_def)

lemma events_of_append: "events_of loads request_id (xs @ ys) = events_of loads request_id xs @ events_of loads request_id ys"
  by (induction loads request_id xs rule: events_of.induct) simp_all

lemma sdk_done: "sdk_lines loads dumps request_id [] 0 (lines_of [] (SSE_DONE @ rest)) fault = ([], Inr ())"
proof -
  have "lines_of [] (SSE_DONE @ rest) = (''data: '' @ ''[DONE]'') # [] # lines_of [] rest"
    unfolding SSE_DONE_def by (rule frame_lines) (simp add: nl_def)
  then show ?thesis by (simp add: drop_space_def MAX_SSE_EVENT_BYTES_def join_on.simps)
qed

text \<open>
  A stream that was cut: the frames it had are a first part of the whole, and what is left of the
  last one is an error.\<close>

lemma cut_items:
  assumes "items_ok loads items" and "strict_prefix q (concat (map frame_of items) @ SSE_DONE)"
  shows "\<exists>gs p f. prefix gs items \<and> q = concat (map frame_of gs) @ p \<and> strict_prefix p f \<and> open_frame f"
proof -
  from cut_frames [OF assms(2)] obtain gs hs p f where fs: "map frame_of items @ [SSE_DONE] = gs @ f # hs"
      "q = concat gs @ p" "strict_prefix p f" by blast
  have gs: "gs = map frame_of (take (length gs) items)"
  proof -
    have "length gs \<le> length items" using arg_cong [OF fs(1), of length] by simp
    moreover have "take (length gs) (map frame_of items @ [SSE_DONE]) = gs" by (simp add: fs(1))
    ultimately show ?thesis by (simp add: take_map)
  qed
  have "f \<in> set (map frame_of items @ [SSE_DONE])" by (simp add: fs(1))
  then have "open_frame f" using assms(1) open_frames by (auto simp: items_ok_def list_all_iff)
  with fs gs show ?thesis by (metis take_is_prefix)
qed


definition seen_loads :: "str \<Rightarrow> json option" where
  "seen_loads t = (if t = ''{}'' then Some (JObj []) else None)"


subsection \<open>Errors\<close>

text \<open>The codes and messages of the error table are within what the client keeps of them.\<close>

definition kept_text :: "nat \<Rightarrow> str \<Rightarrow> bool" where
  "kept_text n s \<longleftrightarrow> s \<noteq> [] \<and> py_len s \<le> n \<and> \<not> list_ex is_control s"

lemma table_kept: "list_all (\<lambda>(code, s). kept_text 64 code \<and> kept_text 512 (sp_message s) \<and> 400 \<le> sp_status s) ERROR_SPECS"
  by code_simp

lemma spec_kept: assumes "spec_of code = Some s"
  shows "kept_text 64 code" "kept_text 512 (sp_message s)" "400 \<le> sp_status s"
  using table_kept map_of_SomeD [OF assms [unfolded spec_of_def]] by (auto simp: list_all_iff)

lemma safe_error_text_kept: "kept_text n s \<Longrightarrow> safe_error_text (Some (JStr s)) absent n = s"
  by (auto simp: kept_text_def safe_error_text_def)

lemma safe_id_safe: "safe_response_id s \<Longrightarrow> safe_id (Some (JStr s)) = Some s"
  by (simp add: safe_id_def)

lemma json_type: "map lower_char (latin_strip (fst (partition_on CHR '';'' ''application/json''))) = ''application/json''"
  by code_simp

text \<open>What the client reads out of an error object that has the fields of the interface.\<close>

lemma api_error_read:
  assumes "sdk_content_type r = ''application/json''" and "error_object (loads content) = Some entry"
    and "spec_of code = Some s" and "safe_response_id request_id"
    and "field ''code'' entry = Some (JStr code)" and "field ''message'' entry = Some (JStr (sp_message s))"
    and "field ''request_id'' entry = Some (JStr request_id)" and "field ''retryable'' entry = Some (JBool (sp_retryable s))"
    and "safe_id (field ''operation_id'' entry) = operation_id"
  shows "api_error_of loads r content = ZangpuAPIError (hp_status r) code (sp_message s) (Some request_id) (sp_retryable s) operation_id"
  using assms spec_kept [OF assms(3)] by (simp add: api_error_of_def Let_def safe_error_text_kept safe_id_safe)

text \<open>A response as the client receives it: status, type and body are those the server sent.\<close>

definition delivers :: "(str \<Rightarrow> json option) \<Rightarrow> response \<Rightarrow> sdk_response \<Rightarrow> bool" where
  "delivers loads r h \<longleftrightarrow> hp_status h = rp_status r \<and> sdk_content_type h = ''application/json'' \<and> hp_fault h = None \<and>
     length (concat (hp_chunks h)) \<le> MAX_JSON_RESPONSE_BYTES \<and> loads (concat (hp_chunks h)) = Some (rp_body r)"

lemma read_bounded_all: "length content + length (concat cs) \<le> limit \<Longrightarrow> read_bounded limit content cs None = Inr (content @ concat cs)"
  by (induction cs arbitrary: content) auto

text \<open>C33: An error of the interface reaches the caller of the SDK as it was meant: status, code, message,
  retryable flag, request identifier and operation identifier are those of the error table and of the
  request, when its response arrives.\<close>

theorem sdk_reads_error:
  assumes "spec_of code = Some s" and "external_error_response code server_request_id operation_id hs = Inr r" and "delivers loads r h"
    and "safe_response_id server_request_id" and "opt_all safe_response_id operation_id"
  shows "sdk_result_of loads h =
    Inl (ZangpuAPIError (sp_status s) code (sp_message s) (Some server_request_id) (sp_retryable s) operation_id)"
proof -
  have read: "read_bounded MAX_JSON_RESPONSE_BYTES [] (hp_chunks h) (hp_fault h) = Inr (concat (hp_chunks h))"
    using assms(3) read_bounded_all [of "[]"] by (simp add: delivers_def)
  have status: "hp_status h = sp_status s"
    using assms(1,2,3) by (auto simp: delivers_def external_error_response_def Let_def)
  have "api_error_of loads h (concat (hp_chunks h)) =
      ZangpuAPIError (hp_status h) code (sp_message s) (Some server_request_id) (sp_retryable s) operation_id"
  proof (rule api_error_read)
    show "error_object (loads (concat (hp_chunks h))) = Some ([(''code'', JStr code), (''message'', JStr (sp_message s)),
        (''request_id'', JStr server_request_id), (''retryable'', JBool (sp_retryable s))] @
        (case operation_id of None \<Rightarrow> [] | Some k \<Rightarrow> [(''operation_id'', JStr k)]))"
      using assms(1,2,3) by (auto simp: delivers_def external_error_response_def error_object_def field_def Let_def)
  qed (use assms in \<open>auto simp: delivers_def field_def safe_id_def split: option.splits\<close>)
  then show ?thesis using spec_kept [OF assms(1)] by (simp add: sdk_result_of_def read status)
qed

theorem sdk_reads_error_witness:
  "sdk_result_of (\<lambda>_. Some (JObj [(''error'', JObj [(''code'', JStr ''MODEL_TIMEOUT''), (''message'', JStr ''Model request timed out.''),
      (''request_id'', JStr ''req-1''), (''retryable'', JBool True)])]))
    \<lparr>hp_status = 504, hp_headers = [(''content-type'', ''application/json'')], hp_chunks = [''{'', ''}''], hp_lines = [], hp_fault = None\<rparr> =
   Inl (ZangpuAPIError 504 ''MODEL_TIMEOUT'' ''Model request timed out.'' (Some ''req-1'') True None)"
proof -
  let ?s = "\<lparr>sp_status = 504, sp_message = ''Model request timed out.'', sp_retryable = True\<rparr>"
  let ?body = "JObj [(''error'', JObj [(''code'', JStr ''MODEL_TIMEOUT''), (''message'', JStr ''Model request timed out.''),
      (''request_id'', JStr ''req-1''), (''retryable'', JBool True)])]"
  let ?h = "\<lparr>hp_status = 504, hp_headers = [(''content-type'', ''application/json'')], hp_chunks = [''{'', ''}''], hp_lines = [],
      hp_fault = None\<rparr>"
  have spec: "spec_of ''MODEL_TIMEOUT'' = Some ?s" by code_simp
  obtain r where r: "external_error_response ''MODEL_TIMEOUT'' ''req-1'' None [] = Inr r" "rp_status r = 504" "rp_body r = ?body"
    by (simp add: external_error_response_def spec)
  have "delivers (\<lambda>_. Some ?body) r ?h"
    by (simp add: delivers_def r(2,3) sdk_content_type_def header_of_def json_type MAX_JSON_RESPONSE_BYTES_def)
  moreover have "safe_response_id ''req-1''" by code_simp
  ultimately show ?thesis using sdk_reads_error [OF spec r(1), of "\<lambda>_. Some ?body" ?h] by simp
qed

text \<open>An error that ends a stream reaches the caller of the SDK too, with the operation it belongs to:
  after the events that went before, the iteration raises it, and nothing after it is read.\<close>

theorem sdk_reads_stream_error:
  assumes "items_ok loads items" and "spec_of code = Some s"
    and "stream_error_frame cd code server_request_id operation_id = Inr frame"
    and "payload = error_payload s code server_request_id operation_id"
    and "nl \<notin> set (cd_dumps cd payload)" and "length (cd_dumps cd payload) \<le> MAX_SSE_EVENT_BYTES" and "cd_dumps cd payload \<noteq> ''[DONE]''"
    and "loads (cd_dumps cd payload) = Some payload" and "loads (dumps payload) = Some payload"
    and "safe_response_id server_request_id" and "safe_response_id operation_id"
  shows "sdk_lines loads dumps server_request_id [] 0 (lines_of [] (concat (map frame_of items) @ frame @ rest)) fault =
    (events_of loads server_request_id items,
     Inl (ZangpuAPIError 200 code (sp_message s) (Some server_request_id) (sp_retryable s) (Some operation_id)))"
proof -
  let ?t = "cd_dumps cd payload"
  have frame: "frame = data_frame ?t" using assms(2-4) by (simp add: stream_error_frame_def)
  obtain p where p: "payload = JObj p" "''error'' \<in> set (map fst p)" using assms(4) by (simp add: error_payload_def)
  have json: "sdk_content_type \<lparr>hp_status = 200, hp_headers = [(''content-type'', ''application/json''),
      (''x-zangpu-request-id'', server_request_id)], hp_chunks = [], hp_lines = [], hp_fault = None\<rparr> = ''application/json''"
    by (simp add: sdk_content_type_def header_of_def json_type)
  have error: "stream_error loads dumps server_request_id payload =
      ZangpuAPIError 200 code (sp_message s) (Some server_request_id) (sp_retryable s) (Some operation_id)"
    unfolding stream_error_def
    by (subst api_error_read [where entry = "[(''code'', JStr code), (''message'', JStr (sp_message s)),
          (''operation_id'', JStr operation_id), (''request_id'', JStr server_request_id), (''retryable'', JBool (sp_retryable s))]"
          and s = s and code = code and request_id = server_request_id and operation_id = "Some operation_id"])
      (use assms(2,9-11) in \<open>simp_all add: json error_object_def field_def safe_id_def assms(4) error_payload_def\<close>)
  have "sdk_lines loads dumps server_request_id [] 0 (lines_of [] (frame @ rest)) fault =
      sdk_lines loads dumps server_request_id [?t] (length ?t) ([] # lines_of [] rest) fault"
    using sdk_data_line [OF assms(6)] by (simp add: frame frame_lines [OF assms(5)] del: sdk_lines.simps)
  also have "\<dots> = ([], Inl (stream_error loads dumps server_request_id payload))"
    using p assms(7,8) by (simp add: join_on.simps)
  finally show ?thesis by (simp add: sdk_frames [OF assms(1)] error del: sdk_lines.simps)
qed

theorem sdk_reads_stream_error_witness:
  "sdk_lines (\<lambda>_. Some (error_payload \<lparr>sp_status = 504, sp_message = ''Model request timed out.'', sp_retryable = True\<rparr>
      ''MODEL_TIMEOUT'' ''req-1'' ''op-1'')) (\<lambda>_. []) ''req-1'' [] 0 (lines_of [] (concat (map frame_of [Beat]) @ data_frame ''E'' @ [])) None =
    (events_of (\<lambda>_. Some (error_payload \<lparr>sp_status = 504, sp_message = ''Model request timed out.'', sp_retryable = True\<rparr>
      ''MODEL_TIMEOUT'' ''req-1'' ''op-1'')) ''req-1'' [Beat],
     Inl (ZangpuAPIError 200 ''MODEL_TIMEOUT'' ''Model request timed out.'' (Some ''req-1'') True (Some ''op-1'')))"
proof -
  let ?s = "\<lparr>sp_status = 504, sp_message = ''Model request timed out.'', sp_retryable = True\<rparr>"
  let ?p = "error_payload ?s ''MODEL_TIMEOUT'' ''req-1'' ''op-1''" and ?cd = "chat_codec\<lparr>cd_dumps := \<lambda>_. ''E''\<rparr>"
  have spec: "spec_of ''MODEL_TIMEOUT'' = Some ?s" by code_simp
  have frame: "stream_error_frame ?cd ''MODEL_TIMEOUT'' ''req-1'' ''op-1'' = Inr (data_frame ''E'')"
    by (simp add: stream_error_frame_def spec)
  have ids: "safe_response_id ''req-1''" "safe_response_id ''op-1''" by code_simp+
  have items: "items_ok (\<lambda>_. Some ?p) [Beat]" by (simp add: items_ok_def)
  have plain: "nl \<notin> set (cd_dumps ?cd ?p)" "length (cd_dumps ?cd ?p) \<le> MAX_SSE_EVENT_BYTES" "cd_dumps ?cd ?p \<noteq> ''[DONE]''"
    by (simp_all add: nl_def MAX_SSE_EVENT_BYTES_def)
  show ?thesis
    using sdk_reads_stream_error [OF items spec frame refl plain refl refl ids, of "\<lambda>_. []" "[]" None] by simp
qed

end
