(* ===== verification/Settings.thy ===== *)
theory Settings
  imports Model_Pool Auth Api Urls "HOL-Library.Monad_Syntax"
begin

text \<open>
  The settings of the service, \<open>backend/app/settings.py\<close>: the bounds of every field, the check of the
  model pool policies and the checks across fields. The values are those of the validation library
  after its conversions and its trimming of white space; URLs are parsed.
\<close>

subsection \<open>The fields\<close>

datatype environment = Development | Test | Staging | Production

record settings =
  st_environment :: environment
  st_service_version :: str
  st_database_url :: str
  st_redis_url :: str
  st_bifrost_url :: base_url
  st_bifrost_token :: str
  st_bifrost_version :: str
  st_bifrost_timeout :: rat
  st_openwebui_url :: base_url
  st_service_id :: str
  st_service_secret :: str
  st_openwebui_timeout :: rat
  st_session_secret :: str
  st_login_token :: "str option"
  st_session_ttl :: int
  st_event_days :: int
  st_audit_days :: int
  st_retention_batch :: int
  st_credential_keys :: str
  st_active_key :: str
  st_tolerance :: int
  st_nonce_ttl :: int
  st_lease :: int
  st_heartbeat :: int
  st_max_output :: int
  st_policies :: "(str \<times> pool_policy) list"
  st_queue_limit :: int
  st_caller_queue_limit :: int
  st_queue_wait :: int
  st_queue_poll :: int
  st_outbox_attempts :: int
  st_outbox_base_retry :: int
  st_outbox_max_retry :: int
  st_outbox_claim_timeout :: int
  st_outbox_batch :: int

text \<open>The defaults of the fields that have one.\<close>

definition with_defaults :: "settings \<Rightarrow> settings" where
  "with_defaults st = st\<lparr>st_bifrost_timeout := 10, st_openwebui_timeout := 10, st_login_token := None, st_session_ttl := 3600,
     st_event_days := 180, st_audit_days := 730, st_retention_batch := 1000, st_tolerance := 300, st_nonce_ttl := 600,
     st_lease := 60, st_heartbeat := 15, st_max_output := 4096, st_policies := [], st_queue_limit := 200,
     st_caller_queue_limit := 8, st_queue_wait := 30, st_queue_poll := 250, st_outbox_attempts := 8,
     st_outbox_base_retry := 5, st_outbox_max_retry := 300, st_outbox_claim_timeout := 120, st_outbox_batch := 25\<rparr>"

subsection \<open>The patterns\<close>

text \<open>\<open>[0-9]+\.[0-9]+\.[0-9]+\<close> at the start of a text, and what follows it.\<close>

definition drop_number :: "str \<Rightarrow> str option" where
  "drop_number s = (if takeWhile is_digit s = [] then None else Some (dropWhile is_digit s))"

definition drop_dot :: "str \<Rightarrow> str option" where
  "drop_dot s = (case s of c # cs \<Rightarrow> if c = CHR ''.'' then Some cs else None | [] \<Rightarrow> None)"

definition after_version :: "str \<Rightarrow> str option" where
  "after_version s = do { a \<leftarrow> drop_number s; b \<leftarrow> drop_dot a; c \<leftarrow> drop_number b; d \<leftarrow> drop_dot c; drop_number d }"

definition service_version_ok :: "str \<Rightarrow> bool" where
  "service_version_ok s = (case after_version s of
     None \<Rightarrow> False
   | Some [] \<Rightarrow> True
   | Some (c # cs) \<Rightarrow> c \<in> {CHR ''-'', CHR ''+''} \<and> cs \<noteq> [] \<and>
       list_all (\<lambda>c. is_alnum c \<or> c \<in> {CHR ''.'', CHR ''-''}) cs)"

definition bifrost_version_ok :: "str \<Rightarrow> bool" where
  "bifrost_version_ok s = (case s of c # cs \<Rightarrow> c = CHR ''v'' \<and> after_version cs = Some [] | [] \<Rightarrow> False)"

definition bounded_secret :: "str \<Rightarrow> bool" where
  "bounded_secret s \<longleftrightarrow> 32 \<le> py_len s \<and> py_len s \<le> 4096"

text \<open>The bounds of the fields; a policy is one its own model accepts.\<close>

definition int_within :: "int \<Rightarrow> int \<Rightarrow> int \<Rightarrow> bool" where
  "int_within lo hi n \<longleftrightarrow> lo \<le> n \<and> n \<le> hi"

definition settings_fields_ok :: "settings \<Rightarrow> bool" where
  "settings_fields_ok st \<longleftrightarrow>
     service_version_ok (st_service_version st) \<and> bounded_secret (st_bifrost_token st) \<and>
     bifrost_version_ok (st_bifrost_version st) \<and> 1 \<le> st_bifrost_timeout st \<and> st_bifrost_timeout st \<le> 30 \<and>
     full_class is_version_char 1 128 (st_service_id st) \<and> bounded_secret (st_service_secret st) \<and>
     1 \<le> st_openwebui_timeout st \<and> st_openwebui_timeout st \<le> 30 \<and>
     bounded_secret (st_session_secret st) \<and> opt_all bounded_secret (st_login_token st) \<and>
     int_within 300 86400 (st_session_ttl st) \<and> int_within 30 3650 (st_event_days st) \<and>
     int_within 365 3650 (st_audit_days st) \<and> int_within 1 10000 (st_retention_batch st) \<and>
     2 \<le> py_len (st_credential_keys st) \<and> py_len (st_credential_keys st) \<le> 16384 \<and> key_version_ok (st_active_key st) \<and>
     int_within 30 900 (st_tolerance st) \<and> int_within 60 86400 (st_nonce_ttl st) \<and> int_within 3 900 (st_lease st) \<and>
     int_within 1 300 (st_heartbeat st) \<and> int_within 1 1000000 (st_max_output st) \<and>
     list_all (\<lambda>(_, p). make_pool_policy (pp_pool p) (pp_active_limit p) = Inr p) (st_policies st) \<and>
     int_within 0 10000 (st_queue_limit st) \<and> int_within 0 1000 (st_caller_queue_limit st) \<and>
     int_within 1 300 (st_queue_wait st) \<and> int_within 50 2000 (st_queue_poll st) \<and>
     int_within 1 100 (st_outbox_attempts st) \<and> int_within 1 300 (st_outbox_base_retry st) \<and>
     int_within 1 3600 (st_outbox_max_retry st) \<and> int_within 10 3600 (st_outbox_claim_timeout st) \<and>
     int_within 1 100 (st_outbox_batch st)"

subsection \<open>The validators\<close>

text \<open>\<open>limits\<close> is the dictionary of the limits seen so far; the first policy of a pool sets its limit.\<close>

fun check_policies :: "(str \<Rightarrow> str) \<Rightarrow> (str \<times> int) list \<Rightarrow> (str \<times> pool_policy) list \<Rightarrow> unit res" where
  "check_policies trim limits [] = Inr ()"
| "check_policies trim limits ((m, p) # ps) =
    (if m = [] \<or> 255 < py_len m \<or> m \<noteq> trim m \<or> list_ex is_control m
       then Inl (ValueError ''model-pool policy model ID is invalid'')
     else case map_of limits (pp_pool p) of
       None \<Rightarrow> check_policies trim ((pp_pool p, pp_active_limit p) # limits) ps
     | Some l \<Rightarrow> if l \<noteq> pp_active_limit p then Inl (ValueError ''models sharing a pool must use the same active limit'')
         else check_policies trim limits ps)"

definition validate_policies :: "(str \<Rightarrow> str) \<Rightarrow> (str \<times> pool_policy) list \<Rightarrow> unit res" where
  "validate_policies trim ps =
    (if 256 < length ps then Inl (ValueError ''model-pool policy count is out of bounds'') else check_policies trim [] ps)"

definition check_settings :: "settings \<Rightarrow> unit res" where
  "check_settings st =
    (if st_nonce_ttl st < st_tolerance st * 2 then Inl (ValueError ''nonce TTL must be at least twice the timestamp tolerance'')
     else if st_lease st \<le> st_heartbeat st * 2
       then Inl (ValueError ''concurrency heartbeat must be less than half the lease'')
     else if 0 < st_queue_limit st \<and> st_caller_queue_limit st = 0
       then Inl (ValueError ''caller queue limit must be positive when queueing is enabled'')
     else if st_outbox_max_retry st < st_outbox_base_retry st
       then Inl (ValueError ''outbox maximum retry delay must not be below its base delay'')
     else if st_audit_days st < st_event_days st
       then Inl (ValueError ''administrator audit retention must not be shorter than event retention'')
     else if st_environment st = Production \<and> st_login_token st = None
       then Inl (ValueError ''administrator login token is required in production'')
     else if st_environment st = Production \<and> st_policies st = []
       then Inl (ValueError ''at least one model-pool policy is required in production'')
     else if st_login_token st = Some (st_session_secret st)
       then Inl (ValueError ''administrator login and session Secrets must be different'')
     else Inr ())"

text \<open>The validator of the model runs only when every field is good.\<close>

definition load_settings :: "(str \<Rightarrow> str) \<Rightarrow> settings \<Rightarrow> settings res" where
  "load_settings trim st =
    (if \<not> settings_fields_ok st then Inl (ValueError ''ValidationError'')
     else bind_res (validate_policies trim (st_policies st)) (\<lambda>_. bind_res (check_settings st) (\<lambda>_. Inr st)))"

end
