(* ===== verification/App.thy ===== *)
theory App
  imports Settings Openwebui Bifrost External Admin_Api
begin

text \<open>
  The service as it is put together, \<open>backend/app/main.py\<close> with \<open>backend/app/database.py\<close>: the parts
  are made from the settings in a fixed order, the gateway is checked, the service runs, and whatever
  was opened is closed again, however this ends.
\<close>

subsection \<open>The parts\<close>

definition create_bifrost_client :: "settings \<Rightarrow> unit res" where
  "create_bifrost_client st =
    (if \<not> origin_url (st_bifrost_url st) then Inl (ValueError ''Bifrost base URL must be an origin without credentials'') else Inr ())"

definition create_openwebui_client :: "settings \<Rightarrow> ow_client res" where
  "create_openwebui_client st =
    (if \<not> origin_url (st_openwebui_url st) then Inl (ValueError ''Open WebUI base URL must be an origin without credentials'')
     else bind_res (make_ow_client (st_service_id st) (st_service_secret st)) (\<lambda>c.
       if \<not> (1 \<le> st_openwebui_timeout st \<and> st_openwebui_timeout st \<le> 60) then Inl (ValueError ''Open WebUI timeout is out of bounds'')
       else Inr c))"

definition create_database_runtime :: "str \<Rightarrow> unit res" where
  "create_database_runtime url = (if url = [] \<or> 8192 < py_len url then Inl (ValueError ''database URL is invalid'') else Inr ())"

definition create_redis_client :: "str \<Rightarrow> unit res" where
  "create_redis_client url = (if url = [] then Inl (ValueError ''Redis URL must not be empty'') else Inr ())"

definition pool_lease_milliseconds :: "int \<Rightarrow> int res" where
  "pool_lease_milliseconds lease_seconds =
    (if \<not> (1 \<le> lease_seconds \<and> lease_seconds \<le> 900)
       then Inl (ValueError ''model-pool lease must be between 1 and 900 seconds'') else Inr (lease_seconds * 1000))"

text \<open>The constructor of the chat service checks the heartbeat interval after the output limit. The wait
  for a pool gets enough rounds for every wait and interval the checks allow.\<close>

definition make_chat_service :: "int \<Rightarrow> chat_service \<Rightarrow> chat_service res" where
  "make_chat_service heartbeat s =
    (if 1 \<le> cs_max_output s \<and> cs_max_output s \<le> 1000000 \<and> \<not> (0 < heartbeat \<and> heartbeat \<le> 300)
       then Inl (ValueError ''heartbeat interval is invalid'')
     else bind_res (check_chat_service s) (\<lambda>_. Inr s))"

text \<open>What the libraries provide: digests, JSON, validation, the Unicode tables and the clock.\<close>

record runtime =
  rt_crypto :: crypto
  rt_codec :: codec
  rt_loads :: "str \<Rightarrow> json option"
  rt_dumps :: "json \<Rightarrow> str"
  rt_unicode :: "str \<Rightarrow> str"
  rt_space :: "str \<Rightarrow> bool"
  rt_clock :: "act list \<Rightarrow> int"

record admin_parts =
  ar_sessions :: session_manager
  ar_service :: admin_service
  ar_observability :: observability_service
  ar_retention :: retention_service

record app_state =
  at_external :: external_app
  at_admin :: admin_app
  at_openwebui :: ow_client

definition make_admin_parts :: "runtime \<Rightarrow> settings \<Rightarrow> keyring \<Rightarrow> admin_parts res" where
  "make_admin_parts rt st kr =
    (let sessions = \<lparr>sm_crypto = rt_crypto rt, sm_valid = cd_valid (rt_codec rt), sm_dumps = rt_dumps rt,
           sm_loads = rt_loads rt, sm_secret = st_session_secret st, sm_bootstrap = st_login_token st, sm_ttl = st_session_ttl st\<rparr>;
         callers = \<lparr>as_crypto = rt_crypto rt, as_keyring = kr, as_unicode = rt_unicode rt, as_dumps = rt_dumps rt,
           as_valid = cd_valid (rt_codec rt)\<rparr>;
         events = \<lparr>os_max_export = MAX_EXPORT_ROWS, os_max_aggregate = MAX_AGGREGATE_ROWS, os_unicode = rt_unicode rt,
           os_space = rt_space rt\<rparr>;
         retention = \<lparr>rs_event_days = st_event_days st, rs_audit_days = st_audit_days st,
           rs_batch_size = nat (st_retention_batch st), rs_unicode = rt_unicode rt\<rparr>
     in bind_res (check_session_manager sessions) (\<lambda>_.
        bind_res (check_observability_service events) (\<lambda>_.
        bind_res (check_retention_service retention) (\<lambda>_.
          Inr \<lparr>ar_sessions = sessions, ar_service = callers, ar_observability = events, ar_retention = retention\<rparr>))))"

definition make_services :: "runtime \<Rightarrow> settings \<Rightarrow> keyring \<Rightarrow> admin_parts \<Rightarrow> ow_client \<Rightarrow> app_state res" where
  "make_services rt st kr ar ow =
    (let sha = cy_sha (rt_crypto rt); vd = cd_valid (rt_codec rt) in
     bind_res (timestamp_tolerance (st_tolerance st)) (\<lambda>tolerance.
     bind_res (nonce_guard (st_nonce_ttl st)) (\<lambda>nonce_ttl.
     bind_res (qps_window 1000) (\<lambda>window.
     bind_res (lease_milliseconds (st_lease st)) (\<lambda>lease.
     bind_res (pool_lease_milliseconds (st_lease st)) (\<lambda>pool_lease.
     bind_res (make_capacity_service sha (rt_clock rt) (st_policies st) (st_queue_limit st)) (\<lambda>capacity.
     bind_res (make_chat_service (st_heartbeat st) \<lparr>cs_crypto = rt_crypto rt, cs_codec = rt_codec rt, cs_keyring = kr,
         cs_nonce_ttl = nonce_ttl, cs_qps_window = window, cs_lease = lease, cs_pool_lease = pool_lease,
         cs_policies = st_policies st, cs_max_output = st_max_output st, cs_queue_limit = st_queue_limit st,
         cs_caller_queue_limit = st_caller_queue_limit st, cs_queue_wait = st_queue_wait st,
         cs_queue_poll = st_queue_poll st, cs_patience = 6001\<rparr>) (\<lambda>chat.
       Inr \<lparr>at_external = \<lparr>xa_crypto = rt_crypto rt, xa_keyring = kr, xa_tolerance = tolerance, xa_loads = rt_loads rt,
              xa_valid = vd, xa_chat = chat,
              xa_metadata = \<lparr>ms_sha = sha, ms_nonce_ttl = nonce_ttl, ms_qps_window = window\<rparr>\<rparr>,
            at_admin = \<lparr>aa_sessions = ar_sessions ar, aa_service = ar_service ar, aa_observability = ar_observability ar,
              aa_retention = ar_retention ar, aa_capacity = capacity, aa_sha = sha,
              aa_secure = (st_environment st \<in> {Staging, Production})\<rparr>,
            at_openwebui = ow\<rparr>))))))))"

subsection \<open>The life of the service\<close>

datatype resource = Database | Redis_client | Bifrost_http | Openwebui_http

datatype lifespan_event = Opened resource | Serving | Closed resource

text \<open>A step of the start: what it opens, and how it ends.\<close>

type_synonym 'a boot = "lifespan_event list \<times> 'a res"

definition boot :: "'a res \<Rightarrow> 'a boot" where
  "boot r = ([], r)"

definition acquire_one :: "resource \<Rightarrow> 'a res \<Rightarrow> 'a boot" where
  "acquire_one x r = (case r of Inl _ \<Rightarrow> [] | Inr _ \<Rightarrow> [Opened x], r)"

definition bind_boot :: "'a boot \<Rightarrow> ('a \<Rightarrow> 'b boot) \<Rightarrow> 'b boot" where
  "bind_boot m f = (case m of (es, Inl e) \<Rightarrow> (es, Inl e)
     | (es, Inr x) \<Rightarrow> (case f x of (es', r) \<Rightarrow> (es @ es', r)))"

text \<open>The body of the \<open>try\<close> statement. \<open>served\<close> is how the service ends: with no exception, or with the
  one thrown into it.\<close>

definition run_service :: "env \<Rightarrow> world \<Rightarrow> runtime \<Rightarrow> settings \<Rightarrow> keyring \<Rightarrow> admin_parts \<Rightarrow> (app_state \<Rightarrow> unit res) \<Rightarrow> unit boot" where
  "run_service en w rt st kr ar served =
    bind_boot (acquire_one Redis_client (create_redis_client (st_redis_url st))) (\<lambda>_.
    bind_boot (acquire_one Bifrost_http (create_bifrost_client st)) (\<lambda>_.
    bind_boot (acquire_one Openwebui_http (create_openwebui_client st)) (\<lambda>ow.
    bind_boot (boot (make_services rt st kr ar ow)) (\<lambda>a.
    bind_boot (boot (fst (verify_bifrost_preflight en (rt_codec rt) (st_bifrost_version st) w))) (\<lambda>_.
      ([Serving], served a))))))"

text \<open>The nested \<open>finally\<close> blocks: each closes its resource whatever happened in the inner one, and the
  last exception wins. \<open>fault\<close> says which closing fails.\<close>

fun close_all :: "(resource \<Rightarrow> exn option) \<Rightarrow> resource list \<Rightarrow> unit boot" where
  "close_all fault [] = ([], Inr ())"
| "close_all fault (x # xs) = (case close_all fault xs of (es, r) \<Rightarrow>
     (Closed x # es, case r of Inl e \<Rightarrow> Inl e | Inr _ \<Rightarrow> (case fault x of None \<Rightarrow> Inr () | Some e \<Rightarrow> Inl e)))"

definition to_close :: "lifespan_event list \<Rightarrow> resource list" where
  "to_close es = filter (\<lambda>x. Opened x \<in> set es) [Openwebui_http, Bifrost_http, Redis_client]"

definition lifespan :: "env \<Rightarrow> world \<Rightarrow> runtime \<Rightarrow> settings \<Rightarrow> (app_state \<Rightarrow> unit res) \<Rightarrow> (resource \<Rightarrow> exn option) \<Rightarrow> unit boot" where
  "lifespan en w rt st served fault =
    bind_boot (boot (keyring_from_json (rt_crypto rt) (rt_loads rt) (st_credential_keys st) (st_active_key st))) (\<lambda>kr.
    bind_boot (acquire_one Database (create_database_runtime (st_database_url st))) (\<lambda>_.
    bind_boot (boot (make_admin_parts rt st kr)) (\<lambda>ar.
      (case run_service en w rt st kr ar served of (es, r) \<Rightarrow>
       (case close_all fault (to_close es @ [Database]) of (cs, c) \<Rightarrow>
         (es @ cs, case c of Inl e \<Rightarrow> Inl e | Inr _ \<Rightarrow> r))))))"

text \<open>The health endpoint of a service that is running.\<close>

definition health :: "settings \<Rightarrow> json" where
  "health st = JObj [(''status'', JStr ''ready''), (''service'', JStr ''zangpu-api-control-plane''),
     (''version'', JStr (st_service_version st)), (''api_version'', JStr ''v1'')]"

end
