(* ===== verification/App_Properties.thy ===== *)
theory App_Properties
  imports App Chat_Sample Rate_Limits_Properties
begin

text \<open>
  Properties of the service as a whole: settings that were accepted make every part of the service,
  whatever is opened is closed, and a signed request is not accepted a second time.
\<close>

subsection \<open>Accepted settings make the parts\<close>

lemma load_settings_D: assumes "load_settings trim raw = Inr st"
  shows "raw = st" "settings_fields_ok st" "validate_policies trim (st_policies st) = Inr ()" "check_settings st = Inr ()"
  using assms by (auto simp: load_settings_def bind_res_Inr split: if_splits)

lemma fields_D: assumes "settings_fields_ok st"
  shows "bounded_secret (st_session_secret st)" "opt_all bounded_secret (st_login_token st)" "int_within 300 86400 (st_session_ttl st)"
    "int_within 30 3650 (st_event_days st)" "int_within 365 3650 (st_audit_days st)" "int_within 1 10000 (st_retention_batch st)"
    "int_within 30 900 (st_tolerance st)" "int_within 60 86400 (st_nonce_ttl st)" "int_within 3 900 (st_lease st)"
    "int_within 1 300 (st_heartbeat st)" "int_within 1 1000000 (st_max_output st)" "int_within 0 10000 (st_queue_limit st)"
    "int_within 0 1000 (st_caller_queue_limit st)" "int_within 1 300 (st_queue_wait st)" "int_within 50 2000 (st_queue_poll st)"
    "full_class is_version_char 1 128 (st_service_id st)" "bounded_secret (st_service_secret st)"
    "1 \<le> st_openwebui_timeout st" "st_openwebui_timeout st \<le> 30"
  using assms by (simp_all only: settings_fields_ok_def)

lemma check_settings_D: assumes "check_settings st = Inr ()"
  shows "st_tolerance st * 2 \<le> st_nonce_ttl st" "st_heartbeat st * 2 < st_lease st"
    "0 < st_queue_limit st \<Longrightarrow> st_caller_queue_limit st \<noteq> 0" "st_event_days st \<le> st_audit_days st"
  using assms by (auto simp: check_settings_def split: if_splits)

lemma py_len_le: "py_len s \<le> length s"
  by (simp add: py_len_def)

lemma admin_parts_made:
  assumes "load_settings trim raw = Inr st"
  shows "\<exists>ar. make_admin_parts rt st kr = Inr ar"
proof -
  note f = fields_D [OF load_settings_D(2) [OF assms], unfolded int_within_def bounded_secret_def]
    and c = check_settings_D [OF load_settings_D(4) [OF assms]]
  have "opt_all (\<lambda>t. 32 \<le> py_len t) (st_login_token st)" using f(2) by (cases "st_login_token st") auto
  moreover have "Suc 0 \<le> nat (st_retention_batch st) \<and> nat (st_retention_batch st) \<le> 10000" using f(6) by auto
  ultimately show ?thesis
    using f(1,3-5) c(4) by (simp add: make_admin_parts_def Let_def check_session_manager_def check_observability_service_def
        check_retention_service_def MIN_EVENT_RETENTION_DAYS_def MIN_AUDIT_RETENTION_DAYS_def MAX_RETENTION_DAYS_def
        MAX_RETENTION_BATCH_SIZE_def MAX_EXPORT_ROWS_def MAX_AGGREGATE_ROWS_def)
qed

text \<open>The check of the policies and the grouping of the capacity service see the same limits.\<close>

definition group_limits :: "(str \<times> int \<times> str list) list \<Rightarrow> str \<Rightarrow> int option" where
  "group_limits gs = map_of (map (\<lambda>(k, l, _). (k, l)) gs)"

lemma group_policy_made:
  assumes "case group_limits gs (pp_pool p) of None \<Rightarrow> True | Some l \<Rightarrow> l = pp_active_limit p"
  shows "\<exists>gs'. group_policy m p gs = Inr gs' \<and> group_limits gs' = (group_limits gs)(pp_pool p \<mapsto> pp_active_limit p)"
  using assms
proof (induction m p gs rule: group_policy.induct)
  case (2 m p k l ms ps)
  show ?case
  proof (cases "k = pp_pool p")
    case True
    then show ?thesis using 2(2) by (simp add: group_limits_def fun_eq_iff)
  next
    case False
    have "case group_limits ps (pp_pool p) of None \<Rightarrow> True | Some l \<Rightarrow> l = pp_active_limit p"
      using 2(2) False by (simp add: group_limits_def)
    with 2(1) [OF False] show ?thesis using False by (auto simp: group_limits_def fun_eq_iff)
  qed
qed (simp add: group_limits_def)

lemma policies_grouped:
  assumes "check_policies trim limits ps = Inr ()" and "map_of limits = group_limits gs"
  shows "\<exists>gs'. group_policies ps gs = Inr gs'"
  using assms
proof (induction trim limits ps arbitrary: gs rule: check_policies.induct)
  case (2 trim limits m p ps)
  from 2(3) have ok: "case map_of limits (pp_pool p) of None \<Rightarrow> True | Some l \<Rightarrow> l = pp_active_limit p"
    by (auto split: if_splits option.splits)
  then obtain gs' where gs': "group_policy m p gs = Inr gs'" "group_limits gs' = (group_limits gs)(pp_pool p \<mapsto> pp_active_limit p)"
    using group_policy_made [where gs = gs and p = p and m = m] by (auto simp: 2(4))
  show ?case
  proof (cases "map_of limits (pp_pool p)")
    case None
    then have "check_policies trim ((pp_pool p, pp_active_limit p) # limits) ps = Inr ()" using 2(3) by (simp split: if_splits)
    moreover have "map_of ((pp_pool p, pp_active_limit p) # limits) = group_limits gs'" by (simp add: gs'(2) 2(4))
    ultimately show ?thesis using 2(1) None 2(3) gs'(1) by (auto split: if_splits)
  next
    case (Some l)
    with ok have "l = pp_active_limit p" by simp
    moreover have "check_policies trim limits ps = Inr ()" using 2(3) Some by (simp split: if_splits)
    moreover have "map_of limits = group_limits gs'" using Some ok by (auto simp: gs'(2) 2(4) fun_eq_iff)
    ultimately show ?thesis using 2(2) Some 2(3) gs'(1) by (auto split: if_splits)
  qed
qed simp

definition services_fit :: "settings \<Rightarrow> app_state \<Rightarrow> bool" where
  "services_fit st a \<longleftrightarrow> check_chat_service (xa_chat (at_external a)) = Inr () \<and> cs_patience (xa_chat (at_external a)) = 6001 \<and>
     ms_nonce_ttl (xa_metadata (at_external a)) = cs_nonce_ttl (xa_chat (at_external a)) \<and>
     nonce_guard (cs_nonce_ttl (xa_chat (at_external a))) = Inr (cs_nonce_ttl (xa_chat (at_external a))) \<and>
     xa_tolerance (at_external a) * 2 \<le> cs_nonce_ttl (xa_chat (at_external a)) \<and>
     st_heartbeat st * 2000 < cs_lease (xa_chat (at_external a)) \<and>
     cs_pool_lease (xa_chat (at_external a)) = cs_lease (xa_chat (at_external a))"

lemma services_made:
  assumes "load_settings trim raw = Inr st"
  shows "\<exists>a. make_services rt st kr ar ow = Inr a \<and> services_fit st a"
proof -
  note f = fields_D [OF load_settings_D(2) [OF assms], unfolded int_within_def]
    and c = check_settings_D [OF load_settings_D(4) [OF assms]]
  have "check_policies trim [] (st_policies st) = Inr ()"
    using load_settings_D(3) [OF assms] by (simp add: validate_policies_def split: if_splits)
  then obtain gs where gs: "group_policies (st_policies st) [] = Inr gs"
    using policies_grouped [of trim "[]" "st_policies st" "[]"] by (auto simp: group_limits_def)
  from f c show ?thesis
    by (simp add: make_services_def Let_def timestamp_tolerance_def nonce_guard_def qps_window_def lease_milliseconds_def
        pool_lease_milliseconds_def make_capacity_service_def gs make_chat_service_def check_chat_service_def services_fit_def)
qed

subsection \<open>What is opened is closed\<close>

lemma close_all_events [simp]: "fst (close_all fault xs) = map Closed xs"
  by (induction fault xs rule: close_all.induct) (auto split: prod.splits)

lemma bind_boot_simps [simp]: "bind_boot (es, Inl e) f = (es, Inl e)"
  "bind_boot (es, Inr x) f = (es @ fst (f x), snd (f x))"
  by (simp_all add: bind_boot_def split: prod.splits)

definition opened_order :: "resource list \<Rightarrow> bool" where
  "opened_order xs \<longleftrightarrow> xs \<in> {[], [Redis_client], [Redis_client, Bifrost_http], [Redis_client, Bifrost_http, Openwebui_http]}"

lemma run_service_events:
  "\<exists>xs s. fst (run_service en w rt st kr ar served) = map Opened xs @ s \<and> opened_order xs \<and> s \<in> {[], [Serving]}"
proof -
  let ?pf = "fst (verify_bifrost_preflight en (rt_codec rt) (st_bifrost_version st) w)"
  consider e where "create_redis_client (st_redis_url st) = Inl e"
    | e where "create_redis_client (st_redis_url st) = Inr ()" "create_bifrost_client st = Inl e"
    | e where "create_redis_client (st_redis_url st) = Inr ()" "create_bifrost_client st = Inr ()" "create_openwebui_client st = Inl e"
    | ow where "create_redis_client (st_redis_url st) = Inr ()" "create_bifrost_client st = Inr ()" "create_openwebui_client st = Inr ow"
    by (metis old.unit.exhaust sum.exhaust)
  then show ?thesis
  proof cases
    case 4
    then show ?thesis
      by (intro exI [of _ "[Redis_client, Bifrost_http, Openwebui_http]"])
        (cases "make_services rt st kr ar ow"; cases ?pf; simp add: run_service_def acquire_one_def boot_def opened_order_def)
  qed (auto simp: run_service_def acquire_one_def boot_def opened_order_def
      intro: exI [of _ "[]"] exI [of _ "[Redis_client]"] exI [of _ "[Redis_client, Bifrost_http]"])
qed

lemma opened_again: "opened_order xs \<Longrightarrow> s \<in> {[], [Serving]} \<Longrightarrow>
    to_close (map Opened xs @ s) = rev xs"
  by (auto simp: opened_order_def to_close_def)

text \<open>C15: nothing is leaked. With settings that were accepted, whatever fails while the service starts,
  runs or stops, also the closing itself: every resource that was opened is closed, once and in the
  reverse order, after the service has ended; nothing else is closed.\<close>

theorem lifespan_closes:
  assumes "load_settings trim raw = Inr st"
  shows "\<exists>xs s. fst (lifespan en w rt st served fault) = map Opened xs @ s @ map Closed (rev xs) \<and> distinct xs \<and> s \<in> {[], [Serving]}"
proof -
  let ?kr = "keyring_from_json (rt_crypto rt) (rt_loads rt) (st_credential_keys st) (st_active_key st)"
    and ?d = "create_database_runtime (st_database_url st)"
  consider e where "?kr = Inl e" | kr e where "?kr = Inr kr" "?d = Inl e" | kr where "?kr = Inr kr" "?d = Inr ()"
    by (cases ?kr; cases ?d) auto
  then show ?thesis
  proof cases
    case 3
    obtain ar where ar: "make_admin_parts rt st kr = Inr ar" using admin_parts_made [OF assms] by blast
    obtain xs s where r: "fst (run_service en w rt st kr ar served) = map Opened xs @ s" "opened_order xs" "s \<in> {[], [Serving]}"
      using run_service_events [of en w rt st kr ar served] by (elim exE conjE)
    have "fst (lifespan en w rt st served fault) = map Opened (Database # xs) @ s @ map Closed (rev (Database # xs))"
      using 3 ar r(1) opened_again [OF r(2,3)] by (simp add: lifespan_def boot_def acquire_one_def case_prod_beta)
    moreover have "distinct (Database # xs)" using r(2) by (auto simp: opened_order_def)
    ultimately show ?thesis using r(3) by (intro exI conjI)
  qed (simp_all add: lifespan_def boot_def acquire_one_def)
qed

text \<open>C14: accepted settings are enough. When the key ring can be read, both upstream addresses are origins,
  the shared secret has at most 4096 bytes, the addresses of the stores are given and the gateway passes
  its check, the service starts: no constructor refuses a value the settings let through. Its parts
  fit together: the wait for a pool has rounds enough, nonces outlive the time a timestamp is accepted,
  both services share their lifetime, and the heartbeat comes twice in a lease.\<close>

theorem accepted_settings_start:
  assumes "load_settings trim raw = Inr st"
    and "keyring_from_json (rt_crypto rt) (rt_loads rt) (st_credential_keys st) (st_active_key st) = Inr kr"
    and "origin_url (st_bifrost_url st)" and "origin_url (st_openwebui_url st)" and "length (st_service_secret st) \<le> 4096"
    and "st_database_url st \<noteq> []" and "py_len (st_database_url st) \<le> 8192" and "st_redis_url st \<noteq> []"
    and "fst (verify_bifrost_preflight en (rt_codec rt) (st_bifrost_version st) w) = Inr report"
  shows "\<exists>a. lifespan en w rt st served (\<lambda>_. None) =
      (map Opened [Database, Redis_client, Bifrost_http, Openwebui_http] @ [Serving] @
       map Closed [Openwebui_http, Bifrost_http, Redis_client, Database], served a) \<and> services_fit st a"
proof -
  note f = fields_D [OF load_settings_D(2) [OF assms(1)], unfolded bounded_secret_def]
  obtain ar where ar: "make_admin_parts rt st kr = Inr ar" using admin_parts_made [OF assms(1)] by blast
  have "create_database_runtime (st_database_url st) = Inr ()" "create_redis_client (st_redis_url st) = Inr ()"
      "create_bifrost_client st = Inr ()"
    using assms(3,6-8) by (simp_all add: create_database_runtime_def create_redis_client_def create_bifrost_client_def)
  moreover obtain ow where "create_openwebui_client st = Inr ow"
    using assms(4,5) f(16-19) py_len_le [of "st_service_secret st"]
    by (auto simp: create_openwebui_client_def make_ow_client_def service_id_ok_def)
  moreover obtain a where "make_services rt st kr ar ow = Inr a" "services_fit st a" using services_made [OF assms(1)] by blast
  ultimately show ?thesis using ar assms(2,9) by (auto simp: lifespan_def run_service_def boot_def acquire_one_def to_close_def)
qed

subsection \<open>A service that starts\<close>

definition sample_url :: base_url where
  "sample_url = \<lparr>ul_scheme = ''https'', ul_host = ''h'', ul_user = [], ul_password = [], ul_query = [], ul_fragment = [], ul_path = []\<rparr>"

definition sample_secret :: "char \<Rightarrow> str" where
  "sample_secret c = replicate 32 c"

definition sample_settings :: settings where
  "sample_settings = (with_defaults \<lparr>st_environment = Production, st_service_version = ''0.1.0-rc.1'', st_database_url = ''d'',
     st_redis_url = ''r'', st_bifrost_url = sample_url, st_bifrost_token = sample_secret CHR ''b'', st_bifrost_version = ''v1.6.3'',
     st_bifrost_timeout = 0, st_openwebui_url = sample_url, st_service_id = ''zangpu'', st_service_secret = sample_secret CHR ''s'',
     st_openwebui_timeout = 0, st_session_secret = sample_secret CHR ''a'', st_login_token = None, st_session_ttl = 0,
     st_event_days = 0, st_audit_days = 0, st_retention_batch = 0, st_credential_keys = ''{}'', st_active_key = ''v1'',
     st_tolerance = 0, st_nonce_ttl = 0, st_lease = 0, st_heartbeat = 0, st_max_output = 0, st_policies = [],
     st_queue_limit = 0, st_caller_queue_limit = 0, st_queue_wait = 0, st_queue_poll = 0, st_outbox_attempts = 0,
     st_outbox_base_retry = 0, st_outbox_max_retry = 0, st_outbox_claim_timeout = 0, st_outbox_batch = 0\<rparr>)
     \<lparr>st_login_token := Some (sample_secret CHR ''l''), st_policies := [(''m'', \<lparr>pp_pool = ''p1'', pp_active_limit = 2\<rparr>),
       (''n'', \<lparr>pp_pool = ''p1'', pp_active_limit = 2\<rparr>)]\<rparr>"

definition gateway_json :: "str \<Rightarrow> json option" where
  "gateway_json path = (if path = ''/health'' then Some (JObj [(''status'', JStr ''ok'')])
     else if path = ''/api/version'' then Some (JStr ''v1.6.3'')
     else if path = ''/api/config'' then Some (JObj [(''client_config'', JObj [(''enforce_auth_on_inference'', JBool True),
       (''allow_direct_keys'', JBool False), (''allow_per_request_raw_override'', JBool False)]), (''is_db_connected'', JBool True)])
     else if path = ''/api/providers'' then Some (JObj [(''total'', JInt 1), (''providers'', JList [JObj [(''name'', JStr ''p''),
       (''store_raw_request_response'', JBool False), (''send_back_raw_request'', JBool False), (''send_back_raw_response'', JBool False)]])])
     else if path = ''/api/models'' then Some (JObj [(''total'', JInt 1), (''models'', JList [JObj [(''name'', JStr ''m''), (''provider'', JStr ''p'')]])])
     else if path = keys_path then Some (JObj [(''count'', JInt 0), (''total_count'', JInt 0), (''limit'', JInt 0), (''offset'', JInt 0),
       (''virtual_keys'', JList [])])
     else Some (JObj [(''v1'', JStr (sample_secret CHR ''k''))]))"

definition sample_runtime :: runtime where
  "sample_runtime = \<lparr>rt_crypto = toy_crypto, rt_codec = \<lparr>cd_loads = gateway_json, cd_dumps = (\<lambda>_. []), cd_valid = sample_validation\<rparr>,
     rt_loads = gateway_json, rt_dumps = (\<lambda>_. []), rt_unicode = (\<lambda>s. s), rt_space = (\<lambda>s. s = '' ''), rt_clock = (\<lambda>_. 0)\<rparr>"

definition gateway_env :: env where
  "gateway_env = chat_env\<lparr>en_reply := \<lambda>l. Http_reply 200 ''application/json'' [case last l of Act_bifrost _ path _ \<Rightarrow> path | _ \<Rightarrow> []]\<rparr>"

lemma sample_loaded: "load_settings (\<lambda>s. s) sample_settings = Inr sample_settings"
proof -
  have "settings_fields_ok sample_settings" by code_simp
  moreover have "validate_policies (\<lambda>s. s) (st_policies sample_settings) = Inr ()" by code_simp
  moreover have "check_settings sample_settings = Inr ()" by code_simp
  ultimately show ?thesis by (simp add: load_settings_def)
qed

lemma sample_keyring: "keyring_from_json (rt_crypto sample_runtime) (rt_loads sample_runtime) (st_credential_keys sample_settings)
    (st_active_key sample_settings) = Inr \<lparr>kr_keys = [(''v1'', sample_secret CHR ''k'')], kr_active = ''v1''\<rparr>"
  by code_simp

lemma sample_preflight: "fst (verify_bifrost_preflight gateway_env (rt_codec sample_runtime) (st_bifrost_version sample_settings) chat_world) =
    Inr \<lparr>pr_version = ''v1.6.3'', pr_db_connected = True, pr_provider_count = 1, pr_model_count = 1, pr_route_compatible = True\<rparr>"
  by code_simp

theorem lifespan_closes_witness:
  "\<exists>xs s. fst (lifespan gateway_env chat_world sample_runtime sample_settings (\<lambda>_. Inl CancelledError) (\<lambda>_. Some TypeError)) =
    map Opened xs @ s @ map Closed (rev xs) \<and> distinct xs \<and> s \<in> {[], [Serving]}"
  by (rule lifespan_closes [OF sample_loaded])

theorem accepted_settings_start_witness:
  "\<exists>a. lifespan gateway_env chat_world sample_runtime sample_settings (\<lambda>_. Inr ()) (\<lambda>_. None) =
      (map Opened [Database, Redis_client, Bifrost_http, Openwebui_http] @ [Serving] @
       map Closed [Openwebui_http, Bifrost_http, Redis_client, Database], Inr ()) \<and> services_fit sample_settings a"
proof -
  have "origin_url (st_bifrost_url sample_settings)" "origin_url (st_openwebui_url sample_settings)"
      "length (st_service_secret sample_settings) \<le> 4096" "st_database_url sample_settings \<noteq> []"
      "py_len (st_database_url sample_settings) \<le> 8192" "st_redis_url sample_settings \<noteq> []"
    by code_simp+
  from accepted_settings_start [OF sample_loaded sample_keyring this sample_preflight, of "\<lambda>_. Inr ()"] show ?thesis .
qed

subsection \<open>Replays\<close>

lemma authenticate_D: assumes "authenticate y k resolver tolerance now q = Inr c"
  shows "\<exists>h. parse_external_auth_headers (hr_headers q) = Inr h \<and> au_nonce c = ah_nonce h \<and>
    au_timestamp c = int (digits_nat (ah_timestamp h)) \<and> \<bar>now - au_timestamp c\<bar> \<le> tolerance"
proof -
  from assms obtain h where h: "parse_external_auth_headers (hr_headers q) = Inr h"
    by (auto simp: authenticate_def bind_res_Inr)
  from assms obtain rc where rc: "resolver (ah_key_id h) = Some rc" by (cases "resolver (ah_key_id h)") (simp_all add: authenticate_def h)
  have fresh: "\<not> tolerance < \<bar>now - int (digits_nat (ah_timestamp h))\<bar>"
    using assms by (simp add: authenticate_def h rc split: if_splits)
  obtain s where "check_signature y k rc h q = Inr s"
    using assms fresh by (cases "check_signature y k rc h q") (simp_all add: authenticate_def h rc split: if_splits)
  then have "au_nonce c = ah_nonce h \<and> au_timestamp c = int (digits_nat (ah_timestamp h))"
    using assms fresh by (cases s) (auto simp: authenticate_def h rc split: if_splits)
  with h fresh show ?thesis by simp
qed

text \<open>C7: a signed request is not accepted twice. The service reads its clock, accepts the request and then
  claims its nonce, and nonces outlive twice the tolerance of the timestamp. If the same request is accepted
  again, at whatever time, by any server that shares the clock and the store, its nonce is refused: as
  long as the second claim follows its reading of the clock within the time by which the nonce outlives
  both tolerances. (With the default settings that time is nothing: the nonce lives exactly twice the
  tolerance, and a claim made in the last second of the tolerance is a gap of less than a second.)\<close>

theorem replay_refused:
  assumes "nonce_guard seconds = Inr ttl"
    and "authenticate y k resolver tolerance now q = Inr caller" and "authenticate y k resolver2 tolerance now2 q = Inr again"
    and "au_api_client_id again = au_api_client_id caller" and "au_credential_id again = au_credential_id caller"
    and "now * 1000 \<le> t" and "t2 \<le> (now2 + (ttl - 2 * tolerance)) * 1000"
    and "claim sha ttl l t (au_api_client_id caller) (au_credential_id caller) (au_nonce caller) r = (Inr True, r1)"
    and "list_all (\<lambda>x. fst x \<le> t2) calls"
  shows "fst (claim sha ttl l2 t2 (au_api_client_id again) (au_credential_id again) (au_nonce again)
    (claim_run sha ttl calls r1)) \<noteq> Inr True"
proof -
  obtain h where h: "parse_external_auth_headers (hr_headers q) = Inr h" "au_nonce caller = ah_nonce h"
      "au_timestamp caller = int (digits_nat (ah_timestamp h))" "\<bar>now - au_timestamp caller\<bar> \<le> tolerance"
    using authenticate_D [OF assms(2)] by (elim exE conjE)
  obtain h2 where h2: "parse_external_auth_headers (hr_headers q) = Inr h2" "au_nonce again = ah_nonce h2"
      "au_timestamp again = int (digits_nat (ah_timestamp h2))" "\<bar>now2 - au_timestamp again\<bar> \<le> tolerance"
    using authenticate_D [OF assms(3)] by (elim exE conjE)
  have same: "h2 = h" using h(1) h2(1) by simp
  then have "now2 - now \<le> 2 * tolerance" using h(3,4) h2(3,4) by simp
  with assms(6,7) have later: "t2 \<le> t + ttl * 1000" by (simp add: algebra_simps)
  have "list_all (\<lambda>x. fst x \<le> t + ttl * 1000) calls" using assms(9) later by (auto simp: list_all_iff)
  from nonce_once [OF assms(1,8) this later] show ?thesis using h(2) h2(2) same assms(4,5) by simp
qed

theorem replay_refused_witness:
  "fst (claim (\<lambda>x. x) 601 Link_up 250900 ''c1'' ''u1'' ''nonce_nonce_nonce''
    (claim_run (\<lambda>x. x) 601 [] (snd (claim (\<lambda>x. x) 601 Link_up 250100 ''c1'' ''u1'' ''nonce_nonce_nonce'' empty_redis)))) \<noteq> Inr True"
proof -
  let ?c = "claim (\<lambda>x. x) 601 Link_up 250100 ''c1'' ''u1'' ''nonce_nonce_nonce'' empty_redis"
  have "fst ?c = Inr True" by code_simp
  then have c: "?c = (Inr True, snd ?c)" by (metis prod.collapse)
  have g: "nonce_guard 601 = Inr 601" by (simp add: nonce_guard_def)
  show ?thesis
    using replay_refused [OF g auth_request_accepted auth_request_accepted refl refl, of 250100 250900 "\<lambda>x. x" Link_up empty_redis "snd ?c" "[]" Link_up] c
    by simp
qed

end
