(* ===== verification/Migrations.thy ===== *)
theory Migrations
  imports Schema
begin

text \<open>
  The migrations of the database, \<open>backend/migrations/versions\<close>: the operations a migration may use,
  what each does to the catalogue of a database and when the database refuses it, the four migrations
  as they are written, and the runs of Alembic over them. A condition of a CHECK constraint is its
  syntax tree, with the three-valued logic of SQL.
\<close>

subsection \<open>Conditions\<close>

datatype sql_value = Null | Int_value int | Text_value str

type_synonym row = "str \<Rightarrow> sql_value"

datatype sql_expr =
    Column str
  | Int_const int
  | Text_const str
  | Length_of sql_expr
  | Substr sql_expr nat nat
  | Plus sql_expr sql_expr

datatype sql_cond =
    In_list sql_expr "str list"
  | Not_in sql_expr "str list"
  | Greater sql_expr sql_expr
  | At_least sql_expr sql_expr
  | At_most sql_expr sql_expr
  | Equals sql_expr sql_expr
  | Between sql_expr sql_expr sql_expr
  | Is_null sql_expr
  | Is_not_null sql_expr
  | And_cond sql_cond sql_cond
  | Or_cond sql_cond sql_cond

text \<open>A substring is taken of the bytes; the only one in use is compared with ASCII text.\<close>

fun expr_value :: "row \<Rightarrow> sql_expr \<Rightarrow> sql_value" where
  "expr_value r (Column c) = r c"
| "expr_value r (Int_const n) = Int_value n"
| "expr_value r (Text_const s) = Text_value s"
| "expr_value r (Length_of e) = (case expr_value r e of Text_value s \<Rightarrow> Int_value (int (py_len s)) | _ \<Rightarrow> Null)"
| "expr_value r (Substr e i n) = (case expr_value r e of Text_value s \<Rightarrow> Text_value (take n (drop (i - 1) s)) | _ \<Rightarrow> Null)"
| "expr_value r (Plus a b) = (case (expr_value r a, expr_value r b) of (Int_value m, Int_value n) \<Rightarrow> Int_value (m + n) | _ \<Rightarrow> Null)"

definition sql_compare :: "(int \<Rightarrow> int \<Rightarrow> bool) \<Rightarrow> sql_value \<Rightarrow> sql_value \<Rightarrow> bool option" where
  "sql_compare f a b = (case (a, b) of (Int_value m, Int_value n) \<Rightarrow> Some (f m n) | _ \<Rightarrow> None)"

definition sql_in :: "sql_value \<Rightarrow> str list \<Rightarrow> bool option" where
  "sql_in a xs = (case a of Text_value s \<Rightarrow> Some (s \<in> set xs) | _ \<Rightarrow> None)"

definition sql_and :: "bool option \<Rightarrow> bool option \<Rightarrow> bool option" where
  "sql_and a b = (if a = Some False \<or> b = Some False then Some False else if a = None \<or> b = None then None else Some True)"

definition sql_or :: "bool option \<Rightarrow> bool option \<Rightarrow> bool option" where
  "sql_or a b = (if a = Some True \<or> b = Some True then Some True else if a = None \<or> b = None then None else Some False)"

definition sql_not :: "bool option \<Rightarrow> bool option" where
  "sql_not a = map_option Not a"

fun cond_value :: "row \<Rightarrow> sql_cond \<Rightarrow> bool option" where
  "cond_value r (In_list e xs) = sql_in (expr_value r e) xs"
| "cond_value r (Not_in e xs) = sql_not (sql_in (expr_value r e) xs)"
| "cond_value r (Greater a b) = sql_compare (\<lambda>m n. n < m) (expr_value r a) (expr_value r b)"
| "cond_value r (At_least a b) = sql_compare (\<lambda>m n. n \<le> m) (expr_value r a) (expr_value r b)"
| "cond_value r (At_most a b) = sql_compare (\<lambda>m n. m \<le> n) (expr_value r a) (expr_value r b)"
| "cond_value r (Equals a b) = (case (expr_value r a, expr_value r b) of (Text_value s, Text_value t) \<Rightarrow> Some (s = t)
     | (x, y) \<Rightarrow> sql_compare (\<lambda>m n. m = n) x y)"
| "cond_value r (Between e a b) = sql_and (sql_compare (\<lambda>m n. n \<le> m) (expr_value r e) (expr_value r a))
     (sql_compare (\<lambda>m n. m \<le> n) (expr_value r e) (expr_value r b))"
| "cond_value r (Is_null e) = Some (expr_value r e = Null)"
| "cond_value r (Is_not_null e) = Some (expr_value r e \<noteq> Null)"
| "cond_value r (And_cond a b) = sql_and (cond_value r a) (cond_value r b)"
| "cond_value r (Or_cond a b) = sql_or (cond_value r a) (cond_value r b)"

subsection \<open>The catalogue\<close>

datatype column_type = Varchar nat | Text_column | Json_column | Int_column | Bigint_column | Bool_column

record column =
  co_name :: str
  co_type :: column_type
  co_nullable :: bool
  co_default :: "bool option"

definition required :: "str \<Rightarrow> column_type \<Rightarrow> column" where
  "required n t = \<lparr>co_name = n, co_type = t, co_nullable = False, co_default = None\<rparr>"

definition optional :: "str \<Rightarrow> column_type \<Rightarrow> column" where
  "optional n t = \<lparr>co_name = n, co_type = t, co_nullable = True, co_default = None\<rparr>"

text \<open>Every foreign key of the schema has one column and restricts deletion.\<close>

datatype constraint =
    Check str sql_cond
  | Primary_key str "str list"
  | Unique str "str list"
  | Foreign_key str str str str

record table =
  tb_name :: str
  tb_columns :: "column list"
  tb_constraints :: "constraint list"

record index =
  ix_name :: str
  ix_table :: str
  ix_columns :: "str list"

record catalogue =
  cg_tables :: "table list"
  cg_indexes :: "index list"

definition fresh_catalogue :: catalogue where
  "fresh_catalogue = \<lparr>cg_tables = [], cg_indexes = []\<rparr>"

subsection \<open>Operations\<close>

datatype ddl =
    Create_table table
  | Drop_table str
  | Create_index index
  | Drop_index str str
  | Add_column str column
  | Alter_default str str "bool option"
  | Drop_column str str

definition column_names :: "table \<Rightarrow> str list" where
  "column_names t = map co_name (tb_columns t)"

definition find_table :: "str \<Rightarrow> catalogue \<Rightarrow> table option" where
  "find_table n cg = find (\<lambda>t. tb_name t = n) (cg_tables cg)"

definition change_table :: "str \<Rightarrow> (table \<Rightarrow> table) \<Rightarrow> catalogue \<Rightarrow> catalogue" where
  "change_table n f cg = cg\<lparr>cg_tables := map (\<lambda>t. if tb_name t = n then f t else t) (cg_tables cg)\<rparr>"

fun constraint_columns :: "constraint \<Rightarrow> str list" where
  "constraint_columns (Check _ _) = []"
| "constraint_columns (Primary_key _ cs) = cs"
| "constraint_columns (Unique _ cs) = cs"
| "constraint_columns (Foreign_key _ c _ _) = [c]"

fun target_exists :: "table \<Rightarrow> catalogue \<Rightarrow> constraint \<Rightarrow> bool" where
  "target_exists t cg (Foreign_key _ _ r k) =
    (case (if r = tb_name t then Some t else find_table r cg) of None \<Rightarrow> False | Some u \<Rightarrow> k \<in> set (column_names u))"
| "target_exists t cg _ = True"

fun refers_to :: "str \<Rightarrow> constraint \<Rightarrow> bool" where
  "refers_to n (Foreign_key _ _ r _) = (r = n)"
| "refers_to n _ = False"

text \<open>When the database refuses: a name that is taken or missing, a column that is missing, a table that
  is still referred to, a column that is in use, and a new column that rows already stored could
  not have. A dropped table takes its indexes with it.\<close>

fun apply_ddl :: "ddl \<Rightarrow> catalogue \<Rightarrow> catalogue option" where
  "apply_ddl (Create_table t) cg =
    (if find_table (tb_name t) cg \<noteq> None \<or> \<not> distinct (column_names t) \<or>
        \<not> list_all (\<lambda>c. set (constraint_columns c) \<subseteq> set (column_names t) \<and> target_exists t cg c) (tb_constraints t)
       then None else Some (cg\<lparr>cg_tables := cg_tables cg @ [t]\<rparr>))"
| "apply_ddl (Drop_table n) cg =
    (if find_table n cg = None \<or> list_ex (\<lambda>t. tb_name t \<noteq> n \<and> list_ex (refers_to n) (tb_constraints t)) (cg_tables cg)
       then None
     else Some (cg\<lparr>cg_tables := filter (\<lambda>t. tb_name t \<noteq> n) (cg_tables cg),
       cg_indexes := filter (\<lambda>i. ix_table i \<noteq> n) (cg_indexes cg)\<rparr>))"
| "apply_ddl (Create_index i) cg =
    (case find_table (ix_table i) cg of
       None \<Rightarrow> None
     | Some t \<Rightarrow> if list_ex (\<lambda>j. ix_name j = ix_name i) (cg_indexes cg) \<or> \<not> set (ix_columns i) \<subseteq> set (column_names t) then None
         else Some (cg\<lparr>cg_indexes := cg_indexes cg @ [i]\<rparr>))"
| "apply_ddl (Drop_index n t) cg =
    (if \<not> list_ex (\<lambda>i. ix_name i = n \<and> ix_table i = t) (cg_indexes cg) then None
     else Some (cg\<lparr>cg_indexes := filter (\<lambda>i. ix_name i \<noteq> n) (cg_indexes cg)\<rparr>))"
| "apply_ddl (Add_column n c) cg =
    (case find_table n cg of
       None \<Rightarrow> None
     | Some t \<Rightarrow> if co_name c \<in> set (column_names t) \<or> \<not> co_nullable c \<and> co_default c = None then None
         else Some (change_table n (\<lambda>t. t\<lparr>tb_columns := tb_columns t @ [c]\<rparr>) cg))"
| "apply_ddl (Alter_default n c d) cg =
    (case find_table n cg of
       None \<Rightarrow> None
     | Some t \<Rightarrow> if c \<notin> set (column_names t) then None
         else Some (change_table n (\<lambda>t. t\<lparr>tb_columns := map (\<lambda>x. if co_name x = c then x\<lparr>co_default := d\<rparr> else x) (tb_columns t)\<rparr>) cg))"
| "apply_ddl (Drop_column n c) cg =
    (case find_table n cg of
       None \<Rightarrow> None
     | Some t \<Rightarrow> if c \<notin> set (column_names t) \<or> list_ex (\<lambda>k. c \<in> set (constraint_columns k)) (tb_constraints t) \<or>
           list_ex (\<lambda>i. ix_table i = n \<and> c \<in> set (ix_columns i)) (cg_indexes cg) then None
         else Some (change_table n (\<lambda>t. t\<lparr>tb_columns := filter (\<lambda>x. co_name x \<noteq> c) (tb_columns t)\<rparr>) cg))"

fun apply_all :: "ddl list \<Rightarrow> catalogue \<Rightarrow> catalogue option" where
  "apply_all [] cg = Some cg"
| "apply_all (op # ops) cg = Option.bind (apply_ddl op cg) (apply_all ops)"

subsection \<open>Runs\<close>

text \<open>A database knows its revision. A migration runs up from the revision before it, and down from its
  own; it runs in one transaction, so a refusal leaves nothing.\<close>

record migration =
  mg_revision :: str
  mg_down_revision :: "str option"
  mg_upgrade :: "ddl list"
  mg_downgrade :: "ddl list"

type_synonym migrated = "str option \<times> catalogue"

definition upgrade_one :: "migration \<Rightarrow> migrated \<Rightarrow> migrated option" where
  "upgrade_one m s = (case s of (revision, cg) \<Rightarrow>
     if mg_down_revision m \<noteq> revision then None
     else map_option (\<lambda>cg'. (Some (mg_revision m), cg')) (apply_all (mg_upgrade m) cg))"

definition downgrade_one :: "migration \<Rightarrow> migrated \<Rightarrow> migrated option" where
  "downgrade_one m s = (case s of (revision, cg) \<Rightarrow>
     if Some (mg_revision m) \<noteq> revision then None
     else map_option (\<lambda>cg'. (mg_down_revision m, cg')) (apply_all (mg_downgrade m) cg))"

fun upgrade_all :: "migration list \<Rightarrow> migrated \<Rightarrow> migrated option" where
  "upgrade_all [] s = Some s"
| "upgrade_all (m # ms) s = Option.bind (upgrade_one m s) (upgrade_all ms)"

subsection \<open>The tables of the first migration\<close>

definition api_client_table :: table where
  "api_client_table = \<lparr>tb_name = ''api_client'',
    tb_columns = [required ''id'' (Varchar 36), required ''name'' (Varchar 128), optional ''description'' Text_column, required ''status'' (Varchar 16),
      required ''allowed_endpoints'' Json_column, required ''allowed_models'' Json_column, required ''group_ids'' Json_column,
      required ''qps_limit'' Int_column, required ''concurrency_limit'' Int_column, optional ''daily_request_limit'' Bigint_column,
      optional ''daily_token_limit'' Bigint_column, optional ''total_request_limit'' Bigint_column, optional ''total_token_limit'' Bigint_column,
      required ''max_output_tokens_per_request'' Int_column, required ''version'' Int_column, required ''created_by'' (Varchar 128),
      required ''updated_by'' (Varchar 128), required ''created_at'' Bigint_column, required ''updated_at'' Bigint_column,
      optional ''disabled_at'' Bigint_column, optional ''archived_at'' Bigint_column],
    tb_constraints = [Check ''ck_api_client_status_values'' (In_list (Column ''status'') [''active'', ''disabled'', ''archived'']),
      Check ''ck_api_client_concurrency_positive'' (Greater (Column ''concurrency_limit'') (Int_const 0)),
      Check ''ck_api_client_daily_requests_positive'' (Or_cond (Is_null (Column ''daily_request_limit'')) (Greater (Column ''daily_request_limit'') (Int_const 0))),
      Check ''ck_api_client_daily_tokens_positive'' (Or_cond (Is_null (Column ''daily_token_limit'')) (Greater (Column ''daily_token_limit'') (Int_const 0))),
      Check ''ck_api_client_description_length'' (Or_cond (Is_null (Column ''description'')) (At_most (Length_of (Column ''description'')) (Int_const 1024))),
      Check ''ck_api_client_name_length'' (Between (Length_of (Column ''name'')) (Int_const 1) (Int_const 128)),
      Check ''ck_api_client_max_output_tokens_positive'' (Greater (Column ''max_output_tokens_per_request'') (Int_const 0)),
      Check ''ck_api_client_qps_positive'' (Greater (Column ''qps_limit'') (Int_const 0)),
      Check ''ck_api_client_total_requests_positive'' (Or_cond (Is_null (Column ''total_request_limit'')) (Greater (Column ''total_request_limit'') (Int_const 0))),
      Check ''ck_api_client_total_tokens_positive'' (Or_cond (Is_null (Column ''total_token_limit'')) (Greater (Column ''total_token_limit'') (Int_const 0))),
      Check ''ck_api_client_version_positive'' (Greater (Column ''version'') (Int_const 0)), Primary_key ''pk_api_client'' [''id''],
      Unique ''uq_api_client_name'' [''name'']]\<rparr>"

definition api_client_admin_audit_table :: table where
  "api_client_admin_audit_table = \<lparr>tb_name = ''api_client_admin_audit'',
    tb_columns = [required ''id'' (Varchar 36), required ''actor_user_id'' (Varchar 128), optional ''api_client_id'' (Varchar 36),
      required ''target_type'' (Varchar 32), optional ''target_id'' (Varchar 128), required ''action'' (Varchar 64),
      required ''changed_fields'' Json_column, required ''before_summary'' Json_column, required ''after_summary'' Json_column,
      required ''created_at'' Bigint_column],
    tb_constraints = [Check ''ck_api_client_admin_audit_action_length'' (Between (Length_of (Column ''action'')) (Int_const 1) (Int_const 64)),
      Check ''ck_api_client_admin_audit_actor_user_id_length'' (Between (Length_of (Column ''actor_user_id'')) (Int_const 1) (Int_const 128)),
      Check ''ck_api_client_admin_audit_target_id_length'' (Or_cond (Is_null (Column ''target_id'')) (Between (Length_of (Column ''target_id'')) (Int_const 1) (Int_const 128))),
      Check ''ck_api_client_admin_audit_target_type_values'' (In_list (Column ''target_type'') [''client'', ''credential'', ''permission'', ''quota'', ''group'', ''status'', ''retention'', ''export'']),
      Foreign_key ''fk_api_client_admin_audit_api_client_id_api_client'' ''api_client_id'' ''api_client'' ''id'',
      Primary_key ''pk_api_client_admin_audit'' [''id'']]\<rparr>"

definition control_outbox_table :: table where
  "control_outbox_table = \<lparr>tb_name = ''control_outbox'',
    tb_columns = [required ''id'' (Varchar 36), required ''aggregate_type'' (Varchar 64), required ''aggregate_id'' (Varchar 128), required ''target'' (Varchar 16),
      required ''action'' (Varchar 16), required ''idempotency_key'' (Varchar 128), required ''payload'' Json_column, required ''status'' (Varchar 16),
      required ''attempt_count'' Int_column, required ''available_at'' Bigint_column, optional ''locked_at'' Bigint_column,
      optional ''completed_at'' Bigint_column, optional ''last_error_code'' (Varchar 64), required ''created_at'' Bigint_column,
      required ''updated_at'' Bigint_column],
    tb_constraints = [Check ''ck_control_outbox_action_values'' (In_list (Column ''action'') [''create'', ''update'', ''disable'', ''compensate'']),
      Check ''ck_control_outbox_status_values'' (In_list (Column ''status'') [''pending'', ''processing'', ''completed'', ''failed'']),
      Check ''ck_control_outbox_target_values'' (In_list (Column ''target'') [''bifrost'', ''openwebui'']),
      Check ''ck_control_outbox_attempt_count_bounds'' (Between (Column ''attempt_count'') (Int_const 0) (Int_const 1000)),
      Check ''ck_control_outbox_error_code_length'' (Or_cond (Is_null (Column ''last_error_code'')) (At_most (Length_of (Column ''last_error_code'')) (Int_const 64))),
      Primary_key ''pk_control_outbox'' [''id''], Unique ''uq_control_outbox_idempotency_key'' [''idempotency_key'']]\<rparr>"

definition api_client_binding_table :: table where
  "api_client_binding_table = \<lparr>tb_name = ''api_client_binding'',
    tb_columns = [required ''id'' (Varchar 36), required ''api_client_id'' (Varchar 36), optional ''zangpu_service_user_id'' (Varchar 128),
      optional ''bifrost_virtual_key_id'' (Varchar 128), optional ''bifrost_value_ciphertext'' Text_column,
      optional ''bifrost_value_key_version'' (Varchar 64), required ''bifrost_config_hash'' (Varchar 128), required ''sync_status'' (Varchar 16),
      optional ''last_sync_error_code'' (Varchar 64), required ''version'' Int_column, required ''created_at'' Bigint_column,
      required ''updated_at'' Bigint_column],
    tb_constraints = [Check ''ck_api_client_binding_sync_status_values'' (In_list (Column ''sync_status'') [''pending'', ''active'', ''disabled'', ''error'']),
      Check ''ck_api_client_binding_synced_remote_fields'' (Or_cond (Not_in (Column ''sync_status'') [''active'', ''disabled'']) (And_cond (And_cond (And_cond (Is_not_null (Column ''zangpu_service_user_id'')) (Is_not_null (Column ''bifrost_virtual_key_id''))) (Is_not_null (Column ''bifrost_value_ciphertext''))) (Is_not_null (Column ''bifrost_value_key_version'')))),
      Check ''ck_api_client_binding_error_code_length'' (Or_cond (Is_null (Column ''last_sync_error_code'')) (At_most (Length_of (Column ''last_sync_error_code'')) (Int_const 64))),
      Check ''ck_api_client_binding_version_positive'' (Greater (Column ''version'') (Int_const 0)),
      Foreign_key ''fk_api_client_binding_api_client_id_api_client'' ''api_client_id'' ''api_client'' ''id'',
      Primary_key ''pk_api_client_binding'' [''id''], Unique ''uq_api_client_binding_api_client_id'' [''api_client_id''],
      Unique ''uq_api_client_binding_bifrost_key_id'' [''bifrost_virtual_key_id''],
      Unique ''uq_api_client_binding_service_user_id'' [''zangpu_service_user_id'']]\<rparr>"

definition api_client_credential_table :: table where
  "api_client_credential_table = \<lparr>tb_name = ''api_client_credential'',
    tb_columns = [required ''id'' (Varchar 36), required ''api_client_id'' (Varchar 36), required ''key_id'' (Varchar 80), required ''secret_ciphertext'' Text_column,
      required ''secret_nonce'' (Varchar 64), required ''master_key_id'' (Varchar 64), required ''secret_fingerprint'' (Varchar 64),
      required ''status'' (Varchar 16), optional ''expires_at'' Bigint_column, optional ''last_used_at'' Bigint_column,
      optional ''replaced_by_id'' (Varchar 36), required ''created_by'' (Varchar 128), optional ''revoked_by'' (Varchar 128),
      required ''created_at'' Bigint_column, optional ''revoked_at'' Bigint_column],
    tb_constraints = [Check ''ck_api_client_credential_status_values'' (In_list (Column ''status'') [''active'', ''revoked'']),
      Check ''ck_api_client_credential_expires_at_positive'' (Or_cond (Is_null (Column ''expires_at'')) (Greater (Column ''expires_at'') (Int_const 0))),
      Check ''ck_api_client_credential_key_id_length'' (Between (Length_of (Column ''key_id'')) (Int_const 8) (Int_const 80)),
      Check ''ck_api_client_credential_key_id_prefix'' (Equals (Substr (Column ''key_id'') 1 4) (Text_const ''zpk_'')),
      Foreign_key ''fk_api_client_credential_api_client_id_api_client'' ''api_client_id'' ''api_client'' ''id'',
      Foreign_key ''fk_api_client_credential_replaced_by_id_api_client_credential'' ''replaced_by_id'' ''api_client_credential'' ''id'',
      Primary_key ''pk_api_client_credential'' [''id''], Unique ''uq_api_client_credential_key_id'' [''key_id'']]\<rparr>"

definition api_client_quota_usage_table :: table where
  "api_client_quota_usage_table = \<lparr>tb_name = ''api_client_quota_usage'',
    tb_columns = [required ''id'' (Varchar 36), required ''api_client_id'' (Varchar 36), required ''scope'' (Varchar 16), required ''period_start'' Bigint_column,
      required ''request_count'' Bigint_column, required ''token_reserved'' Bigint_column, required ''token_consumed'' Bigint_column,
      required ''version'' Int_column, required ''updated_at'' Bigint_column],
    tb_constraints = [Check ''ck_api_client_quota_usage_scope_period'' (Or_cond (And_cond (Equals (Column ''scope'') (Text_const ''daily'')) (Greater (Column ''period_start'') (Int_const 0))) (And_cond (Equals (Column ''scope'') (Text_const ''lifetime'')) (Equals (Column ''period_start'') (Int_const 0)))),
      Check ''ck_api_client_quota_usage_scope_values'' (In_list (Column ''scope'') [''daily'', ''lifetime'']),
      Check ''ck_api_client_quota_usage_request_count_nonnegative'' (At_least (Column ''request_count'') (Int_const 0)),
      Check ''ck_api_client_quota_usage_token_consumed_nonnegative'' (At_least (Column ''token_consumed'') (Int_const 0)),
      Check ''ck_api_client_quota_usage_token_reserved_nonnegative'' (At_least (Column ''token_reserved'') (Int_const 0)),
      Check ''ck_api_client_quota_usage_version_positive'' (Greater (Column ''version'') (Int_const 0)),
      Foreign_key ''fk_api_client_quota_usage_api_client_id_api_client'' ''api_client_id'' ''api_client'' ''id'',
      Primary_key ''pk_api_client_quota_usage'' [''id''], Unique ''uq_api_client_quota_scope_period'' [''api_client_id'', ''scope'', ''period_start'']]\<rparr>"

definition api_call_operation_table :: table where
  "api_call_operation_table = \<lparr>tb_name = ''api_call_operation'',
    tb_columns = [required ''id'' (Varchar 36), required ''api_client_id'' (Varchar 36), required ''credential_id'' (Varchar 36),
      required ''client_request_id'' (Varchar 128), required ''request_fingerprint'' (Varchar 128), required ''endpoint'' (Varchar 64),
      required ''method'' (Varchar 8), required ''model_id'' (Varchar 255), required ''status'' (Varchar 16), required ''reserved_tokens'' Bigint_column,
      required ''prompt_tokens'' Bigint_column, required ''completion_tokens'' Bigint_column, required ''total_tokens'' Bigint_column,
      optional ''credit_settlement_id'' (Varchar 128), optional ''usage_operation_id'' (Varchar 128), optional ''terminal_http_status'' Int_column,
      optional ''terminal_code'' (Varchar 64), required ''started_at'' Bigint_column, optional ''completed_at'' Bigint_column,
      required ''updated_at'' Bigint_column],
    tb_constraints = [Check ''ck_api_call_operation_status_values'' (In_list (Column ''status'') [''pending'', ''completed'', ''rejected'', ''abandoned'']),
      Check ''ck_api_call_operation_completion_order'' (Or_cond (Is_null (Column ''completed_at'')) (At_least (Column ''completed_at'') (Column ''started_at''))),
      Check ''ck_api_call_operation_completion_tokens_nonnegative'' (At_least (Column ''completion_tokens'') (Int_const 0)),
      Check ''ck_api_call_operation_prompt_tokens_nonnegative'' (At_least (Column ''prompt_tokens'') (Int_const 0)),
      Check ''ck_api_call_operation_reserved_tokens_nonnegative'' (At_least (Column ''reserved_tokens'') (Int_const 0)),
      Check ''ck_api_call_operation_http_status'' (Or_cond (Is_null (Column ''terminal_http_status'')) (Between (Column ''terminal_http_status'') (Int_const 100) (Int_const 599))),
      Check ''ck_api_call_operation_token_total_matches'' (Equals (Column ''total_tokens'') (Plus (Column ''prompt_tokens'') (Column ''completion_tokens''))),
      Check ''ck_api_call_operation_total_tokens_nonnegative'' (At_least (Column ''total_tokens'') (Int_const 0)),
      Foreign_key ''fk_api_call_operation_api_client_id_api_client'' ''api_client_id'' ''api_client'' ''id'',
      Foreign_key ''fk_api_call_operation_credential_id_api_client_credential'' ''credential_id'' ''api_client_credential'' ''id'',
      Primary_key ''pk_api_call_operation'' [''id''], Unique ''uq_api_call_operation_client_request'' [''api_client_id'', ''client_request_id'']]\<rparr>"

definition api_call_event_table :: table where
  "api_call_event_table = \<lparr>tb_name = ''api_call_event'',
    tb_columns = [required ''id'' (Varchar 36), required ''server_request_id'' (Varchar 128), required ''client_request_id'' (Varchar 128),
      optional ''operation_id'' (Varchar 36), optional ''api_client_id'' (Varchar 36), optional ''credential_id'' (Varchar 36),
      required ''endpoint'' (Varchar 64), required ''method'' (Varchar 8), optional ''model_id'' (Varchar 255), required ''stream'' Bool_column,
      required ''outcome'' (Varchar 24), required ''stage'' (Varchar 24), required ''http_status'' Int_column, required ''business_code'' (Varchar 64),
      required ''retryable'' Bool_column, required ''duration_ms'' Bigint_column, required ''prompt_tokens'' Bigint_column,
      required ''completion_tokens'' Bigint_column, required ''total_tokens'' Bigint_column, required ''charged_micro'' Bigint_column,
      required ''qps_observed'' Int_column, required ''concurrency_observed'' Int_column, required ''daily_requests_after'' Bigint_column,
      required ''daily_tokens_after'' Bigint_column, required ''total_requests_after'' Bigint_column, required ''total_tokens_after'' Bigint_column,
      optional ''remote_ip_hash'' (Varchar 64), optional ''user_agent_family'' (Varchar 64), required ''started_at'' Bigint_column,
      required ''completed_at'' Bigint_column, required ''created_at'' Bigint_column],
    tb_constraints = [Check ''ck_api_call_event_outcome_values'' (In_list (Column ''outcome'') [''success'', ''cancelled'', ''rejected'', ''provider_error'', ''system_error'', ''abandoned'']),
      Check ''ck_api_call_event_stage_values'' (In_list (Column ''stage'') [''request'', ''auth'', ''permission'', ''rate_limit'', ''quota'', ''credit'', ''provider'', ''response'', ''recovery'']),
      Check ''ck_api_call_event_charged_micro_nonnegative'' (At_least (Column ''charged_micro'') (Int_const 0)),
      Check ''ck_api_call_event_completion_order'' (At_least (Column ''completed_at'') (Column ''started_at'')),
      Check ''ck_api_call_event_completion_tokens_nonnegative'' (At_least (Column ''completion_tokens'') (Int_const 0)),
      Check ''ck_api_call_event_concurrency_nonnegative'' (At_least (Column ''concurrency_observed'') (Int_const 0)),
      Check ''ck_api_call_event_daily_requests_nonnegative'' (At_least (Column ''daily_requests_after'') (Int_const 0)),
      Check ''ck_api_call_event_daily_tokens_nonnegative'' (At_least (Column ''daily_tokens_after'') (Int_const 0)),
      Check ''ck_api_call_event_duration_nonnegative'' (At_least (Column ''duration_ms'') (Int_const 0)),
      Check ''ck_api_call_event_http_status'' (Between (Column ''http_status'') (Int_const 100) (Int_const 599)),
      Check ''ck_api_call_event_prompt_tokens_nonnegative'' (At_least (Column ''prompt_tokens'') (Int_const 0)),
      Check ''ck_api_call_event_qps_nonnegative'' (At_least (Column ''qps_observed'') (Int_const 0)),
      Check ''ck_api_call_event_total_requests_nonnegative'' (At_least (Column ''total_requests_after'') (Int_const 0)),
      Check ''ck_api_call_event_token_total_matches'' (Equals (Column ''total_tokens'') (Plus (Column ''prompt_tokens'') (Column ''completion_tokens''))),
      Check ''ck_api_call_event_total_tokens_after_nonnegative'' (At_least (Column ''total_tokens_after'') (Int_const 0)),
      Foreign_key ''fk_api_call_event_api_client_id_api_client'' ''api_client_id'' ''api_client'' ''id'',
      Foreign_key ''fk_api_call_event_credential_id_api_client_credential'' ''credential_id'' ''api_client_credential'' ''id'',
      Foreign_key ''fk_api_call_event_operation_id_api_call_operation'' ''operation_id'' ''api_call_operation'' ''id'',
      Primary_key ''pk_api_call_event'' [''id''], Unique ''uq_api_call_event_operation_id'' [''operation_id''],
      Unique ''uq_api_call_event_server_request_id'' [''server_request_id'']]\<rparr>"

subsection \<open>The migrations\<close>

definition migration_0001 :: migration where
  "migration_0001 = \<lparr>mg_revision = ''0001'', mg_down_revision = None,
    mg_upgrade = [Create_table api_client_table,
      Create_index \<lparr>ix_name = ''ix_api_client_status_name'', ix_table = ''api_client'', ix_columns = [''status'', ''name'']\<rparr>,
      Create_table api_client_admin_audit_table,
      Create_index \<lparr>ix_name = ''ix_api_client_admin_audit_api_client_created'', ix_table = ''api_client_admin_audit'', ix_columns = [''api_client_id'', ''created_at'', ''id'']\<rparr>,
      Create_table control_outbox_table,
      Create_index \<lparr>ix_name = ''ix_control_outbox_aggregate'', ix_table = ''control_outbox'', ix_columns = [''aggregate_type'', ''aggregate_id'']\<rparr>,
      Create_index \<lparr>ix_name = ''ix_control_outbox_target_status_available'', ix_table = ''control_outbox'', ix_columns = [''target'', ''status'', ''available_at'', ''id'']\<rparr>,
      Create_table api_client_binding_table, Create_table api_client_credential_table,
      Create_index \<lparr>ix_name = ''ix_api_client_credential_api_client_id'', ix_table = ''api_client_credential'', ix_columns = [''api_client_id'']\<rparr>,
      Create_index \<lparr>ix_name = ''ix_api_client_credential_replaced_by_id'', ix_table = ''api_client_credential'', ix_columns = [''replaced_by_id'']\<rparr>,
      Create_table api_client_quota_usage_table, Create_table api_call_operation_table,
      Create_index \<lparr>ix_name = ''ix_api_call_operation_credential_id'', ix_table = ''api_call_operation'', ix_columns = [''credential_id'']\<rparr>,
      Create_index \<lparr>ix_name = ''ix_api_call_operation_status_updated'', ix_table = ''api_call_operation'', ix_columns = [''status'', ''updated_at'', ''id'']\<rparr>,
      Create_table api_call_event_table,
      Create_index \<lparr>ix_name = ''ix_api_call_event_api_client_created'', ix_table = ''api_call_event'', ix_columns = [''api_client_id'', ''created_at'', ''id'']\<rparr>,
      Create_index \<lparr>ix_name = ''ix_api_call_event_credential_id'', ix_table = ''api_call_event'', ix_columns = [''credential_id'']\<rparr>],
    mg_downgrade = [Drop_index ''ix_api_call_event_credential_id'' ''api_call_event'', Drop_index ''ix_api_call_event_api_client_created'' ''api_call_event'',
      Drop_table ''api_call_event'', Drop_index ''ix_api_call_operation_status_updated'' ''api_call_operation'',
      Drop_index ''ix_api_call_operation_credential_id'' ''api_call_operation'', Drop_table ''api_call_operation'', Drop_table ''api_client_quota_usage'',
      Drop_index ''ix_api_client_credential_replaced_by_id'' ''api_client_credential'',
      Drop_index ''ix_api_client_credential_api_client_id'' ''api_client_credential'', Drop_table ''api_client_credential'',
      Drop_table ''api_client_binding'', Drop_index ''ix_control_outbox_target_status_available'' ''control_outbox'',
      Drop_index ''ix_control_outbox_aggregate'' ''control_outbox'', Drop_table ''control_outbox'',
      Drop_index ''ix_api_client_admin_audit_api_client_created'' ''api_client_admin_audit'', Drop_table ''api_client_admin_audit'',
      Drop_index ''ix_api_client_status_name'' ''api_client'', Drop_table ''api_client'']\<rparr>"

definition migration_0002 :: migration where
  "migration_0002 = \<lparr>mg_revision = ''0002'', mg_down_revision = (Some ''0001''),
    mg_upgrade = [Add_column ''api_call_event'' ((required ''quota_overrun'' Bool_column)\<lparr>co_default := Some False\<rparr>),
      Alter_default ''api_call_event'' ''quota_overrun'' None],
    mg_downgrade = [Drop_column ''api_call_event'' ''quota_overrun'']\<rparr>"

definition migration_0003 :: migration where
  "migration_0003 = \<lparr>mg_revision = ''0003'', mg_down_revision = (Some ''0002''),
    mg_upgrade = [Add_column ''api_call_operation'' ((required ''stream'' Bool_column)\<lparr>co_default := Some False\<rparr>),
      Add_column ''api_call_operation'' ((required ''provider_usage_recorded'' Bool_column)\<lparr>co_default := Some False\<rparr>),
      Alter_default ''api_call_operation'' ''stream'' None, Alter_default ''api_call_operation'' ''provider_usage_recorded'' None],
    mg_downgrade = [Drop_column ''api_call_operation'' ''provider_usage_recorded'', Drop_column ''api_call_operation'' ''stream'']\<rparr>"

definition migration_0004 :: migration where
  "migration_0004 = \<lparr>mg_revision = ''0004'', mg_down_revision = (Some ''0003''),
    mg_upgrade = [Create_index \<lparr>ix_name = ''ix_api_call_event_created'', ix_table = ''api_call_event'', ix_columns = [''created_at'', ''id'']\<rparr>,
      Create_index \<lparr>ix_name = ''ix_api_client_admin_audit_created'', ix_table = ''api_client_admin_audit'', ix_columns = [''created_at'', ''id'']\<rparr>],
    mg_downgrade = [Drop_index ''ix_api_client_admin_audit_created'' ''api_client_admin_audit'', Drop_index ''ix_api_call_event_created'' ''api_call_event'']\<rparr>"

definition MIGRATIONS :: "migration list" where
  "MIGRATIONS = [migration_0001, migration_0002, migration_0003, migration_0004]"

end
