(* ===== verification/Orm.thy ===== *)
theory Orm
  imports Migrations
begin

text \<open>
  The tables the ORM classes of \<open>backend/app/models\<close> declare: columns, keys and the arguments of the
  table, with the names that the naming convention of \<open>models/base.py\<close> gives to constraints.
\<close>

subsection \<open>Classes\<close>

datatype orm_column = Key column | Plain column | Referring column str str

record orm_class =
  oc_table :: str
  oc_columns :: "orm_column list"
  oc_args :: "constraint list"
  oc_indexes :: "(str \<times> str list) list"

fun plain_column :: "orm_column \<Rightarrow> column" where
  "plain_column (Key c) = c"
| "plain_column (Plain c) = c"
| "plain_column (Referring c _ _) = c"

text \<open>The naming convention: a check gets a prefix, the keys are named after tables and columns; unique
  constraints and indexes are named by the class.\<close>

fun column_constraints :: "str \<Rightarrow> orm_column \<Rightarrow> constraint list" where
  "column_constraints t (Referring c r k) = [Foreign_key (''fk_'' @ t @ ''_'' @ co_name c @ ''_'' @ r) (co_name c) r k]"
| "column_constraints t _ = []"

fun named_constraint :: "str \<Rightarrow> constraint \<Rightarrow> constraint" where
  "named_constraint t (Check n c) = Check (''ck_'' @ t @ ''_'' @ n) c"
| "named_constraint t k = k"

fun key_columns :: "orm_column list \<Rightarrow> str list" where
  "key_columns [] = []"
| "key_columns (Key c # cs) = co_name c # key_columns cs"
| "key_columns (_ # cs) = key_columns cs"

definition table_of_class :: "orm_class \<Rightarrow> table" where
  "table_of_class k = \<lparr>tb_name = oc_table k, tb_columns = map plain_column (oc_columns k),
     tb_constraints = Primary_key (''pk_'' @ oc_table k) (key_columns (oc_columns k)) #
       concat (map (column_constraints (oc_table k)) (oc_columns k)) @ map (named_constraint (oc_table k)) (oc_args k)\<rparr>"

definition indexes_of_class :: "orm_class \<Rightarrow> index list" where
  "indexes_of_class k = map (\<lambda>(n, cs). \<lparr>ix_name = n, ix_table = oc_table k, ix_columns = cs\<rparr>) (oc_indexes k)"

subsection \<open>The values of the status columns\<close>

definition CLIENT_STATUSES :: "str list" where
  "CLIENT_STATUSES = [''active'', ''disabled'', ''archived'']"

definition CREDENTIAL_STATUSES :: "str list" where
  "CREDENTIAL_STATUSES = [''active'', ''revoked'']"

definition BINDING_SYNC_STATUSES :: "str list" where
  "BINDING_SYNC_STATUSES = [''pending'', ''active'', ''disabled'', ''error'']"

definition QUOTA_SCOPES :: "str list" where
  "QUOTA_SCOPES = [''daily'', ''lifetime'']"

definition OPERATION_STATUSES :: "str list" where
  "OPERATION_STATUSES = [''pending'', ''completed'', ''rejected'', ''abandoned'']"

definition OUTBOX_TARGETS :: "str list" where
  "OUTBOX_TARGETS = [''bifrost'', ''openwebui'']"

definition OUTBOX_ACTIONS :: "str list" where
  "OUTBOX_ACTIONS = [''create'', ''update'', ''disable'', ''compensate'']"

definition OUTBOX_STATUSES :: "str list" where
  "OUTBOX_STATUSES = [''pending'', ''processing'', ''completed'', ''failed'']"

subsection \<open>The declarations\<close>

definition api_client_class :: orm_class where
  "api_client_class = \<lparr>oc_table = ''api_client'',
    oc_columns = [Key (required ''id'' (Varchar 36)), Plain (required ''name'' (Varchar 128)), Plain (optional ''description'' Text_column),
      Plain (required ''status'' (Varchar 16)), Plain (required ''allowed_endpoints'' Json_column), Plain (required ''allowed_models'' Json_column),
      Plain (required ''group_ids'' Json_column), Plain (required ''qps_limit'' Int_column), Plain (required ''concurrency_limit'' Int_column),
      Plain (optional ''daily_request_limit'' Bigint_column), Plain (optional ''daily_token_limit'' Bigint_column),
      Plain (optional ''total_request_limit'' Bigint_column), Plain (optional ''total_token_limit'' Bigint_column),
      Plain (required ''max_output_tokens_per_request'' Int_column), Plain (required ''version'' Int_column), Plain (required ''created_by'' (Varchar 128)),
      Plain (required ''updated_by'' (Varchar 128)), Plain (required ''created_at'' Bigint_column), Plain (required ''updated_at'' Bigint_column),
      Plain (optional ''disabled_at'' Bigint_column), Plain (optional ''archived_at'' Bigint_column)],
    oc_args = [Unique ''uq_api_client_name'' [''name''], Check ''name_length'' (Between (Length_of (Column ''name'')) (Int_const 1) (Int_const 128)),
      Check ''description_length'' (Or_cond (Is_null (Column ''description'')) (At_most (Length_of (Column ''description'')) (Int_const 1024))),
      Check ''status_values'' (In_list (Column ''status'') CLIENT_STATUSES), Check ''qps_positive'' (Greater (Column ''qps_limit'') (Int_const 0)),
      Check ''concurrency_positive'' (Greater (Column ''concurrency_limit'') (Int_const 0)),
      Check ''daily_requests_positive'' (Or_cond (Is_null (Column ''daily_request_limit'')) (Greater (Column ''daily_request_limit'') (Int_const 0))),
      Check ''daily_tokens_positive'' (Or_cond (Is_null (Column ''daily_token_limit'')) (Greater (Column ''daily_token_limit'') (Int_const 0))),
      Check ''total_requests_positive'' (Or_cond (Is_null (Column ''total_request_limit'')) (Greater (Column ''total_request_limit'') (Int_const 0))),
      Check ''total_tokens_positive'' (Or_cond (Is_null (Column ''total_token_limit'')) (Greater (Column ''total_token_limit'') (Int_const 0))),
      Check ''max_output_tokens_positive'' (Greater (Column ''max_output_tokens_per_request'') (Int_const 0)),
      Check ''version_positive'' (Greater (Column ''version'') (Int_const 0))],
    oc_indexes = [(''ix_api_client_status_name'', [''status'', ''name''])]\<rparr>"

definition api_client_admin_audit_class :: orm_class where
  "api_client_admin_audit_class = \<lparr>oc_table = ''api_client_admin_audit'',
    oc_columns = [Key (required ''id'' (Varchar 36)), Plain (required ''actor_user_id'' (Varchar 128)),
      Referring (optional ''api_client_id'' (Varchar 36)) ''api_client'' ''id'', Plain (required ''target_type'' (Varchar 32)),
      Plain (optional ''target_id'' (Varchar 128)), Plain (required ''action'' (Varchar 64)), Plain (required ''changed_fields'' Json_column),
      Plain (required ''before_summary'' Json_column), Plain (required ''after_summary'' Json_column), Plain (required ''created_at'' Bigint_column)],
    oc_args = [Check ''target_type_values'' (In_list (Column ''target_type'') AUDIT_TARGET_TYPES),
      Check ''actor_user_id_length'' (Between (Length_of (Column ''actor_user_id'')) (Int_const 1) (Int_const 128)),
      Check ''target_id_length'' (Or_cond (Is_null (Column ''target_id'')) (Between (Length_of (Column ''target_id'')) (Int_const 1) (Int_const 128))),
      Check ''action_length'' (Between (Length_of (Column ''action'')) (Int_const 1) (Int_const 64))],
    oc_indexes = [(''ix_api_client_admin_audit_api_client_created'', [''api_client_id'', ''created_at'', ''id'']),
      (''ix_api_client_admin_audit_created'', [''created_at'', ''id''])]\<rparr>"

definition control_outbox_class :: orm_class where
  "control_outbox_class = \<lparr>oc_table = ''control_outbox'',
    oc_columns = [Key (required ''id'' (Varchar 36)), Plain (required ''aggregate_type'' (Varchar 64)), Plain (required ''aggregate_id'' (Varchar 128)),
      Plain (required ''target'' (Varchar 16)), Plain (required ''action'' (Varchar 16)), Plain (required ''idempotency_key'' (Varchar 128)),
      Plain (required ''payload'' Json_column), Plain (required ''status'' (Varchar 16)), Plain (required ''attempt_count'' Int_column),
      Plain (required ''available_at'' Bigint_column), Plain (optional ''locked_at'' Bigint_column), Plain (optional ''completed_at'' Bigint_column),
      Plain (optional ''last_error_code'' (Varchar 64)), Plain (required ''created_at'' Bigint_column), Plain (required ''updated_at'' Bigint_column)],
    oc_args = [Unique ''uq_control_outbox_idempotency_key'' [''idempotency_key''], Check ''target_values'' (In_list (Column ''target'') OUTBOX_TARGETS),
      Check ''action_values'' (In_list (Column ''action'') OUTBOX_ACTIONS), Check ''status_values'' (In_list (Column ''status'') OUTBOX_STATUSES),
      Check ''attempt_count_bounds'' (Between (Column ''attempt_count'') (Int_const 0) (Int_const 1000)),
      Check ''error_code_length'' (Or_cond (Is_null (Column ''last_error_code'')) (At_most (Length_of (Column ''last_error_code'')) (Int_const 64)))],
    oc_indexes = [(''ix_control_outbox_aggregate'', [''aggregate_type'', ''aggregate_id'']),
      (''ix_control_outbox_target_status_available'', [''target'', ''status'', ''available_at'', ''id''])]\<rparr>"

definition api_client_binding_class :: orm_class where
  "api_client_binding_class = \<lparr>oc_table = ''api_client_binding'',
    oc_columns = [Key (required ''id'' (Varchar 36)), Referring (required ''api_client_id'' (Varchar 36)) ''api_client'' ''id'',
      Plain (optional ''zangpu_service_user_id'' (Varchar 128)), Plain (optional ''bifrost_virtual_key_id'' (Varchar 128)),
      Plain (optional ''bifrost_value_ciphertext'' Text_column), Plain (optional ''bifrost_value_key_version'' (Varchar 64)),
      Plain (required ''bifrost_config_hash'' (Varchar 128)), Plain (required ''sync_status'' (Varchar 16)),
      Plain (optional ''last_sync_error_code'' (Varchar 64)), Plain (required ''version'' Int_column), Plain (required ''created_at'' Bigint_column),
      Plain (required ''updated_at'' Bigint_column)],
    oc_args = [Unique ''uq_api_client_binding_api_client_id'' [''api_client_id''], Unique ''uq_api_client_binding_service_user_id'' [''zangpu_service_user_id''],
      Unique ''uq_api_client_binding_bifrost_key_id'' [''bifrost_virtual_key_id''],
      Check ''sync_status_values'' (In_list (Column ''sync_status'') BINDING_SYNC_STATUSES),
      Check ''synced_remote_fields'' (Or_cond (Not_in (Column ''sync_status'') [''active'', ''disabled'']) (And_cond (And_cond (And_cond (Is_not_null (Column ''zangpu_service_user_id'')) (Is_not_null (Column ''bifrost_virtual_key_id''))) (Is_not_null (Column ''bifrost_value_ciphertext''))) (Is_not_null (Column ''bifrost_value_key_version'')))),
      Check ''error_code_length'' (Or_cond (Is_null (Column ''last_sync_error_code'')) (At_most (Length_of (Column ''last_sync_error_code'')) (Int_const 64))),
      Check ''version_positive'' (Greater (Column ''version'') (Int_const 0))],
    oc_indexes = []\<rparr>"

definition api_client_credential_class :: orm_class where
  "api_client_credential_class = \<lparr>oc_table = ''api_client_credential'',
    oc_columns = [Key (required ''id'' (Varchar 36)), Referring (required ''api_client_id'' (Varchar 36)) ''api_client'' ''id'',
      Plain (required ''key_id'' (Varchar 80)), Plain (required ''secret_ciphertext'' Text_column), Plain (required ''secret_nonce'' (Varchar 64)),
      Plain (required ''master_key_id'' (Varchar 64)), Plain (required ''secret_fingerprint'' (Varchar 64)), Plain (required ''status'' (Varchar 16)),
      Plain (optional ''expires_at'' Bigint_column), Plain (optional ''last_used_at'' Bigint_column),
      Referring (optional ''replaced_by_id'' (Varchar 36)) ''api_client_credential'' ''id'', Plain (required ''created_by'' (Varchar 128)),
      Plain (optional ''revoked_by'' (Varchar 128)), Plain (required ''created_at'' Bigint_column), Plain (optional ''revoked_at'' Bigint_column)],
    oc_args = [Unique ''uq_api_client_credential_key_id'' [''key_id''],
      Check ''key_id_length'' (Between (Length_of (Column ''key_id'')) (Int_const 8) (Int_const 80)),
      Check ''key_id_prefix'' (Equals (Substr (Column ''key_id'') 1 4) (Text_const ''zpk_'')),
      Check ''status_values'' (In_list (Column ''status'') CREDENTIAL_STATUSES),
      Check ''expires_at_positive'' (Or_cond (Is_null (Column ''expires_at'')) (Greater (Column ''expires_at'') (Int_const 0)))],
    oc_indexes = [(''ix_api_client_credential_api_client_id'', [''api_client_id'']), (''ix_api_client_credential_replaced_by_id'', [''replaced_by_id''])]\<rparr>"

definition api_client_quota_usage_class :: orm_class where
  "api_client_quota_usage_class = \<lparr>oc_table = ''api_client_quota_usage'',
    oc_columns = [Key (required ''id'' (Varchar 36)), Referring (required ''api_client_id'' (Varchar 36)) ''api_client'' ''id'',
      Plain (required ''scope'' (Varchar 16)), Plain (required ''period_start'' Bigint_column), Plain (required ''request_count'' Bigint_column),
      Plain (required ''token_reserved'' Bigint_column), Plain (required ''token_consumed'' Bigint_column), Plain (required ''version'' Int_column),
      Plain (required ''updated_at'' Bigint_column)],
    oc_args = [Unique ''uq_api_client_quota_scope_period'' [''api_client_id'', ''scope'', ''period_start''],
      Check ''scope_values'' (In_list (Column ''scope'') QUOTA_SCOPES),
      Check ''scope_period'' (Or_cond (And_cond (Equals (Column ''scope'') (Text_const ''daily'')) (Greater (Column ''period_start'') (Int_const 0))) (And_cond (Equals (Column ''scope'') (Text_const ''lifetime'')) (Equals (Column ''period_start'') (Int_const 0)))),
      Check ''request_count_nonnegative'' (At_least (Column ''request_count'') (Int_const 0)),
      Check ''token_reserved_nonnegative'' (At_least (Column ''token_reserved'') (Int_const 0)),
      Check ''token_consumed_nonnegative'' (At_least (Column ''token_consumed'') (Int_const 0)),
      Check ''version_positive'' (Greater (Column ''version'') (Int_const 0))],
    oc_indexes = []\<rparr>"

definition api_call_operation_class :: orm_class where
  "api_call_operation_class = \<lparr>oc_table = ''api_call_operation'',
    oc_columns = [Key (required ''id'' (Varchar 36)), Referring (required ''api_client_id'' (Varchar 36)) ''api_client'' ''id'',
      Referring (required ''credential_id'' (Varchar 36)) ''api_client_credential'' ''id'', Plain (required ''client_request_id'' (Varchar 128)),
      Plain (required ''request_fingerprint'' (Varchar 128)), Plain (required ''endpoint'' (Varchar 64)), Plain (required ''method'' (Varchar 8)),
      Plain (required ''model_id'' (Varchar 255)), Plain (required ''stream'' Bool_column), Plain (required ''status'' (Varchar 16)),
      Plain (required ''reserved_tokens'' Bigint_column), Plain (required ''prompt_tokens'' Bigint_column),
      Plain (required ''completion_tokens'' Bigint_column), Plain (required ''total_tokens'' Bigint_column),
      Plain (required ''provider_usage_recorded'' Bool_column), Plain (optional ''credit_settlement_id'' (Varchar 128)),
      Plain (optional ''usage_operation_id'' (Varchar 128)), Plain (optional ''terminal_http_status'' Int_column),
      Plain (optional ''terminal_code'' (Varchar 64)), Plain (required ''started_at'' Bigint_column), Plain (optional ''completed_at'' Bigint_column),
      Plain (required ''updated_at'' Bigint_column)],
    oc_args = [Unique ''uq_api_call_operation_client_request'' [''api_client_id'', ''client_request_id''],
      Check ''status_values'' (In_list (Column ''status'') OPERATION_STATUSES),
      Check ''reserved_tokens_nonnegative'' (At_least (Column ''reserved_tokens'') (Int_const 0)),
      Check ''prompt_tokens_nonnegative'' (At_least (Column ''prompt_tokens'') (Int_const 0)),
      Check ''completion_tokens_nonnegative'' (At_least (Column ''completion_tokens'') (Int_const 0)),
      Check ''total_tokens_nonnegative'' (At_least (Column ''total_tokens'') (Int_const 0)),
      Check ''token_total_matches'' (Equals (Column ''total_tokens'') (Plus (Column ''prompt_tokens'') (Column ''completion_tokens''))),
      Check ''http_status'' (Or_cond (Is_null (Column ''terminal_http_status'')) (Between (Column ''terminal_http_status'') (Int_const 100) (Int_const 599))),
      Check ''completion_order'' (Or_cond (Is_null (Column ''completed_at'')) (At_least (Column ''completed_at'') (Column ''started_at'')))],
    oc_indexes = [(''ix_api_call_operation_credential_id'', [''credential_id'']), (''ix_api_call_operation_status_updated'', [''status'', ''updated_at'', ''id''])]\<rparr>"

definition api_call_event_class :: orm_class where
  "api_call_event_class = \<lparr>oc_table = ''api_call_event'',
    oc_columns = [Key (required ''id'' (Varchar 36)), Plain (required ''server_request_id'' (Varchar 128)), Plain (required ''client_request_id'' (Varchar 128)),
      Referring (optional ''operation_id'' (Varchar 36)) ''api_call_operation'' ''id'',
      Referring (optional ''api_client_id'' (Varchar 36)) ''api_client'' ''id'',
      Referring (optional ''credential_id'' (Varchar 36)) ''api_client_credential'' ''id'', Plain (required ''endpoint'' (Varchar 64)),
      Plain (required ''method'' (Varchar 8)), Plain (optional ''model_id'' (Varchar 255)), Plain (required ''stream'' Bool_column),
      Plain (required ''outcome'' (Varchar 24)), Plain (required ''stage'' (Varchar 24)), Plain (required ''http_status'' Int_column),
      Plain (required ''business_code'' (Varchar 64)), Plain (required ''retryable'' Bool_column), Plain (required ''duration_ms'' Bigint_column),
      Plain (required ''quota_overrun'' Bool_column), Plain (required ''prompt_tokens'' Bigint_column),
      Plain (required ''completion_tokens'' Bigint_column), Plain (required ''total_tokens'' Bigint_column),
      Plain (required ''charged_micro'' Bigint_column), Plain (required ''qps_observed'' Int_column), Plain (required ''concurrency_observed'' Int_column),
      Plain (required ''daily_requests_after'' Bigint_column), Plain (required ''daily_tokens_after'' Bigint_column),
      Plain (required ''total_requests_after'' Bigint_column), Plain (required ''total_tokens_after'' Bigint_column),
      Plain (optional ''remote_ip_hash'' (Varchar 64)), Plain (optional ''user_agent_family'' (Varchar 64)), Plain (required ''started_at'' Bigint_column),
      Plain (required ''completed_at'' Bigint_column), Plain (required ''created_at'' Bigint_column)],
    oc_args = [Unique ''uq_api_call_event_server_request_id'' [''server_request_id''], Unique ''uq_api_call_event_operation_id'' [''operation_id''],
      Check ''outcome_values'' (In_list (Column ''outcome'') EVENT_OUTCOMES), Check ''stage_values'' (In_list (Column ''stage'') EVENT_STAGES),
      Check ''http_status'' (Between (Column ''http_status'') (Int_const 100) (Int_const 599)),
      Check ''duration_nonnegative'' (At_least (Column ''duration_ms'') (Int_const 0)),
      Check ''prompt_tokens_nonnegative'' (At_least (Column ''prompt_tokens'') (Int_const 0)),
      Check ''completion_tokens_nonnegative'' (At_least (Column ''completion_tokens'') (Int_const 0)),
      Check ''token_total_matches'' (Equals (Column ''total_tokens'') (Plus (Column ''prompt_tokens'') (Column ''completion_tokens''))),
      Check ''charged_micro_nonnegative'' (At_least (Column ''charged_micro'') (Int_const 0)),
      Check ''qps_nonnegative'' (At_least (Column ''qps_observed'') (Int_const 0)),
      Check ''concurrency_nonnegative'' (At_least (Column ''concurrency_observed'') (Int_const 0)),
      Check ''daily_requests_nonnegative'' (At_least (Column ''daily_requests_after'') (Int_const 0)),
      Check ''daily_tokens_nonnegative'' (At_least (Column ''daily_tokens_after'') (Int_const 0)),
      Check ''total_requests_nonnegative'' (At_least (Column ''total_requests_after'') (Int_const 0)),
      Check ''total_tokens_after_nonnegative'' (At_least (Column ''total_tokens_after'') (Int_const 0)),
      Check ''completion_order'' (At_least (Column ''completed_at'') (Column ''started_at''))],
    oc_indexes = [(''ix_api_call_event_api_client_created'', [''api_client_id'', ''created_at'', ''id'']), (''ix_api_call_event_created'', [''created_at'', ''id'']),
      (''ix_api_call_event_credential_id'', [''credential_id''])]\<rparr>"

definition ORM_CLASSES :: "orm_class list" where
  "ORM_CLASSES = [api_client_class, api_client_admin_audit_class, control_outbox_class, api_client_binding_class,
    api_client_credential_class, api_client_quota_usage_class, api_call_operation_class, api_call_event_class]"

definition orm_catalogue :: catalogue where
  "orm_catalogue = \<lparr>cg_tables = map table_of_class ORM_CLASSES, cg_indexes = concat (map indexes_of_class ORM_CLASSES)\<rparr>"

end
