(* ===== verification/Migration_Properties.thy ===== *)
theory Migration_Properties
  imports Orm
begin

text \<open>
  Properties of the migrations: they build the tables the ORM declares, each can be undone, and the
  constraints of the database they build are exactly the predicate \<open>db_ok\<close> that every transaction
  of the model keeps.
\<close>

subsection \<open>The migrations build the declared tables\<close>

definition same_set :: "'a list \<Rightarrow> 'a list \<Rightarrow> bool" where
  "same_set xs ys \<longleftrightarrow> length xs = length ys \<and> list_all (\<lambda>x. List.member ys x) xs \<and> list_all (\<lambda>y. List.member xs y) ys"

definition same_table :: "table \<Rightarrow> table \<Rightarrow> bool" where
  "same_table t u \<longleftrightarrow> tb_name t = tb_name u \<and> same_set (tb_columns t) (tb_columns u) \<and>
     same_set (tb_constraints t) (tb_constraints u)"

definition same_catalogue :: "catalogue \<Rightarrow> catalogue \<Rightarrow> bool" where
  "same_catalogue a b \<longleftrightarrow> list_all2 same_table (cg_tables a) (cg_tables b) \<and> same_set (cg_indexes a) (cg_indexes b)"

definition head :: "migrated option" where
  "head = upgrade_all MIGRATIONS (None, fresh_catalogue)"

definition constraints_of :: "catalogue \<Rightarrow> (str \<times> constraint list) list" where
  "constraints_of cg = map (\<lambda>t. (tb_name t, tb_constraints t)) (cg_tables cg)"

definition head_constraints :: "(str \<times> constraint list) list" where
  "head_constraints = map (\<lambda>t. (tb_name t, tb_constraints t)) [api_client_table, api_client_admin_audit_table,
     control_outbox_table, api_client_binding_table, api_client_credential_table, api_client_quota_usage_table,
     api_call_operation_table, api_call_event_table]"

lemma head_built: "\<exists>cg. upgrade_all MIGRATIONS (None, fresh_catalogue) = Some (Some ''0004'', cg) \<and>
    same_catalogue cg orm_catalogue \<and> constraints_of cg = head_constraints"
proof -
  have "case head of None \<Rightarrow> False | Some (r, cg) \<Rightarrow> r = Some ''0004'' \<and> same_catalogue cg orm_catalogue \<and>
      constraints_of cg = head_constraints"
    by code_simp
  then show ?thesis by (auto simp: head_def split: option.splits)
qed

text \<open>C22: The four migrations, run in order on an empty database, all succeed and leave the revision 0004 with
  exactly the tables, columns, constraints and indexes that the ORM classes of \<open>app/models\<close> declare.\<close>

theorem migrations_build_orm:
  "\<exists>cg. upgrade_all MIGRATIONS (None, fresh_catalogue) = Some (Some ''0004'', cg) \<and> same_catalogue cg orm_catalogue"
  using head_built by blast

text \<open>Each migration, undone right after it ran, gives back the database it ran on.\<close>

fun reversible :: "migration list \<Rightarrow> migrated \<Rightarrow> bool" where
  "reversible [] s = True"
| "reversible (m # ms) s = (case upgrade_one m s of None \<Rightarrow> False | Some s' \<Rightarrow> downgrade_one m s' = Some s \<and> reversible ms s')"


subsection \<open>What a catalogue demands of stored rows\<close>

definition passes :: "sql_cond \<Rightarrow> row \<Rightarrow> bool" where
  "passes c r \<longleftrightarrow> cond_value r c \<noteq> Some False"

text \<open>Rows with a null are not compared by a unique constraint and refer to nothing.\<close>

fun constraint_holds :: "(str \<Rightarrow> row list) \<Rightarrow> str \<Rightarrow> constraint \<Rightarrow> bool" where
  "constraint_holds tabs t (Check _ c) = list_all (passes c) (tabs t)"
| "constraint_holds tabs t (Primary_key _ cs) = distinct (map (\<lambda>r. map r cs) (tabs t))"
| "constraint_holds tabs t (Unique _ cs) = distinct (filter (\<lambda>vs. Null \<notin> set vs) (map (\<lambda>r. map r cs) (tabs t)))"
| "constraint_holds tabs t (Foreign_key _ c u k) = list_all (\<lambda>r. r c = Null \<or> r c \<in> set (map (\<lambda>r'. r' k) (tabs u))) (tabs t)"

definition catalogue_holds :: "catalogue \<Rightarrow> (str \<Rightarrow> row list) \<Rightarrow> bool" where
  "catalogue_holds cg tabs \<longleftrightarrow> list_all (\<lambda>t. list_all (constraint_holds tabs (tb_name t)) (tb_constraints t)) (cg_tables cg)"

text \<open>The rows of the model's tables, with the columns that a constraint mentions.\<close>

definition row_of :: "(str \<times> sql_value) list \<Rightarrow> row" where
  "row_of cells c = (case map_of cells c of None \<Rightarrow> Null | Some v \<Rightarrow> v)"

definition text_or_null :: "str option \<Rightarrow> sql_value" where
  "text_or_null v = (case v of None \<Rightarrow> Null | Some s \<Rightarrow> Text_value s)"

definition int_or_null :: "int option \<Rightarrow> sql_value" where
  "int_or_null v = (case v of None \<Rightarrow> Null | Some n \<Rightarrow> Int_value n)"

definition client_row :: "api_client \<Rightarrow> row" where
  "client_row c = row_of [(''id'', Text_value (ac_id c)), (''name'', Text_value (ac_name c)),
     (''description'', text_or_null (ac_description c)),
     (''status'', Text_value (case ac_status c of Client_active \<Rightarrow> ''active'' | Client_disabled \<Rightarrow> ''disabled'' | Client_archived \<Rightarrow> ''archived'')),
     (''qps_limit'', Int_value (ac_qps_limit c)), (''concurrency_limit'', Int_value (ac_concurrency_limit c)),
     (''daily_request_limit'', int_or_null (ac_daily_request_limit c)), (''daily_token_limit'', int_or_null (ac_daily_token_limit c)),
     (''total_request_limit'', int_or_null (ac_total_request_limit c)), (''total_token_limit'', int_or_null (ac_total_token_limit c)),
     (''max_output_tokens_per_request'', Int_value (ac_max_output_tokens c)), (''version'', Int_value (ac_version c))]"

definition credential_row :: "credential \<Rightarrow> row" where
  "credential_row c = row_of [(''id'', Text_value (cr_id c)), (''api_client_id'', Text_value (cr_client c)),
     (''key_id'', Text_value (cr_key_id c)),
     (''status'', Text_value (case cr_status c of Cred_active \<Rightarrow> ''active'' | Cred_revoked \<Rightarrow> ''revoked'')),
     (''expires_at'', int_or_null (cr_expires_at c)), (''replaced_by_id'', text_or_null (cr_replaced_by c))]"

definition binding_row :: "binding \<Rightarrow> row" where
  "binding_row b = row_of [(''id'', Text_value (bd_id b)), (''api_client_id'', Text_value (bd_client b)),
     (''zangpu_service_user_id'', text_or_null (bd_service_user_id b)), (''bifrost_virtual_key_id'', text_or_null (bd_virtual_key_id b)),
     (''bifrost_value_ciphertext'', text_or_null (bd_value_ciphertext b)),
     (''bifrost_value_key_version'', text_or_null (bd_value_key_version b)),
     (''sync_status'', Text_value (case bd_sync_status b of Sync_pending \<Rightarrow> ''pending'' | Sync_active \<Rightarrow> ''active''
        | Sync_disabled \<Rightarrow> ''disabled'' | Sync_error \<Rightarrow> ''error'')),
     (''last_sync_error_code'', text_or_null (bd_last_error b)), (''version'', Int_value (bd_version b))]"

definition quota_row_of :: "quota_row \<Rightarrow> row" where
  "quota_row_of q = row_of [(''id'', Text_value (qu_id q)), (''api_client_id'', Text_value (qu_client q)),
     (''scope'', Text_value (case qu_scope q of Daily \<Rightarrow> ''daily'' | Lifetime \<Rightarrow> ''lifetime'')), (''period_start'', Int_value (qu_period q)),
     (''request_count'', Int_value (qu_requests q)), (''token_reserved'', Int_value (qu_reserved q)),
     (''token_consumed'', Int_value (qu_consumed q)), (''version'', Int_value (qu_version q))]"

definition operation_row :: "operation \<Rightarrow> row" where
  "operation_row p = row_of [(''id'', Text_value (op_id p)), (''api_client_id'', Text_value (op_client p)),
     (''credential_id'', Text_value (op_credential p)), (''client_request_id'', Text_value (op_request_id p)),
     (''status'', Text_value (case op_state p of Pending \<Rightarrow> ''pending'' | Completed \<Rightarrow> ''completed'' | Rejected \<Rightarrow> ''rejected''
        | Abandoned \<Rightarrow> ''abandoned'')),
     (''reserved_tokens'', Int_value (op_reserved p)), (''prompt_tokens'', Int_value (op_prompt p)),
     (''completion_tokens'', Int_value (op_completion p)), (''total_tokens'', Int_value (op_total p)),
     (''terminal_http_status'', int_or_null (op_http_status p)), (''started_at'', Int_value (op_started_at p)),
     (''completed_at'', int_or_null (op_completed_at p))]"

definition event_row :: "event \<Rightarrow> row" where
  "event_row e = row_of [(''id'', Text_value (ev_id e)), (''server_request_id'', Text_value (ev_server_request_id e)),
     (''operation_id'', text_or_null (ev_operation e)), (''api_client_id'', text_or_null (ev_client e)),
     (''credential_id'', text_or_null (ev_credential e)), (''outcome'', Text_value (ev_outcome e)), (''stage'', Text_value (ev_stage e)),
     (''http_status'', Int_value (ev_http_status e)), (''duration_ms'', Int_value (ev_duration_ms e)),
     (''prompt_tokens'', Int_value (ev_prompt e)), (''completion_tokens'', Int_value (ev_completion e)),
     (''total_tokens'', Int_value (ev_total e)), (''charged_micro'', Int_value (ev_charged e)), (''qps_observed'', Int_value (ev_qps e)),
     (''concurrency_observed'', Int_value (ev_concurrency e)), (''daily_requests_after'', Int_value (ev_daily_requests e)),
     (''daily_tokens_after'', Int_value (ev_daily_tokens e)), (''total_requests_after'', Int_value (ev_total_requests e)),
     (''total_tokens_after'', Int_value (ev_total_tokens e)), (''started_at'', Int_value (ev_started_at e)),
     (''completed_at'', Int_value (ev_completed_at e))]"

definition outbox_row :: "outbox_item \<Rightarrow> row" where
  "outbox_row i = row_of [(''id'', Text_value (ob_id i)), (''idempotency_key'', Text_value (ob_idempotency_key i)),
     (''target'', Text_value (case ob_target i of Target_bifrost \<Rightarrow> ''bifrost'' | Target_openwebui \<Rightarrow> ''openwebui'')),
     (''action'', Text_value (case ob_action i of Act_create \<Rightarrow> ''create'' | Act_update \<Rightarrow> ''update'' | Act_disable \<Rightarrow> ''disable''
        | Act_compensate \<Rightarrow> ''compensate'')),
     (''status'', Text_value (case ob_status i of Ob_pending \<Rightarrow> ''pending'' | Ob_processing \<Rightarrow> ''processing''
        | Ob_completed \<Rightarrow> ''completed'' | Ob_failed \<Rightarrow> ''failed'')),
     (''attempt_count'', Int_value (ob_attempts i)), (''last_error_code'', text_or_null (ob_last_error i))]"

definition audit_row :: "audit \<Rightarrow> row" where
  "audit_row a = row_of [(''id'', Text_value (au_id a)), (''actor_user_id'', Text_value (au_actor a)),
     (''api_client_id'', text_or_null (au_client a)), (''target_type'', Text_value (au_target_type a)),
     (''target_id'', text_or_null (au_target_id a)), (''action'', Text_value (au_action a))]"

definition database_rows :: "db \<Rightarrow> str \<Rightarrow> row list" where
  "database_rows d t =
    (if t = ''api_client'' then map client_row (db_clients d)
     else if t = ''api_client_credential'' then map credential_row (db_credentials d)
     else if t = ''api_client_binding'' then map binding_row (db_bindings d)
     else if t = ''api_client_quota_usage'' then map quota_row_of (db_quotas d)
     else if t = ''api_call_operation'' then map operation_row (db_operations d)
     else if t = ''api_call_event'' then map event_row (db_events d)
     else if t = ''control_outbox'' then map outbox_row (db_outbox d)
     else if t = ''api_client_admin_audit'' then map audit_row (db_audits d)
     else [])"

lemma database_rows_simps [simp]:
  "database_rows d ''api_client'' = map client_row (db_clients d)"
  "database_rows d ''api_client_credential'' = map credential_row (db_credentials d)"
  "database_rows d ''api_client_binding'' = map binding_row (db_bindings d)"
  "database_rows d ''api_client_quota_usage'' = map quota_row_of (db_quotas d)"
  "database_rows d ''api_call_operation'' = map operation_row (db_operations d)"
  "database_rows d ''api_call_event'' = map event_row (db_events d)"
  "database_rows d ''control_outbox'' = map outbox_row (db_outbox d)"
  "database_rows d ''api_client_admin_audit'' = map audit_row (db_audits d)"
  by (simp_all add: database_rows_def)

subsection \<open>Conditions on cells\<close>

lemma row_of_simps [simp]:
  "row_of ((k, v) # cells) c = (if c = k then v else row_of cells c)" "row_of [] c = Null"
  by (simp_all add: row_of_def)

lemma null_simps [simp]:
  "text_or_null v = Null \<longleftrightarrow> v = None" "Null = text_or_null v \<longleftrightarrow> v = None" "int_or_null i = Null \<longleftrightarrow> i = None"
  "text_or_null v = Text_value s \<longleftrightarrow> v = Some s" "Text_value s = text_or_null v \<longleftrightarrow> v = Some s"
  "text_or_null v = text_or_null w \<longleftrightarrow> v = w"
  by (auto simp: text_or_null_def int_or_null_def split: option.splits)

text \<open>A condition holds of a row unless it is false, so it is passed part by part.\<close>

definition not_false :: "bool option \<Rightarrow> bool" where
  "not_false b \<longleftrightarrow> b \<noteq> Some False"

lemma not_false_simps [simp]:
  "not_false (Some x) = x" "not_false None" "not_false (sql_and a b) \<longleftrightarrow> not_false a \<and> not_false b"
  "not_false (sql_or a b) \<longleftrightarrow> not_false a \<or> not_false b"
  "not_false (map_option f v) = opt_all f v"
  by (auto simp: not_false_def sql_and_def sql_or_def opt_all_def split: option.splits)

lemma passes_value: "passes c r = not_false (cond_value r c)"
  by (simp add: passes_def not_false_def)

lemma leaf_simps [simp]:
  "sql_compare f (Int_value m) (Int_value n) = Some (f m n)"
  "sql_compare f (int_or_null v) (Int_value n) = map_option (\<lambda>m. f m n) v"
  "sql_in (Text_value s) xs = Some (s \<in> set xs)"
  "sql_not (Some b) = Some (\<not> b)"
  by (auto simp: sql_compare_def sql_in_def sql_not_def int_or_null_def split: option.splits)

lemma length_simps [simp]:
  "(case text_or_null v of Text_value s \<Rightarrow> Int_value (int (py_len s)) | _ \<Rightarrow> Null) = int_or_null (map_option (\<lambda>s. int (py_len s)) v)"
  by (cases v) (simp_all add: text_or_null_def int_or_null_def)

lemma opt_all_map [simp]: "opt_all P (map_option f v) = opt_all (\<lambda>x. P (f x)) v"
  by (cases v) simp_all

lemma opt_all_conj: "opt_all (\<lambda>x. P x \<and> Q x) v \<longleftrightarrow> opt_all P v \<and> opt_all Q v"
  by (cases v) simp_all

lemma none_or_all [simp]: "v = None \<or> opt_all P v \<longleftrightarrow> opt_all P v"
  by (cases v) simp_all

lemmas row_defs = client_row_def credential_row_def binding_row_def quota_row_of_def operation_row_def event_row_def
  outbox_row_def audit_row_def

fun checks :: "constraint list \<Rightarrow> sql_cond list" where
  "checks [] = []"
| "checks (Check _ c # ks) = c # checks ks"
| "checks (_ # ks) = checks ks"

fun keys :: "constraint list \<Rightarrow> constraint list" where
  "keys [] = []"
| "keys (Check _ c # ks) = keys ks"
| "keys (k # ks) = k # keys ks"

lemma constraints_split: "list_all (constraint_holds tabs t) ks \<longleftrightarrow>
    list_all (\<lambda>r. list_all (\<lambda>c. passes c r) (checks ks)) (tabs t) \<and> list_all (constraint_holds tabs t) (keys ks)"
  by (induction ks rule: checks.induct) (auto simp: list_all_iff)

lemma client_checks: "list_all (\<lambda>c. passes c (client_row x)) (checks (tb_constraints api_client_table)) \<longleftrightarrow> client_ok x"
  by (cases "ac_status x") (auto simp: api_client_table_def passes_value client_row_def client_ok_def opt_all_conj)

lemma credential_checks: "list_all (\<lambda>c. passes c (credential_row x)) (checks (tb_constraints api_client_credential_table)) \<longleftrightarrow> credential_ok x"
  by (cases "cr_status x") (auto simp: api_client_credential_table_def passes_value credential_row_def credential_ok_def opt_all_conj)

lemma binding_checks: "list_all (\<lambda>c. passes c (binding_row x)) (checks (tb_constraints api_client_binding_table)) \<longleftrightarrow> binding_ok x"
  by (cases "bd_sync_status x") (auto simp: api_client_binding_table_def passes_value binding_row_def binding_ok_def opt_all_conj)

lemma quota_checks: "list_all (\<lambda>c. passes c (quota_row_of x)) (checks (tb_constraints api_client_quota_usage_table)) \<longleftrightarrow> quota_ok x"
  by (cases "qu_scope x") (auto simp: api_client_quota_usage_table_def passes_value quota_row_of_def quota_ok_def)

lemma operation_checks: "list_all (\<lambda>c. passes c (operation_row x)) (checks (tb_constraints api_call_operation_table)) \<longleftrightarrow> operation_ok x"
  by (cases "op_state x") (auto simp: api_call_operation_table_def passes_value operation_row_def operation_ok_def opt_all_conj)

lemma event_checks: "list_all (\<lambda>c. passes c (event_row x)) (checks (tb_constraints api_call_event_table)) \<longleftrightarrow> event_ok x"
  by (simp add: api_call_event_table_def passes_value event_row_def event_ok_def EVENT_OUTCOMES_def EVENT_STAGES_def) blast

lemma outbox_checks: "list_all (\<lambda>c. passes c (outbox_row x)) (checks (tb_constraints control_outbox_table)) \<longleftrightarrow> outbox_ok x"
  by (cases "ob_target x"; cases "ob_action x"; cases "ob_status x")
    (auto simp: control_outbox_table_def passes_value outbox_row_def outbox_ok_def opt_all_conj)

lemma audit_checks: "list_all (\<lambda>c. passes c (audit_row x)) (checks (tb_constraints api_client_admin_audit_table)) \<longleftrightarrow> audit_ok x"
  by (auto simp: api_client_admin_audit_table_def passes_value audit_row_def audit_ok_def opt_all_conj AUDIT_TARGET_TYPES_def)

subsection \<open>Keys and references\<close>

lemma distinct_same: "(\<And>x y. f x = f y \<longleftrightarrow> g x = g y) \<Longrightarrow> distinct (map f xs) \<longleftrightarrow> distinct (map g xs)"
  by (induction xs) (auto simp: image_iff)

lemma distinct_text: "distinct (map (\<lambda>x. [Text_value (g x)]) xs) \<longleftrightarrow> distinct (map g xs)"
  by (rule distinct_same) simp

lemma unique_text: "distinct (filter (\<lambda>vs. Null \<notin> set vs) (map (\<lambda>x. [Text_value (g x)]) xs)) \<longleftrightarrow> distinct (map g xs)"
  by (simp add: filter_map o_def distinct_text)

lemma distinct_option: "distinct (map (\<lambda>x. [text_or_null (g x)]) xs) \<longleftrightarrow> distinct (map g xs)"
  by (rule distinct_same) simp

lemma unique_text_pair: "distinct (map (\<lambda>x. [Text_value (g x), Text_value (h x)]) xs) \<longleftrightarrow> distinct (map (\<lambda>x. (g x, h x)) xs)"
  by (rule distinct_same) simp

lemma text_image: "Text_value s \<in> (\<lambda>x. Text_value (h x)) ` A \<longleftrightarrow> s \<in> h ` A"
  by auto

lemma refers_option: "v = None \<or> text_or_null v \<in> (\<lambda>x. Text_value (h x)) ` A \<longleftrightarrow> opt_all (\<lambda>s. s \<in> h ` A) v"
  by (cases v) (auto simp: text_or_null_def)

lemma list_all_conj: "list_all (\<lambda>x. P x \<and> Q x) xs \<longleftrightarrow> list_all P xs \<and> list_all Q xs"
  by (auto simp: list_all_iff)

lemmas key_simps = o_def list.pred_map filter_map distinct_text unique_text distinct_option unique_text_pair text_image refers_option

lemma client_keys: "list_all (constraint_holds (database_rows d) ''api_client'') (keys (tb_constraints api_client_table)) \<longleftrightarrow>
    distinct (map ac_id (db_clients d)) \<and> distinct (map ac_name (db_clients d))"
  by (simp add: api_client_table_def client_row_def key_simps)

lemma credential_keys:
  "list_all (constraint_holds (database_rows d) ''api_client_credential'') (keys (tb_constraints api_client_credential_table)) \<longleftrightarrow>
    distinct (map cr_id (db_credentials d)) \<and> distinct (map cr_key_id (db_credentials d)) \<and>
    list_all (\<lambda>c. cr_client c \<in> set (map ac_id (db_clients d))) (db_credentials d) \<and>
    list_all (\<lambda>c. opt_all (\<lambda>k. k \<in> set (map cr_id (db_credentials d))) (cr_replaced_by c)) (db_credentials d)"
  by (simp add: api_client_credential_table_def client_row_def credential_row_def key_simps conj_ac)

lemma binding_keys:
  "list_all (constraint_holds (database_rows d) ''api_client_binding'') (keys (tb_constraints api_client_binding_table)) \<longleftrightarrow>
    distinct (map bd_id (db_bindings d)) \<and> distinct (map bd_client (db_bindings d)) \<and>
    distinct (filter (\<lambda>x. x \<noteq> None) (map bd_service_user_id (db_bindings d))) \<and>
    distinct (filter (\<lambda>x. x \<noteq> None) (map bd_virtual_key_id (db_bindings d))) \<and>
    list_all (\<lambda>b. bd_client b \<in> set (map ac_id (db_clients d))) (db_bindings d)"
  by (simp add: api_client_binding_table_def client_row_def binding_row_def key_simps conj_ac)

lemma quota_unique: "distinct (map (\<lambda>x. [Text_value (qu_client x),
     Text_value (case qu_scope x of Daily \<Rightarrow> ''daily'' | Lifetime \<Rightarrow> ''lifetime''), Int_value (qu_period x)]) xs) \<longleftrightarrow>
    distinct (map quota_key xs)"
  by (rule distinct_same) (auto simp: quota_key_def split: quota_scope.splits)

lemma quota_keys:
  "list_all (constraint_holds (database_rows d) ''api_client_quota_usage'') (keys (tb_constraints api_client_quota_usage_table)) \<longleftrightarrow>
    distinct (map qu_id (db_quotas d)) \<and> distinct (map quota_key (db_quotas d)) \<and>
    list_all (\<lambda>q. qu_client q \<in> set (map ac_id (db_clients d))) (db_quotas d)"
  by (simp add: api_client_quota_usage_table_def client_row_def quota_row_of_def key_simps quota_unique conj_ac)

lemma operation_keys:
  "list_all (constraint_holds (database_rows d) ''api_call_operation'') (keys (tb_constraints api_call_operation_table)) \<longleftrightarrow>
    distinct (map op_id (db_operations d)) \<and> distinct (map request_key (db_operations d)) \<and>
    list_all (\<lambda>p. op_client p \<in> set (map ac_id (db_clients d)) \<and>
      op_credential p \<in> set (map cr_id (db_credentials d))) (db_operations d)"
  by (simp add: api_call_operation_table_def client_row_def credential_row_def operation_row_def key_simps list_all_conj
      request_key_def[abs_def] conj_ac)

lemma event_keys:
  "list_all (constraint_holds (database_rows d) ''api_call_event'') (keys (tb_constraints api_call_event_table)) \<longleftrightarrow>
    distinct (map ev_id (db_events d)) \<and> distinct (map ev_server_request_id (db_events d)) \<and>
    distinct (filter (\<lambda>x. x \<noteq> None) (map ev_operation (db_events d))) \<and>
    list_all (\<lambda>e. opt_all (\<lambda>p. p \<in> set (map op_id (db_operations d))) (ev_operation e) \<and>
      opt_all (\<lambda>c. c \<in> set (map ac_id (db_clients d))) (ev_client e) \<and>
      opt_all (\<lambda>c. c \<in> set (map cr_id (db_credentials d))) (ev_credential e)) (db_events d)"
  by (simp add: api_call_event_table_def client_row_def credential_row_def operation_row_def event_row_def key_simps
      list_all_conj conj_ac)

lemma outbox_keys: "list_all (constraint_holds (database_rows d) ''control_outbox'') (keys (tb_constraints control_outbox_table)) \<longleftrightarrow>
    distinct (map ob_id (db_outbox d)) \<and> distinct (map ob_idempotency_key (db_outbox d))"
  by (simp add: control_outbox_table_def outbox_row_def key_simps conj_ac)

lemma audit_keys:
  "list_all (constraint_holds (database_rows d) ''api_client_admin_audit'') (keys (tb_constraints api_client_admin_audit_table)) \<longleftrightarrow>
    distinct (map au_id (db_audits d)) \<and>
    list_all (\<lambda>a. opt_all (\<lambda>c. c \<in> set (map ac_id (db_clients d))) (au_client a)) (db_audits d)"
  by (simp add: api_client_admin_audit_table_def client_row_def audit_row_def key_simps conj_ac)

subsection \<open>The database the migrations build\<close>

lemma holds_constraints: "catalogue_holds cg tabs \<longleftrightarrow>
    list_all (\<lambda>(t, ks). list_all (constraint_holds tabs t) ks) (constraints_of cg)"
  by (simp add: catalogue_holds_def constraints_of_def o_def list.pred_map)

lemma table_names: "tb_name api_client_table = ''api_client''" "tb_name api_client_admin_audit_table = ''api_client_admin_audit''"
  "tb_name control_outbox_table = ''control_outbox''" "tb_name api_client_binding_table = ''api_client_binding''"
  "tb_name api_client_credential_table = ''api_client_credential''"
  "tb_name api_client_quota_usage_table = ''api_client_quota_usage''"
  "tb_name api_call_operation_table = ''api_call_operation''" "tb_name api_call_event_table = ''api_call_event''"
  by (simp_all add: api_client_table_def api_client_admin_audit_table_def control_outbox_table_def api_client_binding_table_def
      api_client_credential_table_def api_client_quota_usage_table_def api_call_operation_table_def api_call_event_table_def)

lemma client_table: "list_all (constraint_holds (database_rows d) ''api_client'') (tb_constraints api_client_table) \<longleftrightarrow>
    list_all client_ok (db_clients d) \<and> list_all (constraint_holds (database_rows d) ''api_client'') (keys (tb_constraints api_client_table))"
  by (subst constraints_split) (simp only: database_rows_simps list.pred_map o_def client_checks)

lemma credential_table: "list_all (constraint_holds (database_rows d) ''api_client_credential'') (tb_constraints api_client_credential_table) \<longleftrightarrow>
    list_all credential_ok (db_credentials d) \<and> list_all (constraint_holds (database_rows d) ''api_client_credential'') (keys (tb_constraints api_client_credential_table))"
  by (subst constraints_split) (simp only: database_rows_simps list.pred_map o_def credential_checks)

lemma binding_table: "list_all (constraint_holds (database_rows d) ''api_client_binding'') (tb_constraints api_client_binding_table) \<longleftrightarrow>
    list_all binding_ok (db_bindings d) \<and> list_all (constraint_holds (database_rows d) ''api_client_binding'') (keys (tb_constraints api_client_binding_table))"
  by (subst constraints_split) (simp only: database_rows_simps list.pred_map o_def binding_checks)

lemma quota_table: "list_all (constraint_holds (database_rows d) ''api_client_quota_usage'') (tb_constraints api_client_quota_usage_table) \<longleftrightarrow>
    list_all quota_ok (db_quotas d) \<and> list_all (constraint_holds (database_rows d) ''api_client_quota_usage'') (keys (tb_constraints api_client_quota_usage_table))"
  by (subst constraints_split) (simp only: database_rows_simps list.pred_map o_def quota_checks)

lemma operation_table: "list_all (constraint_holds (database_rows d) ''api_call_operation'') (tb_constraints api_call_operation_table) \<longleftrightarrow>
    list_all operation_ok (db_operations d) \<and> list_all (constraint_holds (database_rows d) ''api_call_operation'') (keys (tb_constraints api_call_operation_table))"
  by (subst constraints_split) (simp only: database_rows_simps list.pred_map o_def operation_checks)

lemma event_table: "list_all (constraint_holds (database_rows d) ''api_call_event'') (tb_constraints api_call_event_table) \<longleftrightarrow>
    list_all event_ok (db_events d) \<and> list_all (constraint_holds (database_rows d) ''api_call_event'') (keys (tb_constraints api_call_event_table))"
  by (subst constraints_split) (simp only: database_rows_simps list.pred_map o_def event_checks)

lemma outbox_table: "list_all (constraint_holds (database_rows d) ''control_outbox'') (tb_constraints control_outbox_table) \<longleftrightarrow>
    list_all outbox_ok (db_outbox d) \<and> list_all (constraint_holds (database_rows d) ''control_outbox'') (keys (tb_constraints control_outbox_table))"
  by (subst constraints_split) (simp only: database_rows_simps list.pred_map o_def outbox_checks)

lemma audit_table: "list_all (constraint_holds (database_rows d) ''api_client_admin_audit'') (tb_constraints api_client_admin_audit_table) \<longleftrightarrow>
    list_all audit_ok (db_audits d) \<and> list_all (constraint_holds (database_rows d) ''api_client_admin_audit'') (keys (tb_constraints api_client_admin_audit_table))"
  by (subst constraints_split) (simp only: database_rows_simps list.pred_map o_def audit_checks)

lemma head_constraints_db: "list_all (\<lambda>(t, ks). list_all (constraint_holds (database_rows d) t) ks) head_constraints \<longleftrightarrow> db_ok d"
  by (simp only: head_constraints_def list.map list.pred_inject prod.case table_names
      client_table credential_table binding_table quota_table operation_table event_table outbox_table audit_table
      client_keys credential_keys binding_keys quota_keys operation_keys event_keys outbox_keys audit_keys
      db_ok_def caller_tables_ok_def control_tables_ok_def usage_tables_ok_def) argo

text \<open>C10: The database the migrations build enforces the integrity predicate of the model: the CHECK, UNIQUE,
  PRIMARY KEY and FOREIGN KEY constraints of its tables hold of the stored rows exactly when \<open>db_ok\<close> holds of
  the model's database, the predicate each commit of the model is checked against.\<close>

theorem migrations_enforce_model:
  "\<exists>cg. upgrade_all MIGRATIONS (None, fresh_catalogue) = Some (Some ''0004'', cg) \<and>
     (\<forall>d. catalogue_holds cg (database_rows d) \<longleftrightarrow> db_ok d)"
  using head_built by (auto simp: holds_constraints head_constraints_db)

end
