(* ===== verification/Spec2Isabelle.thy ===== *)
theory Spec2Isabelle
  imports Ledger_Properties Rate_Limits_Properties Model_Pool_Properties Streaming_Properties
    Canonical_Properties Auth_Properties Recovery_Properties Chat_Witnesses Outbox_Properties
    Admin_Properties Retention_Properties External_Properties Observability_Properties
    Capacity_Properties Admin_Session_Properties Admin_Api_Properties Sdk_Client_Properties App_Properties
    Migration_Properties
begin

text \<open>
  The control plane of the Zangpu gateway.
\<close>

end
